(* ===== verification/Prelude.thy ===== *)
theory Prelude
  imports Main "HOL-Library.AList"
begin

text \<open>
  Shared vocabulary of the development: identifiers and instants, the exceptions of the
  program as values, Python dictionaries as insertion-ordered association lists, and the
  generic lemmas on them that the component theories use.

  Strings are HOL strings (lists of characters); a Python string is read as the list of
  its code points, all of which the modelled code compares, measures and concatenates
  but never inspects beyond the ASCII range.  Instants are microseconds since the epoch.
\<close>

type_synonym ident = string
type_synonym instant = int

section \<open>Exceptions as values\<close>

text \<open>
  The exception classes the modelled operations raise, each with its message.  The
  hierarchy of the source (\<open>RuntimeLeaseLost\<close> below \<open>RuntimeConflict\<close>, pydantic's
  \<open>ValidationError\<close> below \<open>ValueError\<close>) is consulted by \<open>except\<close> clauses only and is
  written out where such a clause is modelled.
\<close>

datatype py_error =
    RuntimeNotFound string
  | RuntimeConflict string
  | RuntimeLeaseLost string
  | RuntimeIntegrityError string
  | RuntimePersistenceError string
  | ValueError string
  | TypeError string
  | OverflowError string
  | KeyError string
  | HumanStateConflict string
  | V11ResultValidationError string
  | InjectedFault string
  | EventHubOverflow string
  | RuntimeError string
  | EvidenceContractError string
  | V11RuntimeContractError string
  | CancelledError

type_synonym 'a result = "py_error + 'a"

text \<open>
  A sequence of \<open>if c: raise e\<close> statements: the first condition that holds decides.
\<close>

fun raise_first :: "(bool \<times> py_error) list \<Rightarrow> unit result" where
  "raise_first [] = Inr ()"
| "raise_first ((c, e) # rest) = (if c then Inl e else raise_first rest)"

text \<open>Sequencing of a check and a continuation, as an exception would.\<close>

definition and_then :: "'a result \<Rightarrow> ('a \<Rightarrow> 'b result) \<Rightarrow> 'b result" where
  "and_then r f = (case r of Inl e \<Rightarrow> Inl e | Inr a \<Rightarrow> f a)"

text \<open>A \<open>for\<close> loop whose body may raise: the first raise ends the loop.\<close>

fun check_all :: "('a \<Rightarrow> unit result) \<Rightarrow> 'a list \<Rightarrow> unit result" where
  "check_all f [] = Inr ()"
| "check_all f (x # xs) = and_then (f x) (\<lambda>_. check_all f xs)"

named_theorems result_simps \<open>inversion of the exception combinators\<close>
named_theorems result_eval \<open>evaluation of the exception combinators on concrete checks\<close>

lemma raise_first_Inr [result_simps]:
  "raise_first cs = Inr u \<longleftrightarrow> (\<forall>p \<in> set cs. \<not> fst p)"
  by (induction cs rule: raise_first.induct) auto

lemma and_then_Inr [result_simps]:
  "and_then r f = Inr b \<longleftrightarrow> (\<exists>a. r = Inr a \<and> f a = Inr b)"
  by (cases r) (auto simp: and_then_def)

lemma and_then_simps [simp]:
  "and_then (Inl e) f = Inl e" "and_then (Inr a) f = f a"
  by (simp_all add: and_then_def)

lemma check_all_Inr [result_simps]:
  "check_all f xs = Inr u \<longleftrightarrow> (\<forall>x \<in> set xs. f x = Inr ())"
  by (induction xs) (auto simp: result_simps)

lemma raise_first_append [simp]:
  "raise_first (xs @ ys) = and_then (raise_first xs) (\<lambda>_. raise_first ys)"
  by (induction xs rule: raise_first.induct) auto

text \<open>
  The equations of \<^const>\<open>raise_first\<close> turn a list of checks into nested conditionals, which
  hides it from the inversion lemma; they are therefore used on demand only.
\<close>

lemmas [result_eval] = raise_first.simps check_all.simps and_then_def
declare raise_first.simps [simp del]

section \<open>Dictionaries\<close>

text \<open>
  A \<open>dict\<close> keeps the insertion order of its keys: assignment to a known key keeps the
  key's place, a new key goes to the end, \<open>pop\<close> removes it.  This is exactly
  \<^const>\<open>AList.update\<close> and \<^const>\<open>AList.delete\<close> on an association list.
\<close>

type_synonym ('k, 'v) dict = "('k \<times> 'v) list"

abbreviation dict_get :: "('k, 'v) dict \<Rightarrow> 'k \<Rightarrow> 'v option" where
  "dict_get d k \<equiv> map_of d k"

abbreviation dict_put :: "('k, 'v) dict \<Rightarrow> 'k \<Rightarrow> 'v \<Rightarrow> ('k, 'v) dict" where
  "dict_put d k v \<equiv> AList.update k v d"

abbreviation dict_pop :: "('k, 'v) dict \<Rightarrow> 'k \<Rightarrow> ('k, 'v) dict" where
  "dict_pop d k \<equiv> AList.delete k d"

abbreviation dict_values :: "('k, 'v) dict \<Rightarrow> 'v list" where
  "dict_values d \<equiv> map snd d"

abbreviation dict_keys :: "('k, 'v) dict \<Rightarrow> 'k list" where
  "dict_keys d \<equiv> map fst d"

text \<open>\<open>{key(item): item for item in items}\<close>, and \<open>bucket[key(item)] = item\<close> in a loop.\<close>

definition dict_put_all :: "('v \<Rightarrow> 'k) \<Rightarrow> 'v list \<Rightarrow> ('k, 'v) dict \<Rightarrow> ('k, 'v) dict" where
  "dict_put_all key items d = foldl (\<lambda>acc item. dict_put acc (key item) item) d items"

text \<open>\<open>list(dict.fromkeys(xs))\<close>: the first occurrence of each element, in order.\<close>

fun dedupe_acc :: "'a list \<Rightarrow> 'a list \<Rightarrow> 'a list" where
  "dedupe_acc seen [] = []"
| "dedupe_acc seen (x # xs) =
     (if x \<in> set seen then dedupe_acc seen xs else x # dedupe_acc (x # seen) xs)"

definition dedupe :: "'a list \<Rightarrow> 'a list" where
  "dedupe xs = dedupe_acc [] xs"

text \<open>\<open>next((x for x in xs if p(x)), None)\<close>.\<close>

abbreviation first_match :: "('a \<Rightarrow> bool) \<Rightarrow> 'a list \<Rightarrow> 'a option" where
  "first_match p xs \<equiv> List.find p xs"

named_theorems dict_simps \<open>lookup and key lemmas of dictionaries\<close>

lemma dict_get_put [simp, dict_simps]:
  "dict_get (dict_put d k v) k' = (if k' = k then Some v else dict_get d k')"
  by (simp add: update_conv')

lemma dict_keys_put [dict_simps]: "set (dict_keys (dict_put d k v)) = insert k (set (dict_keys d))"
  by (simp add: dom_update)

lemma dict_put_distinct [simp]: "distinct (dict_keys d) \<Longrightarrow> distinct (dict_keys (dict_put d k v))"
  by (rule distinct_update)

lemma dict_values_put:
  "x \<in> set (dict_values (dict_put d k v)) \<Longrightarrow> x = v \<or> x \<in> set (dict_values d)"
  by (induction d) (auto split: if_splits)

lemma dict_put_get_same: "dict_get d k = Some v \<Longrightarrow> dict_put d k v = d"
  by (induction d) (auto split: if_splits)

lemma dict_put_put_same: "dict_put (dict_put d k v) k v' = dict_put d k v'"
  by (induction d) auto

lemma dict_put_restore:
  "dict_get d k = Some v \<Longrightarrow> dict_put (dict_put d k v') k v = d"
  by (simp add: dict_put_put_same dict_put_get_same)

lemma dict_put_new: "dict_get d k = None \<Longrightarrow> dict_put d k v = d @ [(k, v)]"
  by (induction d) (auto split: if_splits)

lemma dict_keys_put_known: "dict_get d k = Some w \<Longrightarrow> dict_keys (dict_put d k v) = dict_keys d"
  by (induction d) (auto split: if_splits)

lemma dict_mem_get: "distinct (dict_keys d) \<Longrightarrow> (k, v) \<in> set d \<longleftrightarrow> dict_get d k = Some v"
  by simp

lemma dict_value_key:
  "distinct (dict_keys d) \<Longrightarrow> v \<in> set (dict_values d) \<longleftrightarrow> (\<exists>k. dict_get d k = Some v)"
  by (auto simp: image_iff) (metis map_of_SomeD snd_conv)

lemma dict_get_map_values:
  "dict_get (map (\<lambda>(k, v). (k, f v)) d) k = map_option f (dict_get d k)"
  by (induction d) auto

lemma dict_keys_map_values [simp]: "dict_keys (map (\<lambda>(k, v). (k, f v)) d) = dict_keys d"
  by (induction d) auto

lemma dedupe_acc_set: "set (dedupe_acc seen xs) = set xs - set seen"
  by (induction seen xs rule: dedupe_acc.induct) auto

lemma dedupe_acc_distinct: "distinct (dedupe_acc seen xs)"
  by (induction seen xs rule: dedupe_acc.induct) (auto simp: dedupe_acc_set)

lemma set_dedupe [simp]: "set (dedupe xs) = set xs"
  by (simp add: dedupe_def dedupe_acc_set)

lemma distinct_dedupe [simp]: "distinct (dedupe xs)"
  by (simp add: dedupe_def dedupe_acc_distinct)

lemma dict_put_all_get:
  "dict_get (dict_put_all key items d) k =
     (case first_match (\<lambda>i. key i = k) (rev items) of Some i \<Rightarrow> Some i | None \<Rightarrow> dict_get d k)"
proof (induction items rule: rev_induct)
  case Nil
  then show ?case by (simp add: dict_put_all_def)
next
  case (snoc x xs)
  then show ?case by (simp add: dict_put_all_def)
qed

lemma dict_put_all_distinct [simp]:
  "distinct (dict_keys d) \<Longrightarrow> distinct (dict_keys (dict_put_all key items d))"
  unfolding dict_put_all_def by (induction items arbitrary: d) auto

lemma dict_put_all_keys:
  "set (dict_keys (dict_put_all key items d)) = key ` set items \<union> set (dict_keys d)"
  unfolding dict_put_all_def by (induction items arbitrary: d) (auto simp: dom_update)

text \<open>\<open>sorted(xs, key=f)\<close> leaves a sorted list as it is.\<close>

lemma sort_key_sorted_id: "sorted (map f xs) \<Longrightarrow> sort_key f xs = xs"
  by (induction xs) (auto simp: insort_is_Cons)

lemma sort_key_idem [simp]: "sort_key f (sort_key f xs) = sort_key f xs"
  by (rule sort_key_sorted_id) simp

text \<open>\<open>sorted(xs, key=f, reverse=True)\<close>: descending, equal keys in their original order.\<close>

definition sorted_desc :: "('a \<Rightarrow> 'b::linorder) \<Rightarrow> 'a list \<Rightarrow> 'a list" where
  "sorted_desc f xs = rev (sort_key f (rev xs))"

lemma set_sorted_desc [simp]: "set (sorted_desc f xs) = set xs"
  by (simp add: sorted_desc_def)

lemma sorted_desc_descending: "sorted (rev (map f (sorted_desc f xs)))"
  by (simp add: sorted_desc_def rev_map)

text \<open>
  Operations on a state that may raise: a raise keeps what was written before it, as an
  exception leaves the objects it interrupted.
\<close>

type_synonym ('s, 'a) op = "'s \<Rightarrow> 's \<times> 'a result"

definition then_op :: "('s, unit) op \<Rightarrow> ('s, 'a) op \<Rightarrow> ('s, 'a) op" where
  "then_op f g s = (case f s of (s', Inl e) \<Rightarrow> (s', Inl e) | (s', Inr _) \<Rightarrow> g s')"

definition skip_op :: "('s, unit) op" where
  "skip_op s = (s, Inr ())"

text \<open>\<open>if value is not None: operation(value)\<close>.\<close>

definition when_some :: "'b option \<Rightarrow> ('b \<Rightarrow> ('s, unit) op) \<Rightarrow> ('s, unit) op" where
  "when_some x f = (case x of None \<Rightarrow> skip_op | Some b \<Rightarrow> f b)"

lemma then_op_Inr [result_simps]:
  "then_op f g s = (s'', Inr a) \<longleftrightarrow> (\<exists>s'. f s = (s', Inr ()) \<and> g s' = (s'', Inr a))"
  by (auto simp: then_op_def split: prod.splits sum.splits)

lemma skip_op_Inr [result_simps]: "skip_op s = (s', Inr u) \<longleftrightarrow> s' = s"
  by (auto simp: skip_op_def)

lemma first_match_Some:
  "first_match p xs = Some x \<Longrightarrow> x \<in> set xs \<and> p x"
  by (auto simp: find_Some_iff in_set_conv_nth)

lemma first_match_None: "first_match p xs = None \<longleftrightarrow> (\<forall>x \<in> set xs. \<not> p x)"
  by (auto simp: find_None_iff)

end
