(* ===== verification/Python_Values.thy ===== *)
theory Python_Values
  imports Complex_Main Prelude "HOL-Library.Char_ord" "HOL-Library.List_Lexorder"
begin

text \<open>
  The dynamically typed values (\<open>Any\<close>) of the modelled code: execution contracts, event
  payloads and tool inputs.  \<open>bool\<close> is a subtype of \<open>int\<close> in Python, so equality compares
  numbers across \<open>bool\<close>, \<open>int\<close> and \<open>float\<close>, while \<open>is True\<close> and \<open>isinstance\<close> tell them
  apart.  Finite floats are rational numbers.
\<close>

datatype pyfloat = Finite rat | PosInf | NegInf | NaN

datatype pyval =
    PNone
  | PBool bool
  | PInt int
  | PFloat pyfloat
  | PStr string
  | PList "pyval list"
  | PDict "(pyval \<times> pyval) list"
  | POther string  \<comment> \<open>any other object, by its type name\<close>

type_synonym payload = "(string, pyval) dict"

fun isfinite :: "pyfloat \<Rightarrow> bool" where
  "isfinite (Finite _) = True"
| "isfinite _ = False"

fun float_eq :: "pyfloat \<Rightarrow> pyfloat \<Rightarrow> bool" where
  "float_eq (Finite a) (Finite b) = (a = b)"
| "float_eq PosInf PosInf = True"
| "float_eq NegInf NegInf = True"
| "float_eq _ _ = False"

fun float_negative :: "pyfloat \<Rightarrow> bool" where
  "float_negative (Finite a) = (a < 0)"
| "float_negative NegInf = True"
| "float_negative _ = False"

text \<open>The numeric reading of a value, for \<open>==\<close>.\<close>

fun py_num :: "pyval \<Rightarrow> pyfloat option" where
  "py_num (PBool b) = Some (Finite (if b then 1 else 0))"
| "py_num (PInt i) = Some (Finite (of_int i))"
| "py_num (PFloat f) = Some f"
| "py_num _ = None"

text \<open>Python's \<open>==\<close>; dictionaries compare without regard to order.\<close>

function (sequential) py_eq :: "pyval \<Rightarrow> pyval \<Rightarrow> bool"
  and py_eq_list :: "pyval list \<Rightarrow> pyval list \<Rightarrow> bool"
  and py_eq_items :: "(pyval \<times> pyval) list \<Rightarrow> (pyval \<times> pyval) list \<Rightarrow> bool"
where
  "py_eq PNone w = (w = PNone)"
| "py_eq (PStr s) w = (w = PStr s)"
| "py_eq (POther s) w = (w = POther s)"
| "py_eq (PList xs) w = (case w of PList ys \<Rightarrow> py_eq_list xs ys | _ \<Rightarrow> False)"
| "py_eq (PDict d) w =
     (case w of PDict e \<Rightarrow> length d = length e \<and> py_eq_items d e | _ \<Rightarrow> False)"
| "py_eq (PBool b) w =
     (case py_num w of Some g \<Rightarrow> float_eq (Finite (if b then 1 else 0)) g | None \<Rightarrow> False)"
| "py_eq (PInt i) w =
     (case py_num w of Some g \<Rightarrow> float_eq (Finite (of_int i)) g | None \<Rightarrow> False)"
| "py_eq (PFloat f) w = (case py_num w of Some g \<Rightarrow> float_eq f g | None \<Rightarrow> False)"
| "py_eq_list [] ys = (ys = [])"
| "py_eq_list (x # xs) ys = (case ys of [] \<Rightarrow> False | y # ys' \<Rightarrow> py_eq x y \<and> py_eq_list xs ys')"
| "py_eq_items [] e = True"
| "py_eq_items ((k, v) # d) e =
     (list_ex (\<lambda>p. py_eq k (fst p) \<and> py_eq v (snd p)) e \<and> py_eq_items d e)"
  by pat_completeness auto
termination
  by (relation "measure (\<lambda>a. case a of
         Inl (v, w) \<Rightarrow> size v
       | Inr (Inl (xs, ys)) \<Rightarrow> size_list size xs
       | Inr (Inr (d, e)) \<Rightarrow> size_list (size_prod size size) d)") auto

text \<open>\<open>d.get(key)\<close> and \<open>d.get(key, default)\<close> on a dictionary with string keys.\<close>

definition get_or_none :: "payload \<Rightarrow> string \<Rightarrow> pyval" where
  "get_or_none d k = (case dict_get d k of Some v \<Rightarrow> v | None \<Rightarrow> PNone)"

definition get_or :: "payload \<Rightarrow> string \<Rightarrow> pyval \<Rightarrow> pyval" where
  "get_or d k dflt = (case dict_get d k of Some v \<Rightarrow> v | None \<Rightarrow> dflt)"

text \<open>\<open>isinstance(v, dict)\<close> with the dictionary's string-keyed items.\<close>

definition string_items :: "(pyval \<times> pyval) list \<Rightarrow> payload" where
  "string_items d = concat (map (\<lambda>(k, v). case k of PStr s \<Rightarrow> [(s, v)] | _ \<Rightarrow> []) d)"

fun as_dict :: "pyval \<Rightarrow> payload option" where
  "as_dict (PDict d) = Some (string_items d)"
| "as_dict _ = None"

text \<open>A string-keyed dictionary as a value.\<close>

definition pdict :: "payload \<Rightarrow> pyval" where
  "pdict d = PDict (map (\<lambda>(k, v). (PStr k, v)) d)"

text \<open>\<open>isinstance(v, int) and not isinstance(v, bool)\<close>, and \<open>isinstance(v, int)\<close>.\<close>

fun as_strict_int :: "pyval \<Rightarrow> int option" where
  "as_strict_int (PInt i) = Some i"
| "as_strict_int _ = None"

fun as_int :: "pyval \<Rightarrow> int option" where
  "as_int (PInt i) = Some i"
| "as_int (PBool b) = Some (if b then 1 else 0)"
| "as_int _ = None"

text \<open>Truth value of a value (\<open>bool(v)\<close>).\<close>

fun truthy :: "pyval \<Rightarrow> bool" where
  "truthy PNone = False"
| "truthy (PBool b) = b"
| "truthy (PInt i) = (i \<noteq> 0)"
| "truthy (PFloat f) = (\<not> float_eq f (Finite 0))"
| "truthy (PStr s) = (s \<noteq> [])"
| "truthy (PList xs) = (xs \<noteq> [])"
| "truthy (PDict d) = (d \<noteq> [])"
| "truthy (POther _) = True"

section \<open>Text\<close>

definition is_lower :: "char \<Rightarrow> bool" where
  "is_lower c = (CHR ''a'' \<le> c \<and> c \<le> CHR ''z'')"

definition is_upper :: "char \<Rightarrow> bool" where
  "is_upper c = (CHR ''A'' \<le> c \<and> c \<le> CHR ''Z'')"

definition is_digit :: "char \<Rightarrow> bool" where
  "is_digit c = (CHR ''0'' \<le> c \<and> c \<le> CHR ''9'')"

definition is_letter :: "char \<Rightarrow> bool" where
  "is_letter c = (is_lower c \<or> is_upper c)"

definition is_alphanumeric :: "char \<Rightarrow> bool" where
  "is_alphanumeric c = (is_letter c \<or> is_digit c)"

definition is_word :: "char \<Rightarrow> bool" where
  "is_word c = (is_alphanumeric c \<or> c = CHR ''_'')"

text \<open>Whitespace on ASCII, as \<open>\s\<close>, \<open>str.split\<close> and \<open>str.strip\<close> read it.\<close>

definition is_blank :: "char \<Rightarrow> bool" where
  "is_blank c = ((of_char c :: nat) \<in> {9, 10, 11, 12, 13, 28, 29, 30, 31, 32})"

definition to_lower :: "char \<Rightarrow> char" where
  "to_lower c = (if is_upper c then char_of (of_char c + 32 :: nat) else c)"

abbreviation lower :: "string \<Rightarrow> string" where
  "lower s \<equiv> map to_lower s"

definition strip :: "string \<Rightarrow> string" where
  "strip s = rev (dropWhile is_blank (rev (dropWhile is_blank s)))"

text \<open>\<open>str.endswith\<close>, \<open>str.startswith\<close> and \<open>str.replace\<close> of one character.\<close>

definition ends_with :: "string \<Rightarrow> string \<Rightarrow> bool" where
  "ends_with s suffix = (length suffix \<le> length s \<and> drop (length s - length suffix) s = suffix)"

definition replace_char :: "char \<Rightarrow> char \<Rightarrow> string \<Rightarrow> string" where
  "replace_char a b s = map (\<lambda>c. if c = a then b else c) s"

text \<open>\<open>str(n)\<close> of an integer.\<close>

fun show_nat :: "nat \<Rightarrow> string" where
  "show_nat n =
     (if n < 10 then [char_of (48 + n)] else show_nat (n div 10) @ [char_of (48 + n mod 10)])"

declare show_nat.simps [simp del]

definition show_int :: "int \<Rightarrow> string" where
  "show_int i = (if i < 0 then CHR ''-'' # show_nat (nat (- i)) else show_nat (nat i))"

text \<open>\<open>separator.join(parts)\<close>.\<close>

fun join :: "string \<Rightarrow> string list \<Rightarrow> string" where
  "join sep [] = []"
| "join sep [x] = x"
| "join sep (x # y # xs) = x @ sep @ join sep (y # xs)"

section \<open>Facts\<close>

lemma string_items_pdict [simp]: "string_items (map (\<lambda>(k, v). (PStr k, v)) d) = d"
  by (induction d) (auto simp: string_items_def)

lemma as_dict_pdict [simp]: "as_dict (pdict d) = Some d"
  by (simp add: pdict_def)

lemma py_eq_strict_int: "py_eq (PInt i) (PInt j) \<longleftrightarrow> i = j"
  by simp

lemma py_eq_bool_int: "py_eq (PBool True) (PInt 1)" "py_eq (PBool False) (PInt 0)"
  by simp_all

lemma as_strict_int_as_int: "as_strict_int v = Some i \<Longrightarrow> as_int v = Some i"
  by (cases v) auto

text \<open>Members of a set or keys of a dictionary must be hashable.\<close>

fun hashable :: "pyval \<Rightarrow> bool" where
  "hashable (PList _) = False"
| "hashable (PDict _) = False"
| "hashable _ = True"

end
