(* ===== verification/Domain_Enums.thy ===== *)
theory Domain_Enums
  imports Prelude
begin

text \<open>
  The string enumerations the components share (\<open>backend/domain/multi_agent.py\<close>,
  \<open>backend/domain/hypotheses.py\<close>, \<open>backend/domain/tool_calls.py\<close>), one datatype per
  \<open>StrEnum\<close>, with the \<open>.value\<close> of those that the code prints, stores or compares as a
  string.
\<close>

datatype agent_execution_layer = Layer_CUSTOM | Layer_OPENAI_AGENTS_SDK

datatype multi_agent_run_status =
  MARun_COMPLETED | MARun_PARTIAL | MARun_FAILED | MARun_SKIPPED

datatype investigation_strategy = Strategy_FIXED | Strategy_ADAPTIVE

datatype model_provider =
  Provider_OPENAI | Provider_DEEPSEEK | Provider_OPENAI_COMPATIBLE

datatype lead_action = Lead_INVESTIGATE | Lead_TEST | Lead_CONCLUDE | Lead_INCONCLUSIVE

datatype critic_verdict =
  Critic_ACCEPT | Critic_REJECT | Critic_NEEDS_EVIDENCE | Critic_INCONCLUSIVE

datatype causal_check_status = Check_PASS | Check_FAIL | Check_UNKNOWN

datatype diagnostic_status = Diag_COMPLETE | Diag_PARTIAL | Diag_INCONCLUSIVE

datatype authority_mode = Authority_AGENT | Authority_LEGACY_DETERMINISTIC

datatype execution_contract_version = Version_V10_LEGACY | Version_V11

datatype causal_check_name =
  Causal_TEMPORAL | Causal_TOPOLOGY | Causal_MECHANISM | Causal_BLAST_RADIUS
| Causal_SYMPTOM_VS_CAUSE | Causal_COUNTEREVIDENCE | Causal_ALTERNATIVES

datatype execution_step_kind =
  Step_INITIAL_COORDINATION | Step_SPECIALIST_COLLECTION | Step_SPECIALIST_RECOLLECTION
| Step_FINAL_SYNTHESIS | Step_REFERENCE_VALIDATION | Step_HYBRID_ARBITRATION
| Step_REVIEW_PERSISTENCE | Step_RESULT_VALIDATION | Step_LEAD_PLANNING
| Step_INVESTIGATOR_ANALYSIS | Step_CRITIC_REVIEW | Step_LEAD_ADJUDICATION

datatype execution_actor = Actor_LEAD | Actor_INVESTIGATOR | Actor_CRITIC

datatype result_validation_category =
  RVal_TASK_CONTRACT | RVal_EXECUTION_CONTRACT | RVal_FINDING_CONTRACT
| RVal_FINDING_REVISION_CONTRACT | RVal_REVIEW_ATTRIBUTION | RVal_REVIEW_CONTRACT
| RVal_SEMANTIC_REFERENCE | RVal_RUN_STATUS_CONTRACT

text \<open>\<open>FailureCategory\<close> of an agent or provider call (the runtime has its own).\<close>

datatype agent_failure_category =
  AFail_NONE | AFail_NOT_CONFIGURED | AFail_AUTHENTICATION | AFail_RATE_LIMIT | AFail_QUOTA
| AFail_TIMEOUT | AFail_CANCELLED | AFail_TRANSPORT | AFail_INVALID_OUTPUT
| AFail_INVALID_REFERENCE | AFail_MISSING_SPECIALIST | AFail_UNSAFE_OUTPUT
| AFail_PERSISTENCE | AFail_CONTRACT_INTEGRITY | AFail_UNKNOWN

datatype stabilization_category =
  Stab_REFERENCE_VALIDATION | Stab_UNSAFE_OUTPUT | Stab_CANCELLED_OR_TIMEOUT
| Stab_PROVIDER_OR_SDK_TRANSPORT | Stab_COORDINATOR_OUTPUT_CONTRACT
| Stab_SPECIALIST_OUTPUT_CONTRACT | Stab_EVIDENCE_CAUSE_MAPPING | Stab_GENUINE_CONFLICT
| Stab_MISSING_SPECIALIST | Stab_FINAL_SYNTHESIS | Stab_REVIEW_PERSISTENCE
| Stab_HYBRID_CONTRACT | Stab_RESULT_VALIDATION | Stab_UNKNOWN

datatype coordination_decision_status =
  Coord_AGREEMENT | Coord_CONFLICT | Coord_AGENT_LEADS | Coord_FALLBACK

datatype adaptive_run_status =
  Adaptive_NOT_APPLICABLE | Adaptive_COMPLETED | Adaptive_DEGRADED | Adaptive_SKIPPED

datatype adaptive_stop_reason =
  Stop_SUFFICIENT_EVIDENCE | Stop_BUDGET_EXHAUSTED | Stop_NO_NEW_EVIDENCE
| Stop_DUPLICATE_QUERY | Stop_ROUND_LIMIT | Stop_TIMEOUT | Stop_FAILED

datatype cause_type =
  Cause_DEPLOYMENT_REGRESSION | Cause_TRAFFIC_SPIKE | Cause_DOWNSTREAM_DEPENDENCY_FAILURE
| Cause_DATABASE_SLOWDOWN | Cause_SINGLE_INSTANCE_ISSUE | Cause_RESOURCE_SATURATION
| Cause_NETWORK_FAULT | Cause_CONFIGURATION_ERROR | Cause_PROCESS_OR_CONTAINER_FAILURE
| Cause_INFRASTRUCTURE_FAULT | Cause_UNKNOWN

datatype tool_call_status =
  Tool_PENDING | Tool_RUNNING | Tool_SUCCESS | Tool_FAILED | Tool_SKIPPED | Tool_INTERRUPTED

section \<open>Values\<close>

fun strategy_value :: "investigation_strategy \<Rightarrow> string" where
  "strategy_value Strategy_FIXED = ''fixed''"
| "strategy_value Strategy_ADAPTIVE = ''adaptive''"

fun model_provider_value :: "model_provider \<Rightarrow> string" where
  "model_provider_value Provider_OPENAI = ''openai''"
| "model_provider_value Provider_DEEPSEEK = ''deepseek''"
| "model_provider_value Provider_OPENAI_COMPATIBLE = ''openai_compatible''"

fun authority_mode_value :: "authority_mode \<Rightarrow> string" where
  "authority_mode_value Authority_AGENT = ''agent''"
| "authority_mode_value Authority_LEGACY_DETERMINISTIC = ''legacy_deterministic''"

fun contract_version_value :: "execution_contract_version \<Rightarrow> string" where
  "contract_version_value Version_V10_LEGACY = ''v10_legacy''"
| "contract_version_value Version_V11 = ''v11''"

fun execution_actor_value :: "execution_actor \<Rightarrow> string" where
  "execution_actor_value Actor_LEAD = ''LeadAgent''"
| "execution_actor_value Actor_INVESTIGATOR = ''InvestigatorAgent''"
| "execution_actor_value Actor_CRITIC = ''CriticAgent''"

fun tool_call_status_value :: "tool_call_status \<Rightarrow> string" where
  "tool_call_status_value Tool_PENDING = ''pending''"
| "tool_call_status_value Tool_RUNNING = ''running''"
| "tool_call_status_value Tool_SUCCESS = ''success''"
| "tool_call_status_value Tool_FAILED = ''failed''"
| "tool_call_status_value Tool_SKIPPED = ''skipped''"
| "tool_call_status_value Tool_INTERRUPTED = ''interrupted''"

text \<open>All names of \<open>CausalCheckName\<close>, in declaration order (\<open>set(CausalCheckName)\<close>).\<close>

definition all_causal_check_names :: "causal_check_name list" where
  "all_causal_check_names =
     [Causal_TEMPORAL, Causal_TOPOLOGY, Causal_MECHANISM, Causal_BLAST_RADIUS,
      Causal_SYMPTOM_VS_CAUSE, Causal_COUNTEREVIDENCE, Causal_ALTERNATIVES]"

lemma all_causal_check_names_complete: "n \<in> set all_causal_check_names"
  by (cases n) (simp_all add: all_causal_check_names_def)

lemma card_causal_check_name: "card (set all_causal_check_names) = 7"
  by (simp add: all_causal_check_names_def)

lemma contract_version_value_inject [simp]:
  "contract_version_value a = contract_version_value b \<longleftrightarrow> a = b"
  by (cases a; cases b) simp_all

lemma authority_mode_value_inject [simp]:
  "authority_mode_value a = authority_mode_value b \<longleftrightarrow> a = b"
  by (cases a; cases b) simp_all

end
