(* ===== verification/Runtime_Domain.thy ===== *)
theory Runtime_Domain
  imports Python_Values Domain_Enums
begin

text \<open>
  The data of the durable runtime (\<open>backend/domain/runtime.py\<close>): run and attempt status
  machines with their transition tables, phases, event types, and the \<open>RuntimeRun\<close>,
  \<open>RuntimeAttempt\<close>, \<open>RuntimeEvent\<close>, \<open>RuntimeCheckpoint\<close> and \<open>RuntimeResumeState\<close>
  models as records.  Field names carry a prefix per class because record fields share
  one name space.
\<close>

section \<open>Run status machine\<close>

datatype run_status =
  Run_CREATED | Run_RUNNING | Run_CANCELLING | Run_INTERRUPTED | Run_COMPLETED
| Run_FAILED | Run_CANCELLED

fun run_status_value :: "run_status \<Rightarrow> string" where
  "run_status_value Run_CREATED = ''created''"
| "run_status_value Run_RUNNING = ''running''"
| "run_status_value Run_CANCELLING = ''cancelling''"
| "run_status_value Run_INTERRUPTED = ''interrupted''"
| "run_status_value Run_COMPLETED = ''completed''"
| "run_status_value Run_FAILED = ''failed''"
| "run_status_value Run_CANCELLED = ''cancelled''"

fun allowed_transitions :: "run_status \<Rightarrow> run_status list" where
  "allowed_transitions Run_CREATED = [Run_RUNNING, Run_CANCELLED]"
| "allowed_transitions Run_RUNNING =
     [Run_COMPLETED, Run_FAILED, Run_CANCELLING, Run_INTERRUPTED]"
| "allowed_transitions Run_CANCELLING = [Run_CANCELLED, Run_INTERRUPTED]"
| "allowed_transitions Run_INTERRUPTED = [Run_RUNNING]"
| "allowed_transitions Run_COMPLETED = []"
| "allowed_transitions Run_FAILED = []"
| "allowed_transitions Run_CANCELLED = []"

definition ensure_run_transition :: "run_status \<Rightarrow> run_status \<Rightarrow> unit result" where
  "ensure_run_transition source target =
     (if target \<notin> set (allowed_transitions source)
      then Inl (ValueError (''invalid runtime transition: '' @ run_status_value source
                            @ '' -> '' @ run_status_value target))
      else Inr ())"

text \<open>The status sets the store tests membership of.\<close>

definition terminal_statuses :: "run_status list" where
  "terminal_statuses = [Run_COMPLETED, Run_FAILED, Run_CANCELLED]"

definition active_live_statuses :: "run_status list" where
  "active_live_statuses = [Run_CREATED, Run_RUNNING, Run_CANCELLING, Run_INTERRUPTED]"

definition is_terminal :: "run_status \<Rightarrow> bool" where
  "is_terminal s = (s \<in> set terminal_statuses)"

lemma is_terminal_simps [simp]:
  "is_terminal Run_COMPLETED" "is_terminal Run_FAILED" "is_terminal Run_CANCELLED"
  "\<not> is_terminal Run_CREATED" "\<not> is_terminal Run_RUNNING"
  "\<not> is_terminal Run_CANCELLING" "\<not> is_terminal Run_INTERRUPTED"
  by (simp_all add: is_terminal_def terminal_statuses_def)

lemma terminal_iff_no_successor: "is_terminal s \<longleftrightarrow> allowed_transitions s = []"
  by (cases s) simp_all

lemma active_iff_not_terminal: "s \<in> set active_live_statuses \<longleftrightarrow> \<not> is_terminal s"
  by (cases s) (simp_all add: active_live_statuses_def)

lemma ensure_run_transition_Inr [result_simps]:
  "ensure_run_transition s t = Inr u \<longleftrightarrow> t \<in> set (allowed_transitions s)"
  by (simp add: ensure_run_transition_def)

section \<open>Attempt status machine\<close>

datatype attempt_status =
  Att_RUNNING | Att_COMPLETED | Att_FAILED | Att_CANCELLED | Att_INTERRUPTED

fun attempt_status_value :: "attempt_status \<Rightarrow> string" where
  "attempt_status_value Att_RUNNING = ''running''"
| "attempt_status_value Att_COMPLETED = ''completed''"
| "attempt_status_value Att_FAILED = ''failed''"
| "attempt_status_value Att_CANCELLED = ''cancelled''"
| "attempt_status_value Att_INTERRUPTED = ''interrupted''"

fun allowed_attempt_transitions :: "attempt_status \<Rightarrow> attempt_status list" where
  "allowed_attempt_transitions Att_RUNNING =
     [Att_COMPLETED, Att_FAILED, Att_CANCELLED, Att_INTERRUPTED]"
| "allowed_attempt_transitions Att_COMPLETED = []"
| "allowed_attempt_transitions Att_FAILED = []"
| "allowed_attempt_transitions Att_CANCELLED = []"
| "allowed_attempt_transitions Att_INTERRUPTED = []"

definition ensure_attempt_transition :: "attempt_status \<Rightarrow> attempt_status \<Rightarrow> unit result" where
  "ensure_attempt_transition source target =
     (if target \<notin> set (allowed_attempt_transitions source)
      then Inl (ValueError (''invalid attempt transition: '' @ attempt_status_value source
                            @ '' -> '' @ attempt_status_value target))
      else Inr ())"

lemma ensure_attempt_transition_Inr [result_simps]:
  "ensure_attempt_transition s t = Inr u \<longleftrightarrow> s = Att_RUNNING \<and> t \<noteq> Att_RUNNING"
  by (cases s; cases t) (simp_all add: ensure_attempt_transition_def)

section \<open>Phases, kinds, reasons, actors, event types, failure categories\<close>

datatype runtime_phase =
  Phase_INTAKE | Phase_EVIDENCE_COLLECTION | Phase_DETERMINISTIC_RCA
| Phase_SPECIALIST_ANALYSIS | Phase_CONFLICT_REVIEW | Phase_COORDINATION
| Phase_REPORT_GENERATION | Phase_FINALIZE | Phase_LEAD_PLANNING
| Phase_INVESTIGATOR_ROUND_1 | Phase_CRITIC_REVIEW | Phase_INVESTIGATOR_ROUND_2
| Phase_CRITIC_RECONCILIATION | Phase_LEAD_ADJUDICATION | Phase_RESULT_VALIDATION

fun phase_value :: "runtime_phase \<Rightarrow> string" where
  "phase_value Phase_INTAKE = ''intake''"
| "phase_value Phase_EVIDENCE_COLLECTION = ''evidence_collection''"
| "phase_value Phase_DETERMINISTIC_RCA = ''deterministic_rca''"
| "phase_value Phase_SPECIALIST_ANALYSIS = ''specialist_analysis''"
| "phase_value Phase_CONFLICT_REVIEW = ''conflict_review''"
| "phase_value Phase_COORDINATION = ''coordination''"
| "phase_value Phase_REPORT_GENERATION = ''report_generation''"
| "phase_value Phase_FINALIZE = ''finalize''"
| "phase_value Phase_LEAD_PLANNING = ''lead_planning''"
| "phase_value Phase_INVESTIGATOR_ROUND_1 = ''investigator_round_1''"
| "phase_value Phase_CRITIC_REVIEW = ''critic_review''"
| "phase_value Phase_INVESTIGATOR_ROUND_2 = ''investigator_round_2''"
| "phase_value Phase_CRITIC_RECONCILIATION = ''critic_reconciliation''"
| "phase_value Phase_LEAD_ADJUDICATION = ''lead_adjudication''"
| "phase_value Phase_RESULT_VALIDATION = ''result_validation''"

lemma phase_value_inject [simp]: "phase_value p = phase_value q \<longleftrightarrow> p = q"
  by (cases p; cases q) simp_all

datatype run_kind = Kind_LIVE | Kind_REPLAY

fun run_kind_value :: "run_kind \<Rightarrow> string" where
  "run_kind_value Kind_LIVE = ''live''"
| "run_kind_value Kind_REPLAY = ''replay''"

datatype run_reason =
  Reason_INITIAL | Reason_ADDITIONAL_EVIDENCE | Reason_MANUAL_RERUN | Reason_REPLAY

fun run_reason_value :: "run_reason \<Rightarrow> string" where
  "run_reason_value Reason_INITIAL = ''initial''"
| "run_reason_value Reason_ADDITIONAL_EVIDENCE = ''additional_evidence''"
| "run_reason_value Reason_MANUAL_RERUN = ''manual_rerun''"
| "run_reason_value Reason_REPLAY = ''replay''"

datatype actor_type =
  RActor_RUNTIME | RActor_PHASE | RActor_AGENT | RActor_MODEL | RActor_TOOL
| RActor_PROVIDER | RActor_RECOVERY

datatype event_type =
  Ev_RUN_CREATED | Ev_RUN_STARTED | Ev_RUN_COMPLETED | Ev_RUN_FAILED | Ev_RUN_INTERRUPTED
| Ev_RUN_CANCEL_REQUESTED | Ev_RUN_CANCELLED
| Ev_ATTEMPT_STARTED | Ev_ATTEMPT_COMPLETED | Ev_ATTEMPT_INTERRUPTED
| Ev_PHASE_STARTED | Ev_PHASE_COMPLETED | Ev_PHASE_FAILED | Ev_PHASE_SKIPPED
| Ev_AGENT_STARTED | Ev_AGENT_COMPLETED | Ev_AGENT_FAILED
| Ev_MODEL_STARTED | Ev_MODEL_COMPLETED | Ev_MODEL_FAILED
| Ev_TOOL_PROPOSED | Ev_TOOL_STARTED | Ev_TOOL_COMPLETED | Ev_TOOL_FAILED
| Ev_TOOL_REJECTED | Ev_TOOL_SKIPPED
| Ev_EVIDENCE_PERSISTED | Ev_EVIDENCE_REJECTED | Ev_CHECKPOINT_CREATED
| Ev_RECOVERY_STARTED | Ev_RECOVERY_COMPLETED | Ev_RECOVERY_REJECTED

datatype failure_category =
  Fail_NONE | Fail_LEASE_LOST | Fail_CHECKPOINT_INVALID | Fail_RESUME_CONFLICT
| Fail_PERSISTENCE_FAILURE | Fail_CANCELLED | Fail_PROVIDER_FAILURE | Fail_MODEL_FAILURE
| Fail_TIMEOUT | Fail_OUTPUT_VALIDATION | Fail_CONTRACT_INTEGRITY | Fail_UNKNOWN

fun failure_category_value :: "failure_category \<Rightarrow> string" where
  "failure_category_value Fail_NONE = ''none''"
| "failure_category_value Fail_LEASE_LOST = ''lease_lost''"
| "failure_category_value Fail_CHECKPOINT_INVALID = ''checkpoint_invalid''"
| "failure_category_value Fail_RESUME_CONFLICT = ''resume_conflict''"
| "failure_category_value Fail_PERSISTENCE_FAILURE = ''persistence_failure''"
| "failure_category_value Fail_CANCELLED = ''cancelled''"
| "failure_category_value Fail_PROVIDER_FAILURE = ''provider_failure''"
| "failure_category_value Fail_MODEL_FAILURE = ''model_failure''"
| "failure_category_value Fail_TIMEOUT = ''timeout''"
| "failure_category_value Fail_OUTPUT_VALIDATION = ''output_validation''"
| "failure_category_value Fail_CONTRACT_INTEGRITY = ''contract_integrity''"
| "failure_category_value Fail_UNKNOWN = ''unknown''"

text \<open>
  \<open>RuntimeEventType | str\<close>: a value of the enumeration, or another bounded identifier
  written by a newer schema.
\<close>

datatype 'a open_enum = Known 'a | Opaque string

section \<open>Records\<close>

record runtime_run =
  run_id :: ident
  run_investigation_id :: ident
  run_kind_of :: run_kind
  run_strategy :: investigation_strategy
  run_status_of :: run_status
  run_current_phase :: "runtime_phase option"
  run_source_run_id :: "ident option"
  run_parent_run_id :: "ident option"
  run_reason_of :: run_reason
  run_model_provider :: "model_provider option"
  run_model_name :: "string option"
  run_prompt_version :: "string option"
  run_tool_budget :: "int option"
  run_token_budget :: "int option"
  run_remaining_model_turns :: "int option"
  run_timeout_seconds :: rat
  run_latest_checkpoint_id :: "ident option"
  run_failure_category :: "failure_category option"
  run_created_at :: instant
  run_started_at :: "instant option"
  run_completed_at :: "instant option"
  run_cancel_requested_at :: "instant option"
  run_lease_owner :: "string option"
  run_lease_expires_at :: "instant option"
  run_lease_version :: int
  run_contract_version :: execution_contract_version
  run_authority_mode :: authority_mode
  run_execution_contract :: payload

definition is_v11 :: "runtime_run \<Rightarrow> bool" where
  "is_v11 run = (run_contract_version run = Version_V11)"

record runtime_attempt =
  att_id :: ident
  att_run_id :: ident
  att_number :: int
  att_resume_from_checkpoint_id :: "ident option"
  att_status_of :: attempt_status
  att_started_at :: instant
  att_completed_at :: "instant option"
  att_failure_category :: "failure_category option"

record resume_state =
  rs_evidence_ids :: "ident list"
  rs_finding_ids :: "ident list"
  rs_review_ids :: "ident list"
  rs_report_ids :: "ident list"
  rs_tool_budget :: int
  rs_token_budget :: "int option"
  rs_model_turns :: "int option"
  rs_successful_tool_keys :: "ident list"

record runtime_event =
  ev_id :: ident
  ev_run_id :: ident
  ev_attempt_id :: ident
  ev_sequence :: int
  ev_type :: "event_type open_enum"
  ev_phase :: "runtime_phase open_enum option"
  ev_actor_type :: "actor_type open_enum"
  ev_actor_name :: "string option"
  ev_task_id :: "ident option"
  ev_execution_id :: "ident option"
  ev_tool_call_id :: "ident option"
  ev_evidence_ids :: "ident list"
  ev_schema_version :: int
  ev_safe_payload :: payload
  ev_occurred_at :: instant

record runtime_checkpoint =
  ck_id :: ident
  ck_run_id :: ident
  ck_attempt_id :: ident
  ck_completed_phase :: runtime_phase
  ck_event_sequence :: int
  ck_state_digest :: string
  ck_projection_digest :: string
  ck_resume_state :: resume_state
  ck_created_at :: instant
  ck_schema_version :: int

section \<open>Lineage\<close>

text \<open>\<open>RuntimeRun.validate_lineage\<close>: replay and live runs name different relatives.\<close>

definition validate_lineage :: "runtime_run \<Rightarrow> unit result" where
  "validate_lineage run =
     (if run_kind_of run = Kind_REPLAY then
        (if run_reason_of run \<noteq> Reason_REPLAY \<or> run_source_run_id run = None
            \<or> run_parent_run_id run \<noteq> None
         then Inl (ValueError ''replay runs require only source_run_id'')
         else Inr ())
      else if run_reason_of run = Reason_REPLAY \<or> run_source_run_id run \<noteq> None
        then Inl (ValueError ''live runs cannot use replay lineage'')
      else if run_reason_of run = Reason_INITIAL then
        (if run_parent_run_id run \<noteq> None
         then Inl (ValueError ''initial runs cannot have a parent'')
         else Inr ())
      else if run_parent_run_id run = None
        then Inl (ValueError ''additional and manual runs require a parent'')
      else Inr ())"

end
