(* ===== verification/Redaction.thy ===== *)
theory Redaction
  imports Python_Values
begin

text \<open>
  The redaction boundary (\<open>backend/safety/redaction.py\<close>).  Its regular expressions are
  values of a small syntax whose matcher lists the matches at a position in the order in
  which Python's backtracking \<open>re\<close> tries them, so the head of the list is the match
  \<open>re\<close> reports.  The character classes are read on ASCII.
\<close>

section \<open>A backtracking matcher\<close>

datatype rx =
    Class "char \<Rightarrow> bool"        \<comment> \<open>one character of a class\<close>
  | Eps
  | Cat rx rx
  | Or rx rx                   \<comment> \<open>\<open>r|s\<close>, left first\<close>
  | Rep nat rx                 \<comment> \<open>\<open>r{n,}\<close>, greedy\<close>
  | Times nat rx               \<comment> \<open>\<open>r{n}\<close>\<close>
  | Maybe rx                   \<comment> \<open>\<open>r?\<close>, greedy\<close>
  | Group nat rx               \<comment> \<open>capturing group\<close>
  | WordBoundary               \<comment> \<open>\<open>\b\<close>\<close>
  | NotBefore "char \<Rightarrow> bool"    \<comment> \<open>\<open>(?<![c])\<close>\<close>
  | NotAfter "char \<Rightarrow> bool"     \<comment> \<open>\<open>(?![c])\<close>\<close>

text \<open>A position: the character before it, the text after it, the groups captured so far.\<close>

record rx_state =
  prev_char :: "char option"
  rest_text :: string
  groups :: "(nat \<times> string) list"

definition word_at :: "char option \<Rightarrow> bool" where
  "word_at c = (case c of None \<Rightarrow> False | Some x \<Rightarrow> is_word x)"

definition head_char :: "string \<Rightarrow> char option" where
  "head_char s = (case s of [] \<Rightarrow> None | c # _ \<Rightarrow> Some c)"

text \<open>
  Greedy repetition: longest first; an iteration that consumes nothing is not repeated.
  The remaining length bounds the number of iterations.
\<close>

fun iterate :: "nat \<Rightarrow> (rx_state \<Rightarrow> rx_state list) \<Rightarrow> rx_state \<Rightarrow> rx_state list" where
  "iterate 0 f st = [st]"
| "iterate (Suc n) f st =
     concat (map (iterate n f)
       (filter (\<lambda>t. length (rest_text t) < length (rest_text st)) (f st))) @ [st]"

fun exactly :: "nat \<Rightarrow> (rx_state \<Rightarrow> rx_state list) \<Rightarrow> rx_state \<Rightarrow> rx_state list" where
  "exactly 0 f st = [st]"
| "exactly (Suc n) f st = concat (map (exactly n f) (f st))"

primrec runs :: "rx \<Rightarrow> rx_state \<Rightarrow> rx_state list" where
  "runs (Class p) st =
     (case rest_text st of [] \<Rightarrow> []
      | c # cs \<Rightarrow> if p c then [st\<lparr>prev_char := Some c, rest_text := cs\<rparr>] else [])"
| "runs Eps st = [st]"
| "runs (Cat r s) st = concat (map (runs s) (runs r st))"
| "runs (Or r s) st = runs r st @ runs s st"
| "runs (Rep n r) st =
     concat (map (\<lambda>t. iterate (length (rest_text t)) (runs r) t) (exactly n (runs r) st))"
| "runs (Times n r) st = exactly n (runs r) st"
| "runs (Maybe r) st = runs r st @ [st]"
| "runs (Group g r) st =
     map (\<lambda>t. t\<lparr>groups := (g, take (length (rest_text st) - length (rest_text t)) (rest_text st))
                         # groups t\<rparr>) (runs r st)"
| "runs WordBoundary st =
     (if word_at (prev_char st) \<noteq> word_at (head_char (rest_text st)) then [st] else [])"
| "runs (NotBefore p) st =
     (if (case prev_char st of None \<Rightarrow> False | Some c \<Rightarrow> p c) then [] else [st])"
| "runs (NotAfter p) st =
     (if (case head_char (rest_text st) of None \<Rightarrow> False | Some c \<Rightarrow> p c) then [] else [st])"

text \<open>\<open>match.group(g)\<close> and \<open>match.group(0)\<close>.\<close>

definition group_text :: "rx_state \<Rightarrow> nat \<Rightarrow> string" where
  "group_text st g = (case map_of (groups st) g of None \<Rightarrow> [] | Some s \<Rightarrow> s)"

text \<open>
  \<open>pattern.sub(replace, text)\<close>: leftmost matches, left to right.  The patterns used here
  never match the empty string; a position with no (non-empty) match is copied.
\<close>

function re_sub_from :: "rx \<Rightarrow> (string \<Rightarrow> rx_state \<Rightarrow> string) \<Rightarrow> char option \<Rightarrow> string \<Rightarrow> string" where
  "re_sub_from r repl p s =
     (case s of
        [] \<Rightarrow> []
      | c # cs \<Rightarrow>
          (case runs r \<lparr>prev_char = p, rest_text = s, groups = []\<rparr> of
             [] \<Rightarrow> c # re_sub_from r repl (Some c) cs
           | m # _ \<Rightarrow>
               (if length (rest_text m) < length s
                then repl (take (length s - length (rest_text m)) s) m
                       @ re_sub_from r repl (prev_char m) (rest_text m)
                else c # re_sub_from r repl (Some c) cs)))"
  by pat_completeness auto
termination
  by (relation "measure (\<lambda>(r, repl, p, s). length s)") auto

declare re_sub_from.simps [simp del]

definition re_sub :: "rx \<Rightarrow> (string \<Rightarrow> rx_state \<Rightarrow> string) \<Rightarrow> string \<Rightarrow> string" where
  "re_sub r repl s = re_sub_from r repl None s"

section \<open>Sensitive keys\<close>

text \<open>\<open>_CAMEL_ACRONYM_BOUNDARY.sub("_", key)\<close> and \<open>_CAMEL_LOWER_BOUNDARY.sub("_", key)\<close>.\<close>

fun camel_acronym :: "string \<Rightarrow> string" where
  "camel_acronym (a # b # c # cs) =
     (if is_upper a \<and> is_upper b \<and> is_lower c
      then a # CHR ''_'' # camel_acronym (b # c # cs)
      else a # camel_acronym (b # c # cs))"
| "camel_acronym s = s"

fun camel_lower :: "string \<Rightarrow> string" where
  "camel_lower (a # b # cs) =
     (if (is_lower a \<or> is_digit a) \<and> is_upper b then a # CHR ''_'' # camel_lower (b # cs)
      else a # camel_lower (b # cs))"
| "camel_lower s = s"

text \<open>\<open>[item for item in re.split(r"[^a-zA-Z0-9]+", s) if item]\<close>.\<close>

fun alnum_segments :: "string \<Rightarrow> string \<Rightarrow> string list" where
  "alnum_segments cur [] = (if cur = [] then [] else [rev cur])"
| "alnum_segments cur (c # cs) =
     (if is_alphanumeric c then alnum_segments (c # cur) cs
      else (if cur = [] then [] else [rev cur]) @ alnum_segments [] cs)"

definition sensitive_segments :: "string list" where
  "sensitive_segments =
     [''ccv'', ''cvv'', ''authorization'', ''expires'', ''cookie'', ''credential'',
      ''credentials'', ''firstname'', ''lastname'', ''passwd'', ''password'', ''path'',
      ''phone'', ''pwd'', ''secret'', ''token'', ''uri'', ''username'', ''url'']"

definition sensitive_compounds :: "string list" where
  "sensitive_compounds =
     [''accesskey'', ''accountid'', ''apikey'', ''baseurl'', ''cardnumber'', ''customerid'',
      ''longnum'', ''privatekey'', ''sessionid'', ''userid'']"

definition non_secret_count_compounds :: "string list" where
  "non_secret_count_compounds =
     [''inputtokens'', ''outputtokens'', ''remainingmodelturns'', ''tokenbudget'',
      ''totalinputtokens'', ''totaloutputtokens'']"

definition is_sensitive_key :: "string \<Rightarrow> bool" where
  "is_sensitive_key key =
     (let segments = map lower (alnum_segments [] (camel_lower (camel_acronym key)));
          compact = concat segments
      in if list_ex (\<lambda>s. s \<in> set sensitive_segments) segments then True
         else if compact \<in> set non_secret_count_compounds then False
         else list_ex (\<lambda>marker. compact = marker \<or> ends_with compact marker) sensitive_compounds)"

section \<open>The patterns\<close>

text \<open>Abbreviations of the syntax: a literal text, with and without regard to case.\<close>

definition lit :: "string \<Rightarrow> rx" where
  "lit s = foldr (\<lambda>c r. Cat (Class (\<lambda>x. x = c)) r) s Eps"

definition lit_i :: "string \<Rightarrow> rx" where
  "lit_i s = foldr (\<lambda>c r. Cat (Class (\<lambda>x. to_lower x = to_lower c)) r) s Eps"

definition seq :: "rx list \<Rightarrow> rx" where
  "seq rs = foldr Cat rs Eps"

fun any_of :: "rx list \<Rightarrow> rx" where
  "any_of [] = Class (\<lambda>_. False)"
| "any_of [r] = r"
| "any_of (r # rs) = Or r (any_of rs)"

definition one_in :: "string \<Rightarrow> rx" where
  "one_in cs = Class (\<lambda>c. c \<in> set cs)"

text \<open>\<open>[^\s...]\<close>: neither blank nor listed.\<close>

definition not_blank_or :: "string \<Rightarrow> rx" where
  "not_blank_or cs = Class (\<lambda>c. \<not> is_blank c \<and> c \<notin> set cs)"

abbreviation blanks :: rx where "blanks \<equiv> Rep 0 (Class is_blank)"

text \<open>\<open>[a-z][a-z0-9_-]*\<close> without regard to case.\<close>

definition key_rx :: rx where
  "key_rx = Cat (Class is_letter) (Rep 0 (Class (\<lambda>c. is_alphanumeric c \<or> c \<in> set ''_-'')))"

abbreviation dquote :: char where "dquote \<equiv> CHR 0x22"
abbreviation squote :: char where "squote \<equiv> CHR 0x27"
abbreviation backslash :: char where "backslash \<equiv> CHR 0x5C"

text \<open>\<open>"[^"]*"|'[^']*'|[^\s,;{}]+\<close>\<close>

definition value_rx :: rx where
  "value_rx = any_of
     [seq [one_in [dquote], Rep 0 (Class (\<lambda>c. c \<noteq> dquote)), one_in [dquote]],
      seq [one_in [squote], Rep 0 (Class (\<lambda>c. c \<noteq> squote)), one_in [squote]],
      Rep 1 (not_blank_or '',;{}'')]"

definition bearer_rx :: rx where
  "bearer_rx = seq [WordBoundary, lit_i ''bearer'', Rep 1 (Class is_blank), Rep 1 (not_blank_or '',;'')]"

definition assignment_rx :: rx where
  "assignment_rx = seq
     [WordBoundary, Group 1 key_rx, Group 2 (seq [blanks, one_in '':='', blanks]), Group 3 value_rx]"

definition json_assignment_rx :: rx where
  "json_assignment_rx = seq
     [Group 1 (seq [Maybe (one_in [dquote, squote]), Group 2 key_rx,
                    Maybe (one_in [dquote, squote]), blanks, one_in '':='', blanks]),
      Group 3 value_rx]"

definition identifier_assignment_rx :: rx where
  "identifier_assignment_rx = seq
     [WordBoundary,
      Group 1 (seq
        [Or (seq [any_of [lit_i ''account'', lit_i ''customer'', lit_i ''session'', lit_i ''user''],
                  Rep 1 (Class is_blank), lit_i ''id''])
            (lit_i ''user''),
         Maybe (one_in [dquote, squote]), blanks, one_in '':='', blanks]),
      Group 2 value_rx]"

definition encoded_assignment_rx :: rx where
  "encoded_assignment_rx = seq
     [WordBoundary, Group 1 key_rx, Or (lit_i ''%3a'') (lit_i ''%3d''),
      Maybe (Or (lit ''%22'') (lit ''%27'')), Rep 1 (not_blank_or '',;&'')]"

definition credential_url_rx :: rx where
  "credential_url_rx = seq
     [WordBoundary, Class is_letter, Rep 0 (Class (\<lambda>c. is_alphanumeric c \<or> c \<in> set ''+.-'')),
      lit ''://'', Rep 1 (not_blank_or ''/@:''), lit '':'', Rep 1 (not_blank_or ''/@''),
      lit ''@'', Rep 1 (not_blank_or [])]"

definition query_url_rx :: rx where
  "query_url_rx = seq
     [WordBoundary, lit_i ''http'', Maybe (lit_i ''s''), lit ''://'', Rep 1 (not_blank_or ''?''),
      lit ''?'', Rep 1 (not_blank_or [])]"

definition provider_credential_rx :: rx where
  "provider_credential_rx = seq
     [NotBefore is_alphanumeric,
      any_of
       [seq [lit ''sk-'',
             Maybe (Or (lit ''proj-'')
                       (seq [lit ''ant-'',
                             Maybe (seq [lit ''api'', Times 2 (Class is_digit), lit ''-''])])),
             Rep 20 (Class (\<lambda>c. is_alphanumeric c \<or> c \<in> set ''_-''))],
        seq [lit ''gsk_'', Rep 20 (Class (\<lambda>c. is_alphanumeric c \<or> c \<in> set ''_-''))],
        seq [lit ''github_pat_'', Rep 20 (Class is_word)],
        seq [lit ''gh'', one_in ''pousr'', lit ''_'', Rep 20 (Class is_alphanumeric)],
        seq [lit ''AIza'', Rep 20 (Class (\<lambda>c. is_alphanumeric c \<or> c \<in> set ''_-''))],
        seq [lit ''AKIA'', Times 16 (Class (\<lambda>c. is_upper c \<or> is_digit c))]],
      NotAfter is_alphanumeric]"

definition email_rx :: rx where
  "email_rx = seq
     [WordBoundary, Rep 1 (Class (\<lambda>c. is_alphanumeric c \<or> c \<in> set ''._%+-'')), lit ''@'',
      Rep 1 (Class (\<lambda>c. is_alphanumeric c \<or> c \<in> set ''.-'')), lit ''.'',
      Rep 2 (Class is_letter), WordBoundary]"

definition windows_path_rx :: rx where
  "windows_path_rx = seq
     [NotBefore is_word, WordBoundary, Class is_letter, lit '':'', one_in [backslash],
      Rep 0 (seq [Rep 1 (not_blank_or [backslash]), one_in [backslash]]),
      Rep 0 (not_blank_or [backslash])]"

definition posix_path_rx :: rx where
  "posix_path_rx = seq
     [NotBefore (\<lambda>c. is_word c \<or> c \<in> set '':/''), lit ''/'',
      Rep 1 (seq [Rep 1 (not_blank_or ''/''), lit ''/'']), Rep 1 (not_blank_or '',;'')]"

section \<open>Redaction\<close>

definition redact_assignment :: "string \<Rightarrow> rx_state \<Rightarrow> string" where
  "redact_assignment whole m =
     (if \<not> is_sensitive_key (group_text m 1) then whole
      else group_text m 1 @ group_text m 2 @ ''[REDACTED]'')"

definition redact_identifier_assignment :: "string \<Rightarrow> rx_state \<Rightarrow> string" where
  "redact_identifier_assignment whole m = group_text m 1 @ ''[REDACTED]''"

definition redact_json_assignment :: "string \<Rightarrow> rx_state \<Rightarrow> string" where
  "redact_json_assignment whole m =
     (if \<not> is_sensitive_key (group_text m 2) then whole else group_text m 1 @ ''[REDACTED]'')"

definition redact_encoded_assignment :: "string \<Rightarrow> rx_state \<Rightarrow> string" where
  "redact_encoded_assignment whole m =
     (if is_sensitive_key (group_text m 1) then ''[REDACTED]'' else whole)"

definition redact_text :: "string \<Rightarrow> string" where
  "redact_text value =
     (let v1 = re_sub credential_url_rx (\<lambda>_ _. ''[REDACTED_URL]'') value;
          v2 = re_sub query_url_rx (\<lambda>_ _. ''[REDACTED_URL]'') v1;
          v3 = re_sub provider_credential_rx (\<lambda>_ _. ''[REDACTED]'') v2;
          v4 = re_sub bearer_rx (\<lambda>_ _. ''[REDACTED]'') v3;
          v5 = re_sub encoded_assignment_rx redact_encoded_assignment v4;
          v6 = re_sub identifier_assignment_rx redact_identifier_assignment v5;
          v7 = re_sub json_assignment_rx redact_json_assignment v6;
          v8 = re_sub assignment_rx redact_assignment v7;
          v9 = re_sub email_rx (\<lambda>_ _. ''[REDACTED_EMAIL]'') v8;
          v10 = re_sub windows_path_rx (\<lambda>_ _. ''[REDACTED_PATH]'') v9
      in re_sub posix_path_rx (\<lambda>_ _. ''[REDACTED_PATH]'') v10)"

text \<open>
  \<open>redact_value\<close>.  The keys of a JSON-compatible dictionary are strings; the key of any
  other type is rendered by \<open>str\<close> in the source and is kept unredacted here.
\<close>

fun redact_value :: "pyval \<Rightarrow> pyval"
  and redact_values :: "pyval list \<Rightarrow> pyval list"
  and redact_items :: "(pyval \<times> pyval) list \<Rightarrow> (pyval \<times> pyval) list"
where
  "redact_value (PDict d) = PDict (redact_items d)"
| "redact_value (PList xs) = PList (redact_values xs)"
| "redact_value (PStr s) = PStr (redact_text s)"
| "redact_value v = v"
| "redact_values [] = []"
| "redact_values (x # xs) = redact_value x # redact_values xs"
| "redact_items [] = []"
| "redact_items ((k, v) # d) =
     (k, (case k of PStr s \<Rightarrow> if is_sensitive_key s then PStr ''[REDACTED]'' else redact_value v
          | _ \<Rightarrow> redact_value v)) # redact_items d"

text \<open>\<open>safe_failure\<close>: a fixed label per stable category.\<close>

definition failure_labels :: "(string, string) dict" where
  "failure_labels =
     [(''authentication'', ''provider authentication failed''),
      (''cancelled'', ''operation cancelled''),
      (''contract_integrity'', ''execution contract integrity failed''),
      (''invalid_output'', ''provider output invalid''),
      (''not_configured'', ''provider not configured''),
      (''provider_failure'', ''provider collection failed''),
      (''quota'', ''provider quota exceeded''),
      (''rate_limit'', ''provider rate limited''),
      (''skipped'', ''provider not configured''),
      (''timeout'', ''provider timeout''),
      (''transport'', ''provider transport failed'')]"

definition safe_failure :: "string \<Rightarrow> string" where
  "safe_failure category =
     (case dict_get failure_labels category of Some l \<Rightarrow> l | None \<Rightarrow> ''operation failed'')"

definition unsafe_value :: py_error where
  "unsafe_value = ValueError ''payload contains unsafe dynamic data''"

text \<open>
  \<open>redact_value(v) != v\<close>: redaction keeps the shape and every leaf that is not a string,
  so the comparison is equality of the two values.
\<close>

definition assert_safe_value :: "pyval \<Rightarrow> unit result" where
  "assert_safe_value v = (if redact_value v \<noteq> v then Inl unsafe_value else Inr ())"

definition assert_safe_label :: "string \<Rightarrow> unit result" where
  "assert_safe_label v =
     and_then (assert_safe_value (PStr v))
       (\<lambda>_. if is_sensitive_key v \<or> ''key'' \<in> set (map lower (alnum_segments [] v))
            then Inl unsafe_value else Inr ())"

end
