(* ===== verification/Event_Payload.thy ===== *)
theory Event_Payload
  imports Runtime_Domain Redaction
begin

text \<open>
  The event journal's payload boundary (\<open>RuntimeEvent\<close> and its validators in
  \<open>backend/domain/runtime.py\<close>): which payload keys an event type may carry, the bounded
  JSON check with its depth, width and node limits, the field rules of structured tool
  summaries, and the redaction of the free-text message.
\<close>

section \<open>Key tables\<close>

definition common_payload_keys :: "string list" where
  "common_payload_keys =
     [''status'', ''duration_ms'', ''failure_category'', ''safe_code'', ''message'']"

definition run_payload_keys :: "string list" where
  "run_payload_keys =
     [''run_kind'', ''run_reason'', ''strategy'', ''provider'', ''model'', ''prompt_version'']"

definition phase_payload_keys :: "string list" where
  "phase_payload_keys =
     [''evidence_count'', ''finding_count'', ''review_count'', ''report_count'']"

definition model_payload_keys :: "string list" where
  "model_payload_keys =
     [''provider'', ''model'', ''input_tokens'', ''output_tokens'', ''cost'',
      ''logical_call_id'', ''reservation_id'', ''reservation_status'', ''reserved_tokens'',
      ''usage_known'', ''accounted_tokens'', ''input_estimate'', ''actual_input_tokens'',
      ''budget_overrun_tokens'', ''attempt'', ''request_index'', ''input_estimate_audit'',
      ''input_estimate_method'', ''input_estimate_estimated_tokens'',
      ''input_estimate_instruction_chars'', ''input_estimate_context_chars'',
      ''input_estimate_total_chars'', ''input_estimate_chars'',
      ''input_estimate_ascii_plain_chars'', ''input_estimate_cjk_chars'',
      ''input_estimate_non_ascii_chars'', ''input_estimate_json_punctuation_chars'',
      ''input_estimate_input_chars'', ''input_estimate_input_estimated_tokens'',
      ''input_estimate_input_cjk_chars'', ''input_estimate_input_json_punctuation_chars'',
      ''input_estimate_tools_chars'', ''input_estimate_tools_estimated_tokens'',
      ''input_estimate_tools_cjk_chars'', ''input_estimate_tools_json_punctuation_chars'',
      ''input_estimate_output_schema_chars'', ''input_estimate_output_schema_estimated_tokens'',
      ''input_estimate_output_schema_cjk_chars'',
      ''input_estimate_output_schema_json_punctuation_chars'',
      ''model_turn_budget'', ''remaining_model_turns'']"

definition tool_payload_keys :: "string list" where
  "tool_payload_keys = [''tool_name'', ''idempotency_key'', ''normalized_inputs'', ''metadata'']"

definition evidence_payload_keys :: "string list" where
  "evidence_payload_keys = [''evidence_count'', ''evidence_kind'']"

definition checkpoint_payload_keys :: "string list" where
  "checkpoint_payload_keys =
     [''checkpoint_id'', ''event_sequence'', ''state_digest'', ''projection_digest'']"

definition recovery_payload_keys :: "string list" where
  "recovery_payload_keys = [''checkpoint_id'', ''resume_attempt_number'']"

fun event_payload_extra :: "event_type \<Rightarrow> string list" where
  "event_payload_extra Ev_RUN_CREATED = run_payload_keys"
| "event_payload_extra Ev_RUN_STARTED = run_payload_keys"
| "event_payload_extra Ev_RUN_COMPLETED = run_payload_keys"
| "event_payload_extra Ev_RUN_FAILED = run_payload_keys"
| "event_payload_extra Ev_RUN_INTERRUPTED = run_payload_keys"
| "event_payload_extra Ev_RUN_CANCEL_REQUESTED = run_payload_keys"
| "event_payload_extra Ev_RUN_CANCELLED = run_payload_keys"
| "event_payload_extra Ev_ATTEMPT_STARTED = []"
| "event_payload_extra Ev_ATTEMPT_COMPLETED = []"
| "event_payload_extra Ev_ATTEMPT_INTERRUPTED = []"
| "event_payload_extra Ev_PHASE_STARTED = phase_payload_keys"
| "event_payload_extra Ev_PHASE_COMPLETED = phase_payload_keys"
| "event_payload_extra Ev_PHASE_FAILED = phase_payload_keys"
| "event_payload_extra Ev_PHASE_SKIPPED = phase_payload_keys"
| "event_payload_extra Ev_AGENT_STARTED = model_payload_keys"
| "event_payload_extra Ev_AGENT_COMPLETED = model_payload_keys"
| "event_payload_extra Ev_AGENT_FAILED = model_payload_keys"
| "event_payload_extra Ev_MODEL_STARTED = model_payload_keys"
| "event_payload_extra Ev_MODEL_COMPLETED = model_payload_keys"
| "event_payload_extra Ev_MODEL_FAILED = model_payload_keys"
| "event_payload_extra Ev_TOOL_PROPOSED = tool_payload_keys"
| "event_payload_extra Ev_TOOL_STARTED = tool_payload_keys"
| "event_payload_extra Ev_TOOL_COMPLETED = tool_payload_keys"
| "event_payload_extra Ev_TOOL_FAILED = tool_payload_keys"
| "event_payload_extra Ev_TOOL_REJECTED = tool_payload_keys"
| "event_payload_extra Ev_TOOL_SKIPPED = tool_payload_keys"
| "event_payload_extra Ev_EVIDENCE_PERSISTED = evidence_payload_keys"
| "event_payload_extra Ev_EVIDENCE_REJECTED = evidence_payload_keys"
| "event_payload_extra Ev_CHECKPOINT_CREATED = checkpoint_payload_keys"
| "event_payload_extra Ev_RECOVERY_STARTED = recovery_payload_keys"
| "event_payload_extra Ev_RECOVERY_COMPLETED = recovery_payload_keys"
| "event_payload_extra Ev_RECOVERY_REJECTED = recovery_payload_keys"

definition event_payload_keys :: "event_type \<Rightarrow> string list" where
  "event_payload_keys t = common_payload_keys @ event_payload_extra t"

definition prohibited_payload_keys :: "string list" where
  "prohibited_payload_keys =
     [''api_key'', ''authorization'', ''chain_of_thought'', ''credential'', ''credentials'',
      ''evidence_body'', ''model_output'', ''password'', ''prompt'', ''provider_payload'',
      ''raw_output'', ''raw_payload'', ''reasoning'', ''request_payload'',
      ''response_payload'', ''secret'']"

abbreviation max_safe_string :: nat where "max_safe_string \<equiv> 512"
abbreviation max_structured_string :: nat where "max_structured_string \<equiv> 256"
abbreviation max_structured_items :: nat where "max_structured_items \<equiv> 32"
abbreviation max_structured_depth :: nat where "max_structured_depth \<equiv> 4"
abbreviation max_structured_nodes :: nat where "max_structured_nodes \<equiv> 128"

definition tool_normalized_input_keys :: "(string, string list) dict" where
  "tool_normalized_input_keys =
     [(''read_logs'', [''start_time'', ''end_time'', ''limit'', ''keywords'', ''levels'',
                       ''instance'']),
      (''query_metrics'', [''start_time'', ''end_time'', ''limit'', ''metric_names'',
                           ''aggregation'', ''instance'']),
      (''query_prometheus'', [''start_time'', ''end_time'', ''limit'', ''metric_names'',
                              ''aggregation'', ''instance'']),
      (''read_deployments'', [''start_time'', ''end_time'', ''limit'', ''version'',
                              ''instance'']),
      (''read_service_catalog'', [''start_time'', ''end_time'', ''limit'',
                                  ''include_dependencies'', ''name'']),
      (''query_dependencies'', [''start_time'', ''end_time'', ''limit'', ''direction'',
                                ''target'', ''depth'']),
      (''query_traces'', [''entity_ids'', ''window_start'', ''window_end'', ''limit'',
                          ''service'', ''operation'', ''trace_id'', ''error_only'',
                          ''min_duration_ms'', ''direction'']),
      (''read_runtime_state'', [''entity_ids'', ''window_start'', ''window_end'', ''limit'',
                                ''states'', ''include_healthy'']),
      (''query_related_alerts'', [''entity_ids'', ''window_start'', ''window_end'', ''limit'',
                                  ''severities'', ''statuses'']),
      (''lookup_memory'', [''affected_entity'', ''failure_mechanism'', ''limit''])]"

definition common_tool_metadata_keys :: "string list" where
  "common_tool_metadata_keys =
     [''duration_ms'', ''evidence_count'', ''provider_status'', ''result_count'', ''reused'',
      ''safe_code'']"

definition opaque_event_payload_keys :: "string list" where
  "opaque_event_payload_keys = common_payload_keys @ [''metadata'']"

definition tool_metadata_keys :: "(string, string list) dict" where
  "tool_metadata_keys = map (\<lambda>(t, _). (t, common_tool_metadata_keys)) tool_normalized_input_keys"

definition tool_integer_fields :: "string list" where
  "tool_integer_fields = [''depth'', ''duration_ms'', ''evidence_count'', ''limit'', ''result_count'']"

definition tool_boolean_fields :: "string list" where
  "tool_boolean_fields = [''include_dependencies'', ''reused'', ''error_only'', ''include_healthy'']"

definition tool_list_fields :: "string list" where
  "tool_list_fields = [''keywords'', ''levels'', ''metric_names'', ''entity_ids'',
     ''severities'', ''statuses'', ''states'']"

definition tool_text_fields :: "string list" where
  "tool_text_fields = [''affected_entity'', ''failure_mechanism'', ''keyword'']"

definition tool_text_list_fields :: "string list" where
  "tool_text_list_fields = [''keywords'', ''levels'', ''metric_names'']"

definition tool_optional_text_fields :: "string list" where
  "tool_optional_text_fields = [''instance'', ''version'', ''target'', ''name'']"

definition tool_enum_fields :: "(string, string list) dict" where
  "tool_enum_fields =
     [(''aggregation'', [''avg'', ''max'', ''sum'']),
      (''direction'', [''upstream'', ''downstream'', ''both'']),
      (''provider_status'', [''success'', ''failed'', ''partial'', ''skipped'',
                             ''not_configured''])]"

section \<open>Identifiers and time stamps\<close>

text \<open>\<open>pattern.fullmatch(value) is not None\<close>.\<close>

definition full_match :: "rx \<Rightarrow> string \<Rightarrow> bool" where
  "full_match r s =
     list_ex (\<lambda>t. rest_text t = []) (runs r \<lparr>prev_char = None, rest_text = s, groups = []\<rparr>)"

definition identifier_char :: "char \<Rightarrow> bool" where
  "identifier_char c = (is_alphanumeric c \<or> c \<in> set ''_.:@/+~-'')"

text \<open>\<open>^[A-Za-z0-9][A-Za-z0-9_.:@/+~-]{0,159}$\<close>\<close>

definition safe_identifier :: "string \<Rightarrow> bool" where
  "safe_identifier s =
     (case s of [] \<Rightarrow> False
      | c # cs \<Rightarrow> is_alphanumeric c \<and> list_all identifier_char cs \<and> length cs \<le> 159)"

definition iso_timestamp_rx :: rx where
  "iso_timestamp_rx =
     (let d2 = Times 2 (Class is_digit) in seq
       [Times 4 (Class is_digit), lit ''-'', d2, lit ''-'', d2, lit ''T'', d2, lit '':'', d2,
        lit '':'', d2, Maybe (seq [lit ''.'', Rep 1 (Class is_digit)]),
        Or (lit ''Z'') (seq [one_in ''+-'', d2, lit '':'', d2])])"

definition iso_timestamp :: "string \<Rightarrow> bool" where
  "iso_timestamp s = full_match iso_timestamp_rx s"

section \<open>The bounded JSON check\<close>

text \<open>\<open>_normalized_key_segments\<close> and \<open>_is_prohibited_payload_key\<close>.\<close>

definition normalized_key_segments :: "string \<Rightarrow> string list \<times> string" where
  "normalized_key_segments key =
     (let segments = map lower (alnum_segments [] (camel_lower key)) in (segments, concat segments))"

definition prohibited_segments :: "string list" where
  "prohibited_segments = [''authorization'', ''credential'', ''credentials'', ''password'',
     ''prompt'', ''reasoning'', ''secret'']"

definition prohibited_compounds :: "string list" where
  "prohibited_compounds = [''apikey'', ''chainofthought'', ''evidencebody'', ''modeloutput'',
     ''providerpayload'', ''rawoutput'', ''rawpayload'', ''requestpayload'', ''responsepayload'']"

definition is_prohibited_payload_key :: "string \<Rightarrow> bool" where
  "is_prohibited_payload_key key =
     (let (segments, compact) = normalized_key_segments key
      in list_ex (\<lambda>s. s \<in> set prohibited_segments) segments \<or> compact \<in> set prohibited_compounds)"

definition prohibited_key :: "string \<Rightarrow> bool" where
  "prohibited_key key =
     (replace_char CHR ''-'' CHR ''_'' (lower (strip key)) \<in> set prohibited_payload_keys
      \<or> is_prohibited_payload_key key)"

text \<open>
  \<open>_validate_json_value\<close>: the node budget is a shared counter, so it is threaded through
  the recursion and its final value is the result.  An object that is not JSON is named by
  its type.
\<close>

definition string_limit :: "bool \<Rightarrow> string \<Rightarrow> nat" where
  "string_limit structured path =
     (if \<not> structured \<or> ends_with path ''.failure_mechanism'' then max_safe_string
      else max_structured_string)"

definition node_checks :: "string \<Rightarrow> nat \<Rightarrow> nat \<Rightarrow> unit result" where
  "node_checks path depth budget = raise_first
     [(max_structured_nodes < budget, ValueError (path @ '' exceeds maximum total size'')),
      (max_structured_depth < depth, ValueError (path @ '' exceeds maximum nesting depth''))]"

fun validate_json_value :: "bool \<Rightarrow> string \<Rightarrow> nat \<Rightarrow> nat \<Rightarrow> pyval \<Rightarrow> nat result"
  and validate_json_list :: "bool \<Rightarrow> string \<Rightarrow> nat \<Rightarrow> nat \<Rightarrow> nat \<Rightarrow> pyval list \<Rightarrow> nat result"
  and validate_json_items :: "bool \<Rightarrow> string \<Rightarrow> nat \<Rightarrow> nat \<Rightarrow> (pyval \<times> pyval) list \<Rightarrow> nat result"
where
  "validate_json_value structured path depth budget value =
     and_then (node_checks path depth (Suc budget)) (\<lambda>_.
       (case value of
          PNone \<Rightarrow> Inr (Suc budget)
        | PBool _ \<Rightarrow> Inr (Suc budget)
        | PInt _ \<Rightarrow> Inr (Suc budget)
        | PStr s \<Rightarrow>
            if string_limit structured path < length s
            then Inl (ValueError (path @ '' exceeds maximum string length''))
            else if structured \<and> redact_text s \<noteq> s
            then Inl (ValueError (path @ '' contains sensitive dynamic data''))
            else Inr (Suc budget)
        | PFloat f \<Rightarrow>
            if isfinite f then Inr (Suc budget)
            else Inl (ValueError (path @ '' contains a non-finite number''))
        | PList xs \<Rightarrow>
            if max_structured_items < length xs
            then Inl (ValueError (path @ '' exceeds maximum item count''))
            else validate_json_list structured path depth (Suc budget) 0 xs
        | PDict d \<Rightarrow>
            if max_structured_items < length d
            then Inl (ValueError (path @ '' exceeds maximum item count''))
            else validate_json_items structured path depth (Suc budget) d
        | POther t \<Rightarrow> Inl (ValueError (path @ '' contains a non-JSON value: '' @ t))))"
| "validate_json_list structured path depth budget index [] = Inr budget"
| "validate_json_list structured path depth budget index (x # xs) =
     and_then (validate_json_value structured (path @ ''['' @ show_nat index @ '']'')
                 (Suc depth) budget x)
       (\<lambda>b. validate_json_list structured path depth b (Suc index) xs)"
| "validate_json_items structured path depth budget [] = Inr budget"
| "validate_json_items structured path depth budget ((k, v) # d) =
     (case k of
        PStr key \<Rightarrow>
          if prohibited_key key
          then Inl (ValueError (path @ '' contains prohibited key: '' @ key))
          else if structured \<and> redact_items [(k, v)] \<noteq> [(k, v)]
          then Inl (ValueError (path @ '' contains sensitive dynamic data''))
          else and_then (validate_json_value structured (path @ ''.'' @ key) (Suc depth) budget v)
                 (\<lambda>b. validate_json_items structured path depth b d)
      | _ \<Rightarrow> Inl (ValueError (path @ '' contains a non-string key'')))"

declare validate_json_value.simps [simp del]

section \<open>Structured tool summaries\<close>

definition non_negative_number :: "pyval \<Rightarrow> bool" where
  "non_negative_number v =
     (case v of PInt i \<Rightarrow> 0 \<le> i | PFloat f \<Rightarrow> \<not> float_negative f | _ \<Rightarrow> False)"

definition bounded_text :: "nat \<Rightarrow> nat \<Rightarrow> pyval \<Rightarrow> bool" where
  "bounded_text lo hi v = (case v of PStr s \<Rightarrow> lo \<le> length s \<and> length s \<le> hi | _ \<Rightarrow> False)"

definition text_that :: "(string \<Rightarrow> bool) \<Rightarrow> pyval \<Rightarrow> bool" where
  "text_that p v = (case v of PStr s \<Rightarrow> p s | _ \<Rightarrow> False)"

text \<open>\<open>value in frozenset\<close>: a list or a dictionary cannot be hashed.\<close>

definition enum_member :: "string list \<Rightarrow> string \<Rightarrow> pyval \<Rightarrow> unit result" where
  "enum_member allowed path v =
     (case v of
        PList _ \<Rightarrow> Inl (TypeError ''unhashable type: list'')
      | PDict _ \<Rightarrow> Inl (TypeError ''unhashable type: dict'')
      | _ \<Rightarrow> if text_that (\<lambda>s. s \<in> set allowed) v then Inr ()
             else Inl (ValueError (path @ '' contains an unsupported value'')))"

definition validate_tool_scalar :: "pyval \<Rightarrow> string \<Rightarrow> string \<Rightarrow> unit result" where
  "validate_tool_scalar value field_name path =
     (let need = (\<lambda>ok what. if ok then Inr () else Inl (ValueError (path @ what)))
      in if field_name \<in> set tool_integer_fields then
           need (case as_strict_int value of Some i \<Rightarrow> 0 \<le> i | None \<Rightarrow> False)
             '' must be a non-negative integer''
         else if field_name = ''min_duration_ms'' then
           need (non_negative_number value) '' must be a non-negative number''
         else if field_name \<in> set tool_boolean_fields then
           need (case value of PBool _ \<Rightarrow> True | _ \<Rightarrow> False) '' must be a boolean''
         else if field_name \<in> set tool_text_fields then
           need (bounded_text 1 (if field_name = ''failure_mechanism'' then 512
                                 else max_structured_string) value)
             '' must be a bounded string''
         else if field_name \<in> set tool_optional_text_fields then
           need (bounded_text 0 max_structured_string value) '' must be a bounded string''
         else (case dict_get tool_enum_fields field_name of
           Some allowed \<Rightarrow> enum_member allowed path value
         | None \<Rightarrow>
             if field_name \<in> set [''start_time'', ''end_time'', ''window_start'', ''window_end'']
             then need (text_that iso_timestamp value) '' must be an ISO-8601 timestamp''
             else need (text_that safe_identifier value) '' must be a bounded identifier''))"

definition unknown_keys_error :: "string \<Rightarrow> string list \<Rightarrow> string list \<Rightarrow> unit result" where
  "unknown_keys_error path keys allowed =
     (let unknown = sort (filter (\<lambda>k. k \<notin> set allowed) keys)
      in if unknown \<noteq> []
         then Inl (ValueError (path @ '' keys are not allowed: '' @ join '', '' unknown))
         else Inr ())"

fun validate_tool_list :: "string \<Rightarrow> string \<Rightarrow> nat \<Rightarrow> pyval list \<Rightarrow> unit result" where
  "validate_tool_list item_field path index [] = Inr ()"
| "validate_tool_list item_field path index (x # xs) =
     and_then (validate_tool_scalar x item_field (path @ ''['' @ show_nat index @ '']''))
       (\<lambda>_. validate_tool_list item_field path (Suc index) xs)"

definition validate_tool_field :: "string \<Rightarrow> string \<times> pyval \<Rightarrow> unit result" where
  "validate_tool_field path kv =
     (case kv of (field_name, field_value) \<Rightarrow>
        let field_path = path @ ''.'' @ field_name
        in if field_name \<in> set tool_list_fields then
             (case field_value of
                PList xs \<Rightarrow>
                  if 20 < length xs then Inl (ValueError (field_path @ '' must be a bounded list''))
                  else validate_tool_list
                         (if field_name \<in> set tool_text_list_fields then ''keyword''
                          else ''identifier'') field_path 0 xs
              | _ \<Rightarrow> Inl (ValueError (field_path @ '' must be a bounded list'')))
           else validate_tool_scalar field_value field_name field_path)"

text \<open>
  \<open>_validate_tool_object\<close> on a dictionary with string keys.
\<close>

definition validate_tool_object :: "payload \<Rightarrow> string list \<Rightarrow> string \<Rightarrow> unit result" where
  "validate_tool_object value allowed_keys path =
     and_then (unknown_keys_error path (dict_keys value) allowed_keys)
       (\<lambda>_. and_then (validate_json_value True path 0 0 (pdict value))
       (\<lambda>_. check_all (validate_tool_field path) value))"

section \<open>The payload of an event\<close>

definition payload_path :: string where "payload_path = ''safe_payload''"

text \<open>The message is redacted first and cut to its maximal length afterwards.\<close>

definition sanitize_message :: "payload \<Rightarrow> payload result" where
  "sanitize_message value =
     (case dict_get value ''message'' of
        None \<Rightarrow> Inr value
      | Some (PStr m) \<Rightarrow>
          Inr (dict_put value ''message'' (PStr (take max_safe_string (redact_text m))))
      | Some _ \<Rightarrow> Inl (ValueError ''safe_payload.message must be a string''))"

definition validate_opaque_metadata :: "payload \<Rightarrow> unit result" where
  "validate_opaque_metadata sanitized =
     (case get_or_none sanitized ''metadata'' of
        PNone \<Rightarrow> Inr ()
      | PDict d \<Rightarrow>
          and_then (validate_json_value True ''safe_payload.metadata'' 0 0 (PDict d)) (\<lambda>_. Inr ())
      | _ \<Rightarrow> Inl (ValueError ''safe_payload.metadata must be an object''))"

definition payload_tool_name :: "payload \<Rightarrow> string option" where
  "payload_tool_name sanitized =
     (case get_or_none sanitized ''tool_name'' of
        PStr t \<Rightarrow> if t \<in> set (dict_keys tool_normalized_input_keys) then Some t else None
      | _ \<Rightarrow> None)"

definition validate_tool_part :: "payload \<Rightarrow> string \<Rightarrow> string list \<Rightarrow> unit result" where
  "validate_tool_part sanitized key allowed =
     (case dict_get sanitized key of
        None \<Rightarrow> Inr ()
      | Some v \<Rightarrow>
          (case as_dict v of
             None \<Rightarrow> Inl (ValueError (''safe_payload.'' @ key @ '' must be an object''))
           | Some d \<Rightarrow> validate_tool_object d allowed (''safe_payload.'' @ key)))"

definition validate_structured_tool :: "payload \<Rightarrow> unit result" where
  "validate_structured_tool sanitized =
     (if dict_get sanitized ''normalized_inputs'' = None \<and> dict_get sanitized ''metadata'' = None
      then Inr ()
      else (case payload_tool_name sanitized of
         None \<Rightarrow> Inl (ValueError ''safe_payload tool_name is required for structured tool data'')
       | Some t \<Rightarrow>
           and_then (validate_tool_part sanitized ''normalized_inputs''
                       (the (dict_get tool_normalized_input_keys t)))
             (\<lambda>_. validate_tool_part sanitized ''metadata''
                     (the (dict_get tool_metadata_keys t)))))"

definition opaque_event :: "event_type open_enum \<Rightarrow> int \<Rightarrow> bool" where
  "opaque_event t schema_version =
     ((case t of Known _ \<Rightarrow> False | Opaque _ \<Rightarrow> True) \<or> schema_version \<noteq> 1)"

definition allowed_payload_keys :: "event_type open_enum \<Rightarrow> int \<Rightarrow> string list" where
  "allowed_payload_keys t schema_version =
     (if opaque_event t schema_version then opaque_event_payload_keys
      else (case t of Known e \<Rightarrow> event_payload_keys e | Opaque _ \<Rightarrow> []))"

definition validate_safe_payload ::
  "event_type open_enum \<Rightarrow> int \<Rightarrow> payload \<Rightarrow> payload result" where
  "validate_safe_payload t schema_version value =
     and_then (unknown_keys_error payload_path (dict_keys value) (allowed_payload_keys t schema_version))
       (\<lambda>_. and_then (sanitize_message value)
       (\<lambda>sanitized. and_then (validate_json_value False payload_path 0 0 (pdict sanitized))
       (\<lambda>_. and_then (if opaque_event t schema_version then validate_opaque_metadata sanitized
                       else validate_structured_tool sanitized)
       (\<lambda>_. Inr sanitized))))"

text \<open>An enumeration value or a bounded identifier of a newer schema.\<close>

definition validate_open_enum :: "string \<Rightarrow> 'a open_enum \<Rightarrow> unit result" where
  "validate_open_enum field v =
     (case v of Known _ \<Rightarrow> Inr ()
      | Opaque s \<Rightarrow> if safe_identifier s then Inr ()
                    else Inl (ValueError (field @ '' must be a bounded identifier'')))"

text \<open>
  Construction of a \<open>RuntimeEvent\<close>: the field validators in the order of the fields, then
  the payload with its message redacted.
\<close>

definition validate_runtime_event :: "runtime_event \<Rightarrow> runtime_event result" where
  "validate_runtime_event e =
     and_then (raise_first
       [(ev_sequence e < 1, ValueError ''sequence'')])
     (\<lambda>_. and_then (validate_open_enum ''event_type'' (ev_type e))
     (\<lambda>_. and_then (case ev_phase e of None \<Rightarrow> Inr () | Some p \<Rightarrow> validate_open_enum ''phase'' p)
     (\<lambda>_. and_then (validate_open_enum ''actor_type'' (ev_actor_type e))
     (\<lambda>_. and_then (raise_first [(ev_schema_version e < 1, ValueError ''schema_version'')])
     (\<lambda>_. and_then (validate_safe_payload (ev_type e) (ev_schema_version e) (ev_safe_payload e))
     (\<lambda>p. Inr (e\<lparr>ev_safe_payload := p\<rparr>)))))))"

end
