(* ===== verification/Canonical_Json.thy ===== *)
theory Canonical_Json
  imports Python_Values
begin

text \<open>
  The rendering the digests of the runtime are taken of: \<open>json.dumps(value,
  separators=(",", ":"), sort_keys=True).encode("utf-8")\<close>.  The decimal form of a finite
  float (\<open>float.__repr__\<close>) is a parameter; a dictionary with a key that is not a string is
  rejected, as none of the rendered values has one.
\<close>

record json_style =
  js_float :: "rat \<Rightarrow> string"
  js_ascii :: bool      \<comment> \<open>\<open>ensure_ascii\<close>\<close>
  js_nan :: bool        \<comment> \<open>\<open>allow_nan\<close>\<close>

definition code :: "char \<Rightarrow> nat" where
  "code c = of_char c"

definition hex_digit :: "nat \<Rightarrow> char" where
  "hex_digit n = (if n < 10 then char_of (48 + n) else char_of (87 + n))"

definition unicode_escape :: "char \<Rightarrow> string" where
  "unicode_escape c = CHR 0x5C # ''u00'' @ [hex_digit (code c div 16), hex_digit (code c mod 16)]"

definition json_char :: "bool \<Rightarrow> char \<Rightarrow> string" where
  "json_char ascii c =
     (if code c = 34 then [CHR 0x5C, CHR 0x22]
      else if code c = 92 then [CHR 0x5C, CHR 0x5C]
      else if code c = 8 then [CHR 0x5C, CHR ''b'']
      else if code c = 9 then [CHR 0x5C, CHR ''t'']
      else if code c = 10 then [CHR 0x5C, CHR ''n'']
      else if code c = 12 then [CHR 0x5C, CHR ''f'']
      else if code c = 13 then [CHR 0x5C, CHR ''r'']
      else if code c < 32 \<or> (ascii \<and> 127 \<le> code c) then unicode_escape c
      else [c])"

definition json_string :: "bool \<Rightarrow> string \<Rightarrow> string" where
  "json_string ascii s = [CHR 0x22] @ concat (map (json_char ascii) s) @ [CHR 0x22]"

fun json_float :: "json_style \<Rightarrow> pyfloat \<Rightarrow> string result" where
  "json_float st (Finite r) = Inr (js_float st r)"
| "json_float st PosInf =
     (if js_nan st then Inr ''Infinity'' else Inl (ValueError ''Out of range float values''))"
| "json_float st NegInf =
     (if js_nan st then Inr ''-Infinity'' else Inl (ValueError ''Out of range float values''))"
| "json_float st NaN =
     (if js_nan st then Inr ''NaN'' else Inl (ValueError ''Out of range float values''))"

definition json_array :: "string list \<Rightarrow> string" where
  "json_array parts = ''['' @ join '','' parts @ '']''"

text \<open>Members are sorted by key; their values are already rendered.\<close>

definition json_object :: "bool \<Rightarrow> (string \<times> string) list \<Rightarrow> string" where
  "json_object ascii members =
     ''{'' @ join '',''
       (map (\<lambda>(k, v). json_string ascii k @ '':'' @ v) (sort_key fst members)) @ ''}''"

fun json_text :: "json_style \<Rightarrow> pyval \<Rightarrow> string result"
  and json_texts :: "json_style \<Rightarrow> pyval list \<Rightarrow> string list result"
  and json_members :: "json_style \<Rightarrow> (pyval \<times> pyval) list \<Rightarrow> (string \<times> string) list result"
where
  "json_text st PNone = Inr ''null''"
| "json_text st (PBool b) = Inr (if b then ''true'' else ''false'')"
| "json_text st (PInt i) = Inr (show_int i)"
| "json_text st (PFloat f) = json_float st f"
| "json_text st (PStr s) = Inr (json_string (js_ascii st) s)"
| "json_text st (PList xs) = and_then (json_texts st xs) (\<lambda>ts. Inr (json_array ts))"
| "json_text st (PDict d) =
     and_then (json_members st d) (\<lambda>ms. Inr (json_object (js_ascii st) ms))"
| "json_text st (POther t) =
     Inl (TypeError (''Object of type '' @ t @ '' is not JSON serializable''))"
| "json_texts st [] = Inr []"
| "json_texts st (x # xs) =
     and_then (json_text st x) (\<lambda>t. and_then (json_texts st xs) (\<lambda>ts. Inr (t # ts)))"
| "json_members st [] = Inr []"
| "json_members st ((k, v) # d) =
     (case k of
        PStr key \<Rightarrow>
          and_then (json_text st v)
            (\<lambda>t. and_then (json_members st d) (\<lambda>ms. Inr ((key, t) # ms)))
      | _ \<Rightarrow> Inl (TypeError ''keys must be str''))"

text \<open>UTF-8 of the code points below 256 that the strings of the model hold.\<close>

definition utf8 :: "string \<Rightarrow> string" where
  "utf8 s = concat (map (\<lambda>c. if code c < 128 then [c]
       else [char_of (192 + code c div 64), char_of (128 + code c mod 64)]) s)"

text \<open>\<open>hashlib.sha256(json.dumps(...).encode("utf-8")).hexdigest()\<close>\<close>

record digest_ext =
  dx_sha256 :: "string \<Rightarrow> string"
  dx_float :: "rat \<Rightarrow> string"

definition json_digest :: "digest_ext \<Rightarrow> bool \<Rightarrow> bool \<Rightarrow> pyval \<Rightarrow> string result" where
  "json_digest ext ascii nan v =
     and_then (json_text \<lparr>js_float = dx_float ext, js_ascii = ascii, js_nan = nan\<rparr> v)
       (\<lambda>t. Inr (dx_sha256 ext (utf8 t)))"

end
