(* ===== verification/Agent_Models.thy ===== *)
theory Agent_Models
  imports Python_Values Domain_Enums
begin

text \<open>
  The agents' work products: tasks, plans, executions (\<open>backend/domain/agent_plan.py\<close>),
  findings, critic assessments, candidates, decisions and the coordination review
  (\<open>backend/domain/agent_findings.py\<close>).  Each class is a record with the class's fields;
  each validator runs the declared field constraints first and then the class's
  \<open>model_validator\<close>, and its error is the message of the statement that raises.
\<close>

section \<open>Field constraints\<close>

text \<open>\<open>Field(min_length, max_length)\<close> on a string or a list, optional values included.\<close>

definition bounded_length :: "nat \<Rightarrow> nat \<Rightarrow> 'a list \<Rightarrow> bool" where
  "bounded_length lo hi xs = (lo \<le> length xs \<and> length xs \<le> hi)"

definition opt_max :: "nat \<Rightarrow> 'a list option \<Rightarrow> bool" where
  "opt_max hi x = (case x of None \<Rightarrow> True | Some xs \<Rightarrow> length xs \<le> hi)"

definition opt_bounded :: "nat \<Rightarrow> nat \<Rightarrow> 'a list option \<Rightarrow> bool" where
  "opt_bounded lo hi x = (case x of None \<Rightarrow> True | Some xs \<Rightarrow> bounded_length lo hi xs)"

definition unit_interval :: "rat \<Rightarrow> bool" where
  "unit_interval x = (0 \<le> x \<and> x \<le> 1)"

text \<open>\<open>not value\<close> for an optional string: absent or empty.\<close>

definition absent :: "'a list option \<Rightarrow> bool" where
  "absent x = (x = None \<or> x = Some [])"

definition field_error :: py_error where
  "field_error = ValueError ''field constraint''"

section \<open>Skill names\<close>

text \<open>\<open>^[A-Za-z0-9_.-]{1,64}@[A-Za-z0-9_.-]{1,32}$\<close> with \<open>re.fullmatch\<close>.\<close>

definition is_skill_char :: "char \<Rightarrow> bool" where
  "is_skill_char c = (is_alphanumeric c \<or> c \<in> set ''_.-'')"

definition selected_skill_ok :: "string \<Rightarrow> bool" where
  "selected_skill_ok s =
     (let name = takeWhile is_skill_char s; rest = dropWhile is_skill_char s
      in bounded_length 1 64 name \<and>
         (case rest of [] \<Rightarrow> False
          | c # version \<Rightarrow> c = CHR ''@'' \<and> bounded_length 1 32 version
                            \<and> list_all is_skill_char version))"

section \<open>Lead decisions\<close>

record lead_decision =
  ld_action :: lead_action
  ld_summary :: string
  ld_task_ids :: "ident list"
  ld_candidate_ids :: "ident list"
  ld_evidence_ids :: "ident list"
  ld_selected_skills :: "string list"
  ld_stop_reason :: "string option"

definition lead_decision_fields :: "lead_decision \<Rightarrow> bool" where
  "lead_decision_fields d =
     (bounded_length 1 512 (ld_summary d) \<and> length (ld_task_ids d) \<le> 3
      \<and> length (ld_candidate_ids d) \<le> 32 \<and> length (ld_evidence_ids d) \<le> 32
      \<and> length (ld_selected_skills d) \<le> 4
      \<and> list_all selected_skill_ok (ld_selected_skills d)
      \<and> opt_max 256 (ld_stop_reason d))"

definition validate_lead_decision :: "lead_decision \<Rightarrow> unit result" where
  "validate_lead_decision d = raise_first
     [(\<not> lead_decision_fields d, field_error),
      (\<not> distinct (ld_task_ids d), ValueError ''Lead decision task_ids must be unique''),
      (\<not> distinct (ld_candidate_ids d),
         ValueError ''Lead decision candidate_ids must be unique''),
      (\<not> list_all selected_skill_ok (ld_selected_skills d),
         ValueError ''selected_skills must use bounded name@version values''),
      (ld_action d \<in> {Lead_INVESTIGATE, Lead_TEST} \<and> ld_task_ids d = [],
         ValueError ''investigate and test require task_ids''),
      (ld_action d = Lead_CONCLUDE \<and> ld_candidate_ids d = [],
         ValueError ''conclude requires candidate_ids''),
      (ld_action d = Lead_INCONCLUSIVE
         \<and> (ld_task_ids d \<noteq> [] \<or> ld_candidate_ids d \<noteq> [] \<or> absent (ld_stop_reason d)),
         ValueError ''inconclusive requires no work and a stop_reason'')]"

section \<open>Tasks, plans, executions\<close>

datatype task_type =
  Task_LOG_INVESTIGATION | Task_METRIC_INVESTIGATION | Task_DEPLOYMENT_CHECK
| Task_DEPENDENCY_CHECK | Task_SERVICE_CONTEXT | Task_MEMORY_LOOKUP | Task_RCA_SYNTHESIS
| Task_LLM_REVIEW | Task_GENERAL_INVESTIGATION

datatype task_status =
  TStat_PENDING | TStat_RUNNING | TStat_COMPLETED | TStat_FAILED | TStat_SKIPPED
| TStat_CANCELLED

datatype execution_status =
  XStat_PENDING | XStat_RUNNING | XStat_COMPLETED | XStat_FAILED | XStat_SKIPPED
| XStat_CANCELLED

text \<open>The values of \<open>AgentExecutionStatus\<close>, which the engine prints into summaries.\<close>

fun execution_status_value :: "execution_status \<Rightarrow> string" where
  "execution_status_value XStat_PENDING = ''pending''"
| "execution_status_value XStat_RUNNING = ''running''"
| "execution_status_value XStat_COMPLETED = ''completed''"
| "execution_status_value XStat_FAILED = ''failed''"
| "execution_status_value XStat_SKIPPED = ''skipped''"
| "execution_status_value XStat_CANCELLED = ''cancelled''"

text \<open>\<open>Literal[1, 2]\<close>\<close>

datatype analysis_round = Round_1 | Round_2

record diagnosis_task =
  task_id :: ident
  task_title :: string
  task_description :: string
  task_type_of :: task_type
  task_agent_name :: string
  task_tool_names :: "string list"
  task_depends_on :: "ident list"
  task_priority :: int
  task_status_of :: task_status
  task_execution_layer :: agent_execution_layer
  task_analysis_round :: "analysis_round option"
  task_strategy :: "string option"
  task_evidence_scope :: "payload option"
  task_expected_discriminator :: "string option"
  task_information_gap :: "string option"
  task_runtime_run_id :: "ident option"
  task_critic_assessment_id :: "ident option"
  task_created_at :: instant
  task_started_at :: "instant option"
  task_completed_at :: "instant option"

definition diagnosis_task_fields :: "diagnosis_task \<Rightarrow> bool" where
  "diagnosis_task_fields t =
     (bounded_length 1 128 (task_title t) \<and> bounded_length 1 512 (task_description t)
      \<and> length (task_tool_names t) \<le> 9 \<and> 0 \<le> task_priority t
      \<and> opt_max 128 (task_strategy t) \<and> opt_max 256 (task_expected_discriminator t)
      \<and> opt_max 256 (task_information_gap t))"

definition validate_diagnosis_task :: "diagnosis_task \<Rightarrow> unit result" where
  "validate_diagnosis_task t =
     (if \<not> diagnosis_task_fields t then Inl field_error
      else if task_type_of t \<noteq> Task_GENERAL_INVESTIGATION then
        (if task_critic_assessment_id t \<noteq> None \<and> task_analysis_round t \<noteq> Some Round_2
         then Inl (ValueError ''critic_assessment_id requires round two'') else Inr ())
      else raise_first
        [(task_runtime_run_id t = None,
            ValueError ''general investigation task requires runtime_run_id''),
         (task_analysis_round t = None,
            ValueError ''general investigation task requires analysis_round''),
         (task_analysis_round t = Some Round_2 \<and> task_critic_assessment_id t = None,
            ValueError ''round two task requires critic_assessment_id''),
         (task_analysis_round t = Some Round_1 \<and> task_critic_assessment_id t \<noteq> None,
            ValueError ''round one task cannot use critic_assessment_id''),
         (absent (task_evidence_scope t) \<and> absent (task_information_gap t),
            ValueError ''general investigation task requires evidence_scope or information_gap'')])"

record diagnosis_plan =
  plan_id :: ident
  plan_investigation_id :: ident
  plan_tasks :: "diagnosis_task list"
  plan_runtime_run_id :: "ident option"
  plan_lead_decision :: "lead_decision option"
  plan_created_at :: instant

text \<open>
  \<open>planned_tasks[task_id].expected_discriminator\<close> for every task a TEST decision names;
  the dictionary keeps the last task of an id.  The subset check before it makes every
  lookup succeed.
\<close>

definition lacks_discriminator :: "diagnosis_task list \<Rightarrow> ident \<Rightarrow> bool" where
  "lacks_discriminator tasks i =
     (case dict_get (dict_put_all task_id tasks []) i of
        None \<Rightarrow> True
      | Some t \<Rightarrow> (case task_expected_discriminator t of
                     None \<Rightarrow> True | Some s \<Rightarrow> strip s = []))"

definition validate_v11_plan :: "diagnosis_plan \<Rightarrow> unit result" where
  "validate_v11_plan p =
     (case plan_runtime_run_id p of
        None \<Rightarrow>
          (if plan_lead_decision p \<noteq> None
              \<or> list_ex (\<lambda>t. task_runtime_run_id t \<noteq> None) (plan_tasks p)
           then Inl (ValueError ''V11 plan requires runtime_run_id'') else Inr ())
      | Some owner \<Rightarrow>
          and_then (raise_first
            [(3 < length (plan_tasks p), ValueError ''V11 plan allows at most three tasks''),
             (list_ex (\<lambda>t. 9 < length (task_tool_names t)) (plan_tasks p),
                ValueError ''V11 task tool_names must contain at most nine tools''),
             (list_ex (\<lambda>t. task_runtime_run_id t \<noteq> Some owner) (plan_tasks p),
                ValueError ''V11 plan tasks must share runtime_run_id'')])
            (\<lambda>_. case plan_lead_decision p of
                None \<Rightarrow> Inr ()
              | Some d \<Rightarrow> raise_first
                  [(ld_action d = Lead_CONCLUDE, ValueError ''planning cannot conclude''),
                   (\<not> set (ld_task_ids d) \<subseteq> set (map task_id (plan_tasks p)),
                      ValueError ''Lead decision references a task outside the plan''),
                   (ld_action d = Lead_TEST
                      \<and> list_ex (lacks_discriminator (plan_tasks p)) (ld_task_ids d),
                      ValueError ''test tasks require expected_discriminator'')]))"

text \<open>Construction of a plan: its parts are validated first.\<close>

definition validate_diagnosis_plan :: "diagnosis_plan \<Rightarrow> unit result" where
  "validate_diagnosis_plan p =
     and_then (check_all validate_diagnosis_task (plan_tasks p))
       (\<lambda>_. and_then (case plan_lead_decision p of None \<Rightarrow> Inr () | Some d \<Rightarrow> validate_lead_decision d)
         (\<lambda>_. validate_v11_plan p))"

record agent_execution =
  ex_id :: ident
  ex_task_id :: ident
  ex_agent_name :: string
  ex_runtime_run_id :: "ident option"
  ex_owner_field_set :: bool  \<comment> \<open>\<open>"runtime_run_id" in model_fields_set\<close>\<close>
  ex_status :: execution_status
  ex_execution_layer :: agent_execution_layer
  ex_analysis_round :: "analysis_round option"
  ex_step_kind :: "execution_step_kind option"
  ex_attempt :: int
  ex_runtime_attempt_id :: "ident option"
  ex_resume_from_execution_id :: "ident option"
  ex_failure_category :: agent_failure_category
  ex_result_validation_category :: "result_validation_category option"
  ex_model_provider :: "model_provider option"
  ex_model_name :: "string option"
  ex_tool_call_ids :: "ident list"
  ex_evidence_ids :: "ident list"
  ex_summary :: "string option"
  ex_error_message :: "string option"
  ex_started_at :: "instant option"
  ex_completed_at :: "instant option"
  ex_deadline_at :: "instant option"
  ex_input_tokens :: int
  ex_output_tokens :: int
  ex_duration_ms :: int

definition agent_execution_fields :: "agent_execution \<Rightarrow> bool" where
  "agent_execution_fields x =
     (1 \<le> ex_attempt x \<and> 0 \<le> ex_input_tokens x \<and> 0 \<le> ex_output_tokens x
      \<and> 0 \<le> ex_duration_ms x)"

definition is_v11_step :: "agent_execution \<Rightarrow> bool" where
  "is_v11_step x =
     (ex_step_kind x \<in> {Some Step_LEAD_PLANNING, Some Step_INVESTIGATOR_ANALYSIS,
                         Some Step_CRITIC_REVIEW, Some Step_LEAD_ADJUDICATION}
      \<or> (ex_step_kind x = Some Step_RESULT_VALIDATION
          \<and> (ex_analysis_round x \<noteq> None \<or> ex_owner_field_set x)))"

definition validate_agent_execution :: "agent_execution \<Rightarrow> unit result" where
  "validate_agent_execution x = raise_first
     [(\<not> agent_execution_fields x, field_error),
      ((ex_agent_name x \<in> set (map execution_actor_value [Actor_LEAD, Actor_INVESTIGATOR, Actor_CRITIC])
          \<or> is_v11_step x) \<and> ex_runtime_run_id x = None,
         ValueError ''V11 execution requires runtime_run_id'')]"

end
