(* ===== verification/Execution_Contract.thy ===== *)
theory Execution_Contract
  imports Event_Payload Canonical_Json Agent_Models
begin

text \<open>
  The sealed V11 execution contract (\<open>backend/domain/runtime.py\<close>): how it is built from the
  provider-neutral inputs, sealed with a digest and validated, and how a \<open>RuntimeRun\<close> checks
  that its own fields agree with the contract it carries.
\<close>

abbreviation v11_default_max_turns :: int where "v11_default_max_turns \<equiv> 16"
abbreviation v11_max_model_corrections :: int where "v11_max_model_corrections \<equiv> 3"
abbreviation v11_max_investigators :: int where "v11_max_investigators \<equiv> 3"
abbreviation v11_max_rounds :: int where "v11_max_rounds \<equiv> 2"
abbreviation v11_run_deadline :: rat where "v11_run_deadline \<equiv> 300"

definition multi_topology_mode :: string where
  "multi_topology_mode = ''multi_lead_investigators_critic''"

definition single_topology_mode :: string where
  "single_topology_mode = ''single_one_context''"

definition contract_digest_key :: string where
  "contract_digest_key = ''execution_contract_digest''"

definition v11_contract_required_keys :: "string list" where
  "v11_contract_required_keys =
     [''execution_contract_version'', ''authority_mode'', ''model_provider'', ''model_name'',
      ''prompt_version'', ''api_mode'', ''endpoint_id'', ''capability_artifact_hash'',
      ''tool_manifest'', ''tool_manifest_hash'', ''skill_catalog'', ''capability_identity'',
      ''limits'', ''topology'', ''retry_policy'', ''tool_budget'', ''token_budget'',
      ''timeout_seconds'', contract_digest_key]"

definition v11_capability_keys :: "string list" where
  "v11_capability_keys = [''provider'', ''model'', ''api_mode'', ''endpoint_id'', ''artifact_hash'']"

definition v11_limit_keys :: "string list" where
  "v11_limit_keys = [''max_turns'', ''max_investigators'', ''max_rounds'', ''token_budget'',
     ''max_tool_calls_per_specialist'', ''tool_timeout_seconds'']"

definition v11_topology_keys :: "string list" where
  "v11_topology_keys = [''mode'', ''one_context'', ''critic'', ''subagent'', ''hidden_model_calls'']"

definition v11_retry_policy :: payload where
  "v11_retry_policy =
     [(''max_retries'', PInt 1),
      (''retryable_categories'', PList [PStr ''transport'', PStr ''rate_limit'']),
      (''provider_max_retries'', PInt 0), (''sdk_max_retries'', PInt 0)]"

section \<open>Digest and seal\<close>

definition execution_contract_digest :: "digest_ext \<Rightarrow> payload \<Rightarrow> string result" where
  "execution_contract_digest ext contract =
     json_digest ext False False
       (pdict (filter (\<lambda>(k, v). k \<noteq> contract_digest_key) contract))"

definition seal_v11_execution_contract :: "digest_ext \<Rightarrow> payload \<Rightarrow> payload result" where
  "seal_v11_execution_contract ext contract =
     and_then (execution_contract_digest ext contract)
       (\<lambda>h. Inr (dict_put contract contract_digest_key (PStr h)))"

definition v11_tool_manifest_hash :: "digest_ext \<Rightarrow> string list \<Rightarrow> string result" where
  "v11_tool_manifest_hash ext manifest = json_digest ext True True (PList (map PStr manifest))"

section \<open>Building a contract\<close>

record contract_input =
  ci_model_provider :: "string option"
  ci_model_name :: "string option"
  ci_prompt_version :: "string option"
  ci_api_mode :: string
  ci_endpoint_id :: "string option"
  ci_capability_artifact_hash :: "string option"
  ci_structured_output_transport :: string
  ci_tool_manifest :: "string list"
  ci_tool_manifest_hash :: "string option"
  ci_skill_catalog :: payload
  ci_max_turns :: int
  ci_max_investigators :: int
  ci_max_rounds :: int
  ci_token_budget :: int
  ci_max_tool_calls_per_specialist :: int
  ci_tool_timeout_seconds :: rat
  ci_tool_budget :: int
  ci_timeout_seconds :: rat
  ci_topology_mode :: "string option"
  ci_retry_policy :: payload

text \<open>The field constraints of \<open>V11ExecutionContractInput\<close>.\<close>

definition contract_input_fields :: "contract_input \<Rightarrow> bool" where
  "contract_input_fields i =
     (ci_structured_output_transport i \<in> {''native_json_schema'', ''strict_output_tool''}
      \<and> 1 \<le> ci_max_turns i \<and> 1 \<le> ci_max_investigators i
      \<and> ci_max_investigators i \<le> v11_max_investigators
      \<and> 1 \<le> ci_max_rounds i \<and> ci_max_rounds i \<le> v11_max_rounds
      \<and> 0 < ci_token_budget i \<and> 1 \<le> ci_max_tool_calls_per_specialist i
      \<and> 0 < ci_tool_timeout_seconds i \<and> 0 < ci_tool_budget i \<and> 0 < ci_timeout_seconds i
      \<and> ci_timeout_seconds i \<le> v11_run_deadline
      \<and> (case ci_topology_mode i of None \<Rightarrow> True
         | Some m \<Rightarrow> m \<in> {multi_topology_mode, single_topology_mode}))"

definition opt_str :: "string option \<Rightarrow> pyval" where
  "opt_str x = (case x of None \<Rightarrow> PNone | Some s \<Rightarrow> PStr s)"

definition opt_int :: "int option \<Rightarrow> pyval" where
  "opt_int x = (case x of None \<Rightarrow> PNone | Some i \<Rightarrow> PInt i)"

definition chosen_topology_mode :: "contract_input \<Rightarrow> string" where
  "chosen_topology_mode i =
     (case ci_topology_mode i of
        Some m \<Rightarrow> m
      | None \<Rightarrow> if ci_max_rounds i = v11_max_rounds \<and> 2 \<le> ci_max_investigators i
                then multi_topology_mode else single_topology_mode)"

definition topology_flags :: "contract_input \<Rightarrow> (bool \<times> bool) result" where
  "topology_flags i =
     (let mode = chosen_topology_mode i in
      if mode = multi_topology_mode then
        (if ci_max_investigators i < 2 \<or> ci_max_rounds i \<noteq> v11_max_rounds
         then Inl (ValueError ''V11 multi topology requires investigators and two rounds'')
         else Inr (False, True))
      else if mode = single_topology_mode then
        (if ci_max_investigators i \<noteq> 1 \<or> ci_max_rounds i \<noteq> 1
         then Inl (ValueError ''V11 single topology requires one context and one round'')
         else Inr (True, False))
      else Inl (ValueError ''V11 topology mode is not frozen''))"

definition contract_body :: "contract_input \<Rightarrow> string \<Rightarrow> bool \<Rightarrow> bool \<Rightarrow> payload" where
  "contract_body i manifest_hash one_context critic =
     (let retry = dict_put (dict_put (ci_retry_policy i) ''model_max_retries'' (PInt 3))
                    ''model_max_corrections'' (PInt v11_max_model_corrections)
      in [(''diagnosis_contract_revision'', PInt 2),
          (''execution_contract_version'', PStr (contract_version_value Version_V11)),
          (''authority_mode'', PStr (authority_mode_value Authority_AGENT)),
          (''model_provider'', opt_str (ci_model_provider i)),
          (''model_name'', opt_str (ci_model_name i)),
          (''prompt_version'', opt_str (ci_prompt_version i)),
          (''api_mode'', PStr (ci_api_mode i)),
          (''endpoint_id'', opt_str (ci_endpoint_id i)),
          (''capability_artifact_hash'', opt_str (ci_capability_artifact_hash i)),
          (''tool_manifest'', PList (map PStr (ci_tool_manifest i))),
          (''tool_manifest_hash'', PStr manifest_hash),
          (''skill_catalog'', pdict (ci_skill_catalog i)),
          (''capability_identity'', pdict
             [(''provider'', opt_str (ci_model_provider i)),
              (''model'', opt_str (ci_model_name i)),
              (''api_mode'', PStr (ci_api_mode i)),
              (''structured_output_transport'', PStr (ci_structured_output_transport i)),
              (''endpoint_id'', opt_str (ci_endpoint_id i)),
              (''artifact_hash'', opt_str (ci_capability_artifact_hash i))]),
          (''limits'', pdict
             [(''max_turns'', PInt (ci_max_turns i)),
              (''model_turn_budget_scope'', PStr ''run''),
              (''max_investigators'', PInt (ci_max_investigators i)),
              (''max_rounds'', PInt (ci_max_rounds i)),
              (''token_budget'', PInt (ci_token_budget i)),
              (''max_tool_calls_per_specialist'', PInt (ci_max_tool_calls_per_specialist i)),
              (''tool_timeout_seconds'', PFloat (Finite (ci_tool_timeout_seconds i)))]),
          (''topology'', pdict
             [(''mode'', PStr (chosen_topology_mode i)), (''one_context'', PBool one_context),
              (''critic'', PBool critic), (''subagent'', PBool False),
              (''hidden_model_calls'', PBool False)]),
          (''retry_policy'', pdict retry),
          (''tool_budget'', PInt (ci_tool_budget i)),
          (''token_budget'', PInt (ci_token_budget i)),
          (''timeout_seconds'', PFloat (Finite (ci_timeout_seconds i)))])"

definition build_v11_execution_contract :: "digest_ext \<Rightarrow> contract_input \<Rightarrow> payload result" where
  "build_v11_execution_contract ext i =
     and_then (raise_first
       [(\<not> contract_input_fields i, field_error),
        (ci_tool_manifest i = [] \<or> \<not> distinct (ci_tool_manifest i),
           ValueError ''V11 tool manifest must be non-empty and unique'')]) (\<lambda>_.
     and_then (v11_tool_manifest_hash ext (ci_tool_manifest i)) (\<lambda>h.
     and_then (raise_first
       [(case ci_tool_manifest_hash i of None \<Rightarrow> False | Some g \<Rightarrow> g \<noteq> h,
           ValueError ''V11 tool manifest hash does not match manifest'')]) (\<lambda>_.
     and_then (topology_flags i) (\<lambda>(one_context, critic).
       seal_v11_execution_contract ext (contract_body i h one_context critic)))))"

section \<open>Validating a contract\<close>

text \<open>\<open>value != other\<close> and \<open>value is not True\<close>.\<close>

abbreviation py_ne :: "pyval \<Rightarrow> pyval \<Rightarrow> bool" where
  "py_ne v w \<equiv> \<not> py_eq v w"

text \<open>\<open>value not in frozenset({...})\<close> of strings: a list or dictionary is unhashable.\<close>

definition in_strings :: "pyval \<Rightarrow> string list \<Rightarrow> bool result" where
  "in_strings v xs =
     (case v of
        PList _ \<Rightarrow> Inl (TypeError ''unhashable type: list'')
      | PDict _ \<Rightarrow> Inl (TypeError ''unhashable type: dict'')
      | PStr s \<Rightarrow> Inr (s \<in> set xs)
      | _ \<Rightarrow> Inr False)"

text \<open>\<open>set(value)\<close>: the elements of a list, the keys of a dictionary, the characters of a
  string; anything else is not iterable, and an unhashable element is refused.\<close>

fun py_set :: "pyval \<Rightarrow> pyval list result" where
  "py_set (PList xs) =
     (if list_all hashable xs then Inr xs else Inl (TypeError ''unhashable type''))"
| "py_set (PDict d) = Inr (map fst d)"
| "py_set (PStr s) = Inr (map (\<lambda>c. PStr [c]) s)"
| "py_set _ = Inl (TypeError ''object is not iterable'')"

definition topology_limits_invalid :: "pyval \<Rightarrow> pyval \<Rightarrow> bool" where
  "topology_limits_invalid investigators rounds =
     (case (as_strict_int investigators, as_strict_int rounds) of
        (Some n, Some r) \<Rightarrow> \<not> (1 \<le> n \<and> n \<le> v11_max_investigators) \<or> r \<notin> {1, v11_max_rounds}
      | _ \<Rightarrow> True)"

definition validate_v11_topology :: "payload \<Rightarrow> payload \<Rightarrow> unit result" where
  "validate_v11_topology contract limits =
     (case get_or_none contract ''topology'' of
        PDict d \<Rightarrow>
          if set (map fst d) \<noteq> PStr ` set v11_topology_keys
          then Inl (ValueError ''V11 execution contract topology is incomplete'')
          else (let topology = string_items d;
                    flag = get_or_none topology;
                    investigators = get_or_none limits ''max_investigators'';
                    rounds = get_or_none limits ''max_rounds'' in
            and_then (in_strings (flag ''mode'') [multi_topology_mode, single_topology_mode]) (\<lambda>known.
            and_then (raise_first
              [(\<not> known, ValueError ''V11 execution contract topology mode is not frozen''),
               (flag ''subagent'' \<noteq> PBool False,
                  ValueError ''V11 execution contract subagent topology is forbidden''),
               (flag ''hidden_model_calls'' \<noteq> PBool False,
                  ValueError ''V11 execution contract hidden model calls are forbidden''),
               (topology_limits_invalid investigators rounds,
                  ValueError ''V11 execution contract topology limits are invalid'')]) (\<lambda>_.
            if flag ''mode'' = PStr single_topology_mode then raise_first
              [(flag ''one_context'' \<noteq> PBool True \<or> flag ''critic'' \<noteq> PBool False,
                  ValueError ''V11 single topology flags are inconsistent''),
               (\<not> (investigators = PInt 1 \<and> rounds = PInt 1),
                  ValueError ''V11 single topology requires one context and one round'')]
            else raise_first
              [(flag ''one_context'' \<noteq> PBool False \<or> flag ''critic'' \<noteq> PBool True,
                  ValueError ''V11 multi topology flags are inconsistent''),
               (\<not> (investigators \<in> {PInt 2, PInt 3} \<and> rounds = PInt v11_max_rounds),
                  ValueError ''V11 multi topology requires investigators and two rounds'')])))
      | _ \<Rightarrow> Inl (ValueError ''V11 execution contract topology is incomplete''))"

definition revision_two_retries_bad :: "payload \<Rightarrow> payload \<Rightarrow> bool" where
  "revision_two_retries_bad contract retry =
     (py_eq (get_or contract ''diagnosis_contract_revision'' (PInt 1)) (PInt 2)
      \<and> (py_ne (get_or_none retry ''model_max_retries'') (PInt 3)
         \<or> (case as_strict_int (get_or_none retry ''model_max_corrections'') of
              None \<Rightarrow> True | Some n \<Rightarrow> \<not> (1 \<le> n \<and> n \<le> v11_max_model_corrections))))"

definition validate_v11_retries :: "payload \<Rightarrow> unit result" where
  "validate_v11_retries retry =
     and_then (raise_first
       [(py_ne (get_or_none retry ''max_retries'') (PInt 1),
           ValueError ''V11 retry policy max_retries must be one'')]) (\<lambda>_.
     and_then (py_set (get_or retry ''retryable_categories'' (PList []))) (\<lambda>categories.
     raise_first
       [(set categories \<noteq> {PStr ''transport'', PStr ''rate_limit''},
           ValueError ''V11 retry policy categories are not frozen''),
        (py_ne (get_or_none retry ''provider_max_retries'') (PInt 0),
           ValueError ''V11 provider retries must be disabled''),
        (py_ne (get_or_none retry ''sdk_max_retries'') (PInt 0),
           ValueError ''V11 SDK retries must be disabled'')]))"

definition validate_v11_sections ::
    "payload \<Rightarrow> payload \<Rightarrow> payload \<Rightarrow> unit result" where
  "validate_v11_sections contract limits retry =
     and_then (raise_first
       [(revision_two_retries_bad contract retry,
           ValueError ''revision 2 requires bounded model retries and corrections'')]) (\<lambda>_.
     and_then (validate_v11_topology contract limits) (\<lambda>_.
     and_then (raise_first
       [(get_or_none contract ''token_budget'' = PNone \<or> get_or_none limits ''token_budget'' = PNone,
           ValueError ''V11 execution contract token ceiling is missing''),
        (py_ne (get_or_none limits ''token_budget'') (get_or_none contract ''token_budget''),
           ValueError ''V11 execution contract token ceiling mismatch''),
        (get_or_none contract ''max_tool_calls_per_specialist'' \<noteq> PNone,
           ValueError ''V11 specialist limit must be nested under limits'')]) (\<lambda>_.
     validate_v11_retries retry)))"

definition has_keys :: "payload \<Rightarrow> string list \<Rightarrow> bool" where
  "has_keys d ks = list_all (\<lambda>k. k \<in> set (dict_keys d)) ks"

definition validate_v11_execution_contract :: "digest_ext \<Rightarrow> payload \<Rightarrow> unit result" where
  "validate_v11_execution_contract ext contract =
     and_then (raise_first
       [(\<not> has_keys contract v11_contract_required_keys,
           ValueError ''V11 execution contract is incomplete'')]) (\<lambda>_.
     and_then (execution_contract_digest ext contract) (\<lambda>digest.
     and_then (raise_first
       [(get_or_none contract contract_digest_key \<noteq> PStr digest,
           ValueError ''V11 execution contract digest mismatch''),
        (get_or_none contract ''execution_contract_version'' \<noteq> PStr (contract_version_value Version_V11),
           ValueError ''V11 execution contract version mismatch''),
        (get_or_none contract ''authority_mode'' \<noteq> PStr (authority_mode_value Authority_AGENT),
           ValueError ''V11 execution contract authority mismatch'')]) (\<lambda>_.
     case as_dict (get_or_none contract ''capability_identity'') of
       None \<Rightarrow> Inl (ValueError ''V11 execution contract capability identity is incomplete'')
     | Some capability \<Rightarrow>
         if \<not> has_keys capability v11_capability_keys
         then Inl (ValueError ''V11 execution contract capability identity is incomplete'')
         else (case as_dict (get_or_none contract ''limits'') of
           None \<Rightarrow> Inl (ValueError ''V11 execution contract limits are incomplete'')
         | Some limits \<Rightarrow>
             and_then (raise_first
               [(\<not> has_keys limits v11_limit_keys,
                   ValueError ''V11 execution contract limits are incomplete''),
                (get_or limits ''model_turn_budget_scope'' (PStr ''run'') \<noteq> PStr ''run'',
                   ValueError ''V11 model turn budget scope must be run''),
                (as_dict (get_or_none contract ''skill_catalog'') = None,
                   ValueError ''V11 execution contract skill catalog is incomplete'')]) (\<lambda>_.
             case as_dict (get_or_none contract ''retry_policy'') of
               None \<Rightarrow> Inl (ValueError ''V11 execution contract retry policy is incomplete'')
             | Some retry \<Rightarrow> validate_v11_sections contract limits retry)))))"

section \<open>Contract values\<close>

definition prohibited_contract_keys :: "string list" where
  "prohibited_contract_keys = [''api_key'', ''authorization'', ''credential'', ''password'',
     ''secret'', ''prompt'', ''reasoning'']"

fun validate_contract_value :: "string \<Rightarrow> pyval \<Rightarrow> unit result"
  and validate_contract_list :: "string \<Rightarrow> nat \<Rightarrow> pyval list \<Rightarrow> unit result"
  and validate_contract_items :: "string \<Rightarrow> (pyval \<times> pyval) list \<Rightarrow> unit result"
where
  "validate_contract_value path (PFloat f) =
     (if isfinite f then Inr () else Inl (ValueError (path @ '' contains a non-finite number'')))"
| "validate_contract_value path (PList xs) =
     (if 64 < length xs then Inl (ValueError (path @ '' exceeds the maximum item count''))
      else validate_contract_list path 0 xs)"
| "validate_contract_value path (PDict d) =
     (if 64 < length d then Inl (ValueError (path @ '' exceeds the maximum item count''))
      else validate_contract_items path d)"
| "validate_contract_value path (POther t) =
     Inl (ValueError (path @ '' contains an unsupported value''))"
| "validate_contract_value path v = Inr ()"
| "validate_contract_list path index [] = Inr ()"
| "validate_contract_list path index (x # xs) =
     and_then (validate_contract_value (path @ ''['' @ show_nat index @ '']'') x)
       (\<lambda>_. validate_contract_list path (Suc index) xs)"
| "validate_contract_items path [] = Inr ()"
| "validate_contract_items path ((k, v) # d) =
     (case k of
        PStr key \<Rightarrow>
          if key = [] \<or> 64 < length key
          then Inl (ValueError (path @ '' contains an invalid key''))
          else if replace_char CHR ''-'' CHR ''_'' (lower key) \<in> set prohibited_contract_keys
          then Inl (ValueError (path @ '' contains prohibited key: '' @ key))
          else and_then (validate_contract_value (path @ ''.'' @ key) v)
                 (\<lambda>_. validate_contract_items path d)
      | _ \<Rightarrow> Inl (ValueError (path @ '' contains an invalid key'')))"

section \<open>The run and its contract\<close>

definition legacy_contract :: "runtime_run \<Rightarrow> payload" where
  "legacy_contract run =
     [(''execution_contract_version'', PStr (contract_version_value Version_V10_LEGACY)),
      (''authority_mode'', PStr (authority_mode_value Authority_LEGACY_DETERMINISTIC)),
      (''run_kind'', PStr (run_kind_value (run_kind_of run))),
      (''run_reason'', PStr (run_reason_value (run_reason_of run))),
      (''strategy'', PStr (strategy_value (run_strategy run))),
      (''model_provider'', opt_str (map_option model_provider_value (run_model_provider run))),
      (''model_name'', opt_str (run_model_name run)),
      (''prompt_version'', opt_str (run_prompt_version run)),
      (''tool_budget'', opt_int (run_tool_budget run)),
      (''token_budget'', opt_int (run_token_budget run)),
      (''timeout_seconds'', PFloat (Finite (run_timeout_seconds run)))]"

text \<open>The budget the contract grants: nested under \<open>limits\<close>, else at the top level.\<close>

definition contract_turn_budget :: "payload \<Rightarrow> pyval" where
  "contract_turn_budget contract =
     (case as_dict (get_or_none contract ''limits'') of
        Some limits \<Rightarrow> get_or_none limits ''max_turns''
      | None \<Rightarrow> get_or contract ''max_turns'' (PInt v11_default_max_turns))"

definition usable_turn_budget :: "pyval \<Rightarrow> int option" where
  "usable_turn_budget v =
     (case as_int v of Some n \<Rightarrow> if 1 \<le> n then Some n else None | None \<Rightarrow> None)"

definition run_identity_keys :: "string list" where
  "run_identity_keys = [''model_provider'', ''model_name'', ''prompt_version'', ''tool_budget'',
     ''token_budget'', ''timeout_seconds'']"

text \<open>
  The V11 branch of \<open>validate_execution_identity\<close>; \<open>turns_given\<close> says that the caller set
  \<open>remaining_model_turns\<close> explicitly.
\<close>

definition validate_v11_identity :: "digest_ext \<Rightarrow> bool \<Rightarrow> runtime_run \<Rightarrow> runtime_run result" where
  "validate_v11_identity ext turns_given run =
     (let contract = run_execution_contract run;
          sealed = contract_digest_key \<in> set (dict_keys contract) in
      and_then (raise_first
        [(run_authority_mode run \<noteq> Authority_AGENT,
            ValueError ''V11 runs require agent authority''),
         (run_token_budget run = None \<or> get_or_none contract ''token_budget'' = PNone,
            ValueError ''V11 runs require a non-None token_budget''),
         (\<not> has_keys contract run_identity_keys,
            ValueError ''V11 execution contract is incomplete''),
         (run_timeout_seconds run > v11_run_deadline,
            ValueError ''V11 timeout_seconds exceeds the hard deadline''),
         (usable_turn_budget (contract_turn_budget contract) = None \<and> sealed,
            ValueError ''V11 execution contract model-turn budget is missing'')]) (\<lambda>_.
      let budget = (case usable_turn_budget (contract_turn_budget contract) of
                      Some n \<Rightarrow> n | None \<Rightarrow> v11_default_max_turns) in
      and_then (case run_remaining_model_turns run of
          None \<Rightarrow> if sealed \<and> turns_given
                  then Inl (ValueError ''V11 persisted remaining model turns are missing'')
                  else Inr (run\<lparr>run_remaining_model_turns := Some budget\<rparr>)
        | Some n \<Rightarrow> if budget < n
                  then Inl (ValueError ''V11 remaining model turns exceed frozen run budget'')
                  else Inr run) (\<lambda>run'.
      if sealed then and_then (validate_v11_execution_contract ext contract) (\<lambda>_. Inr run')
      else Inr run')))"

definition identity_field :: "runtime_run \<Rightarrow> string \<Rightarrow> pyval" where
  "identity_field run f =
     (if f = ''model_provider'' then opt_str (map_option model_provider_value (run_model_provider run))
      else if f = ''model_name'' then opt_str (run_model_name run)
      else if f = ''prompt_version'' then opt_str (run_prompt_version run)
      else if f = ''tool_budget'' then opt_int (run_tool_budget run)
      else if f = ''token_budget'' then opt_int (run_token_budget run)
      else PFloat (Finite (run_timeout_seconds run)))"

definition identity_field_check :: "runtime_run \<Rightarrow> string \<Rightarrow> unit result" where
  "identity_field_check run f =
     (case dict_get (run_execution_contract run) f of
        None \<Rightarrow> Inr ()
      | Some actual \<Rightarrow> raise_first
          [(py_ne actual (identity_field run f),
              ValueError (''execution contract projection mismatch: '' @ f))])"

definition validate_execution_identity ::
    "digest_ext \<Rightarrow> bool \<Rightarrow> runtime_run \<Rightarrow> runtime_run result" where
  "validate_execution_identity ext turns_given run0 =
     (let run = (if run_execution_contract run0 = []
                 then run0\<lparr>run_execution_contract := legacy_contract run0\<rparr> else run0);
          contract = run_execution_contract run in
      and_then (validate_contract_value ''execution_contract'' (pdict contract)) (\<lambda>_.
      and_then (if is_v11 run then validate_v11_identity ext turns_given run
                else and_then (raise_first
                  [(run_authority_mode run \<noteq> Authority_LEGACY_DETERMINISTIC,
                      ValueError ''legacy execution contracts require legacy authority'')])
                  (\<lambda>_. Inr run)) (\<lambda>run'.
      and_then (raise_first
        [(get_or_none contract ''execution_contract_version'' \<noteq> PNone
            \<and> get_or_none contract ''execution_contract_version''
                \<noteq> PStr (contract_version_value (run_contract_version run)),
            ValueError ''execution contract version mismatch''),
         (get_or_none contract ''authority_mode'' \<noteq> PNone
            \<and> get_or_none contract ''authority_mode''
                \<noteq> PStr (authority_mode_value (run_authority_mode run)),
            ValueError ''execution contract authority mismatch'')]) (\<lambda>_.
      and_then (check_all (identity_field_check run) run_identity_keys) (\<lambda>_. Inr run')))))"

definition str_contains :: "string \<Rightarrow> string \<Rightarrow> bool" where
  "str_contains s t = list_ex (\<lambda>i. take (length t) (drop i s) = t) [0..<Suc (length s)]"

definition validate_public_metadata :: "string option \<Rightarrow> unit result" where
  "validate_public_metadata v =
     (case v of
        None \<Rightarrow> Inr ()
      | Some s \<Rightarrow>
          if 160 < length s then Inl field_error
          else if \<not> safe_identifier s \<or> str_contains s ''://'' \<or> redact_text s \<noteq> s
          then Inl (ValueError ''runtime metadata must be a safe bounded identifier'')
          else Inr ())"

definition run_fields :: "runtime_run \<Rightarrow> bool" where
  "run_fields r =
     ((case run_tool_budget r of None \<Rightarrow> True | Some n \<Rightarrow> 0 \<le> n)
      \<and> (case run_token_budget r of None \<Rightarrow> True | Some n \<Rightarrow> 0 \<le> n)
      \<and> (case run_remaining_model_turns r of None \<Rightarrow> True | Some n \<Rightarrow> 0 \<le> n)
      \<and> 1 \<le> run_timeout_seconds r \<and> 0 \<le> run_lease_version r)"

text \<open>Construction of a \<open>RuntimeRun\<close>.\<close>

definition validate_runtime_run ::
    "digest_ext \<Rightarrow> bool \<Rightarrow> runtime_run \<Rightarrow> runtime_run result" where
  "validate_runtime_run ext turns_given run =
     and_then (validate_public_metadata (run_model_name run)) (\<lambda>_.
     and_then (validate_public_metadata (run_prompt_version run)) (\<lambda>_.
     and_then (raise_first [(\<not> run_fields run, field_error)]) (\<lambda>_.
     and_then (validate_lineage run) (\<lambda>_.
     validate_execution_identity ext turns_given run))))"

text \<open>\<open>RuntimeRun.create_new\<close>: a new V11 run receives the whole budget of its contract.\<close>

definition create_new :: "digest_ext \<Rightarrow> runtime_run \<Rightarrow> runtime_run result" where
  "create_new ext data =
     (if is_v11 data \<and> run_remaining_model_turns data = None
      then validate_runtime_run ext True (data\<lparr>run_remaining_model_turns := Some
             (case usable_turn_budget (contract_turn_budget (run_execution_contract data)) of
                Some n \<Rightarrow> n | None \<Rightarrow> v11_default_max_turns)\<rparr>)
      else validate_runtime_run ext (run_remaining_model_turns data \<noteq> None) data)"

text \<open>\<open>RuntimeRun.from_persisted\<close>: a persisted V11 run states its remaining turns.\<close>

definition from_persisted :: "digest_ext \<Rightarrow> runtime_run \<Rightarrow> runtime_run result" where
  "from_persisted ext payload =
     (if is_v11 payload \<and> run_remaining_model_turns payload = None
      then Inl (ValueError ''persisted remaining model turns are missing'')
      else validate_runtime_run ext (run_remaining_model_turns payload \<noteq> None) payload)"

end
