(* ===== verification/Finding_Models.thy ===== *)
theory Finding_Models
  imports Agent_Models "HOL-Library.Multiset"
begin

text \<open>
  Findings, causal checks, critic assessments, root-cause candidates, the final decision
  and the coordination review (\<open>backend/domain/agent_findings.py\<close>), with their
  validators and the review's publication order.
\<close>

section \<open>Findings\<close>

datatype finding_actor = FActor_LOG | FActor_METRIC | FActor_DEPLOYMENT | FActor_INVESTIGATOR

datatype finding_type = Find_SIGNAL | Find_ROOT_CAUSE | Find_CONTRADICTION | Find_GAP

datatype finding_severity = Sev_LOW | Sev_MEDIUM | Sev_HIGH

record agent_finding =
  fd_id :: ident
  fd_investigation_id :: ident
  fd_agent_name :: finding_actor
  fd_agent_instance_id :: "string option"
  fd_finding_type :: finding_type
  fd_summary :: string
  fd_confidence :: rat
  fd_evidence_ids :: "ident list"
  fd_related_cause_type :: "cause_type option"
  fd_severity :: finding_severity
  fd_rationale :: string
  fd_gaps :: "string list"
  fd_blocking :: bool
  fd_execution_layer :: agent_execution_layer
  fd_analysis_round :: analysis_round
  fd_revises_finding_id :: "ident option"
  fd_task_id :: "ident option"
  fd_runtime_run_id :: "ident option"
  fd_critic_assessment_id :: "ident option"
  fd_affected_entity :: "string option"
  fd_failure_mechanism :: "string option"
  fd_contradicting_evidence_ids :: "ident list"
  fd_created_at :: instant

definition agent_finding_fields :: "agent_finding \<Rightarrow> bool" where
  "agent_finding_fields f =
     (opt_max 128 (fd_agent_instance_id f) \<and> fd_summary f \<noteq> [] \<and> unit_interval (fd_confidence f)
      \<and> opt_max 128 (fd_affected_entity f) \<and> opt_max 512 (fd_failure_mechanism f))"

definition validate_agent_finding :: "agent_finding \<Rightarrow> unit result" where
  "validate_agent_finding f =
     and_then (raise_first
       [(\<not> agent_finding_fields f, field_error),
        (fd_finding_type f \<noteq> Find_GAP \<and> fd_evidence_ids f = [],
           ValueError ''evidence_ids required unless finding_type is gap''),
        (fd_blocking f \<and> (fd_finding_type f \<noteq> Find_GAP \<or> fd_gaps f = []),
           ValueError ''blocking requires a gap finding with gaps''),
        (fd_analysis_round f = Round_1 \<and> fd_revises_finding_id f \<noteq> None,
           ValueError ''round 1 cannot set revises_finding_id'')])
       (\<lambda>_. if fd_agent_name f = FActor_INVESTIGATOR then raise_first
              [(fd_runtime_run_id f = None \<or> fd_task_id f = None,
                  ValueError ''V11 Investigator finding requires run and task ownership''),
               (fd_agent_instance_id f = None,
                  ValueError ''V11 Investigator finding requires agent_instance_id''),
               (fd_analysis_round f = Round_2 \<and> fd_critic_assessment_id f = None,
                  ValueError ''V11 round 2 requires critic_assessment_id'')]
            else raise_first
              [(fd_analysis_round f = Round_2 \<and> fd_revises_finding_id f = None,
                  ValueError ''round 2 requires revises_finding_id'')])"

section \<open>Causal checks and critic assessments\<close>

record causal_check =
  cc_name :: causal_check_name
  cc_status :: causal_check_status
  cc_summary :: string
  cc_evidence_ids :: "ident list"
  cc_gap :: "string option"

definition causal_check_fields :: "causal_check \<Rightarrow> bool" where
  "causal_check_fields c =
     (bounded_length 1 256 (cc_summary c) \<and> length (cc_evidence_ids c) \<le> 32
      \<and> opt_max 256 (cc_gap c))"

definition validate_causal_check :: "causal_check \<Rightarrow> unit result" where
  "validate_causal_check c =
     (if \<not> causal_check_fields c then Inl field_error
      else if cc_status c \<in> {Check_PASS, Check_FAIL} then raise_first
        [(cc_evidence_ids c = [], ValueError ''pass and fail checks require evidence_ids''),
         (cc_gap c \<noteq> None, ValueError ''pass and fail checks cannot carry a gap'')]
      else raise_first [(absent (cc_gap c), ValueError ''unknown checks require a named gap'')])"

record critic_assessment =
  ca_id :: ident
  ca_candidate_id :: ident
  ca_verdict :: critic_verdict
  ca_checks :: "causal_check list"
  ca_supporting_evidence_ids :: "ident list"
  ca_contradicting_evidence_ids :: "ident list"
  ca_gap :: "string option"
  ca_supplemental_task_ids :: "ident list"
  ca_summary :: string
  ca_runtime_run_id :: "ident option"
  ca_review_round :: analysis_round

definition critic_assessment_fields :: "critic_assessment \<Rightarrow> bool" where
  "critic_assessment_fields a =
     (length (ca_checks a) = 7 \<and> length (ca_supporting_evidence_ids a) \<le> 32
      \<and> length (ca_contradicting_evidence_ids a) \<le> 32 \<and> opt_max 256 (ca_gap a)
      \<and> length (ca_supplemental_task_ids a) \<le> 3 \<and> bounded_length 1 512 (ca_summary a))"

definition validate_critic_assessment :: "critic_assessment \<Rightarrow> unit result" where
  "validate_critic_assessment a =
     (let names = map cc_name (ca_checks a) in
      and_then (check_all validate_causal_check (ca_checks a)) (\<lambda>_.
      and_then (raise_first
        [(\<not> critic_assessment_fields a, field_error),
         (length (remdups names) \<noteq> 7 \<or> set names \<noteq> set all_causal_check_names,
            ValueError ''Critic assessment requires exactly seven named checks'')])
      (\<lambda>_. if ca_verdict a = Critic_NEEDS_EVIDENCE then raise_first
              [(absent (ca_gap a) \<or> ca_supplemental_task_ids a = [],
                  ValueError ''needs_evidence requires a gap and supplemental tasks''),
               (ca_review_round a = Round_2,
                  ValueError ''Critic reconciliation cannot request more evidence'')]
            else raise_first
              [(\<not> absent (ca_gap a) \<or> ca_supplemental_task_ids a \<noteq> [],
                  ValueError ''supplemental work is only valid for needs_evidence'')])))"

section \<open>Candidates and decisions\<close>

record root_cause_candidate =
  rc_id :: ident
  rc_cause_type :: "cause_type option"
  rc_affected_entity :: "string option"
  rc_failure_class :: "string option"
  rc_failure_mechanism :: "string option"
  rc_summary :: string
  rc_rank :: int
  rc_confidence :: rat
  rc_supporting_finding_ids :: "ident list"
  rc_contradicting_finding_ids :: "ident list"
  rc_supporting_evidence_ids :: "ident list"
  rc_contradicting_evidence_ids :: "ident list"
  rc_rationale :: string
  rc_uncertainty :: string
  rc_onset_window_start :: "instant option"
  rc_onset_window_end :: "instant option"

definition root_cause_candidate_fields :: "root_cause_candidate \<Rightarrow> bool" where
  "root_cause_candidate_fields c =
     (opt_max 128 (rc_affected_entity c) \<and> opt_max 128 (rc_failure_class c)
      \<and> opt_max 512 (rc_failure_mechanism c) \<and> rc_summary c \<noteq> [] \<and> 1 \<le> rc_rank c
      \<and> unit_interval (rc_confidence c))"

definition validate_root_cause_candidate :: "root_cause_candidate \<Rightarrow> unit result" where
  "validate_root_cause_candidate c = raise_first
     [(\<not> root_cause_candidate_fields c, field_error),
      (case (rc_onset_window_start c, rc_onset_window_end c) of
         (Some a, Some b) \<Rightarrow> a > b | _ \<Rightarrow> False,
         ValueError ''onset window start must not be later than end'')]"

datatype decision_actor = Decide_critic | Decide_lead | Decide_single

text \<open>\<open>Literal["conclude", "inconclusive"]\<close>, whose strings equal the \<open>LeadAction\<close> values.\<close>

datatype final_action = Final_conclude | Final_inconclusive

fun final_as_lead_action :: "final_action \<Rightarrow> lead_action" where
  "final_as_lead_action Final_conclude = Lead_CONCLUDE"
| "final_as_lead_action Final_inconclusive = Lead_INCONCLUSIVE"

record final_decision =
  fn_actor :: decision_actor
  fn_action :: final_action
  fn_candidate_ids :: "ident list"
  fn_evidence_ids :: "ident list"
  fn_summary :: string
  fn_stop_reason :: "string option"
  fn_uncertainty :: "string option"

definition final_decision_fields :: "final_decision \<Rightarrow> bool" where
  "final_decision_fields d =
     (length (fn_candidate_ids d) \<le> 32 \<and> length (fn_evidence_ids d) \<le> 32
      \<and> bounded_length 1 512 (fn_summary d) \<and> opt_max 256 (fn_stop_reason d)
      \<and> opt_bounded 1 256 (fn_uncertainty d))"

text \<open>
  \<open>str_strip_whitespace\<close>: every string field is stripped before it is checked.
\<close>

definition strip_final_decision :: "final_decision \<Rightarrow> final_decision" where
  "strip_final_decision d =
     d\<lparr>fn_candidate_ids := map strip (fn_candidate_ids d),
       fn_evidence_ids := map strip (fn_evidence_ids d), fn_summary := strip (fn_summary d),
       fn_stop_reason := map_option strip (fn_stop_reason d),
       fn_uncertainty := map_option strip (fn_uncertainty d)\<rparr>"

definition final_decision_contract :: "final_decision \<Rightarrow> unit result" where
  "final_decision_contract d = raise_first
     [(\<not> final_decision_fields d, field_error),
      (\<not> distinct (fn_candidate_ids d), ValueError ''final decision candidate IDs must be unique''),
      (fn_action d = Final_conclude \<and> (fn_candidate_ids d = [] \<or> fn_evidence_ids d = []),
         ValueError ''final conclusion requires candidates and evidence''),
      (fn_action d = Final_inconclusive \<and> (fn_candidate_ids d \<noteq> [] \<or> absent (fn_stop_reason d)),
         ValueError ''inconclusive requires no candidates and a stop reason'')]"

definition validate_final_decision :: "final_decision \<Rightarrow> final_decision result" where
  "validate_final_decision d =
     and_then (final_decision_contract (strip_final_decision d))
       (\<lambda>_. Inr (strip_final_decision d))"

text \<open>\<open>as_lead_decision\<close>: the fields both classes share; the others take their defaults.\<close>

definition as_lead_decision :: "final_decision \<Rightarrow> lead_decision" where
  "as_lead_decision d =
     \<lparr>ld_action = final_as_lead_action (fn_action d), ld_summary = fn_summary d,
      ld_task_ids = [], ld_candidate_ids = fn_candidate_ids d,
      ld_evidence_ids = fn_evidence_ids d, ld_selected_skills = [],
      ld_stop_reason = fn_stop_reason d\<rparr>"

record root_cause_attribution =
  at_occurred_at :: instant
  at_component :: string
  at_reason :: string
  at_supporting_evidence_ids :: "ident list"

text \<open>
  \<open>RootCauseAttribution\<close> strips its strings and requires them to be non-empty; instants of
  the model are timezone-aware, so its timestamp check always passes.
\<close>

definition validate_root_cause_attribution ::
    "root_cause_attribution \<Rightarrow> root_cause_attribution result" where
  "validate_root_cause_attribution a =
     (let a' = a\<lparr>at_component := strip (at_component a), at_reason := strip (at_reason a),
                 at_supporting_evidence_ids := map strip (at_supporting_evidence_ids a)\<rparr>
      in if at_component a' = [] \<or> at_reason a' = [] \<or> at_supporting_evidence_ids a' = []
            \<or> [] \<in> set (at_supporting_evidence_ids a')
         then Inl field_error else Inr a')"

text \<open>Validation of every element of a list, with the validated elements as the result.\<close>

fun validate_each :: "('a \<Rightarrow> 'a result) \<Rightarrow> 'a list \<Rightarrow> 'a list result" where
  "validate_each f [] = Inr []"
| "validate_each f (x # xs) =
     and_then (f x) (\<lambda>y. and_then (validate_each f xs) (\<lambda>ys. Inr (y # ys)))"

section \<open>Coordination review\<close>

record coordination_review =
  rv_id :: ident
  rv_investigation_id :: ident
  rv_candidates :: "root_cause_candidate list"
  rv_root_causes :: "root_cause_attribution list"
  rv_critic_assessments :: "critic_assessment list"
  rv_lead_decision :: "lead_decision option"
  rv_final_decision :: "final_decision option"
  rv_contract_revision :: analysis_round  \<comment> \<open>\<open>Literal[1, 2]\<close>\<close>
  rv_diagnostic_status :: "diagnostic_status option"
  rv_stop_reason :: "string option"
  rv_runtime_run_id :: "ident option"
  rv_authority_mode :: authority_mode
  rv_execution_layer :: agent_execution_layer
  rv_run_status :: multi_agent_run_status
  rv_decision_status :: "coordination_decision_status option"
  rv_baseline_cause_type :: "cause_type option"
  rv_selected_cause_type :: "cause_type option"
  rv_model_provider :: "model_provider option"
  rv_model_name :: "string option"
  rv_primary_stabilization :: "stabilization_category option"
  rv_secondary_stabilization :: "stabilization_category list"
  rv_summary :: string
  rv_uncertainty :: string
  rv_created_at :: instant

text \<open>\<open>decision = self.final_decision or self.lead_decision\<close>, read through the lead's view.\<close>

definition effective_decision :: "coordination_review \<Rightarrow> lead_decision option" where
  "effective_decision r =
     (case rv_final_decision r of
        Some d \<Rightarrow> Some (as_lead_decision d) | None \<Rightarrow> rv_lead_decision r)"

definition accepted_candidate_ids :: "coordination_review \<Rightarrow> ident list" where
  "accepted_candidate_ids r =
     map ca_candidate_id (filter (\<lambda>a. ca_verdict a = Critic_ACCEPT) (rv_critic_assessments r))"

definition published_failed_check :: "coordination_review \<Rightarrow> lead_decision \<Rightarrow> bool" where
  "published_failed_check r d =
     list_ex (\<lambda>a. ca_candidate_id a \<in> set (ld_candidate_ids d)
                  \<and> list_ex (\<lambda>c. cc_status c = Check_FAIL) (ca_checks a))
       (rv_critic_assessments r)"

text \<open>
  \<open>CoordinationReview.sort_ranked_values\<close>: the candidates are sorted by rank in every
  case; under agent authority the owner, reference and acceptance rules are then checked.
\<close>

definition review_contract :: "coordination_review \<Rightarrow> unit result" where
  "review_contract r =
     (let candidate_ids = set (map rc_id (rv_candidates r)) in
      and_then (raise_first
        [(rv_contract_revision r = Round_2 \<and> rv_diagnostic_status r \<noteq> None
            \<and> rv_final_decision r = None,
            ValueError ''final decision is required for revision 2''),
         (rv_contract_revision r = Round_2
            \<and> (case (rv_final_decision r, rv_lead_decision r) of
                  (Some f, Some l) \<Rightarrow> as_lead_decision f \<noteq> l | _ \<Rightarrow> False),
            ValueError ''legacy decision does not match final decision''),
         (rv_runtime_run_id r = None, ValueError ''V11 CoordinationReview requires runtime_run_id''),
         (rv_lead_decision r = None \<and> rv_final_decision r = None \<and> rv_diagnostic_status r \<noteq> None,
            ValueError ''final V11 CoordinationReview requires lead_decision''),
         (list_ex (\<lambda>a. ca_runtime_run_id a \<noteq> rv_runtime_run_id r) (rv_critic_assessments r),
            ValueError ''V11 Critic assessment owner mismatch''),
         (\<not> set (map ca_candidate_id (rv_critic_assessments r)) \<subseteq> candidate_ids,
            ValueError ''Critic assessment references an unknown candidate'')])
      (\<lambda>_. case effective_decision r of
          None \<Rightarrow> Inr ()
        | Some d \<Rightarrow> raise_first
            [(\<not> set (ld_candidate_ids d) \<subseteq> candidate_ids,
                ValueError ''Lead decision references an unknown candidate''),
             (ld_action d = Lead_CONCLUDE
                \<and> \<not> set (ld_candidate_ids d) \<subseteq> set (accepted_candidate_ids r)
                \<and> \<not> (case rv_final_decision r of
                        Some f \<Rightarrow> fn_actor f = Decide_single | None \<Rightarrow> False),
                ValueError ''Lead can conclude only with Critic-accepted candidates''),
             (rv_final_decision r \<noteq> None \<and> published_failed_check r d,
                ValueError ''published candidate has a failed causal check'')]))"

definition sort_ranked_values :: "coordination_review \<Rightarrow> coordination_review result" where
  "sort_ranked_values r =
     (let r' = r\<lparr>rv_candidates := sort_key rc_rank (rv_candidates r)\<rparr> in
      if rv_authority_mode r' = Authority_AGENT
      then and_then (review_contract r') (\<lambda>_. Inr r') else Inr r')"

definition validate_coordination_review :: "coordination_review \<Rightarrow> coordination_review result" where
  "validate_coordination_review r =
     (if \<not> opt_max 256 (rv_stop_reason r) then Inl field_error
      else and_then (check_all validate_root_cause_candidate (rv_candidates r)) (\<lambda>_.
           and_then (check_all validate_critic_assessment (rv_critic_assessments r)) (\<lambda>_.
           and_then (case rv_lead_decision r of None \<Rightarrow> Inr () | Some d \<Rightarrow> validate_lead_decision d) (\<lambda>_.
           and_then (case rv_final_decision r of
                       None \<Rightarrow> Inr None
                     | Some d \<Rightarrow> and_then (validate_final_decision d) (\<lambda>d'. Inr (Some d'))) (\<lambda>fd.
           and_then (validate_each validate_root_cause_attribution (rv_root_causes r)) (\<lambda>rcs.
           sort_ranked_values (r\<lparr>rv_final_decision := fd, rv_root_causes := rcs\<rparr>)))))))"

definition authoritative_candidate_ids :: "coordination_review \<Rightarrow> ident list" where
  "authoritative_candidate_ids r =
     (case effective_decision r of
        None \<Rightarrow> []
      | Some d \<Rightarrow> if rv_authority_mode r \<noteq> Authority_AGENT then [] else ld_candidate_ids d)"

text \<open>\<open>authoritative_candidates\<close>: a missing id is the \<open>KeyError\<close> of the dictionary lookup.\<close>

fun lookup_all :: "('k, 'v) dict \<Rightarrow> 'k list \<Rightarrow> 'v list result" where
  "lookup_all d [] = Inr []"
| "lookup_all d (k # ks) =
     (case dict_get d k of
        None \<Rightarrow> Inl (KeyError ''candidate_id'')
      | Some v \<Rightarrow> and_then (lookup_all d ks) (\<lambda>vs. Inr (v # vs)))"

definition authoritative_candidates :: "coordination_review \<Rightarrow> root_cause_candidate list result" where
  "authoritative_candidates r =
     lookup_all (dict_put_all rc_id (rv_candidates r) []) (authoritative_candidate_ids r)"

section \<open>What an admitted review guarantees\<close>

lemma lookup_all_total:
  "set ks \<subseteq> set (dict_keys d) \<Longrightarrow> \<exists>vs. lookup_all d ks = Inr vs"
proof (induction ks)
  case Nil
  then show ?case by simp
next
  case (Cons k ks)
  then obtain v where "dict_get d k = Some v"
    by (metis list.set_intros(1) map_of_eq_None_iff not_None_eq subsetD list.set_map)
  with Cons show ?case by auto
qed

lemma sort_ranked_values_agent:
  assumes "sort_ranked_values r = Inr r'" and "rv_authority_mode r = Authority_AGENT"
  shows "r' = r\<lparr>rv_candidates := sort_key rc_rank (rv_candidates r)\<rparr> \<and> review_contract r' = Inr ()"
  using assms by (auto simp: sort_ranked_values_def Let_def result_simps)

lemma sort_ranked_values_sorted:
  "sort_ranked_values r = Inr r' \<Longrightarrow> sorted (map rc_rank (rv_candidates r'))
     \<and> mset (rv_candidates r') = mset (rv_candidates r)"
  by (auto simp: sort_ranked_values_def Let_def result_simps split: if_splits)

text \<open>The legacy view of an admitted final decision is itself an admitted lead decision.\<close>

lemma as_lead_decision_valid:
  assumes "final_decision_contract d = Inr ()"
  shows "validate_lead_decision (as_lead_decision d) = Inr ()"
  using assms
  by (cases "fn_action d")
     (auto simp: final_decision_contract_def final_decision_fields_def validate_lead_decision_def
        lead_decision_fields_def as_lead_decision_def result_simps)

text \<open>Admission is a fixed point of the sorting step.\<close>

lemma sort_ranked_values_idem:
  "sort_ranked_values r = Inr r' \<Longrightarrow> sort_ranked_values r' = Inr r'"
  by (auto simp: sort_ranked_values_def Let_def result_simps split: if_splits)

text \<open>The ids an admitted review publishes: known and accepted, without failed checks.\<close>

lemma review_contract_decision:
  assumes "review_contract r = Inr ()" and "effective_decision r = Some d"
  shows "set (ld_candidate_ids d) \<subseteq> set (map rc_id (rv_candidates r))"
    and "ld_action d = Lead_CONCLUDE \<Longrightarrow>
           (\<forall>f. rv_final_decision r = Some f \<longrightarrow> fn_actor f \<noteq> Decide_single) \<Longrightarrow>
           set (ld_candidate_ids d) \<subseteq> set (accepted_candidate_ids r)"
    and "rv_final_decision r \<noteq> None \<Longrightarrow> \<not> published_failed_check r d"
  using assms by (auto simp: review_contract_def Let_def result_simps split: option.splits)

end
