(* ===== verification/Investigation_Models.thy ===== *)
theory Investigation_Models
  imports Finding_Models Redaction
begin

text \<open>
  Evidence and provider results (\<open>backend/domain/evidence.py\<close>,
  \<open>backend/providers/results.py\<close>), human actions and verifications
  (\<open>backend/domain/actions.py\<close>), tool calls, context facts, traces and reports, and the
  investigation aggregate with its ownership rule (\<open>backend/db/models.py\<close>).
\<close>

section \<open>Events and evidence\<close>

datatype incident_source = Source_SIMULATED | Source_WEBHOOK | Source_MANUAL

datatype severity = Severity_INFO | Severity_WARNING | Severity_CRITICAL

record incident_event =
  ie_source :: incident_source
  ie_service :: string
  ie_environment :: string
  ie_severity :: severity
  ie_title :: string
  ie_description :: string
  ie_started_at :: instant
  ie_time_window_minutes :: int
  ie_signals :: "(string, string) dict"

definition validate_incident_event :: "incident_event \<Rightarrow> unit result" where
  "validate_incident_event e =
     (if ie_time_window_minutes e \<le> 0 then Inl field_error
      else assert_safe_label (ie_environment e))"

datatype evidence_provider =
  EProv_LOG | EProv_METRIC | EProv_DEPLOY | EProv_DEPENDENCY | EProv_SERVICE_CATALOG
| EProv_RELATED_ALERT | EProv_TRACE | EProv_RUNTIME_STATE | EProv_VERIFIED_INCIDENT

fun evidence_provider_value :: "evidence_provider \<Rightarrow> string" where
  "evidence_provider_value EProv_LOG = ''log''"
| "evidence_provider_value EProv_METRIC = ''metric''"
| "evidence_provider_value EProv_DEPLOY = ''deploy''"
| "evidence_provider_value EProv_DEPENDENCY = ''dependency''"
| "evidence_provider_value EProv_SERVICE_CATALOG = ''service_catalog''"
| "evidence_provider_value EProv_RELATED_ALERT = ''related_alert''"
| "evidence_provider_value EProv_TRACE = ''trace''"
| "evidence_provider_value EProv_RUNTIME_STATE = ''runtime_state''"
| "evidence_provider_value EProv_VERIFIED_INCIDENT = ''verified_incident''"

datatype evidence_kind =
  EKind_LOG_PATTERN | EKind_METRIC_TREND | EKind_DEPLOYMENT | EKind_DEPENDENCY_HEALTH
| EKind_SERVICE_METADATA | EKind_RELATED_ALERT | EKind_PROVIDER_ERROR | EKind_TRACE_PATH
| EKind_TRACE_ERROR | EKind_TRACE_LATENCY | EKind_RUNTIME_STATE | EKind_VERIFIED_INCIDENT

datatype evidence_status = EStat_SUCCESS | EStat_PARTIAL | EStat_FAILED | EStat_SKIPPED

fun evidence_status_value :: "evidence_status \<Rightarrow> string" where
  "evidence_status_value EStat_SUCCESS = ''success''"
| "evidence_status_value EStat_PARTIAL = ''partial''"
| "evidence_status_value EStat_FAILED = ''failed''"
| "evidence_status_value EStat_SKIPPED = ''skipped''"

datatype evidence_source_class =
  ESrc_PUBLIC_DATASET | ESrc_RECORDED_LOCAL | ESrc_SYNTHETIC_FIXTURE | ESrc_LIVE_BACKEND

record evidence_provenance =
  pv_source_class :: evidence_source_class
  pv_provider_profile :: string
  pv_source_artifact_id :: "string option"
  pv_source_artifact_hash :: "string option"
  pv_adapter_version :: string

definition is_hex64 :: "string \<Rightarrow> bool" where
  "is_hex64 s = (length s = 64 \<and> list_all (\<lambda>c. is_digit c \<or> (CHR ''a'' \<le> c \<and> c \<le> CHR ''f'')) s)"

definition evidence_provenance_fields :: "evidence_provenance \<Rightarrow> bool" where
  "evidence_provenance_fields p =
     (bounded_length 1 128 (pv_provider_profile p) \<and> opt_max 128 (pv_source_artifact_id p)
      \<and> (case pv_source_artifact_hash p of None \<Rightarrow> True | Some h \<Rightarrow> is_hex64 h)
      \<and> bounded_length 1 64 (pv_adapter_version p))"

record evidence_scope =
  sc_entity_ids :: "ident list"
  sc_observed_at :: "instant option"
  sc_window_start :: "instant option"
  sc_window_end :: "instant option"
  sc_signal_type :: "string option"

definition validate_evidence_scope :: "evidence_scope \<Rightarrow> unit result" where
  "validate_evidence_scope s = raise_first
     [(20 < length (sc_entity_ids s) \<or> \<not> opt_max 64 (sc_signal_type s), field_error),
      ((sc_window_start s = None) \<noteq> (sc_window_end s = None),
         ValueError ''scope window_start and window_end must appear together''),
      (case (sc_window_start s, sc_window_end s) of (Some a, Some b) \<Rightarrow> a > b | _ \<Rightarrow> False,
         ValueError ''scope window_start must not be later than window_end'')]"

record evidence_item =
  ei_id :: ident
  ei_provider :: evidence_provider
  ei_kind :: evidence_kind
  ei_timestamp :: instant
  ei_summary :: string
  ei_payload :: payload
  ei_confidence :: rat
  ei_status :: evidence_status
  ei_error_message :: "string option"
  ei_scope :: "evidence_scope option"
  ei_provenance :: "evidence_provenance option"
  ei_runtime_run_id :: "ident option"

text \<open>\<open>reject_non_finite_payload_floats\<close>: no NaN or infinity at any depth.\<close>

fun floats_finite :: "pyval \<Rightarrow> bool"
  and floats_finite_list :: "pyval list \<Rightarrow> bool"
  and floats_finite_items :: "(pyval \<times> pyval) list \<Rightarrow> bool"
where
  "floats_finite (PFloat f) = isfinite f"
| "floats_finite (PList xs) = floats_finite_list xs"
| "floats_finite (PDict d) = floats_finite_items d"
| "floats_finite v = True"
| "floats_finite_list [] = True"
| "floats_finite_list (x # xs) = (floats_finite x \<and> floats_finite_list xs)"
| "floats_finite_items [] = True"
| "floats_finite_items ((k, v) # d) = (floats_finite v \<and> floats_finite_items d)"

definition validate_evidence_item :: "evidence_item \<Rightarrow> unit result" where
  "validate_evidence_item e = and_then (raise_first
     [(\<not> list_all (\<lambda>(k, v). floats_finite v) (ei_payload e),
         ValueError ''payload must not contain non-finite float values''),
      (\<not> unit_interval (ei_confidence e), field_error),
      (case ei_provenance e of None \<Rightarrow> False | Some p \<Rightarrow> \<not> evidence_provenance_fields p, field_error)])
     (\<lambda>_. case ei_scope e of None \<Rightarrow> Inr () | Some s \<Rightarrow> validate_evidence_scope s)"

definition evidence_usable :: "evidence_item \<Rightarrow> bool" where
  "evidence_usable e = (ei_status e \<in> {EStat_SUCCESS, EStat_PARTIAL})"

text \<open>\<open>validate_usable_evidence\<close> and \<open>validate_committed_evidence\<close>.\<close>

definition usable_evidence_reference ::
    "(ident, evidence_item) dict \<Rightarrow> ident option \<Rightarrow> ident \<Rightarrow> unit result" where
  "usable_evidence_reference by_id owner i =
     (case dict_get by_id i of
        None \<Rightarrow> Inl (ValueError (''missing evidence id: '' @ i))
      | Some e \<Rightarrow> raise_first
          [(\<not> evidence_usable e,
              ValueError (''evidence '' @ i @ '' has unusable status ''
                 @ evidence_status_value (ei_status e)
                 @ ''; usable evidence requires success or partial status'')),
           (owner \<noteq> None \<and> ei_runtime_run_id e \<noteq> owner,
              ValueError (''evidence '' @ i @ '' owner mismatch''))])"

definition validate_usable_evidence ::
    "evidence_item list \<Rightarrow> ident list \<Rightarrow> ident option \<Rightarrow> unit result" where
  "validate_usable_evidence evidence ids owner =
     check_all (usable_evidence_reference (dict_put_all ei_id evidence []) owner) ids"

definition committed_evidence_reference ::
    "(ident, evidence_item) dict \<Rightarrow> ident option \<Rightarrow> ident \<Rightarrow> unit result" where
  "committed_evidence_reference by_id owner i =
     (case dict_get by_id i of
        None \<Rightarrow> Inl (ValueError (''missing evidence id: '' @ i))
      | Some e \<Rightarrow> raise_first
          [(owner \<noteq> None \<and> ei_runtime_run_id e \<noteq> owner,
              ValueError (''evidence '' @ i @ '' owner mismatch''))])"

definition validate_committed_evidence ::
    "evidence_item list \<Rightarrow> ident list \<Rightarrow> ident option \<Rightarrow> unit result" where
  "validate_committed_evidence evidence ids owner =
     check_all (committed_evidence_reference (dict_put_all ei_id evidence []) owner) ids"

section \<open>Provider results\<close>

datatype provider_status = PStat_SUCCESS | PStat_PARTIAL | PStat_FAILED | PStat_SKIPPED

fun provider_status_value :: "provider_status \<Rightarrow> string" where
  "provider_status_value PStat_SUCCESS = ''success''"
| "provider_status_value PStat_PARTIAL = ''partial''"
| "provider_status_value PStat_FAILED = ''failed''"
| "provider_status_value PStat_SKIPPED = ''skipped''"

record provider_result =
  pr_provider :: evidence_provider
  pr_status :: provider_status
  pr_evidence_items :: "evidence_item list"
  pr_error_message :: "string option"
  pr_duration_ms :: int
  pr_failure_category :: "agent_failure_category option"
  pr_truncated :: bool
  pr_returned_count :: "int option"

definition validate_provider_result :: "provider_result \<Rightarrow> unit result" where
  "validate_provider_result p = and_then (raise_first
     [(pr_duration_ms p < 0 \<or> (case pr_returned_count p of None \<Rightarrow> False | Some n \<Rightarrow> n < 0),
         field_error)])
     (\<lambda>_. check_all validate_evidence_item (pr_evidence_items p))"

datatype specialist_status = Spec_COMPLETED | Spec_FAILED | Spec_PARTIAL | Spec_SKIPPED

record specialist_result =
  sr_agent_name :: string
  sr_status :: specialist_status
  sr_evidence_items :: "evidence_item list"
  sr_summary :: string
  sr_errors :: "string list"
  sr_duration_ms :: int

fun provider_status_to_specialist_status :: "provider_status \<Rightarrow> specialist_status" where
  "provider_status_to_specialist_status PStat_SUCCESS = Spec_COMPLETED"
| "provider_status_to_specialist_status PStat_PARTIAL = Spec_PARTIAL"
| "provider_status_to_specialist_status PStat_SKIPPED = Spec_SKIPPED"
| "provider_status_to_specialist_status PStat_FAILED = Spec_FAILED"

section \<open>Human actions and verifications\<close>

datatype action_type =
  Action_CHECK | Action_NOTIFY_OWNER | Action_ROLLBACK_SUGGESTION | Action_SCALE_SUGGESTION
| Action_RESTART_SUGGESTION | Action_CONFIG_CHECK | Action_DEPENDENCY_CHECK
| Action_MANUAL_FOLLOW_UP

datatype action_risk_level = Risk_READ_ONLY | Risk_LOW | Risk_MEDIUM | Risk_HIGH

datatype action_status =
  AStat_PROPOSED | AStat_APPROVED | AStat_REJECTED | AStat_SKIPPED | AStat_DONE

datatype verification_status = VStat_PENDING | VStat_PASSED | VStat_FAILED | VStat_SKIPPED

record recommended_action =
  ac_id :: ident
  ac_action_type :: action_type
  ac_title :: string
  ac_description :: string
  ac_risk_level :: action_risk_level
  ac_requires_approval :: bool
  ac_supporting_evidence_ids :: "ident list"
  ac_status :: action_status
  ac_note :: "string option"
  ac_related_candidate_ids :: "ident list"
  ac_runtime_run_id :: "ident option"

definition validate_action_contract :: "recommended_action \<Rightarrow> unit result" where
  "validate_action_contract a = raise_first
     [(32 < length (ac_related_candidate_ids a), field_error),
      (ac_supporting_evidence_ids a = [], ValueError ''supporting_evidence_ids must not be empty''),
      (ac_risk_level a \<in> {Risk_MEDIUM, Risk_HIGH} \<and> \<not> ac_requires_approval a,
         ValueError ''medium and high risk actions require approval''),
      (ac_related_candidate_ids a \<noteq> [] \<and> ac_runtime_run_id a = None,
         ValueError ''V11 action candidates require runtime_run_id'')]"

record verification_suggestion =
  vs_id :: ident
  vs_title :: string
  vs_description :: string
  vs_expected_signal :: string
  vs_status :: verification_status
  vs_result_note :: "string option"
  vs_result_evidence_ids :: "ident list"
  vs_related_action_ids :: "ident list"
  vs_related_cause_types :: "cause_type list"
  vs_related_candidate_ids :: "ident list"
  vs_runtime_run_id :: "ident option"

definition validate_verification_suggestion :: "verification_suggestion \<Rightarrow> unit result" where
  "validate_verification_suggestion v = raise_first
     [(32 < length (vs_related_candidate_ids v), field_error),
      (vs_related_candidate_ids v \<noteq> [] \<and> vs_runtime_run_id v = None,
         ValueError ''V11 verification candidates require runtime_run_id'')]"

section \<open>Tool calls, context facts, traces\<close>

record tool_call =
  tc_id :: ident
  tc_task_id :: ident
  tc_agent_name :: string
  tc_tool_name :: string
  tc_input :: payload
  tc_status :: tool_call_status
  tc_output_evidence_ids :: "ident list"
  tc_error_message :: "string option"
  tc_started_at :: "instant option"
  tc_completed_at :: "instant option"
  tc_duration_ms :: int
  tc_runtime_run_id :: "ident option"
  tc_logical_call_id :: "ident option"
  tc_idempotency_key :: "string option"
  tc_execution_id :: "ident option"
  tc_attempt :: int
  tc_budget_charged :: "bool option"

definition consumes_budget :: "tool_call \<Rightarrow> bool" where
  "consumes_budget c =
     (case tc_budget_charged c of Some b \<Rightarrow> b | None \<Rightarrow> tc_status c \<noteq> Tool_PENDING)"

datatype context_fact_type =
  Fact_OBSERVATION | Fact_CORRELATION | Fact_HYPOTHESIS | Fact_CONCLUSION | Fact_MISSING_EVIDENCE

record context_fact =
  cf_id :: ident
  cf_source_agent :: string
  cf_fact_type :: context_fact_type
  cf_summary :: string
  cf_confidence :: rat
  cf_evidence_ids :: "ident list"
  cf_created_at :: instant

definition validate_context_fact :: "context_fact \<Rightarrow> unit result" where
  "validate_context_fact f = raise_first
     [(\<not> unit_interval (cf_confidence f), field_error),
      (cf_fact_type f \<noteq> Fact_MISSING_EVIDENCE \<and> cf_evidence_ids f = [],
         ValueError ''evidence_ids required unless fact_type is missing_evidence'')]"

datatype react_status = React_RUNNING | React_COMPLETED | React_FAILED | React_MAX_STEPS | React_DISABLED

datatype react_step_status =
  RStep_THINKING | RStep_TOOL_CALLED | RStep_OBSERVED | RStep_COMPLETED | RStep_FAILED

record react_step =
  st_step_number :: int
  st_assistant_text :: "string option"
  st_tool_name :: "string option"
  st_tool_input :: payload
  st_tool_call_id :: "ident option"
  st_observation :: "string option"
  st_output_evidence_ids :: "ident list"
  st_status :: react_step_status
  st_error_message :: "string option"
  st_structured_summary :: "payload option"
  st_runtime_run_id :: "ident option"
  st_started_at :: instant
  st_completed_at :: "instant option"

record react_trace =
  rt_id :: ident
  rt_investigation_id :: ident
  rt_status :: react_status
  rt_final_answer :: "string option"
  rt_steps :: "react_step list"
  rt_created_at :: instant
  rt_completed_at :: "instant option"
  rt_runtime_run_id :: "ident option"

section \<open>Reports and run summaries\<close>

record hypothesis =
  hy_id :: ident
  hy_cause_type :: cause_type
  hy_summary :: string
  hy_confidence :: rat
  hy_supporting_evidence_ids :: "ident list"
  hy_contradicting_evidence_ids :: "ident list"
  hy_next_actions :: "string list"

record incident_report =
  rp_id :: ident
  rp_investigation_id :: ident
  rp_summary :: string
  rp_timeline :: "(string, string) dict list"
  rp_hypotheses :: "hypothesis list"
  rp_markdown :: string
  rp_action_ids :: "ident list"
  rp_verification_suggestion_ids :: "ident list"
  rp_diagnoses :: "root_cause_candidate list"
  rp_alternatives :: "root_cause_candidate list"
  rp_diagnostic_status :: "diagnostic_status option"
  rp_authority_mode :: "authority_mode option"
  rp_critic_assessments :: "critic_assessment list"
  rp_critic_summary :: "string option"
  rp_evidence_gaps :: "string list"
  rp_total_input_tokens :: int
  rp_total_output_tokens :: int
  rp_elapsed_time_ms :: int
  rp_runtime_run_id :: "ident option"

definition incident_report_fields :: "incident_report \<Rightarrow> bool" where
  "incident_report_fields r =
     (opt_max 512 (rp_critic_summary r) \<and> length (rp_evidence_gaps r) \<le> 32
      \<and> 0 \<le> rp_total_input_tokens r \<and> 0 \<le> rp_total_output_tokens r
      \<and> 0 \<le> rp_elapsed_time_ms r \<and> list_all (\<lambda>h. unit_interval (hy_confidence h)) (rp_hypotheses r))"

definition validate_incident_report :: "incident_report \<Rightarrow> unit result" where
  "validate_incident_report r =
     and_then (check_all validate_root_cause_candidate (rp_diagnoses r @ rp_alternatives r)) (\<lambda>_.
     and_then (check_all validate_critic_assessment (rp_critic_assessments r)) (\<lambda>_. raise_first
       [(\<not> incident_report_fields r, field_error),
        (rp_authority_mode r = Some Authority_AGENT \<and> rp_runtime_run_id r = None,
           ValueError ''V11 report requires runtime_run_id'')]))"

record multi_agent_run_summary =
  ms_status :: multi_agent_run_status
  ms_failure_reason :: "string option"
  ms_model_provider :: "model_provider option"
  ms_model_name :: "string option"
  ms_primary_stabilization :: "stabilization_category option"
  ms_secondary_stabilization :: "stabilization_category list"
  ms_strategy :: investigation_strategy
  ms_adaptive_status :: adaptive_run_status
  ms_adaptive_stop_reason :: "adaptive_stop_reason option"
  ms_tool_call_count :: int
  ms_max_tool_calls_per_specialist :: int
  ms_max_total_tool_calls :: int
  ms_total_input_tokens :: int
  ms_total_output_tokens :: int
  ms_elapsed_time_ms :: int
  ms_completed_rounds :: int
  ms_investigator_count :: int
  ms_diagnostic_status :: "diagnostic_status option"
  ms_authority_mode :: "authority_mode option"
  ms_runtime_run_id :: "ident option"

definition run_summary_fields :: "multi_agent_run_summary \<Rightarrow> bool" where
  "run_summary_fields m =
     (0 \<le> ms_tool_call_count m \<and> 1 \<le> ms_max_tool_calls_per_specialist m
      \<and> 1 \<le> ms_max_total_tool_calls m \<and> 0 \<le> ms_total_input_tokens m
      \<and> 0 \<le> ms_total_output_tokens m \<and> 0 \<le> ms_elapsed_time_ms m
      \<and> 0 \<le> ms_completed_rounds m \<and> ms_completed_rounds m \<le> 2
      \<and> 0 \<le> ms_investigator_count m \<and> ms_investigator_count m \<le> 3)"

definition validate_run_summary :: "multi_agent_run_summary \<Rightarrow> unit result" where
  "validate_run_summary m = raise_first
     [(\<not> run_summary_fields m, field_error),
      (ms_authority_mode m = Some Authority_AGENT \<and> ms_runtime_run_id m = None,
         ValueError ''V11 summary requires runtime_run_id'')]"

record llm_analysis =
  la_id :: ident
  la_investigation_id :: ident
  la_summary :: string
  la_missing_evidence :: "string list"
  la_risk_notes :: "string list"
  la_suggested_questions :: "string list"
  la_referenced_evidence_ids :: "ident list"
  la_created_at :: instant

section \<open>The investigation aggregate\<close>

datatype investigation_status =
  Inv_PENDING | Inv_RUNNING | Inv_COMPLETED | Inv_FAILED | Inv_CANCELLED

record investigation_record =
  ir_id :: ident
  ir_event :: incident_event
  ir_strategy :: investigation_strategy
  ir_multi_agent_run :: "multi_agent_run_summary option"
  ir_status :: investigation_status
  ir_evidence :: "evidence_item list"
  ir_provider_results :: "provider_result list"
  ir_specialist_results :: "specialist_result list"
  ir_hypotheses :: "hypothesis list"
  ir_report :: "incident_report option"
  ir_llm_analysis :: "llm_analysis option"
  ir_failure_reason :: "string option"
  ir_actions :: "recommended_action list"
  ir_verification_suggestions :: "verification_suggestion list"
  ir_created_at :: instant
  ir_updated_at :: instant
  ir_completed_at :: "instant option"
  ir_runtime_available :: bool
  ir_active_runtime_run_id :: "ident option"
  ir_source_investigation_id :: "ident option"

definition has_agent_projection :: "investigation_record \<Rightarrow> bool" where
  "has_agent_projection r =
     ((case ir_multi_agent_run r of None \<Rightarrow> False
        | Some m \<Rightarrow> ms_authority_mode m = Some Authority_AGENT)
      \<or> (case ir_report r of None \<Rightarrow> False
        | Some p \<Rightarrow> rp_authority_mode p = Some Authority_AGENT))"

text \<open>The present values of a list of optional owners.\<close>

definition present :: "'a option list \<Rightarrow> 'a list" where
  "present xs = concat (map (\<lambda>x. case x of None \<Rightarrow> [] | Some a \<Rightarrow> [a]) xs)"

definition runtime_owners :: "investigation_record \<Rightarrow> ident list" where
  "runtime_owners r =
     present (map ei_runtime_run_id (ir_evidence r))
     @ present [Option.bind (ir_report r) rp_runtime_run_id]
     @ present (map ac_runtime_run_id (ir_actions r)
                @ map vs_runtime_run_id (ir_verification_suggestions r))
     @ filter (\<lambda>i. i \<noteq> []) (present [Option.bind (ir_multi_agent_run r) ms_runtime_run_id])
     @ present [ir_active_runtime_run_id r]"

definition validate_runtime_ownership :: "investigation_record \<Rightarrow> unit result" where
  "validate_runtime_ownership r = raise_first
     [(has_agent_projection r \<and> list_ex (\<lambda>e. ei_runtime_run_id e = None) (ir_evidence r),
         ValueError ''V11 evidence requires runtime_run_id''),
      (has_agent_projection r \<and> list_ex (\<lambda>a. ac_runtime_run_id a = None) (ir_actions r),
         ValueError ''V11 action requires runtime_run_id''),
      (has_agent_projection r
         \<and> list_ex (\<lambda>v. vs_runtime_run_id v = None) (ir_verification_suggestions r),
         ValueError ''V11 verification requires runtime_run_id''),
      (1 < length (remdups (runtime_owners r)),
         ValueError ''investigation aggregate mixes runtime owners''),
      (case ir_multi_agent_run r of None \<Rightarrow> False
         | Some m \<Rightarrow> ms_authority_mode m = Some Authority_AGENT \<and> ms_runtime_run_id m = None,
         ValueError ''V11 summary requires runtime_run_id'')]"

text \<open>
  \<open>InvestigationRecord.model_validate\<close>: the nested models first, the ownership rule last.
\<close>

definition validate_opt :: "('a \<Rightarrow> unit result) \<Rightarrow> 'a option \<Rightarrow> unit result" where
  "validate_opt f x = (case x of None \<Rightarrow> Inr () | Some a \<Rightarrow> f a)"

definition validate_investigation_record :: "investigation_record \<Rightarrow> unit result" where
  "validate_investigation_record r =
     and_then (validate_incident_event (ir_event r)) (\<lambda>_.
     and_then (validate_opt validate_run_summary (ir_multi_agent_run r)) (\<lambda>_.
     and_then (check_all validate_evidence_item (ir_evidence r)) (\<lambda>_.
     and_then (check_all validate_provider_result (ir_provider_results r)) (\<lambda>_.
     and_then (check_all (\<lambda>s. and_then (raise_first [(sr_duration_ms s < 0, field_error)])
                  (\<lambda>_. check_all validate_evidence_item (sr_evidence_items s)))
                (ir_specialist_results r)) (\<lambda>_.
     and_then (raise_first [(\<not> list_all (\<lambda>h. unit_interval (hy_confidence h)) (ir_hypotheses r),
                             field_error)]) (\<lambda>_.
     and_then (validate_opt validate_incident_report (ir_report r)) (\<lambda>_.
     and_then (check_all validate_action_contract (ir_actions r)) (\<lambda>_.
     and_then (check_all validate_verification_suggestion (ir_verification_suggestions r)) (\<lambda>_.
       validate_runtime_ownership r)))))))))"

section \<open>One owner per aggregate\<close>

lemma set_present [simp]: "a \<in> set (present xs) \<longleftrightarrow> Some a \<in> set xs"
  unfolding present_def by (induction xs) (auto split: option.splits)

lemma remdups_le_1: "length (remdups xs) \<le> 1 \<Longrightarrow> a \<in> set xs \<Longrightarrow> b \<in> set xs \<Longrightarrow> a = b"
proof -
  assume *: "length (remdups xs) \<le> 1" "a \<in> set xs" "b \<in> set xs"
  then have "card (set xs) \<le> 1" by (simp add: length_remdups_card_conv)
  with * show "a = b" by (metis List.finite_set card_le_Suc0_iff_eq One_nat_def)
qed

lemma ownership_unique:
  assumes "validate_runtime_ownership r = Inr ()"
    and "a \<in> set (runtime_owners r)" and "b \<in> set (runtime_owners r)"
  shows "a = b"
  using assms remdups_le_1 [of "runtime_owners r" a b]
  by (auto simp: validate_runtime_ownership_def result_simps)

end
