(* ===== verification/Human_Transitions.thy ===== *)
theory Human_Transitions
  imports Investigation_Models
begin

text \<open>
  The human-facing state machines (\<open>backend/domain/human_transitions.py\<close>): approval of
  recommended actions and recording of verification results, with the ownership and
  reference checks that guard them.
\<close>

section \<open>Ownership and candidate references\<close>

definition human_conflict :: "string \<Rightarrow> py_error" where
  "human_conflict code = HumanStateConflict code"

text \<open>\<open>_validate_runtime_owner\<close>: record and projection name the same run, or neither does.\<close>

definition validate_runtime_owner :: "ident option \<Rightarrow> ident option \<Rightarrow> string \<Rightarrow> unit result" where
  "validate_runtime_owner active_owner projection_owner code =
     (if (active_owner \<noteq> None \<or> projection_owner \<noteq> None) \<and> active_owner \<noteq> projection_owner
      then Inl (human_conflict code) else Inr ())"

definition validate_candidate_refs ::
    "investigation_record \<Rightarrow> ident list \<Rightarrow> string \<Rightarrow> unit result" where
  "validate_candidate_refs record candidate_ids code =
     (if candidate_ids = [] then Inr ()
      else case ir_report record of
        None \<Rightarrow> Inl (human_conflict code)
      | Some report \<Rightarrow> raise_first
          [(rp_authority_mode report \<noteq> Some Authority_AGENT
              \<or> rp_runtime_run_id report \<noteq> ir_active_runtime_run_id record, human_conflict code),
           (\<not> set candidate_ids
                \<subseteq> set (map rc_id (rp_diagnoses report @ rp_alternatives report)),
              human_conflict code)])"

section \<open>Actions\<close>

text \<open>The transition table, which depends on whether the action needs approval.\<close>

definition allowed_action_targets :: "recommended_action \<Rightarrow> action_status list" where
  "allowed_action_targets a =
     (if ac_requires_approval a then
        (case ac_status a of
           AStat_PROPOSED \<Rightarrow> [AStat_APPROVED, AStat_REJECTED, AStat_SKIPPED]
         | AStat_APPROVED \<Rightarrow> [AStat_DONE, AStat_SKIPPED]
         | _ \<Rightarrow> [])
      else
        (case ac_status a of
           AStat_PROPOSED \<Rightarrow> [AStat_DONE, AStat_REJECTED, AStat_SKIPPED]
         | _ \<Rightarrow> []))"

text \<open>\<open>redact_text(note.strip()) if note and note.strip() else None\<close>.\<close>

definition sanitize_note :: "string option \<Rightarrow> string option" where
  "sanitize_note note =
     (case note of None \<Rightarrow> None
      | Some n \<Rightarrow> if strip n = [] then None else Some (redact_text (strip n)))"

definition blank_note :: "string option \<Rightarrow> bool" where
  "blank_note note = (case note of None \<Rightarrow> True | Some n \<Rightarrow> strip n = [])"

definition validate_action_transition ::
    "investigation_record \<Rightarrow> ident \<Rightarrow> action_status \<Rightarrow> string option
       \<Rightarrow> recommended_action result" where
  "validate_action_transition record aid target note =
     (case first_match (\<lambda>a. ac_id a = aid) (ir_actions record) of
        None \<Rightarrow> Inl (ValueError (''Unknown action: '' @ aid))
      | Some action \<Rightarrow>
          and_then (validate_runtime_owner (ir_active_runtime_run_id record)
                      (ac_runtime_run_id action) ''action_reference'') (\<lambda>_.
          and_then (validate_candidate_refs record (ac_related_candidate_ids action)
                      ''action_reference'') (\<lambda>_.
          if target \<notin> set (allowed_action_targets action)
          then Inl (human_conflict ''action_transition'')
          else if ac_risk_level action = Risk_HIGH \<and> target = AStat_APPROVED
                  \<and> sanitize_note note = None
          then Inl (human_conflict ''approval_note_required'')
          else if ac_risk_level action = Risk_HIGH \<and> ac_status action = AStat_APPROVED
                  \<and> target = AStat_DONE \<and> blank_note (ac_note action)
          then Inl (human_conflict ''approval_note_required'')
          else Inr (action\<lparr>ac_status := target,
                           ac_note := (if ac_status action = AStat_APPROVED then ac_note action
                                       else sanitize_note note)\<rparr>))))"

section \<open>Verifications\<close>

text \<open>Evidence that a provider result vouches for and that the record still holds usable.\<close>

definition valid_evidence_ids :: "investigation_record \<Rightarrow> ident list" where
  "valid_evidence_ids record =
     (let eligible = dict_put_all ei_id (filter evidence_usable (ir_evidence record)) [] in
      concat (map (\<lambda>result.
        if pr_status result \<in> {PStat_SUCCESS, PStat_PARTIAL} then
          map ei_id (filter (\<lambda>item.
            evidence_usable item \<and> ei_provider item = pr_provider result
            \<and> (case dict_get eligible (ei_id item) of
                 None \<Rightarrow> False | Some e \<Rightarrow> ei_provider e = pr_provider result))
            (pr_evidence_items result))
        else []) (ir_provider_results record)))"

text \<open>
  A related action must belong to the verification's run, and its candidates must be among
  the verification's.  The subset check before it makes every lookup succeed.
\<close>

definition foreign_action ::
    "investigation_record \<Rightarrow> verification_suggestion \<Rightarrow> ident list \<Rightarrow> ident \<Rightarrow> bool" where
  "foreign_action record v candidate_ids aid =
     (case dict_get (dict_put_all ac_id (ir_actions record) []) aid of
        None \<Rightarrow> True
      | Some a \<Rightarrow> ac_runtime_run_id a \<noteq> vs_runtime_run_id v
          \<or> (ac_related_candidate_ids a \<noteq> []
              \<and> \<not> set (ac_related_candidate_ids a) \<subseteq> set candidate_ids))"

text \<open>The checks on the result's references, and on what each outcome must carry.\<close>

definition verification_reference_checks ::
    "investigation_record \<Rightarrow> verification_suggestion \<Rightarrow> ident list \<Rightarrow> ident list
       \<Rightarrow> cause_type list \<Rightarrow> ident list \<Rightarrow> unit result" where
  "verification_reference_checks record v evidence_ids action_ids causes candidate_ids =
     raise_first
       [(vs_runtime_run_id v \<noteq> None \<and> causes \<noteq> [], human_conflict ''verification_reference''),
        (\<not> set evidence_ids \<subseteq> set (valid_evidence_ids record)
           \<or> \<not> set action_ids \<subseteq> set (map ac_id (ir_actions record))
           \<or> \<not> set causes \<subseteq> set (map hy_cause_type (ir_hypotheses record)),
           human_conflict ''verification_reference''),
        (vs_runtime_run_id v \<noteq> None
           \<and> list_ex (foreign_action record v candidate_ids) action_ids,
           human_conflict ''verification_reference'')]"

definition verification_outcome_checks ::
    "verification_status \<Rightarrow> string option \<Rightarrow> ident list \<Rightarrow> ident list \<Rightarrow> cause_type list
       \<Rightarrow> ident list \<Rightarrow> unit result" where
  "verification_outcome_checks target note evidence_ids action_ids causes candidate_ids =
     (if target \<in> {VStat_PASSED, VStat_FAILED} then raise_first
        [(note = None, human_conflict ''verification_result_note_required''),
         (evidence_ids = [], human_conflict ''verification_result_evidence_required''),
         (action_ids = [] \<and> causes = [] \<and> candidate_ids = [],
            human_conflict ''verification_relation_required'')]
      else raise_first [(evidence_ids \<noteq> [], human_conflict ''skipped_verification_evidence'')])"

definition validate_verification_transition ::
    "investigation_record \<Rightarrow> ident \<Rightarrow> verification_status \<Rightarrow> string option \<Rightarrow> ident list
       \<Rightarrow> ident list \<Rightarrow> cause_type list \<Rightarrow> ident list option \<Rightarrow> verification_suggestion result" where
  "validate_verification_transition record vid target result_note evidence_ids action_ids
       causes related_candidates =
     (case first_match (\<lambda>v. vs_id v = vid) (ir_verification_suggestions record) of
        None \<Rightarrow> Inl (ValueError (''Unknown verification suggestion: '' @ vid))
      | Some v \<Rightarrow>
          (let candidate_ids = (case related_candidates of
                 None \<Rightarrow> vs_related_candidate_ids v | Some c \<Rightarrow> c);
               note = sanitize_note result_note in
           and_then (validate_runtime_owner (ir_active_runtime_run_id record)
                       (vs_runtime_run_id v) ''verification_reference'') (\<lambda>_.
           and_then (raise_first
             [(vs_runtime_run_id v \<noteq> None \<and> related_candidates \<noteq> None
                 \<and> candidate_ids \<noteq> vs_related_candidate_ids v,
                 human_conflict ''verification_reference'')]) (\<lambda>_.
           and_then (validate_candidate_refs record (vs_related_candidate_ids v)
                       ''verification_reference'') (\<lambda>_.
           and_then (validate_candidate_refs record candidate_ids ''verification_reference'') (\<lambda>_.
           and_then (raise_first
             [(vs_status v \<noteq> VStat_PENDING
                 \<or> target \<notin> {VStat_PASSED, VStat_FAILED, VStat_SKIPPED},
                 human_conflict ''verification_transition'')]) (\<lambda>_.
           and_then (verification_reference_checks record v evidence_ids action_ids causes
                       candidate_ids) (\<lambda>_.
           and_then (verification_outcome_checks target note evidence_ids action_ids causes
                       candidate_ids) (\<lambda>_.
             Inr (v\<lparr>vs_status := target, vs_result_note := note,
                    vs_result_evidence_ids := dedupe evidence_ids,
                    vs_related_action_ids := dedupe action_ids,
                    vs_related_cause_types := dedupe causes,
                    vs_related_candidate_ids := dedupe candidate_ids\<rparr>))))))))))"

section \<open>Inversion\<close>

named_theorems human_simps \<open>inversion of the human transitions\<close>

lemma validate_runtime_owner_Inr [human_simps]:
  "validate_runtime_owner a p c = Inr u \<longleftrightarrow> a = p"
  by (auto simp: validate_runtime_owner_def)

lemma validate_action_transitionD:
  assumes "validate_action_transition record aid target note = Inr a'"
  obtains a where "first_match (\<lambda>a. ac_id a = aid) (ir_actions record) = Some a"
    and "ir_active_runtime_run_id record = ac_runtime_run_id a"
    and "target \<in> set (allowed_action_targets a)"
    and "ac_risk_level a = Risk_HIGH \<Longrightarrow> target = AStat_APPROVED \<Longrightarrow> sanitize_note note \<noteq> None"
    and "ac_risk_level a = Risk_HIGH \<Longrightarrow> ac_status a = AStat_APPROVED \<Longrightarrow> target = AStat_DONE
           \<Longrightarrow> \<not> blank_note (ac_note a)"
    and "a' = a\<lparr>ac_status := target,
                ac_note := (if ac_status a = AStat_APPROVED then ac_note a else sanitize_note note)\<rparr>"
proof -
  from assms obtain a where "first_match (\<lambda>a. ac_id a = aid) (ir_actions record) = Some a"
    by (auto simp: validate_action_transition_def split: option.splits)
  with assms show thesis
    by (intro that [of a])
       (auto simp: validate_action_transition_def result_simps human_simps split: if_splits)
qed

lemma allowed_action_targets_cases:
  "t \<in> set (allowed_action_targets a) \<longleftrightarrow>
     (ac_status a = AStat_PROPOSED \<and> t \<in> {AStat_REJECTED, AStat_SKIPPED})
   \<or> (ac_status a = AStat_PROPOSED \<and> t = (if ac_requires_approval a then AStat_APPROVED else AStat_DONE))
   \<or> (ac_requires_approval a \<and> ac_status a = AStat_APPROVED \<and> t \<in> {AStat_DONE, AStat_SKIPPED})"
  by (cases "ac_status a") (auto simp: allowed_action_targets_def)

lemma valid_evidence_ids_sound:
  assumes "i \<in> set (valid_evidence_ids record)"
  shows "\<exists>e \<in> set (ir_evidence record). ei_id e = i \<and> evidence_usable e"
proof -
  let ?d = "dict_put_all ei_id (filter evidence_usable (ir_evidence record)) []"
  from assms obtain e where "dict_get ?d i = Some e"
    by (auto simp: valid_evidence_ids_def Let_def split: if_splits option.splits)
  then have "first_match (\<lambda>x. ei_id x = i) (rev (filter evidence_usable (ir_evidence record))) = Some e"
    by (simp add: dict_put_all_get split: option.splits)
  from first_match_Some [OF this] show ?thesis by auto
qed

end
