(* ===== verification/Repository.thy ===== *)
theory Repository
  imports Human_Transitions "HOL-Library.Product_Lexorder"
begin

text \<open>
  The in-memory investigation repository (\<open>backend/db/repositories.py\<close>): ten
  dictionaries, and operations that validate the aggregate they write before they
  replace it.  An operation returns the repository it leaves behind and its result or
  exception.  Objects are values: a caller's later change to an object it has saved is
  not modelled.
\<close>

datatype memory_type =
  Mem_INVESTIGATION_SUMMARY | Mem_SERVICE_INCIDENT_SUMMARY | Mem_HUMAN_FEEDBACK

datatype memory_verification_status = MVer_UNVERIFIED | MVer_VERIFIED | MVer_REJECTED

record memory_item =
  mi_id :: ident
  mi_service :: string
  mi_environment :: string
  mi_memory_type :: memory_type
  mi_summary :: string
  mi_source_investigation_id :: "ident option"
  mi_tags :: "string list"
  mi_verification_status :: memory_verification_status
  mi_verified_at :: "instant option"
  mi_verified_by :: "string option"
  mi_root_candidate_id :: "ident option"
  mi_verification_evidence_ids :: "ident list"
  mi_created_at :: instant

definition validate_memory_item :: "memory_item \<Rightarrow> unit result" where
  "validate_memory_item m = raise_first
     [(\<not> opt_max 128 (mi_verified_by m) \<or> 32 < length (mi_verification_evidence_ids m), field_error),
      (mi_verification_status m = MVer_VERIFIED
         \<and> (mi_verified_at m = None \<or> mi_verified_by m = None \<or> mi_root_candidate_id m = None),
         ValueError ''verified memory requires verification provenance'')]"

record repository =
  repo_records :: "(ident, investigation_record) dict"
  repo_plans :: "(ident, diagnosis_plan) dict"
  repo_tasks :: "(ident, diagnosis_task list) dict"
  repo_executions :: "(ident, (ident, agent_execution) dict) dict"
  repo_context_facts :: "(ident, (ident, context_fact) dict) dict"
  repo_tool_calls :: "(ident, (ident, tool_call) dict) dict"
  repo_memory_items :: "(ident, memory_item) dict"
  repo_agent_findings :: "(ident, (ident, agent_finding) dict) dict"
  repo_coordination_reviews :: "(ident, coordination_review) dict"
  repo_react_traces :: "(ident, react_trace) dict"

definition empty_repository :: repository where
  "empty_repository =
     \<lparr>repo_records = [], repo_plans = [], repo_tasks = [], repo_executions = [],
      repo_context_facts = [], repo_tool_calls = [], repo_memory_items = [],
      repo_agent_findings = [], repo_coordination_reviews = [], repo_react_traces = []\<rparr>"

type_synonym 'a repo_op = "(repository, 'a) op"

text \<open>\<open>self._d.get(key, {})\<close> for a dictionary of dictionaries.\<close>

definition bucket :: "('k, ('i, 'v) dict) dict \<Rightarrow> 'k \<Rightarrow> ('i, 'v) dict" where
  "bucket d k = (case dict_get d k of None \<Rightarrow> [] | Some b \<Rightarrow> b)"

section \<open>Validation of plans and of agent results\<close>

definition plan_owner_ids :: "diagnosis_plan option \<Rightarrow> diagnosis_task list \<Rightarrow> ident list" where
  "plan_owner_ids plan tasks =
     present (map task_runtime_run_id tasks) @ present [Option.bind plan plan_runtime_run_id]"

definition validate_plan_and_tasks ::
    "ident \<Rightarrow> diagnosis_plan option \<Rightarrow> diagnosis_task list \<Rightarrow> diagnosis_task list result" where
  "validate_plan_and_tasks iid plan tasks =
     and_then (validate_opt validate_diagnosis_plan plan) (\<lambda>_.
     and_then (raise_first
       [(case plan of None \<Rightarrow> False | Some p \<Rightarrow> plan_investigation_id p \<noteq> iid,
           ValueError ''Diagnosis plan investigation mismatch'')]) (\<lambda>_.
     and_then (check_all validate_diagnosis_task tasks) (\<lambda>_.
       let stored = (case plan of None \<Rightarrow> tasks | Some p \<Rightarrow> plan_tasks p) in
       if 1 < length (remdups (plan_owner_ids plan stored))
       then Inl (ValueError ''V11 plan and tasks mix runtime owners'') else Inr stored)))"

definition result_owner_ids ::
    "agent_finding list \<Rightarrow> agent_execution list \<Rightarrow> coordination_review option \<Rightarrow> ident list" where
  "result_owner_ids findings executions review =
     present (map fd_runtime_run_id findings) @ present (map ex_runtime_run_id executions)
     @ (case review of None \<Rightarrow> [] | Some r \<Rightarrow>
          present [rv_runtime_run_id r]
          @ present (map ca_runtime_run_id (rv_critic_assessments r)))"

text \<open>A round-two finding of a legacy actor revises a finding of the same actor.\<close>

definition legacy_revision_check ::
    "(ident, agent_finding) dict \<Rightarrow> agent_finding \<Rightarrow> unit result" where
  "legacy_revision_check by_id f =
     (if fd_analysis_round f \<noteq> Round_2 \<or> fd_agent_name f = FActor_INVESTIGATOR then Inr ()
      else case dict_get by_id (case fd_revises_finding_id f of None \<Rightarrow> [] | Some i \<Rightarrow> i) of
        None \<Rightarrow> Inl (ValueError ''legacy round-two finding must revise the same actor'')
      | Some prev \<Rightarrow>
          (if fd_agent_name prev \<noteq> fd_agent_name f
           then Inl (ValueError ''legacy round-two finding must revise the same actor'')
           else Inr ()))"

definition agent_review_owner_checks ::
    "agent_finding list \<Rightarrow> agent_execution list \<Rightarrow> coordination_review \<Rightarrow> unit result" where
  "agent_review_owner_checks findings executions r =
     (if rv_authority_mode r \<noteq> Authority_AGENT then Inr () else raise_first
       [(rv_runtime_run_id r = None, ValueError ''V11 review requires runtime_run_id''),
        (list_ex (\<lambda>f. fd_runtime_run_id f \<noteq> rv_runtime_run_id r) findings
           \<or> list_ex (\<lambda>x. ex_runtime_run_id x \<noteq> rv_runtime_run_id r) executions,
           ValueError ''V11 aggregate owner mismatch''),
        (list_ex (\<lambda>a. ca_runtime_run_id a \<noteq> rv_runtime_run_id r) (rv_critic_assessments r),
           ValueError ''V11 aggregate owner mismatch'')])"

definition validate_multi_agent_result ::
    "ident \<Rightarrow> agent_finding list \<Rightarrow> agent_execution list \<Rightarrow> coordination_review option
       \<Rightarrow> coordination_review option result" where
  "validate_multi_agent_result iid findings executions review =
     and_then (check_all validate_agent_finding findings) (\<lambda>_.
     and_then (check_all validate_agent_execution executions) (\<lambda>_.
     and_then (case review of None \<Rightarrow> Inr None
               | Some r \<Rightarrow> and_then (validate_coordination_review r) (\<lambda>r'. Inr (Some r'))) (\<lambda>review'.
     and_then (raise_first
       [(list_ex (\<lambda>f. fd_investigation_id f \<noteq> iid) findings,
           ValueError ''Agent finding investigation mismatch''),
        (case review' of None \<Rightarrow> False | Some r \<Rightarrow> rv_investigation_id r \<noteq> iid,
           ValueError ''Coordination review investigation mismatch''),
        (1 < length (remdups (result_owner_ids findings executions review')),
           ValueError ''V11 aggregate mixes runtime owners'')]) (\<lambda>_.
     and_then (check_all (legacy_revision_check (dict_put_all fd_id findings [])) findings) (\<lambda>_.
     and_then (validate_opt (agent_review_owner_checks findings executions) review') (\<lambda>_.
       Inr review'))))))"

text \<open>\<open>_validate_investigator_finding_linkage\<close>: finding, task and Critic request agree.\<close>

definition investigator_linkage_check ::
    "(ident, diagnosis_task) dict \<Rightarrow> coordination_review option \<Rightarrow> agent_finding \<Rightarrow> unit result" where
  "investigator_linkage_check tasks review f =
     (if fd_agent_name f \<noteq> FActor_INVESTIGATOR then Inr ()
      else case dict_get tasks (case fd_task_id f of None \<Rightarrow> [] | Some i \<Rightarrow> i) of
        None \<Rightarrow> Inl (ValueError ''V11 finding task ownership mismatch'')
      | Some task \<Rightarrow>
          and_then (raise_first
            [(task_runtime_run_id task \<noteq> fd_runtime_run_id f,
                ValueError ''V11 finding task ownership mismatch''),
             (task_analysis_round task \<noteq> Some (fd_analysis_round f),
                ValueError ''V11 finding task round mismatch'')]) (\<lambda>_.
          if fd_analysis_round f \<noteq> Round_2 then Inr ()
          else case first_match (\<lambda>a. Some (ca_id a) = fd_critic_assessment_id f)
                      (case review of None \<Rightarrow> [] | Some r \<Rightarrow> rv_critic_assessments r) of
            None \<Rightarrow> Inl (ValueError ''V11 finding Critic assessment ownership mismatch'')
          | Some a \<Rightarrow> raise_first
              [(ca_runtime_run_id a \<noteq> fd_runtime_run_id f,
                  ValueError ''V11 finding Critic assessment owner mismatch''),
               (task_critic_assessment_id task \<noteq> Some (ca_id a),
                  ValueError ''V11 finding task Critic assessment mismatch''),
               (task_id task \<notin> set (ca_supplemental_task_ids a),
                  ValueError ''V11 finding task is not linked to Critic request'')]))"

section \<open>Investigation records\<close>

definition repo_get :: "repository \<Rightarrow> ident \<Rightarrow> investigation_record result" where
  "repo_get repo iid =
     (case dict_get (repo_records repo) iid of
        None \<Rightarrow> Inl (ValueError (''Unknown investigation: '' @ iid)) | Some r \<Rightarrow> Inr r)"

definition repo_save :: "investigation_record \<Rightarrow> unit repo_op" where
  "repo_save record repo =
     (case validate_investigation_record record of
        Inl e \<Rightarrow> (repo, Inl e)
      | Inr _ \<Rightarrow> (repo\<lparr>repo_records := dict_put (repo_records repo) (ir_id record) record\<rparr>, Inr ()))"

text \<open>The mutable diagnosis projection of a record, cleared on activation.\<close>

definition clear_projection :: "investigation_record \<Rightarrow> investigation_record" where
  "clear_projection r =
     r\<lparr>ir_evidence := [], ir_provider_results := [], ir_specialist_results := [],
       ir_hypotheses := [], ir_report := None, ir_llm_analysis := None,
       ir_multi_agent_run := None, ir_actions := [], ir_verification_suggestions := []\<rparr>"

definition investigation_settled :: "investigation_record \<Rightarrow> bool" where
  "investigation_settled r = (ir_status r \<in> {Inv_COMPLETED, Inv_FAILED, Inv_CANCELLED})"

definition activate_projection :: "ident \<Rightarrow> ident \<Rightarrow> unit repo_op" where
  "activate_projection iid owner repo =
     (case repo_get repo iid of
        Inl e \<Rightarrow> (repo, Inl e)
      | Inr record \<Rightarrow>
          if ir_active_runtime_run_id record \<noteq> None
             \<and> ir_active_runtime_run_id record \<noteq> Some owner
             \<and> \<not> investigation_settled record
          then (repo, Inl (ValueError ''active projection owner is still running''))
          else (repo\<lparr>repo_records := dict_put (repo_records repo) iid
                       ((clear_projection record)\<lparr>ir_active_runtime_run_id := Some owner\<rparr>),
                     repo_plans := dict_pop (repo_plans repo) iid,
                     repo_tasks := dict_pop (repo_tasks repo) iid,
                     repo_context_facts := dict_pop (repo_context_facts repo) iid,
                     repo_tool_calls := dict_pop (repo_tool_calls repo) iid,
                     repo_agent_findings := dict_pop (repo_agent_findings repo) iid,
                     repo_executions := dict_pop (repo_executions repo) iid,
                     repo_coordination_reviews := dict_pop (repo_coordination_reviews repo) iid,
                     repo_react_traces := dict_pop (repo_react_traces repo) iid\<rparr>, Inr ()))"

definition repo_list :: "repository \<Rightarrow> investigation_record list" where
  "repo_list repo = sorted_desc ir_created_at (dict_values (repo_records repo))"

definition update_status ::
    "ident \<Rightarrow> investigation_status \<Rightarrow> string option \<Rightarrow> instant \<Rightarrow> unit repo_op" where
  "update_status iid status failure_reason now repo =
     (case repo_get repo iid of
        Inl e \<Rightarrow> (repo, Inl e)
      | Inr r \<Rightarrow>
          (let r' = r\<lparr>ir_status := status, ir_failure_reason := failure_reason,
                      ir_updated_at := now,
                      ir_completed_at := (if status = Inv_COMPLETED then Some now
                                          else ir_completed_at r)\<rparr>
           in (repo\<lparr>repo_records := dict_put (repo_records repo) (ir_id r) r'\<rparr>, Inr ())))"

text \<open>\<open>for index, x in enumerate(xs): if x.id != i: continue; xs[index] = y; return\<close>.\<close>

fun replace_first :: "('a \<Rightarrow> bool) \<Rightarrow> 'a \<Rightarrow> 'a list \<Rightarrow> 'a list" where
  "replace_first p y [] = []"
| "replace_first p y (x # xs) = (if p x then y # xs else x # replace_first p y xs)"

definition update_action_status ::
    "ident \<Rightarrow> ident \<Rightarrow> action_status \<Rightarrow> string option \<Rightarrow> instant \<Rightarrow> recommended_action repo_op" where
  "update_action_status iid aid status note now repo =
     (case repo_get repo iid of
        Inl e \<Rightarrow> (repo, Inl e)
      | Inr r \<Rightarrow>
          (case validate_action_transition r aid status note of
             Inl e \<Rightarrow> (repo, Inl e)
           | Inr updated \<Rightarrow>
               (repo\<lparr>repo_records := dict_put (repo_records repo) (ir_id r)
                  (r\<lparr>ir_actions := replace_first (\<lambda>a. ac_id a = aid) updated (ir_actions r),
                     ir_updated_at := now\<rparr>)\<rparr>, Inr updated)))"

definition update_verification_status ::
    "ident \<Rightarrow> ident \<Rightarrow> verification_status \<Rightarrow> string option \<Rightarrow> ident list \<Rightarrow> ident list
       \<Rightarrow> cause_type list \<Rightarrow> ident list option \<Rightarrow> instant \<Rightarrow> verification_suggestion repo_op" where
  "update_verification_status iid vid status result_note evidence_ids action_ids causes
       candidates now repo =
     (case repo_get repo iid of
        Inl e \<Rightarrow> (repo, Inl e)
      | Inr r \<Rightarrow>
          (case validate_verification_transition r vid status result_note evidence_ids
                  action_ids causes candidates of
             Inl e \<Rightarrow> (repo, Inl e)
           | Inr updated \<Rightarrow>
               (repo\<lparr>repo_records := dict_put (repo_records repo) (ir_id r)
                  (r\<lparr>ir_verification_suggestions :=
                       replace_first (\<lambda>v. vs_id v = vid) updated (ir_verification_suggestions r),
                     ir_updated_at := now\<rparr>)\<rparr>, Inr updated)))"

section \<open>Plans, tasks, executions, facts, tool calls, memory\<close>

definition save_plan :: "diagnosis_plan \<Rightarrow> unit repo_op" where
  "save_plan plan repo =
     (case validate_plan_and_tasks (plan_investigation_id plan) (Some plan) [] of
        Inl e \<Rightarrow> (repo, Inl e)
      | Inr tasks \<Rightarrow>
          (repo\<lparr>repo_plans := dict_put (repo_plans repo) (plan_investigation_id plan) plan,
                repo_tasks := dict_put (repo_tasks repo) (plan_investigation_id plan) tasks\<rparr>, Inr ()))"

definition list_tasks :: "repository \<Rightarrow> ident \<Rightarrow> diagnosis_task list" where
  "list_tasks repo iid = (case dict_get (repo_tasks repo) iid of None \<Rightarrow> [] | Some ts \<Rightarrow> ts)"

definition get_plan :: "repository \<Rightarrow> ident \<Rightarrow> diagnosis_plan option" where
  "get_plan repo iid =
     map_option (\<lambda>p. p\<lparr>plan_tasks := list_tasks repo iid\<rparr>) (dict_get (repo_plans repo) iid)"

definition save_tasks :: "ident \<Rightarrow> diagnosis_task list \<Rightarrow> unit repo_op" where
  "save_tasks iid tasks repo =
     (case validate_plan_and_tasks iid None tasks of
        Inl e \<Rightarrow> (repo, Inl e)
      | Inr ts \<Rightarrow> (repo\<lparr>repo_tasks := dict_put (repo_tasks repo) iid ts\<rparr>, Inr ()))"

definition save_executions :: "ident \<Rightarrow> agent_execution list \<Rightarrow> unit repo_op" where
  "save_executions iid executions repo =
     (case check_all validate_agent_execution executions of
        Inl e \<Rightarrow> (repo, Inl e)
      | Inr _ \<Rightarrow> (repo\<lparr>repo_executions := dict_put (repo_executions repo) iid
                     (dict_put_all ex_id executions (bucket (repo_executions repo) iid))\<rparr>, Inr ()))"

definition list_executions :: "repository \<Rightarrow> ident \<Rightarrow> agent_execution list" where
  "list_executions repo iid = dict_values (bucket (repo_executions repo) iid)"

definition save_context_facts :: "ident \<Rightarrow> context_fact list \<Rightarrow> unit repo_op" where
  "save_context_facts iid facts repo =
     (repo\<lparr>repo_context_facts := dict_put (repo_context_facts repo) iid
        (dict_put_all cf_id facts (bucket (repo_context_facts repo) iid))\<rparr>, Inr ())"

definition list_context_facts :: "repository \<Rightarrow> ident \<Rightarrow> context_fact list" where
  "list_context_facts repo iid = dict_values (bucket (repo_context_facts repo) iid)"

definition save_tool_calls :: "ident \<Rightarrow> tool_call list \<Rightarrow> unit repo_op" where
  "save_tool_calls iid calls repo =
     (repo\<lparr>repo_tool_calls := dict_put (repo_tool_calls repo) iid
        (dict_put_all tc_id calls (bucket (repo_tool_calls repo) iid))\<rparr>, Inr ())"

definition list_tool_calls :: "repository \<Rightarrow> ident \<Rightarrow> tool_call list" where
  "list_tool_calls repo iid = dict_values (bucket (repo_tool_calls repo) iid)"

definition save_memory_items :: "memory_item list \<Rightarrow> unit repo_op" where
  "save_memory_items items repo =
     (repo\<lparr>repo_memory_items := dict_put_all mi_id items (repo_memory_items repo)\<rparr>, Inr ())"

text \<open>\<open>items[:limit]\<close>: a negative limit drops from the end.\<close>

definition py_take :: "int \<Rightarrow> 'a list \<Rightarrow> 'a list" where
  "py_take n xs = (if 0 \<le> n then take (nat n) xs else take (length xs - nat (- n)) xs)"

definition list_memory :: "repository \<Rightarrow> string \<Rightarrow> string \<Rightarrow> int option \<Rightarrow> memory_item list" where
  "list_memory repo service environment limit =
     (let items = sorted_desc (\<lambda>m. (mi_created_at m, mi_id m))
        (filter (\<lambda>m. mi_service m = service \<and> mi_environment m = environment)
           (dict_values (repo_memory_items repo)))
      in case limit of None \<Rightarrow> items | Some n \<Rightarrow> py_take n items)"

section \<open>Findings, reviews, traces\<close>

definition list_agent_findings :: "repository \<Rightarrow> ident \<Rightarrow> agent_finding list" where
  "list_agent_findings repo iid = dict_values (bucket (repo_agent_findings repo) iid)"

definition get_coordination_review :: "repository \<Rightarrow> ident \<Rightarrow> coordination_review option" where
  "get_coordination_review repo iid = dict_get (repo_coordination_reviews repo) iid"

definition finding_admission_check ::
    "(ident, agent_finding) dict \<Rightarrow> (ident, diagnosis_task) dict \<Rightarrow> coordination_review option
       \<Rightarrow> agent_finding \<Rightarrow> unit result" where
  "finding_admission_check all_findings tasks review f =
     and_then (legacy_revision_check all_findings f) (\<lambda>_.
     and_then (investigator_linkage_check tasks review f) (\<lambda>_. raise_first
       [(fd_agent_name f = FActor_INVESTIGATOR
           \<and> (case review of None \<Rightarrow> False | Some r \<Rightarrow> rv_runtime_run_id r \<noteq> fd_runtime_run_id f),
           ValueError ''V11 finding and review owner mismatch'')]))"

text \<open>\<open>setdefault\<close> creates the bucket before the per-finding checks, so it survives a raise.\<close>

definition save_agent_findings :: "ident \<Rightarrow> agent_finding list \<Rightarrow> unit repo_op" where
  "save_agent_findings iid findings repo =
     (case and_then (check_all validate_agent_finding findings) (\<lambda>_. raise_first
             [(list_ex (\<lambda>f. fd_investigation_id f \<noteq> iid) findings,
                 ValueError ''Agent finding investigation mismatch'')]) of
        Inl e \<Rightarrow> (repo, Inl e)
      | Inr _ \<Rightarrow>
          (let b = bucket (repo_agent_findings repo) iid;
               repo1 = repo\<lparr>repo_agent_findings := dict_put (repo_agent_findings repo) iid b\<rparr>;
               review = get_coordination_review repo iid;
               tasks = dict_put_all task_id (list_tasks repo iid) [] in
           case check_all (finding_admission_check (dict_put_all fd_id findings b) tasks review)
                  findings of
             Inl e \<Rightarrow> (repo1, Inl e)
           | Inr _ \<Rightarrow>
               (repo1\<lparr>repo_agent_findings := dict_put (repo_agent_findings repo) iid
                        (dict_put_all fd_id findings b)\<rparr>, Inr ())))"

definition save_coordination_review :: "coordination_review \<Rightarrow> unit repo_op" where
  "save_coordination_review review repo =
     (case validate_coordination_review review of
        Inl e \<Rightarrow> (repo, Inl e)
      | Inr r \<Rightarrow> (repo\<lparr>repo_coordination_reviews :=
                       dict_put (repo_coordination_reviews repo) (rv_investigation_id r) r\<rparr>, Inr ()))"

text \<open>
  \<open>save_multi_agent_result\<close>: the SDK layer's findings, executions and review of the
  investigation are replaced as one; what other layers wrote stays.
\<close>

definition save_multi_agent_result ::
    "ident \<Rightarrow> agent_finding list \<Rightarrow> agent_execution list \<Rightarrow> coordination_review option
       \<Rightarrow> unit repo_op" where
  "save_multi_agent_result iid findings executions review repo =
     (case validate_multi_agent_result iid findings executions review of
        Inl e \<Rightarrow> (repo, Inl e)
      | Inr review' \<Rightarrow>
          (let kept_f = filter (\<lambda>(i, f). fd_execution_layer f \<noteq> Layer_OPENAI_AGENTS_SDK)
                          (bucket (repo_agent_findings repo) iid);
               kept_x = filter (\<lambda>(i, x). ex_execution_layer x \<noteq> Layer_OPENAI_AGENTS_SDK)
                          (bucket (repo_executions repo) iid);
               reviews = repo_coordination_reviews repo
           in (repo\<lparr>repo_agent_findings := dict_put (repo_agent_findings repo) iid
                      (dict_put_all fd_id findings kept_f),
                    repo_executions := dict_put (repo_executions repo) iid
                      (dict_put_all ex_id executions kept_x),
                    repo_coordination_reviews :=
                      (case review' of
                         Some r \<Rightarrow> dict_put reviews iid r
                       | None \<Rightarrow>
                           (case dict_get reviews iid of
                              None \<Rightarrow> reviews
                            | Some old \<Rightarrow>
                                if rv_execution_layer old = Layer_OPENAI_AGENTS_SDK
                                then dict_pop reviews iid else reviews))\<rparr>, Inr ())))"

definition get_react_trace :: "repository \<Rightarrow> ident \<Rightarrow> react_trace option" where
  "get_react_trace repo iid = dict_get (repo_react_traces repo) iid"

definition save_v11_react_trace :: "react_trace \<Rightarrow> unit repo_op" where
  "save_v11_react_trace trace repo =
     (if rt_runtime_run_id trace = None
         \<or> list_ex (\<lambda>s. st_runtime_run_id s \<noteq> rt_runtime_run_id trace
                        \<or> st_assistant_text s \<noteq> None) (rt_steps trace)
      then (repo, Inl (ValueError ''V11 ReAct trace requires structured same-run steps''))
      else (repo\<lparr>repo_react_traces := dict_put (repo_react_traces repo)
                   (rt_investigation_id trace) trace\<rparr>, Inr ()))"

end
