(* ===== verification/Phases.thy ===== *)
theory Phases
  imports Execution_Contract Repository
begin

text \<open>
  Phases of a run (\<open>backend/runtime/phases.py\<close>): the business mutation a phase hands to the
  store and how it is applied to the repository, the two phase orders and the compare-and-set
  precondition of a commit, the digests a checkpoint carries, and the budgets that are
  recomputed from durable tool calls and model events.
\<close>

section \<open>Business mutations\<close>

record business_mutation =
  bm_investigation_id :: ident
  bm_investigation :: "investigation_record option"
  bm_plan :: "diagnosis_plan option"
  bm_tasks :: "diagnosis_task list option"
  bm_context_facts :: "context_fact list option"
  bm_tool_calls :: "tool_call list option"
  bm_findings :: "agent_finding list option"
  bm_executions :: "agent_execution list option"
  bm_review :: "coordination_review option"
  bm_react_trace :: "react_trace option"
  bm_replace_multi_agent_result :: bool
  bm_activate_projection :: bool

definition validate_mutation_record :: "business_mutation \<Rightarrow> unit result" where
  "validate_mutation_record m =
     (case bm_investigation m of
        None \<Rightarrow> Inr ()
      | Some r \<Rightarrow> if ir_id r \<noteq> bm_investigation_id m
                  then Inl (ValueError ''business mutation investigation mismatch'') else Inr ())"

text \<open>The loop that adds evidence to the current evidence, refusing a changed duplicate.\<close>

fun merge_evidence ::
    "(ident, evidence_item) dict \<Rightarrow> evidence_item list \<Rightarrow> (ident, evidence_item) dict result" where
  "merge_evidence d [] = Inr d"
| "merge_evidence d (e # es) =
     (case dict_get d (ei_id e) of
        Some previous \<Rightarrow>
          if previous \<noteq> e then Inl (ValueError ''duplicate evidence has different content'')
          else merge_evidence (dict_put d (ei_id e) e) es
      | None \<Rightarrow> merge_evidence (dict_put d (ei_id e) e) es)"

text \<open>
  \<open>merge_tool_result\<close>: provider results are keyed by their JSON dump in the source, which
  identifies equal values; here a result is its own key.
\<close>

definition merge_tool_result ::
    "business_mutation \<Rightarrow> investigation_record \<Rightarrow> business_mutation result" where
  "merge_tool_result m current =
     (case bm_investigation m of
        None \<Rightarrow> Inr m
      | Some incoming \<Rightarrow>
          and_then (validate_mutation_record m) (\<lambda>_.
          and_then (merge_evidence (dict_put_all ei_id (ir_evidence current) []) (ir_evidence incoming)) (\<lambda>evidence.
            Inr (m\<lparr>bm_investigation := Some (current\<lparr>
                 ir_evidence := dict_values evidence,
                 ir_provider_results := dict_values (dict_put_all (\<lambda>p. p)
                    (ir_provider_results current @ ir_provider_results incoming) []),
                 ir_updated_at := max (ir_updated_at current) (ir_updated_at incoming)\<rparr>)\<rparr>))))"

definition projection_record :: "business_mutation \<Rightarrow> investigation_record \<Rightarrow> investigation_record" where
  "projection_record m r = (if \<not> bm_activate_projection m then r else clear_projection r)"

text \<open>An operation that may only raise.\<close>

definition check_op :: "(repository \<Rightarrow> unit result) \<Rightarrow> unit repo_op" where
  "check_op f repo = (repo, f repo)"

definition when_op :: "bool \<Rightarrow> ('s, unit) op \<Rightarrow> ('s, unit) op" where
  "when_op b f = (if b then f else skip_op)"

definition activate_for_mutation :: "business_mutation \<Rightarrow> unit repo_op" where
  "activate_for_mutation m repo =
     (case Option.bind (bm_investigation m) ir_active_runtime_run_id of
        None \<Rightarrow> (repo, Inl (ValueError ''projection activation requires a runtime owner''))
      | Some owner \<Rightarrow> activate_projection (bm_investigation_id m) owner repo)"

definition opt_list :: "'a list option \<Rightarrow> 'a list" where
  "opt_list x = (case x of None \<Rightarrow> [] | Some xs \<Rightarrow> xs)"

definition apply_memory :: "business_mutation \<Rightarrow> unit repo_op" where
  "apply_memory m =
     (let iid = bm_investigation_id m in
      then_op (check_op (\<lambda>_. validate_mutation_record m))
     (then_op (check_op (\<lambda>repo. and_then (repo_get repo iid) (\<lambda>_. Inr ())))
     (then_op (when_op (bm_activate_projection m) (activate_for_mutation m))
     (then_op (when_some (bm_investigation m) (\<lambda>r. repo_save (projection_record m r)))
     (then_op (when_some (bm_plan m) save_plan)
     (then_op (when_some (bm_tasks m) (save_tasks iid))
     (then_op (when_some (bm_context_facts m) (save_context_facts iid))
     (then_op (when_some (bm_react_trace m) save_v11_react_trace)
     (then_op (when_some (bm_tool_calls m) (save_tool_calls iid))
        (when_op (bm_replace_multi_agent_result m)
           (save_multi_agent_result iid (opt_list (bm_findings m)) (opt_list (bm_executions m))
              (bm_review m))))))))))))"

section \<open>Commits\<close>

record tool_commit =
  tm_run_id :: ident
  tm_attempt_id :: ident
  tm_lease_owner :: string
  tm_lease_version :: int
  tm_mutation :: business_mutation
  tm_call :: tool_call
  tm_phase :: "runtime_phase option"

record phase_commit =
  pc_run_id :: ident
  pc_attempt_id :: ident
  pc_lease_owner :: string
  pc_lease_version :: int
  pc_phase :: runtime_phase
  pc_mutation :: business_mutation
  pc_safe_payload :: payload
  pc_resume_state :: resume_state
  pc_status :: string
  pc_expected_checkpoint_id :: "ident option"
  pc_expected_previous_phase :: "runtime_phase option"
  pc_checkpoint_id :: ident
  pc_schema_version :: int

text \<open>\<open>PhaseCommit.__post_init__\<close>\<close>

definition validate_phase_commit :: "phase_commit \<Rightarrow> unit result" where
  "validate_phase_commit c = raise_first
     [(pc_status c \<notin> {''completed'', ''skipped'', ''failed''},
         ValueError ''phase commit status must be completed, skipped, or failed'')]"

section \<open>Phase orders\<close>

definition v10_phase_order :: "runtime_phase list" where
  "v10_phase_order =
     [Phase_INTAKE, Phase_EVIDENCE_COLLECTION, Phase_DETERMINISTIC_RCA,
      Phase_SPECIALIST_ANALYSIS, Phase_CONFLICT_REVIEW, Phase_COORDINATION,
      Phase_REPORT_GENERATION, Phase_FINALIZE]"

definition v11_phase_order :: "runtime_phase list" where
  "v11_phase_order =
     [Phase_INTAKE, Phase_EVIDENCE_COLLECTION, Phase_LEAD_PLANNING,
      Phase_INVESTIGATOR_ROUND_1, Phase_CRITIC_REVIEW, Phase_INVESTIGATOR_ROUND_2,
      Phase_CRITIC_RECONCILIATION, Phase_LEAD_ADJUDICATION, Phase_RESULT_VALIDATION,
      Phase_REPORT_GENERATION, Phase_FINALIZE]"

record phase_profile =
  pp_version :: execution_contract_version
  pp_order :: "runtime_phase list"
  pp_handler_names :: "string list"
  pp_ui_labels :: "(string \<times> string) list"

definition phase_profile_for :: "execution_contract_version \<Rightarrow> phase_profile" where
  "phase_profile_for version =
     (let order = (if version = Version_V11 then v11_phase_order else v10_phase_order)
      in \<lparr>pp_version = (if version = Version_V11 then Version_V11 else Version_V10_LEGACY),
          pp_order = order, pp_handler_names = map phase_value order,
          pp_ui_labels = map (\<lambda>p. (phase_value p, phase_value p)) order\<rparr>)"

definition phase_order_for :: "execution_contract_version \<Rightarrow> runtime_phase list" where
  "phase_order_for version = pp_order (phase_profile_for version)"

text \<open>\<open>phase_order.index(phase)\<close>\<close>

fun index_of :: "'a list \<Rightarrow> 'a \<Rightarrow> nat option" where
  "index_of [] x = None"
| "index_of (y # ys) x = (if y = x then Some 0 else map_option Suc (index_of ys x))"

definition ensure_phase_precondition ::
    "runtime_phase option \<Rightarrow> ident option \<Rightarrow> phase_commit \<Rightarrow> runtime_phase list \<Rightarrow> unit result" where
  "ensure_phase_precondition current latest c order =
     and_then (raise_first
       [(pc_expected_checkpoint_id c \<noteq> latest,
           ValueError ''phase checkpoint compare-and-set failed''),
        (pc_expected_previous_phase c \<noteq> current, ValueError ''phase predecessor changed'')]) (\<lambda>_.
     and_then (case current of
         None \<Rightarrow> Inr 0
       | Some p \<Rightarrow> (case index_of order p of
           None \<Rightarrow> Inl (ValueError ''tuple.index(x): x not in tuple'')
         | Some i \<Rightarrow> Inr (Suc i))) (\<lambda>expected. raise_first
       [(length order \<le> expected \<or> order ! expected \<noteq> pc_phase c,
           ValueError ''phase commit is duplicate or out of order'')]))"

section \<open>Checkpoint digest\<close>

definition checkpoint_payload ::
    "ident \<Rightarrow> ident \<Rightarrow> runtime_phase \<Rightarrow> resume_state \<Rightarrow> int \<Rightarrow> payload" where
  "checkpoint_payload rid aid phase rs schema =
     [(''schema_version'', PInt schema), (''run_id'', PStr rid), (''attempt_id'', PStr aid),
      (''completed_phase'', PStr (phase_value phase)),
      (''referenced_record_ids'', pdict
         [(''evidence'', PList (map PStr (sort (rs_evidence_ids rs)))),
          (''findings'', PList (map PStr (sort (rs_finding_ids rs)))),
          (''reviews'', PList (map PStr (sort (rs_review_ids rs)))),
          (''reports'', PList (map PStr (sort (rs_report_ids rs))))]),
      (''remaining_budgets'', pdict
         [(''tool'', PInt (rs_tool_budget rs)), (''token'', opt_int (rs_token_budget rs)),
          (''model_turns'', opt_int (rs_model_turns rs))]),
      (''successful_tool_keys'', PList (map PStr (sort (rs_successful_tool_keys rs))))]"

definition checkpoint_digest ::
    "digest_ext \<Rightarrow> ident \<Rightarrow> ident \<Rightarrow> runtime_phase \<Rightarrow> resume_state \<Rightarrow> int \<Rightarrow> string result" where
  "checkpoint_digest ext rid aid phase rs schema =
     json_digest ext False True (pdict (checkpoint_payload rid aid phase rs schema))"

section \<open>Projection digest\<close>

text \<open>\<open>model_dump(mode="json")\<close> of the referenced models, pydantic's serialisation.\<close>

record dump_ext =
  du_evidence :: "evidence_item \<Rightarrow> pyval"
  du_finding :: "agent_finding \<Rightarrow> pyval"
  du_review :: "coordination_review \<Rightarrow> pyval"
  du_report :: "incident_report \<Rightarrow> pyval"
  du_call :: "tool_call \<Rightarrow> pyval"

text \<open>What the checkpoint's references resolve in: the mutation's part, else the stored part.\<close>

definition pending_record :: "repository \<Rightarrow> ident \<Rightarrow> business_mutation option \<Rightarrow> investigation_record result" where
  "pending_record repo iid mutation =
     and_then (repo_get repo iid) (\<lambda>persisted.
       Inr (case Option.bind mutation bm_investigation of Some r \<Rightarrow> r | None \<Rightarrow> persisted))"

definition pending_findings :: "repository \<Rightarrow> ident \<Rightarrow> business_mutation option \<Rightarrow> agent_finding list" where
  "pending_findings repo iid mutation =
     (case Option.bind mutation bm_findings of Some fs \<Rightarrow> fs | None \<Rightarrow> list_agent_findings repo iid)"

definition pending_review :: "repository \<Rightarrow> ident \<Rightarrow> business_mutation option \<Rightarrow> coordination_review option" where
  "pending_review repo iid mutation =
     (case mutation of
        Some m \<Rightarrow> if bm_replace_multi_agent_result m then bm_review m
                  else get_coordination_review repo iid
      | None \<Rightarrow> get_coordination_review repo iid)"

definition pending_calls :: "repository \<Rightarrow> ident \<Rightarrow> business_mutation option \<Rightarrow> tool_call list" where
  "pending_calls repo iid mutation =
     (case Option.bind mutation bm_tool_calls of Some cs \<Rightarrow> cs | None \<Rightarrow> list_tool_calls repo iid)"

definition successful_tools :: "ident \<Rightarrow> tool_call list \<Rightarrow> (string, tool_call) dict" where
  "successful_tools rid calls =
     dict_put_all (\<lambda>c. the (tc_idempotency_key c))
       (filter (\<lambda>c. tc_runtime_run_id c = Some rid \<and> tc_status c = Tool_SUCCESS
                   \<and> tc_idempotency_key c \<noteq> None) calls) []"

definition option_dict :: "('v \<Rightarrow> 'k) \<Rightarrow> 'v option \<Rightarrow> ('k, 'v) dict" where
  "option_dict key x = (case x of None \<Rightarrow> [] | Some v \<Rightarrow> [(key v, v)])"

definition dumps :: "('v \<Rightarrow> pyval) \<Rightarrow> (string, 'v) dict \<Rightarrow> string list \<Rightarrow> pyval" where
  "dumps f d ids = PList (map (\<lambda>i. f (the (dict_get d i))) (sort (remdups ids)))"

definition durable_projection_digest ::
    "digest_ext \<Rightarrow> dump_ext \<Rightarrow> repository \<Rightarrow> ident \<Rightarrow> ident \<Rightarrow> resume_state \<Rightarrow> bool
       \<Rightarrow> business_mutation option \<Rightarrow> string result" where
  "durable_projection_digest ext du repo iid rid rs require_exact mutation =
     and_then (pending_record repo iid mutation) (\<lambda>record.
       let evidence = dict_put_all ei_id (ir_evidence record) [];
           findings = dict_put_all fd_id (pending_findings repo iid mutation) [];
           reviews = option_dict rv_id (pending_review repo iid mutation);
           reports = option_dict rp_id (ir_report record);
           tools = successful_tools rid (pending_calls repo iid mutation);
           pairs = [(rs_evidence_ids rs, dict_keys evidence), (rs_finding_ids rs, dict_keys findings),
                    (rs_review_ids rs, dict_keys reviews), (rs_report_ids rs, dict_keys reports),
                    (rs_successful_tool_keys rs, dict_keys tools)] in
       and_then (raise_first
         [(require_exact \<and> list_ex (\<lambda>(expected, actual). set expected \<noteq> set actual) pairs,
             ValueError ''checkpoint resume references differ from durable projection''),
          (list_ex (\<lambda>(expected, actual). \<not> set expected \<subseteq> set actual) pairs,
             ValueError ''checkpoint resume reference is missing from durable projection'')]) (\<lambda>_.
       json_digest ext False True (pdict
         [(''evidence'', dumps (du_evidence du) evidence (rs_evidence_ids rs)),
          (''findings'', dumps (du_finding du) findings (rs_finding_ids rs)),
          (''reviews'', dumps (du_review du) reviews (rs_review_ids rs)),
          (''reports'', dumps (du_report du) reports (rs_report_ids rs)),
          (''tools'', dumps (du_call du) tools (rs_successful_tool_keys rs)),
          (''remaining_budgets'', pdict
             [(''tool'', PInt (rs_tool_budget rs)), (''token'', opt_int (rs_token_budget rs)),
              (''model_turns'', opt_int (rs_model_turns rs))])])))"

section \<open>Durable budgets\<close>

definition logical_id :: "tool_call \<Rightarrow> ident" where
  "logical_id c =
     (case tc_logical_call_id c of None \<Rightarrow> tc_id c | Some i \<Rightarrow> if i = [] then tc_id c else i)"

definition consumed_calls :: "ident \<Rightarrow> tool_call list \<Rightarrow> ident list" where
  "consumed_calls rid calls =
     remdups (map logical_id
       (filter (\<lambda>c. tc_runtime_run_id c = Some rid \<and> consumes_budget c) calls))"

definition durable_tool_call_count ::
    "repository \<Rightarrow> ident \<Rightarrow> ident \<Rightarrow> business_mutation option \<Rightarrow> nat" where
  "durable_tool_call_count repo iid rid mutation =
     length (consumed_calls rid (pending_calls repo iid mutation))"

text \<open>\<open>int(text)\<close>: outer blanks, a sign, digits with single underscores between them.\<close>

fun digits_value :: "int \<Rightarrow> bool \<Rightarrow> string \<Rightarrow> int option" where
  "digits_value acc after_digit [] = (if after_digit then Some acc else None)"
| "digits_value acc after_digit (c # cs) =
     (if is_digit c then digits_value (10 * acc + int (code c - 48)) True cs
      else if c = CHR ''_'' \<and> after_digit then digits_value acc False cs
      else None)"

definition int_text :: "string \<Rightarrow> int option" where
  "int_text s =
     (case strip s of
        [] \<Rightarrow> None
      | c # cs \<Rightarrow> if c = CHR ''-'' then map_option uminus (digits_value 0 False cs)
                  else if c = CHR ''+'' then digits_value 0 False cs
                  else digits_value 0 False (c # cs))"

fun py_int :: "pyval \<Rightarrow> int result" where
  "py_int (PInt i) = Inr i"
| "py_int (PBool b) = Inr (if b then 1 else 0)"
| "py_int (PFloat (Finite r)) = Inr (if 0 \<le> r then \<lfloor>r\<rfloor> else \<lceil>r\<rceil>)"
| "py_int (PFloat NaN) = Inl (ValueError ''cannot convert float NaN to integer'')"
| "py_int (PFloat _) = Inl (OverflowError ''cannot convert float infinity to integer'')"
| "py_int (PStr s) =
     (case int_text s of Some i \<Rightarrow> Inr i
      | None \<Rightarrow> Inl (ValueError ''invalid literal for int() with base 10''))"
| "py_int _ = Inl (TypeError ''int() argument must be a string or a real number'')"

definition model_terminal_event :: "runtime_event \<Rightarrow> bool" where
  "model_terminal_event e =
     (case ev_type e of
        Known t \<Rightarrow> t \<in> {Ev_MODEL_COMPLETED, Ev_MODEL_FAILED}
      | Opaque s \<Rightarrow> s \<in> {''model.completed'', ''model.failed''})"

definition payload_int :: "runtime_event \<Rightarrow> string \<Rightarrow> int result" where
  "payload_int e key = py_int (get_or (ev_safe_payload e) key (PInt 0))"

text \<open>Unknown usage is charged with the reservation's accounted tokens.\<close>

definition event_tokens :: "runtime_event \<Rightarrow> int result" where
  "event_tokens e =
     (if get_or_none (ev_safe_payload e) ''usage_known'' = PBool False
      then payload_int e ''accounted_tokens''
      else and_then (payload_int e ''input_tokens'') (\<lambda>a.
           and_then (payload_int e ''output_tokens'') (\<lambda>b. Inr (a + b))))"

fun sum_results :: "('a \<Rightarrow> int result) \<Rightarrow> 'a list \<Rightarrow> int result" where
  "sum_results f [] = Inr 0"
| "sum_results f (x # xs) =
     and_then (f x) (\<lambda>a. and_then (sum_results f xs) (\<lambda>b. Inr (a + b)))"

definition counted_usage :: "ident \<Rightarrow> runtime_event \<Rightarrow> bool" where
  "counted_usage rid e =
     (ev_run_id e = rid \<and> ev_schema_version e = 1 \<and> model_terminal_event e
      \<and> get_or_none (ev_safe_payload e) ''reservation_status'' \<noteq> PStr ''retrying'')"

definition durable_token_usage :: "runtime_event list \<Rightarrow> ident \<Rightarrow> int result" where
  "durable_token_usage events rid = sum_results event_tokens (filter (counted_usage rid) events)"

definition rejected_reservation :: "ident \<Rightarrow> runtime_event \<Rightarrow> bool" where
  "rejected_reservation rid e =
     (ev_run_id e = rid \<and> ev_schema_version e = 1 \<and> model_terminal_event e
      \<and> get_or_none (ev_safe_payload e) ''reservation_status'' = PStr ''rejected'')"

definition durable_remaining_token_budget ::
    "runtime_event list \<Rightarrow> ident \<Rightarrow> int \<Rightarrow> int result" where
  "durable_remaining_token_budget events rid token_budget =
     (if list_ex (rejected_reservation rid) events then Inr 0
      else and_then (durable_token_usage events rid) (\<lambda>used. Inr (max 0 (token_budget - used))))"

section \<open>Open model reservations\<close>

record model_reservation =
  mr_logical_call_id :: pyval
  mr_reserved_tokens :: int
  mr_input_estimate :: int
  mr_attempt_id :: ident
  mr_execution_id :: "ident option"

definition model_event :: "runtime_event \<Rightarrow> bool" where
  "model_event e =
     (case ev_type e of
        Known t \<Rightarrow> t \<in> {Ev_MODEL_STARTED, Ev_MODEL_COMPLETED, Ev_MODEL_FAILED}
      | Opaque s \<Rightarrow> s \<in> {''model.started'', ''model.completed'', ''model.failed''})"

definition reservation_id_of :: "runtime_event \<Rightarrow> string option" where
  "reservation_id_of e =
     (case get_or_none (ev_safe_payload e) ''reservation_id'' of
        PStr s \<Rightarrow> if s = [] then None else Some s | _ \<Rightarrow> None)"

text \<open>\<open>value in {"reserved", "retrying"}\<close>: a set test hashes its operand.\<close>

definition reservation_step ::
    "ident \<Rightarrow> runtime_event \<Rightarrow> (string, model_reservation) dict
       \<Rightarrow> (string, model_reservation) dict result" where
  "reservation_step rid e active =
     (if ev_run_id e \<noteq> rid \<or> ev_schema_version e \<noteq> 1 \<or> \<not> model_event e then Inr active
      else (case reservation_id_of e of
        None \<Rightarrow> Inr active
      | Some i \<Rightarrow>
          and_then (in_strings (get_or_none (ev_safe_payload e) ''reservation_status'')
                      [''reserved'', ''retrying'']) (\<lambda>open_now.
          if open_now then
            and_then (payload_int e ''reserved_tokens'') (\<lambda>reserved.
            and_then (payload_int e ''input_estimate'') (\<lambda>estimate.
              Inr (dict_put active i
                \<lparr>mr_logical_call_id = get_or_none (ev_safe_payload e) ''logical_call_id'',
                 mr_reserved_tokens = reserved, mr_input_estimate = estimate,
                 mr_attempt_id = ev_attempt_id e, mr_execution_id = ev_execution_id e\<rparr>)))
          else Inr (dict_pop active i))))"

fun fold_results :: "('a \<Rightarrow> 'b \<Rightarrow> 'b result) \<Rightarrow> 'a list \<Rightarrow> 'b \<Rightarrow> 'b result" where
  "fold_results f [] b = Inr b"
| "fold_results f (x # xs) b = and_then (f x b) (fold_results f xs)"

definition durable_model_reservations ::
    "runtime_event list \<Rightarrow> ident \<Rightarrow> (string, model_reservation) dict result" where
  "durable_model_reservations events rid =
     fold_results (reservation_step rid) (sort_key ev_sequence events) []"

end
