(* ===== verification/Frozen_Projection.thy ===== *)
theory Frozen_Projection
  imports Repository Runtime_Domain
begin

text \<open>
  The frozen business projection of a run (\<open>backend/runtime/diff.py\<close>): the structured view
  that is taken from the repository when a run ends, validated, sealed with a digest, and
  later parsed and checked against the run it claims to describe.  A \<open>dict[str, Any]\<close> dump
  of a domain object is represented by the object itself.  SHA-256, the canonical JSON
  rendering of a projection, and the reading and printing of time stamps by \<open>datetime\<close> are
  parameters, collected in \<open>frozen_ext\<close>.
\<close>

section \<open>The frozen models\<close>

record frozen_claim =
  fl_component :: string
  fl_reason :: string
  fl_occurred_at :: instant

record frozen_evidence =
  fe_id :: ident
  fe_provider :: evidence_provider
  fe_kind :: evidence_kind
  fe_timestamp :: instant
  fe_confidence :: rat
  fe_status :: evidence_status
  fe_claims :: "frozen_claim list"

record frozen_hypothesis =
  fh_id :: ident
  fh_cause_type :: cause_type
  fh_confidence :: rat
  fh_supporting :: "ident list"
  fh_contradicting :: "ident list"

record frozen_finding =
  ff_id :: ident
  ff_investigation_id :: ident
  ff_agent_name :: finding_actor
  ff_finding_type :: finding_type
  ff_confidence :: rat
  ff_evidence_ids :: "ident list"
  ff_related_cause_type :: "cause_type option"
  ff_severity :: finding_severity
  ff_blocking :: bool
  ff_execution_layer :: agent_execution_layer
  ff_analysis_round :: analysis_round
  ff_revises_finding_id :: "ident option"
  ff_gap_count :: nat
  ff_agent_instance_id :: "ident option"
  ff_task_id :: "ident option"
  ff_runtime_run_id :: "ident option"
  ff_critic_assessment_id :: "ident option"
  ff_affected_entity :: "string option"
  ff_failure_mechanism :: "string option"
  ff_contradicting :: "ident list"

record frozen_candidate =
  fc_id :: ident
  fc_cause_type :: "cause_type option"
  fc_rank :: int
  fc_confidence :: rat
  fc_supporting_findings :: "ident list"
  fc_contradicting_findings :: "ident list"
  fc_supporting_evidence :: "ident list"
  fc_contradicting_evidence :: "ident list"
  fc_affected_entity :: "string option"
  fc_failure_class :: "string option"
  fc_failure_mechanism :: "string option"
  fc_onset_start :: "instant option"
  fc_onset_end :: "instant option"

record frozen_root_cause =
  fa_occurred_at :: instant
  fa_component :: string
  fa_reason :: string
  fa_supporting :: "ident list"

record frozen_review =
  fv_id :: ident
  fv_investigation_id :: ident
  fv_candidates :: "frozen_candidate list"
  fv_root_causes :: "frozen_root_cause list"
  fv_execution_layer :: agent_execution_layer
  fv_run_status :: multi_agent_run_status
  fv_decision_status :: "coordination_decision_status option"
  fv_baseline_cause_type :: "cause_type option"
  fv_selected_cause_type :: "cause_type option"
  fv_model_provider :: "model_provider option"
  fv_model_name :: "string option"
  fv_primary_stabilization :: "stabilization_category option"
  fv_secondary_stabilization :: "stabilization_category list"
  fv_critic_assessments :: "critic_assessment list"
  fv_lead_decision :: "lead_decision option"
  fv_final_decision :: "final_decision option"
  fv_contract_revision :: analysis_round
  fv_diagnostic_status :: "diagnostic_status option"
  fv_authority_mode :: "authority_mode option"
  fv_runtime_run_id :: "ident option"

record frozen_report =
  fp_id :: ident
  fp_investigation_id :: ident
  fp_hypotheses :: "frozen_hypothesis list"
  fp_action_ids :: "ident list"
  fp_verification_ids :: "ident list"
  fp_diagnoses :: "frozen_candidate list"
  fp_alternatives :: "frozen_candidate list"
  fp_diagnostic_status :: "diagnostic_status option"
  fp_authority_mode :: "authority_mode option"
  fp_critic_assessments :: "critic_assessment list"
  fp_critic_summary :: "string option"
  fp_evidence_gaps :: "string list"
  fp_total_input_tokens :: int
  fp_total_output_tokens :: int
  fp_elapsed_time_ms :: int
  fp_runtime_run_id :: "ident option"

record frozen_projection =
  fz_investigation_id :: ident
  fz_environment :: string
  fz_evidence :: "frozen_evidence list"
  fz_hypotheses :: "frozen_hypothesis list"
  fz_task_ids :: "ident list"
  fz_execution_ids :: "ident list"
  fz_tool_call_ids :: "ident list"
  fz_findings :: "frozen_finding list"
  fz_review :: "frozen_review option"
  fz_report :: "frozen_report option"
  fz_action_ids :: "ident list"
  fz_verification_ids :: "ident list"
  fz_contract_version :: "execution_contract_version option"
  fz_activated :: bool  \<comment> \<open>\<open>projection_state\<close>\<close>
  fz_runtime_run_id :: "ident option"
  fz_active_runtime_run_id :: "ident option"
  fz_source_investigation_id :: "ident option"
  fz_diagnostic_status :: "diagnostic_status option"
  fz_authority_mode :: "authority_mode option"
  fz_lead_decision :: "lead_decision option"
  fz_final_decision :: "final_decision option"
  fz_contract_revision :: analysis_round
  fz_critic_assessments :: "critic_assessment list"
  fz_usage :: "(string, int) dict"
  fz_checkpoint_projections :: "(ident, string) dict"
  fz_integrity :: string

record frozen_ext =
  fx_sha256 :: "string \<Rightarrow> string"
  fx_projection_digest :: "frozen_projection \<Rightarrow> string"
  fx_from_iso :: "string \<Rightarrow> (instant \<times> string) option"
    \<comment> \<open>\<open>fromisoformat\<close> of a time stamp with a zone: its instant and its \<open>isoformat()\<close>\<close>
  fx_str_instant :: "instant \<Rightarrow> string"  \<comment> \<open>\<open>str(datetime)\<close>\<close>

section \<open>Validation: strings are stripped, then bounded\<close>

definition safe_id :: "string \<Rightarrow> bool" where
  "safe_id s = bounded_length 1 200 s"

definition id_list :: "nat \<Rightarrow> string list \<Rightarrow> bool" where
  "id_list n xs = (length xs \<le> n \<and> list_all safe_id xs)"

definition opt_id :: "string option \<Rightarrow> bool" where
  "opt_id x = (case x of None \<Rightarrow> True | Some s \<Rightarrow> safe_id s)"

definition strip_claim :: "frozen_claim \<Rightarrow> frozen_claim" where
  "strip_claim c = c\<lparr>fl_component := strip (fl_component c), fl_reason := strip (fl_reason c)\<rparr>"

definition claim_ok :: "frozen_claim \<Rightarrow> bool" where
  "claim_ok c = (is_hex64 (fl_component c) \<and> is_hex64 (fl_reason c))"

definition strip_frozen_evidence :: "frozen_evidence \<Rightarrow> frozen_evidence" where
  "strip_frozen_evidence e =
     e\<lparr>fe_id := strip (fe_id e), fe_claims := map strip_claim (fe_claims e)\<rparr>"

definition frozen_evidence_ok :: "frozen_evidence \<Rightarrow> bool" where
  "frozen_evidence_ok e =
     (safe_id (fe_id e) \<and> unit_interval (fe_confidence e) \<and> length (fe_claims e) \<le> 32
      \<and> list_all claim_ok (fe_claims e))"

definition strip_frozen_hypothesis :: "frozen_hypothesis \<Rightarrow> frozen_hypothesis" where
  "strip_frozen_hypothesis h =
     h\<lparr>fh_id := strip (fh_id h), fh_supporting := map strip (fh_supporting h),
       fh_contradicting := map strip (fh_contradicting h)\<rparr>"

definition frozen_hypothesis_ok :: "frozen_hypothesis \<Rightarrow> bool" where
  "frozen_hypothesis_ok h =
     (safe_id (fh_id h) \<and> unit_interval (fh_confidence h) \<and> id_list 512 (fh_supporting h)
      \<and> id_list 512 (fh_contradicting h))"

definition strip_frozen_finding :: "frozen_finding \<Rightarrow> frozen_finding" where
  "strip_frozen_finding f =
     f\<lparr>ff_id := strip (ff_id f), ff_investigation_id := strip (ff_investigation_id f),
       ff_evidence_ids := map strip (ff_evidence_ids f),
       ff_revises_finding_id := map_option strip (ff_revises_finding_id f),
       ff_agent_instance_id := map_option strip (ff_agent_instance_id f),
       ff_task_id := map_option strip (ff_task_id f),
       ff_runtime_run_id := map_option strip (ff_runtime_run_id f),
       ff_critic_assessment_id := map_option strip (ff_critic_assessment_id f),
       ff_affected_entity := map_option strip (ff_affected_entity f),
       ff_failure_mechanism := map_option strip (ff_failure_mechanism f),
       ff_contradicting := map strip (ff_contradicting f)\<rparr>"

definition frozen_finding_ok :: "frozen_finding \<Rightarrow> bool" where
  "frozen_finding_ok f =
     (safe_id (ff_id f) \<and> safe_id (ff_investigation_id f) \<and> unit_interval (ff_confidence f)
      \<and> id_list 512 (ff_evidence_ids f) \<and> opt_id (ff_revises_finding_id f)
      \<and> ff_gap_count f \<le> 64 \<and> opt_id (ff_agent_instance_id f) \<and> opt_id (ff_task_id f)
      \<and> opt_id (ff_runtime_run_id f) \<and> opt_id (ff_critic_assessment_id f)
      \<and> opt_max 128 (ff_affected_entity f) \<and> opt_max 512 (ff_failure_mechanism f)
      \<and> id_list 512 (ff_contradicting f))"

definition strip_frozen_candidate :: "frozen_candidate \<Rightarrow> frozen_candidate" where
  "strip_frozen_candidate c =
     c\<lparr>fc_id := strip (fc_id c),
       fc_supporting_findings := map strip (fc_supporting_findings c),
       fc_contradicting_findings := map strip (fc_contradicting_findings c),
       fc_supporting_evidence := map strip (fc_supporting_evidence c),
       fc_contradicting_evidence := map strip (fc_contradicting_evidence c),
       fc_affected_entity := map_option strip (fc_affected_entity c),
       fc_failure_class := map_option strip (fc_failure_class c),
       fc_failure_mechanism := map_option strip (fc_failure_mechanism c)\<rparr>"

definition frozen_candidate_ok :: "frozen_candidate \<Rightarrow> bool" where
  "frozen_candidate_ok c =
     (safe_id (fc_id c) \<and> 1 \<le> fc_rank c \<and> fc_rank c \<le> 256 \<and> unit_interval (fc_confidence c)
      \<and> id_list 512 (fc_supporting_findings c) \<and> id_list 512 (fc_contradicting_findings c)
      \<and> id_list 512 (fc_supporting_evidence c) \<and> id_list 512 (fc_contradicting_evidence c)
      \<and> opt_max 128 (fc_affected_entity c) \<and> opt_max 128 (fc_failure_class c)
      \<and> opt_max 512 (fc_failure_mechanism c))"

definition strip_frozen_root_cause :: "frozen_root_cause \<Rightarrow> frozen_root_cause" where
  "strip_frozen_root_cause a =
     a\<lparr>fa_component := strip (fa_component a), fa_reason := strip (fa_reason a),
       fa_supporting := map strip (fa_supporting a)\<rparr>"

definition frozen_root_cause_ok :: "frozen_root_cause \<Rightarrow> bool" where
  "frozen_root_cause_ok a =
     (is_hex64 (fa_component a) \<and> is_hex64 (fa_reason a) \<and> fa_supporting a \<noteq> []
      \<and> id_list 512 (fa_supporting a))"

definition strip_frozen_review :: "frozen_review \<Rightarrow> frozen_review" where
  "strip_frozen_review r =
     r\<lparr>fv_id := strip (fv_id r), fv_investigation_id := strip (fv_investigation_id r),
       fv_candidates := map strip_frozen_candidate (fv_candidates r),
       fv_root_causes := map strip_frozen_root_cause (fv_root_causes r),
       fv_model_name := map_option strip (fv_model_name r),
       fv_runtime_run_id := map_option strip (fv_runtime_run_id r)\<rparr>"

definition frozen_review_ok :: "frozen_review \<Rightarrow> bool" where
  "frozen_review_ok r =
     (safe_id (fv_id r) \<and> safe_id (fv_investigation_id r)
      \<and> length (fv_candidates r) \<le> 256 \<and> list_all frozen_candidate_ok (fv_candidates r)
      \<and> length (fv_root_causes r) \<le> 64 \<and> list_all frozen_root_cause_ok (fv_root_causes r)
      \<and> opt_max 160 (fv_model_name r) \<and> length (fv_secondary_stabilization r) \<le> 16
      \<and> length (fv_critic_assessments r) \<le> 3 \<and> opt_id (fv_runtime_run_id r))"

definition strip_frozen_report :: "frozen_report \<Rightarrow> frozen_report" where
  "strip_frozen_report r =
     r\<lparr>fp_id := strip (fp_id r), fp_investigation_id := strip (fp_investigation_id r),
       fp_hypotheses := map strip_frozen_hypothesis (fp_hypotheses r),
       fp_action_ids := map strip (fp_action_ids r),
       fp_verification_ids := map strip (fp_verification_ids r),
       fp_diagnoses := map strip_frozen_candidate (fp_diagnoses r),
       fp_alternatives := map strip_frozen_candidate (fp_alternatives r),
       fp_critic_summary := map_option strip (fp_critic_summary r),
       fp_evidence_gaps := map strip (fp_evidence_gaps r),
       fp_runtime_run_id := map_option strip (fp_runtime_run_id r)\<rparr>"

definition frozen_report_ok :: "frozen_report \<Rightarrow> bool" where
  "frozen_report_ok r =
     (safe_id (fp_id r) \<and> safe_id (fp_investigation_id r)
      \<and> length (fp_hypotheses r) \<le> 64 \<and> list_all frozen_hypothesis_ok (fp_hypotheses r)
      \<and> id_list 512 (fp_action_ids r) \<and> id_list 512 (fp_verification_ids r)
      \<and> length (fp_diagnoses r) \<le> 256 \<and> list_all frozen_candidate_ok (fp_diagnoses r)
      \<and> length (fp_alternatives r) \<le> 256 \<and> list_all frozen_candidate_ok (fp_alternatives r)
      \<and> length (fp_critic_assessments r) \<le> 3 \<and> opt_max 512 (fp_critic_summary r)
      \<and> length (fp_evidence_gaps r) \<le> 32 \<and> 0 \<le> fp_total_input_tokens r
      \<and> 0 \<le> fp_total_output_tokens r \<and> 0 \<le> fp_elapsed_time_ms r \<and> opt_id (fp_runtime_run_id r))"

definition strip_frozen_projection :: "frozen_projection \<Rightarrow> frozen_projection" where
  "strip_frozen_projection p =
     p\<lparr>fz_investigation_id := strip (fz_investigation_id p),
       fz_environment := strip (fz_environment p),
       fz_evidence := map strip_frozen_evidence (fz_evidence p),
       fz_hypotheses := map strip_frozen_hypothesis (fz_hypotheses p),
       fz_task_ids := map strip (fz_task_ids p),
       fz_execution_ids := map strip (fz_execution_ids p),
       fz_tool_call_ids := map strip (fz_tool_call_ids p),
       fz_findings := map strip_frozen_finding (fz_findings p),
       fz_review := map_option strip_frozen_review (fz_review p),
       fz_report := map_option strip_frozen_report (fz_report p),
       fz_action_ids := map strip (fz_action_ids p),
       fz_verification_ids := map strip (fz_verification_ids p),
       fz_runtime_run_id := map_option strip (fz_runtime_run_id p),
       fz_active_runtime_run_id := map_option strip (fz_active_runtime_run_id p),
       fz_source_investigation_id := map_option strip (fz_source_investigation_id p),
       fz_usage := map (\<lambda>(k, v). (strip k, v)) (fz_usage p),
       fz_checkpoint_projections :=
         map (\<lambda>(k, v). (strip k, strip v)) (fz_checkpoint_projections p),
       fz_integrity := strip (fz_integrity p)\<rparr>"

definition frozen_projection_ok :: "frozen_projection \<Rightarrow> bool" where
  "frozen_projection_ok p =
     (safe_id (fz_investigation_id p) \<and> length (fz_environment p) \<le> 160
      \<and> length (fz_evidence p) \<le> 1024 \<and> list_all frozen_evidence_ok (fz_evidence p)
      \<and> length (fz_hypotheses p) \<le> 64 \<and> list_all frozen_hypothesis_ok (fz_hypotheses p)
      \<and> id_list 2048 (fz_task_ids p) \<and> id_list 2048 (fz_execution_ids p)
      \<and> id_list 2048 (fz_tool_call_ids p)
      \<and> length (fz_findings p) \<le> 512 \<and> list_all frozen_finding_ok (fz_findings p)
      \<and> (case fz_review p of None \<Rightarrow> True | Some r \<Rightarrow> frozen_review_ok r)
      \<and> (case fz_report p of None \<Rightarrow> True | Some r \<Rightarrow> frozen_report_ok r)
      \<and> id_list 512 (fz_action_ids p) \<and> id_list 512 (fz_verification_ids p)
      \<and> opt_id (fz_runtime_run_id p) \<and> opt_id (fz_active_runtime_run_id p)
      \<and> opt_id (fz_source_investigation_id p) \<and> length (fz_critic_assessments p) \<le> 3
      \<and> length (fz_usage p) \<le> 8 \<and> length (fz_checkpoint_projections p) \<le> 64
      \<and> list_all (\<lambda>(k, v). safe_id k \<and> is_hex64 v) (fz_checkpoint_projections p)
      \<and> is_hex64 (fz_integrity p))"

text \<open>\<open>FrozenBusinessProjection.model_validate\<close>\<close>

definition validate_frozen :: "frozen_projection \<Rightarrow> frozen_projection result" where
  "validate_frozen p =
     (let p' = strip_frozen_projection p in
      if \<not> frozen_projection_ok p' then Inl field_error
      else and_then (assert_safe_label (fz_environment p')) (\<lambda>_. Inr p'))"

section \<open>Sealing and parsing\<close>

text \<open>\<open>_validation_integrity\<close>: the digest of every field but the seal itself.\<close>

definition validation_integrity :: "frozen_ext \<Rightarrow> frozen_projection \<Rightarrow> string" where
  "validation_integrity ext p = fx_projection_digest ext (p\<lparr>fz_integrity := []\<rparr>)"

definition zero_digest :: string where
  "zero_digest = replicate 64 CHR ''0''"

definition reseal_frozen_projection ::
    "frozen_ext \<Rightarrow> frozen_projection \<Rightarrow> frozen_projection result" where
  "reseal_frozen_projection ext p =
     and_then (validate_frozen (p\<lparr>fz_integrity := zero_digest\<rparr>))
       (\<lambda>v. validate_frozen (v\<lparr>fz_integrity := validation_integrity ext v\<rparr>))"

definition parse_frozen_projection ::
    "frozen_ext \<Rightarrow> frozen_projection \<Rightarrow> frozen_projection result" where
  "parse_frozen_projection ext raw =
     and_then (validate_frozen raw)
       (\<lambda>v. if fz_integrity raw \<noteq> validation_integrity ext raw
               \<and> fz_integrity v \<noteq> validation_integrity ext v
            then Inl (ValueError ''frozen business projection digest mismatch'') else Inr v)"

definition finalize_frozen_projection ::
    "frozen_ext \<Rightarrow> frozen_projection \<Rightarrow> runtime_checkpoint list \<Rightarrow> frozen_projection result" where
  "finalize_frozen_projection ext p checkpoints =
     and_then (parse_frozen_projection ext p)
       (\<lambda>v. reseal_frozen_projection ext
              (v\<lparr>fz_checkpoint_projections :=
                   foldl (\<lambda>d c. dict_put d (ck_id c) (ck_projection_digest c)) [] checkpoints\<rparr>))"

definition validate_frozen_projection_source ::
    "frozen_projection \<Rightarrow> runtime_run \<Rightarrow> unit result" where
  "validate_frozen_projection_source p run =
     (if \<not> is_v11 run then raise_first
        [(fz_contract_version p \<notin> {None, Some (run_contract_version run)},
            ValueError ''frozen projection contract version mismatch'')]
      else raise_first
        [(fz_investigation_id p \<noteq> run_investigation_id run,
            ValueError ''frozen projection investigation mismatch''),
         (fz_contract_version p \<noteq> Some (run_contract_version run),
            ValueError ''frozen projection contract version mismatch''),
         (fz_runtime_run_id p \<noteq> Some (run_id run),
            ValueError ''frozen projection runtime owner mismatch''),
         (fz_authority_mode p \<noteq> Some (run_authority_mode run),
            ValueError ''frozen projection authority mismatch''),
         (fz_activated p \<and> fz_active_runtime_run_id p \<noteq> Some (run_id run),
            ValueError ''frozen projection active owner mismatch''),
         (\<not> fz_activated p \<and> fz_active_runtime_run_id p \<noteq> None,
            ValueError ''frozen projection inactive owner mismatch''),
         (list_ex (\<lambda>f. ff_runtime_run_id f \<notin> {None, Some (run_id run)}) (fz_findings p),
            ValueError ''frozen projection finding owner mismatch''),
         (case fz_review p of None \<Rightarrow> False | Some r \<Rightarrow> fv_runtime_run_id r \<noteq> Some (run_id run),
            ValueError ''frozen projection review owner mismatch''),
         (case fz_review p of None \<Rightarrow> False
            | Some r \<Rightarrow> fv_authority_mode r \<noteq> Some (run_authority_mode run),
            ValueError ''frozen projection review authority mismatch''),
         (case fz_report p of None \<Rightarrow> False | Some r \<Rightarrow> fp_runtime_run_id r \<noteq> Some (run_id run),
            ValueError ''frozen projection report owner mismatch''),
         (case fz_report p of None \<Rightarrow> False
            | Some r \<Rightarrow> fp_authority_mode r \<noteq> Some (run_authority_mode run),
            ValueError ''frozen projection report authority mismatch'')])"

section \<open>Freezing\<close>

text \<open>\<open>" ".join(re.findall(r"\w+", value.casefold()))\<close> on ASCII.\<close>

fun word_runs :: "string \<Rightarrow> string \<Rightarrow> string list" where
  "word_runs cur [] = (if cur = [] then [] else [rev cur])"
| "word_runs cur (c # cs) =
     (if is_word c then word_runs (c # cur) cs
      else (if cur = [] then [] else [rev cur]) @ word_runs [] cs)"

definition relationship_hash :: "frozen_ext \<Rightarrow> string \<Rightarrow> string" where
  "relationship_hash ext value = fx_sha256 ext (join '' '' (word_runs [] (lower value)))"

text \<open>\<open>root_cause_claims\<close>: the explicit, well-formed claims of an evidence payload.\<close>

definition claim_text :: "payload \<Rightarrow> string \<Rightarrow> string option" where
  "claim_text raw key =
     (case get_or_none raw key of
        PStr s \<Rightarrow> if strip s = [] then None else Some s | _ \<Rightarrow> None)"

definition root_cause_claim ::
    "frozen_ext \<Rightarrow> pyval \<Rightarrow> (string \<times> string \<times> instant \<times> string) option" where
  "root_cause_claim ext raw =
     (case as_dict raw of None \<Rightarrow> None
      | Some d \<Rightarrow>
          (case (claim_text d ''component'', claim_text d ''reason'', claim_text d ''occurred_at'') of
             (Some c, Some r, Some t) \<Rightarrow>
               (case fx_from_iso ext t of None \<Rightarrow> None
                | Some (i, shown) \<Rightarrow> Some (redact_text c, redact_text r, i, shown))
           | _ \<Rightarrow> None))"

definition root_cause_claims ::
    "frozen_ext \<Rightarrow> evidence_item \<Rightarrow> (string \<times> string \<times> instant \<times> string) list" where
  "root_cause_claims ext e =
     (case get_or_none (ei_payload e) ''root_cause_claims'' of
        PList xs \<Rightarrow> present (map (root_cause_claim ext) xs) | _ \<Rightarrow> [])"

text \<open>
  Claims of the evidence, then the review's attributions that rest on it; one per component,
  reason and rendered time, at most 32.
\<close>

definition frozen_root_cause_claims ::
    "frozen_ext \<Rightarrow> evidence_item \<Rightarrow> coordination_review option \<Rightarrow> frozen_claim list" where
  "frozen_root_cause_claims ext e review =
     (let own = map (\<lambda>(c, r, i, shown).
            (shown, \<lparr>fl_component = relationship_hash ext c, fl_reason = relationship_hash ext r,
                     fl_occurred_at = i\<rparr>)) (root_cause_claims ext e);
          attributed = (case review of None \<Rightarrow> []
            | Some rv \<Rightarrow> map (\<lambda>a. (fx_str_instant ext (at_occurred_at a),
                 \<lparr>fl_component = relationship_hash ext (at_component a),
                  fl_reason = relationship_hash ext (at_reason a),
                  fl_occurred_at = at_occurred_at a\<rparr>))
               (filter (\<lambda>a. ei_id e \<in> set (at_supporting_evidence_ids a)) (rv_root_causes rv)))
      in take 32 (map snd (dict_values
           (dict_put_all (\<lambda>(shown, c). (fl_component c, fl_reason c, shown))
              (own @ attributed) []))))"

definition freeze_evidence ::
    "frozen_ext \<Rightarrow> coordination_review option \<Rightarrow> evidence_item \<Rightarrow> frozen_evidence" where
  "freeze_evidence ext review e =
     \<lparr>fe_id = ei_id e, fe_provider = ei_provider e, fe_kind = ei_kind e,
      fe_timestamp = ei_timestamp e, fe_confidence = ei_confidence e, fe_status = ei_status e,
      fe_claims = frozen_root_cause_claims ext e review\<rparr>"

definition freeze_hypothesis :: "hypothesis \<Rightarrow> frozen_hypothesis" where
  "freeze_hypothesis h =
     \<lparr>fh_id = hy_id h, fh_cause_type = hy_cause_type h, fh_confidence = hy_confidence h,
      fh_supporting = hy_supporting_evidence_ids h,
      fh_contradicting = hy_contradicting_evidence_ids h\<rparr>"

definition freeze_finding :: "agent_finding \<Rightarrow> frozen_finding" where
  "freeze_finding f =
     \<lparr>ff_id = fd_id f, ff_investigation_id = fd_investigation_id f,
      ff_agent_name = fd_agent_name f, ff_finding_type = fd_finding_type f,
      ff_confidence = fd_confidence f, ff_evidence_ids = fd_evidence_ids f,
      ff_related_cause_type = fd_related_cause_type f, ff_severity = fd_severity f,
      ff_blocking = fd_blocking f, ff_execution_layer = fd_execution_layer f,
      ff_analysis_round = fd_analysis_round f,
      ff_revises_finding_id = fd_revises_finding_id f, ff_gap_count = length (fd_gaps f),
      ff_agent_instance_id = fd_agent_instance_id f, ff_task_id = fd_task_id f,
      ff_runtime_run_id = fd_runtime_run_id f,
      ff_critic_assessment_id = fd_critic_assessment_id f,
      ff_affected_entity = fd_affected_entity f, ff_failure_mechanism = fd_failure_mechanism f,
      ff_contradicting = fd_contradicting_evidence_ids f\<rparr>"

definition freeze_candidate :: "root_cause_candidate \<Rightarrow> frozen_candidate" where
  "freeze_candidate c =
     \<lparr>fc_id = rc_id c, fc_cause_type = rc_cause_type c, fc_rank = rc_rank c,
      fc_confidence = rc_confidence c, fc_supporting_findings = rc_supporting_finding_ids c,
      fc_contradicting_findings = rc_contradicting_finding_ids c,
      fc_supporting_evidence = rc_supporting_evidence_ids c,
      fc_contradicting_evidence = rc_contradicting_evidence_ids c,
      fc_affected_entity = rc_affected_entity c, fc_failure_class = rc_failure_class c,
      fc_failure_mechanism = rc_failure_mechanism c, fc_onset_start = rc_onset_window_start c,
      fc_onset_end = rc_onset_window_end c\<rparr>"

definition freeze_root_cause :: "frozen_ext \<Rightarrow> root_cause_attribution \<Rightarrow> frozen_root_cause" where
  "freeze_root_cause ext a =
     \<lparr>fa_occurred_at = at_occurred_at a, fa_component = relationship_hash ext (at_component a),
      fa_reason = relationship_hash ext (at_reason a),
      fa_supporting = at_supporting_evidence_ids a\<rparr>"

definition freeze_review :: "frozen_ext \<Rightarrow> coordination_review \<Rightarrow> frozen_review" where
  "freeze_review ext r =
     \<lparr>fv_id = rv_id r, fv_investigation_id = rv_investigation_id r,
      fv_candidates = map freeze_candidate (rv_candidates r),
      fv_root_causes = map (freeze_root_cause ext) (rv_root_causes r),
      fv_execution_layer = rv_execution_layer r, fv_run_status = rv_run_status r,
      fv_decision_status = rv_decision_status r,
      fv_baseline_cause_type = rv_baseline_cause_type r,
      fv_selected_cause_type = rv_selected_cause_type r,
      fv_model_provider = rv_model_provider r, fv_model_name = rv_model_name r,
      fv_primary_stabilization = rv_primary_stabilization r,
      fv_secondary_stabilization = rv_secondary_stabilization r,
      fv_critic_assessments = rv_critic_assessments r, fv_lead_decision = rv_lead_decision r,
      fv_final_decision = rv_final_decision r, fv_contract_revision = rv_contract_revision r,
      fv_diagnostic_status = rv_diagnostic_status r,
      fv_authority_mode = Some (rv_authority_mode r), fv_runtime_run_id = rv_runtime_run_id r\<rparr>"

definition freeze_report :: "incident_report \<Rightarrow> frozen_report" where
  "freeze_report r =
     \<lparr>fp_id = rp_id r, fp_investigation_id = rp_investigation_id r,
      fp_hypotheses = map freeze_hypothesis (rp_hypotheses r),
      fp_action_ids = rp_action_ids r, fp_verification_ids = rp_verification_suggestion_ids r,
      fp_diagnoses = map freeze_candidate (rp_diagnoses r),
      fp_alternatives = map freeze_candidate (rp_alternatives r),
      fp_diagnostic_status = rp_diagnostic_status r, fp_authority_mode = rp_authority_mode r,
      fp_critic_assessments = rp_critic_assessments r, fp_critic_summary = rp_critic_summary r,
      fp_evidence_gaps = rp_evidence_gaps r, fp_total_input_tokens = rp_total_input_tokens r,
      fp_total_output_tokens = rp_total_output_tokens r,
      fp_elapsed_time_ms = rp_elapsed_time_ms r, fp_runtime_run_id = rp_runtime_run_id r\<rparr>"

text \<open>\<open>a or b\<close> on optional values.\<close>

definition or_else :: "'a option \<Rightarrow> 'a option \<Rightarrow> 'a option" where
  "or_else a b = (case a of None \<Rightarrow> b | Some x \<Rightarrow> Some x)"

definition summary_usage :: "multi_agent_run_summary option \<Rightarrow> (string, int) dict" where
  "summary_usage s =
     (case s of None \<Rightarrow> []
      | Some m \<Rightarrow> [(''input_tokens'', ms_total_input_tokens m),
                   (''output_tokens'', ms_total_output_tokens m),
                   (''elapsed_time_ms'', ms_elapsed_time_ms m)])"

definition collect_projection ::
    "frozen_ext \<Rightarrow> repository \<Rightarrow> investigation_record \<Rightarrow> ident \<Rightarrow> ident option
       \<Rightarrow> authority_mode option \<Rightarrow> frozen_projection" where
  "collect_projection ext repo record iid rid authority =
     (let review = get_coordination_review repo iid;
          summary = ir_multi_agent_run record;
          active = (rid = None \<or> ir_active_runtime_run_id record = rid)
      in \<lparr>fz_investigation_id = iid, fz_environment = ie_environment (ir_event record),
          fz_evidence = map (freeze_evidence ext review) (ir_evidence record),
          fz_hypotheses = map freeze_hypothesis (ir_hypotheses record),
          fz_task_ids = sort (map task_id (list_tasks repo iid)),
          fz_execution_ids = sort (map ex_id (list_executions repo iid)),
          fz_tool_call_ids = sort (map tc_id (list_tool_calls repo iid)),
          fz_findings = map freeze_finding (list_agent_findings repo iid),
          fz_review = map_option (freeze_review ext) review,
          fz_report = map_option freeze_report (ir_report record),
          fz_action_ids = sort (map ac_id (ir_actions record)),
          fz_verification_ids = sort (map vs_id (ir_verification_suggestions record)),
          fz_contract_version = (if rid = None then None else Some Version_V11),
          fz_activated = active, fz_runtime_run_id = rid,
          fz_active_runtime_run_id = (if active then ir_active_runtime_run_id record else None),
          fz_source_investigation_id = ir_source_investigation_id record,
          fz_diagnostic_status =
            or_else (Option.bind review rv_diagnostic_status)
                    (Option.bind summary ms_diagnostic_status),
          fz_authority_mode =
            or_else authority (case review of Some r \<Rightarrow> Some (rv_authority_mode r)
                               | None \<Rightarrow> Option.bind summary ms_authority_mode),
          fz_lead_decision = Option.bind review rv_lead_decision,
          fz_final_decision = Option.bind review rv_final_decision,
          fz_contract_revision =
            (case review of None \<Rightarrow> Round_1 | Some r \<Rightarrow> rv_contract_revision r),
          fz_critic_assessments =
            (case review of None \<Rightarrow> [] | Some r \<Rightarrow> rv_critic_assessments r),
          fz_usage = summary_usage summary, fz_checkpoint_projections = [],
          fz_integrity = zero_digest\<rparr>)"

text \<open>
  What the code clears when the run does not own the projection: the final decision and the
  contract revision are not among the cleared keys.
\<close>

definition clear_foreign_projection :: "frozen_projection \<Rightarrow> frozen_projection" where
  "clear_foreign_projection p =
     p\<lparr>fz_evidence := [], fz_hypotheses := [], fz_task_ids := [], fz_execution_ids := [],
       fz_tool_call_ids := [], fz_findings := [], fz_action_ids := [],
       fz_verification_ids := [], fz_review := None, fz_report := None,
       fz_diagnostic_status := None, fz_lead_decision := None, fz_critic_assessments := [],
       fz_usage := []\<rparr>"

definition freeze_business_projection ::
    "frozen_ext \<Rightarrow> repository \<Rightarrow> ident \<Rightarrow> ident option \<Rightarrow> authority_mode option
       \<Rightarrow> frozen_projection result" where
  "freeze_business_projection ext repo iid rid authority =
     and_then (repo_get repo iid)
       (\<lambda>record. let p = collect_projection ext repo record iid rid authority in
          reseal_frozen_projection ext
            (if rid \<noteq> None \<and> ir_active_runtime_run_id record \<noteq> rid
             then clear_foreign_projection p else p))"

section \<open>Facts\<close>

lemma dropWhile_both:
  "dropWhile p (rev (dropWhile p (rev (dropWhile p s)))) = rev (dropWhile p (rev (dropWhile p s)))"
proof (cases "dropWhile p s")
  case Nil
  show ?thesis unfolding Nil by simp
next
  case (Cons c cs)
  then have c: "\<not> p c" by (metis hd_dropWhile list.discI list.sel(1))
  then have "dropWhile p (rev cs @ [c]) = dropWhile p (rev cs) @ [c]"
    by (rule dropWhile_append3)
  with c Cons show ?thesis by simp
qed

lemma strip_idem [simp]: "strip (strip s) = strip s"
  unfolding strip_def by (metis dropWhile_both rev_rev_ident dropWhile_idem)

lemma strip_comp [simp]: "strip \<circ> strip = strip"
  by auto

text \<open>Stripping is idempotent on every frozen model.\<close>

lemma map_option_idem: "f \<circ> f = f \<Longrightarrow> map_option f (map_option f x) = map_option f x"
  by (cases x) (auto simp: fun_eq_iff)

lemma map_idem: "f \<circ> f = f \<Longrightarrow> map f (map f xs) = map f xs"
  by simp

lemma strip_claim_idem: "strip_claim \<circ> strip_claim = strip_claim"
  by (auto simp: strip_claim_def)

lemma strip_frozen_evidence_idem: "strip_frozen_evidence \<circ> strip_frozen_evidence = strip_frozen_evidence"
  by (auto simp: strip_frozen_evidence_def fun_eq_iff map_idem [OF strip_claim_idem] simp del: map_map)

lemma strip_frozen_hypothesis_idem:
  "strip_frozen_hypothesis \<circ> strip_frozen_hypothesis = strip_frozen_hypothesis"
  by (auto simp: strip_frozen_hypothesis_def fun_eq_iff)

lemma strip_frozen_finding_idem:
  "strip_frozen_finding \<circ> strip_frozen_finding = strip_frozen_finding"
  by (auto simp: strip_frozen_finding_def fun_eq_iff option.map_comp)

lemma strip_frozen_candidate_idem:
  "strip_frozen_candidate \<circ> strip_frozen_candidate = strip_frozen_candidate"
  by (auto simp: strip_frozen_candidate_def fun_eq_iff option.map_comp)

lemma strip_frozen_root_cause_idem:
  "strip_frozen_root_cause \<circ> strip_frozen_root_cause = strip_frozen_root_cause"
  by (auto simp: strip_frozen_root_cause_def fun_eq_iff)

lemma strip_frozen_review_idem: "strip_frozen_review \<circ> strip_frozen_review = strip_frozen_review"
  by (auto simp: strip_frozen_review_def fun_eq_iff option.map_comp
      map_idem [OF strip_frozen_candidate_idem] map_idem [OF strip_frozen_root_cause_idem]
      simp del: map_map)

lemma strip_frozen_report_idem: "strip_frozen_report \<circ> strip_frozen_report = strip_frozen_report"
  by (auto simp: strip_frozen_report_def fun_eq_iff option.map_comp map_idem
      map_idem [OF strip_frozen_candidate_idem] map_idem [OF strip_frozen_hypothesis_idem]
      simp del: map_map)

lemma strip_pairs_idem:
  "map (\<lambda>(k, v). (strip k, v)) (map (\<lambda>(k, v). (strip k, v)) d) = map (\<lambda>(k, v). (strip k, v)) d"
  "map (\<lambda>(k, v). (strip k, strip v)) (map (\<lambda>(k, v). (strip k, strip v)) e)
     = map (\<lambda>(k, v). (strip k, strip v)) e"
  by auto

lemmas strip_frozen_idems =
  map_idem [OF strip_comp] map_idem [OF strip_frozen_evidence_idem]
  map_idem [OF strip_frozen_hypothesis_idem] map_idem [OF strip_frozen_finding_idem]
  map_option_idem [OF strip_comp] map_option_idem [OF strip_frozen_review_idem]
  map_option_idem [OF strip_frozen_report_idem] strip_pairs_idem

lemma strip_frozen_projection_idem [simp]:
  "strip_frozen_projection (strip_frozen_projection p) = strip_frozen_projection p"
  by (simp add: strip_frozen_projection_def strip_frozen_idems del: map_map)

text \<open>A hexadecimal digest is left alone by stripping.\<close>

lemma hex64_strip:
  assumes "is_hex64 s" shows "strip s = s"
proof -
  have nb: "\<not> is_blank c" if "c \<in> set s" for c
    using assms that by (auto simp: is_hex64_def list_all_iff is_blank_def is_digit_def less_eq_char_def)
  have "dropWhile is_blank t = t" if "set t \<subseteq> set s" for t
    using nb that by (cases t) auto
  then show ?thesis by (simp add: strip_def)
qed

lemma zero_digest_hex [simp]: "is_hex64 zero_digest"
  by (simp add: is_hex64_def zero_digest_def is_digit_def less_eq_char_def list_all_iff)

section \<open>Sealed projections\<close>

text \<open>The digest of the library is 64 hexadecimal characters.\<close>

definition hex_digests :: "frozen_ext \<Rightarrow> bool" where
  "hex_digests ext = (\<forall>p. is_hex64 (fx_projection_digest ext p))"

text \<open>The stripped content without its seal.\<close>

abbreviation unsealed :: "frozen_projection \<Rightarrow> frozen_projection" where
  "unsealed p \<equiv> p\<lparr>fz_integrity := []\<rparr>"

lemma strip_frozen_integrity [simp]:
  "fz_integrity (strip_frozen_projection p) = strip (fz_integrity p)"
  by (simp add: strip_frozen_projection_def)

lemma strip_frozen_seal:
  "strip_frozen_projection (p\<lparr>fz_integrity := s\<rparr>)
     = (strip_frozen_projection p)\<lparr>fz_integrity := strip s\<rparr>"
  by (simp add: strip_frozen_projection_def)

lemma validate_frozen_Inr:
  "validate_frozen p = Inr q \<longleftrightarrow>
     q = strip_frozen_projection p \<and> frozen_projection_ok q
     \<and> assert_safe_label (fz_environment q) = Inr ()"
  by (auto simp: validate_frozen_def Let_def result_simps)

lemma validate_frozen_fixpoint: "validate_frozen p = Inr q \<Longrightarrow> validate_frozen q = Inr q"
  by (auto simp: validate_frozen_Inr)

lemma reseal_Inr:
  assumes "hex_digests ext" and "reseal_frozen_projection ext p = Inr q"
  shows "q = (strip_frozen_projection p)\<lparr>fz_integrity := validation_integrity ext q\<rparr>"
    and "validate_frozen q = Inr q"
proof -
  obtain v where v: "v = strip_frozen_projection (p\<lparr>fz_integrity := zero_digest\<rparr>)"
    and q: "validate_frozen (v\<lparr>fz_integrity := validation_integrity ext v\<rparr>) = Inr q"
    using assms(2) by (auto simp: reseal_frozen_projection_def result_simps validate_frozen_Inr)
  have hex: "strip (validation_integrity ext v) = validation_integrity ext v"
    using assms(1) by (simp add: hex64_strip hex_digests_def validation_integrity_def)
  have "q = v\<lparr>fz_integrity := validation_integrity ext v\<rparr>"
    using q hex by (simp add: validate_frozen_Inr strip_frozen_seal v)
  then show "q = (strip_frozen_projection p)\<lparr>fz_integrity := validation_integrity ext q\<rparr>"
    by (simp add: v strip_frozen_seal validation_integrity_def)
  show "validate_frozen q = Inr q" using q by (rule validate_frozen_fixpoint)
qed

lemma reseal_parses:
  assumes "hex_digests ext" and "reseal_frozen_projection ext p = Inr q"
  shows "parse_frozen_projection ext q = Inr q"
proof -
  have "fz_integrity q = validation_integrity ext q"
    using reseal_Inr(1) [OF assms] by (metis frozen_projection.select_convs(26)
        frozen_projection.surjective frozen_projection.update_convs(26))
  with reseal_Inr(2) [OF assms] show ?thesis
    by (simp add: parse_frozen_projection_def)
qed

lemma parse_frozen_Inr:
  "parse_frozen_projection ext raw = Inr v \<longleftrightarrow> validate_frozen raw = Inr v
     \<and> (fz_integrity raw = validation_integrity ext raw \<or> fz_integrity v = validation_integrity ext v)"
  by (auto simp: parse_frozen_projection_def result_simps)

lemma parse_frozen_hashed:
  assumes "hex_digests ext" and "parse_frozen_projection ext p = Inr v"
  shows "\<exists>a \<in> {unsealed p, unsealed v}. strip (fz_integrity p) = fx_projection_digest ext a"
proof -
  have hex: "strip (fx_projection_digest ext a) = fx_projection_digest ext a" for a
    using assms(1) by (simp add: hex64_strip hex_digests_def)
  have "fz_integrity p = validation_integrity ext p \<or> strip (fz_integrity p) = validation_integrity ext v"
    using assms(2) by (auto simp: parse_frozen_Inr validate_frozen_Inr)
  then show ?thesis using hex by (auto simp: validation_integrity_def)
qed

text \<open>The view a run receives, as the fields of the repository it was read from.\<close>

lemma freeze_Inr:
  assumes "hex_digests ext" and "freeze_business_projection ext repo iid rid authority = Inr p"
  obtains ir where "repo_get repo iid = Inr ir"
    and "unsealed p = unsealed (strip_frozen_projection
           (if rid \<noteq> None \<and> ir_active_runtime_run_id ir \<noteq> rid
            then clear_foreign_projection (collect_projection ext repo ir iid rid authority)
            else collect_projection ext repo ir iid rid authority))"
proof -
  obtain ir where r: "repo_get repo iid = Inr ir"
    and q: "reseal_frozen_projection ext
           (if rid \<noteq> None \<and> ir_active_runtime_run_id ir \<noteq> rid
            then clear_foreign_projection (collect_projection ext repo ir iid rid authority)
            else collect_projection ext repo ir iid rid authority) = Inr p" (is "reseal_frozen_projection ext ?c = _")
    using assms(2) by (auto simp: freeze_business_projection_def result_simps Let_def)
  have "unsealed p = unsealed (strip_frozen_projection ?c)"
    by (subst reseal_Inr(1) [OF assms(1) q]) simp
  with r show thesis by (rule that)
qed

lemma unsealed_fields:
  assumes "unsealed p = unsealed q"
  shows "fz_evidence p = fz_evidence q" "fz_hypotheses p = fz_hypotheses q"
    "fz_task_ids p = fz_task_ids q" "fz_execution_ids p = fz_execution_ids q"
    "fz_tool_call_ids p = fz_tool_call_ids q" "fz_findings p = fz_findings q"
    "fz_review p = fz_review q" "fz_report p = fz_report q" "fz_action_ids p = fz_action_ids q"
    "fz_verification_ids p = fz_verification_ids q"
    "fz_contract_version p = fz_contract_version q" "fz_activated p = fz_activated q"
    "fz_runtime_run_id p = fz_runtime_run_id q"
    "fz_active_runtime_run_id p = fz_active_runtime_run_id q"
    "fz_investigation_id p = fz_investigation_id q"
    "fz_diagnostic_status p = fz_diagnostic_status q"
    "fz_authority_mode p = fz_authority_mode q" "fz_lead_decision p = fz_lead_decision q"
    "fz_final_decision p = fz_final_decision q"
    "fz_contract_revision p = fz_contract_revision q"
    "fz_critic_assessments p = fz_critic_assessments q" "fz_usage p = fz_usage q"
  using assms by (cases p; cases q; simp)+

end
