(* ===== verification/Runtime_Store.thy ===== *)
theory Runtime_Store
  imports Phases Frozen_Projection
begin

text \<open>
  The in-memory runtime store (\<open>InMemoryRuntimeStore\<close> in \<open>backend/runtime/store.py\<close>): runs,
  attempts, event journals, checkpoints and frozen views, next to the business repository
  with which it shares one lock.  An operation is a function from the state to the state it
  leaves and its result; the lock makes every operation one step.  An operation that raises
  keeps what it wrote before the raise unless the code restores it.

  The clock is read once per operation (\<open>en_now\<close>); generated event ids, the failpoint and
  the fault injector are inputs of the operation.  Events handed to the publisher are
  appended to \<open>db_published\<close>: the publisher's own failures are swallowed by the code.
\<close>

record runtime_store =
  db_repo :: repository
  db_lease_seconds :: int
  db_publishing :: bool
  db_runs :: "(ident, runtime_run) dict"
  db_attempts :: "(ident, runtime_attempt) dict"
  db_trace_contexts :: "(ident, string \<times> string) dict"
  db_events :: "(ident, runtime_event list) dict"
  db_checkpoints :: "(ident, runtime_checkpoint) dict"
  db_frozen :: "(ident, frozen_projection) dict"
  db_locators :: "(ident, payload) dict"
  db_published :: "runtime_event list list"

record runtime_env =
  en_now :: instant
  en_failpoint :: "string \<Rightarrow> py_error option"
  en_fault :: "string \<Rightarrow> py_error option"
  en_event_id :: "ident \<Rightarrow> int \<Rightarrow> ident"
  en_frozen :: frozen_ext
  en_digest :: digest_ext
  en_dump :: dump_ext

type_synonym 'a store_op = "(runtime_store, 'a) op"

definition empty_store :: "repository \<Rightarrow> int \<Rightarrow> bool \<Rightarrow> runtime_store" where
  "empty_store repo lease publishing =
     \<lparr>db_repo = repo, db_lease_seconds = lease, db_publishing = publishing, db_runs = [],
      db_attempts = [], db_trace_contexts = [], db_events = [], db_checkpoints = [],
      db_frozen = [], db_locators = [], db_published = []\<rparr>"

section \<open>Private helpers\<close>

definition require_run :: "runtime_store \<Rightarrow> ident \<Rightarrow> runtime_run result" where
  "require_run s rid =
     (case dict_get (db_runs s) rid of
        None \<Rightarrow> Inl (RuntimeNotFound (''unknown runtime run: '' @ rid)) | Some r \<Rightarrow> Inr r)"

definition require_attempt :: "runtime_store \<Rightarrow> ident \<Rightarrow> runtime_attempt result" where
  "require_attempt s aid =
     (case dict_get (db_attempts s) aid of
        None \<Rightarrow> Inl (RuntimeNotFound (''unknown runtime attempt: '' @ aid)) | Some a \<Rightarrow> Inr a)"

definition events_of :: "runtime_store \<Rightarrow> ident \<Rightarrow> runtime_event list" where
  "events_of s rid = (case dict_get (db_events s) rid of None \<Rightarrow> [] | Some es \<Rightarrow> es)"

definition put_run :: "runtime_run \<Rightarrow> runtime_store \<Rightarrow> runtime_store" where
  "put_run r s = s\<lparr>db_runs := dict_put (db_runs s) (run_id r) r\<rparr>"

definition put_attempt :: "runtime_attempt \<Rightarrow> runtime_store \<Rightarrow> runtime_store" where
  "put_attempt a s = s\<lparr>db_attempts := dict_put (db_attempts s) (att_id a) a\<rparr>"

definition append_events :: "ident \<Rightarrow> runtime_event list \<Rightarrow> runtime_store \<Rightarrow> runtime_store" where
  "append_events rid es s =
     s\<lparr>db_events := dict_put (db_events s) rid (events_of s rid @ es)\<rparr>"

definition publish_events :: "runtime_event list \<Rightarrow> runtime_store \<Rightarrow> runtime_store" where
  "publish_events es s =
     (if db_publishing s then s\<lparr>db_published := db_published s @ [es]\<rparr> else s)"

text \<open>\<open>_validate_fence\<close>: owner and version name the current, unexpired lease.\<close>

definition fence_error :: py_error where
  "fence_error = RuntimeLeaseLost ''runtime lease fence rejected the write''"

definition lease_holds :: "instant \<Rightarrow> runtime_run \<Rightarrow> string \<Rightarrow> int \<Rightarrow> bool" where
  "lease_holds now r owner version =
     (run_lease_owner r = Some owner \<and> run_lease_version r = version
      \<and> (case run_lease_expires_at r of None \<Rightarrow> False | Some t \<Rightarrow> now < t))"

definition validate_fence ::
    "instant \<Rightarrow> runtime_run \<Rightarrow> string option \<Rightarrow> int option \<Rightarrow> unit result" where
  "validate_fence now r owner version =
     (case (owner, version) of
        (None, None) \<Rightarrow> Inr ()
      | (Some w, Some v) \<Rightarrow> if lease_holds now r w v then Inr () else Inl fence_error
      | _ \<Rightarrow> Inl fence_error)"

definition lease_until :: "runtime_env \<Rightarrow> runtime_store \<Rightarrow> instant" where
  "lease_until env s = en_now env + db_lease_seconds s * 1000000"

text \<open>\<open>_apply_transition\<close>: the run's new status, and what it means for a running attempt.\<close>

fun attempt_target :: "run_status \<Rightarrow> attempt_status option" where
  "attempt_target Run_COMPLETED = Some Att_COMPLETED"
| "attempt_target Run_FAILED = Some Att_FAILED"
| "attempt_target Run_CANCELLED = Some Att_CANCELLED"
| "attempt_target Run_INTERRUPTED = Some Att_INTERRUPTED"
| "attempt_target _ = None"

definition transitioned :: "instant \<Rightarrow> run_status \<Rightarrow> runtime_run \<Rightarrow> runtime_run" where
  "transitioned now target r =
     (let r1 = r\<lparr>run_status_of := target\<rparr>;
          r2 = (if is_terminal target then r1\<lparr>run_completed_at := Some now\<rparr> else r1)
      in if is_terminal target \<or> target = Run_INTERRUPTED
         then r2\<lparr>run_lease_owner := None, run_lease_expires_at := None\<rparr> else r2)"

definition settle_attempt ::
    "instant \<Rightarrow> ident \<Rightarrow> attempt_status \<Rightarrow> runtime_attempt \<Rightarrow> runtime_attempt" where
  "settle_attempt now rid target a =
     (if att_run_id a = rid \<and> att_status_of a = Att_RUNNING
      then a\<lparr>att_status_of := target, att_completed_at := Some now\<rparr> else a)"

definition settle_attempts ::
    "instant \<Rightarrow> ident \<Rightarrow> run_status \<Rightarrow> (ident, runtime_attempt) dict \<Rightarrow> (ident, runtime_attempt) dict" where
  "settle_attempts now rid target d =
     (case attempt_target target of
        None \<Rightarrow> d | Some t \<Rightarrow> map (\<lambda>(k, a). (k, settle_attempt now rid t a)) d)"

definition apply_transition ::
    "runtime_env \<Rightarrow> runtime_run \<Rightarrow> run_status \<Rightarrow> runtime_run store_op" where
  "apply_transition env r target s =
     (case ensure_run_transition (run_status_of r) target of
        Inl e \<Rightarrow> (put_run r s, Inl e)
      | Inr _ \<Rightarrow>
          (let r' = transitioned (en_now env) target r
           in ((put_run r' s)\<lparr>db_attempts :=
                  settle_attempts (en_now env) (run_id r) target (db_attempts s)\<rparr>, Inr r')))"

text \<open>A run's view of itself: V11 runs freeze with their id and authority.\<close>

definition freeze_for :: "runtime_env \<Rightarrow> repository \<Rightarrow> runtime_run \<Rightarrow> frozen_projection result" where
  "freeze_for env repo r =
     freeze_business_projection (en_frozen env) repo (run_investigation_id r)
       (if is_v11 r then Some (run_id r) else None)
       (if is_v11 r then Some (run_authority_mode r) else None)"

definition owns_projection :: "repository \<Rightarrow> runtime_run \<Rightarrow> bool result" where
  "owns_projection repo r =
     (if \<not> is_v11 r then Inr True
      else and_then (repo_get repo (run_investigation_id r))
             (\<lambda>record. Inr (ir_active_runtime_run_id record = Some (run_id r))))"

text \<open>A call on the injected hooks.\<close>

definition hook :: "(string \<Rightarrow> py_error option) \<Rightarrow> string \<Rightarrow> unit result" where
  "hook h point = (case h point of None \<Rightarrow> Inr () | Some e \<Rightarrow> Inl e)"

text \<open>An event of a run, before validation.\<close>

definition draft_event ::
    "runtime_env \<Rightarrow> ident \<Rightarrow> ident \<Rightarrow> int \<Rightarrow> event_type \<Rightarrow> runtime_phase option \<Rightarrow> actor_type
       \<Rightarrow> payload \<Rightarrow> runtime_event" where
  "draft_event env rid aid n t phase actor payload =
     \<lparr>ev_id = en_event_id env rid n, ev_run_id = rid, ev_attempt_id = aid, ev_sequence = n,
      ev_type = Known t, ev_phase = map_option Known phase, ev_actor_type = Known actor,
      ev_actor_name = None, ev_task_id = None, ev_execution_id = None, ev_tool_call_id = None,
      ev_evidence_ids = [], ev_schema_version = 1, ev_safe_payload = payload,
      ev_occurred_at = en_now env\<rparr>"

text \<open>\<open>RuntimeEvent.model_validate(event.model_dump())\<close> on a constructed event.\<close>

definition validate_event_twice :: "runtime_event \<Rightarrow> runtime_event result" where
  "validate_event_twice e = and_then (validate_runtime_event e) validate_runtime_event"

section \<open>Runs\<close>

definition ensure_investigation_exists :: "repository \<Rightarrow> ident \<Rightarrow> unit result" where
  "ensure_investigation_exists repo iid =
     (case repo_get repo iid of
        Inl _ \<Rightarrow> Inl (RuntimeIntegrityError (''unknown investigation: '' @ iid)) | Inr _ \<Rightarrow> Inr ())"

definition validate_linked_run ::
    "runtime_store \<Rightarrow> runtime_run \<Rightarrow> ident option \<Rightarrow> bool \<Rightarrow> unit result" where
  "validate_linked_run s r linked_id is_parent =
     (case linked_id of
        None \<Rightarrow> Inr ()
      | Some lid \<Rightarrow>
          and_then (require_run s lid) (\<lambda>linked.
          and_then
            (if run_investigation_id linked = run_investigation_id r then Inr ()
             else and_then (repo_get (db_repo s) (run_investigation_id r)) (\<lambda>record. raise_first
               [(\<not> (is_parent \<and> is_v11 r
                     \<and> ir_source_investigation_id record = Some (run_investigation_id linked)),
                  RuntimeConflict ((if is_parent then ''parent'' else ''source'')
                     @ '' run belongs to another investigation''))])) (\<lambda>_. raise_first
            [(is_parent \<and> (run_kind_of linked \<noteq> Kind_LIVE \<or> \<not> is_terminal (run_status_of linked)),
                RuntimeConflict ''parent run must be a terminal live run'')])))"

definition active_live :: "runtime_run \<Rightarrow> bool" where
  "active_live r = (run_kind_of r = Kind_LIVE \<and> run_status_of r \<in> set active_live_statuses)"

definition create_run_checks :: "runtime_store \<Rightarrow> runtime_run \<Rightarrow> unit result" where
  "create_run_checks s r =
     and_then (raise_first
       [(dict_get (db_runs s) (run_id r) \<noteq> None,
           RuntimeConflict (''runtime run already exists: '' @ run_id r))]) (\<lambda>_.
     and_then (ensure_investigation_exists (db_repo s) (run_investigation_id r)) (\<lambda>_.
     and_then (validate_linked_run s r (run_parent_run_id r) True) (\<lambda>_.
     and_then (validate_linked_run s r (run_source_run_id r) False) (\<lambda>_. raise_first
       [(active_live r \<and> list_ex (\<lambda>q. run_investigation_id q = run_investigation_id r \<and> active_live q)
             (dict_values (db_runs s)),
           RuntimeConflict ''investigation already has an active live run'')]))))"

text \<open>The view a run that is created in a terminal status receives.\<close>

definition initial_frozen ::
    "runtime_env \<Rightarrow> runtime_store \<Rightarrow> runtime_run \<Rightarrow> frozen_projection option result" where
  "initial_frozen env s r =
     (if \<not> is_terminal (run_status_of r) then Inr None
      else if run_kind_of r = Kind_REPLAY
        then Inr (Option.bind (run_source_run_id r) (dict_get (db_frozen s)))
      else and_then (freeze_for env (db_repo s) r) (\<lambda>p. Inr (Some p)))"

definition create_run :: "runtime_env \<Rightarrow> runtime_run \<Rightarrow> runtime_run store_op" where
  "create_run env r s =
     (case create_run_checks s r of
        Inl e \<Rightarrow> (s, Inl e)
      | Inr _ \<Rightarrow>
          (let s1 = (put_run r s)\<lparr>db_events := dict_put (db_events s) (run_id r) []\<rparr> in
           case initial_frozen env s1 r of
             Inl e \<Rightarrow> (s1, Inl e)
           | Inr None \<Rightarrow> (s1, Inr r)
           | Inr (Some p) \<Rightarrow> (s1\<lparr>db_frozen := dict_put (db_frozen s1) (run_id r) p\<rparr>, Inr r)))"

definition get_run :: "runtime_store \<Rightarrow> ident \<Rightarrow> runtime_run result" where
  "get_run s rid = require_run s rid"

definition list_runs :: "runtime_store \<Rightarrow> ident \<Rightarrow> runtime_run list" where
  "list_runs s iid = sorted_desc (\<lambda>r. (run_created_at r, run_id r))
     (filter (\<lambda>r. run_investigation_id r = iid) (dict_values (db_runs s)))"

definition get_frozen_business_projection ::
    "runtime_store \<Rightarrow> ident \<Rightarrow> frozen_projection option result" where
  "get_frozen_business_projection s rid =
     and_then (require_run s rid) (\<lambda>_. Inr (dict_get (db_frozen s) rid))"

definition set_benchmark_replay_locator :: "ident \<Rightarrow> payload \<Rightarrow> unit store_op" where
  "set_benchmark_replay_locator rid locator s =
     (case and_then (require_run s rid) (\<lambda>_. raise_first
             [(case dict_get (db_locators s) rid of None \<Rightarrow> False
                 | Some old \<Rightarrow> py_ne (pdict old) (pdict locator),
                 RuntimeConflict ''benchmark replay locator is immutable'')]) of
        Inl e \<Rightarrow> (s, Inl e)
      | Inr _ \<Rightarrow> (s\<lparr>db_locators := dict_put (db_locators s) rid locator\<rparr>, Inr ()))"

definition get_benchmark_replay_locator :: "runtime_store \<Rightarrow> ident \<Rightarrow> payload option result" where
  "get_benchmark_replay_locator s rid =
     and_then (require_run s rid) (\<lambda>_. Inr (dict_get (db_locators s) rid))"

section \<open>Attempts and leases\<close>

definition attempts_of :: "runtime_store \<Rightarrow> ident \<Rightarrow> runtime_attempt list" where
  "attempts_of s rid = filter (\<lambda>a. att_run_id a = rid) (dict_values (db_attempts s))"

definition max_number :: "runtime_attempt list \<Rightarrow> int" where
  "max_number as = (if as = [] then 0 else Max (set (map att_number as)))"

definition create_attempt_checks ::
    "runtime_env \<Rightarrow> runtime_store \<Rightarrow> runtime_attempt \<Rightarrow> string \<Rightarrow> int \<Rightarrow> unit result" where
  "create_attempt_checks env s a owner version =
     and_then (require_run s (att_run_id a)) (\<lambda>r.
     and_then (raise_first
       [(run_status_of r \<noteq> Run_RUNNING, RuntimeConflict ''attempt requires a running run'')]) (\<lambda>_.
     and_then (validate_fence (en_now env) r (Some owner) (Some version)) (\<lambda>_. raise_first
       [(dict_get (db_attempts s) (att_id a) \<noteq> None,
           RuntimeConflict (''runtime attempt already exists: '' @ att_id a)),
        (att_number a \<noteq> max_number (attempts_of s (att_run_id a)) + 1,
           RuntimeConflict ''attempt_number must be consecutive per run''),
        (list_ex (\<lambda>b. att_status_of b = Att_RUNNING) (attempts_of s (att_run_id a)),
           RuntimeConflict ''run already has an active attempt'')])))"

definition create_attempt ::
    "runtime_env \<Rightarrow> runtime_attempt \<Rightarrow> string \<Rightarrow> int \<Rightarrow> runtime_attempt store_op" where
  "create_attempt env a owner version s =
     (case create_attempt_checks env s a owner version of
        Inl e \<Rightarrow> (s, Inl e) | Inr _ \<Rightarrow> (put_attempt a s, Inr a))"

definition hex_text :: "nat \<Rightarrow> string \<Rightarrow> bool" where
  "hex_text n x = (length x = n \<and> list_all (\<lambda>c. is_digit c \<or> (CHR ''a'' \<le> c \<and> c \<le> CHR ''f'')) x)"

definition set_attempt_trace_context :: "ident \<Rightarrow> string \<Rightarrow> string \<Rightarrow> unit store_op" where
  "set_attempt_trace_context aid trace_id span_id s =
     (case and_then (raise_first
             [(\<not> hex_text 32 trace_id \<or> \<not> hex_text 16 span_id, field_error)])
             (\<lambda>_. require_attempt s aid) of
        Inl e \<Rightarrow> (s, Inl e)
      | Inr _ \<Rightarrow>
          (s\<lparr>db_trace_contexts := dict_put (db_trace_contexts s) aid (trace_id, span_id)\<rparr>, Inr ()))"

definition get_attempt_trace_context ::
    "runtime_store \<Rightarrow> ident \<Rightarrow> (string \<times> string) option result" where
  "get_attempt_trace_context s aid =
     and_then (require_attempt s aid) (\<lambda>_. Inr (dict_get (db_trace_contexts s) aid))"

text \<open>\<open>_acquire_lease\<close>: \<open>None\<close> when another owner holds the run or its status has changed.\<close>

definition lease_free :: "instant \<Rightarrow> runtime_run \<Rightarrow> bool" where
  "lease_free now r =
     (run_lease_owner r = None
      \<or> (case run_lease_expires_at r of None \<Rightarrow> True | Some t \<Rightarrow> t \<le> now))"

definition leased_run :: "runtime_env \<Rightarrow> runtime_store \<Rightarrow> string \<Rightarrow> runtime_run \<Rightarrow> runtime_run" where
  "leased_run env s owner r =
     r\<lparr>run_status_of := Run_RUNNING, run_lease_owner := Some owner,
       run_lease_version := run_lease_version r + 1,
       run_lease_expires_at := Some (lease_until env s),
       run_started_at := (case run_started_at r of None \<Rightarrow> Some (en_now env) | Some t \<Rightarrow> Some t)\<rparr>"

definition acquire_lease ::
    "runtime_env \<Rightarrow> ident \<Rightarrow> string \<Rightarrow> run_status \<Rightarrow> runtime_run option store_op" where
  "acquire_lease env rid owner expected s =
     (case require_run s rid of
        Inl e \<Rightarrow> (s, Inl e)
      | Inr r \<Rightarrow>
          if run_status_of r \<noteq> expected \<or> \<not> lease_free (en_now env) r
             \<or> expected \<notin> {Run_CREATED, Run_INTERRUPTED}
          then (s, Inr None)
          else (put_run (leased_run env s owner r) s, Inr (Some (leased_run env s owner r))))"

text \<open>
  A failed start gives the run back as it was before the lease; an exception that is not a
  conflict becomes a persistence error.
\<close>

fun is_runtime_conflict :: "py_error \<Rightarrow> bool" where
  "is_runtime_conflict (RuntimeConflict _) = True"
| "is_runtime_conflict (RuntimeLeaseLost _) = True"
| "is_runtime_conflict _ = False"

definition start_failure :: "py_error \<Rightarrow> py_error" where
  "start_failure e =
     (if is_runtime_conflict e then e
      else RuntimePersistenceError ''attempt start rolled back after lease acquisition'')"

definition acquire_lease_and_create_attempt ::
    "runtime_env \<Rightarrow> ident \<Rightarrow> runtime_attempt \<Rightarrow> string \<Rightarrow> run_status
       \<Rightarrow> (runtime_run \<times> runtime_attempt) store_op" where
  "acquire_lease_and_create_attempt env rid a owner expected s =
     (case require_run s rid of
        Inl e \<Rightarrow> (s, Inl e)
      | Inr old \<Rightarrow>
          (case acquire_lease env rid owner expected s of
             (s1, Inl e) \<Rightarrow> (s1, Inl e)
           | (s1, Inr None) \<Rightarrow>
               (s1, Inl (RuntimeConflict ''runtime lease acquisition lost the race''))
           | (s1, Inr (Some leased)) \<Rightarrow>
               (case hook (en_failpoint env) ''after_lease_before_attempt'' of
                  Inl e \<Rightarrow> (put_run old s1, Inl (start_failure e))
                | Inr _ \<Rightarrow>
                    (case create_attempt env a owner (run_lease_version leased) s1 of
                       (s2, Inl e) \<Rightarrow> (put_run old s2, Inl (start_failure e))
                     | (s2, Inr created) \<Rightarrow> (s2, Inr (leased, created))))))"

definition get_attempt :: "runtime_store \<Rightarrow> ident \<Rightarrow> runtime_attempt result" where
  "get_attempt s aid = require_attempt s aid"

definition list_attempts :: "runtime_store \<Rightarrow> ident \<Rightarrow> runtime_attempt list result" where
  "list_attempts s rid =
     and_then (require_run s rid) (\<lambda>_. Inr (sort_key att_number (attempts_of s rid)))"

definition transition_attempt ::
    "runtime_env \<Rightarrow> ident \<Rightarrow> attempt_status \<Rightarrow> attempt_status \<Rightarrow> string \<Rightarrow> int
       \<Rightarrow> runtime_attempt store_op" where
  "transition_attempt env aid expected target owner version s =
     (case and_then (require_attempt s aid) (\<lambda>a.
             and_then (require_run s (att_run_id a)) (\<lambda>r.
             and_then (validate_fence (en_now env) r (Some owner) (Some version)) (\<lambda>_.
             and_then (raise_first
               [(att_status_of a \<noteq> expected, RuntimeConflict ''runtime attempt status changed'')]) (\<lambda>_.
             (case ensure_attempt_transition expected target of
                Inl (ValueError m) \<Rightarrow> Inl (RuntimeConflict m)
              | Inl e \<Rightarrow> Inl e | Inr _ \<Rightarrow> Inr a))))) of
        Inl e \<Rightarrow> (s, Inl e)
      | Inr a \<Rightarrow>
          (let a' = a\<lparr>att_status_of := target, att_completed_at := Some (en_now env)\<rparr>
           in (put_attempt a' s, Inr a')))"

definition renew_lease ::
    "runtime_env \<Rightarrow> ident \<Rightarrow> string \<Rightarrow> int \<Rightarrow> runtime_run option store_op" where
  "renew_lease env rid owner version s =
     (case require_run s rid of
        Inl e \<Rightarrow> (s, Inl e)
      | Inr r \<Rightarrow>
          if run_status_of r \<notin> {Run_RUNNING, Run_CANCELLING} \<or> \<not> lease_holds (en_now env) r owner version
          then (s, Inr None)
          else (let r' = r\<lparr>run_lease_expires_at := Some (lease_until env s)\<rparr>
                in (put_run r' s, Inr (Some r'))))"

section \<open>Run transitions and cancellation\<close>

definition transition_run ::
    "runtime_env \<Rightarrow> ident \<Rightarrow> run_status \<Rightarrow> run_status \<Rightarrow> string option \<Rightarrow> int option
       \<Rightarrow> runtime_run store_op" where
  "transition_run env rid expected target owner version s =
     (case and_then (require_run s rid) (\<lambda>r.
             and_then (raise_first
               [(run_status_of r \<noteq> expected,
                   RuntimeConflict (''runtime run status is '' @ run_status_value (run_status_of r)
                      @ '', expected '' @ run_status_value expected)),
                (expected \<in> {Run_RUNNING, Run_CANCELLING, Run_INTERRUPTED}
                   \<and> (owner = None \<or> version = None),
                   RuntimeLeaseLost ''active runtime transition requires a lease fence'')]) (\<lambda>_.
             and_then (validate_fence (en_now env) r owner version) (\<lambda>_.
             (case ensure_run_transition expected target of
                Inl (ValueError m) \<Rightarrow> Inl (RuntimeConflict m)
              | Inl e \<Rightarrow> Inl e | Inr _ \<Rightarrow> Inr r)))) of
        Inl e \<Rightarrow> (s, Inl e)
      | Inr r \<Rightarrow> apply_transition env r target s)"

definition set_repo :: "repository \<Rightarrow> runtime_store \<Rightarrow> runtime_store" where
  "set_repo repo s = s\<lparr>db_repo := repo\<rparr>"

text \<open>An operation of the shared repository, run inside the store.\<close>

definition on_repo :: "'a repo_op \<Rightarrow> 'a store_op" where
  "on_repo f s = (case f (db_repo s) of (repo, res) \<Rightarrow> (set_repo repo s, res))"

definition cancel_created ::
    "runtime_env \<Rightarrow> runtime_run \<Rightarrow> bool \<Rightarrow> frozen_projection \<Rightarrow> runtime_run store_op" where
  "cancel_created env r owns frozen s =
     (case apply_transition env (r\<lparr>run_cancel_requested_at := Some (en_now env)\<rparr>) Run_CANCELLED s of
        (s1, Inl e) \<Rightarrow> (s1, Inl e)
      | (s1, Inr r1) \<Rightarrow>
          (let r2 = r1\<lparr>run_failure_category := Some Fail_CANCELLED\<rparr>; s2 = put_run r2 s1 in
           case (if owns then on_repo (update_status (run_investigation_id r) Inv_CANCELLED None (en_now env)) s2
                 else (s2, Inr ())) of
             (s3, Inl e) \<Rightarrow> (s3, Inl e)
           | (s3, Inr _) \<Rightarrow> (s3\<lparr>db_frozen := dict_put (db_frozen s3) (run_id r) frozen\<rparr>, Inr r2)))"

definition request_cancel :: "runtime_env \<Rightarrow> ident \<Rightarrow> runtime_run store_op" where
  "request_cancel env rid s =
     (case and_then (require_run s rid) (\<lambda>r. and_then (owns_projection (db_repo s) r) (\<lambda>owns. Inr (r, owns))) of
        Inl e \<Rightarrow> (s, Inl e)
      | Inr (r, owns) \<Rightarrow>
          if run_status_of r = Run_CREATED then
            (case freeze_for env (db_repo s) r of
               Inl e \<Rightarrow> (s, Inl e) | Inr frozen \<Rightarrow> cancel_created env r owns frozen s)
          else if run_status_of r = Run_RUNNING then
            apply_transition env (r\<lparr>run_cancel_requested_at := Some (en_now env)\<rparr>) Run_CANCELLING s
          else if run_status_of r \<noteq> Run_CANCELLING then
            (s, Inl (RuntimeConflict (''run cannot be cancelled from '' @ run_status_value (run_status_of r))))
          else (s, Inr r))"

section \<open>Events\<close>

record event_command =
  cmd_run_id :: ident
  cmd_attempt_id :: ident
  cmd_lease_owner :: string
  cmd_lease_version :: int
  cmd_event_type :: "event_type open_enum"
  cmd_actor_type :: "actor_type open_enum"
  cmd_phase :: "runtime_phase open_enum option"
  cmd_actor_name :: "string option"
  cmd_task_id :: "ident option"
  cmd_execution_id :: "ident option"
  cmd_tool_call_id :: "ident option"
  cmd_evidence_ids :: "ident list"
  cmd_safe_payload :: "payload option"
  cmd_schema_version :: int

definition command_event :: "runtime_env \<Rightarrow> event_command \<Rightarrow> int \<Rightarrow> runtime_event" where
  "command_event env c n =
     \<lparr>ev_id = en_event_id env (cmd_run_id c) n, ev_run_id = cmd_run_id c,
      ev_attempt_id = cmd_attempt_id c, ev_sequence = n, ev_type = cmd_event_type c,
      ev_phase = cmd_phase c, ev_actor_type = cmd_actor_type c,
      ev_actor_name = cmd_actor_name c, ev_task_id = cmd_task_id c,
      ev_execution_id = cmd_execution_id c, ev_tool_call_id = cmd_tool_call_id c,
      ev_evidence_ids = cmd_evidence_ids c, ev_schema_version = cmd_schema_version c,
      ev_safe_payload = (case cmd_safe_payload c of None \<Rightarrow> [] | Some p \<Rightarrow> p),
      ev_occurred_at = en_now env\<rparr>"

text \<open>\<open>attempt is None or attempt.run_id != run_id or attempt.status != status\<close>\<close>

definition attempt_in ::
    "runtime_store \<Rightarrow> ident \<Rightarrow> ident \<Rightarrow> attempt_status \<Rightarrow> bool" where
  "attempt_in s aid rid status =
     (case dict_get (db_attempts s) aid of
        None \<Rightarrow> False | Some a \<Rightarrow> att_run_id a = rid \<and> att_status_of a = status)"

definition next_sequence :: "runtime_store \<Rightarrow> ident \<Rightarrow> int" where
  "next_sequence s rid = int (length (events_of s rid)) + 1"

definition append_event_command :: "runtime_env \<Rightarrow> event_command \<Rightarrow> runtime_event store_op" where
  "append_event_command env c s =
     (case and_then (hook (en_fault env) ''unsafe_event_payload'') (\<lambda>_.
             and_then (require_run s (cmd_run_id c)) (\<lambda>r.
             and_then (raise_first
               [(run_status_of r \<notin> {Run_RUNNING, Run_CANCELLING},
                   RuntimeConflict ''terminal or inactive run rejects runtime events'')]) (\<lambda>_.
             and_then (validate_fence (en_now env) r (Some (cmd_lease_owner c)) (Some (cmd_lease_version c))) (\<lambda>_.
             and_then (raise_first
               [(\<not> attempt_in s (cmd_attempt_id c) (cmd_run_id c) Att_RUNNING,
                   RuntimeIntegrityError ''event attempt is stale or belongs to another run'')]) (\<lambda>_.
             validate_event_twice (command_event env c (next_sequence s (cmd_run_id c)))))))) of
        Inl e \<Rightarrow> (s, Inl e)
      | Inr event \<Rightarrow> (publish_events [event] (append_events (cmd_run_id c) [event] s), Inr event))"

definition list_events :: "runtime_store \<Rightarrow> ident \<Rightarrow> int \<Rightarrow> int \<Rightarrow> runtime_event list result" where
  "list_events s rid after limit =
     and_then (require_run s rid) (\<lambda>_.
     and_then (raise_first [(limit < 1, ValueError ''limit must be positive'')]) (\<lambda>_.
       Inr (take (nat limit) (filter (\<lambda>e. ev_sequence e > after) (events_of s rid)))))"

definition recovery_payload :: "ident option \<Rightarrow> string option \<Rightarrow> payload" where
  "recovery_payload checkpoint_id message =
     [(''status'', PStr ''rejected''), (''failure_category'', PStr ''checkpoint_invalid'')]
     @ (case checkpoint_id of None \<Rightarrow> [] | Some c \<Rightarrow> [(''checkpoint_id'', PStr c)])
     @ (case message of None \<Rightarrow> [] | Some m \<Rightarrow> [(''message'', PStr m)])"

text \<open>The checks, then the frozen views as a V11 run leaves them.\<close>

definition recovery_checks ::
    "runtime_env \<Rightarrow> ident \<Rightarrow> ident \<Rightarrow> runtime_store \<Rightarrow> (ident, frozen_projection) dict result" where
  "recovery_checks env rid aid s =
     and_then (require_run s rid) (\<lambda>r.
     and_then (raise_first
       [(run_status_of r \<noteq> Run_INTERRUPTED,
           RuntimeConflict ''recovery rejection requires interrupted run''),
        (\<not> attempt_in s aid rid Att_INTERRUPTED,
           RuntimeIntegrityError ''recovery rejection attempt is not interrupted'')]) (\<lambda>_.
     if is_v11 r
     then and_then (freeze_for env (db_repo s) r) (\<lambda>p. Inr (dict_put (db_frozen s) rid p))
     else Inr (db_frozen s)))"

definition append_recovery_rejection ::
    "runtime_env \<Rightarrow> ident \<Rightarrow> ident \<Rightarrow> ident option \<Rightarrow> string option \<Rightarrow> runtime_event store_op" where
  "append_recovery_rejection env rid aid checkpoint_id message s =
     (case recovery_checks env rid aid s of
        Inl e \<Rightarrow> (s, Inl e)
      | Inr frozen \<Rightarrow>
          (case validate_runtime_event (draft_event env rid aid (next_sequence s rid)
                  Ev_RECOVERY_REJECTED None RActor_RECOVERY (recovery_payload checkpoint_id message)) of
             Inl e \<Rightarrow> (s\<lparr>db_frozen := frozen\<rparr>, Inl e)
           | Inr event \<Rightarrow>
               (publish_events [event] (append_events rid [event] (s\<lparr>db_frozen := frozen\<rparr>)), Inr event)))"

section \<open>Terminal commits\<close>

record terminal_event =
  te_event_type :: event_type
  te_actor_type :: actor_type
  te_phase :: "runtime_phase option"
  te_safe_payload :: "payload option"

record terminal_commit =
  tx_run_id :: ident
  tx_attempt_id :: ident
  tx_lease_owner :: string
  tx_lease_version :: int
  tx_expected_run_status :: run_status
  tx_target_run_status :: run_status
  tx_expected_attempt_status :: attempt_status
  tx_target_attempt_status :: attempt_status
  tx_events :: "terminal_event list"
  tx_failure_category :: "failure_category option"

fun terminal_events ::
    "runtime_env \<Rightarrow> ident \<Rightarrow> ident \<Rightarrow> int \<Rightarrow> terminal_event list \<Rightarrow> runtime_event list result" where
  "terminal_events env rid aid n [] = Inr []"
| "terminal_events env rid aid n (t # ts) =
     and_then (validate_event_twice (draft_event env rid aid (n + 1) (te_event_type t) (te_phase t)
                 (te_actor_type t) (case te_safe_payload t of None \<Rightarrow> [] | Some p \<Rightarrow> p))) (\<lambda>e.
     and_then (terminal_events env rid aid (n + 1) ts) (\<lambda>es. Inr (e # es)))"

fun terminal_message :: "run_status \<Rightarrow> string" where
  "terminal_message Run_COMPLETED = ''runtime completed''"
| "terminal_message Run_FAILED = ''runtime failed''"
| "terminal_message Run_CANCELLED = ''runtime cancelled''"
| "terminal_message _ = []"

fun settled_investigation_status :: "run_status \<Rightarrow> investigation_status option" where
  "settled_investigation_status Run_COMPLETED = Some Inv_COMPLETED"
| "settled_investigation_status Run_FAILED = Some Inv_FAILED"
| "settled_investigation_status Run_CANCELLED = Some Inv_CANCELLED"
| "settled_investigation_status _ = None"

text \<open>The run's unfinished tool calls, closed with a message.\<close>

definition unfinished_calls :: "repository \<Rightarrow> runtime_run \<Rightarrow> tool_call list" where
  "unfinished_calls repo r =
     filter (\<lambda>c. tc_runtime_run_id c = Some (run_id r) \<and> tc_status c \<in> {Tool_PENDING, Tool_RUNNING})
       (list_tool_calls repo (run_investigation_id r))"

definition interrupt_call :: "instant \<Rightarrow> string \<Rightarrow> tool_call \<Rightarrow> tool_call" where
  "interrupt_call now message c =
     c\<lparr>tc_status := Tool_INTERRUPTED, tc_completed_at := Some now, tc_error_message := Some message\<rparr>"

definition interrupt_calls :: "instant \<Rightarrow> string \<Rightarrow> runtime_run \<Rightarrow> unit repo_op" where
  "interrupt_calls now message r repo =
     (let calls = map (interrupt_call now message) (unfinished_calls repo r)
      in if calls = [] then (repo, Inr ())
         else save_tool_calls (run_investigation_id r) calls repo)"

definition terminal_failure_reason :: "terminal_commit \<Rightarrow> string option" where
  "terminal_failure_reason c =
     (if tx_target_run_status c = Run_FAILED
      then map_option (\<lambda>f. safe_failure (failure_category_value f)) (tx_failure_category c) else None)"

definition checkpoints_of :: "runtime_store \<Rightarrow> ident \<Rightarrow> runtime_checkpoint list" where
  "checkpoints_of s rid = filter (\<lambda>c. ck_run_id c = rid) (dict_values (db_checkpoints s))"

text \<open>Everything that is validated and built before the first write.\<close>

definition prepare_terminal ::
    "runtime_env \<Rightarrow> terminal_commit \<Rightarrow> runtime_store
       \<Rightarrow> (runtime_run \<times> bool \<times> runtime_event list \<times> frozen_projection) result" where
  "prepare_terminal env c s =
     and_then (require_run s (tx_run_id c)) (\<lambda>r.
     and_then (owns_projection (db_repo s) r) (\<lambda>owns.
     and_then (raise_first
       [(run_status_of r \<noteq> tx_expected_run_status c,
           RuntimeConflict ''runtime terminal status conflict'')]) (\<lambda>_.
     and_then (validate_fence (en_now env) r (Some (tx_lease_owner c)) (Some (tx_lease_version c))) (\<lambda>_.
     and_then (raise_first
       [(\<not> attempt_in s (tx_attempt_id c) (run_id r) (tx_expected_attempt_status c),
           RuntimeIntegrityError ''runtime terminal attempt conflict'')]) (\<lambda>_.
     and_then (ensure_run_transition (run_status_of r) (tx_target_run_status c)) (\<lambda>_.
     and_then (ensure_attempt_transition (tx_expected_attempt_status c) (tx_target_attempt_status c)) (\<lambda>_.
     and_then (terminal_events env (run_id r) (tx_attempt_id c)
                 (int (length (events_of s (run_id r)))) (tx_events c)) (\<lambda>events.
     and_then (and_then (freeze_for env (db_repo s) r)
                 (\<lambda>p. finalize_frozen_projection (en_frozen env) p (checkpoints_of s (run_id r)))) (\<lambda>frozen.
     and_then (hook (en_fault env) ''persistence_mid_transaction'') (\<lambda>_.
     and_then (hook (en_failpoint env) ''persistence_mid_transaction'') (\<lambda>_.
       Inr (r, owns, events, frozen))))))))))))"

definition set_attempt_failure ::
    "ident \<Rightarrow> failure_category option \<Rightarrow> runtime_store \<Rightarrow> runtime_store" where
  "set_attempt_failure aid f s =
     (case dict_get (db_attempts s) aid of
        None \<Rightarrow> s | Some a \<Rightarrow> put_attempt (a\<lparr>att_failure_category := f\<rparr>) s)"

definition settle_investigation ::
    "runtime_env \<Rightarrow> terminal_commit \<Rightarrow> runtime_run \<Rightarrow> bool \<Rightarrow> unit repo_op" where
  "settle_investigation env c r owns repo =
     (case settled_investigation_status (tx_target_run_status c) of
        None \<Rightarrow> (repo, Inr ())
      | Some status \<Rightarrow>
          if owns then update_status (run_investigation_id r) status (terminal_failure_reason c) (en_now env) repo
          else (repo, Inr ()))"

definition commit_terminal :: "runtime_env \<Rightarrow> terminal_commit \<Rightarrow> runtime_run store_op" where
  "commit_terminal env c s =
     (case prepare_terminal env c s of
        Inl e \<Rightarrow> (s, Inl e)
      | Inr (r, owns, events, frozen) \<Rightarrow>
          (case on_repo (if is_terminal (tx_target_run_status c)
                         then interrupt_calls (en_now env) (terminal_message (tx_target_run_status c)) r
                         else skip_op) s of
             (s1, Inl e) \<Rightarrow> (s1, Inl e)
           | (s1, Inr _) \<Rightarrow>
               (let s2 = set_attempt_failure (tx_attempt_id c) (tx_failure_category c)
                           (append_events (run_id r) events s1) in
                case apply_transition env (r\<lparr>run_failure_category := tx_failure_category c\<rparr>)
                       (tx_target_run_status c) s2 of
                  (s3, Inl e) \<Rightarrow> (s3, Inl e)
                | (s3, Inr r') \<Rightarrow>
                    (case on_repo (settle_investigation env c r owns) s3 of
                       (s4, Inl e) \<Rightarrow> (s4, Inl e)
                     | (s4, Inr _) \<Rightarrow>
                         (publish_events events
                            (s4\<lparr>db_frozen := dict_put (db_frozen s4) (run_id r) frozen\<rparr>), Inr r')))))"

end
