(* ===== verification/Runtime_Commits.thy ===== *)
theory Runtime_Commits
  imports Runtime_Store
begin

text \<open>
  The durable commits of the in-memory runtime store (\<open>backend/runtime/store.py\<close>): tool
  results, phase results with their checkpoints, the reservation of model turns, and the
  audit that interrupts runs whose lease has expired.
\<close>

section \<open>Tool budget admission\<close>

definition ensure_v11_tool_budget_available ::
    "runtime_run \<Rightarrow> tool_call list \<Rightarrow> tool_call \<Rightarrow> unit result" where
  "ensure_v11_tool_budget_available r existing_calls incoming =
     (if \<not> is_v11 r then Inr ()
      else (let existing = first_match (\<lambda>c. tc_id c = tc_id incoming) existing_calls;
                consumed = consumed_calls (run_id r) existing_calls in
        if (case existing of None \<Rightarrow> False
            | Some c \<Rightarrow> tc_budget_charged c \<noteq> tc_budget_charged incoming)
        then Inl (RuntimeIntegrityError ''tool budget admission is immutable'')
        else if tc_status incoming \<noteq> Tool_RUNNING then Inr ()
        else if tc_budget_charged incoming = Some False
        then Inl (RuntimeIntegrityError ''running tool must reserve budget'')
        else if existing \<noteq> None then Inr ()
        else (case run_tool_budget r of
          None \<Rightarrow> Inl (RuntimeIntegrityError ''V11 run lacks frozen tool budget'')
        | Some budget \<Rightarrow>
            if (case tc_logical_call_id incoming of None \<Rightarrow> False | Some i \<Rightarrow> i \<in> set consumed)
            then Inr ()
            else if budget \<le> int (length consumed)
            then Inl (RuntimeConflict ''V11 tool budget exhausted'')
            else Inr ())))"

section \<open>Ownership of a V11 commit\<close>

text \<open>
  The owners the ownership check reads: of each value the mutation carries, and of the
  nested tasks, assessments, evidence, actions, verifications, report and run summary.
\<close>

definition record_owners :: "investigation_record \<Rightarrow> ident option list" where
  "record_owners r =
     [ir_active_runtime_run_id r] @ map ei_runtime_run_id (ir_evidence r)
     @ map ac_runtime_run_id (ir_actions r)
     @ map vs_runtime_run_id (ir_verification_suggestions r)
     @ (case ir_report r of None \<Rightarrow> []
        | Some p \<Rightarrow> [rp_runtime_run_id p])
     @ (case ir_multi_agent_run r of None \<Rightarrow> [] | Some m \<Rightarrow> [ms_runtime_run_id m])"

definition plan_owners :: "diagnosis_plan \<Rightarrow> ident option list" where
  "plan_owners p = plan_runtime_run_id p # map task_runtime_run_id (plan_tasks p)"

definition review_owners :: "coordination_review \<Rightarrow> ident option list" where
  "review_owners r = rv_runtime_run_id r # map ca_runtime_run_id (rv_critic_assessments r)"

definition opt_owners :: "('a \<Rightarrow> ident option list) \<Rightarrow> 'a option \<Rightarrow> ident option list" where
  "opt_owners f x = (case x of None \<Rightarrow> [] | Some a \<Rightarrow> f a)"

definition mutation_owners :: "business_mutation \<Rightarrow> ident option list" where
  "mutation_owners m =
     opt_owners record_owners (bm_investigation m) @ opt_owners plan_owners (bm_plan m)
     @ opt_owners review_owners (bm_review m)
     @ opt_owners (\<lambda>t. [rt_runtime_run_id t]) (bm_react_trace m)
     @ map task_runtime_run_id (opt_list (bm_tasks m))
     @ map ex_runtime_run_id (opt_list (bm_executions m))
     @ map fd_runtime_run_id (opt_list (bm_findings m))
     @ map tc_runtime_run_id (opt_list (bm_tool_calls m))"

definition intake_checks ::
    "frozen_ext \<Rightarrow> runtime_run \<Rightarrow> business_mutation \<Rightarrow> investigation_record
       \<Rightarrow> runtime_run option \<Rightarrow> frozen_projection option \<Rightarrow> unit result" where
  "intake_checks ext r m record previous_run previous_projection =
     and_then (raise_first
       [(\<not> bm_activate_projection m,
           RuntimeIntegrityError ''V11 INTAKE must activate its projection''),
        (Option.bind (bm_investigation m) ir_active_runtime_run_id \<noteq> Some (run_id r),
           RuntimeIntegrityError ''V11 INTAKE activation owner mismatch'')]) (\<lambda>_.
     if ir_active_runtime_run_id record = None \<or> ir_active_runtime_run_id record = Some (run_id r)
     then Inr ()
     else and_then (raise_first
       [(case previous_run of None \<Rightarrow> True | Some p \<Rightarrow> \<not> is_terminal (run_status_of p),
           RuntimeConflict ''previous projection owner is not terminal'')]) (\<lambda>_.
     (case previous_projection of
        None \<Rightarrow> Inl (RuntimeConflict ''previous projection owner has no frozen view'')
      | Some p \<Rightarrow> (case parse_frozen_projection ext p of
          Inl _ \<Rightarrow> Inl (RuntimeConflict ''previous projection owner has invalid frozen view'')
        | Inr _ \<Rightarrow> Inr ()))))"

definition validate_v11_phase_ownership ::
    "frozen_ext \<Rightarrow> runtime_run \<Rightarrow> runtime_phase option \<Rightarrow> business_mutation
       \<Rightarrow> investigation_record \<Rightarrow> runtime_run option \<Rightarrow> frozen_projection option \<Rightarrow> unit result" where
  "validate_v11_phase_ownership ext r phase m record previous_run previous_projection =
     (if \<not> is_v11 r then Inr ()
      else and_then
        (if phase = Some Phase_INTAKE then intake_checks ext r m record previous_run previous_projection
         else raise_first
           [(ir_active_runtime_run_id record \<noteq> Some (run_id r),
               RuntimeIntegrityError ''V11 business commit does not own active projection'')])
        (\<lambda>_. raise_first
           [(list_ex (\<lambda>x. x \<noteq> Some (run_id r)) (mutation_owners m),
               RuntimeIntegrityError ''V11 business payload owner mismatch'')]))"

section \<open>Tool commits\<close>

fun tool_event_type :: "tool_call_status \<Rightarrow> event_type" where
  "tool_event_type Tool_RUNNING = Ev_TOOL_STARTED"
| "tool_event_type Tool_SUCCESS = Ev_TOOL_COMPLETED"
| "tool_event_type _ = Ev_TOOL_FAILED"

definition tool_event :: "runtime_env \<Rightarrow> tool_commit \<Rightarrow> int \<Rightarrow> runtime_event" where
  "tool_event env c n =
     (draft_event env (tm_run_id c) (tm_attempt_id c) n (tool_event_type (tc_status (tm_call c)))
        (tm_phase c) RActor_TOOL
        [(''status'', PStr (tool_call_status_value (tc_status (tm_call c)))),
         (''tool_name'', PStr (tc_tool_name (tm_call c))),
         (''idempotency_key'', opt_str (tc_idempotency_key (tm_call c))),
         (''normalized_inputs'', pdict (tc_input (tm_call c)))])
     \<lparr>ev_actor_name := Some (tc_agent_name (tm_call c)),
      ev_task_id := Some (tc_task_id (tm_call c)),
      ev_execution_id := tc_execution_id (tm_call c),
      ev_tool_call_id := Some (tc_id (tm_call c)),
      ev_evidence_ids := tc_output_evidence_ids (tm_call c)\<rparr>"

definition tool_commit_checks ::
    "runtime_env \<Rightarrow> tool_commit \<Rightarrow> runtime_store \<Rightarrow> runtime_run result" where
  "tool_commit_checks env c s =
     and_then (require_run s (tm_run_id c)) (\<lambda>r.
     and_then (raise_first
       [(run_status_of r \<noteq> Run_RUNNING, RuntimeConflict ''tool commit requires running runtime'')]) (\<lambda>_.
     and_then (if \<not> is_v11 r then Inr ()
               else and_then (repo_get (db_repo s) (run_investigation_id r)) (\<lambda>record.
                    and_then (raise_first
                      [(ir_active_runtime_run_id record \<noteq> Some (run_id r),
                          RuntimeIntegrityError ''V11 tool commit does not own active projection''),
                       (tc_runtime_run_id (tm_call c) \<noteq> Some (run_id r),
                          RuntimeIntegrityError ''V11 tool payload owner mismatch'')]) (\<lambda>_.
                    validate_v11_phase_ownership (en_frozen env) r (tm_phase c) (tm_mutation c)
                      record None None))) (\<lambda>_.
     and_then (validate_fence (en_now env) r (Some (tm_lease_owner c)) (Some (tm_lease_version c))) (\<lambda>_.
     and_then (raise_first
       [(\<not> attempt_in s (tm_attempt_id c) (run_id r) Att_RUNNING,
           RuntimeIntegrityError ''tool commit attempt is stale'')]) (\<lambda>_.
     and_then (ensure_v11_tool_budget_available r
                 (list_tool_calls (db_repo s) (run_investigation_id r)) (tm_call c)) (\<lambda>_.
     and_then (raise_first
       [(case first_match (\<lambda>k. tc_id k = tc_id (tm_call c))
                (list_tool_calls (db_repo s) (run_investigation_id r)) of
           None \<Rightarrow> False
         | Some k \<Rightarrow> tc_status k \<in> {Tool_SUCCESS, Tool_FAILED, Tool_INTERRUPTED}
                     \<and> tc_status k \<noteq> tc_status (tm_call c),
           RuntimeConflict ''terminal tool call rejects a late result'')]) (\<lambda>_. Inr r)))))))"

text \<open>The guarded block: merge, apply, build the event.\<close>

definition tool_transaction ::
    "runtime_env \<Rightarrow> tool_commit \<Rightarrow> runtime_run \<Rightarrow> runtime_event store_op" where
  "tool_transaction env c r s =
     (case and_then (repo_get (db_repo s) (run_investigation_id r)) (merge_tool_result (tm_mutation c)) of
        Inl e \<Rightarrow> (s, Inl e)
      | Inr m \<Rightarrow>
          (case on_repo (apply_memory m) s of
             (s1, Inl e) \<Rightarrow> (s1, Inl e)
           | (s1, Inr _) \<Rightarrow>
               (case validate_event_twice (tool_event env c (next_sequence s1 (run_id r))) of
                  Inl e \<Rightarrow> (s1, Inl e)
                | Inr event \<Rightarrow> (append_events (run_id r) [event] s1, Inr event))))"

definition commit_tool :: "runtime_env \<Rightarrow> tool_commit \<Rightarrow> tool_call store_op" where
  "commit_tool env c s =
     (case tool_commit_checks env c s of
        Inl e \<Rightarrow> (s, Inl e)
      | Inr r \<Rightarrow>
          (case tool_transaction env c r s of
             (s1, Inl e) \<Rightarrow> (set_repo (db_repo s) s1, Inl e)
           | (s1, Inr event) \<Rightarrow> (publish_events [event] s1, Inr (tm_call c))))"

section \<open>Model turns\<close>

definition reservable_turns ::
    "runtime_env \<Rightarrow> ident \<Rightarrow> string \<Rightarrow> int \<Rightarrow> runtime_store \<Rightarrow> (runtime_run \<times> int) result" where
  "reservable_turns env rid owner version s =
     and_then (require_run s rid) (\<lambda>r.
     and_then (raise_first
       [(\<not> is_v11 r, RuntimeIntegrityError ''model turn budget is only valid for V11''),
        (run_status_of r \<notin> {Run_RUNNING, Run_CANCELLING},
           RuntimeConflict ''model turn reservation requires a live run'')]) (\<lambda>_.
     and_then (validate_fence (en_now env) r (Some owner) (Some version)) (\<lambda>_.
     (case run_remaining_model_turns r of
        None \<Rightarrow> Inl (RuntimeIntegrityError ''V11 run lacks durable model turn budget'')
      | Some n \<Rightarrow> if n \<le> 0 then Inl (RuntimeConflict ''V11 model turn budget exhausted'')
                  else Inr (r, n)))))"

definition reserve_model_turn :: "runtime_env \<Rightarrow> ident \<Rightarrow> string \<Rightarrow> int \<Rightarrow> int store_op" where
  "reserve_model_turn env rid owner version s =
     (case reservable_turns env rid owner version s of
        Inl e \<Rightarrow> (s, Inl e)
      | Inr (r, n) \<Rightarrow> (put_run (r\<lparr>run_remaining_model_turns := Some (n - 1)\<rparr>) s, Inr (n - 1)))"

section \<open>Phase commits\<close>

definition as_integrity :: "'a result \<Rightarrow> 'a result" where
  "as_integrity x = (case x of Inl (ValueError m) \<Rightarrow> Inl (RuntimeIntegrityError m) | _ \<Rightarrow> x)"

definition as_conflict :: "'a result \<Rightarrow> 'a result" where
  "as_conflict x = (case x of Inl (ValueError m) \<Rightarrow> Inl (RuntimeConflict m) | _ \<Rightarrow> x)"

text \<open>Ownership, then the digests and the durable consumption the checkpoint must agree with.\<close>

definition phase_ownership :: "runtime_env \<Rightarrow> phase_commit \<Rightarrow> runtime_store \<Rightarrow> runtime_run \<Rightarrow> unit result" where
  "phase_ownership env c s r =
     and_then (repo_get (db_repo s) (run_investigation_id r)) (\<lambda>record.
       let foreign = (case ir_active_runtime_run_id record of
                        None \<Rightarrow> None | Some p \<Rightarrow> if p = run_id r then None else Some p) in
       validate_v11_phase_ownership (en_frozen env) r (Some (pc_phase c)) (pc_mutation c) record
         (Option.bind foreign (dict_get (db_runs s)))
         (Option.bind foreign (dict_get (db_frozen s))))"

definition phase_digests ::
    "runtime_env \<Rightarrow> phase_commit \<Rightarrow> runtime_store \<Rightarrow> runtime_run
       \<Rightarrow> (string \<times> string \<times> nat \<times> int option) result" where
  "phase_digests env c s r =
     and_then (checkpoint_digest (en_digest env) (pc_run_id c) (pc_attempt_id c) (pc_phase c)
                 (pc_resume_state c) (pc_schema_version c)) (\<lambda>digest.
     as_integrity
       (and_then (durable_projection_digest (en_digest env) (en_dump env) (db_repo s)
                    (run_investigation_id r) (run_id r) (pc_resume_state c) True
                    (Some (pc_mutation c))) (\<lambda>projection.
        let tools = durable_tool_call_count (db_repo s) (run_investigation_id r) (run_id r)
                      (Some (pc_mutation c)) in
        and_then (case run_token_budget r of
                    None \<Rightarrow> Inr None
                  | Some b \<Rightarrow> and_then (durable_remaining_token_budget (events_of s (run_id r)) (run_id r) b)
                               (\<lambda>n. Inr (Some n))) (\<lambda>tokens.
          Inr (digest, projection, tools, tokens)))))"

definition phase_budget_checks ::
    "phase_commit \<Rightarrow> runtime_run \<Rightarrow> nat \<Rightarrow> int option \<Rightarrow> unit result" where
  "phase_budget_checks c r tools tokens =
     (let rs = pc_resume_state c in raise_first
       [(case run_tool_budget r of None \<Rightarrow> False
           | Some b \<Rightarrow> rs_tool_budget rs \<noteq> max 0 (b - int tools),
           RuntimeIntegrityError ''checkpoint remaining tool budget differs from durable consumption''),
        (run_token_budget r \<noteq> None \<and> rs_token_budget rs \<noteq> tokens,
           RuntimeIntegrityError ''checkpoint remaining token budget differs from durable consumption''),
        (is_v11 r \<and> contract_digest_key \<in> set (dict_keys (run_execution_contract r))
           \<and> rs_model_turns rs \<noteq> run_remaining_model_turns r,
           RuntimeIntegrityError ''checkpoint remaining model turns differ from durable run budget'')])"

definition same_checkpoint :: "phase_commit \<Rightarrow> string \<Rightarrow> string \<Rightarrow> runtime_checkpoint \<Rightarrow> bool" where
  "same_checkpoint c digest projection k =
     (ck_run_id k = pc_run_id c \<and> ck_attempt_id k = pc_attempt_id c
      \<and> ck_completed_phase k = pc_phase c \<and> ck_state_digest k = digest
      \<and> ck_projection_digest k = projection)"

definition phase_admission ::
    "runtime_env \<Rightarrow> phase_commit \<Rightarrow> runtime_store \<Rightarrow> runtime_run \<Rightarrow> unit result" where
  "phase_admission env c s r =
     and_then (raise_first
       [(run_status_of r \<notin> {Run_RUNNING, Run_CANCELLING},
           RuntimeConflict ''phase result requires a running or cancelling run'')]) (\<lambda>_.
     and_then (validate_fence (en_now env) r (Some (pc_lease_owner c)) (Some (pc_lease_version c))) (\<lambda>_.
     and_then (raise_first
       [(\<not> attempt_in s (pc_attempt_id c) (pc_run_id c) Att_RUNNING,
           RuntimeIntegrityError ''phase attempt does not belong to run''),
        (run_investigation_id r \<noteq> bm_investigation_id (pc_mutation c),
           RuntimeIntegrityError ''phase business mutation crosses investigation'')]) (\<lambda>_.
     as_conflict (ensure_phase_precondition (run_current_phase r) (run_latest_checkpoint_id r) c
       (pp_order (phase_profile_for (run_contract_version r)))))))"

text \<open>What the checks before the transaction decide: an earlier checkpoint is returned again.\<close>

datatype phase_decision = Replay_checkpoint runtime_checkpoint | Write_phase runtime_run string string

definition phase_commit_checks ::
    "runtime_env \<Rightarrow> phase_commit \<Rightarrow> runtime_store \<Rightarrow> phase_decision result" where
  "phase_commit_checks env c s =
     and_then (require_run s (pc_run_id c)) (\<lambda>r.
     and_then (phase_ownership env c s r) (\<lambda>_.
     and_then (phase_digests env c s r) (\<lambda>(digest, projection, tools, tokens).
     and_then (phase_budget_checks c r tools tokens) (\<lambda>_.
     (case dict_get (db_checkpoints s) (pc_checkpoint_id c) of
        Some k \<Rightarrow> if same_checkpoint c digest projection k then Inr (Replay_checkpoint k)
                  else Inl (RuntimeConflict ''checkpoint id was reused for another phase result'')
      | None \<Rightarrow> and_then (phase_admission env c s r) (\<lambda>_. Inr (Write_phase r digest projection)))))))"

definition phase_event_type :: "phase_commit \<Rightarrow> event_type" where
  "phase_event_type c =
     (if pc_status c = ''skipped'' then Ev_PHASE_SKIPPED
      else if pc_status c = ''failed'' then Ev_PHASE_FAILED else Ev_PHASE_COMPLETED)"

definition phase_event :: "runtime_env \<Rightarrow> phase_commit \<Rightarrow> int \<Rightarrow> runtime_event" where
  "phase_event env c n =
     (draft_event env (pc_run_id c) (pc_attempt_id c) n (phase_event_type c) (Some (pc_phase c))
        RActor_PHASE (pc_safe_payload c))
     \<lparr>ev_evidence_ids := rs_evidence_ids (pc_resume_state c), ev_schema_version := pc_schema_version c\<rparr>"

definition checkpoint_event ::
    "runtime_env \<Rightarrow> phase_commit \<Rightarrow> string \<Rightarrow> string \<Rightarrow> int \<Rightarrow> runtime_event" where
  "checkpoint_event env c digest projection n =
     (draft_event env (pc_run_id c) (pc_attempt_id c) n Ev_CHECKPOINT_CREATED (Some (pc_phase c))
        RActor_RUNTIME
        [(''checkpoint_id'', PStr (pc_checkpoint_id c)), (''event_sequence'', PInt n),
         (''state_digest'', PStr digest), (''projection_digest'', PStr projection)])
     \<lparr>ev_schema_version := pc_schema_version c\<rparr>"

definition new_checkpoint ::
    "runtime_env \<Rightarrow> phase_commit \<Rightarrow> string \<Rightarrow> string \<Rightarrow> int \<Rightarrow> runtime_checkpoint" where
  "new_checkpoint env c digest projection n =
     \<lparr>ck_id = pc_checkpoint_id c, ck_run_id = pc_run_id c, ck_attempt_id = pc_attempt_id c,
      ck_completed_phase = pc_phase c, ck_event_sequence = n, ck_state_digest = digest,
      ck_projection_digest = projection, ck_resume_state = pc_resume_state c,
      ck_created_at = en_now env, ck_schema_version = pc_schema_version c\<rparr>"

definition validate_checkpoint :: "runtime_checkpoint \<Rightarrow> unit result" where
  "validate_checkpoint k = raise_first
     [(ck_event_sequence k < 1 \<or> \<not> is_hex64 (ck_state_digest k)
         \<or> \<not> is_hex64 (ck_projection_digest k) \<or> ck_schema_version k < 1, field_error)]"

text \<open>The guarded block: apply the mutation, hit the hooks, build and write.\<close>

definition phase_transaction ::
    "runtime_env \<Rightarrow> phase_commit \<Rightarrow> runtime_run \<Rightarrow> string \<Rightarrow> string
       \<Rightarrow> (runtime_event list \<times> runtime_checkpoint) store_op" where
  "phase_transaction env c r digest projection s =
     (case on_repo (apply_memory (pc_mutation c)) s of
        (s1, Inl e) \<Rightarrow> (s1, Inl e)
      | (s1, Inr _) \<Rightarrow>
          (let n = next_sequence s1 (run_id r);
               k = new_checkpoint env c digest projection (n + 1) in
           case and_then (hook (en_fault env) ''persistence_mid_transaction'') (\<lambda>_.
                and_then (hook (en_failpoint env) ''after_business_before_event'') (\<lambda>_.
                and_then (validate_runtime_event (phase_event env c n)) (\<lambda>pe.
                and_then (validate_runtime_event (checkpoint_event env c digest projection (n + 1))) (\<lambda>ce.
                and_then (validate_checkpoint k) (\<lambda>_. Inr [pe, ce]))))) of
             Inl e \<Rightarrow> (s1, Inl e)
           | Inr events \<Rightarrow>
               (put_run (r\<lparr>run_current_phase := Some (pc_phase c),
                           run_latest_checkpoint_id := Some (pc_checkpoint_id c)\<rparr>)
                  ((append_events (run_id r) events s1)
                     \<lparr>db_checkpoints := dict_put (db_checkpoints s1) (pc_checkpoint_id c) k\<rparr>),
                Inr (events, k))))"

text \<open>\<open>_restore_memory_phase\<close>: repository, run, journal and checkpoints as they were.\<close>

definition restore_memory_phase :: "runtime_run \<Rightarrow> runtime_store \<Rightarrow> runtime_store \<Rightarrow> runtime_store" where
  "restore_memory_phase r old s =
     (put_run r s)\<lparr>db_repo := db_repo old,
        db_events := dict_put (db_events s) (run_id r) (events_of old (run_id r)),
        db_checkpoints := db_checkpoints old\<rparr>"

fun phase_failure :: "py_error \<Rightarrow> py_error" where
  "phase_failure (RuntimeLeaseLost m) = RuntimeLeaseLost m"
| "phase_failure _ = RuntimePersistenceError ''memory phase commit rolled back''"

definition commit_phase :: "runtime_env \<Rightarrow> phase_commit \<Rightarrow> runtime_checkpoint store_op" where
  "commit_phase env c s =
     (case phase_commit_checks env c s of
        Inl e \<Rightarrow> (s, Inl e)
      | Inr (Replay_checkpoint k) \<Rightarrow> (s, Inr k)
      | Inr (Write_phase r digest projection) \<Rightarrow>
          (case phase_transaction env c r digest projection s of
             (s1, Inl e) \<Rightarrow> (restore_memory_phase r s s1, Inl (phase_failure e))
           | (s1, Inr (events, k)) \<Rightarrow> (publish_events events s1, Inr k)))"

definition get_checkpoint :: "runtime_store \<Rightarrow> ident \<Rightarrow> runtime_checkpoint result" where
  "get_checkpoint s cid =
     (case dict_get (db_checkpoints s) cid of
        None \<Rightarrow> Inl (RuntimeNotFound (''unknown runtime checkpoint: '' @ cid)) | Some k \<Rightarrow> Inr k)"

definition list_checkpoints :: "runtime_store \<Rightarrow> ident \<Rightarrow> runtime_checkpoint list result" where
  "list_checkpoints s rid =
     and_then (require_run s rid) (\<lambda>_. Inr (sort_key ck_event_sequence (checkpoints_of s rid)))"

section \<open>Expired leases\<close>

definition lease_expired :: "instant \<Rightarrow> runtime_run \<Rightarrow> bool" where
  "lease_expired now r =
     (run_status_of r \<in> {Run_RUNNING, Run_CANCELLING}
      \<and> (case run_lease_expires_at r of None \<Rightarrow> False | Some t \<Rightarrow> t < now))"

definition lease_lost_payload :: payload where
  "lease_lost_payload = [(''status'', PStr ''interrupted''), (''failure_category'', PStr ''lease_lost'')]"

definition audit_events :: "runtime_env \<Rightarrow> ident \<Rightarrow> ident \<Rightarrow> int \<Rightarrow> runtime_event list result" where
  "audit_events env rid aid n =
     and_then (validate_runtime_event (draft_event env rid aid n Ev_RUN_INTERRUPTED None
                 RActor_RUNTIME lease_lost_payload)) (\<lambda>re.
     and_then (validate_runtime_event (draft_event env rid aid (n + 1) Ev_ATTEMPT_INTERRUPTED None
                 RActor_RUNTIME lease_lost_payload)) (\<lambda>ae. Inr [re, ae]))"

text \<open>The body of the audit loop for one expired run; a raise keeps what was written.\<close>

definition interrupt_expired ::
    "runtime_env \<Rightarrow> runtime_run \<Rightarrow> (runtime_run \<times> runtime_event list) store_op" where
  "interrupt_expired env r s =
     (case first_match (\<lambda>a. att_status_of a = Att_RUNNING) (attempts_of s (run_id r)) of
        None \<Rightarrow> (s, Inl (RuntimeIntegrityError ''expired runtime run has no active attempt''))
      | Some a \<Rightarrow>
          (case on_repo (interrupt_calls (en_now env) ''runtime lease expired'' r) s of
             (s1, Inl e) \<Rightarrow> (s1, Inl e)
           | (s1, Inr _) \<Rightarrow>
               (case apply_transition env (r\<lparr>run_failure_category := Some Fail_LEASE_LOST\<rparr>) Run_INTERRUPTED
                       (set_attempt_failure (att_id a) (Some Fail_LEASE_LOST) s1) of
                  (s2, Inl e) \<Rightarrow> (s2, Inl e)
                | (s2, Inr r') \<Rightarrow>
                    (case (if is_v11 r then and_then (freeze_for env (db_repo s2) r')
                              (\<lambda>p. Inr (dict_put (db_frozen s2) (run_id r) p))
                           else Inr (db_frozen s2)) of
                       Inl e \<Rightarrow> (s2, Inl e)
                     | Inr frozen \<Rightarrow>
                         (let s3 = s2\<lparr>db_frozen := frozen\<rparr> in
                          case audit_events env (run_id r) (att_id a) (next_sequence s3 (run_id r)) of
                            Inl e \<Rightarrow> (s3, Inl e)
                          | Inr es \<Rightarrow> (append_events (run_id r) es s3, Inr (r', es)))))))"

text \<open>The loop walks the runs in insertion order and reads each one when it reaches it.\<close>

fun audit_loop ::
    "runtime_env \<Rightarrow> ident list \<Rightarrow> runtime_run list \<Rightarrow> runtime_event list
       \<Rightarrow> (runtime_run list \<times> runtime_event list) store_op" where
  "audit_loop env [] done events s = (s, Inr (done, events))"
| "audit_loop env (rid # rids) done events s =
     (case dict_get (db_runs s) rid of
        None \<Rightarrow> audit_loop env rids done events s
      | Some r \<Rightarrow>
          if \<not> lease_expired (en_now env) r then audit_loop env rids done events s
          else (case interrupt_expired env r s of
             (s1, Inl e) \<Rightarrow> (s1, Inl e)
           | (s1, Inr (r', es)) \<Rightarrow> audit_loop env rids (done @ [r']) (events @ es) s1))"

definition audit_expired_leases :: "runtime_env \<Rightarrow> runtime_run list store_op" where
  "audit_expired_leases env s =
     (case audit_loop env (dict_keys (db_runs s)) [] [] s of
        (s1, Inl e) \<Rightarrow> (s1, Inl e)
      | (s1, Inr (rs, events)) \<Rightarrow> (publish_events events s1, Inr rs))"

end
