(* ===== verification/Store_Effects.thy ===== *)
theory Store_Effects
  imports Runtime_Commits
begin

text \<open>
  The abstract specification of the runtime store: the primitive effects an operation may
  have on runs, attempts, journals and checkpoints, as an inductive relation, and the
  well-formedness invariant they preserve.  That every operation of the store is a sequence
  of these effects is shown in \<open>Store_Refinement\<close>.
\<close>

section \<open>Well-formed stores\<close>

definition numbered_from :: "nat \<Rightarrow> runtime_event list \<Rightarrow> bool" where
  "numbered_from n es = (map ev_sequence es = map int [Suc n ..< Suc (n + length es)])"

definition runs_ok :: "runtime_store \<Rightarrow> bool" where
  "runs_ok s = (distinct (dict_keys (db_runs s))
     \<and> (\<forall>k r. dict_get (db_runs s) k = Some r \<longrightarrow> run_id r = k))"

definition one_active_live :: "runtime_store \<Rightarrow> bool" where
  "one_active_live s =
     (\<forall>k r k' r'. dict_get (db_runs s) k = Some r \<and> dict_get (db_runs s) k' = Some r'
        \<and> run_investigation_id r = run_investigation_id r' \<and> active_live r \<and> active_live r'
        \<longrightarrow> k = k')"

definition attempts_ok :: "runtime_store \<Rightarrow> bool" where
  "attempts_ok s = (distinct (dict_keys (db_attempts s))
     \<and> (\<forall>k a. dict_get (db_attempts s) k = Some a \<longrightarrow> att_id a = k
          \<and> (\<exists>r. dict_get (db_runs s) (att_run_id a) = Some r
                \<and> (att_status_of a = Att_RUNNING \<longrightarrow> run_status_of r \<in> {Run_RUNNING, Run_CANCELLING}))))"

definition one_running_attempt :: "runtime_store \<Rightarrow> bool" where
  "one_running_attempt s =
     (\<forall>k a k' a'. dict_get (db_attempts s) k = Some a \<and> dict_get (db_attempts s) k' = Some a'
        \<and> att_run_id a = att_run_id a' \<and> att_status_of a = Att_RUNNING
        \<and> att_status_of a' = Att_RUNNING \<longrightarrow> k = k')"

definition attempts_numbered :: "runtime_store \<Rightarrow> bool" where
  "attempts_numbered s =
     (\<forall>rid. map att_number (attempts_of s rid) = map int [1 ..< Suc (length (attempts_of s rid))])"

definition journals_ok :: "runtime_store \<Rightarrow> bool" where
  "journals_ok s =
     ((\<forall>k. dict_get (db_events s) k = None \<longleftrightarrow> dict_get (db_runs s) k = None)
      \<and> (\<forall>k es. dict_get (db_events s) k = Some es \<longrightarrow>
            numbered_from 0 es \<and> (\<forall>e \<in> set es. ev_run_id e = k)))"

text \<open>The checkpoints of a run, in the order they were written, are a prefix of its phases.\<close>

definition run_order :: "runtime_run \<Rightarrow> runtime_phase list" where
  "run_order r = phase_order_for (run_contract_version r)"

definition phases_done :: "runtime_run \<Rightarrow> nat" where
  "phases_done r =
     (case run_current_phase r of None \<Rightarrow> 0
      | Some p \<Rightarrow> (case index_of (run_order r) p of None \<Rightarrow> 0 | Some i \<Rightarrow> Suc i))"

definition run_checkpoints_ok :: "runtime_store \<Rightarrow> runtime_run \<Rightarrow> bool" where
  "run_checkpoints_ok s r =
     (let cks = checkpoints_of s (run_id r) in
      map ck_completed_phase cks = take (phases_done r) (run_order r)
      \<and> (run_current_phase r = None \<longleftrightarrow> cks = [])
      \<and> sorted_wrt (<) (map ck_event_sequence cks)
      \<and> (\<forall>c \<in> set cks. 1 \<le> ck_event_sequence c
            \<and> ck_event_sequence c \<le> int (length (events_of s (run_id r))))
      \<and> run_latest_checkpoint_id r = (if cks = [] then None else Some (ck_id (last cks))))"

definition checkpoints_ok :: "runtime_store \<Rightarrow> bool" where
  "checkpoints_ok s = (distinct (dict_keys (db_checkpoints s))
     \<and> (\<forall>k c. dict_get (db_checkpoints s) k = Some c \<longrightarrow>
          ck_id c = k \<and> dict_get (db_runs s) (ck_run_id c) \<noteq> None)
     \<and> (\<forall>k r. dict_get (db_runs s) k = Some r \<longrightarrow> run_checkpoints_ok s r))"

definition wf_store :: "runtime_store \<Rightarrow> bool" where
  "wf_store s = (runs_ok s \<and> one_active_live s \<and> attempts_ok s \<and> one_running_attempt s
     \<and> attempts_numbered s \<and> journals_ok s \<and> checkpoints_ok s)"

lemmas wf_parts = runs_ok_def one_active_live_def attempts_ok_def one_running_attempt_def
  attempts_numbered_def journals_ok_def checkpoints_ok_def

section \<open>Primitive effects\<close>

definition same_core :: "runtime_store \<Rightarrow> runtime_store \<Rightarrow> bool" where
  "same_core s s' = (db_runs s' = db_runs s \<and> db_attempts s' = db_attempts s
     \<and> db_events s' = db_events s \<and> db_checkpoints s' = db_checkpoints s)"

definition turns_le :: "int option \<Rightarrow> int option \<Rightarrow> bool" where
  "turns_le a b =
     (case (a, b) of (None, None) \<Rightarrow> True | (Some m, Some n) \<Rightarrow> m = n \<or> (0 \<le> m \<and> m = n - 1) | _ \<Rightarrow> False)"

text \<open>What an update that is not a transition keeps of a run.\<close>

definition run_update :: "runtime_run \<Rightarrow> runtime_run \<Rightarrow> bool" where
  "run_update r r' =
     (run_id r' = run_id r \<and> run_investigation_id r' = run_investigation_id r
      \<and> run_kind_of r' = run_kind_of r \<and> run_status_of r' = run_status_of r
      \<and> run_contract_version r' = run_contract_version r
      \<and> run_execution_contract r' = run_execution_contract r
      \<and> run_tool_budget r' = run_tool_budget r \<and> run_token_budget r' = run_token_budget r
      \<and> run_current_phase r' = run_current_phase r
      \<and> run_latest_checkpoint_id r' = run_latest_checkpoint_id r
      \<and> run_lease_owner r' = run_lease_owner r \<and> run_lease_version r' = run_lease_version r
      \<and> turns_le (run_remaining_model_turns r') (run_remaining_model_turns r))"

definition attempt_update :: "runtime_attempt \<Rightarrow> runtime_attempt \<Rightarrow> bool" where
  "attempt_update a a' =
     (att_id a' = att_id a \<and> att_run_id a' = att_run_id a \<and> att_number a' = att_number a
      \<and> (a' = a \<or> att_status_of a = Att_RUNNING))"

definition fresh_run :: "runtime_run \<Rightarrow> bool" where
  "fresh_run r = (run_current_phase r = None \<and> run_latest_checkpoint_id r = None)"

definition next_phase :: "runtime_run \<Rightarrow> runtime_phase \<Rightarrow> bool" where
  "next_phase r p = (phases_done r < length (run_order r) \<and> run_order r ! phases_done r = p
     \<and> (case run_current_phase r of None \<Rightarrow> True | Some q \<Rightarrow> index_of (run_order r) q \<noteq> None))"

definition phase_write ::
    "runtime_run \<Rightarrow> runtime_phase \<Rightarrow> runtime_event list \<Rightarrow> runtime_checkpoint
       \<Rightarrow> runtime_store \<Rightarrow> runtime_store" where
  "phase_write r p es k s =
     put_run (r\<lparr>run_current_phase := Some p, run_latest_checkpoint_id := Some (ck_id k)\<rparr>)
       ((append_events (run_id r) es s)\<lparr>db_checkpoints := dict_put (db_checkpoints s) (ck_id k) k\<rparr>)"

definition transition_write ::
    "instant \<Rightarrow> runtime_run \<Rightarrow> run_status \<Rightarrow> runtime_store \<Rightarrow> runtime_store" where
  "transition_write now r target s =
     (put_run (transitioned now target r) s)\<lparr>db_attempts :=
        settle_attempts now (run_id r) target (db_attempts s)\<rparr>"

inductive effect :: "runtime_store \<Rightarrow> runtime_store \<Rightarrow> bool" where
  effect_frame: "same_core s s' \<Longrightarrow> effect s s'"
| effect_create:
    "\<lbrakk>dict_get (db_runs s) (run_id r) = None; fresh_run r;
      active_live r \<longrightarrow> (\<forall>q \<in> set (dict_values (db_runs s)).
        \<not> (run_investigation_id q = run_investigation_id r \<and> active_live q))\<rbrakk>
     \<Longrightarrow> effect s ((put_run r s)\<lparr>db_events := dict_put (db_events s) (run_id r) []\<rparr>)"
| effect_update:
    "\<lbrakk>dict_get (db_runs s) (run_id r) = Some r; \<not> is_terminal (run_status_of r); run_update r r'\<rbrakk>
     \<Longrightarrow> effect s (put_run r' s)"
| effect_transition:
    "\<lbrakk>dict_get (db_runs s) (run_id r) = Some r; run_update r r';
      target \<in> set (allowed_transitions (run_status_of r))\<rbrakk>
     \<Longrightarrow> effect s (transition_write now r' target s)"
| effect_lease:
    "\<lbrakk>dict_get (db_runs s) (run_id r) = Some r; run_status_of r \<in> {Run_CREATED, Run_INTERRUPTED}\<rbrakk>
     \<Longrightarrow> effect s (put_run (leased_run env s owner r) s)"
| effect_attempt:
    "\<lbrakk>dict_get (db_attempts s) (att_id a) = None; dict_get (db_runs s) (att_run_id a) = Some r;
      run_status_of r = Run_RUNNING; att_number a = max_number (attempts_of s (att_run_id a)) + 1;
      \<forall>b \<in> set (attempts_of s (att_run_id a)). att_status_of b \<noteq> Att_RUNNING\<rbrakk>
     \<Longrightarrow> effect s (put_attempt a s)"
| effect_attempt_update:
    "\<lbrakk>dict_get (db_attempts s) (att_id a) = Some a; attempt_update a a'\<rbrakk>
     \<Longrightarrow> effect s (put_attempt a' s)"
| effect_events:
    "\<lbrakk>dict_get (db_runs s) rid = Some r; \<not> is_terminal (run_status_of r);
      numbered_from (length (events_of s rid)) es; \<forall>e \<in> set es. ev_run_id e = rid\<rbrakk>
     \<Longrightarrow> effect s (append_events rid es s)"
| effect_phase:
    "\<lbrakk>dict_get (db_runs s) (run_id r) = Some r; run_status_of r \<in> {Run_RUNNING, Run_CANCELLING};
      numbered_from (length (events_of s (run_id r))) es; \<forall>e \<in> set es. ev_run_id e = run_id r;
      es \<noteq> []; dict_get (db_checkpoints s) (ck_id k) = None; ck_run_id k = run_id r;
      ck_completed_phase k = p; ck_event_sequence k = int (length (events_of s (run_id r)) + length es);
      next_phase r p\<rbrakk>
     \<Longrightarrow> effect s (phase_write r p es k s)"

inductive_cases effect_cases: "effect s s'"

section \<open>How the writes read\<close>

named_theorems store_simps \<open>field access after a write\<close>

lemma put_run_simps [store_simps]:
  "db_runs (put_run r s) = dict_put (db_runs s) (run_id r) r"
  "db_attempts (put_run r s) = db_attempts s" "db_events (put_run r s) = db_events s"
  "db_checkpoints (put_run r s) = db_checkpoints s" "db_repo (put_run r s) = db_repo s"
  "db_frozen (put_run r s) = db_frozen s" "db_published (put_run r s) = db_published s"
  "db_publishing (put_run r s) = db_publishing s" "events_of (put_run r s) = events_of s"
  "attempts_of (put_run r s) = attempts_of s" "checkpoints_of (put_run r s) = checkpoints_of s"
  by (simp_all add: put_run_def events_of_def attempts_of_def checkpoints_of_def fun_eq_iff)

lemma put_attempt_simps [store_simps]:
  "db_attempts (put_attempt a s) = dict_put (db_attempts s) (att_id a) a"
  "db_runs (put_attempt a s) = db_runs s" "db_events (put_attempt a s) = db_events s"
  "db_checkpoints (put_attempt a s) = db_checkpoints s" "db_repo (put_attempt a s) = db_repo s"
  "db_frozen (put_attempt a s) = db_frozen s" "db_published (put_attempt a s) = db_published s"
  "events_of (put_attempt a s) = events_of s" "checkpoints_of (put_attempt a s) = checkpoints_of s"
  by (simp_all add: put_attempt_def events_of_def checkpoints_of_def fun_eq_iff)

lemma append_events_simps [store_simps]:
  "db_events (append_events rid es s) = dict_put (db_events s) rid (events_of s rid @ es)"
  "db_runs (append_events rid es s) = db_runs s" "db_attempts (append_events rid es s) = db_attempts s"
  "db_checkpoints (append_events rid es s) = db_checkpoints s"
  "db_repo (append_events rid es s) = db_repo s" "db_frozen (append_events rid es s) = db_frozen s"
  "db_published (append_events rid es s) = db_published s"
  "attempts_of (append_events rid es s) = attempts_of s"
  "checkpoints_of (append_events rid es s) = checkpoints_of s"
  "events_of (append_events rid es s) k = (if k = rid then events_of s rid @ es else events_of s k)"
  by (simp_all add: append_events_def events_of_def attempts_of_def checkpoints_of_def fun_eq_iff)

lemma set_repo_simps [store_simps]:
  "db_runs (set_repo repo s) = db_runs s" "db_attempts (set_repo repo s) = db_attempts s"
  "db_events (set_repo repo s) = db_events s" "db_checkpoints (set_repo repo s) = db_checkpoints s"
  "db_repo (set_repo repo s) = repo" "db_frozen (set_repo repo s) = db_frozen s"
  "db_published (set_repo repo s) = db_published s" "events_of (set_repo repo s) = events_of s"
  "attempts_of (set_repo repo s) = attempts_of s" "checkpoints_of (set_repo repo s) = checkpoints_of s"
  by (simp_all add: set_repo_def events_of_def attempts_of_def checkpoints_of_def fun_eq_iff)

text \<open>The parts of the invariant a write does not touch.\<close>

lemma put_attempt_parts:
  "runs_ok (put_attempt a s) = runs_ok s" "one_active_live (put_attempt a s) = one_active_live s"
  "journals_ok (put_attempt a s) = journals_ok s" "checkpoints_ok (put_attempt a s) = checkpoints_ok s"
  by (simp_all only: runs_ok_def one_active_live_def journals_ok_def checkpoints_ok_def
      run_checkpoints_ok_def store_simps)

lemma append_events_parts:
  "runs_ok (append_events rid es s) = runs_ok s"
  "one_active_live (append_events rid es s) = one_active_live s"
  "attempts_ok (append_events rid es s) = attempts_ok s"
  "one_running_attempt (append_events rid es s) = one_running_attempt s"
  "attempts_numbered (append_events rid es s) = attempts_numbered s"
  by (simp_all only: runs_ok_def one_active_live_def attempts_ok_def one_running_attempt_def
      attempts_numbered_def store_simps)

lemma put_run_parts:
  "one_running_attempt (put_run r s) = one_running_attempt s"
  "attempts_numbered (put_run r s) = attempts_numbered s"
  by (simp_all only: one_running_attempt_def attempts_numbered_def store_simps)

lemma same_core_simps [simp]:
  "same_core s s" "same_core s (set_repo repo s)" "same_core s (publish_events es s)"
  "same_core s (s\<lparr>db_frozen := f\<rparr>)" "same_core s (s\<lparr>db_locators := l\<rparr>)"
  "same_core s (s\<lparr>db_trace_contexts := t\<rparr>)"
  by (auto simp: same_core_def set_repo_def publish_events_def)

lemma same_core_of:
  assumes "same_core s s'"
  shows "events_of s' = events_of s" "attempts_of s' = attempts_of s"
    "checkpoints_of s' = checkpoints_of s"
  using assms by (auto simp: same_core_def events_of_def attempts_of_def checkpoints_of_def fun_eq_iff)

lemma wf_same_core:
  assumes "same_core s s'" shows "wf_store s' = wf_store s"
proof -
  have eqs: "db_runs s' = db_runs s" "db_attempts s' = db_attempts s" "db_events s' = db_events s"
    "db_checkpoints s' = db_checkpoints s"
    using assms by (simp_all add: same_core_def)
  show ?thesis
    unfolding wf_store_def wf_parts run_checkpoints_ok_def eqs same_core_of [OF assms] ..
qed

section \<open>Dictionary updates in place\<close>

lemma dict_put_known_map:
  assumes "distinct (dict_keys d)" and "dict_get d k = Some w"
  shows "dict_put d k v = map (\<lambda>(k', x). (k', if k' = k then v else x)) d"
  using assms
proof (induction d)
  case Nil
  then show ?case by simp
next
  case (Cons kx d)
  obtain k' x where kx: "kx = (k', x)" by (cases kx)
  show ?case
  proof (cases "k' = k")
    case True
    then have "k \<notin> fst ` set d" using Cons.prems(1) kx by simp
    then have "map (\<lambda>(k', x). (k', if k' = k then v else x)) d = d"
      by (induction d) auto
    with True kx show ?thesis by simp
  next
    case False
    with Cons kx show ?thesis by simp
  qed
qed

lemma values_map_filter:
  assumes "\<And>k x. (k, x) \<in> set d \<Longrightarrow> p (f k x) = p x \<and> g (f k x) = g x"
  shows "map g (filter p (dict_values (map (\<lambda>(k, x). (k, f k x)) d))) = map g (filter p (dict_values d))"
  using assms by (induction d) force+

lemma attempts_of_put_new:
  assumes "dict_get (db_attempts s) (att_id a) = None"
  shows "attempts_of (put_attempt a s) rid
    = attempts_of s rid @ (if att_run_id a = rid then [a] else [])"
  using assms by (simp add: attempts_of_def put_attempt_def dict_put_new)

lemma numbers_put_known:
  assumes "attempts_ok s" and "dict_get (db_attempts s) (att_id a) = Some b"
    and "att_run_id a = att_run_id b" "att_number a = att_number b"
  shows "map att_number (attempts_of (put_attempt a s) rid) = map att_number (attempts_of s rid)"
proof -
  let ?d = "db_attempts s"
  have d: "distinct (dict_keys ?d)" using assms(1) by (simp add: attempts_ok_def)
  then have u: "x = b" if "(att_id a, x) \<in> set ?d" for x
    using that assms(2) by (metis map_of_is_SomeI option.inject)
  have "map att_number (filter (\<lambda>x. att_run_id x = rid) (dict_values
      (map (\<lambda>(k', x). (k', if k' = att_id a then a else x)) ?d)))
    = map att_number (filter (\<lambda>x. att_run_id x = rid) (dict_values ?d))"
    using assms(3,4) u by (intro values_map_filter) auto
  then show ?thesis
    using dict_put_known_map [OF d assms(2), of a] by (simp add: attempts_of_def put_attempt_def)
qed

lemma settle_attempts_get:
  "dict_get (settle_attempts now rid target d) k =
     map_option (\<lambda>a. case attempt_target target of None \<Rightarrow> a | Some t \<Rightarrow> settle_attempt now rid t a) (dict_get d k)"
  by (cases "attempt_target target")
     (simp_all add: settle_attempts_def dict_get_map_values option.map_ident)

lemma settle_attempts_keys [simp]: "dict_keys (settle_attempts now rid target d) = dict_keys d"
  by (cases "attempt_target target") (auto simp: settle_attempts_def)

lemma settle_attempt_simps [simp]:
  "att_id (settle_attempt now rid t a) = att_id a"
  "att_run_id (settle_attempt now rid t a) = att_run_id a"
  "att_number (settle_attempt now rid t a) = att_number a"
  by (simp_all add: settle_attempt_def)

lemma settle_numbers:
  "map att_number (filter (\<lambda>a. att_run_id a = q) (dict_values (settle_attempts now rid target d)))
     = map att_number (filter (\<lambda>a. att_run_id a = q) (dict_values d))"
proof (cases "attempt_target target")
  case None
  then show ?thesis by (simp add: settle_attempts_def)
next
  case (Some t)
  have "map att_number (filter (\<lambda>a. att_run_id a = q) (dict_values
      (map (\<lambda>(k, a). (k, settle_attempt now rid t a)) d)))
    = map att_number (filter (\<lambda>a. att_run_id a = q) (dict_values d))"
    by (rule values_map_filter) simp
  with Some show ?thesis by (simp add: settle_attempts_def)
qed

lemma attempt_target_cases:
  "attempt_target t \<noteq> None \<longleftrightarrow> is_terminal t \<or> t = Run_INTERRUPTED"
  by (cases t) auto

lemma attempt_target_not_running: "attempt_target t = Some x \<Longrightarrow> x \<noteq> Att_RUNNING"
  by (cases t) auto

section \<open>Every effect preserves well-formedness\<close>

lemma wf_storeD:
  assumes "wf_store s"
  shows "runs_ok s" "one_active_live s" "attempts_ok s" "one_running_attempt s"
    "attempts_numbered s" "journals_ok s" "checkpoints_ok s"
  using assms by (simp_all add: wf_store_def)

lemma one_active_liveI:
  "(\<And>k r k' r'. dict_get (db_runs s) k = Some r \<Longrightarrow> dict_get (db_runs s) k' = Some r' \<Longrightarrow>
      run_investigation_id r = run_investigation_id r' \<Longrightarrow> active_live r \<Longrightarrow> active_live r' \<Longrightarrow> k = k')
   \<Longrightarrow> one_active_live s"
  unfolding one_active_live_def by blast

lemma one_running_attemptI:
  "(\<And>k a k' a'. dict_get (db_attempts s) k = Some a \<Longrightarrow> dict_get (db_attempts s) k' = Some a' \<Longrightarrow>
      att_run_id a = att_run_id a' \<Longrightarrow> att_status_of a = Att_RUNNING \<Longrightarrow> att_status_of a' = Att_RUNNING
      \<Longrightarrow> k = k') \<Longrightarrow> one_running_attempt s"
  unfolding one_running_attempt_def by blast

lemma attempts_okD:
  "attempts_ok s \<Longrightarrow> dict_get (db_attempts s) k = Some a \<Longrightarrow>
   \<exists>r. dict_get (db_runs s) (att_run_id a) = Some r
     \<and> (att_status_of a = Att_RUNNING \<longrightarrow> run_status_of r \<in> {Run_RUNNING, Run_CANCELLING})"
  unfolding attempts_ok_def by blast

lemma one_active_liveD:
  "one_active_live s \<Longrightarrow> dict_get (db_runs s) k = Some r \<Longrightarrow> dict_get (db_runs s) k' = Some r'
   \<Longrightarrow> run_investigation_id r = run_investigation_id r' \<Longrightarrow> active_live r \<Longrightarrow> active_live r' \<Longrightarrow> k = k'"
  unfolding one_active_live_def by blast

lemma one_running_attemptD:
  "one_running_attempt s \<Longrightarrow> dict_get (db_attempts s) k = Some a \<Longrightarrow> dict_get (db_attempts s) k' = Some a'
   \<Longrightarrow> att_run_id a = att_run_id a' \<Longrightarrow> att_status_of a = Att_RUNNING
   \<Longrightarrow> att_status_of a' = Att_RUNNING \<Longrightarrow> k = k'"
  unfolding one_running_attempt_def by blast

lemma run_of_key: "wf_store s \<Longrightarrow> dict_get (db_runs s) k = Some r \<Longrightarrow> run_id r = k"
  by (simp add: wf_store_def runs_ok_def)

lemma active_live_iff: "active_live r \<longleftrightarrow> run_kind_of r = Kind_LIVE \<and> \<not> is_terminal (run_status_of r)"
  by (simp add: active_live_def active_iff_not_terminal)

text \<open>Replacing a run by one with the same identity, phase and checkpoint.\<close>

definition same_run :: "runtime_run \<Rightarrow> runtime_run \<Rightarrow> bool" where
  "same_run r r' =
     (run_id r' = run_id r \<and> run_investigation_id r' = run_investigation_id r
      \<and> run_kind_of r' = run_kind_of r \<and> run_contract_version r' = run_contract_version r
      \<and> run_current_phase r' = run_current_phase r
      \<and> run_latest_checkpoint_id r' = run_latest_checkpoint_id r)"

lemma same_run_order: "same_run r r' \<Longrightarrow> run_order r' = run_order r \<and> phases_done r' = phases_done r"
  by (auto simp: same_run_def run_order_def phases_done_def split: option.splits)

lemma run_checkpoints_same:
  "same_run r r' \<Longrightarrow> run_checkpoints_ok s r' = run_checkpoints_ok s r"
  using same_run_order [of r r'] by (simp add: run_checkpoints_ok_def same_run_def Let_def)

lemma run_checkpoints_put_run: "run_checkpoints_ok (put_run q s) r = run_checkpoints_ok s r"
  by (simp add: run_checkpoints_ok_def store_simps)

lemma wf_put_run:
  assumes wf: "wf_store s" and r: "dict_get (db_runs s) (run_id r) = Some r"
    and same: "same_run r r'" and active: "active_live r' \<longrightarrow> active_live r"
    and running: "run_status_of r' \<in> {Run_RUNNING, Run_CANCELLING}
      \<or> (\<forall>k a. dict_get (db_attempts s) k = Some a \<and> att_run_id a = run_id r \<longrightarrow> att_status_of a \<noteq> Att_RUNNING)"
  shows "wf_store (put_run r' s)"
proof -
  note w = wf_storeD [OF wf]
  have id: "run_id r' = run_id r" and inv: "run_investigation_id r' = run_investigation_id r"
    using same by (auto simp: same_run_def)
  have "runs_ok (put_run r' s)" using w(1) by (auto simp: runs_ok_def store_simps)
  moreover have "one_active_live (put_run r' s)"
  proof (rule one_active_liveI)
    fix k q k' q'
    assume "dict_get (db_runs (put_run r' s)) k = Some q" "dict_get (db_runs (put_run r' s)) k' = Some q'"
      and *: "run_investigation_id q = run_investigation_id q'" "active_live q" "active_live q'"
    then have "k = run_id r \<and> q = r' \<or> dict_get (db_runs s) k = Some q"
      "k' = run_id r \<and> q' = r' \<or> dict_get (db_runs s) k' = Some q'"
      by (auto simp: store_simps id split: if_splits)
    then show "k = k'" using * r inv active one_active_liveD [OF w(2)] by metis
  qed
  moreover have "attempts_ok (put_run r' s)"
    using w(3) running id unfolding attempts_ok_def by (auto simp: store_simps)
  moreover have "one_running_attempt (put_run r' s)" "attempts_numbered (put_run r' s)"
    using w(4,5) by (simp_all only: put_run_parts)
  moreover have "journals_ok (put_run r' s)"
    using w(6) r id unfolding journals_ok_def by (auto simp: store_simps)
  moreover have "checkpoints_ok (put_run r' s)"
    using w(7) r id run_checkpoints_same [OF same] unfolding checkpoints_ok_def
    by (auto simp: store_simps run_checkpoints_put_run)
  ultimately show ?thesis by (simp add: wf_store_def)
qed

text \<open>Settling the attempts of a run.\<close>

abbreviation settled :: "instant \<Rightarrow> ident \<Rightarrow> run_status \<Rightarrow> runtime_store \<Rightarrow> runtime_store" where
  "settled now rid target s \<equiv> s\<lparr>db_attempts := settle_attempts now rid target (db_attempts s)\<rparr>"

lemma settled_simps [store_simps]:
  "db_runs (settled now rid target s) = db_runs s" "events_of (settled now rid target s) = events_of s"
  "checkpoints_of (settled now rid target s) = checkpoints_of s"
  by (simp_all add: events_of_def checkpoints_of_def fun_eq_iff)

lemma settled_parts:
  "runs_ok (settled now rid target s) = runs_ok s"
  "one_active_live (settled now rid target s) = one_active_live s"
  "journals_ok (settled now rid target s) = journals_ok s"
  "checkpoints_ok (settled now rid target s) = checkpoints_ok s"
  by (simp_all add: runs_ok_def one_active_live_def journals_ok_def checkpoints_ok_def
      run_checkpoints_ok_def store_simps)

lemma settle_attempt_running:
  "attempt_target target = Some t \<Longrightarrow>
   att_status_of (settle_attempt now rid t a) = Att_RUNNING
     \<longleftrightarrow> att_status_of a = Att_RUNNING \<and> att_run_id a \<noteq> rid"
  using attempt_target_not_running [of target t] by (auto simp: settle_attempt_def)

lemma settled_get:
  assumes "dict_get (settle_attempts now rid target d) k = Some a"
  obtains b where "dict_get d k = Some b" "att_id a = att_id b" "att_run_id a = att_run_id b"
    "att_number a = att_number b" "att_status_of a = Att_RUNNING \<Longrightarrow> att_status_of b = Att_RUNNING"
    "attempt_target target \<noteq> None \<Longrightarrow> att_run_id a = rid \<Longrightarrow> att_status_of a \<noteq> Att_RUNNING"
proof -
  obtain b where b: "dict_get d k = Some b"
    and a: "a = (case attempt_target target of None \<Rightarrow> b | Some t \<Rightarrow> settle_attempt now rid t b)"
    using assms by (auto simp: settle_attempts_get)
  show thesis
    using that [OF b] a by (cases "attempt_target target") (auto simp: settle_attempt_running)
qed

lemma attempts_numbered_settled:
  "attempts_numbered s \<Longrightarrow> attempts_numbered (settled now rid target s)"
proof -
  have len: "map att_number xs = map att_number ys \<Longrightarrow> length xs = length ys"
    for xs ys :: "runtime_attempt list"
    by (metis length_map)
  have eq: "map att_number (attempts_of (settled now rid target s) q) = map att_number (attempts_of s q)" for q
    by (simp add: attempts_of_def settle_numbers)
  show "attempts_numbered s \<Longrightarrow> attempts_numbered (settled now rid target s)"
    unfolding attempts_numbered_def using eq len [OF eq] by metis
qed

lemma wf_settled:
  assumes wf: "wf_store s" shows "wf_store (settled now rid target s)"
proof -
  note w = wf_storeD [OF wf]
  have "attempts_ok (settled now rid target s)"
    unfolding attempts_ok_def
  proof (intro conjI allI impI)
    show "distinct (dict_keys (db_attempts (settled now rid target s)))"
      using w(3) by (simp add: attempts_ok_def)
  next
    fix k a
    assume "dict_get (db_attempts (settled now rid target s)) k = Some a"
    then have *: "dict_get (settle_attempts now rid target (db_attempts s)) k = Some a" by simp
    from * show "att_id a = k" by (rule settled_get) (use w(3) in \<open>auto simp: attempts_ok_def\<close>)
    from * show "\<exists>r. dict_get (db_runs (settled now rid target s)) (att_run_id a) = Some r
        \<and> (att_status_of a = Att_RUNNING \<longrightarrow> run_status_of r \<in> {Run_RUNNING, Run_CANCELLING})"
      by (rule settled_get) (use w(3) in \<open>fastforce simp: attempts_ok_def\<close>)
  qed
  moreover have "one_running_attempt (settled now rid target s)"
  proof (rule one_running_attemptI)
    fix k a k' a'
    assume "dict_get (db_attempts (settled now rid target s)) k = Some a"
      "dict_get (db_attempts (settled now rid target s)) k' = Some a'"
      and *: "att_run_id a = att_run_id a'" "att_status_of a = Att_RUNNING" "att_status_of a' = Att_RUNNING"
    then have a: "dict_get (settle_attempts now rid target (db_attempts s)) k = Some a"
      and a': "dict_get (settle_attempts now rid target (db_attempts s)) k' = Some a'" by simp_all
    obtain b where b: "dict_get (db_attempts s) k = Some b" "att_run_id b = att_run_id a"
      "att_status_of b = Att_RUNNING" using settled_get [OF a] *(2) by metis
    obtain b' where "dict_get (db_attempts s) k' = Some b'" "att_run_id b' = att_run_id a'"
      "att_status_of b' = Att_RUNNING" using settled_get [OF a'] *(3) by metis
    with b *(1) show "k = k'" using one_running_attemptD [OF w(4)] by metis
  qed
  moreover have "runs_ok (settled now rid target s)" "one_active_live (settled now rid target s)"
    "journals_ok (settled now rid target s)" "checkpoints_ok (settled now rid target s)"
    using w(1,2,6,7)
    by (simp_all only: settled_parts)
  ultimately show ?thesis
    using attempts_numbered_settled [OF w(5)] by (simp add: wf_store_def)
qed

lemma run_update_same: "run_update r r' \<Longrightarrow> same_run r r'"
  by (simp add: run_update_def same_run_def)

lemma transitioned_simps [simp]:
  "run_id (transitioned now t r) = run_id r" "run_status_of (transitioned now t r) = t"
  "run_kind_of (transitioned now t r) = run_kind_of r"
  "run_investigation_id (transitioned now t r) = run_investigation_id r"
  "run_contract_version (transitioned now t r) = run_contract_version r"
  "run_current_phase (transitioned now t r) = run_current_phase r"
  "run_latest_checkpoint_id (transitioned now t r) = run_latest_checkpoint_id r"
  "run_remaining_model_turns (transitioned now t r) = run_remaining_model_turns r"
  "run_lease_version (transitioned now t r) = run_lease_version r"
  by (simp_all add: transitioned_def Let_def)

lemma same_run_transitioned: "same_run r r' \<Longrightarrow> same_run r (transitioned now t r')"
  by (simp add: same_run_def)

lemma wf_transition_write:
  assumes wf: "wf_store s" and r: "dict_get (db_runs s) (run_id r) = Some r"
    and u: "run_update r r'" and t: "target \<in> set (allowed_transitions (run_status_of r))"
  shows "wf_store (transition_write now r' target s)"
proof -
  have id: "run_id r' = run_id r" and kind: "run_kind_of r' = run_kind_of r"
    using u by (auto simp: run_update_def)
  have active: "active_live (transitioned now target r') \<longrightarrow> active_live r"
    using t kind by (cases "run_status_of r") (auto simp: active_live_iff)
  have eq: "transition_write now r' target s
      = put_run (transitioned now target r') (settled now (run_id r) target s)"
    by (simp add: transition_write_def put_run_def id)
  show ?thesis
    unfolding eq
  proof (rule wf_put_run)
    show "wf_store (settled now (run_id r) target s)" by (rule wf_settled [OF wf])
    show "dict_get (db_runs (settled now (run_id r) target s)) (run_id r) = Some r"
      using r by simp
    show "same_run r (transitioned now target r')"
      by (rule same_run_transitioned [OF run_update_same [OF u]])
    show "active_live (transitioned now target r') \<longrightarrow> active_live r" by (rule active)
    show "run_status_of (transitioned now target r') \<in> {Run_RUNNING, Run_CANCELLING}
      \<or> (\<forall>k a. dict_get (db_attempts (settled now (run_id r) target s)) k = Some a
            \<and> att_run_id a = run_id r \<longrightarrow> att_status_of a \<noteq> Att_RUNNING)"
    proof (cases "attempt_target target")
      case None
      with t show ?thesis by (cases "run_status_of r"; cases target) auto
    next
      case (Some x)
      then show ?thesis by (auto elim!: settled_get)
    qed
  qed
qed

text \<open>A new run, a new attempt, new events, a new checkpoint.\<close>

lemma wf_create:
  assumes wf: "wf_store s" and new: "dict_get (db_runs s) (run_id r) = None" and fresh: "fresh_run r"
    and active: "active_live r \<longrightarrow> (\<forall>q \<in> set (dict_values (db_runs s)).
        \<not> (run_investigation_id q = run_investigation_id r \<and> active_live q))"
  shows "wf_store ((put_run r s)\<lparr>db_events := dict_put (db_events s) (run_id r) []\<rparr>)" (is "wf_store ?s")
proof -
  note w = wf_storeD [OF wf]
  have noatt: "att_run_id a \<noteq> run_id r" if "dict_get (db_attempts s) k = Some a" for k a
    using w(3) new that unfolding attempts_ok_def by fastforce
  have nock: "ck_run_id c \<noteq> run_id r" if "dict_get (db_checkpoints s) k = Some c" for k c
    using w(7) new that unfolding checkpoints_ok_def by fastforce
  have nocks: "checkpoints_of ?s (run_id r) = []"
    using w(7) nock unfolding checkpoints_of_def checkpoints_ok_def
    by (auto simp: filter_empty_conv store_simps)
  have vals: "q \<in> set (dict_values (db_runs s))" if "dict_get (db_runs s) k = Some q" for k q
    using that by (force dest: map_of_SomeD)
  have clash: "\<not> active_live q"
    if "dict_get (db_runs s) k = Some q" "active_live r" "run_investigation_id q = run_investigation_id r" for k q
    using active vals that by auto
  have cks: "checkpoints_of ?s = checkpoints_of s" and evs: "events_of ?s k = (if k = run_id r then [] else events_of s k)" for k
    by (auto simp: checkpoints_of_def events_of_def store_simps fun_eq_iff)
  have "runs_ok ?s" using w(1) by (auto simp: runs_ok_def store_simps)
  moreover have "one_active_live ?s"
  proof (rule one_active_liveI)
    fix k q k' q'
    assume "dict_get (db_runs ?s) k = Some q" "dict_get (db_runs ?s) k' = Some q'"
      and *: "run_investigation_id q = run_investigation_id q'" "active_live q" "active_live q'"
    then have "k = run_id r \<and> q = r \<or> dict_get (db_runs s) k = Some q"
      "k' = run_id r \<and> q' = r \<or> dict_get (db_runs s) k' = Some q'"
      by (auto simp: store_simps split: if_splits)
    then show "k = k'" using * clash one_active_liveD [OF w(2)] by metis
  qed
  moreover have "attempts_ok ?s"
    using w(3) noatt unfolding attempts_ok_def by (fastforce simp: store_simps)
  moreover have "one_running_attempt ?s"
    by (rule one_running_attemptI) (use one_running_attemptD [OF w(4)] in \<open>simp add: store_simps\<close>)
  moreover have "attempts_numbered ?s"
  proof -
    have eq: "attempts_of ?s = attempts_of s" by (simp add: attempts_of_def store_simps fun_eq_iff)
    show ?thesis using w(5) unfolding attempts_numbered_def eq .
  qed
  moreover have "journals_ok ?s"
    using w(6) by (auto simp: journals_ok_def store_simps numbered_from_def)
  moreover have "checkpoints_ok ?s"
    unfolding checkpoints_ok_def
  proof (intro conjI allI impI)
    show "distinct (dict_keys (db_checkpoints ?s))" using w(7) by (simp add: checkpoints_ok_def store_simps)
  next
    fix k c assume "dict_get (db_checkpoints ?s) k = Some c"
    then show "ck_id c = k" "dict_get (db_runs ?s) (ck_run_id c) \<noteq> None"
      using w(7) by (auto simp: checkpoints_ok_def store_simps)
  next
    fix k q assume q: "dict_get (db_runs ?s) k = Some q"
    show "run_checkpoints_ok ?s q"
    proof (cases "k = run_id r")
      case True
      with q have "q = r" by (simp add: store_simps)
      then show ?thesis using nocks fresh
        by (simp add: run_checkpoints_ok_def fresh_run_def phases_done_def)
    next
      case False
      with q have q': "dict_get (db_runs s) k = Some q" by (simp add: store_simps)
      then have "run_id q \<noteq> run_id r" using w(1) False by (auto simp: runs_ok_def)
      then show ?thesis using w(7) q' by (simp add: checkpoints_ok_def run_checkpoints_ok_def cks evs)
    qed
  qed
  ultimately show ?thesis by (simp add: wf_store_def)
qed

lemma numbers_next:
  assumes "attempts_numbered s"
  shows "max_number (attempts_of s rid) + 1 = int (Suc (length (attempts_of s rid)))"
proof -
  let ?as = "attempts_of s rid"
  have eq: "map att_number ?as = map int [1 ..< Suc (length ?as)]"
    using assms by (simp add: attempts_numbered_def)
  show ?thesis
  proof (cases "?as = []")
    case True
    then show ?thesis by (simp add: max_number_def)
  next
    case False
    have "Max (int ` {1..<Suc (length ?as)}) = int (length ?as)"
      using False by (intro Max_eqI) (auto simp: Suc_le_eq)
    moreover have "set (map att_number ?as) = int ` {1..<Suc (length ?as)}"
      by (simp only: eq set_map set_upt)
    ultimately have "Max (set (map att_number ?as)) = int (length ?as)" by (simp only:)
    then show ?thesis using False by (simp add: max_number_def)
  qed
qed

lemma wf_new_attempt:
  assumes wf: "wf_store s" and new: "dict_get (db_attempts s) (att_id a) = None"
    and r: "dict_get (db_runs s) (att_run_id a) = Some r" and run: "run_status_of r = Run_RUNNING"
    and num: "att_number a = max_number (attempts_of s (att_run_id a)) + 1"
    and none: "\<forall>b \<in> set (attempts_of s (att_run_id a)). att_status_of b \<noteq> Att_RUNNING"
  shows "wf_store (put_attempt a s)"
proof -
  note w = wf_storeD [OF wf]
  have inof: "b \<in> set (attempts_of s (att_run_id b))" if "dict_get (db_attempts s) k = Some b" for k b
    using that by (force simp: attempts_of_def dest: map_of_SomeD)
  have "attempts_ok (put_attempt a s)"
    using w(3) r run unfolding attempts_ok_def by (auto simp: store_simps)
  moreover have "one_running_attempt (put_attempt a s)"
  proof (rule one_running_attemptI)
    fix k b k' b'
    assume "dict_get (db_attempts (put_attempt a s)) k = Some b"
      "dict_get (db_attempts (put_attempt a s)) k' = Some b'"
      and *: "att_run_id b = att_run_id b'" "att_status_of b = Att_RUNNING" "att_status_of b' = Att_RUNNING"
    then have "k = att_id a \<and> b = a \<or> dict_get (db_attempts s) k = Some b"
      "k' = att_id a \<and> b' = a \<or> dict_get (db_attempts s) k' = Some b'"
      by (auto simp: store_simps split: if_splits)
    then show "k = k'" using * none inof one_running_attemptD [OF w(4)] by metis
  qed
  moreover have "attempts_numbered (put_attempt a s)"
    using w(5) num numbers_next [OF w(5)] unfolding attempts_numbered_def
    by (auto simp: attempts_of_put_new [where s = s, OF new])
  moreover have "runs_ok (put_attempt a s)" "one_active_live (put_attempt a s)"
    "journals_ok (put_attempt a s)" "checkpoints_ok (put_attempt a s)"
    using w(1,2,6,7) by (simp_all only: put_attempt_parts)
  ultimately show ?thesis by (simp add: wf_store_def)
qed

lemma wf_attempt_update:
  assumes wf: "wf_store s" and a: "dict_get (db_attempts s) (att_id a) = Some a"
    and u: "attempt_update a a'"
  shows "wf_store (put_attempt a' s)"
proof -
  note w = wf_storeD [OF wf]
  have eqs: "att_id a' = att_id a" "att_run_id a' = att_run_id a" "att_number a' = att_number a"
    and run: "att_status_of a' = Att_RUNNING \<Longrightarrow> att_status_of a = Att_RUNNING"
    using u by (auto simp: attempt_update_def)
  have nums: "map att_number (attempts_of (put_attempt a' s) rid) = map att_number (attempts_of s rid)" for rid
    by (rule numbers_put_known [OF w(3), of _ a]) (simp_all add: eqs a)
  have "attempts_ok (put_attempt a' s)"
    unfolding attempts_ok_def
  proof (intro conjI allI impI)
    show "distinct (dict_keys (db_attempts (put_attempt a' s)))"
      using w(3) by (simp add: attempts_ok_def store_simps)
  next
    fix k b assume "dict_get (db_attempts (put_attempt a' s)) k = Some b"
    then have b: "k = att_id a \<and> b = a' \<or> dict_get (db_attempts s) k = Some b"
      by (auto simp: store_simps eqs split: if_splits)
    then show "att_id b = k" using w(3) eqs unfolding attempts_ok_def by metis
    obtain c where "dict_get (db_attempts s) k = Some c" "att_run_id c = att_run_id b"
      "att_status_of b = Att_RUNNING \<longrightarrow> att_status_of c = Att_RUNNING"
      using b a eqs run by metis
    then show "\<exists>r. dict_get (db_runs (put_attempt a' s)) (att_run_id b) = Some r
        \<and> (att_status_of b = Att_RUNNING \<longrightarrow> run_status_of r \<in> {Run_RUNNING, Run_CANCELLING})"
      unfolding store_simps using attempts_okD [OF w(3)] by metis
  qed
  moreover have "one_running_attempt (put_attempt a' s)"
  proof (rule one_running_attemptI)
    fix k b k' b'
    assume "dict_get (db_attempts (put_attempt a' s)) k = Some b"
      "dict_get (db_attempts (put_attempt a' s)) k' = Some b'"
      and *: "att_run_id b = att_run_id b'" "att_status_of b = Att_RUNNING" "att_status_of b' = Att_RUNNING"
    then have "k = att_id a \<and> b = a' \<or> dict_get (db_attempts s) k = Some b"
      "k' = att_id a \<and> b' = a' \<or> dict_get (db_attempts s) k' = Some b'"
      by (auto simp: store_simps eqs split: if_splits)
    then show "k = k'"
      using * eqs run a one_running_attemptD [OF w(4)] by metis
  qed
  moreover have "attempts_numbered (put_attempt a' s)"
    using w(5) nums unfolding attempts_numbered_def by (metis length_map)
  moreover have "runs_ok (put_attempt a' s)" "one_active_live (put_attempt a' s)"
    "journals_ok (put_attempt a' s)" "checkpoints_ok (put_attempt a' s)"
    using w(1,2,6,7) by (simp_all only: put_attempt_parts)
  ultimately show ?thesis by (simp add: wf_store_def)
qed

lemma numbered_append:
  "numbered_from n es \<Longrightarrow> numbered_from (n + length es) fs \<Longrightarrow> numbered_from n (es @ fs)"
proof -
  assume "numbered_from n es" "numbered_from (n + length es) fs"
  moreover have "[Suc n ..< Suc (n + length (es @ fs))]
      = [Suc n ..< Suc (n + length es)] @ [Suc (n + length es) ..< Suc (n + length es + length fs)]"
    using upt_add_eq_append [of "Suc n" "Suc (n + length es)" "length fs"]
    by (simp add: add.assoc del: upt_Suc)
  ultimately show ?thesis by (simp add: numbered_from_def del: upt_Suc)
qed

lemma journal_of:
  assumes "journals_ok s" shows "numbered_from 0 (events_of s k) \<and> (\<forall>e \<in> set (events_of s k). ev_run_id e = k)"
proof (cases "dict_get (db_events s) k")
  case None
  then show ?thesis by (simp add: events_of_def numbered_from_def)
next
  case (Some es)
  then show ?thesis using assms by (simp add: journals_ok_def events_of_def)
qed

lemma journals_append:
  assumes "journals_ok s" and "dict_get (db_runs s) rid \<noteq> None"
    and "numbered_from (length (events_of s rid)) es" and "\<forall>e \<in> set es. ev_run_id e = rid"
  shows "journals_ok (append_events rid es s)"
  using assms journal_of [OF assms(1), of rid] numbered_append [of 0 "events_of s rid" es]
  unfolding journals_ok_def by (auto simp: store_simps)

lemma run_checkpoints_grow:
  assumes "run_checkpoints_ok s r" and "checkpoints_of s' (run_id r) = checkpoints_of s (run_id r)"
    and "length (events_of s (run_id r)) \<le> length (events_of s' (run_id r))"
  shows "run_checkpoints_ok s' r"
  using assms by (fastforce simp: run_checkpoints_ok_def Let_def)

lemma wf_append_events:
  assumes wf: "wf_store s" and r: "dict_get (db_runs s) rid = Some r"
    and es: "numbered_from (length (events_of s rid)) es" "\<forall>e \<in> set es. ev_run_id e = rid"
  shows "wf_store (append_events rid es s)"
proof -
  note w = wf_storeD [OF wf]
  have "checkpoints_ok (append_events rid es s)"
    unfolding checkpoints_ok_def store_simps
  proof (intro conjI allI impI)
    fix k q assume "dict_get (db_runs s) k = Some q"
    then have "run_checkpoints_ok s q" using w(7) by (simp add: checkpoints_ok_def)
    then show "run_checkpoints_ok (append_events rid es s) q"
      by (rule run_checkpoints_grow) (simp_all add: store_simps)
  qed (use w(7) in \<open>auto simp: checkpoints_ok_def\<close>)
  moreover have "journals_ok (append_events rid es s)"
    using journals_append [OF w(6) _ es] r by simp
  ultimately show ?thesis using w(1-5) by (simp only: wf_store_def append_events_parts)
qed

lemma index_of_nth:
  "distinct xs \<Longrightarrow> i < length xs \<Longrightarrow> index_of xs (xs ! i) = Some i"
proof (induction xs arbitrary: i)
  case Nil
  then show ?case by simp
next
  case (Cons x xs)
  then show ?case by (cases i) (auto simp: nth_mem)
qed

lemma run_order_distinct: "distinct (run_order r)"
  by (simp add: run_order_def phase_order_for_def phase_profile_for_def Let_def
      v10_phase_order_def v11_phase_order_def)

lemma phases_done_next:
  assumes "next_phase r p"
  shows "phases_done (r\<lparr>run_current_phase := Some p, run_latest_checkpoint_id := c\<rparr>) = Suc (phases_done r)"
proof -
  have "run_order (r\<lparr>run_current_phase := Some p, run_latest_checkpoint_id := c\<rparr>) = run_order r"
    by (simp add: run_order_def)
  moreover have "index_of (run_order r) p = Some (phases_done r)"
    using assms index_of_nth [OF run_order_distinct, of "phases_done r" r] by (simp add: next_phase_def)
  ultimately show ?thesis by (simp add: phases_done_def)
qed

lemma checkpoints_of_put_new:
  assumes "dict_get (db_checkpoints s) (ck_id k) = None"
    and "db_checkpoints s' = dict_put (db_checkpoints s) (ck_id k) k"
  shows "checkpoints_of s' rid = checkpoints_of s rid @ (if ck_run_id k = rid then [k] else [])"
  using assms by (simp add: checkpoints_of_def dict_put_new)

lemma phase_write_simps [store_simps]:
  "db_runs (phase_write r p es k s) = dict_put (db_runs s) (run_id r)
     (r\<lparr>run_current_phase := Some p, run_latest_checkpoint_id := Some (ck_id k)\<rparr>)"
  "db_attempts (phase_write r p es k s) = db_attempts s"
  "db_events (phase_write r p es k s) = dict_put (db_events s) (run_id r) (events_of s (run_id r) @ es)"
  "db_checkpoints (phase_write r p es k s) = dict_put (db_checkpoints s) (ck_id k) k"
  "attempts_of (phase_write r p es k s) = attempts_of s"
  "events_of (phase_write r p es k s) q
     = (if q = run_id r then events_of s (run_id r) @ es else events_of s q)"
  by (simp_all add: phase_write_def put_run_def append_events_def events_of_def attempts_of_def fun_eq_iff)

lemma run_checkpoints_new_phase:
  assumes ok: "run_checkpoints_ok s r" and next_p: "next_phase r p"
    and cks: "checkpoints_of s' (run_id r) = checkpoints_of s (run_id r) @ [k]"
    and evs: "events_of s' (run_id r) = events_of s (run_id r) @ es" and "es \<noteq> []"
    and k: "ck_completed_phase k = p" "ck_event_sequence k = int (length (events_of s (run_id r)) + length es)"
  shows "run_checkpoints_ok s' (r\<lparr>run_current_phase := Some p, run_latest_checkpoint_id := Some (ck_id k)\<rparr>)"
    (is "run_checkpoints_ok s' ?r")
proof -
  have order: "run_order ?r = run_order r" by (simp add: run_order_def)
  have lt: "phases_done r < length (run_order r)" and nth: "run_order r ! phases_done r = p"
    using next_p by (auto simp: next_phase_def)
  have bound: "ck_event_sequence c \<le> int (length (events_of s (run_id r)))" "1 \<le> ck_event_sequence c"
    if "c \<in> set (checkpoints_of s (run_id r))" for c
    using ok that by (auto simp: run_checkpoints_ok_def Let_def)
  have pos: "0 < length es" using \<open>es \<noteq> []\<close> by simp
  have sorted: "sorted_wrt (<) (map ck_event_sequence (checkpoints_of s (run_id r)))"
    using ok by (simp add: run_checkpoints_ok_def Let_def)
  have before: "ck_event_sequence c < ck_event_sequence k"
    if "c \<in> set (checkpoints_of s (run_id r))" for c
    using bound(1) [OF that] pos k(2) by linarith
  have within: "1 \<le> ck_event_sequence c \<and> ck_event_sequence c
        \<le> int (length (events_of s (run_id r) @ es))"
    if "c \<in> set (checkpoints_of s (run_id r) @ [k])" for c
  proof (cases "c = k")
    case True
    have "1 \<le> int (length es)" using pos by linarith
    then show ?thesis unfolding True k(2) length_append of_nat_add by linarith
  next
    case False
    with that bound [of c] pos show ?thesis by simp
  qed
  have "sorted_wrt (<) (map ck_event_sequence (checkpoints_of s (run_id r) @ [k]))"
    using sorted before by (simp add: sorted_wrt_append)
  moreover have "map ck_completed_phase (checkpoints_of s (run_id r) @ [k])
      = take (Suc (phases_done r)) (run_order r)"
    using ok lt nth k(1) by (simp add: run_checkpoints_ok_def Let_def take_Suc_conv_app_nth)
  ultimately show ?thesis
    using within phases_done_next [OF next_p, of "Some (ck_id k)"]
    by (simp add: run_checkpoints_ok_def Let_def cks evs order)
qed

lemma wf_phase_write:
  assumes wf: "wf_store s" and r: "dict_get (db_runs s) (run_id r) = Some r"
    and live: "run_status_of r \<in> {Run_RUNNING, Run_CANCELLING}"
    and es: "numbered_from (length (events_of s (run_id r))) es" "\<forall>e \<in> set es. ev_run_id e = run_id r"
      "es \<noteq> []"
    and k: "dict_get (db_checkpoints s) (ck_id k) = None" "ck_run_id k = run_id r"
      "ck_completed_phase k = p"
      "ck_event_sequence k = int (length (events_of s (run_id r)) + length es)"
    and next_p: "next_phase r p"
  shows "wf_store (phase_write r p es k s)" (is "wf_store ?s")
proof -
  let ?r = "r\<lparr>run_current_phase := Some p, run_latest_checkpoint_id := Some (ck_id k)\<rparr>"
  note w = wf_storeD [OF wf]
  have cks: "checkpoints_of ?s q = checkpoints_of s q @ (if run_id r = q then [k] else [])" for q
    using checkpoints_of_put_new [OF k(1), of ?s q] k(2) by (simp add: store_simps)
  have get: "q = ?r \<and> j = run_id r \<or> j \<noteq> run_id r \<and> dict_get (db_runs s) j = Some q"
    if "dict_get (db_runs ?s) j = Some q" for j q
    using that by (simp add: store_simps split: if_splits)
  have same: "\<exists>q0. dict_get (db_runs s) j = Some q0 \<and> run_id q = run_id q0 \<and> active_live q = active_live q0
      \<and> run_investigation_id q = run_investigation_id q0 \<and> run_status_of q = run_status_of q0"
    if "dict_get (db_runs ?s) j = Some q" for j q
    using get [OF that] r by (auto simp: active_live_def)
  have "runs_ok ?s" using w(1) by (auto simp: runs_ok_def store_simps)
  moreover have "one_active_live ?s"
    unfolding one_active_live_def using same one_active_liveD [OF w(2)] by metis
  moreover have "attempts_ok ?s"
    unfolding attempts_ok_def
  proof (intro conjI allI impI)
    fix j a assume "dict_get (db_attempts ?s) j = Some a"
    then have a: "dict_get (db_attempts s) j = Some a" by (simp add: store_simps)
    then show "att_id a = j" using w(3) unfolding attempts_ok_def by metis
    show "\<exists>q. dict_get (db_runs ?s) (att_run_id a) = Some q
        \<and> (att_status_of a = Att_RUNNING \<longrightarrow> run_status_of q \<in> {Run_RUNNING, Run_CANCELLING})"
      using attempts_okD [OF w(3) a] live by (auto simp: store_simps)
  qed (use w(3) in \<open>simp add: attempts_ok_def store_simps\<close>)
  moreover have "one_running_attempt ?s"
    using w(4) unfolding one_running_attempt_def store_simps .
  moreover have "attempts_numbered ?s"
    using w(5) unfolding attempts_numbered_def store_simps .
  moreover have "journals_ok ?s"
  proof -
    have "journals_ok (append_events (run_id r) es s)"
      using journals_append [OF w(6) _ es(1,2)] r by simp
    then show ?thesis using r by (auto simp: journals_ok_def store_simps)
  qed
  moreover have "checkpoints_ok ?s"
    unfolding checkpoints_ok_def
  proof (intro conjI allI impI)
    show "distinct (dict_keys (db_checkpoints ?s))"
      using w(7) by (simp add: checkpoints_ok_def store_simps)
  next
    fix j c assume "dict_get (db_checkpoints ?s) j = Some c"
    then have "j = ck_id k \<and> c = k \<or> dict_get (db_checkpoints s) j = Some c"
      by (auto simp: store_simps split: if_splits)
    then show "ck_id c = j" "dict_get (db_runs ?s) (ck_run_id c) \<noteq> None"
      using w(7) k(2) unfolding checkpoints_ok_def by (auto simp: store_simps)
  next
    fix j q assume "dict_get (db_runs ?s) j = Some q"
    then consider "q = ?r" | "j \<noteq> run_id r" "dict_get (db_runs s) j = Some q" using get by blast
    then show "run_checkpoints_ok ?s q"
    proof cases
      case 1
      have "run_checkpoints_ok s r" using w(7) r unfolding checkpoints_ok_def by metis
      then show ?thesis unfolding 1
        by (rule run_checkpoints_new_phase [OF _ next_p, where es = es])
           (simp_all add: cks store_simps es(3) k(3,4))
    next
      case 2
      have "run_checkpoints_ok s q" using w(7) 2(2) unfolding checkpoints_ok_def by metis
      then show ?thesis
        by (rule run_checkpoints_grow) (use run_of_key [OF wf 2(2)] 2(1) in \<open>simp_all add: cks store_simps\<close>)
    qed
  qed
  ultimately show ?thesis by (simp add: wf_store_def)
qed

lemma wf_lease:
  assumes "wf_store s" and "dict_get (db_runs s) (run_id r) = Some r"
    and "run_status_of r \<in> {Run_CREATED, Run_INTERRUPTED}"
  shows "wf_store (put_run (leased_run env s owner r) s)"
  using assms by (intro wf_put_run) (auto simp: leased_run_def same_run_def active_live_iff)

lemma wf_run_update:
  assumes "wf_store s" and "dict_get (db_runs s) (run_id r) = Some r" and "run_update r r'"
  shows "wf_store (put_run r' s)"
proof (rule wf_put_run [OF assms(1,2)])
  show "same_run r r'" by (rule run_update_same [OF assms(3)])
  show "active_live r' \<longrightarrow> active_live r" using assms(3) by (simp add: run_update_def active_live_def)
  show "run_status_of r' \<in> {Run_RUNNING, Run_CANCELLING}
      \<or> (\<forall>k a. dict_get (db_attempts s) k = Some a \<and> att_run_id a = run_id r \<longrightarrow> att_status_of a \<noteq> Att_RUNNING)"
  proof -
    have "run_status_of r \<in> {Run_RUNNING, Run_CANCELLING}"
      if "dict_get (db_attempts s) k = Some a" "att_run_id a = run_id r" "att_status_of a = Att_RUNNING" for k a
      using attempts_okD [OF wf_storeD(3) [OF assms(1)] that(1)] that(2,3) assms(2) by simp
    moreover have "run_status_of r' = run_status_of r" using assms(3) by (simp add: run_update_def)
    ultimately show ?thesis by metis
  qed
qed

text \<open>The abstract store stays well-formed.\<close>

lemma effect_wf: "effect s s' \<Longrightarrow> wf_store s \<Longrightarrow> wf_store s'"
proof (induction rule: effect.induct)
  case (effect_frame s s')
  then show ?case by (simp add: wf_same_core)
next
  case (effect_create s r)
  then show ?case by (intro wf_create)
next
  case (effect_update s r r')
  then show ?case by (intro wf_run_update)
next
  case (effect_transition s r r' target now)
  then show ?case by (intro wf_transition_write)
next
  case (effect_lease s r env owner)
  then show ?case by (intro wf_lease)
next
  case (effect_attempt s a r)
  then show ?case by (intro wf_new_attempt)
next
  case (effect_attempt_update s a a')
  then show ?case by (intro wf_attempt_update)
next
  case (effect_events s rid r es)
  then show ?case by (intro wf_append_events)
next
  case (effect_phase s r es k p)
  then show ?case by (intro wf_phase_write)
qed

lemma effects_wf: "effect\<^sup>*\<^sup>* s s' \<Longrightarrow> wf_store s \<Longrightarrow> wf_store s'"
  by (induction rule: rtranclp_induct) (auto intro: effect_wf)

end
