(* ===== verification/Store_Refinement.thy ===== *)
theory Store_Refinement
  imports Store_Effects
begin

text \<open>
  The refinement: every operation of the runtime store, on every branch, is a sequence of
  the primitive effects of \<open>Store_Effects\<close>.  Whatever holds of the effects therefore holds
  of the code's operations, the failing ones included.
\<close>

abbreviation effects :: "runtime_store \<Rightarrow> runtime_store \<Rightarrow> bool" where
  "effects \<equiv> effect\<^sup>*\<^sup>*"

lemma effects_refl [simp]: "effects s s"
  by simp

lemma effects_frame: "same_core s s' \<Longrightarrow> effects s s'"
  by (intro r_into_rtranclp effect_frame)

lemma effects_then: "effects s s' \<Longrightarrow> effect s' s'' \<Longrightarrow> effects s s''"
  by (rule rtranclp.rtrancl_into_rtrancl)

lemma effects_then_frame: "effects s s' \<Longrightarrow> same_core s' s'' \<Longrightarrow> effects s s''"
  by (rule effects_then [OF _ effect_frame])

lemma effects_on_repo: "on_repo f s = (s', res) \<Longrightarrow> same_core s s'"
  by (auto simp: on_repo_def split: prod.splits)

section \<open>Inversion of the store's lookups\<close>

lemma require_run_Inr [result_simps]: "require_run s rid = Inr r \<longleftrightarrow> dict_get (db_runs s) rid = Some r"
  by (auto simp: require_run_def split: option.splits)

lemma require_attempt_Inr [result_simps]:
  "require_attempt s aid = Inr a \<longleftrightarrow> dict_get (db_attempts s) aid = Some a"
  by (auto simp: require_attempt_def split: option.splits)

lemma run_known: "wf_store s \<Longrightarrow> dict_get (db_runs s) rid = Some r \<Longrightarrow>
    run_id r = rid \<and> dict_get (db_runs s) (run_id r) = Some r"
  using run_of_key by metis

lemma attempt_known: "wf_store s \<Longrightarrow> dict_get (db_attempts s) aid = Some a \<Longrightarrow>
    att_id a = aid \<and> dict_get (db_attempts s) (att_id a) = Some a"
  by (simp add: wf_store_def attempts_ok_def)

lemma validate_fence_Inr [result_simps]:
  "validate_fence now r (Some w) (Some v) = Inr u \<longleftrightarrow> lease_holds now r w v"
  by (simp add: validate_fence_def)

lemma hook_Inr [result_simps]: "hook h p = Inr u \<longleftrightarrow> h p = None"
  by (simp add: hook_def split: option.splits)

lemma as_integrity_Inr [result_simps]: "as_integrity x = Inr a \<longleftrightarrow> x = Inr a"
  by (auto simp: as_integrity_def split: sum.splits py_error.splits)

lemma as_conflict_Inr [result_simps]: "as_conflict x = Inr a \<longleftrightarrow> x = Inr a"
  by (auto simp: as_conflict_def split: sum.splits py_error.splits)

section \<open>Validated events\<close>

lemma validate_runtime_event_keeps:
  "validate_runtime_event e = Inr e' \<Longrightarrow> \<exists>p. e' = e\<lparr>ev_safe_payload := p\<rparr>"
  by (auto simp: validate_runtime_event_def result_simps)

lemma validate_event_twice_keeps:
  assumes "validate_event_twice e = Inr e'" shows "\<exists>p. e' = e\<lparr>ev_safe_payload := p\<rparr>"
proof -
  obtain d where "validate_runtime_event e = Inr d" "validate_runtime_event d = Inr e'"
    using assms by (auto simp: validate_event_twice_def result_simps)
  from validate_runtime_event_keeps [OF this(1)] validate_runtime_event_keeps [OF this(2)]
  show ?thesis by auto
qed

lemma numbered_one: "numbered_from n [e] \<longleftrightarrow> ev_sequence e = int n + 1"
  by (auto simp: numbered_from_def)

lemma numbered_two: "numbered_from n [e, f] \<longleftrightarrow> ev_sequence e = int n + 1 \<and> ev_sequence f = int n + 2"
  by (auto simp: numbered_from_def upt_rec)

lemma draft_event_simps [simp]:
  "ev_sequence (draft_event env rid aid n t ph ac p) = n"
  "ev_run_id (draft_event env rid aid n t ph ac p) = rid"
  by (simp_all add: draft_event_def)

lemma terminal_events_numbered:
  "terminal_events env rid aid (int n) ts = Inr es \<Longrightarrow>
   numbered_from n es \<and> (\<forall>e \<in> set es. ev_run_id e = rid)"
proof (induction ts arbitrary: n es)
  case Nil
  then show ?case by (simp add: numbered_from_def)
next
  case (Cons t ts)
  obtain e es' where e: "validate_event_twice (draft_event env rid aid (int n + 1) (te_event_type t)
        (te_phase t) (te_actor_type t) (case te_safe_payload t of None \<Rightarrow> [] | Some p \<Rightarrow> p)) = Inr e"
    and es': "terminal_events env rid aid (int (Suc n)) ts = Inr es'" and es: "es = e # es'"
    using Cons.prems by (auto simp: result_simps algebra_simps)
  have "ev_sequence e = int n + 1" "ev_run_id e = rid"
    using validate_event_twice_keeps [OF e] by auto
  with Cons.IH [OF es'] show ?case
    using numbered_append [of n "[e]" es'] by (simp add: es numbered_one)
qed

section \<open>Transitions\<close>

lemma run_update_refl [simp]: "run_update r r"
  by (simp add: run_update_def turns_le_def split: option.splits)

lemma turns_le_refl [simp]: "turns_le x x"
  by (simp add: turns_le_def split: option.splits)

lemma apply_transition_effect:
  assumes "dict_get (db_runs s) (run_id r) = Some r" and "run_update r r'"
    and "target \<in> set (allowed_transitions (run_status_of r))"
    and "apply_transition env r' target s = (s', res)"
  shows "effect s s' \<and> res = Inr (transitioned (en_now env) target r')"
proof -
  have st: "run_status_of r' = run_status_of r" using assms(2) by (simp add: run_update_def)
  have "s' = transition_write (en_now env) r' target s" "res = Inr (transitioned (en_now env) target r')"
    using assms(3,4)
    by (auto simp: apply_transition_def transition_write_def Let_def ensure_run_transition_def st)
  then show ?thesis using effect_transition [OF assms(1-3)] by simp
qed

lemma apply_transition_Inr:
  "apply_transition env r target s = (s', Inr r') \<Longrightarrow>
   r' = transitioned (en_now env) target r \<and> db_runs s' = dict_put (db_runs s) (run_id r) r'
     \<and> db_events s' = db_events s \<and> db_repo s' = db_repo s \<and> db_published s' = db_published s"
  by (auto simp: apply_transition_def Let_def store_simps split: sum.splits)

section \<open>Runs, attempts, leases\<close>

lemma create_run_effects:
  assumes "wf_store s" and "fresh_run r" and "create_run env r s = (s', res)"
  shows "effects s s'"
proof (cases "create_run_checks s r")
  case (Inl e)
  with assms(3) show ?thesis by (simp add: create_run_def)
next
  case (Inr u)
  let ?s1 = "(put_run r s)\<lparr>db_events := dict_put (db_events s) (run_id r) []\<rparr>"
  have "dict_get (db_runs s) (run_id r) = None"
    and "active_live r \<longrightarrow> (\<forall>q \<in> set (dict_values (db_runs s)).
        \<not> (run_investigation_id q = run_investigation_id r \<and> active_live q))"
    using Inr by (auto simp: create_run_checks_def result_simps list_ex_iff)
  then have "effect s ?s1" using assms(2) by (intro effect_create)
  moreover have "same_core ?s1 s'"
    using assms(3) Inr by (auto simp: create_run_def Let_def split: sum.splits option.splits)
  ultimately show ?thesis by (meson effects_then_frame r_into_rtranclp)
qed

lemma set_locator_effects: "set_benchmark_replay_locator rid l s = (s', res) \<Longrightarrow> effects s s'"
  by (rule effects_frame) (auto simp: set_benchmark_replay_locator_def split: sum.splits)

lemma set_trace_effects: "set_attempt_trace_context aid t p s = (s', res) \<Longrightarrow> effects s s'"
  by (rule effects_frame) (auto simp: set_attempt_trace_context_def split: sum.splits)

lemma create_attempt_effects:
  assumes "create_attempt env a owner version s = (s', res)"
  shows "effects s s'"
proof (cases "create_attempt_checks env s a owner version")
  case (Inl e)
  with assms show ?thesis by (simp add: create_attempt_def)
next
  case (Inr u)
  then obtain r where "dict_get (db_runs s) (att_run_id a) = Some r" "run_status_of r = Run_RUNNING"
    "dict_get (db_attempts s) (att_id a) = None"
    "att_number a = max_number (attempts_of s (att_run_id a)) + 1"
    "\<forall>b \<in> set (attempts_of s (att_run_id a)). att_status_of b \<noteq> Att_RUNNING"
    by (auto simp: create_attempt_checks_def result_simps list_ex_iff)
  then have "effect s (put_attempt a s)" by (intro effect_attempt)
  with assms Inr show ?thesis by (simp add: create_attempt_def)
qed

lemma leased_run_simps [simp]:
  "run_id (leased_run env s owner r) = run_id r"
  "run_status_of (leased_run env s owner r) = Run_RUNNING"
  "run_lease_version (leased_run env s owner r) = run_lease_version r + 1"
  "run_lease_owner (leased_run env s owner r) = Some owner"
  "run_lease_expires_at (leased_run env s owner r) = Some (lease_until env s)"
  by (simp_all add: leased_run_def)

lemma acquire_lease_effect:
  assumes "wf_store s" and "acquire_lease env rid owner expected s = (s', Inr (Some leased))"
  obtains r where "dict_get (db_runs s) rid = Some r" "run_id r = rid"
    "run_status_of r = expected" "expected \<in> {Run_CREATED, Run_INTERRUPTED}"
    "lease_free (en_now env) r" "leased = leased_run env s owner r" "s' = put_run leased s" "effect s s'"
proof -
  obtain r where r: "dict_get (db_runs s) rid = Some r" "run_status_of r = expected"
    "expected \<in> {Run_CREATED, Run_INTERRUPTED}" "lease_free (en_now env) r"
    "leased = leased_run env s owner r" "s' = put_run leased s"
    using assms(2) by (auto simp: acquire_lease_def result_simps split: sum.splits if_splits)
  moreover have "effect s s'"
    using r run_known [OF assms(1) r(1)] by (auto intro: effect_lease)
  ultimately show thesis using that run_known [OF assms(1) r(1)] by blast
qed

text \<open>A failed start leaves no trace: the run is put back and nothing else was written.\<close>

lemma create_attempt_error: "create_attempt env a owner version s = (s', Inl e) \<Longrightarrow> s' = s"
  by (auto simp: create_attempt_def split: sum.splits)

lemma put_run_restore:
  assumes "wf_store s" and "dict_get (db_runs s) rid = Some r" and "run_id q = rid"
  shows "put_run r (put_run q s) = s"
  using assms run_of_key [OF assms(1,2)]
  by (simp add: put_run_def dict_put_put_same dict_put_get_same)

lemma start_error_unchanged:
  assumes "wf_store s"
    and "acquire_lease_and_create_attempt env rid a owner expected s = (s', Inl e)"
  shows "s' = s"
proof (cases "require_run s rid")
  case (Inl f)
  with assms(2) show ?thesis by (simp add: acquire_lease_and_create_attempt_def)
next
  case (Inr old)
  then have get: "dict_get (db_runs s) rid = Some old" by (simp add: result_simps)
  obtain s1 lease where l: "acquire_lease env rid owner expected s = (s1, lease)" by fastforce
  show ?thesis
  proof (cases "\<exists>leased. lease = Inr (Some leased)")
    case False
    then have "s1 = s" using l Inr by (auto simp: acquire_lease_def split: if_splits)
    with False assms(2) Inr l show ?thesis
      by (auto simp: acquire_lease_and_create_attempt_def split: sum.splits option.splits)
  next
    case True
    then obtain leased where leased: "lease = Inr (Some leased)" by blast
    have s1: "s1 = put_run leased s" "run_id leased = rid"
      using acquire_lease_effect [OF assms(1) l [unfolded leased]] by (metis, metis leased_run_simps(1))
    have restored: "put_run old s1 = s" using put_run_restore [OF assms(1) get s1(2)] s1(1) by simp
    show ?thesis
      using assms(2) Inr l leased restored
      by (auto simp: acquire_lease_and_create_attempt_def split: sum.splits prod.splits
          dest!: create_attempt_error)
  qed
qed

lemma acquire_and_create_effects:
  assumes "wf_store s"
    and "acquire_lease_and_create_attempt env rid a owner expected s = (s', res)"
  shows "effects s s'"
proof (cases res)
  case (Inl e)
  with assms(2) have "s' = s" by (blast intro: start_error_unchanged [OF assms(1)])
  then show ?thesis by simp
next
  case (Inr la)
  then obtain s1 leased created where l: "acquire_lease env rid owner expected s = (s1, Inr (Some leased))"
    and c: "create_attempt env a owner (run_lease_version leased) s1 = (s', Inr created)"
    using assms(2)
    by (auto simp: acquire_lease_and_create_attempt_def split: sum.splits prod.splits option.splits)
  have "effect s s1" using acquire_lease_effect [OF assms(1) l] by metis
  then show ?thesis
    using create_attempt_effects [OF c] by (meson r_into_rtranclp rtranclp_trans)
qed

lemma transition_attempt_effects:
  assumes "wf_store s" and "transition_attempt env aid expected target owner version s = (s', res)"
  shows "effects s s'"
proof (cases "s' = s")
  case False
  then obtain a where a: "dict_get (db_attempts s) aid = Some a" "att_status_of a = expected"
    and t: "ensure_attempt_transition expected target = Inr ()"
    and s': "s' = put_attempt (a\<lparr>att_status_of := target, att_completed_at := Some (en_now env)\<rparr>) s"
    using assms(2)
    by (auto simp: transition_attempt_def Let_def and_then_def require_attempt_def result_simps
        split: sum.splits py_error.splits option.splits)
  have "attempt_update a (a\<lparr>att_status_of := target, att_completed_at := Some (en_now env)\<rparr>)"
    using t a(2) by (auto simp: attempt_update_def result_simps)
  moreover have "dict_get (db_attempts s) (att_id a) = Some a"
    using attempt_known [OF assms(1) a(1)] by blast
  ultimately have "effect s s'" unfolding s' by (intro effect_attempt_update)
  then show ?thesis by blast
qed simp

lemma renew_lease_effects:
  assumes "wf_store s" and "renew_lease env rid owner version s = (s', res)"
  shows "effects s s'"
proof (cases "s' = s")
  case False
  then obtain r where r: "dict_get (db_runs s) rid = Some r" "run_status_of r \<in> {Run_RUNNING, Run_CANCELLING}"
    and s': "s' = put_run (r\<lparr>run_lease_expires_at := Some (lease_until env s)\<rparr>) s"
    using assms(2) by (auto simp: renew_lease_def Let_def result_simps split: sum.splits if_splits)
  have "effect s s'"
    unfolding s' using run_known [OF assms(1) r(1)] r(2)
    by (intro effect_update [where r = r]) (auto simp: run_update_def)
  then show ?thesis by blast
qed simp

lemma transition_run_effects:
  assumes "wf_store s" and "transition_run env rid expected target owner version s = (s', res)"
  shows "effects s s'"
proof (cases "s' = s")
  case False
  then obtain r where r: "dict_get (db_runs s) rid = Some r" "run_status_of r = expected"
    and t: "ensure_run_transition expected target = Inr ()"
    and ap: "apply_transition env r target s = (s', res)"
    using assms(2)
    by (auto simp: transition_run_def and_then_def require_run_def result_simps
        split: sum.splits py_error.splits option.splits)
  have known: "dict_get (db_runs s) (run_id r) = Some r" using run_known [OF assms(1) r(1)] by blast
  have "effect s s'"
    using apply_transition_effect [OF known run_update_refl _ ap] t r(2) by (simp add: result_simps)
  then show ?thesis by blast
qed simp

lemma cancel_update: "run_update r (r\<lparr>run_cancel_requested_at := t\<rparr>)"
  "run_update r (r\<lparr>run_failure_category := f\<rparr>)"
  by (simp_all add: run_update_def)

text \<open>
  Cancelling a run that has not started writes its failure category after the transition; the
  two writes together are one transition of the abstract store.
\<close>

lemma put_run_twice: "run_id q = run_id r \<Longrightarrow> put_run q (put_run r s) = put_run q s"
  by (simp add: put_run_def dict_put_put_same)

lemma cancel_created_effects:
  assumes r: "dict_get (db_runs s) (run_id r) = Some r" and st: "run_status_of r = Run_CREATED"
    and c: "cancel_created env r owns frozen s = (s', res)"
  shows "effects s s'"
proof -
  let ?r0 = "r\<lparr>run_cancel_requested_at := Some (en_now env)\<rparr>"
  let ?r1 = "transitioned (en_now env) Run_CANCELLED ?r0"
  let ?rf = "?r0\<lparr>run_failure_category := Some Fail_CANCELLED\<rparr>"
  let ?s1 = "transition_write (en_now env) ?r0 Run_CANCELLED s"
  have ap: "apply_transition env ?r0 Run_CANCELLED s = (?s1, Inr ?r1)"
    using st by (simp add: apply_transition_def ensure_run_transition_def transition_write_def Let_def)
  have eq: "put_run (?r1\<lparr>run_failure_category := Some Fail_CANCELLED\<rparr>) ?s1
      = transition_write (en_now env) ?rf Run_CANCELLED s"
    by (cases r; cases s) (simp add: transition_write_def put_run_def dict_put_put_same transitioned_def Let_def)
  have "run_update r ?rf" by (simp add: run_update_def)
  then have "effect s (transition_write (en_now env) ?rf Run_CANCELLED s)"
    using r st by (intro effect_transition [where r = r]) auto
  moreover have "same_core (transition_write (en_now env) ?rf Run_CANCELLED s) s'"
    using c unfolding cancel_created_def ap
    by (auto simp: Let_def eq same_core_def split: if_splits sum.splits prod.splits
        dest!: effects_on_repo)
  ultimately show ?thesis by (meson effects_then_frame r_into_rtranclp)
qed

lemma request_cancel_effects:
  assumes "wf_store s" and "request_cancel env rid s = (s', res)"
  shows "effects s s'"
proof (cases "and_then (require_run s rid) (\<lambda>r. and_then (owns_projection (db_repo s) r) (\<lambda>owns. Inr (r, owns)))")
  case (Inl e)
  with assms(2) show ?thesis by (simp add: request_cancel_def)
next
  case (Inr ro)
  then obtain r owns where ro: "ro = (r, owns)" and r: "dict_get (db_runs s) rid = Some r"
    by (auto simp: result_simps)
  have known: "dict_get (db_runs s) (run_id r) = Some r" using run_known [OF assms(1) r] by blast
  consider "s' = s"
    | frozen where "run_status_of r = Run_CREATED" "cancel_created env r owns frozen s = (s', res)"
    | "run_status_of r = Run_RUNNING"
      "apply_transition env (r\<lparr>run_cancel_requested_at := Some (en_now env)\<rparr>) Run_CANCELLING s = (s', res)"
    using assms(2) Inr ro by (auto simp: request_cancel_def split: if_splits sum.splits)
  then show ?thesis
  proof cases
    case 1
    then show ?thesis by simp
  next
    case 2
    then show ?thesis using cancel_created_effects [OF known] by blast
  next
    case 3
    then show ?thesis
      using apply_transition_effect [OF known cancel_update(1) _ 3(2)] by auto
  qed
qed

section \<open>Journal writes\<close>

lemma next_sequence_numbered:
  "ev_sequence e = next_sequence s rid \<Longrightarrow> numbered_from (length (events_of s rid)) [e]"
  by (simp add: next_sequence_def numbered_one)

lemma append_event_effects:
  assumes "append_event_command env c s = (s', res)"
  shows "effects s s'"
proof (cases "s' = s")
  case False
  then obtain r e where r: "dict_get (db_runs s) (cmd_run_id c) = Some r"
      "run_status_of r \<in> {Run_RUNNING, Run_CANCELLING}"
    and e: "validate_event_twice (command_event env c (next_sequence s (cmd_run_id c))) = Inr e"
    and s': "s' = publish_events [e] (append_events (cmd_run_id c) [e] s)"
    using assms by (auto simp: append_event_command_def result_simps split: sum.splits)
  have "ev_sequence e = next_sequence s (cmd_run_id c)" "ev_run_id e = cmd_run_id c"
    using validate_event_twice_keeps [OF e] by (auto simp: command_event_def)
  then have "effect s (append_events (cmd_run_id c) [e] s)"
    using r by (intro effect_events) (auto simp: next_sequence_numbered)
  then show ?thesis unfolding s' by (meson effects_then_frame r_into_rtranclp same_core_simps(3))
qed simp

lemma recovery_rejection_effects:
  assumes "append_recovery_rejection env rid aid cid msg s = (s', res)"
  shows "effects s s'"
proof (cases "recovery_checks env rid aid s")
  case (Inl e)
  with assms show ?thesis by (simp add: append_recovery_rejection_def)
next
  case (Inr f)
  then obtain r where r: "dict_get (db_runs s) rid = Some r" "run_status_of r = Run_INTERRUPTED"
    by (auto simp: recovery_checks_def result_simps)
  let ?s = "s\<lparr>db_frozen := f\<rparr>"
  let ?d = "draft_event env rid aid (next_sequence s rid) Ev_RECOVERY_REJECTED None RActor_RECOVERY
      (recovery_payload cid msg)"
  have frame: "effects s ?s" by (rule effects_frame) simp
  show ?thesis
  proof (cases "validate_runtime_event ?d")
    case (Inl e)
    with assms Inr frame show ?thesis by (simp add: append_recovery_rejection_def)
  next
    case e: (Inr e)
    have s': "s' = publish_events [e] (append_events rid [e] ?s)"
      using assms Inr e by (simp add: append_recovery_rejection_def)
    have "ev_sequence e = next_sequence s rid" "ev_run_id e = rid"
      using validate_runtime_event_keeps [OF e] by auto
    then have "effect ?s (append_events rid [e] ?s)"
      using r by (intro effect_events) (auto simp: next_sequence_def numbered_one events_of_def)
    then show ?thesis
      unfolding s' using frame by (meson effects_then effects_then_frame same_core_simps(3))
  qed
qed

section \<open>Terminal commits\<close>

lemma attempt_in_known:
  "attempt_in s aid rid st \<Longrightarrow> \<exists>a. dict_get (db_attempts s) aid = Some a \<and> att_run_id a = rid \<and> att_status_of a = st"
  by (auto simp: attempt_in_def split: option.splits)

lemma set_attempt_failure_effects:
  assumes "wf_store s" and "attempt_in s aid rid Att_RUNNING"
  shows "effects s (set_attempt_failure aid f s)"
proof (cases "dict_get (db_attempts s) aid")
  case None
  then show ?thesis by (simp add: set_attempt_failure_def)
next
  case (Some a)
  have "attempt_update a (a\<lparr>att_failure_category := f\<rparr>)"
    using attempt_in_known [OF assms(2)] Some by (simp add: attempt_update_def)
  moreover have "dict_get (db_attempts s) (att_id a) = Some a"
    using attempt_known [OF assms(1) Some] by blast
  ultimately have "effect s (put_attempt (a\<lparr>att_failure_category := f\<rparr>) s)"
    by (intro effect_attempt_update)
  with Some show ?thesis by (simp add: set_attempt_failure_def)
qed

lemma set_attempt_failure_simps [store_simps]:
  "db_runs (set_attempt_failure aid f s) = db_runs s"
  "db_events (set_attempt_failure aid f s) = db_events s"
  "db_repo (set_attempt_failure aid f s) = db_repo s"
  "db_frozen (set_attempt_failure aid f s) = db_frozen s"
  "db_checkpoints (set_attempt_failure aid f s) = db_checkpoints s"
  "db_published (set_attempt_failure aid f s) = db_published s"
  "events_of (set_attempt_failure aid f s) = events_of s"
  by (auto simp: set_attempt_failure_def store_simps split: option.split)

text \<open>Once prepared, a terminal commit cannot fail before its last two writes.\<close>

lemma interrupt_calls_Inr: "interrupt_calls now m r repo = (repo', res) \<Longrightarrow> res = Inr ()"
  by (auto simp: interrupt_calls_def save_tool_calls_def Let_def split: if_splits)

lemma close_calls_Inr:
  "on_repo (if b then interrupt_calls now m r else skip_op) s = (s', u) \<Longrightarrow> u = Inr ()"
  by (cases b) (auto simp: on_repo_def skip_op_def split: prod.splits dest: interrupt_calls_Inr)

lemma interrupt_calls_records:
  "interrupt_calls now m r repo = (repo', res) \<Longrightarrow> repo_records repo' = repo_records repo"
  by (auto simp: interrupt_calls_def save_tool_calls_def Let_def split: if_splits)

lemma prepare_terminal_known:
  assumes "wf_store s" and "prepare_terminal env c s = Inr (r, owns, events, frozen)"
  shows "dict_get (db_runs s) (tx_run_id c) = Some r" "run_id r = tx_run_id c"
    "run_status_of r = tx_expected_run_status c"
    "tx_target_run_status c \<in> set (allowed_transitions (run_status_of r))"
    "lease_holds (en_now env) r (tx_lease_owner c) (tx_lease_version c)"
    "attempt_in s (tx_attempt_id c) (run_id r) (tx_expected_attempt_status c)"
    "numbered_from (length (events_of s (run_id r))) events"
    "\<forall>e \<in> set events. ev_run_id e = run_id r"
    "\<exists>p. freeze_for env (db_repo s) r = Inr p"
  using assms run_of_key [OF assms(1)]
  by (auto simp: prepare_terminal_def result_simps dest!: terminal_events_numbered)

lemma prepare_terminal_attempt:
  "prepare_terminal env c s = Inr (r, owns, events, frozen) \<Longrightarrow>
   attempt_in s (tx_attempt_id c) (run_id r) Att_RUNNING"
  by (auto simp: prepare_terminal_def result_simps)

lemma commit_terminal_writes:
  assumes "wf_store s" and "prepare_terminal env c s = Inr (r, owns, events, frozen)"
    and "commit_terminal env c s = (s', res)"
  obtains s3 where "effects s s3" "same_core s3 s'"
    "dict_get (db_runs s3) (run_id r) = Some (transitioned (en_now env) (tx_target_run_status c)
        (r\<lparr>run_failure_category := tx_failure_category c\<rparr>))"
    "events_of s3 (run_id r) = events_of s (run_id r) @ events"
proof -
  note p = prepare_terminal_known [OF assms(1,2)]
  let ?rf = "r\<lparr>run_failure_category := tx_failure_category c\<rparr>"
  obtain s1 u where s1: "on_repo (if is_terminal (tx_target_run_status c)
      then interrupt_calls (en_now env) (terminal_message (tx_target_run_status c)) r
      else skip_op) s = (s1, u)" by fastforce
  have u: "u = Inr ()"
    using s1 by (rule close_calls_Inr)
  have c1: "same_core s s1" using effects_on_repo [OF s1] .
  let ?s2a = "append_events (run_id r) events s1"
  let ?s2 = "set_attempt_failure (tx_attempt_id c) (tx_failure_category c) ?s2a"
  have "db_runs s1 = db_runs s" using c1 by (simp only: same_core_def)
  then have get1: "dict_get (db_runs s1) (run_id r) = Some r" by (simp only: p(1,2))
  have ev1: "events_of s1 = events_of s" by (rule same_core_of(1) [OF c1])
  have live: "\<not> is_terminal (run_status_of r)" using p(4) by (cases "run_status_of r") auto
  have "effect s1 ?s2a" using get1 live p(7,8) ev1 by (intro effect_events) auto
  then have e2a: "effects s ?s2a" using effects_frame [OF c1] by (rule effects_then [rotated])
  then have "wf_store ?s2a" using effects_wf assms(1) by blast
  moreover have "attempt_in ?s2a (tx_attempt_id c) (run_id r) Att_RUNNING"
    using prepare_terminal_attempt [OF assms(2)] c1 by (simp add: attempt_in_def store_simps same_core_def)
  ultimately have e2: "effects s ?s2" using e2a set_attempt_failure_effects by (meson rtranclp_trans)
  have get2: "dict_get (db_runs ?s2) (run_id r) = Some r" using get1 by (simp add: store_simps)
  obtain s3 v where ap: "apply_transition env ?rf (tx_target_run_status c) ?s2 = (s3, v)" by fastforce
  have e3: "effect ?s2 s3" and v: "v = Inr (transitioned (en_now env) (tx_target_run_status c) ?rf)"
    using apply_transition_effect [OF get2 cancel_update(2) p(4) ap] by simp_all
  obtain s4 w where s4: "on_repo (settle_investigation env c r owns) s3 = (s4, w)" by fastforce
  have "same_core s3 s'"
    using assms(3) effects_on_repo [OF s4]
    by (cases w) (auto simp: commit_terminal_def assms(2) s1 u ap v s4 Let_def same_core_def
        publish_events_def)
  moreover have "dict_get (db_runs s3) (run_id r) = Some (transitioned (en_now env) (tx_target_run_status c) ?rf)"
    "events_of s3 (run_id r) = events_of s (run_id r) @ events"
    using apply_transition_Inr [OF ap [unfolded v]] ev1 by (simp_all add: store_simps events_of_def)
  ultimately show thesis using that effects_then [OF e2 e3] by blast
qed

lemma commit_terminal_effects:
  assumes "wf_store s" and "commit_terminal env c s = (s', res)"
  shows "effects s s'"
proof (cases "prepare_terminal env c s")
  case (Inl e)
  with assms(2) show ?thesis by (simp add: commit_terminal_def)
next
  case (Inr x)
  obtain r owns events frozen where "x = (r, owns, events, frozen)" by (cases x)
  with Inr show ?thesis
    using commit_terminal_writes [OF assms(1) _ assms(2)] effects_then_frame by metis
qed

end
