(* ===== verification/Commit_Refinement.thy ===== *)
theory Commit_Refinement
  imports Store_Refinement
begin

text \<open>
  The refinement of the durable commits: tool results, model turn reservations, phase
  results and the audit of expired leases are sequences of the primitive effects, and a
  failing tool or phase commit leaves the store as it was.
\<close>

section \<open>Tool commits and model turns\<close>

lemma tool_commit_checksD:
  assumes "tool_commit_checks env c s = Inr r"
  shows "dict_get (db_runs s) (tm_run_id c) = Some r" "run_status_of r = Run_RUNNING"
    "lease_holds (en_now env) r (tm_lease_owner c) (tm_lease_version c)"
    "attempt_in s (tm_attempt_id c) (run_id r) Att_RUNNING"
    "ensure_v11_tool_budget_available r
       (list_tool_calls (db_repo s) (run_investigation_id r)) (tm_call c) = Inr ()"
  using assms by (auto simp: tool_commit_checks_def result_simps)

lemma tool_event_simps [simp]:
  "ev_sequence (tool_event env c n) = n" "ev_run_id (tool_event env c n) = tm_run_id c"
  by (simp_all add: tool_event_def)

lemma on_repo_state: "on_repo f s = (s', res) \<Longrightarrow> \<exists>repo. s' = set_repo repo s"
  by (auto simp: on_repo_def split: prod.splits)

lemma tool_transaction_states:
  assumes "tool_transaction env c r s = (s', res)"
  shows "case res of Inl e \<Rightarrow> \<exists>repo. s' = set_repo repo s
     | Inr e \<Rightarrow> (\<exists>repo. s' = append_events (run_id r) [e] (set_repo repo s))
          \<and> ev_sequence e = next_sequence s (run_id r) \<and> ev_run_id e = tm_run_id c"
proof (cases "and_then (repo_get (db_repo s) (run_investigation_id r)) (merge_tool_result (tm_mutation c))")
  case (Inl e)
  then have "res = Inl e" "s' = set_repo (db_repo s) s"
    using assms by (auto simp: tool_transaction_def set_repo_def)
  then show ?thesis by auto
next
  case m: (Inr m)
  obtain s1 u where s1: "on_repo (apply_memory m) s = (s1, u)" by fastforce
  obtain repo where repo: "s1 = set_repo repo s" using on_repo_state [OF s1] by blast
  have seq: "next_sequence s1 rid = next_sequence s rid" for rid
    by (simp add: repo next_sequence_def store_simps)
  show ?thesis
  proof (cases u)
    case (Inl e)
    then have "res = Inl e" "s' = s1" using assms m s1 by (auto simp: tool_transaction_def)
    then show ?thesis using repo by auto
  next
    case u: (Inr x)
    show ?thesis
    proof (cases "validate_event_twice (tool_event env c (next_sequence s1 (run_id r)))")
      case (Inl e)
      then have "res = Inl e" "s' = s1" using assms m s1 u by (auto simp: tool_transaction_def)
      then show ?thesis using repo by auto
    next
      case e: (Inr e)
      then have "res = Inr e" "s' = append_events (run_id r) [e] s1"
        using assms m s1 u by (auto simp: tool_transaction_def)
      moreover have "ev_sequence e = next_sequence s (run_id r)" "ev_run_id e = tm_run_id c"
        using validate_event_twice_keeps [OF e] by (auto simp: seq)
      ultimately show ?thesis using repo by auto
    qed
  qed
qed

lemma set_repo_restore: "set_repo (db_repo s) (set_repo repo s) = s"
  by (simp add: set_repo_def)

lemma commit_tool_cases:
  assumes "commit_tool env c s = (s', res)"
  obtains e where "s' = s" "res = Inl e"
  | r repo e where "tool_commit_checks env c s = Inr r" "res = Inr (tm_call c)"
      "tool_transaction env c r s = (append_events (run_id r) [e] (set_repo repo s), Inr e)"
      "s' = publish_events [e] (append_events (run_id r) [e] (set_repo repo s))"
      "ev_sequence e = next_sequence s (run_id r)" "ev_run_id e = tm_run_id c"
proof (cases "tool_commit_checks env c s")
  case (Inl e)
  then have "s' = s" "res = Inl e" using assms by (auto simp: commit_tool_def)
  then show thesis by (rule that(1))
next
  case r: (Inr r)
  obtain s1 u where t: "tool_transaction env c r s = (s1, u)" by fastforce
  show thesis
  proof (cases u)
    case (Inl e)
    with tool_transaction_states [OF t] obtain repo where "s1 = set_repo repo s" by auto
    then have "s' = s" "res = Inl e" using assms r t Inl by (auto simp: commit_tool_def set_repo_restore)
    then show thesis by (rule that(1))
  next
    case u: (Inr e)
    with tool_transaction_states [OF t] obtain repo where "s1 = append_events (run_id r) [e] (set_repo repo s)"
      "ev_sequence e = next_sequence s (run_id r)" "ev_run_id e = tm_run_id c" by auto
    with assms r t u that(2) show thesis by (simp add: commit_tool_def)
  qed
qed

lemma commit_tool_effects:
  assumes "wf_store s" and "commit_tool env c s = (s', res)"
  shows "effects s s'"
  using assms(2)
proof (cases rule: commit_tool_cases)
  case (1 e)
  then show ?thesis by simp
next
  case (2 r repo e)
  note r = tool_commit_checksD [OF 2(1)]
  have id: "run_id r = tm_run_id c" using run_known [OF assms(1) r(1)] by blast
  have "effect (set_repo repo s) (append_events (run_id r) [e] (set_repo repo s))"
    using r(1,2) 2(5,6) id
    by (intro effect_events) (auto simp: store_simps next_sequence_def numbered_one)
  then have "effects s (append_events (run_id r) [e] (set_repo repo s))"
    by (rule effects_then [OF effects_frame [OF same_core_simps(2)]])
  then show ?thesis unfolding 2(4) by (rule effects_then_frame [OF _ same_core_simps(3)])
qed

lemma reservable_turnsD:
  assumes "reservable_turns env rid owner version s = Inr (r, n)"
  shows "dict_get (db_runs s) rid = Some r" "is_v11 r"
    "run_status_of r \<in> {Run_RUNNING, Run_CANCELLING}" "lease_holds (en_now env) r owner version"
    "run_remaining_model_turns r = Some n" "0 < n"
proof -
  obtain q where q: "dict_get (db_runs s) rid = Some q" "is_v11 q"
    "run_status_of q \<in> {Run_RUNNING, Run_CANCELLING}" "lease_holds (en_now env) q owner version"
    and c: "(case run_remaining_model_turns q of
        None \<Rightarrow> Inl (RuntimeIntegrityError ''V11 run lacks durable model turn budget'')
      | Some m \<Rightarrow> if m \<le> 0 then Inl (RuntimeConflict ''V11 model turn budget exhausted'')
                  else Inr (q, m)) = Inr (r, n)"
    using assms unfolding reservable_turns_def result_simps list.set ball_simps fst_conv not_not by blast
  from c have "q = r \<and> run_remaining_model_turns q = Some n \<and> 0 < n"
    by (cases "run_remaining_model_turns q") (auto split: if_splits)
  with q show "dict_get (db_runs s) rid = Some r" "is_v11 r"
    "run_status_of r \<in> {Run_RUNNING, Run_CANCELLING}" "lease_holds (en_now env) r owner version"
    "run_remaining_model_turns r = Some n" "0 < n" by blast+
qed

lemma reserve_model_turn_cases:
  assumes "reserve_model_turn env rid owner version s = (s', res)"
  obtains e where "s' = s" "res = Inl e"
  | r n where "dict_get (db_runs s) rid = Some r" "is_v11 r"
      "run_status_of r \<in> {Run_RUNNING, Run_CANCELLING}" "lease_holds (en_now env) r owner version"
      "run_remaining_model_turns r = Some n" "0 < n" "res = Inr (n - 1)"
      "s' = put_run (r\<lparr>run_remaining_model_turns := Some (n - 1)\<rparr>) s"
proof -
  let ?x = "reservable_turns env rid owner version s"
  show thesis
  proof (cases ?x)
    case (Inl e)
    then have "s' = s" "res = Inl e" using assms by (simp_all add: reserve_model_turn_def)
    then show thesis by (rule that(1))
  next
    case (Inr rn)
    obtain r n where rn: "rn = (r, n)" by (cases rn)
    have "res = Inr (n - 1)" "s' = put_run (r\<lparr>run_remaining_model_turns := Some (n - 1)\<rparr>) s"
      using assms Inr rn by (simp_all add: reserve_model_turn_def)
    with reservable_turnsD [OF Inr [unfolded rn]] that(2) show thesis by blast
  qed
qed

lemma reserve_model_turn_effects:
  assumes "wf_store s" and "reserve_model_turn env rid owner version s = (s', res)"
  shows "effects s s'"
  using assms(2)
proof (cases rule: reserve_model_turn_cases)
  case (1 e)
  then show ?thesis by simp
next
  case (2 r n)
  have known: "dict_get (db_runs s) (run_id r) = Some r" using run_known [OF assms(1) 2(1)] by blast
  have "run_update r (r\<lparr>run_remaining_model_turns := Some (n - 1)\<rparr>)"
    using 2(5,6) by (simp add: run_update_def turns_le_def)
  then have "effect s s'" unfolding 2(8) using 2(3) by (intro effect_update [OF known]) auto
  then show ?thesis by blast
qed

section \<open>Phase commits\<close>

lemma precondition_next_phase:
  assumes "ensure_phase_precondition (run_current_phase r) (run_latest_checkpoint_id r) c (run_order r) = Inr ()"
  shows "next_phase r (pc_phase c)" "pc_expected_checkpoint_id c = run_latest_checkpoint_id r"
    "pc_expected_previous_phase c = run_current_phase r"
  using assms
  by (auto simp: ensure_phase_precondition_def result_simps next_phase_def phases_done_def
      split: option.splits)

lemma phase_commit_checksD:
  assumes "phase_commit_checks env c s = Inr (Write_phase r digest projection)"
  shows "dict_get (db_runs s) (pc_run_id c) = Some r"
    "run_status_of r \<in> {Run_RUNNING, Run_CANCELLING}"
    "lease_holds (en_now env) r (pc_lease_owner c) (pc_lease_version c)"
    "attempt_in s (pc_attempt_id c) (pc_run_id c) Att_RUNNING"
    "next_phase r (pc_phase c)"
    "dict_get (db_checkpoints s) (pc_checkpoint_id c) = None"
proof -
  have none: "dict_get (db_checkpoints s) (pc_checkpoint_id c) = None"
  proof (cases "dict_get (db_checkpoints s) (pc_checkpoint_id c)")
    case (Some k)
    with assms show ?thesis
      by (auto simp: phase_commit_checks_def result_simps split: if_splits)
  qed
  then show "dict_get (db_checkpoints s) (pc_checkpoint_id c) = None" .
  have *: "phase_admission env c s r = Inr ()" and r: "dict_get (db_runs s) (pc_run_id c) = Some r"
    using assms none by (auto simp: phase_commit_checks_def result_simps)
  from r show "dict_get (db_runs s) (pc_run_id c) = Some r" .
  have "ensure_phase_precondition (run_current_phase r) (run_latest_checkpoint_id r) c (run_order r) = Inr ()"
    using * by (simp add: phase_admission_def result_simps run_order_def phase_order_for_def)
  then show "next_phase r (pc_phase c)" by (rule precondition_next_phase)
  from * show "run_status_of r \<in> {Run_RUNNING, Run_CANCELLING}"
    "lease_holds (en_now env) r (pc_lease_owner c) (pc_lease_version c)"
    "attempt_in s (pc_attempt_id c) (pc_run_id c) Att_RUNNING"
    by (auto simp: phase_admission_def result_simps)
qed

lemma phase_event_simps [simp]:
  "ev_sequence (phase_event env c n) = n" "ev_run_id (phase_event env c n) = pc_run_id c"
  "ev_sequence (checkpoint_event env c d p n) = n" "ev_run_id (checkpoint_event env c d p n) = pc_run_id c"
  by (simp_all add: phase_event_def checkpoint_event_def)

lemma phase_transaction_states:
  assumes "phase_transaction env c r digest projection s = (s', res)"
  shows "case res of Inl e \<Rightarrow> \<exists>repo. s' = set_repo repo s
     | Inr (events, k) \<Rightarrow>
         (\<exists>repo. s' = phase_write r (pc_phase c) events k (set_repo repo s))
         \<and> numbered_from (length (events_of s (run_id r))) events \<and> length events = 2
         \<and> (\<forall>e \<in> set events. ev_run_id e = pc_run_id c)
         \<and> k = new_checkpoint env c digest projection (int (length (events_of s (run_id r)) + 2))"
proof -
  obtain s1 u where s1: "on_repo (apply_memory (pc_mutation c)) s = (s1, u)" by fastforce
  obtain repo where repo: "s1 = set_repo repo s" using on_repo_state [OF s1] by blast
  let ?n = "next_sequence s1 (run_id r)"
  let ?k = "new_checkpoint env c digest projection (?n + 1)"
  let ?x = "and_then (hook (en_fault env) ''persistence_mid_transaction'') (\<lambda>_.
                and_then (hook (en_failpoint env) ''after_business_before_event'') (\<lambda>_.
                and_then (validate_runtime_event (phase_event env c ?n)) (\<lambda>pe.
                and_then (validate_runtime_event (checkpoint_event env c digest projection (?n + 1))) (\<lambda>ce.
                and_then (validate_checkpoint ?k) (\<lambda>_. Inr [pe, ce])))))"
  have n: "?n = int (length (events_of s (run_id r))) + 1"
    by (simp add: repo next_sequence_def store_simps)
  show ?thesis
  proof (cases u)
    case (Inl e)
    then have "res = Inl e" "s' = s1" using assms s1 by (auto simp: phase_transaction_def)
    then show ?thesis using repo by auto
  next
    case u: (Inr x)
    show ?thesis
    proof (cases ?x)
      case (Inl e)
      then have "res = Inl e" "s' = s1" using assms s1 u by (auto simp: phase_transaction_def Let_def)
      then show ?thesis using repo by auto
    next
      case x: (Inr events)
      then obtain pe ce where pe: "validate_runtime_event (phase_event env c ?n) = Inr pe"
        and ce: "validate_runtime_event (checkpoint_event env c digest projection (?n + 1)) = Inr ce"
        and events: "events = [pe, ce]" by (auto simp: result_simps)
      have "res = Inr (events, ?k)" "s' = phase_write r (pc_phase c) events ?k s1"
        using assms s1 u x
        by (auto simp: phase_transaction_def Let_def phase_write_def new_checkpoint_def append_events_def)
      moreover have "ev_sequence pe = ?n" "ev_run_id pe = pc_run_id c"
        "ev_sequence ce = ?n + 1" "ev_run_id ce = pc_run_id c"
        using validate_runtime_event_keeps [OF pe] validate_runtime_event_keeps [OF ce] by auto
      ultimately show ?thesis using repo n by (auto simp: events numbered_two algebra_simps)
    qed
  qed
qed

lemma restore_phase:
  assumes "wf_store s" and "dict_get (db_runs s) (run_id r) = Some r"
  shows "restore_memory_phase r s (set_repo repo s) = s"
proof -
  have "dict_get (db_events s) (run_id r) \<noteq> None"
    using assms by (auto simp: wf_store_def journals_ok_def)
  then have "dict_put (db_events s) (run_id r) (events_of s (run_id r)) = db_events s"
    by (auto simp: events_of_def dict_put_get_same)
  then show ?thesis
    using assms(2) by (simp add: restore_memory_phase_def set_repo_def put_run_def dict_put_get_same)
qed

lemma commit_phase_cases:
  assumes "wf_store s" and "commit_phase env c s = (s', res)"
  obtains e where "s' = s" "res = Inl e"
  | k where "s' = s" "res = Inr k" "phase_commit_checks env c s = Inr (Replay_checkpoint k)"
  | r digest projection repo events k where
      "phase_commit_checks env c s = Inr (Write_phase r digest projection)" "res = Inr k"
      "run_id r = pc_run_id c"
      "s' = publish_events events (phase_write r (pc_phase c) events k (set_repo repo s))"
      "numbered_from (length (events_of s (run_id r))) events" "length events = 2"
      "\<forall>e \<in> set events. ev_run_id e = pc_run_id c"
      "k = new_checkpoint env c digest projection (int (length (events_of s (run_id r)) + 2))"
proof (cases "phase_commit_checks env c s")
  case (Inl e)
  then have "s' = s" "res = Inl e" using assms(2) by (simp_all add: commit_phase_def)
  then show thesis by (rule that(1))
next
  case (Inr d)
  show thesis
  proof (cases d)
    case (Replay_checkpoint k)
    then have "s' = s" "res = Inr k" using assms(2) Inr by (simp_all add: commit_phase_def)
    then show thesis using Inr Replay_checkpoint by (intro that(2)) auto
  next
    case (Write_phase r digest projection)
    note checks = Inr [unfolded Write_phase]
    note get = phase_commit_checksD(1) [OF checks]
    have id: "run_id r = pc_run_id c" using run_known [OF assms(1) get] by blast
    obtain s1 u where t: "phase_transaction env c r digest projection s = (s1, u)" by fastforce
    note states = phase_transaction_states [OF t]
    show thesis
    proof (cases u)
      case (Inl e)
      with states obtain repo where repo: "s1 = set_repo repo s" by auto
      have "s' = s" "res = Inl (phase_failure e)"
        using assms(2) checks t Inl restore_phase [OF assms(1), of r repo] get id repo
        by (simp_all add: commit_phase_def)
      then show thesis by (rule that(1))
    next
      case u: (Inr ek)
      obtain events k where ek: "ek = (events, k)" by (cases ek)
      obtain repo where repo: "s1 = phase_write r (pc_phase c) events k (set_repo repo s)"
        using states by (auto simp: u ek)
      have "s' = publish_events events (phase_write r (pc_phase c) events k (set_repo repo s))"
        "res = Inr k"
        using assms(2) checks t u ek repo by (simp_all add: commit_phase_def)
      then show thesis using states checks id by (intro that(3)) (auto simp: u ek)
    qed
  qed
qed

lemma new_checkpoint_simps [simp]:
  "ck_id (new_checkpoint env c d p n) = pc_checkpoint_id c"
  "ck_run_id (new_checkpoint env c d p n) = pc_run_id c"
  "ck_completed_phase (new_checkpoint env c d p n) = pc_phase c"
  "ck_event_sequence (new_checkpoint env c d p n) = n"
  by (simp_all add: new_checkpoint_def)

lemma commit_phase_effects:
  assumes "wf_store s" and "commit_phase env c s = (s', res)"
  shows "effects s s'"
  using assms
proof (cases rule: commit_phase_cases)
  case (3 r digest projection repo events k)
  note d = phase_commit_checksD [OF 3(1)]
  have "effect (set_repo repo s) (phase_write r (pc_phase c) events k (set_repo repo s))"
    using d(1,2,5,6) 3(3,5,6,7)
    by (intro effect_phase) (auto simp: store_simps 3(8))
  then have "effects s (phase_write r (pc_phase c) events k (set_repo repo s))"
    by (rule effects_then [OF effects_frame [OF same_core_simps(2)]])
  then show ?thesis unfolding 3(4) by (rule effects_then_frame [OF _ same_core_simps(3)])
qed simp_all

section \<open>The audit of expired leases\<close>

lemma audit_events_Inr:
  assumes "audit_events env rid aid (int n + 1) = Inr es"
  shows "numbered_from n es" "length es = 2" "\<forall>e \<in> set es. ev_run_id e = rid"
proof -
  obtain re ae where
    re: "validate_runtime_event (draft_event env rid aid (int n + 1) Ev_RUN_INTERRUPTED None
      RActor_RUNTIME lease_lost_payload) = Inr re" and
    ae: "validate_runtime_event (draft_event env rid aid (int n + 1 + 1) Ev_ATTEMPT_INTERRUPTED None
      RActor_RUNTIME lease_lost_payload) = Inr ae" and es: "es = [re, ae]"
    using assms by (auto simp: audit_events_def result_simps)
  show "numbered_from n es" "length es = 2" "\<forall>e \<in> set es. ev_run_id e = rid"
    using validate_runtime_event_keeps [OF re] validate_runtime_event_keeps [OF ae]
    by (auto simp: es numbered_two)
qed

lemma interrupt_expired_effects:
  assumes wf: "wf_store s" and r: "dict_get (db_runs s) (run_id r) = Some r"
    and expired: "lease_expired now r" and op: "interrupt_expired env r s = (s', res)"
  shows "effects s s'"
proof (cases "first_match (\<lambda>a. att_status_of a = Att_RUNNING) (attempts_of s (run_id r))")
  case None
  then show ?thesis using op by (simp add: interrupt_expired_def)
next
  case (Some a)
  let ?rf = "r\<lparr>run_failure_category := Some Fail_LEASE_LOST\<rparr>"
  obtain s1 u where s1: "on_repo (interrupt_calls (en_now env) ''runtime lease expired'' r) s = (s1, u)"
    by fastforce
  note c1 = effects_on_repo [OF s1]
  have u: "u = Inr ()"
    using s1 by (auto simp: on_repo_def split: prod.splits dest: interrupt_calls_Inr)
  let ?s1 = "set_attempt_failure (att_id a) (Some Fail_LEASE_LOST) s1"
  have a: "a \<in> set (attempts_of s (run_id r))" "att_status_of a = Att_RUNNING"
    using first_match_Some [OF Some] by blast+
  then obtain k where "dict_get (db_attempts s) k = Some a" "att_run_id a = run_id r"
    using wf_storeD(3) [OF wf] dict_value_key [of "db_attempts s" a]
    unfolding attempts_ok_def attempts_of_def by auto
  then have "attempt_in s1 (att_id a) (run_id r) Att_RUNNING"
    using attempt_known [OF wf] a(2) c1 by (auto simp: attempt_in_def same_core_def)
  then have e1: "effects s ?s1"
    using effects_frame [OF c1] set_attempt_failure_effects [of s1] wf_same_core [OF c1] wf
    by (meson rtranclp_trans)
  have get1: "dict_get (db_runs ?s1) (run_id r) = Some r"
    using c1 r by (simp add: store_simps same_core_def)
  have target: "Run_INTERRUPTED \<in> set (allowed_transitions (run_status_of r))"
    using expired by (auto simp: lease_expired_def)
  obtain s2 v where s2: "apply_transition env ?rf Run_INTERRUPTED ?s1 = (s2, v)" by fastforce
  let ?r' = "transitioned (en_now env) Run_INTERRUPTED ?rf"
  have e2: "effects s s2" and v: "v = Inr ?r'"
    using apply_transition_effect [OF get1 _ target s2] e1 effects_then
    by (auto simp: run_update_def)
  note s2v = s2 [unfolded v]
  have get2: "dict_get (db_runs s2) (run_id r) = Some ?r'"
    using apply_transition_Inr [OF s2v] by simp
  have status: "run_status_of ?r' = Run_INTERRUPTED" by (simp add: transitioned_def)
  consider "s' = s2" | frozen where "s' = s2\<lparr>db_frozen := frozen\<rparr>"
    | frozen es where "s' = append_events (run_id r) es (s2\<lparr>db_frozen := frozen\<rparr>)"
        "audit_events env (run_id r) (att_id a) (next_sequence (s2\<lparr>db_frozen := frozen\<rparr>) (run_id r)) = Inr es"
    using op Some s1 u s2v by (auto simp: interrupt_expired_def Let_def split: sum.splits)
  then show ?thesis
  proof cases
    case 1
    then show ?thesis using e2 by simp
  next
    case (2 frozen)
    then show ?thesis using e2 by (auto intro: effects_then_frame)
  next
    case (3 frozen es)
    let ?s3 = "s2\<lparr>db_frozen := frozen\<rparr>"
    have ev: "audit_events env (run_id r) (att_id a) (int (length (events_of ?s3 (run_id r))) + 1) = Inr es"
      using 3(2) by (simp add: next_sequence_def)
    have "effect ?s3 s'"
      unfolding 3(1) using audit_events_Inr [OF ev] get2 status
      by (intro effect_events [where r = ?r']) auto
    then show ?thesis using effects_then_frame [OF e2, of ?s3] effects_then by force
  qed
qed

lemma audit_loop_effects:
  "wf_store s \<Longrightarrow> audit_loop env rids acc events s = (s', res) \<Longrightarrow> effects s s'"
proof (induction env rids acc events s arbitrary: s' res rule: audit_loop.induct)
  case (2 env rid rids acc events s)
  show ?case
  proof (cases "\<exists>r. dict_get (db_runs s) rid = Some r \<and> lease_expired (en_now env) r")
    case False
    with "2.prems" have "audit_loop env rids acc events s = (s', res)"
      by (auto split: option.splits)
    with "2.IH"(1,2) "2.prems"(1) False show ?thesis by (cases "dict_get (db_runs s) rid") auto
  next
    case True
    then obtain r where r: "dict_get (db_runs s) rid = Some r" "lease_expired (en_now env) r" by blast
    obtain s1 u where s1: "interrupt_expired env r s = (s1, u)" by fastforce
    have e1: "effects s s1"
      using interrupt_expired_effects [OF "2.prems"(1) _ r(2) s1] run_known [OF "2.prems"(1) r(1)] by blast
    show ?thesis
    proof (cases u)
      case (Inl e)
      then show ?thesis using "2.prems"(2) r s1 e1 by simp
    next
      case (Inr rs)
      obtain r' es where rs: "rs = (r', es)" by (cases rs)
      have "wf_store s1" using effects_wf [OF e1 "2.prems"(1)] .
      moreover have "audit_loop env rids (acc @ [r']) (events @ es) s1 = (s', res)"
        using "2.prems"(2) r s1 by (simp add: Inr rs)
      ultimately have "effects s1 s'"
        using "2.IH"(3) [OF r(1) _ s1 [symmetric] Inr rs [symmetric]] r(2) by blast
      with e1 show ?thesis by (rule rtranclp_trans)
    qed
  qed
qed simp

lemma audit_expired_leases_effects:
  assumes "wf_store s" and "audit_expired_leases env s = (s', res)"
  shows "effects s s'"
proof -
  obtain s1 u where l: "audit_loop env (dict_keys (db_runs s)) [] [] s = (s1, u)" by fastforce
  have "same_core s1 s'"
    using assms(2) l by (cases u) (auto simp: audit_expired_leases_def)
  with audit_loop_effects [OF assms(1) l] show ?thesis by (rule effects_then_frame)
qed

end
