(* ===== verification/Store_Evolution.thy ===== *)
theory Store_Evolution
  imports Commit_Refinement
begin

text \<open>
  What the runtime store never loses: how a run, an attempt, a journal and a checkpoint may
  differ between two states of the same store.  The relation is shown for each primitive
  effect; \<open>Store_Machine\<close> lifts it to every sequence of operations.
\<close>

section \<open>The order of states\<close>

definition turns_evolve :: "int option \<Rightarrow> int option \<Rightarrow> bool" where
  "turns_evolve a b =
     (case (a, b) of (None, None) \<Rightarrow> True | (Some n, Some m) \<Rightarrow> m = n \<or> (0 \<le> m \<and> m < n) | _ \<Rightarrow> False)"

definition status_step :: "run_status \<Rightarrow> run_status \<Rightarrow> bool" where
  "status_step a b = (b \<in> set (allowed_transitions a))"

definition run_evolves :: "runtime_run \<Rightarrow> runtime_run \<Rightarrow> bool" where
  "run_evolves r r' =
     (run_id r' = run_id r \<and> run_investigation_id r' = run_investigation_id r
      \<and> run_kind_of r' = run_kind_of r \<and> run_contract_version r' = run_contract_version r
      \<and> run_execution_contract r' = run_execution_contract r
      \<and> run_tool_budget r' = run_tool_budget r \<and> run_token_budget r' = run_token_budget r
      \<and> status_step\<^sup>*\<^sup>* (run_status_of r) (run_status_of r')
      \<and> run_lease_version r \<le> run_lease_version r'
      \<and> phases_done r \<le> phases_done r'
      \<and> turns_evolve (run_remaining_model_turns r) (run_remaining_model_turns r'))"

definition attempt_evolves :: "runtime_attempt \<Rightarrow> runtime_attempt \<Rightarrow> bool" where
  "attempt_evolves a a' =
     (att_id a' = att_id a \<and> att_run_id a' = att_run_id a \<and> att_number a' = att_number a
      \<and> (a' = a \<or> att_status_of a = Att_RUNNING))"

definition runs_evolve :: "runtime_store \<Rightarrow> runtime_store \<Rightarrow> bool" where
  "runs_evolve s s' = (\<forall>k r. dict_get (db_runs s) k = Some r \<longrightarrow>
     (\<exists>r'. dict_get (db_runs s') k = Some r' \<and> run_evolves r r'))"

definition attempts_evolve :: "runtime_store \<Rightarrow> runtime_store \<Rightarrow> bool" where
  "attempts_evolve s s' = (\<forall>k a. dict_get (db_attempts s) k = Some a \<longrightarrow>
     (\<exists>a'. dict_get (db_attempts s') k = Some a' \<and> attempt_evolves a a'))"

definition journals_grow :: "runtime_store \<Rightarrow> runtime_store \<Rightarrow> bool" where
  "journals_grow s s' = (\<forall>k es. dict_get (db_events s) k = Some es \<longrightarrow>
     (\<exists>fs. dict_get (db_events s') k = Some (es @ fs)))"

definition checkpoints_kept :: "runtime_store \<Rightarrow> runtime_store \<Rightarrow> bool" where
  "checkpoints_kept s s' = (\<forall>k c. dict_get (db_checkpoints s) k = Some c \<longrightarrow>
     dict_get (db_checkpoints s') k = Some c)"

definition terminal_kept :: "runtime_store \<Rightarrow> runtime_store \<Rightarrow> bool" where
  "terminal_kept s s' = (\<forall>k r. dict_get (db_runs s) k = Some r \<and> is_terminal (run_status_of r) \<longrightarrow>
     dict_get (db_runs s') k = Some r \<and> dict_get (db_events s') k = dict_get (db_events s) k)"

definition store_evolves :: "runtime_store \<Rightarrow> runtime_store \<Rightarrow> bool" where
  "store_evolves s s' = (runs_evolve s s' \<and> attempts_evolve s s' \<and> journals_grow s s'
     \<and> checkpoints_kept s s' \<and> terminal_kept s s')"

lemmas evolution_defs = runs_evolve_def attempts_evolve_def journals_grow_def checkpoints_kept_def
  terminal_kept_def

section \<open>It is a preorder\<close>

lemma turns_evolve_refl [simp]: "turns_evolve x x"
  by (simp add: turns_evolve_def split: option.splits)

lemma turns_evolve_trans: "turns_evolve x y \<Longrightarrow> turns_evolve y z \<Longrightarrow> turns_evolve x z"
  by (auto simp: turns_evolve_def split: option.splits)

lemma run_evolves_refl [simp]: "run_evolves r r"
  by (simp add: run_evolves_def)

lemma run_evolves_trans: "run_evolves r q \<Longrightarrow> run_evolves q p \<Longrightarrow> run_evolves r p"
  unfolding run_evolves_def by (auto intro: rtranclp_trans turns_evolve_trans)

lemma attempt_evolves_refl [simp]: "attempt_evolves a a"
  by (simp add: attempt_evolves_def)

lemma attempt_evolves_trans: "attempt_evolves a b \<Longrightarrow> attempt_evolves b c \<Longrightarrow> attempt_evolves a c"
  by (auto simp: attempt_evolves_def)

lemma store_evolves_refl [simp]: "store_evolves s s"
  by (simp add: store_evolves_def evolution_defs)

lemma store_evolves_trans:
  assumes "store_evolves s t" and "store_evolves t u" shows "store_evolves s u"
  unfolding store_evolves_def
proof (intro conjI)
  show "runs_evolve s u"
    using assms run_evolves_trans unfolding store_evolves_def runs_evolve_def by meson
  show "attempts_evolve s u"
    using assms attempt_evolves_trans unfolding store_evolves_def attempts_evolve_def by meson
  show "journals_grow s u"
    using assms unfolding store_evolves_def journals_grow_def by (metis append_assoc)
  show "checkpoints_kept s u"
    using assms unfolding store_evolves_def checkpoints_kept_def by blast
  show "terminal_kept s u"
    using assms unfolding store_evolves_def terminal_kept_def by metis
qed

section \<open>Every effect moves the store up\<close>

lemma evolves_same_core: "same_core s s' \<Longrightarrow> store_evolves s s'"
  by (auto simp: same_core_def store_evolves_def evolution_defs)

lemma evolves_put_run:
  assumes "wf_store s" and "dict_get (db_runs s) (run_id r) = Some r" and "run_evolves r r'"
    and "\<not> is_terminal (run_status_of r)"
  shows "store_evolves s (put_run r' s)"
proof -
  have "run_id r' = run_id r" using assms(3) by (simp add: run_evolves_def)
  then show ?thesis
    using assms(2-4) by (auto simp: store_evolves_def evolution_defs store_simps)
qed

lemma evolves_put_attempt:
  assumes "dict_get (db_attempts s) (att_id a) = Some a" and "attempt_evolves a a'"
  shows "store_evolves s (put_attempt a' s)"
proof -
  have "att_id a' = att_id a" using assms(2) by (simp add: attempt_evolves_def)
  then show ?thesis
    using assms by (auto simp: store_evolves_def evolution_defs store_simps)
qed

lemma evolves_append_events:
  assumes "dict_get (db_runs s) rid = Some r" and "\<not> is_terminal (run_status_of r)"
  shows "store_evolves s (append_events rid es s)"
  using assms by (auto simp: store_evolves_def evolution_defs store_simps events_of_def)

lemma evolves_create:
  assumes "wf_store s" and "dict_get (db_runs s) (run_id r) = None"
  shows "store_evolves s ((put_run r s)\<lparr>db_events := dict_put (db_events s) (run_id r) []\<rparr>)"
proof -
  have "dict_get (db_events s) (run_id r) = None"
    using assms by (simp add: wf_store_def journals_ok_def)
  then show ?thesis
    using assms(2) by (auto simp: store_evolves_def evolution_defs store_simps)
qed

lemma run_update_evolves:
  assumes "run_update r r'" shows "run_evolves r r'"
proof -
  have "phases_done r' = phases_done r"
    using same_run_order [OF run_update_same [OF assms]] by simp
  moreover have "turns_evolve (run_remaining_model_turns r) (run_remaining_model_turns r')"
    using assms by (auto simp: run_update_def turns_le_def turns_evolve_def split: option.splits)
  ultimately show ?thesis using assms by (simp add: run_update_def run_evolves_def)
qed

lemma transitioned_fields:
  "run_execution_contract (transitioned now t r) = run_execution_contract r"
  "run_tool_budget (transitioned now t r) = run_tool_budget r"
  "run_token_budget (transitioned now t r) = run_token_budget r"
  by (simp_all add: transitioned_def Let_def)

lemma transitioned_evolves:
  assumes "run_update r r'" and "target \<in> set (allowed_transitions (run_status_of r))"
  shows "run_evolves r (transitioned now target r')"
proof -
  have "phases_done (transitioned now target r') = phases_done r"
    using same_run_order [OF same_run_transitioned [OF run_update_same [OF assms(1)]]] by simp
  moreover have "run_evolves r r'" by (rule run_update_evolves [OF assms(1)])
  moreover have "status_step\<^sup>*\<^sup>* (run_status_of r) target"
    using assms(2) by (auto simp: status_step_def)
  ultimately show ?thesis by (auto simp: run_evolves_def transitioned_fields)
qed

lemma leased_evolves:
  assumes "run_status_of r \<in> {Run_CREATED, Run_INTERRUPTED}"
  shows "run_evolves r (leased_run env s owner r)"
proof -
  have "status_step\<^sup>*\<^sup>* (run_status_of r) Run_RUNNING"
    using assms by (auto simp: status_step_def)
  moreover have "same_run r (leased_run env s owner r)" by (simp add: leased_run_def same_run_def)
  ultimately show ?thesis
    by (simp add: run_evolves_def same_run_order) (simp add: leased_run_def)
qed

lemma phase_evolves:
  assumes "next_phase r p"
  shows "run_evolves r (r\<lparr>run_current_phase := Some p, run_latest_checkpoint_id := i\<rparr>)"
  using phases_done_next [OF assms] by (simp add: run_evolves_def)

lemma settled_evolves:
  assumes "dict_get d k = Some a"
  shows "\<exists>a'. dict_get (settle_attempts now rid target d) k = Some a' \<and> attempt_evolves a a'"
  using assms
  by (auto simp: settle_attempts_get attempt_evolves_def settle_attempt_def split: option.splits)

lemma evolves_transition:
  assumes wf: "wf_store s" and r: "dict_get (db_runs s) (run_id r) = Some r" and u: "run_update r r'"
    and target: "target \<in> set (allowed_transitions (run_status_of r))"
  shows "store_evolves s (transition_write now r' target s)"
proof -
  have live: "\<not> is_terminal (run_status_of r)"
    using target by (auto simp: terminal_iff_no_successor)
  let ?r = "transitioned now target r'"
  have "store_evolves s (put_run ?r s)"
    by (rule evolves_put_run [OF wf r transitioned_evolves [OF u target] live])
  then show ?thesis
    using settled_evolves [of "db_attempts s"]
    by (simp add: transition_write_def store_evolves_def evolution_defs store_simps)
qed

lemma evolves_phase:
  assumes wf: "wf_store s" and r: "dict_get (db_runs s) (run_id r) = Some r"
    and live: "run_status_of r \<in> {Run_RUNNING, Run_CANCELLING}"
    and fresh: "dict_get (db_checkpoints s) (ck_id k) = None" and next_p: "next_phase r p"
  shows "store_evolves s (phase_write r p es k s)"
proof -
  let ?s = "append_events (run_id r) es s" and ?i = "Some (ck_id k)"
  have nt: "\<not> is_terminal (run_status_of r)" using live by auto
  have "run_evolves r (r\<lparr>run_current_phase := Some p, run_latest_checkpoint_id := ?i\<rparr>)"
    by (rule phase_evolves [OF next_p])
  then have "store_evolves s (put_run (r\<lparr>run_current_phase := Some p, run_latest_checkpoint_id := ?i\<rparr>) s)"
    by (rule evolves_put_run [OF wf r _ nt])
  moreover have "store_evolves s ?s" by (rule evolves_append_events [OF r nt])
  ultimately show ?thesis
    using fresh nt r
    by (auto simp: phase_write_def store_evolves_def evolution_defs store_simps)
qed

lemma effect_evolves: "effect s s' \<Longrightarrow> wf_store s \<Longrightarrow> store_evolves s s'"
proof (induction rule: effect.induct)
  case (effect_frame s s')
  then show ?case by (simp add: evolves_same_core)
next
  case (effect_create s r)
  then show ?case by (intro evolves_create)
next
  case (effect_update s r r')
  then show ?case by (intro evolves_put_run run_update_evolves)
next
  case (effect_transition s r r' target now)
  then show ?case by (intro evolves_transition)
next
  case (effect_lease s r env owner)
  then show ?case by (intro evolves_put_run [where r = r] leased_evolves) auto
next
  case (effect_attempt s a r)
  then show ?case by (auto simp: store_evolves_def evolution_defs store_simps)
next
  case (effect_attempt_update s a a')
  then show ?case by (intro evolves_put_attempt) (auto simp: attempt_update_def attempt_evolves_def)
next
  case (effect_events s rid r es)
  then show ?case by (intro evolves_append_events)
next
  case (effect_phase s r es k p)
  then show ?case by (intro evolves_phase)
qed

end
