(* ===== verification/Transition_Systems.thy ===== *)
theory Transition_Systems
  imports Main
begin

text \<open>
  The interface between a state machine and what is proved of its runs: a system with an
  invariant, a system with a preorder its steps climb, and a system whose steps are runs of
  a more abstract one.  The runtime store and the event hub are interpretations.
\<close>

locale invariant_system =
  fixes init :: "'s \<Rightarrow> bool" and step :: "'s \<Rightarrow> 's \<Rightarrow> bool" and inv_ok :: "'s \<Rightarrow> bool"
  assumes init_ok: "init s \<Longrightarrow> inv_ok s"
    and step_ok: "step s s' \<Longrightarrow> inv_ok s \<Longrightarrow> inv_ok s'"
begin

lemma steps_ok: "step\<^sup>*\<^sup>* s s' \<Longrightarrow> inv_ok s \<Longrightarrow> inv_ok s'"
  by (induction rule: rtranclp_induct) (auto intro: step_ok)

lemma reachable_ok: "init s \<Longrightarrow> step\<^sup>*\<^sup>* s s' \<Longrightarrow> inv_ok s'"
  using steps_ok init_ok by blast

end

text \<open>Two states of one run are related by any preorder that each step respects.\<close>

locale monotone_system = invariant_system +
  fixes le :: "'s \<Rightarrow> 's \<Rightarrow> bool"
  assumes le_refl: "le s s"
    and le_trans: "le s t \<Longrightarrow> le t u \<Longrightarrow> le s u"
    and step_le: "step s s' \<Longrightarrow> inv_ok s \<Longrightarrow> le s s'"
begin

lemma steps_le: "step\<^sup>*\<^sup>* s s' \<Longrightarrow> inv_ok s \<Longrightarrow> le s s'"
proof (induction rule: rtranclp_induct)
  case base
  then show ?case by (simp add: le_refl)
next
  case (step t u)
  then have "le s t" by simp
  moreover have "le t u" using step_le [OF step.hyps(2) steps_ok [OF step.hyps(1) step.prems]] .
  ultimately show ?case by (rule le_trans)
qed

lemma later_le: "init s \<Longrightarrow> step\<^sup>*\<^sup>* s t \<Longrightarrow> step\<^sup>*\<^sup>* t u \<Longrightarrow> le t u"
  using steps_le reachable_ok by blast

end

text \<open>A concrete system whose steps are runs of an abstract one inherits its invariant.\<close>

locale refined_system = abstract: invariant_system init astep inv_ok
  for init :: "'s \<Rightarrow> bool" and astep :: "'s \<Rightarrow> 's \<Rightarrow> bool" and inv_ok :: "'s \<Rightarrow> bool" +
  fixes cstep :: "'s \<Rightarrow> 's \<Rightarrow> bool"
  assumes refines: "cstep s s' \<Longrightarrow> inv_ok s \<Longrightarrow> astep\<^sup>*\<^sup>* s s'"
begin

lemma csteps_refine: "cstep\<^sup>*\<^sup>* s s' \<Longrightarrow> inv_ok s \<Longrightarrow> astep\<^sup>*\<^sup>* s s' \<and> inv_ok s'"
proof (induction rule: rtranclp_induct)
  case base
  then show ?case by simp
next
  case (step t u)
  then have t: "astep\<^sup>*\<^sup>* s t" "inv_ok t" by simp_all
  have u: "astep\<^sup>*\<^sup>* t u" by (rule refines [OF step.hyps(2) t(2)])
  show ?case
    using rtranclp_trans [OF t(1) u] abstract.steps_ok [OF u t(2)] by (rule conjI)
qed

end

sublocale refined_system \<subseteq> concrete: invariant_system init cstep inv_ok
proof
  fix s assume "init s"
  then show "inv_ok s" by (rule abstract.init_ok)
next
  fix s s' assume "cstep s s'" "inv_ok s"
  then show "inv_ok s'" using csteps_refine [of s s'] by blast
qed

end
