(* ===== verification/Store_Machine.thy ===== *)
theory Store_Machine
  imports Store_Evolution Transition_Systems
begin

text \<open>
  The runtime store as a state machine: one step per operation of \<open>InMemoryRuntimeStore\<close>,
  whatever its arguments and whatever its result, and one for the writes other services make
  to the shared repository.  The invariant and the evolution order of the primitive effects
  carry over to every sequence of operations.

  New runs are created the way \<open>RuntimeRun.create_new\<close> makes them, without a phase and
  without a checkpoint.
\<close>

inductive store_step :: "runtime_store \<Rightarrow> runtime_store \<Rightarrow> bool" where
  Step_repository: "store_step s (set_repo repo s)"
| Step_create_run: "fresh_run r \<Longrightarrow> create_run env r s = (s', res) \<Longrightarrow> store_step s s'"
| Step_set_locator: "set_benchmark_replay_locator rid l s = (s', res) \<Longrightarrow> store_step s s'"
| Step_create_attempt: "create_attempt env a owner version s = (s', res) \<Longrightarrow> store_step s s'"
| Step_set_trace: "set_attempt_trace_context aid t p s = (s', res) \<Longrightarrow> store_step s s'"
| Step_acquire_lease: "acquire_lease env rid owner expected s = (s', leased) \<Longrightarrow> store_step s s'"
| Step_start: "acquire_lease_and_create_attempt env rid a owner expected s = (s', started)
    \<Longrightarrow> store_step s s'"
| Step_transition_attempt: "transition_attempt env aid expected_a target_a owner version s = (s', res_a)
    \<Longrightarrow> store_step s s'"
| Step_renew_lease: "renew_lease env rid owner version s = (s', renewed) \<Longrightarrow> store_step s s'"
| Step_transition_run: "transition_run env rid expected target w v s = (s', res_r)
    \<Longrightarrow> store_step s s'"
| Step_request_cancel: "request_cancel env rid s = (s', res_c) \<Longrightarrow> store_step s s'"
| Step_append_event: "append_event_command env c s = (s', res_e) \<Longrightarrow> store_step s s'"
| Step_recovery_rejection: "append_recovery_rejection env rid aid2 cid msg s = (s', res_j)
    \<Longrightarrow> store_step s s'"
| Step_commit_terminal: "commit_terminal env tc s = (s', res_t) \<Longrightarrow> store_step s s'"
| Step_commit_tool: "commit_tool env mc s = (s', res_m) \<Longrightarrow> store_step s s'"
| Step_reserve_turn: "reserve_model_turn env rid owner version s = (s', res_n) \<Longrightarrow> store_step s s'"
| Step_commit_phase: "commit_phase env pc s = (s', res_p) \<Longrightarrow> store_step s s'"
| Step_audit: "audit_expired_leases env s = (s', res_l) \<Longrightarrow> store_step s s'"

inductive_cases store_step_cases: "store_step s s'"

definition init_store :: "runtime_store \<Rightarrow> bool" where
  "init_store s = (\<exists>repo lease publishing. s = empty_store repo lease publishing)"

lemma init_store_empty [simp]: "init_store (empty_store repo lease publishing)"
  by (auto simp: init_store_def)

lemma wf_init: "init_store s \<Longrightarrow> wf_store s"
  by (auto simp: init_store_def empty_store_def wf_store_def wf_parts attempts_of_def)

lemma acquire_lease_effects:
  assumes "wf_store s" and "acquire_lease env rid owner expected s = (s', res)"
  shows "effects s s'"
proof (cases "\<exists>leased. res = Inr (Some leased)")
  case True
  then show ?thesis using acquire_lease_effect [OF assms(1)] assms(2) by (metis r_into_rtranclp)
next
  case False
  then have "s' = s"
    using assms(2) by (auto simp: acquire_lease_def split: sum.splits if_splits)
  then show ?thesis by simp
qed

lemmas operation_effects = create_run_effects set_locator_effects create_attempt_effects
  set_trace_effects acquire_lease_effects acquire_and_create_effects transition_attempt_effects
  renew_lease_effects transition_run_effects request_cancel_effects append_event_effects
  recovery_rejection_effects commit_terminal_effects commit_tool_effects
  reserve_model_turn_effects commit_phase_effects audit_expired_leases_effects

lemma store_step_effects: "store_step s s' \<Longrightarrow> wf_store s \<Longrightarrow> effects s s'"
  by (erule store_step_cases)
     (simp add: effects_frame, (rule operation_effects; assumption)+)

interpretation effect_system: monotone_system init_store effect wf_store store_evolves
  by unfold_locales
     (auto intro: wf_init effect_wf effect_evolves store_evolves_trans)

interpretation store_refinement: refined_system init_store effect wf_store store_step
  by unfold_locales (rule store_step_effects)

interpretation store_system: monotone_system init_store store_step wf_store store_evolves
proof
  fix s s' assume "store_step s s'" "wf_store s"
  then show "store_evolves s s'"
    using store_step_effects effect_system.steps_le by blast
qed (auto intro: wf_init store_refinement.concrete.step_ok store_evolves_trans)

text \<open>The facts the properties of reachable stores start from.\<close>

lemmas reachable_wf = store_refinement.concrete.reachable_ok

lemmas later_evolves = store_system.later_le

end
