(* ===== verification/Samples.thy ===== *)
theory Samples
  imports Runtime_Commits
begin

text \<open>
  Concrete values the witnesses evaluate: one investigation, its runs, attempts and calls, a
  clock, and instances of the external functions (a constant digest, a fixed serialisation).
\<close>

definition demo_hex :: string where
  "demo_hex = replicate 64 (CHR ''0'')"

definition demo_incident :: incident_event where
  "demo_incident =
     \<lparr>ie_source = Source_MANUAL, ie_service = ''checkout'', ie_environment = ''prod'',
      ie_severity = Severity_WARNING, ie_title = ''latency'', ie_description = ''p95 up'',
      ie_started_at = 0, ie_time_window_minutes = 30, ie_signals = []\<rparr>"

definition demo_record :: investigation_record where
  "demo_record =
     \<lparr>ir_id = ''inv-1'', ir_event = demo_incident, ir_strategy = Strategy_FIXED,
      ir_multi_agent_run = None, ir_status = Inv_PENDING, ir_evidence = [],
      ir_provider_results = [], ir_specialist_results = [], ir_hypotheses = [], ir_report = None,
      ir_llm_analysis = None, ir_failure_reason = None, ir_actions = [],
      ir_verification_suggestions = [], ir_created_at = 0, ir_updated_at = 0,
      ir_completed_at = None, ir_runtime_available = True, ir_active_runtime_run_id = None,
      ir_source_investigation_id = None\<rparr>"

definition demo_repo :: repository where
  "demo_repo = empty_repository\<lparr>repo_records := [(''inv-1'', demo_record)]\<rparr>"

definition demo_run :: runtime_run where
  "demo_run =
     \<lparr>run_id = ''run-1'', run_investigation_id = ''inv-1'', run_kind_of = Kind_LIVE,
      run_strategy = Strategy_FIXED, run_status_of = Run_CREATED, run_current_phase = None,
      run_source_run_id = None, run_parent_run_id = None, run_reason_of = Reason_INITIAL,
      run_model_provider = None, run_model_name = None, run_prompt_version = None,
      run_tool_budget = Some 4, run_token_budget = Some 1000, run_remaining_model_turns = None,
      run_timeout_seconds = 60, run_latest_checkpoint_id = None, run_failure_category = None,
      run_created_at = 0, run_started_at = None, run_completed_at = None,
      run_cancel_requested_at = None, run_lease_owner = None, run_lease_expires_at = None,
      run_lease_version = 0, run_contract_version = Version_V10_LEGACY,
      run_authority_mode = Authority_LEGACY_DETERMINISTIC, run_execution_contract = []\<rparr>"

definition demo_attempt :: runtime_attempt where
  "demo_attempt =
     \<lparr>att_id = ''att-1'', att_run_id = ''run-1'', att_number = 1,
      att_resume_from_checkpoint_id = None, att_status_of = Att_RUNNING, att_started_at = 1,
      att_completed_at = None, att_failure_category = None\<rparr>"

definition demo_frozen_ext :: frozen_ext where
  "demo_frozen_ext =
     \<lparr>fx_sha256 = (\<lambda>_. demo_hex), fx_projection_digest = (\<lambda>_. demo_hex),
      fx_from_iso = (\<lambda>_. None), fx_str_instant = (\<lambda>_. ''instant'')\<rparr>"

definition demo_digest_ext :: digest_ext where
  "demo_digest_ext = \<lparr>dx_sha256 = (\<lambda>_. demo_hex), dx_float = (\<lambda>_. ''0.5'')\<rparr>"

definition demo_dump_ext :: dump_ext where
  "demo_dump_ext =
     \<lparr>du_evidence = (\<lambda>e. PStr ''evidence''), du_finding = (\<lambda>f. PStr ''finding''),
      du_review = (\<lambda>r. PStr ''review''), du_report = (\<lambda>r. PStr ''report''),
      du_call = (\<lambda>c. PStr ''call'')\<rparr>"

definition demo_env :: "instant \<Rightarrow> runtime_env" where
  "demo_env now =
     \<lparr>en_now = now, en_failpoint = (\<lambda>_. None), en_fault = (\<lambda>_. None),
      en_event_id = (\<lambda>rid n. rid), en_frozen = demo_frozen_ext,
      en_digest = demo_digest_ext, en_dump = demo_dump_ext\<rparr>"

definition demo_store :: runtime_store where
  "demo_store = empty_store demo_repo 30 True"

definition demo_command :: event_command where
  "demo_command =
     \<lparr>cmd_run_id = ''run-1'', cmd_attempt_id = ''att-1'', cmd_lease_owner = ''worker-a'',
      cmd_lease_version = 1, cmd_event_type = Known Ev_RUN_STARTED,
      cmd_actor_type = Known RActor_RUNTIME, cmd_phase = None, cmd_actor_name = None,
      cmd_task_id = None, cmd_execution_id = None, cmd_tool_call_id = None,
      cmd_evidence_ids = [], cmd_safe_payload = Some [(''status'', PStr ''running'')],
      cmd_schema_version = 1\<rparr>"

definition demo_mutation :: business_mutation where
  "demo_mutation =
     \<lparr>bm_investigation_id = ''inv-1'', bm_investigation = None, bm_plan = None, bm_tasks = None,
      bm_context_facts = None, bm_tool_calls = None, bm_findings = None, bm_executions = None,
      bm_review = None, bm_react_trace = None, bm_replace_multi_agent_result = False,
      bm_activate_projection = False\<rparr>"

definition demo_resume :: resume_state where
  "demo_resume =
     \<lparr>rs_evidence_ids = [], rs_finding_ids = [], rs_review_ids = [], rs_report_ids = [],
      rs_tool_budget = 4, rs_token_budget = Some 1000, rs_model_turns = None,
      rs_successful_tool_keys = []\<rparr>"

definition demo_phase_commit :: phase_commit where
  "demo_phase_commit =
     \<lparr>pc_run_id = ''run-1'', pc_attempt_id = ''att-1'', pc_lease_owner = ''worker-a'',
      pc_lease_version = 1, pc_phase = Phase_INTAKE, pc_mutation = demo_mutation,
      pc_safe_payload = [], pc_resume_state = demo_resume, pc_status = ''completed'',
      pc_expected_checkpoint_id = None, pc_expected_previous_phase = None,
      pc_checkpoint_id = ''ck-1'', pc_schema_version = 1\<rparr>"

definition demo_terminal_commit :: terminal_commit where
  "demo_terminal_commit =
     \<lparr>tx_run_id = ''run-1'', tx_attempt_id = ''att-1'', tx_lease_owner = ''worker-a'',
      tx_lease_version = 1, tx_expected_run_status = Run_RUNNING,
      tx_target_run_status = Run_COMPLETED, tx_expected_attempt_status = Att_RUNNING,
      tx_target_attempt_status = Att_COMPLETED,
      tx_events = [\<lparr>te_event_type = Ev_RUN_COMPLETED, te_actor_type = RActor_RUNTIME,
                     te_phase = None, te_safe_payload = Some [(''status'', PStr ''completed'')]\<rparr>],
      tx_failure_category = None\<rparr>"

text \<open>
  The states one run goes through: created, started by its first worker, one journal entry, its
  first phase committed, completed.  The lemmas at the end compute each from the one before.
\<close>

definition demo_created :: runtime_store where
  "demo_created = demo_store\<lparr>db_runs := [(''run-1'', demo_run)], db_events := [(''run-1'', [])]\<rparr>"

definition demo_started_run :: runtime_run where
  "demo_started_run = demo_run\<lparr>run_status_of := Run_RUNNING, run_started_at := Some 1,
     run_lease_owner := Some ''worker-a'', run_lease_expires_at := Some 30000001,
     run_lease_version := 1\<rparr>"

definition demo_started :: runtime_store where
  "demo_started = demo_created\<lparr>db_runs := [(''run-1'', demo_started_run)],
     db_attempts := [(''att-1'', demo_attempt)]\<rparr>"

definition demo_event :: "int \<Rightarrow> event_type \<Rightarrow> runtime_phase option \<Rightarrow> actor_type
    \<Rightarrow> payload \<Rightarrow> instant \<Rightarrow> runtime_event" where
  "demo_event n t phase actor payload now =
     \<lparr>ev_id = ''run-1'', ev_run_id = ''run-1'', ev_attempt_id = ''att-1'', ev_sequence = n,
      ev_type = Known t, ev_phase = map_option Known phase, ev_actor_type = Known actor,
      ev_actor_name = None, ev_task_id = None, ev_execution_id = None, ev_tool_call_id = None,
      ev_evidence_ids = [], ev_schema_version = 1, ev_safe_payload = payload, ev_occurred_at = now\<rparr>"

definition demo_started_event :: runtime_event where
  "demo_started_event = demo_event 1 Ev_RUN_STARTED None RActor_RUNTIME [(''status'', PStr ''running'')] 2"

definition demo_logged :: runtime_store where
  "demo_logged = demo_started\<lparr>db_events := [(''run-1'', [demo_started_event])],
     db_published := [[demo_started_event]]\<rparr>"

definition demo_phase_events :: "runtime_event list" where
  "demo_phase_events =
     [demo_event 2 Ev_PHASE_COMPLETED (Some Phase_INTAKE) RActor_PHASE [] 3,
      demo_event 3 Ev_CHECKPOINT_CREATED (Some Phase_INTAKE) RActor_RUNTIME
        [(''checkpoint_id'', PStr ''ck-1''), (''event_sequence'', PInt 3),
         (''state_digest'', PStr demo_hex), (''projection_digest'', PStr demo_hex)] 3]"

definition demo_checkpoint :: runtime_checkpoint where
  "demo_checkpoint =
     \<lparr>ck_id = ''ck-1'', ck_run_id = ''run-1'', ck_attempt_id = ''att-1'',
      ck_completed_phase = Phase_INTAKE, ck_event_sequence = 3, ck_state_digest = demo_hex,
      ck_projection_digest = demo_hex, ck_resume_state = demo_resume, ck_created_at = 3,
      ck_schema_version = 1\<rparr>"

definition demo_phased_run :: runtime_run where
  "demo_phased_run = demo_started_run\<lparr>run_current_phase := Some Phase_INTAKE,
     run_latest_checkpoint_id := Some ''ck-1''\<rparr>"

definition demo_phased :: runtime_store where
  "demo_phased = demo_started\<lparr>db_runs := [(''run-1'', demo_phased_run)],
     db_events := [(''run-1'', demo_started_event # demo_phase_events)],
     db_checkpoints := [(''ck-1'', demo_checkpoint)],
     db_published := [[demo_started_event], demo_phase_events]\<rparr>"

definition demo_finished_run :: runtime_run where
  "demo_finished_run = demo_phased_run\<lparr>run_status_of := Run_COMPLETED, run_completed_at := Some 4,
     run_lease_owner := None, run_lease_expires_at := None\<rparr>"

definition demo_view :: frozen_projection where
  "demo_view =
     \<lparr>fz_investigation_id = ''inv-1'', fz_environment = ''prod'', fz_evidence = [],
      fz_hypotheses = [], fz_task_ids = [], fz_execution_ids = [], fz_tool_call_ids = [],
      fz_findings = [], fz_review = None, fz_report = None, fz_action_ids = [],
      fz_verification_ids = [], fz_contract_version = None, fz_activated = True,
      fz_runtime_run_id = None, fz_active_runtime_run_id = None,
      fz_source_investigation_id = None, fz_diagnostic_status = None, fz_authority_mode = None,
      fz_lead_decision = None, fz_final_decision = None, fz_contract_revision = Round_1,
      fz_critic_assessments = [], fz_usage = [],
      fz_checkpoint_projections = [(''ck-1'', demo_hex)], fz_integrity = demo_hex\<rparr>"

definition demo_finished_event :: runtime_event where
  "demo_finished_event =
     demo_event 4 Ev_RUN_COMPLETED None RActor_RUNTIME [(''status'', PStr ''completed'')] 4"

definition demo_finished :: runtime_store where
  "demo_finished = demo_phased\<lparr>
     db_repo := demo_repo\<lparr>repo_records := [(''inv-1'', demo_record\<lparr>ir_status := Inv_COMPLETED,
       ir_updated_at := 4, ir_completed_at := Some 4\<rparr>)]\<rparr>,
     db_runs := [(''run-1'', demo_finished_run)],
     db_attempts := [(''att-1'', demo_attempt\<lparr>att_status_of := Att_COMPLETED,
       att_completed_at := Some 4\<rparr>)],
     db_events := [(''run-1'', demo_started_event # demo_phase_events @ [demo_finished_event])],
     db_frozen := [(''run-1'', demo_view)],
     db_published := [[demo_started_event], demo_phase_events, [demo_finished_event]]\<rparr>"

lemmas demo_defs = demo_hex_def demo_incident_def demo_record_def demo_repo_def demo_run_def
  demo_attempt_def demo_frozen_ext_def demo_digest_ext_def demo_dump_ext_def demo_env_def demo_store_def
  demo_created_def demo_started_run_def demo_started_def demo_command_def demo_mutation_def
  demo_resume_def demo_phase_commit_def demo_event_def demo_started_event_def demo_logged_def
  demo_phase_events_def demo_checkpoint_def demo_phased_run_def demo_phased_def
  demo_terminal_commit_def demo_finished_run_def demo_view_def
  demo_finished_event_def demo_finished_def

text \<open>
  Evaluating the redaction patterns is the slow part of a witness; the texts the samples use
  are evaluated once and looked up from then on.
\<close>

definition demo_redactions :: "(string, string) dict" where
  "demo_redactions = map (\<lambda>v. (v, v)) 
     [''prod'', ''running'', ''completed'', ''interrupted'', ''lease_lost'', ''read_logs'', ''agent'']"

definition redact_by_patterns :: "string \<Rightarrow> string" where
  "redact_by_patterns = redact_text"

lemma redact_by_patterns_code [code]:
  "redact_by_patterns v =
     (let v1 = re_sub credential_url_rx (\<lambda>_ _. ''[REDACTED_URL]'') v;
          v2 = re_sub query_url_rx (\<lambda>_ _. ''[REDACTED_URL]'') v1;
          v3 = re_sub provider_credential_rx (\<lambda>_ _. ''[REDACTED]'') v2;
          v4 = re_sub bearer_rx (\<lambda>_ _. ''[REDACTED]'') v3;
          v5 = re_sub encoded_assignment_rx redact_encoded_assignment v4;
          v6 = re_sub identifier_assignment_rx redact_identifier_assignment v5;
          v7 = re_sub json_assignment_rx redact_json_assignment v6;
          v8 = re_sub assignment_rx redact_assignment v7;
          v9 = re_sub email_rx (\<lambda>_ _. ''[REDACTED_EMAIL]'') v8;
          v10 = re_sub windows_path_rx (\<lambda>_ _. ''[REDACTED_PATH]'') v9
      in re_sub posix_path_rx (\<lambda>_ _. ''[REDACTED_PATH]'') v10)"
  by (simp add: redact_by_patterns_def redact_text_def)

lemma demo_texts_safe:
  "redact_text ''prod'' = ''prod''" "redact_text ''running'' = ''running''"
  "redact_text ''completed'' = ''completed''" "redact_text ''interrupted'' = ''interrupted''"
  "redact_text ''lease_lost'' = ''lease_lost''" "redact_text ''read_logs'' = ''read_logs''"
  "redact_text ''agent'' = ''agent''"
  by code_simp+

lemma redact_text_known [code]:
  "redact_text v = (case dict_get demo_redactions v of Some w \<Rightarrow> w | None \<Rightarrow> redact_by_patterns v)"
  by (simp add: redact_by_patterns_def demo_redactions_def demo_texts_safe)

lemma demo_created_result: "create_run (demo_env 0) demo_run demo_store = (demo_created, Inr demo_run)"
  by code_simp

lemma demo_started_result:
  "acquire_lease_and_create_attempt (demo_env 1) ''run-1'' demo_attempt ''worker-a'' Run_CREATED demo_created
     = (demo_started, Inr (demo_started_run, demo_attempt))"
  by code_simp

lemma demo_logged_result:
  "append_event_command (demo_env 2) demo_command demo_started = (demo_logged, Inr demo_started_event)"
  by code_simp

lemma demo_phased_result:
  "commit_phase (demo_env 3) demo_phase_commit demo_logged = (demo_phased, Inr demo_checkpoint)"
  by code_simp

text \<open>The terminal commit is evaluated in three parts: its checks, its view, its writes.\<close>

lemma prepared_terminal:
  assumes "require_run s (tx_run_id c) = Inr r" and "owns_projection (db_repo s) r = Inr owns"
    and "run_status_of r = tx_expected_run_status c"
    and "validate_fence (en_now env) r (Some (tx_lease_owner c)) (Some (tx_lease_version c)) = Inr ()"
    and "attempt_in s (tx_attempt_id c) (run_id r) (tx_expected_attempt_status c)"
    and "ensure_run_transition (run_status_of r) (tx_target_run_status c) = Inr ()"
    and "ensure_attempt_transition (tx_expected_attempt_status c) (tx_target_attempt_status c) = Inr ()"
    and "terminal_events env (run_id r) (tx_attempt_id c) (int (length (events_of s (run_id r))))
           (tx_events c) = Inr events"
    and "freeze_for env (db_repo s) r = Inr view"
    and "finalize_frozen_projection (en_frozen env) view (checkpoints_of s (run_id r)) = Inr frozen"
    and "hook (en_fault env) ''persistence_mid_transaction'' = Inr ()"
    and "hook (en_failpoint env) ''persistence_mid_transaction'' = Inr ()"
  shows "prepare_terminal env c s = Inr (r, owns, events, frozen)"
  using assms by (simp add: prepare_terminal_def result_eval)

lemma demo_frozen:
  "freeze_for (demo_env 4) (db_repo demo_phased) demo_phased_run
     = Inr (demo_view\<lparr>fz_checkpoint_projections := []\<rparr>)"
  by code_simp

lemma demo_finalized:
  "finalize_frozen_projection (en_frozen (demo_env 4)) (demo_view\<lparr>fz_checkpoint_projections := []\<rparr>)
     (checkpoints_of demo_phased (run_id demo_phased_run)) = Inr demo_view"
  by code_simp

lemma demo_prepared:
  "prepare_terminal (demo_env 4) demo_terminal_commit demo_phased
     = Inr (demo_phased_run, True, [demo_finished_event], demo_view)"
  by (rule prepared_terminal [OF _ _ _ _ _ _ _ _ demo_frozen demo_finalized]) code_simp+

lemma demo_finished_result:
  "commit_terminal (demo_env 4) demo_terminal_commit demo_phased = (demo_finished, Inr demo_finished_run)"
  unfolding commit_terminal_def demo_prepared sum.case prod.case by code_simp

end
