(* ===== verification/Store_Properties.thy ===== *)
theory Store_Properties
  imports Store_Machine Samples
begin

text \<open>
  Properties of every run of the runtime store: the invariants of reachable stores, what no
  later operation can change, and the fencing of workers whose lease is gone.
\<close>

section \<open>Reachable sample states\<close>

lemma demo_init: "init_store demo_store"
  by (simp add: demo_store_def)

lemma demo_steps:
  "store_step demo_store demo_created" "store_step demo_created demo_started"
  "store_step demo_started demo_logged" "store_step demo_logged demo_phased"
  "store_step demo_phased demo_finished"
  by (rule Step_create_run [OF _ demo_created_result], simp add: fresh_run_def demo_run_def)
     (rule Step_start [OF demo_started_result] Step_append_event [OF demo_logged_result]
        Step_commit_phase [OF demo_phased_result] Step_commit_terminal [OF demo_finished_result])+

lemma demo_later:
  "store_step\<^sup>*\<^sup>* demo_store demo_started" "store_step\<^sup>*\<^sup>* demo_store demo_phased"
  "store_step\<^sup>*\<^sup>* demo_store demo_finished" "store_step\<^sup>*\<^sup>* demo_started demo_phased"
  "store_step\<^sup>*\<^sup>* demo_phased demo_finished"
  using demo_steps by (meson converse_rtranclp_into_rtranclp rtranclp.rtrancl_refl)+

lemma demo_runs:
  "get_run demo_started ''run-1'' = Inr demo_started_run"
  "get_run demo_phased ''run-1'' = Inr demo_phased_run"
  "get_run demo_finished ''run-1'' = Inr demo_finished_run"
  by (simp_all add: get_run_def require_run_def demo_started_def demo_phased_def demo_finished_def
      demo_store_def)

lemma demo_run_fields [simp]:
  "run_id demo_started_run = ''run-1''" "run_id demo_phased_run = ''run-1''"
  "run_id demo_finished_run = ''run-1''"
  "run_kind_of demo_started_run = Kind_LIVE" "run_kind_of demo_phased_run = Kind_LIVE"
  "run_status_of demo_started_run = Run_RUNNING" "run_status_of demo_phased_run = Run_RUNNING"
  "run_status_of demo_finished_run = Run_COMPLETED"
  "run_contract_version demo_phased_run = Version_V10_LEGACY"
  "run_lease_version demo_started_run = 1" "run_lease_version demo_phased_run = 1"
  "run_lease_version demo_finished_run = 1"
  by (simp_all add: demo_run_def demo_started_run_def demo_phased_run_def demo_finished_run_def)

lemma demo_views:
  "attempts_of demo_started ''run-1'' = [demo_attempt]"
  "get_attempt demo_started ''att-1'' = Inr demo_attempt"
  "events_of demo_phased ''run-1'' = demo_started_event # demo_phase_events"
  "events_of demo_finished ''run-1'' = demo_started_event # demo_phase_events @ [demo_finished_event]"
  "checkpoints_of demo_phased ''run-1'' = [demo_checkpoint]"
  "checkpoints_of demo_finished ''run-1'' = [demo_checkpoint]"
  by (simp_all add: attempts_of_def get_attempt_def require_attempt_def demo_started_def demo_phased_def
      demo_finished_def demo_created_def demo_store_def empty_store_def events_of_def
      checkpoints_of_def demo_attempt_def demo_checkpoint_def)

lemmas reachable_parts = reachable_wf [THEN wf_storeD(1)]
  reachable_wf [THEN wf_storeD(2)] reachable_wf [THEN wf_storeD(3)]
  reachable_wf [THEN wf_storeD(4)] reachable_wf [THEN wf_storeD(5)]
  reachable_wf [THEN wf_storeD(6)] reachable_wf [THEN wf_storeD(7)]

section \<open>Invariants of reachable stores\<close>

text \<open>C1: An investigation never has two active live runs.  In every store reachable from an
  empty one, by any operations with any results, two runs of one investigation that are live
  and not terminal are the same run.\<close>

theorem one_active_live_run:
  assumes "init_store s0" and "store_step\<^sup>*\<^sup>* s0 s"
    and "get_run s k = Inr r" and "get_run s k' = Inr r'"
    and "run_investigation_id r = run_investigation_id r'"
    and "run_kind_of r = Kind_LIVE" and "\<not> is_terminal (run_status_of r)"
    and "run_kind_of r' = Kind_LIVE" and "\<not> is_terminal (run_status_of r')"
  shows "k = k'"
  using one_active_liveD [OF reachable_parts(2) [OF assms(1,2)], of k r k' r'] assms(3-9)
  by (simp add: get_run_def result_simps active_live_iff)

theorem one_active_live_run_witness:
  "{k. get_run demo_started k = Inr demo_started_run} = {''run-1''}"
  using one_active_live_run [OF demo_init demo_later(1) _ demo_runs(1), of _ demo_started_run]
  by (auto simp: demo_runs)

text \<open>C2: A run has at most one running attempt, an attempt belongs to a known run, it only
  runs while its run is running or cancelling, and the attempts of a run are numbered
  1, 2, 3, ... in the order they were created.\<close>

theorem attempts_of_reachable_store:
  assumes "init_store s0" and "store_step\<^sup>*\<^sup>* s0 s"
  shows "map att_number (attempts_of s rid) = map int [1 ..< Suc (length (attempts_of s rid))]
    \<and> (\<forall>k a k' a'. get_attempt s k = Inr a \<and> get_attempt s k' = Inr a' \<and> att_run_id a = att_run_id a'
         \<and> att_status_of a = Att_RUNNING \<and> att_status_of a' = Att_RUNNING \<longrightarrow> k = k')
    \<and> (\<forall>k a. get_attempt s k = Inr a \<longrightarrow> (\<exists>r. get_run s (att_run_id a) = Inr r
         \<and> (att_status_of a = Att_RUNNING \<longrightarrow> run_status_of r \<in> {Run_RUNNING, Run_CANCELLING})))"
proof (intro conjI)
  show "map att_number (attempts_of s rid) = map int [1 ..< Suc (length (attempts_of s rid))]"
    using reachable_parts(5) [OF assms] by (simp add: attempts_numbered_def)
  show "\<forall>k a k' a'. get_attempt s k = Inr a \<and> get_attempt s k' = Inr a' \<and> att_run_id a = att_run_id a'
      \<and> att_status_of a = Att_RUNNING \<and> att_status_of a' = Att_RUNNING \<longrightarrow> k = k'"
    using one_running_attemptD [OF reachable_parts(4) [OF assms]]
    unfolding get_attempt_def require_attempt_Inr by blast
  show "\<forall>k a. get_attempt s k = Inr a \<longrightarrow> (\<exists>r. get_run s (att_run_id a) = Inr r
      \<and> (att_status_of a = Att_RUNNING \<longrightarrow> run_status_of r \<in> {Run_RUNNING, Run_CANCELLING}))"
    using attempts_okD [OF reachable_parts(3) [OF assms]]
    unfolding get_attempt_def get_run_def require_attempt_Inr require_run_Inr by blast
qed

theorem attempts_of_reachable_store_witness:
  "map att_number (attempts_of demo_started ''run-1'') = [1]
   \<and> (\<exists>r. get_run demo_started ''run-1'' = Inr r \<and> run_status_of r \<in> {Run_RUNNING, Run_CANCELLING})"
proof
  show "map att_number (attempts_of demo_started ''run-1'') = [1]"
    using attempts_of_reachable_store [OF demo_init demo_later(1), of "''run-1''", THEN conjunct1]
    by (simp add: demo_views)
  show "\<exists>r. get_run demo_started ''run-1'' = Inr r \<and> run_status_of r \<in> {Run_RUNNING, Run_CANCELLING}"
    using attempts_of_reachable_store [OF demo_init demo_later(1), of "''run-1''",
        THEN conjunct2, THEN conjunct2, rule_format, OF demo_views(2)]
    by (auto simp: demo_attempt_def)
qed

text \<open>C3: A journal has no gap and no foreign event: the events of a known run carry its id
  and the sequence numbers 1, 2, 3, ... in order, and a run is known exactly when its
  journal is.\<close>

theorem journal_gapless:
  assumes "init_store s0" and "store_step\<^sup>*\<^sup>* s0 s"
  shows "map ev_sequence (events_of s rid) = map int [1 ..< Suc (length (events_of s rid))]
    \<and> (\<forall>e \<in> set (events_of s rid). ev_run_id e = rid)
    \<and> (dict_get (db_events s) rid = None \<longleftrightarrow> dict_get (db_runs s) rid = None)"
proof (cases "dict_get (db_events s) rid")
  case None
  moreover from this have "dict_get (db_runs s) rid = None"
    using reachable_parts(6) [OF assms] unfolding journals_ok_def by blast
  ultimately show ?thesis by (simp add: events_of_def)
next
  case (Some es)
  then have "numbered_from 0 es \<and> (\<forall>e \<in> set es. ev_run_id e = rid)"
    "(dict_get (db_events s) rid = None) = (dict_get (db_runs s) rid = None)"
    using reachable_parts(6) [OF assms] unfolding journals_ok_def by blast+
  moreover have "events_of s rid = es" using Some by (simp add: events_of_def)
  ultimately show ?thesis by (simp add: numbered_from_def del: upt_Suc)
qed

theorem journal_gapless_witness:
  "map (\<lambda>e. (ev_sequence e, ev_run_id e)) (events_of demo_finished ''run-1'')
     = [(1, ''run-1''), (2, ''run-1''), (3, ''run-1''), (4, ''run-1'')]"
  using journal_gapless [OF demo_init demo_later(3), of "''run-1''"]
  by (simp add: demo_views demo_phase_events_def)

text \<open>C4: The checkpoints of a run are a prefix of its phase order.  In every reachable store
  they were completed in the order of the run's contract version, none skipped and none
  twice, at increasing positions of the journal; the run's latest checkpoint is the last of
  them.\<close>

theorem checkpoints_follow_phase_order:
  assumes "init_store s0" and "store_step\<^sup>*\<^sup>* s0 s" and "get_run s rid = Inr r"
  shows "(\<exists>n. map ck_completed_phase (checkpoints_of s rid)
            = take n (phase_order_for (run_contract_version r)))
    \<and> sorted_wrt (<) (map ck_event_sequence (checkpoints_of s rid))
    \<and> (\<forall>c \<in> set (checkpoints_of s rid). 1 \<le> ck_event_sequence c
          \<and> ck_event_sequence c \<le> int (length (events_of s rid)))
    \<and> run_latest_checkpoint_id r
        = (if checkpoints_of s rid = [] then None else Some (ck_id (last (checkpoints_of s rid))))"
proof -
  have r: "dict_get (db_runs s) rid = Some r" using assms(3) by (simp add: get_run_def result_simps)
  have id: "run_id r = rid"
    using run_of_key [OF reachable_wf [OF assms(1,2)] r] .
  have "run_checkpoints_ok s r" using reachable_parts(7) [OF assms(1,2)] r
    unfolding checkpoints_ok_def by blast
  then show ?thesis
    unfolding run_checkpoints_ok_def id run_order_def Let_def by blast
qed

theorem checkpoints_follow_phase_order_witness:
  "get_run demo_finished ''run-1'' = Inr demo_finished_run
   \<and> map ck_completed_phase (checkpoints_of demo_finished ''run-1'') = [Phase_INTAKE]
   \<and> run_latest_checkpoint_id demo_finished_run = Some ''ck-1''"
  using checkpoints_follow_phase_order [OF demo_init demo_later(3) demo_runs(3)]
  by (simp add: demo_runs demo_views) (simp add: demo_checkpoint_def)

end
