(* ===== verification/Store_Safety.thy ===== *)
theory Store_Safety
  imports Store_Properties
begin

text \<open>
  What no later operation of the runtime store can undo, and what a worker whose lease is
  gone cannot do: terminal runs and journals, the progress of a run, lease fencing, and
  operations that fail.
\<close>

section \<open>Later states\<close>

lemma get_run_Inr [result_simps]: "get_run s rid = Inr r \<longleftrightarrow> dict_get (db_runs s) rid = Some r"
  by (simp add: get_run_def result_simps)

lemma get_attempt_Inr [result_simps]:
  "get_attempt s aid = Inr a \<longleftrightarrow> dict_get (db_attempts s) aid = Some a"
  by (simp add: get_attempt_def result_simps)

lemma get_checkpoint_Inr [result_simps]:
  "get_checkpoint s cid = Inr k \<longleftrightarrow> dict_get (db_checkpoints s) cid = Some k"
  by (simp add: get_checkpoint_def split: option.splits)

lemma events_of_Some: "dict_get (db_events s) rid = Some es \<Longrightarrow> events_of s rid = es"
  by (simp add: events_of_def)

lemmas later_parts = later_evolves [unfolded store_evolves_def, THEN conjunct1]
  later_evolves [unfolded store_evolves_def, THEN conjunct2, THEN conjunct1]
  later_evolves [unfolded store_evolves_def, THEN conjunct2, THEN conjunct2, THEN conjunct1]
  later_evolves [unfolded store_evolves_def, THEN conjunct2, THEN conjunct2, THEN conjunct2, THEN conjunct1]
  later_evolves [unfolded store_evolves_def, THEN conjunct2, THEN conjunct2, THEN conjunct2, THEN conjunct2]

lemma later_run:
  assumes "init_store s0" and "store_step\<^sup>*\<^sup>* s0 s" and "store_step\<^sup>*\<^sup>* s s'"
    and "get_run s rid = Inr r"
  obtains r' where "get_run s' rid = Inr r'" and "run_evolves r r'"
  using later_parts(1) [OF assms(1-3)] assms(4) by (auto simp: runs_evolve_def get_run_Inr)

text \<open>The checkpoints of a run, its position and its latest checkpoint.\<close>

lemma sorted_last_max: "sorted (map f xs) \<Longrightarrow> x \<in> set xs \<Longrightarrow> xs \<noteq> [] \<Longrightarrow> f x \<le> f (last xs)"
  by (induction xs) auto

lemma index_of_Some_nth: "index_of xs x = Some i \<Longrightarrow> i < length xs \<and> xs ! i = x"
  by (induction xs arbitrary: i) (auto split: if_splits)

lemma checkpoints_of_run:
  assumes "wf_store s" and "get_run s rid = Inr r"
  shows "run_id r = rid" "length (checkpoints_of s rid) = phases_done r"
    "sort_key ck_event_sequence (checkpoints_of s rid) = checkpoints_of s rid"
    "run_latest_checkpoint_id r
       = (if checkpoints_of s rid = [] then None else Some (ck_id (last (checkpoints_of s rid))))"
    "run_current_phase r = None \<longleftrightarrow> checkpoints_of s rid = []"
    "checkpoints_of s rid \<noteq> [] \<Longrightarrow>
       ck_completed_phase (last (checkpoints_of s rid)) = run_order r ! (phases_done r - 1)"
    "map ck_completed_phase (checkpoints_of s rid) = take (phases_done r) (run_order r)"
    "sorted (map ck_event_sequence (checkpoints_of s rid))"
proof -
  have r: "dict_get (db_runs s) rid = Some r" using assms(2) by (simp add: get_run_Inr)
  show id: "run_id r = rid" using run_known [OF assms(1) r] by blast
  let ?ks = "checkpoints_of s rid"
  have ok: "map ck_completed_phase ?ks = take (phases_done r) (run_order r)"
    "run_current_phase r = None \<longleftrightarrow> ?ks = []" "sorted_wrt (<) (map ck_event_sequence ?ks)"
    "run_latest_checkpoint_id r = (if ?ks = [] then None else Some (ck_id (last ?ks)))"
    using wf_storeD(7) [OF assms(1)] r
    unfolding checkpoints_ok_def run_checkpoints_ok_def Let_def id [symmetric] by blast+
  show "run_latest_checkpoint_id r = (if ?ks = [] then None else Some (ck_id (last ?ks)))"
    "run_current_phase r = None \<longleftrightarrow> ?ks = []"
    "map ck_completed_phase ?ks = take (phases_done r) (run_order r)" by (fact ok)+
  have le: "phases_done r \<le> length (run_order r)"
    by (auto simp: phases_done_def split: option.splits dest!: index_of_Some_nth)
  show len: "length ?ks = phases_done r"
    using arg_cong [where f = length, OF ok(1)] le by simp
  show sorted: "sorted (map ck_event_sequence ?ks)"
    using ok(3) by (simp add: strict_sorted_imp_sorted)
  then show "sort_key ck_event_sequence ?ks = ?ks" by (rule sort_key_sorted_id)
  show "ck_completed_phase (last ?ks) = run_order r ! (phases_done r - 1)" if "?ks \<noteq> []"
  proof -
    have "ck_completed_phase (last ?ks) = map ck_completed_phase ?ks ! (length ?ks - 1)"
      using that by (simp add: last_conv_nth)
    also have "\<dots> = run_order r ! (phases_done r - 1)" using that ok(1) len le
      by (metis One_nat_def diff_less length_greater_0_conv less_Suc0 nth_take)
    finally show ?thesis .
  qed
qed

lemma latest_checkpoint:
  assumes "wf_store s" and "get_run s rid = Inr r" and "run_latest_checkpoint_id r = Some cid"
    and "get_checkpoint s cid = Inr k"
  shows "checkpoints_of s rid \<noteq> []" "k = last (checkpoints_of s rid)" "ck_id k = cid"
    "ck_run_id k = rid" "run_current_phase r \<noteq> None"
proof -
  note d = checkpoints_of_run [OF assms(1,2)]
  show ks: "checkpoints_of s rid \<noteq> []" using d(4) assms(3) by (auto split: if_splits)
  then show "run_current_phase r \<noteq> None" using d(5) by simp
  have cid: "cid = ck_id (last (checkpoints_of s rid))" using d(4) assms(3) ks by simp
  let ?l = "last (checkpoints_of s rid)"
  have "?l \<in> set (checkpoints_of s rid)" using ks by (rule last_in_set)
  then have l: "?l \<in> set (dict_values (db_checkpoints s))" "ck_run_id ?l = rid"
    by (auto simp: checkpoints_of_def)
  have keys: "distinct (dict_keys (db_checkpoints s))"
    "\<And>j c. dict_get (db_checkpoints s) j = Some c \<Longrightarrow> ck_id c = j"
    using wf_storeD(7) [OF assms(1)] unfolding checkpoints_ok_def by blast+
  obtain j where j: "dict_get (db_checkpoints s) j = Some ?l"
    using l(1) dict_value_key [OF keys(1)] by blast
  then have "j = cid" using keys(2) cid by blast
  then show k: "k = ?l" using j assms(4) by (simp add: get_checkpoint_Inr)
  show "ck_id k = cid" "ck_run_id k = rid" using k cid l(2) by simp_all
qed

text \<open>C8: A terminal run is final.  Once a run is completed, failed or cancelled, no later
  operation changes any field of it or adds an event to its journal.\<close>

theorem terminal_run_final:
  assumes "init_store s0" and "store_step\<^sup>*\<^sup>* s0 s" and "store_step\<^sup>*\<^sup>* s s'"
    and "get_run s rid = Inr r" and "is_terminal (run_status_of r)"
  shows "get_run s' rid = Inr r \<and> events_of s' rid = events_of s rid"
  using later_parts(5) [OF assms(1-3)] assms(4,5)
  by (simp add: terminal_kept_def get_run_Inr events_of_def)

theorem terminal_run_final_witness:
  "get_run (set_repo empty_repository demo_finished) ''run-1'' = Inr demo_finished_run
   \<and> length (events_of (set_repo empty_repository demo_finished) ''run-1'') = 4"
proof -
  have "store_step\<^sup>*\<^sup>* demo_finished (set_repo empty_repository demo_finished)"
    by (rule r_into_rtranclp) (rule Step_repository)
  from terminal_run_final [OF demo_init demo_later(3) this demo_runs(3)] show ?thesis
    by (simp add: demo_views demo_phase_events_def)
qed

text \<open>C9: Journals are append-only and checkpoints are immutable.  In every later state the
  journal of a run is the old journal with events added at its end, and every checkpoint is
  still found under its id, unchanged.\<close>

theorem journal_append_only:
  assumes "init_store s0" and "store_step\<^sup>*\<^sup>* s0 s" and "store_step\<^sup>*\<^sup>* s s'"
  shows "(\<exists>fs. events_of s' rid = events_of s rid @ fs)
    \<and> (\<forall>cid k. get_checkpoint s cid = Inr k \<longrightarrow> get_checkpoint s' cid = Inr k)"
proof (intro conjI)
  show "\<exists>fs. events_of s' rid = events_of s rid @ fs"
  proof (cases "dict_get (db_events s) rid")
    case (Some es)
    then obtain fs where "dict_get (db_events s') rid = Some (es @ fs)"
      using later_parts(3) [OF assms] unfolding journals_grow_def by blast
    with Some show ?thesis by (simp add: events_of_def)
  qed (simp add: events_of_def)
  show "\<forall>cid k. get_checkpoint s cid = Inr k \<longrightarrow> get_checkpoint s' cid = Inr k"
    using later_parts(4) [OF assms] by (simp add: checkpoints_kept_def get_checkpoint_Inr)
qed

theorem journal_append_only_witness:
  "(\<exists>fs. events_of demo_finished ''run-1'' = events_of demo_phased ''run-1'' @ fs)
   \<and> get_checkpoint demo_finished ''ck-1'' = Inr demo_checkpoint"
proof -
  have "get_checkpoint demo_phased ''ck-1'' = Inr demo_checkpoint"
    by (simp add: get_checkpoint_def demo_phased_def)
  then show ?thesis
    using journal_append_only [OF demo_init demo_later(2,5), of "''run-1''"] by blast
qed

lemma later_checkpoints:
  assumes wf: "wf_store s" "wf_store s'" and kept: "checkpoints_kept s s'"
    and run: "get_run s rid = Inr r" "get_run s' rid = Inr r'" and e: "run_evolves r r'"
  shows "take (length (checkpoints_of s rid)) (map ck_completed_phase (checkpoints_of s' rid))
      = map ck_completed_phase (checkpoints_of s rid)"
    and "set (checkpoints_of s rid) \<subseteq> set (checkpoints_of s' rid)"
    and "run_latest_checkpoint_id r = Some cid \<Longrightarrow> \<exists>k k' cid'. get_checkpoint s' cid = Inr k
      \<and> run_latest_checkpoint_id r' = Some cid' \<and> get_checkpoint s' cid' = Inr k'
      \<and> ck_event_sequence k \<le> ck_event_sequence k'"
proof -
  note d = checkpoints_of_run [OF wf(1) run(1)] and d' = checkpoints_of_run [OF wf(2) run(2)]
  have same: "run_order r' = run_order r" "phases_done r \<le> phases_done r'"
    using e by (simp_all add: run_evolves_def run_order_def)
  show "take (length (checkpoints_of s rid)) (map ck_completed_phase (checkpoints_of s' rid))
      = map ck_completed_phase (checkpoints_of s rid)"
    unfolding d(7) d'(7) same(1) d(2) using same(2) by (simp add: min_def)
  have keys: "distinct (dict_keys (db_checkpoints s))" "distinct (dict_keys (db_checkpoints s'))"
    using wf_storeD(7) [OF wf(1)] wf_storeD(7) [OF wf(2)] unfolding checkpoints_ok_def by blast+
  show sub: "set (checkpoints_of s rid) \<subseteq> set (checkpoints_of s' rid)"
    using kept dict_value_key [OF keys(1)] dict_value_key [OF keys(2)]
    unfolding checkpoints_of_def checkpoints_kept_def by auto
  assume cid: "run_latest_checkpoint_id r = Some cid"
  let ?k = "last (checkpoints_of s rid)" and ?k' = "last (checkpoints_of s' rid)"
  have ks: "checkpoints_of s rid \<noteq> []" "cid = ck_id ?k" using d(4) cid by (auto split: if_splits)
  then have k: "?k \<in> set (checkpoints_of s' rid)" using sub last_in_set by blast
  then have ks': "checkpoints_of s' rid \<noteq> []" by auto
  have get: "get_checkpoint s' (ck_id c) = Inr c" if "c \<in> set (checkpoints_of s' rid)" for c
  proof -
    have "c \<in> set (dict_values (db_checkpoints s'))" using that by (simp add: checkpoints_of_def)
    then obtain j where j: "dict_get (db_checkpoints s') j = Some c" using dict_value_key [OF keys(2)] by blast
    then have "ck_id c = j" using wf_storeD(7) [OF wf(2)] unfolding checkpoints_ok_def by blast
    with j show ?thesis by (simp add: get_checkpoint_Inr)
  qed
  have "ck_event_sequence ?k \<le> ck_event_sequence ?k'"
    using d'(8) k ks' by (rule sorted_last_max)
  then show "\<exists>k k' cid'. get_checkpoint s' cid = Inr k
      \<and> run_latest_checkpoint_id r' = Some cid' \<and> get_checkpoint s' cid' = Inr k'
      \<and> ck_event_sequence k \<le> ck_event_sequence k'"
    using get [OF k] get [OF last_in_set [OF ks']] d'(4) ks(2) ks' by auto
qed

text \<open>C15: A run only moves forward.  In every later state it is still known, with the same
  investigation, kind, contract version, budgets and execution contract; its status is one the
  transition table reaches from the old one; its lease version has not decreased; its
  remaining model turns are the old ones or fewer, never negative; the phases it had
  checkpointed are still its first checkpointed phases, by the same checkpoints; and its latest
  checkpoint is the old one or one at a later position of the journal.\<close>

theorem run_moves_forward:
  assumes "init_store s0" and "store_step\<^sup>*\<^sup>* s0 s" and "store_step\<^sup>*\<^sup>* s s'"
    and "get_run s rid = Inr r"
  shows "\<exists>r'. get_run s' rid = Inr r' \<and> run_investigation_id r' = run_investigation_id r
    \<and> run_kind_of r' = run_kind_of r \<and> run_contract_version r' = run_contract_version r
    \<and> run_execution_contract r' = run_execution_contract r
    \<and> run_tool_budget r' = run_tool_budget r \<and> run_token_budget r' = run_token_budget r
    \<and> (\<lambda>a b. b \<in> set (allowed_transitions a))\<^sup>*\<^sup>* (run_status_of r) (run_status_of r')
    \<and> run_lease_version r \<le> run_lease_version r'
    \<and> (case run_remaining_model_turns r of None \<Rightarrow> run_remaining_model_turns r' = None
       | Some n \<Rightarrow> (\<exists>m. run_remaining_model_turns r' = Some m \<and> (m = n \<or> 0 \<le> m \<and> m < n)))
    \<and> take (length (checkpoints_of s rid)) (map ck_completed_phase (checkpoints_of s' rid))
        = map ck_completed_phase (checkpoints_of s rid)
    \<and> set (checkpoints_of s rid) \<subseteq> set (checkpoints_of s' rid)
    \<and> (case run_latest_checkpoint_id r of None \<Rightarrow> True
       | Some cid \<Rightarrow> (\<exists>k k' cid'. get_checkpoint s' cid = Inr k
            \<and> run_latest_checkpoint_id r' = Some cid' \<and> get_checkpoint s' cid' = Inr k'
            \<and> ck_event_sequence k \<le> ck_event_sequence k'))"
proof -
  obtain r' where r': "get_run s' rid = Inr r'" and e: "run_evolves r r'"
    using later_run [OF assms] .
  have "(\<lambda>a b. b \<in> set (allowed_transitions a)) = status_step"
    by (simp add: fun_eq_iff status_step_def)
  moreover have "case run_remaining_model_turns r of None \<Rightarrow> run_remaining_model_turns r' = None
     | Some n \<Rightarrow> (\<exists>m. run_remaining_model_turns r' = Some m \<and> (m = n \<or> 0 \<le> m \<and> m < n))"
    using e by (auto simp: run_evolves_def turns_evolve_def split: option.splits)
  moreover note later_checkpoints [OF reachable_wf [OF assms(1,2)]
      reachable_wf [OF assms(1) rtranclp_trans [OF assms(2,3)]] later_parts(4) [OF assms(1-3)] assms(4) r' e]
  ultimately show ?thesis using r' e by (auto simp: run_evolves_def split: option.splits)
qed

theorem run_moves_forward_witness:
  "get_run demo_finished ''run-1'' = Inr demo_finished_run
   \<and> (\<lambda>a b. b \<in> set (allowed_transitions a))\<^sup>*\<^sup>* Run_RUNNING (run_status_of demo_finished_run)"
  using run_moves_forward [OF demo_init demo_later(2,5) demo_runs(2)] by (simp add: demo_runs)

text \<open>C16: An attempt never starts again.  In every later state an attempt keeps its run and
  its number, and one that is no longer running is not changed in any field: its status, its
  end time and its failure category stay.\<close>

theorem attempt_never_restarts:
  assumes "init_store s0" and "store_step\<^sup>*\<^sup>* s0 s" and "store_step\<^sup>*\<^sup>* s s'"
    and "get_attempt s aid = Inr a"
  shows "\<exists>a'. get_attempt s' aid = Inr a' \<and> att_run_id a' = att_run_id a
    \<and> att_number a' = att_number a
    \<and> (a' = a \<or> att_status_of a = Att_RUNNING)"
  using later_parts(2) [OF assms(1-3)] assms(4)
  by (auto simp: attempts_evolve_def attempt_evolves_def get_attempt_Inr)

theorem attempt_never_restarts_witness:
  "\<exists>a'. get_attempt demo_finished ''att-1'' = Inr a' \<and> att_number a' = 1"
proof -
  have a: "get_attempt demo_phased ''att-1'' = Inr demo_attempt"
    by (simp add: get_attempt_Inr demo_phased_def demo_started_def)
  then show ?thesis
    using attempt_never_restarts [OF demo_init demo_later(2,5) a] by (auto simp: demo_attempt_def)
qed

end
