(* ===== verification/Store_Failures.thy ===== *)
theory Store_Failures
  imports Store_Safety
begin

text \<open>
  Operations that fail.  Each operation that reports an error, the few listed in the header
  apart, leaves the whole store as it was, and an operation under a lease fence only succeeds
  for the worker that holds the lease.
\<close>

section \<open>Who may write\<close>

lemma create_attempt_fenced:
  assumes "create_attempt env a w v s = (s', Inr b)" and "dict_get (db_runs s) (att_run_id a) = Some r"
  shows "lease_holds (en_now env) r w v"
  using assms
  by (auto simp: create_attempt_def create_attempt_checks_def result_simps split: sum.splits)

lemma transition_attempt_fenced:
  assumes "transition_attempt env aid e t w v s = (s', Inr b)"
    and "dict_get (db_attempts s) aid = Some a" and "dict_get (db_runs s) (att_run_id a) = Some r"
  shows "lease_holds (en_now env) r w v"
  using assms
  by (auto simp: transition_attempt_def result_simps Let_def split: sum.splits)

lemma transition_run_fenced:
  assumes "transition_run env rid e t (Some w) (Some v) s = (s', Inr b)"
    and "dict_get (db_runs s) rid = Some r"
  shows "lease_holds (en_now env) r w v"
  using assms by (auto simp: transition_run_def result_simps split: sum.splits)

lemma append_event_fenced:
  assumes "append_event_command env c s = (s', Inr e)" and "dict_get (db_runs s) (cmd_run_id c) = Some r"
  shows "lease_holds (en_now env) r (cmd_lease_owner c) (cmd_lease_version c)"
  using assms by (auto simp: append_event_command_def result_simps split: sum.splits)

lemma commit_terminal_fenced:
  assumes "commit_terminal env c s = (s', Inr b)" and "dict_get (db_runs s) (tx_run_id c) = Some r"
  shows "lease_holds (en_now env) r (tx_lease_owner c) (tx_lease_version c)"
proof -
  obtain x where "prepare_terminal env c s = Inr x"
    using assms(1) by (cases "prepare_terminal env c s") (auto simp: commit_terminal_def)
  then show ?thesis using assms(2) by (auto simp: prepare_terminal_def result_simps)
qed

lemma commit_tool_fenced:
  assumes "commit_tool env c s = (s', Inr b)" and "dict_get (db_runs s) (tm_run_id c) = Some r"
  shows "lease_holds (en_now env) r (tm_lease_owner c) (tm_lease_version c)"
proof -
  obtain q where "tool_commit_checks env c s = Inr q"
    using assms(1) by (cases "tool_commit_checks env c s") (auto simp: commit_tool_def)
  from tool_commit_checksD(1,3) [OF this] assms(2) show ?thesis by simp
qed

lemma reserve_model_turn_fenced:
  assumes "reserve_model_turn env rid w v s = (s', Inr n)" and "dict_get (db_runs s) rid = Some r"
  shows "lease_holds (en_now env) r w v"
proof -
  obtain q m where "reservable_turns env rid w v s = Inr (q, m)"
    using assms(1) by (cases "reservable_turns env rid w v s") (auto simp: reserve_model_turn_def)
  from reservable_turnsD(1,4) [OF this] assms(2) show ?thesis by simp
qed

lemmas fenced = create_attempt_fenced transition_attempt_fenced transition_run_fenced
  append_event_fenced commit_terminal_fenced commit_tool_fenced reserve_model_turn_fenced

section \<open>What a failure leaves behind\<close>

lemma transition_attempt_error: "transition_attempt env aid e t w v s = (s', Inl x) \<Longrightarrow> s' = s"
  by (auto simp: transition_attempt_def Let_def split: sum.splits)

lemma transition_run_error:
  assumes "transition_run env rid e t w v s = (s', Inl x)" shows "s' = s"
proof (rule ccontr)
  assume "s' \<noteq> s"
  then obtain r where "run_status_of r = e" "ensure_run_transition e t = Inr ()"
    "apply_transition env r t s = (s', Inl x)"
    using assms
    by (auto simp: transition_run_def and_then_def require_run_def result_simps
        split: sum.splits py_error.splits option.splits)
  then show False by (simp add: apply_transition_def Let_def)
qed

lemma append_event_error: "append_event_command env c s = (s', Inl x) \<Longrightarrow> s' = s"
  by (auto simp: append_event_command_def split: sum.splits)

lemma commit_tool_error: "commit_tool env c s = (s', Inl x) \<Longrightarrow> s' = s"
  by (erule commit_tool_cases) auto

lemma reserve_model_turn_error: "reserve_model_turn env rid w v s = (s', Inl x) \<Longrightarrow> s' = s"
  by (auto simp: reserve_model_turn_def split: sum.splits)

lemma commit_phase_error: "wf_store s \<Longrightarrow> commit_phase env c s = (s', Inl x) \<Longrightarrow> s' = s"
  by (erule commit_phase_cases) auto

lemma renew_lease_error: "renew_lease env rid w v s = (s', Inl x) \<Longrightarrow> s' = s"
  by (auto simp: renew_lease_def Let_def split: sum.splits if_splits)

lemma acquire_lease_error: "acquire_lease env rid w e s = (s', Inl x) \<Longrightarrow> s' = s"
  by (auto simp: acquire_lease_def split: sum.splits if_splits)

lemma set_trace_error: "set_attempt_trace_context aid t p s = (s', Inl x) \<Longrightarrow> s' = s"
  by (auto simp: set_attempt_trace_context_def split: sum.splits)

lemma set_locator_error: "set_benchmark_replay_locator rid l s = (s', Inl x) \<Longrightarrow> s' = s"
  by (auto simp: set_benchmark_replay_locator_def split: sum.splits)

lemma update_status_known:
  "repo_get repo iid = Inr ir \<Longrightarrow> \<exists>repo'. update_status iid st f now repo = (repo', Inr ())"
  by (simp add: update_status_def Let_def)

lemma freeze_for_known:
  "freeze_for env repo r = Inr p \<Longrightarrow> \<exists>ir. repo_get repo (run_investigation_id r) = Inr ir"
  by (auto simp: freeze_for_def freeze_business_projection_def result_simps)

lemma settle_investigation_known:
  "repo_get repo (run_investigation_id r) = Inr ir \<Longrightarrow>
     \<exists>repo'. settle_investigation env c r owns repo = (repo', Inr ())"
  using update_status_known by (auto simp: settle_investigation_def split: option.splits)

lemma repo_get_records: "repo_records repo' = repo_records repo \<Longrightarrow> repo_get repo' = repo_get repo"
  by (simp add: repo_get_def fun_eq_iff)

text \<open>A terminal commit fails before its first write or not at all.\<close>

lemma commit_terminal_error:
  assumes "wf_store s" and "commit_terminal env c s = (s', Inl x)" shows "s' = s"
proof (cases "prepare_terminal env c s")
  case (Inl e)
  with assms(2) show ?thesis by (simp add: commit_terminal_def)
next
  case (Inr y)
  obtain r owns events frozen where y: "y = (r, owns, events, frozen)" by (cases y)
  note p = prepare_terminal_known [OF assms(1) Inr [unfolded y]]
  let ?rf = "r\<lparr>run_failure_category := tx_failure_category c\<rparr>"
  obtain ir where ir: "repo_get (db_repo s) (run_investigation_id r) = Inr ir"
    using p(9) freeze_for_known by blast
  obtain s1 u where s1: "on_repo (if is_terminal (tx_target_run_status c)
      then interrupt_calls (en_now env) (terminal_message (tx_target_run_status c)) r
      else skip_op) s = (s1, u)" by fastforce
  have u: "u = Inr ()" using s1 by (rule close_calls_Inr)
  have "repo_records (db_repo s1) = repo_records (db_repo s)"
    using s1 by (auto simp: on_repo_def skip_op_def set_repo_def split: if_splits prod.splits
        dest: interrupt_calls_records)
  then have get1: "repo_get (db_repo s1) (run_investigation_id r) = Inr ir"
    using ir repo_get_records by metis
  let ?s2 = "set_attempt_failure (tx_attempt_id c) (tx_failure_category c) (append_events (run_id r) events s1)"
  obtain s3 v where ap: "apply_transition env ?rf (tx_target_run_status c) ?s2 = (s3, v)" by fastforce
  have v: "v = Inr (transitioned (en_now env) (tx_target_run_status c) ?rf)"
    using ap p(4) by (auto simp: apply_transition_def ensure_run_transition_def Let_def)
  have "db_repo s3 = db_repo s1" using apply_transition_Inr [OF ap [unfolded v]] by (simp add: store_simps)
  with get1 obtain repo where "settle_investigation env c r owns (db_repo s3) = (repo, Inr ())"
    using settle_investigation_known by metis
  then have settle: "on_repo (settle_investigation env c r owns) s3 = (set_repo repo s3, Inr ())"
    by (simp add: on_repo_def)
  have "\<exists>z. commit_terminal env c s = (z, Inr (transitioned (en_now env) (tx_target_run_status c) ?rf))"
    by (simp add: commit_terminal_def Inr y s1 u ap v settle Let_def)
  with assms(2) show ?thesis by auto
qed

text \<open>So does the cancellation of a run.\<close>

lemma request_cancel_error:
  assumes "request_cancel env rid s = (s', Inl x)" shows "s' = s"
proof (cases "and_then (require_run s rid) (\<lambda>r. and_then (owns_projection (db_repo s) r) (\<lambda>owns. Inr (r, owns)))")
  case (Inl e)
  with assms show ?thesis by (simp add: request_cancel_def)
next
  case (Inr ro)
  obtain r owns where ro: "ro = (r, owns)" by (cases ro)
  consider "s' = s"
    | frozen where "run_status_of r = Run_CREATED" "freeze_for env (db_repo s) r = Inr frozen"
        "cancel_created env r owns frozen s = (s', Inl x)"
    | "run_status_of r = Run_RUNNING"
      "apply_transition env (r\<lparr>run_cancel_requested_at := Some (en_now env)\<rparr>) Run_CANCELLING s = (s', Inl x)"
    using assms Inr ro by (auto simp: request_cancel_def split: if_splits sum.splits)
  then show ?thesis
  proof cases
    case 2
    obtain ir where ir: "repo_get (db_repo s) (run_investigation_id r) = Inr ir"
      using 2(2) freeze_for_known by blast
    then obtain repo where "update_status (run_investigation_id r) Inv_CANCELLED None (en_now env) (db_repo s)
        = (repo, Inr ())" using update_status_known by blast
    then show ?thesis using 2(1,3)
      by (auto simp: cancel_created_def apply_transition_def ensure_run_transition_def Let_def
          on_repo_def store_simps split: if_splits)
  qed (auto simp: apply_transition_def ensure_run_transition_def Let_def)
qed

section \<open>Properties\<close>

text \<open>An operation refuses: it reports an error and returns the state it was given.\<close>

definition refuses :: "'a store_op \<Rightarrow> runtime_store \<Rightarrow> bool" where
  "refuses f s = (case f s of (s', res) \<Rightarrow> s' = s \<and> (\<exists>e. res = Inl e))"

lemma refusesI:
  assumes "\<And>s' x. f s = (s', Inl x) \<Longrightarrow> s' = s" and "\<And>s' b. f s \<noteq> (s', Inr b)"
  shows "refuses f s"
proof -
  obtain s' res where f: "f s = (s', res)" by (cases "f s")
  with assms show ?thesis by (cases res) (auto simp: refuses_def)
qed

text \<open>C10: A worker without the lease cannot write.  When a worker's owner name and lease
  version are not those of the run's current unexpired lease, every fenced operation on that
  run refuses: starting or settling an attempt, a transition, a journal entry, a terminal
  commit, a tool commit and a model turn.  The renewal of the lease returns nothing, and a
  phase commit changes nothing (it may return an earlier identical checkpoint).\<close>

theorem stale_worker_refused:
  assumes "init_store s0" and "store_step\<^sup>*\<^sup>* s0 s" and "get_run s rid = Inr r"
    and "\<not> lease_holds (en_now env) r w v"
  shows "(\<forall>a. att_run_id a = rid \<longrightarrow> refuses (create_attempt env a w v) s)
    \<and> (\<forall>aid a e t. get_attempt s aid = Inr a \<and> att_run_id a = rid
          \<longrightarrow> refuses (transition_attempt env aid e t w v) s)
    \<and> (\<forall>e t. refuses (transition_run env rid e t (Some w) (Some v)) s)
    \<and> (\<forall>c. cmd_run_id c = rid \<and> cmd_lease_owner c = w \<and> cmd_lease_version c = v
          \<longrightarrow> refuses (append_event_command env c) s)
    \<and> (\<forall>c. tx_run_id c = rid \<and> tx_lease_owner c = w \<and> tx_lease_version c = v
          \<longrightarrow> refuses (commit_terminal env c) s)
    \<and> (\<forall>c. tm_run_id c = rid \<and> tm_lease_owner c = w \<and> tm_lease_version c = v
          \<longrightarrow> refuses (commit_tool env c) s)
    \<and> refuses (reserve_model_turn env rid w v) s
    \<and> renew_lease env rid w v s = (s, Inr None)
    \<and> (\<forall>c. pc_run_id c = rid \<and> pc_lease_owner c = w \<and> pc_lease_version c = v
          \<longrightarrow> fst (commit_phase env c s) = s)"
proof (intro conjI allI impI)
  note wf = reachable_wf [OF assms(1,2)]
  have r: "dict_get (db_runs s) rid = Some r" using assms(3) by (simp add: result_simps)
  note no = assms(4)
  show "refuses (create_attempt env a w v) s" if "att_run_id a = rid" for a
    using that no r by (blast intro!: refusesI create_attempt_error dest: create_attempt_fenced)
  show "refuses (transition_attempt env aid e t w v) s"
    if "get_attempt s aid = Inr a \<and> att_run_id a = rid" for aid a e t
    using that no r transition_attempt_fenced [of env aid e t w v s _ _ a r]
    by (intro refusesI transition_attempt_error) (auto simp: result_simps)
  show "refuses (transition_run env rid e t (Some w) (Some v)) s" for e t
    using no r by (blast intro!: refusesI transition_run_error dest: transition_run_fenced)
  show "refuses (append_event_command env c) s"
    if "cmd_run_id c = rid \<and> cmd_lease_owner c = w \<and> cmd_lease_version c = v" for c
    using that no r by (blast intro!: refusesI append_event_error dest: append_event_fenced)
  show "refuses (commit_terminal env c) s"
    if "tx_run_id c = rid \<and> tx_lease_owner c = w \<and> tx_lease_version c = v" for c
    using that no r by (blast intro!: refusesI commit_terminal_error [OF wf] dest: commit_terminal_fenced)
  show "refuses (commit_tool env c) s"
    if "tm_run_id c = rid \<and> tm_lease_owner c = w \<and> tm_lease_version c = v" for c
    using that no r by (blast intro!: refusesI commit_tool_error dest: commit_tool_fenced)
  show "refuses (reserve_model_turn env rid w v) s"
    using no r by (blast intro!: refusesI reserve_model_turn_error dest: reserve_model_turn_fenced)
  show "renew_lease env rid w v s = (s, Inr None)"
    using no r by (simp add: renew_lease_def require_run_def)
  show "fst (commit_phase env c s) = s"
    if c: "pc_run_id c = rid \<and> pc_lease_owner c = w \<and> pc_lease_version c = v" for c
  proof -
    obtain s' res where f: "commit_phase env c s = (s', res)" by (cases "commit_phase env c s")
    from wf f have "s' = s"
    proof (cases rule: commit_phase_cases)
      case (3 q)
      from phase_commit_checksD(1,3) [OF 3(1)] c r no show ?thesis by simp
    qed
    with f show ?thesis by simp
  qed
qed

theorem stale_worker_refused_witness:
  "refuses (append_event_command (demo_env 3) (demo_command\<lparr>cmd_lease_owner := ''worker-b''\<rparr>)) demo_phased
   \<and> fst (commit_phase (demo_env 3) (demo_phase_commit\<lparr>pc_lease_version := 0\<rparr>) demo_phased) = demo_phased"
proof
  have "\<not> lease_holds (en_now (demo_env 3)) demo_phased_run ''worker-b'' 1"
    "\<not> lease_holds (en_now (demo_env 3)) demo_phased_run ''worker-a'' 0"
    by (simp_all add: lease_holds_def demo_phased_run_def demo_started_run_def)
  note stale = this [THEN stale_worker_refused [OF demo_init demo_later(2) demo_runs(2)]]
  show "refuses (append_event_command (demo_env 3) (demo_command\<lparr>cmd_lease_owner := ''worker-b''\<rparr>)) demo_phased"
    using stale(1) by (simp add: demo_command_def)
  show "fst (commit_phase (demo_env 3) (demo_phase_commit\<lparr>pc_lease_version := 0\<rparr>) demo_phased) = demo_phased"
    using stale(2) by (simp add: demo_phase_commit_def)
qed

text \<open>C11: A taken-over lease never comes back.  Acquiring a lease raises the run's lease
  version by one and puts the new owner in charge; in no later state does a fence with the
  version of an earlier lease hold.\<close>

theorem lease_takeover_is_final:
  assumes "init_store s0" and "store_step\<^sup>*\<^sup>* s0 s" and "get_run s rid = Inr r"
    and "acquire_lease env rid w expected s = (s1, Inr (Some leased))"
    and "store_step\<^sup>*\<^sup>* s1 s'" and "get_run s' rid = Inr r'" and "lease_holds now r' w' v"
  shows "get_run s1 rid = Inr leased \<and> run_lease_version leased = run_lease_version r + 1
    \<and> run_lease_owner leased = Some w \<and> run_lease_version r < v"
proof -
  note wf = reachable_wf [OF assms(1,2)]
  have r: "dict_get (db_runs s) rid = Some r" using assms(3) by (simp add: result_simps)
  have id: "run_id r = rid" using run_known [OF wf r] by blast
  have leased: "s1 = put_run (leased_run env s w r) s" "leased = leased_run env s w r"
    using assms(4) r by (auto simp: acquire_lease_def require_run_def split: if_splits)
  then have get: "get_run s1 rid = Inr leased" using id by (simp add: result_simps store_simps)
  have "store_step s s1" using assms(4) by (rule Step_acquire_lease)
  with assms(2) have "store_step\<^sup>*\<^sup>* s0 s1" by (rule rtranclp.rtrancl_into_rtrancl)
  then obtain q where "get_run s' rid = Inr q" "run_evolves leased q"
    using later_run [OF assms(1) _ assms(5) get] by blast
  then have "run_lease_version leased \<le> run_lease_version r'"
    using assms(6) by (simp add: run_evolves_def)
  then show ?thesis using get leased assms(7) by (simp add: leased_run_def lease_holds_def)
qed

theorem lease_takeover_is_final_witness:
  "get_run (put_run demo_started_run demo_created) ''run-1'' = Inr demo_started_run
   \<and> run_lease_version demo_run < 1"
proof -
  have run: "get_run demo_created ''run-1'' = Inr demo_run"
    by (simp add: result_simps demo_created_def)
  have leased: "leased_run (demo_env 1) demo_created ''worker-a'' demo_run = demo_started_run"
    by (simp add: leased_run_def lease_until_def demo_env_def demo_created_def demo_store_def
        empty_store_def demo_started_run_def demo_run_def)
  have get: "acquire_lease (demo_env 1) ''run-1'' ''worker-a'' Run_CREATED demo_created
      = (put_run demo_started_run demo_created, Inr (Some demo_started_run))"
    using run leased by (simp add: acquire_lease_def get_run_def lease_free_def demo_run_def)
  have holds: "lease_holds 2 demo_started_run ''worker-a'' 1"
    by (simp add: lease_holds_def demo_started_run_def)
  have now: "get_run (put_run demo_started_run demo_created) ''run-1'' = Inr demo_started_run"
    by (simp add: result_simps store_simps)
  from lease_takeover_is_final [OF demo_init r_into_rtranclp [where r = store_step, OF demo_steps(1)]
      run get rtranclp.rtrancl_refl now holds]
  show ?thesis by simp
qed

text \<open>C12: Ten operations leave no trace when they fail.  In every reachable store, each of these
  that reports an error returns the store exactly as it was: the start of an attempt (its lease is
  given back), the settling of an attempt, transitions, cancellation, journal entries, tool,
  phase and terminal commits (their writes are undone) and model turns.  Not
  among them are the creation of a run, which stays when its first view cannot be frozen, the
  audit of expired leases, which may raise between two runs, and recovery rejections.\<close>

theorem failure_leaves_no_trace:
  assumes "init_store s0" and "store_step\<^sup>*\<^sup>* s0 s"
  shows "(\<forall>env rid a w e s' x. acquire_lease_and_create_attempt env rid a w e s = (s', Inl x) \<longrightarrow> s' = s)
    \<and> (\<forall>env a w v s' x. create_attempt env a w v s = (s', Inl x) \<longrightarrow> s' = s)
    \<and> (\<forall>env aid e t w v s' x. transition_attempt env aid e t w v s = (s', Inl x) \<longrightarrow> s' = s)
    \<and> (\<forall>env rid e t w v s' x. transition_run env rid e t w v s = (s', Inl x) \<longrightarrow> s' = s)
    \<and> (\<forall>env rid s' x. request_cancel env rid s = (s', Inl x) \<longrightarrow> s' = s)
    \<and> (\<forall>env c s' x. append_event_command env c s = (s', Inl x) \<longrightarrow> s' = s)
    \<and> (\<forall>env c s' x. commit_tool env c s = (s', Inl x) \<longrightarrow> s' = s)
    \<and> (\<forall>env c s' x. commit_phase env c s = (s', Inl x) \<longrightarrow> s' = s)
    \<and> (\<forall>env c s' x. commit_terminal env c s = (s', Inl x) \<longrightarrow> s' = s)
    \<and> (\<forall>env rid w v s' x. reserve_model_turn env rid w v s = (s', Inl x) \<longrightarrow> s' = s)"
  using reachable_wf [OF assms]
  by (blast intro: start_error_unchanged create_attempt_error transition_attempt_error
      transition_run_error request_cancel_error append_event_error commit_tool_error
      commit_phase_error commit_terminal_error reserve_model_turn_error)

theorem failure_leaves_no_trace_witness:
  "reserve_model_turn (demo_env 2) ''run-1'' ''worker-a'' 1 demo_started
     = (demo_started, Inl (RuntimeIntegrityError ''model turn budget is only valid for V11''))"
proof -
  have "snd (reserve_model_turn (demo_env 2) ''run-1'' ''worker-a'' 1 demo_started)
      = Inl (RuntimeIntegrityError ''model turn budget is only valid for V11'')" (is "snd ?x = _")
    by (simp add: reserve_model_turn_def reservable_turns_def require_run_def demo_started_def
        is_v11_def demo_started_run_def demo_run_def result_eval)
  moreover have "fst ?x = demo_started"
    using failure_leaves_no_trace [OF demo_init demo_later(1)] calculation
    by (metis prod.collapse)
  ultimately show ?thesis by (metis prod.collapse)
qed

end
