(* ===== verification/Store_Behaviour.thy ===== *)
theory Store_Behaviour
  imports Store_Failures
begin

text \<open>
  What the operations of the runtime store do when they succeed: the audit of expired leases,
  paging through a journal, cancellation, phase and terminal commits, and the budgets of tool
  calls and model turns.
\<close>

section \<open>The audit\<close>

text \<open>A run after the audit has taken its lease away.\<close>

definition interrupted :: "instant \<Rightarrow> runtime_run \<Rightarrow> runtime_run" where
  "interrupted now r = transitioned now Run_INTERRUPTED (r\<lparr>run_failure_category := Some Fail_LEASE_LOST\<rparr>)"

lemma interrupted_simps [simp]:
  "run_id (interrupted now r) = run_id r" "run_status_of (interrupted now r) = Run_INTERRUPTED"
  "run_lease_owner (interrupted now r) = None"
  by (simp_all add: interrupted_def transitioned_def)

lemma not_expired_interrupted [simp]: "\<not> lease_expired t (interrupted now r)"
  by (simp add: lease_expired_def)

lemma interrupt_expired_runs:
  assumes "interrupt_expired env r s = (s', Inr (r', es))"
  shows "r' = interrupted (en_now env) r \<and> db_runs s' = dict_put (db_runs s) (run_id r) r'"
proof -
  obtain a where a: "first_match (\<lambda>a. att_status_of a = Att_RUNNING) (attempts_of s (run_id r)) = Some a"
    using assms by (auto simp: interrupt_expired_def split: option.splits)
  obtain s1 u where s1: "on_repo (interrupt_calls (en_now env) ''runtime lease expired'' r) s = (s1, u)"
    by fastforce
  note runs1 = effects_on_repo [OF s1]
  obtain s2 v where s2: "apply_transition env (r\<lparr>run_failure_category := Some Fail_LEASE_LOST\<rparr>)
      Run_INTERRUPTED (set_attempt_failure (att_id a) (Some Fail_LEASE_LOST) s1) = (s2, v)" by fastforce
  obtain w q where u: "u = Inr w" and v: "v = Inr q" and r': "r' = q" and "db_runs s' = db_runs s2"
    using assms a s1 s2
    by (auto simp: interrupt_expired_def Let_def append_events_def split: sum.splits if_splits)
  moreover have "q = interrupted (en_now env) r" "db_runs s2 = dict_put (db_runs s1) (run_id r) q"
    using apply_transition_Inr [OF s2 [unfolded v]] by (simp_all add: interrupted_def store_simps)
  ultimately show ?thesis using runs1 by (simp add: same_core_def)
qed

lemma audit_loop_runs:
  assumes "audit_loop env rids acc events s = (s', Inr (rs, es))" and "distinct rids"
    and "\<forall>k r. dict_get (db_runs s) k = Some r \<longrightarrow> run_id r = k"
  shows "dict_get (db_runs s') k = map_option (\<lambda>r. if k \<in> set rids \<and> lease_expired (en_now env) r
            then interrupted (en_now env) r else r) (dict_get (db_runs s) k)
    \<and> map run_id rs = map run_id acc @ filter (\<lambda>k. \<exists>r. dict_get (db_runs s) k = Some r
            \<and> lease_expired (en_now env) r) rids"
  using assms
proof (induction env rids acc events s arbitrary: k rule: audit_loop.induct)
  case (1 env acc events s)
  then show ?case by (cases "dict_get (db_runs s) k") auto
next
  case (2 env rid rids acc events s)
  show ?case
  proof (cases "\<exists>r. dict_get (db_runs s) rid = Some r \<and> lease_expired (en_now env) r")
    case False
    then have "audit_loop env rids acc events s = (s', Inr (rs, es))"
      using "2.prems"(1) by (auto split: option.splits)
    then have "dict_get (db_runs s') k = map_option (\<lambda>r. if k \<in> set rids \<and> lease_expired (en_now env) r
          then interrupted (en_now env) r else r) (dict_get (db_runs s) k)
      \<and> map run_id rs = map run_id acc @ filter (\<lambda>k. \<exists>r. dict_get (db_runs s) k = Some r
          \<and> lease_expired (en_now env) r) rids"
      using "2.IH"(1,2) "2.prems"(2,3) False by (cases "dict_get (db_runs s) rid") auto
    with False show ?thesis by (cases "dict_get (db_runs s) k") auto
  next
    case True
    then obtain r where r: "dict_get (db_runs s) rid = Some r" "lease_expired (en_now env) r" by blast
    then have id: "run_id r = rid" using "2.prems"(3) by blast
    obtain s1 u where s1: "interrupt_expired env r s = (s1, u)" by fastforce
    obtain r' es1 where u: "u = Inr (r', es1)"
      and loop: "audit_loop env rids (acc @ [r']) (events @ es1) s1 = (s', Inr (rs, es))"
      using "2.prems"(1) r s1 by (cases u) auto
    have r': "r' = interrupted (en_now env) r" "db_runs s1 = dict_put (db_runs s) rid r'"
      using interrupt_expired_runs [OF s1 [unfolded u]] id by simp_all
    have known: "\<forall>k q. dict_get (db_runs s1) k = Some q \<longrightarrow> run_id q = k"
      using "2.prems"(3) r' id by (auto split: if_splits)
    have IH: "dict_get (db_runs s') k = map_option (\<lambda>r. if k \<in> set rids \<and> lease_expired (en_now env) r
          then interrupted (en_now env) r else r) (dict_get (db_runs s1) k)
      \<and> map run_id rs = map run_id (acc @ [r']) @ filter (\<lambda>k. \<exists>r. dict_get (db_runs s1) k = Some r
          \<and> lease_expired (en_now env) r) rids" for k
      using "2.IH"(3) [OF r(1) _ s1 [symmetric] u refl loop _ known] r(2) "2.prems"(2) by simp
    have "filter (\<lambda>k. \<exists>r. dict_get (db_runs s1) k = Some r \<and> lease_expired (en_now env) r) rids
      = filter (\<lambda>k. \<exists>r. dict_get (db_runs s) k = Some r \<and> lease_expired (en_now env) r) rids"
      using "2.prems"(2) r'(2) by (intro filter_cong) auto
    then show ?thesis using IH [of k] r r' id "2.prems"(2)
      by (cases "k = rid") auto
  qed
qed

text \<open>C21: The audit interrupts exactly the runs whose lease has expired.  When it returns, each
  run that was running or cancelling under an expired lease is interrupted, without an owner,
  with the failure category of a lost lease; every other run is as it was; the runs returned
  are the expired ones in the order of the store, and none is left that a second audit at
  the same time would find.\<close>

theorem audit_interrupts_expired:
  assumes "init_store s0" and "store_step\<^sup>*\<^sup>* s0 s"
    and "audit_expired_leases env s = (s', Inr rs)"
  shows "get_run s' rid = (case get_run s rid of Inl e \<Rightarrow> Inl e
        | Inr r \<Rightarrow> Inr (if lease_expired (en_now env) r then interrupted (en_now env) r else r))
    \<and> map run_id rs = filter (\<lambda>k. \<exists>r. get_run s k = Inr r \<and> lease_expired (en_now env) r)
        (dict_keys (db_runs s))
    \<and> (\<forall>k r. get_run s' k = Inr r \<longrightarrow> \<not> lease_expired (en_now env) r)"
proof -
  have wf: "distinct (dict_keys (db_runs s))" "\<forall>k r. dict_get (db_runs s) k = Some r \<longrightarrow> run_id r = k"
    using reachable_parts(1) [OF assms(1,2)] unfolding runs_ok_def by blast+
  obtain s1 es where loop: "audit_loop env (dict_keys (db_runs s)) [] [] s = (s1, Inr (rs, es))"
    and s': "s' = publish_events es s1"
    using assms(3) by (auto simp: audit_expired_leases_def split: prod.splits sum.splits)
  have runs: "db_runs s' = db_runs s1" by (simp add: s' publish_events_def)
  have keys: "k \<in> set (dict_keys (db_runs s))" if "dict_get (db_runs s) k = Some r" for k r
    using that by (force dest: map_of_SomeD)
  have get: "dict_get (db_runs s') k = map_option (\<lambda>r. if lease_expired (en_now env) r
      then interrupted (en_now env) r else r) (dict_get (db_runs s) k)" for k
    using audit_loop_runs [OF loop wf, of k] keys [of k]
    by (cases "dict_get (db_runs s) k") (auto simp: runs)
  show ?thesis
  proof (intro conjI allI impI)
    show "get_run s' rid = (case get_run s rid of Inl e \<Rightarrow> Inl e
        | Inr r \<Rightarrow> Inr (if lease_expired (en_now env) r then interrupted (en_now env) r else r))"
      using get [of rid] by (cases "dict_get (db_runs s) rid") (simp_all add: get_run_def require_run_def)
    show "map run_id rs = filter (\<lambda>k. \<exists>r. get_run s k = Inr r \<and> lease_expired (en_now env) r)
        (dict_keys (db_runs s))"
      using audit_loop_runs [OF loop wf] by (simp add: get_run_Inr)
    show "\<not> lease_expired (en_now env) r" if "get_run s' k = Inr r" for k r
      using that get [of k] not_expired_interrupted by (auto simp: get_run_Inr split: if_splits) (metis not_expired_interrupted)
  qed
qed

theorem audit_interrupts_expired_witness:
  "\<exists>s' rs. audit_expired_leases (demo_env 30000002) demo_started = (s', Inr rs)
     \<and> map run_id rs = [''run-1'']
     \<and> get_run s' ''run-1'' = Inr (interrupted 30000002 demo_started_run)"
proof -
  have "(case audit_expired_leases (demo_env 30000002) demo_started of (s', Inl e) \<Rightarrow> False
    | (s', Inr rs) \<Rightarrow> True)" by code_simp
  then obtain s' rs where a: "audit_expired_leases (demo_env 30000002) demo_started = (s', Inr rs)"
    by (auto split: prod.splits sum.splits)
  have e: "lease_expired 30000002 demo_started_run"
    by (simp add: lease_expired_def) (simp add: demo_started_run_def)
  have now: "en_now (demo_env 30000002) = 30000002" by (simp add: demo_env_def)
  have keys: "dict_keys (db_runs demo_started) = [''run-1'']" by (simp add: demo_started_def)
  have "get_run s' ''run-1'' = Inr (interrupted 30000002 demo_started_run)" "map run_id rs = [''run-1'']"
    using audit_interrupts_expired [OF demo_init demo_later(1) a, of "''run-1''"] e
    by (simp_all add: demo_runs now keys)
  with a show ?thesis by (intro exI [of _ s'] exI [of _ rs] conjI)
qed

section \<open>Reading a journal\<close>

lemma journal_numbers:
  assumes "wf_store s"
  shows "map ev_sequence (events_of s rid) = map int [1 ..< Suc (length (events_of s rid))]"
proof (cases "dict_get (db_events s) rid")
  case (Some es)
  then show ?thesis
    using wf_storeD(6) [OF assms] unfolding journals_ok_def numbered_from_def
    by (metis events_of_Some add_0 One_nat_def)
qed (simp add: events_of_def)

lemma numbered_filter:
  "map ev_sequence es = map int [Suc n ..< Suc (n + length es)] \<Longrightarrow>
   filter (\<lambda>e. ev_sequence e > after) es = drop (nat after - n) es"
proof (induction es arbitrary: n)
  case (Cons e es)
  then have e: "ev_sequence e = int n + 1"
    and es: "map ev_sequence es = map int [Suc (Suc n) ..< Suc (Suc n + length es)]"
    by (simp_all add: upt_rec [of "Suc n"] del: upt_Suc)
  show ?case
  proof (cases "after < int n + 1")
    case True
    then have "nat after - n = 0" "nat after - Suc n = 0" by linarith+
    then show ?thesis using Cons.IH [OF es] e True by simp
  next
    case False
    then have "nat after - n = Suc (nat after - Suc n)" by linarith
    then show ?thesis using Cons.IH [OF es] e False by simp
  qed
qed simp

lemma list_events_page:
  assumes "wf_store s" and "dict_get (db_runs s) rid = Some r"
  shows "list_events s rid after limit =
    (if limit < 1 then Inl (ValueError ''limit must be positive'')
     else Inr (take (nat limit) (drop (nat after) (events_of s rid))))"
  using numbered_filter [of "events_of s rid" 0 after] journal_numbers [OF assms(1), of rid] assms(2)
  by (simp add: list_events_def require_run_def result_eval)

text \<open>C22: A journal can be read page by page.  Asking for at most \<open>limit\<close> events after a
  sequence number returns the next slice of the journal, whatever the number; a limit that is
  not positive is a ValueError.\<close>

theorem list_events_is_slice:
  assumes "init_store s0" and "store_step\<^sup>*\<^sup>* s0 s" and "get_run s rid = Inr r"
  shows "list_events s rid after limit =
    (if limit < 1 then Inl (ValueError ''limit must be positive'')
     else Inr (take (nat limit) (drop (nat after) (events_of s rid))))"
  using list_events_page [OF reachable_wf [OF assms(1,2)]] assms(3) by (simp add: get_run_Inr)

theorem list_events_is_slice_witness:
  "list_events demo_finished ''run-1'' 1 2 = Inr demo_phase_events
   \<and> list_events demo_finished ''run-1'' (- 3) 1 = Inr [demo_started_event]"
  using list_events_is_slice [OF demo_init demo_later(3) demo_runs(3)]
  by (simp add: demo_views demo_phase_events_def)

section \<open>Model turns\<close>

text \<open>
  A run of the store in which the reservations of one run's model turns are counted; any
  other operation may happen in between.
\<close>

inductive turns_taken :: "ident \<Rightarrow> nat \<Rightarrow> runtime_store \<Rightarrow> runtime_store \<Rightarrow> bool" for rid where
  none_taken: "turns_taken rid 0 s s"
| other_step: "turns_taken rid n s s' \<Longrightarrow> store_step s' s'' \<Longrightarrow> turns_taken rid n s s''"
| turn_taken: "turns_taken rid n s s' \<Longrightarrow> reserve_model_turn env rid w v s' = (s'', Inr m)
    \<Longrightarrow> turns_taken rid (Suc n) s s''"

lemma turns_taken_steps: "turns_taken rid n s s' \<Longrightarrow> store_step\<^sup>*\<^sup>* s s'"
  by (induction rule: turns_taken.induct) (auto intro: rtranclp.rtrancl_into_rtrancl Step_reserve_turn)

lemma reserve_model_turn_Inr:
  assumes "wf_store s" and "reserve_model_turn env rid w v s = (s', Inr m)"
  shows "\<exists>r. get_run s rid = Inr r \<and> is_v11 r \<and> run_remaining_model_turns r = Some (m + 1) \<and> 0 \<le> m
    \<and> get_run s' rid = Inr (r\<lparr>run_remaining_model_turns := Some m\<rparr>)"
proof -
  obtain r n where rn: "reservable_turns env rid w v s = Inr (r, n)"
    and s': "s' = put_run (r\<lparr>run_remaining_model_turns := Some (n - 1)\<rparr>) s" "m = n - 1"
    using assms(2) by (auto simp: reserve_model_turn_def split: sum.splits)
  note d = reservable_turnsD [OF rn]
  have "run_id r = rid" using run_known [OF assms(1) d(1)] by blast
  then show ?thesis using d s' by (simp add: get_run_Inr store_simps)
qed

text \<open>C19: The budget of model turns cannot be overspent.  Whatever else happens to the store in
  between, by whichever workers, the turns that have been reserved for a run are never more
  than the turns it had left at the start, and what it has left at the end is not negative
  and at most the difference.\<close>

theorem model_turns_bounded:
  assumes "init_store s0" and "store_step\<^sup>*\<^sup>* s0 s" and "turns_taken rid n s s'"
    and "get_run s rid = Inr r" and "run_remaining_model_turns r = Some b" and "0 \<le> b"
  shows "\<exists>r' m. get_run s' rid = Inr r' \<and> run_remaining_model_turns r' = Some m
    \<and> 0 \<le> m \<and> m + int n \<le> b"
  using assms(3-6,2)
proof (induction rule: turns_taken.induct)
  case (none_taken s)
  then show ?case by simp
next
  case (other_step n s s' s'')
  then obtain r' m where r': "get_run s' rid = Inr r'" "run_remaining_model_turns r' = Some m"
    "0 \<le> m" "m + int n \<le> b" by blast
  have s': "store_step\<^sup>*\<^sup>* s0 s'"
    using other_step.prems(4) turns_taken_steps [OF other_step.hyps(1)] by (rule rtranclp_trans)
  obtain q where "get_run s'' rid = Inr q" "run_evolves r' q"
    using later_run [OF assms(1) s' r_into_rtranclp [where r = store_step, OF other_step.hyps(2)] r'(1)] .
  then show ?case
    using r' by (auto simp: run_evolves_def turns_evolve_def split: option.splits)
next
  case (turn_taken n s s' env w v s'' k)
  then obtain r' m where r': "get_run s' rid = Inr r'" "run_remaining_model_turns r' = Some m"
    "0 \<le> m" "m + int n \<le> b" by blast
  have "wf_store s'"
    using reachable_wf [OF assms(1) rtranclp_trans [OF turn_taken.prems(4)
        turns_taken_steps [OF turn_taken.hyps(1)]]] .
  from reserve_model_turn_Inr [OF this turn_taken.hyps(2)] r' show ?case by auto
qed

text \<open>A V11 run with two turns, leased, and the two reservations.\<close>

definition demo_turns :: "run_status \<Rightarrow> int \<Rightarrow> runtime_run" where
  "demo_turns st n = (if st = Run_CREATED then demo_run else demo_started_run)
     \<lparr>run_contract_version := Version_V11, run_remaining_model_turns := Some n\<rparr>"

definition demo_turns_store :: "run_status \<Rightarrow> int \<Rightarrow> runtime_store" where
  "demo_turns_store st n = demo_created\<lparr>db_runs := [(''run-1'', demo_turns st n)]\<rparr>"

lemma demo_turns_results:
  "create_run (demo_env 0) (demo_turns Run_CREATED 2) demo_store
     = (demo_turns_store Run_CREATED 2, Inr (demo_turns Run_CREATED 2))"
  "acquire_lease (demo_env 1) ''run-1'' ''worker-a'' Run_CREATED (demo_turns_store Run_CREATED 2)
     = (demo_turns_store Run_RUNNING 2, Inr (Some (demo_turns Run_RUNNING 2)))"
  "reserve_model_turn (demo_env 2) ''run-1'' ''worker-a'' 1 (demo_turns_store Run_RUNNING 2)
     = (demo_turns_store Run_RUNNING 1, Inr 1)"
  "reserve_model_turn (demo_env 2) ''run-1'' ''worker-a'' 1 (demo_turns_store Run_RUNNING 1)
     = (demo_turns_store Run_RUNNING 0, Inr 0)"
  by code_simp+

lemma demo_turns_reachable: "store_step\<^sup>*\<^sup>* demo_store (demo_turns_store Run_RUNNING 2)"
proof -
  have "fresh_run (demo_turns Run_CREATED 2)" by (simp add: fresh_run_def demo_turns_def demo_run_def)
  from Step_create_run [OF this demo_turns_results(1)] Step_acquire_lease [OF demo_turns_results(2)]
  show ?thesis by (meson converse_rtranclp_into_rtranclp rtranclp.rtrancl_refl)
qed

theorem model_turns_bounded_witness:
  "turns_taken ''run-1'' 2 (demo_turns_store Run_RUNNING 2) (demo_turns_store Run_RUNNING 0)
   \<and> (\<exists>r' m. get_run (demo_turns_store Run_RUNNING 0) ''run-1'' = Inr r'
        \<and> run_remaining_model_turns r' = Some m \<and> 0 \<le> m \<and> m + 2 \<le> 2)"
proof -
  have taken: "turns_taken ''run-1'' (Suc (Suc 0)) (demo_turns_store Run_RUNNING 2) (demo_turns_store Run_RUNNING 0)"
    by (intro turns_taken.turn_taken [OF _ demo_turns_results(4)]
        turns_taken.turn_taken [OF _ demo_turns_results(3)] turns_taken.none_taken)
  have "get_run (demo_turns_store Run_RUNNING 2) ''run-1'' = Inr (demo_turns Run_RUNNING 2)"
    by (simp add: get_run_Inr demo_turns_store_def)
  from model_turns_bounded [OF demo_init demo_turns_reachable taken this, of 2] taken
  show ?thesis by (simp add: demo_turns_def numeral_2_eq_2)
qed

section \<open>Phase commits\<close>

text \<open>C13: A phase commit writes its checkpoint once, with everything that belongs to it.  When it
  returns a checkpoint, either the checkpoint was stored before and the store is unchanged, or
  the id was free and the store now holds the checkpoint of that phase, the journal has two
  more events of which the checkpoint's position is the last, and the run names the phase and
  the checkpoint as its latest.\<close>

theorem phase_commit_outcome:
  assumes "init_store s0" and "store_step\<^sup>*\<^sup>* s0 s" and "commit_phase env c s = (s', Inr k)"
  shows "if dict_get (db_checkpoints s) (pc_checkpoint_id c) = None
    then get_checkpoint s' (pc_checkpoint_id c) = Inr k \<and> ck_run_id k = pc_run_id c
      \<and> ck_attempt_id k = pc_attempt_id c \<and> ck_completed_phase k = pc_phase c
      \<and> length (events_of s' (pc_run_id c)) = length (events_of s (pc_run_id c)) + 2
      \<and> ck_event_sequence k = int (length (events_of s' (pc_run_id c)))
      \<and> (\<exists>r'. get_run s' (pc_run_id c) = Inr r' \<and> run_current_phase r' = Some (pc_phase c)
            \<and> run_latest_checkpoint_id r' = Some (pc_checkpoint_id c))
    else s' = s \<and> get_checkpoint s (pc_checkpoint_id c) = Inr k \<and> ck_run_id k = pc_run_id c
      \<and> ck_attempt_id k = pc_attempt_id c \<and> ck_completed_phase k = pc_phase c"
  using reachable_wf [OF assms(1,2)] assms(3)
proof (cases rule: commit_phase_cases)
  case (2 q)
  have q: "dict_get (db_checkpoints s) (pc_checkpoint_id c) = Some k \<and> ck_run_id k = pc_run_id c
      \<and> ck_attempt_id k = pc_attempt_id c \<and> ck_completed_phase k = pc_phase c"
    using 2 by (auto simp: phase_commit_checks_def result_simps same_checkpoint_def
        split: option.splits if_splits)
  with 2 show ?thesis by (simp add: get_checkpoint_Inr)
next
  case (3 r digest projection repo events q)
  note d = phase_commit_checksD [OF 3(1)]
  have k: "k = new_checkpoint env c digest projection (int (length (events_of s (run_id r)) + 2))"
    using 3(2,8) by simp
  have s': "s' = publish_events events (phase_write r (pc_phase c) events k (set_repo repo s))"
    using 3(2,4) by simp
  have "db_checkpoints s' = dict_put (db_checkpoints s) (pc_checkpoint_id c) k"
    "db_runs s' = dict_put (db_runs s) (run_id r) (r\<lparr>run_current_phase := Some (pc_phase c),
       run_latest_checkpoint_id := Some (pc_checkpoint_id c)\<rparr>)"
    "events_of s' (run_id r) = events_of s (run_id r) @ events"
    by (simp_all add: s' phase_write_def store_simps k publish_events_def set_repo_def events_of_def)
  then show ?thesis using d(6) 3(3,6)
    by (simp add: get_checkpoint_Inr get_run_Inr k) (simp add: new_checkpoint_def)
qed auto

theorem phase_commit_outcome_witness:
  "get_checkpoint demo_phased ''ck-1'' = Inr demo_checkpoint
   \<and> ck_event_sequence demo_checkpoint = int (length (events_of demo_phased ''run-1''))"
proof -
  have c: "pc_checkpoint_id demo_phase_commit = ''ck-1''" "pc_run_id demo_phase_commit = ''run-1''"
    by (simp_all add: demo_phase_commit_def)
  have free: "dict_get (db_checkpoints demo_logged) ''ck-1'' = None"
    by (simp add: demo_logged_def demo_started_def demo_created_def demo_store_def empty_store_def)
  have "store_step\<^sup>*\<^sup>* demo_store demo_logged"
    using demo_later(1) demo_steps(3) by (rule rtranclp.rtrancl_into_rtrancl)
  from phase_commit_outcome [OF demo_init this demo_phased_result] free c show ?thesis by simp
qed

text \<open>A checkpoint id is used once.  Once a checkpoint is stored, any phase commit under
  its id, in any later state, by any worker, with any content, leaves the store unchanged: it
  returns the stored checkpoint or an error.\<close>

theorem checkpoint_id_used_once:
  assumes "init_store s0" and "store_step\<^sup>*\<^sup>* s0 s" and "store_step\<^sup>*\<^sup>* s s'"
    and "get_checkpoint s (pc_checkpoint_id c) = Inr k"
    and "commit_phase env c s' = (s'', res)"
  shows "s'' = s' \<and> (case res of Inl e \<Rightarrow> True | Inr k' \<Rightarrow> k' = k)"
proof -
  have k: "dict_get (db_checkpoints s') (pc_checkpoint_id c) = Some k"
    using later_parts(4) [OF assms(1-3)] assms(4) by (simp add: checkpoints_kept_def get_checkpoint_Inr)
  have "wf_store s'" using reachable_wf [OF assms(1) rtranclp_trans [OF assms(2,3)]] .
  from this assms(5) show ?thesis
  proof (cases rule: commit_phase_cases)
    case (2 q)
    then have "q = k" using k
      by (auto simp: phase_commit_checks_def result_simps split: if_splits)
    with 2 show ?thesis by simp
  next
    case (3 r)
    with phase_commit_checksD(6) [OF 3(1)] k show ?thesis by simp
  qed simp
qed

theorem checkpoint_id_used_once_witness:
  "fst (commit_phase (demo_env 9) demo_phase_commit demo_finished) = demo_finished"
proof -
  have k: "get_checkpoint demo_phased (pc_checkpoint_id demo_phase_commit) = Inr demo_checkpoint"
    by (simp add: get_checkpoint_Inr demo_phased_def demo_phase_commit_def)
  from checkpoint_id_used_once [OF demo_init demo_later(2,5) k surjective_pairing] show ?thesis by blast
qed

end
