(* ===== verification/Store_Closing.thy ===== *)
theory Store_Closing
  imports Store_Behaviour
begin

text \<open>
  The end of a run: terminal commits and cancellation.
\<close>

section \<open>Closing the unfinished tool calls\<close>

text \<open>The tool calls of an investigation, stored once each under their own id.\<close>

definition calls_keyed :: "repository \<Rightarrow> ident \<Rightarrow> bool" where
  "calls_keyed repo iid =
     (distinct (dict_keys (bucket (repo_tool_calls repo) iid))
      \<and> list_all (\<lambda>(k, c). tc_id c = k) (bucket (repo_tool_calls repo) iid))"

lemma calls_keyedD:
  "calls_keyed repo iid \<Longrightarrow> (k, c) \<in> set (bucket (repo_tool_calls repo) iid) \<Longrightarrow> tc_id c = k"
  by (auto simp: calls_keyed_def list_all_iff)

lemma interrupt_call_simps [simp]:
  "tc_id (interrupt_call now m c) = tc_id c" "tc_status (interrupt_call now m c) = Tool_INTERRUPTED"
  by (simp_all add: interrupt_call_def)

lemma interrupt_calls_closes:
  assumes "calls_keyed repo (run_investigation_id r)" and "interrupt_calls now m r repo = (repo', res)"
  shows "unfinished_calls repo' r = []"
proof (cases "unfinished_calls repo r = []")
  case True
  then show ?thesis using assms(2) by (simp add: interrupt_calls_def Let_def)
next
  case False
  let ?b = "bucket (repo_tool_calls repo) (run_investigation_id r)"
  let ?new = "map (interrupt_call now m) (unfinished_calls repo r)"
  have list: "list_tool_calls repo' (run_investigation_id r) = dict_values (dict_put_all tc_id ?new ?b)"
    using assms(2) False
    by (auto simp: interrupt_calls_def save_tool_calls_def list_tool_calls_def bucket_def Let_def)
  have "tc_runtime_run_id c \<noteq> Some (run_id r) \<or> tc_status c \<notin> {Tool_PENDING, Tool_RUNNING}"
    if c: "c \<in> set (dict_values (dict_put_all tc_id ?new ?b))" for c
  proof -
    have dist: "distinct (dict_keys (dict_put_all tc_id ?new ?b))"
      using assms(1) by (simp add: calls_keyed_def)
    obtain k where get: "dict_get (dict_put_all tc_id ?new ?b) k = Some c"
      using c dict_value_key [OF dist] by blast
    show ?thesis
    proof (cases "k \<in> set (map tc_id ?new)")
      case True
      then obtain x where x: "first_match (\<lambda>i. tc_id i = k) (rev ?new) = Some x"
        using first_match_None [of "\<lambda>i. tc_id i = k" "rev ?new"] by fastforce
      then have "c = x" "x \<in> set ?new"
        using get dict_put_all_get [of tc_id ?new ?b k] first_match_Some [OF x] by auto
      then show ?thesis by auto
    next
      case False
      then have "first_match (\<lambda>i. tc_id i = k) (rev ?new) = None"
        by (auto simp: first_match_None)
      then have old: "(k, c) \<in> set ?b"
        using get dict_put_all_get [of tc_id ?new ?b k] by (simp add: map_of_SomeD)
      then have "tc_id c = k" using calls_keyedD [OF assms(1)] by blast
      have "c \<notin> set (unfinished_calls repo r)"
      proof
        assume "c \<in> set (unfinished_calls repo r)"
        then have "tc_id (interrupt_call now m c) \<in> set (map tc_id ?new)" by (metis imageI set_map)
        with False \<open>tc_id c = k\<close> show False by (metis interrupt_call_simps(1))
      qed
      moreover have "c \<in> set (list_tool_calls repo (run_investigation_id r))"
        using old unfolding list_tool_calls_def set_map by (metis image_eqI snd_conv)
      ultimately show ?thesis by (simp add: unfinished_calls_def)
    qed
  qed
  then show ?thesis unfolding unfinished_calls_def list filter_empty_conv by blast
qed

section \<open>Terminal commits\<close>

lemma settle_investigation_tool_calls:
  "settle_investigation env c r owns repo = (repo', res) \<Longrightarrow> repo_tool_calls repo' = repo_tool_calls repo"
  by (auto simp: settle_investigation_def update_status_def Let_def split: option.splits if_splits sum.splits)

lemma interrupt_calls_frame: "on_repo f s = (s1, u) \<Longrightarrow> db_frozen s1 = db_frozen s \<and> db_runs s1 = db_runs s
    \<and> db_events s1 = db_events s \<and> db_attempts s1 = db_attempts s"
  by (auto simp: on_repo_def set_repo_def split: prod.splits)

lemma apply_transition_frozen:
  "apply_transition env r target s = (s', res) \<Longrightarrow> db_frozen s' = db_frozen s"
  by (auto simp: apply_transition_def Let_def store_simps split: sum.splits)

lemma terminal_events_length: "terminal_events env rid aid n ts = Inr es \<Longrightarrow> length es = length ts"
  by (induction ts arbitrary: n es) (auto simp: result_simps)

lemma commit_terminal_success:
  assumes "commit_terminal env c s = (s', Inr r')"
  obtains r owns events frozen s1 where
    "prepare_terminal env c s = Inr (r, owns, events, frozen)"
    "r' = transitioned (en_now env) (tx_target_run_status c) (r\<lparr>run_failure_category := tx_failure_category c\<rparr>)"
    "db_runs s' = dict_put (db_runs s) (run_id r) r'"
    "events_of s' (run_id r) = events_of s (run_id r) @ events"
    "db_frozen s' = dict_put (db_frozen s) (run_id r) frozen"
    "on_repo (if is_terminal (tx_target_run_status c)
        then interrupt_calls (en_now env) (terminal_message (tx_target_run_status c)) r
        else skip_op) s = (s1, Inr ())"
    "repo_tool_calls (db_repo s') = repo_tool_calls (db_repo s1)"
proof -
  obtain r owns events frozen where p: "prepare_terminal env c s = Inr (r, owns, events, frozen)"
    using assms by (auto simp: commit_terminal_def split: sum.splits)
  obtain s1 u where s1: "on_repo (if is_terminal (tx_target_run_status c)
      then interrupt_calls (en_now env) (terminal_message (tx_target_run_status c)) r
      else skip_op) s = (s1, u)" by fastforce
  have u: "u = Inr ()" using s1 by (rule close_calls_Inr)
  let ?s2 = "set_attempt_failure (tx_attempt_id c) (tx_failure_category c) (append_events (run_id r) events s1)"
  obtain s3 v where ap: "apply_transition env (r\<lparr>run_failure_category := tx_failure_category c\<rparr>)
      (tx_target_run_status c) ?s2 = (s3, v)" by fastforce
  obtain s4 w where st: "on_repo (settle_investigation env c r owns) s3 = (s4, w)" by fastforce
  have v: "v = Inr r'"
    and s': "s' = publish_events events (s4\<lparr>db_frozen := dict_put (db_frozen s4) (run_id r) frozen\<rparr>)"
    using assms by (auto simp: commit_terminal_def p s1 u ap st Let_def split: sum.splits)
  note ap' = apply_transition_Inr [OF ap [unfolded v]]
  note f1 = interrupt_calls_frame [OF s1] and f4 = interrupt_calls_frame [OF st]
  have frozen3: "db_frozen s3 = db_frozen s"
    using apply_transition_frozen [OF ap] f1 by (simp add: store_simps)
  have calls: "repo_tool_calls (db_repo s4) = repo_tool_calls (db_repo s3)"
    using st by (auto simp: on_repo_def set_repo_def split: prod.splits dest: settle_investigation_tool_calls)
  have "db_runs s' = dict_put (db_runs s) (run_id r) r'"
    "events_of s' (run_id r) = events_of s (run_id r) @ events"
    "db_frozen s' = dict_put (db_frozen s) (run_id r) frozen"
    "repo_tool_calls (db_repo s') = repo_tool_calls (db_repo s1)"
    using ap' f1 f4 frozen3 calls
    by (simp_all add: s' publish_events_def store_simps events_of_def)
  then show thesis using that p s1 [unfolded u] ap' by simp
qed

text \<open>C14: A terminal commit closes everything the run had open.  When it succeeds with a terminal
  target, the run has that status, no owner and its completion time; none of its attempts is
  running; none of its tool calls is pending or running; its journal has grown by one event per
  event of the commit; and the frozen view taken for it is stored.\<close>

theorem terminal_commit_closes_run:
  assumes "init_store s0" and "store_step\<^sup>*\<^sup>* s0 s" and "commit_terminal env c s = (s', Inr r')"
    and "is_terminal (tx_target_run_status c)" and "calls_keyed (db_repo s) (run_investigation_id r')"
  shows "get_run s' (tx_run_id c) = Inr r' \<and> run_status_of r' = tx_target_run_status c
    \<and> run_lease_owner r' = None \<and> run_completed_at r' = Some (en_now env)
    \<and> (\<forall>aid a. get_attempt s' aid = Inr a \<and> att_run_id a = tx_run_id c \<longrightarrow> att_status_of a \<noteq> Att_RUNNING)
    \<and> unfinished_calls (db_repo s') r' = []
    \<and> (\<exists>es. events_of s' (tx_run_id c) = events_of s (tx_run_id c) @ es \<and> length es = length (tx_events c))
    \<and> (\<exists>p. get_frozen_business_projection s' (tx_run_id c) = Inr (Some p))"
proof -
  obtain r owns events frozen s1 where p: "prepare_terminal env c s = Inr (r, owns, events, frozen)"
    and r': "r' = transitioned (en_now env) (tx_target_run_status c) (r\<lparr>run_failure_category := tx_failure_category c\<rparr>)"
    and w: "db_runs s' = dict_put (db_runs s) (run_id r) r'"
      "events_of s' (run_id r) = events_of s (run_id r) @ events"
      "db_frozen s' = dict_put (db_frozen s) (run_id r) frozen"
    and s1: "on_repo (if is_terminal (tx_target_run_status c)
        then interrupt_calls (en_now env) (terminal_message (tx_target_run_status c)) r
        else skip_op) s = (s1, Inr ())"
    and calls: "repo_tool_calls (db_repo s') = repo_tool_calls (db_repo s1)"
    using commit_terminal_success [OF assms(3)] .
  note known = prepare_terminal_known [OF reachable_wf [OF assms(1,2)] p]
  have get: "get_run s' (tx_run_id c) = Inr r'" using w(1) known(2) by (simp add: get_run_Inr)
  have fields: "run_status_of r' = tx_target_run_status c" "run_lease_owner r' = None"
    "run_completed_at r' = Some (en_now env)" "run_id r' = run_id r"
    "run_investigation_id r' = run_investigation_id r"
    using assms(4) by (simp_all add: r' transitioned_def Let_def)
  have "interrupt_calls (en_now env) (terminal_message (tx_target_run_status c)) r (db_repo s)
      = (db_repo s1, Inr ())"
    using s1 assms(4) by (auto simp: on_repo_def set_repo_def split: prod.splits)
  from interrupt_calls_closes [OF _ this] assms(5) fields
  have closed: "unfinished_calls (db_repo s') r' = []"
    using calls by (simp add: unfinished_calls_def list_tool_calls_def)
  have "wf_store s'"
    using reachable_wf [OF assms(1) rtranclp.rtrancl_into_rtrancl [OF assms(2) Step_commit_terminal [OF assms(3)]]] .
  note attempts = attempts_okD [OF wf_storeD(3) [OF this]]
  have "att_status_of a \<noteq> Att_RUNNING"
    if a: "get_attempt s' aid = Inr a \<and> att_run_id a = tx_run_id c" for aid a
  proof
    assume "att_status_of a = Att_RUNNING"
    with a attempts [of aid a] get have "run_status_of r' \<in> {Run_RUNNING, Run_CANCELLING}"
      unfolding get_attempt_Inr get_run_Inr by (metis option.inject)
    with fields(1) assms(4) show False by auto
  qed
  moreover have "\<exists>es. events_of s' (tx_run_id c) = events_of s (tx_run_id c) @ es
      \<and> length es = length (tx_events c)"
    using w(2) known(2) p by (auto simp: prepare_terminal_def result_simps dest: terminal_events_length)
  moreover have "\<exists>p. get_frozen_business_projection s' (tx_run_id c) = Inr (Some p)"
    using w(3) known(2) get by (simp add: get_frozen_business_projection_def get_run_def)
  ultimately show ?thesis using get fields closed by blast
qed

theorem terminal_commit_closes_run_witness:
  "get_run demo_finished ''run-1'' = Inr demo_finished_run \<and> run_lease_owner demo_finished_run = None
   \<and> unfinished_calls (db_repo demo_finished) demo_finished_run = []
   \<and> (\<exists>p. get_frozen_business_projection demo_finished ''run-1'' = Inr (Some p))"
proof -
  have c: "tx_run_id demo_terminal_commit = ''run-1''" "is_terminal (tx_target_run_status demo_terminal_commit)"
    by (simp_all add: demo_terminal_commit_def)
  have "calls_keyed (db_repo demo_phased) (run_investigation_id demo_finished_run)"
    by (simp add: calls_keyed_def bucket_def demo_phased_def demo_started_def demo_created_def
        demo_store_def empty_store_def demo_repo_def empty_repository_def)
  from terminal_commit_closes_run [OF demo_init demo_later(2) demo_finished_result c(2) this] c
  show ?thesis by simp
qed

section \<open>Cancellation\<close>

text \<open>What a cancellation request does depends on the run's status alone.  A run that has not
  started is cancelled at once, with its frozen view stored; a running run is only marked, and
  keeps its lease until its worker settles it; a run already being cancelled is returned as it
  is; in every other status the request is an error.  An error never changes the store.\<close>

theorem request_cancel_by_status:
  assumes "init_store s0" and "store_step\<^sup>*\<^sup>* s0 s" and "get_run s rid = Inr r"
    and "request_cancel env rid s = (s', res)"
  shows "case res of
      Inl e \<Rightarrow> s' = s
    | Inr r' \<Rightarrow> get_run s' rid = Inr r' \<and>
        (if run_status_of r = Run_CREATED
         then run_status_of r' = Run_CANCELLED \<and> run_failure_category r' = Some Fail_CANCELLED
           \<and> run_completed_at r' = Some (en_now env)
           \<and> get_frozen_business_projection s' rid \<noteq> Inr None
         else if run_status_of r = Run_RUNNING
         then r' = r\<lparr>run_status_of := Run_CANCELLING, run_cancel_requested_at := Some (en_now env)\<rparr>
         else run_status_of r = Run_CANCELLING \<and> s' = s \<and> r' = r)"
proof (cases res)
  case (Inl e)
  then show ?thesis using request_cancel_error assms(4) by simp
next
  case (Inr r')
  have r: "dict_get (db_runs s) rid = Some r" using assms(3) by (simp add: get_run_Inr)
  have id: "run_id r = rid" using run_known [OF reachable_wf [OF assms(1,2)] r] by blast
  obtain owns where o: "owns_projection (db_repo s) r = Inr owns"
    using assms(4) Inr r by (cases "owns_projection (db_repo s) r") (auto simp: request_cancel_def require_run_def)
  consider (created) frozen where "run_status_of r = Run_CREATED" "cancel_created env r owns frozen s = (s', Inr r')"
    | (running) "run_status_of r = Run_RUNNING"
      "apply_transition env (r\<lparr>run_cancel_requested_at := Some (en_now env)\<rparr>) Run_CANCELLING s = (s', Inr r')"
    | (cancelling) "run_status_of r = Run_CANCELLING" "s' = s" "r' = r"
    using assms(4) Inr r o by (auto simp: request_cancel_def require_run_def split: if_splits sum.splits)
  then show ?thesis
  proof cases
    case (created frozen)
    let ?r1 = "transitioned (en_now env) Run_CANCELLED (r\<lparr>run_cancel_requested_at := Some (en_now env)\<rparr>)"
    have ap: "\<exists>s1. apply_transition env (r\<lparr>run_cancel_requested_at := Some (en_now env)\<rparr>) Run_CANCELLED s = (s1, Inr ?r1)"
      using created(1) by (simp add: apply_transition_def ensure_run_transition_def Let_def)
    then obtain s1 where ap: "apply_transition env (r\<lparr>run_cancel_requested_at := Some (en_now env)\<rparr>)
        Run_CANCELLED s = (s1, Inr ?r1)" by blast
    let ?r2 = "?r1\<lparr>run_failure_category := Some Fail_CANCELLED\<rparr>"
    obtain s3 u where s3: "(if owns then on_repo (update_status (run_investigation_id r) Inv_CANCELLED None (en_now env)) (put_run ?r2 s1)
        else (put_run ?r2 s1, Inr ())) = (s3, u)" by fastforce
    have runs: "db_runs s3 = dict_put (db_runs s1) rid ?r2"
      using s3 interrupt_calls_frame [of _ "put_run ?r2 s1" s3 u] id
      by (auto simp: store_simps transitioned_def Let_def split: if_splits)
    have "r' = ?r2" "s' = s3\<lparr>db_frozen := dict_put (db_frozen s3) (run_id r) frozen\<rparr>"
      using created(2) s3 by (auto simp: cancel_created_def ap Let_def split: sum.splits)
    then show ?thesis using Inr created(1) runs id
      by (simp add: get_run_Inr get_frozen_business_projection_def require_run_def transitioned_def Let_def)
  next
    case running
    then show ?thesis using Inr id apply_transition_Inr [OF running(2)]
      by (simp add: get_run_Inr transitioned_def)
  next
    case cancelling
    then show ?thesis using Inr assms(3) by simp
  qed
qed

theorem request_cancel_by_status_witness:
  "\<exists>s' r'. request_cancel (demo_env 5) ''run-1'' demo_phased = (s', Inr r')
     \<and> r' = demo_phased_run\<lparr>run_status_of := Run_CANCELLING, run_cancel_requested_at := Some 5\<rparr>"
proof -
  have "\<not> is_v11 demo_phased_run" by (simp add: is_v11_def)
  then obtain s' r' where c: "request_cancel (demo_env 5) ''run-1'' demo_phased = (s', Inr r')"
    using demo_runs(2)
    by (auto simp: request_cancel_def get_run_def owns_projection_def apply_transition_def
        ensure_run_transition_def Let_def)
  have now: "en_now (demo_env 5) = 5" by (simp add: demo_env_def)
  from request_cancel_by_status [OF demo_init demo_later(2) demo_runs(2) c] c now show ?thesis by simp
qed

section \<open>Tool budget\<close>

text \<open>C20: A V11 run admits a new running tool call only within its tool budget.  When the commit
  of a running call that is not yet stored succeeds, the run has a tool budget, the call is
  charged, and either its logical call has already been counted or the calls counted so far
  are fewer than the budget.\<close>

theorem tool_admission_bounded:
  assumes "commit_tool env c s = (s', Inr k)" and "get_run s (tm_run_id c) = Inr r" and "is_v11 r"
    and "tc_status k = Tool_RUNNING"
    and "tc_id k \<notin> set (map tc_id (list_tool_calls (db_repo s) (run_investigation_id r)))"
  shows "\<exists>b. run_tool_budget r = Some b \<and> tc_budget_charged k \<noteq> Some False
    \<and> (let consumed = consumed_calls (run_id r) (list_tool_calls (db_repo s) (run_investigation_id r)) in
        (\<exists>i. tc_logical_call_id k = Some i \<and> i \<in> set consumed) \<or> int (length consumed) < b)"
  using assms(1)
proof (cases rule: commit_tool_cases)
  case (2 q)
  note d = tool_commit_checksD [OF 2(1)]
  have q: "q = r" using d(1) assms(2) by (simp add: get_run_Inr)
  have k: "k = tm_call c" using 2(2) by simp
  have new: "first_match (\<lambda>x. tc_id x = tc_id k) (list_tool_calls (db_repo s) (run_investigation_id r)) = None"
    using assms(5) unfolding first_match_None by (metis image_eqI set_map)
  show ?thesis
    using d(5) assms(3,4) new
    by (auto simp: ensure_v11_tool_budget_available_def q k Let_def split: if_splits option.splits)
qed simp

text \<open>A V11 run that owns its investigation, and the first tool call it makes.\<close>

definition demo_call :: tool_call where
  "demo_call =
     \<lparr>tc_id = ''call-1'', tc_task_id = ''task-1'', tc_agent_name = ''agent'',
      tc_tool_name = ''read_logs'', tc_input = [], tc_status = Tool_RUNNING,
      tc_output_evidence_ids = [], tc_error_message = None, tc_started_at = Some 2,
      tc_completed_at = None, tc_duration_ms = 0, tc_runtime_run_id = Some ''run-1'',
      tc_logical_call_id = Some ''logical-1'', tc_idempotency_key = None, tc_execution_id = None,
      tc_attempt = 1, tc_budget_charged = Some True\<rparr>"

definition demo_tool_commit :: tool_commit where
  "demo_tool_commit =
     \<lparr>tm_run_id = ''run-1'', tm_attempt_id = ''att-1'', tm_lease_owner = ''worker-a'',
      tm_lease_version = 1, tm_mutation = demo_mutation, tm_call = demo_call, tm_phase = None\<rparr>"

definition demo_tool_store :: runtime_store where
  "demo_tool_store = demo_started
     \<lparr>db_repo := demo_repo\<lparr>repo_records :=
        [(''inv-1'', demo_record\<lparr>ir_active_runtime_run_id := Some ''run-1''\<rparr>)]\<rparr>,
      db_runs := [(''run-1'', demo_turns Run_RUNNING 2)]\<rparr>"

lemma demo_tool_result: "snd (commit_tool (demo_env 2) demo_tool_commit demo_tool_store) = Inr demo_call"
  by code_simp

theorem tool_admission_bounded_witness:
  "\<exists>b. run_tool_budget (demo_turns Run_RUNNING 2) = Some b \<and> 0 < b"
proof -
  have e: "commit_tool (demo_env 2) demo_tool_commit demo_tool_store
      = (fst (commit_tool (demo_env 2) demo_tool_commit demo_tool_store), Inr demo_call)"
    using demo_tool_result by (metis prod.collapse)
  have r: "get_run demo_tool_store (tm_run_id demo_tool_commit) = Inr (demo_turns Run_RUNNING 2)"
    by (simp add: get_run_Inr demo_tool_store_def demo_tool_commit_def)
  have calls: "list_tool_calls (db_repo demo_tool_store) (run_investigation_id (demo_turns Run_RUNNING 2)) = []"
    by code_simp
  have "is_v11 (demo_turns Run_RUNNING 2)" "tc_status demo_call = Tool_RUNNING"
    by (simp_all add: demo_turns_def demo_call_def is_v11_def)
  from tool_admission_bounded [OF e r this] calls show ?thesis
    by (auto simp: consumed_calls_def Let_def)
qed

end
