(* ===== verification/Recovery.thy ===== *)
theory Recovery
  imports Runtime_Commits
begin

text \<open>
  Recovery of an interrupted run (\<open>RuntimeCoordinator\<close> in \<open>backend/runtime/coordinator.py\<close>):
  the validation of its latest checkpoint against the journal and the business repository,
  the budgets that are left, the phase the next attempt starts with, and \<open>resume\<close> up to the
  point where the new attempt is created.  The coordinator and the store share one fault
  injector, the \<open>en_fault\<close> of the environment; the store always has a repository.
\<close>

section \<open>What a phase hands to the coordinator\<close>

record phase_output =
  po_mutation :: business_mutation
  po_status :: string
  po_safe_payload :: payload
  po_resume_state :: resume_state

definition run_calls :: "repository \<Rightarrow> runtime_run \<Rightarrow> tool_call list" where
  "run_calls repo r =
     filter (\<lambda>c. tc_runtime_run_id c = Some (run_id r)) (list_tool_calls repo (run_investigation_id r))"

definition successful_keys :: "tool_call list \<Rightarrow> string list" where
  "successful_keys calls =
     present (map tc_idempotency_key (filter (\<lambda>c. tc_status c = Tool_SUCCESS) calls))"

text \<open>
  \<open>_merge_committed_tools\<close>: evidence, provider results and calls that tool transactions have
  committed since the phase took its snapshot are kept in what the phase commits.
\<close>

definition merge_committed_tools ::
    "repository \<Rightarrow> runtime_run \<Rightarrow> phase_output \<Rightarrow> phase_output result" where
  "merge_committed_tools repo r out =
     (let m = po_mutation out in
      case bm_investigation m of
        None \<Rightarrow> Inr out
      | Some snapshot \<Rightarrow>
          if \<not> is_v11 r \<or> bm_activate_projection m then Inr out
          else and_then (repo_get repo (run_investigation_id r)) (\<lambda>current.
               and_then (merge_tool_result m current) (\<lambda>merged.
               let joined = the (bm_investigation merged);
                   record = snapshot\<lparr>ir_evidence := ir_evidence joined,
                                     ir_provider_results := ir_provider_results joined\<rparr>;
                   calls = dict_put_all tc_id (run_calls repo r)
                             (dict_put_all tc_id (opt_list (bm_tool_calls m)) []);
                   m' = m\<lparr>bm_investigation := Some record, bm_tool_calls := Some (dict_values calls)\<rparr>;
                   consumed = durable_tool_call_count repo (run_investigation_id r) (run_id r) (Some m');
                   rs = po_resume_state out;
                   payload = po_safe_payload out
               in Inr (out\<lparr>po_mutation := m',
                    po_resume_state := rs\<lparr>
                      rs_evidence_ids := map ei_id (ir_evidence record),
                      rs_successful_tool_keys := sort (remdups (successful_keys (dict_values calls))),
                      rs_tool_budget := (case run_tool_budget r of None \<Rightarrow> rs_tool_budget rs
                                         | Some b \<Rightarrow> max 0 (b - int consumed))\<rparr>,
                    po_safe_payload :=
                      (if ''evidence_count'' \<in> set (dict_keys payload)
                       then dict_put payload ''evidence_count'' (PInt (int (length (ir_evidence record))))
                       else payload)\<rparr>))))"

section \<open>Validation of the latest checkpoint\<close>

definition is_checkpoint_event :: "runtime_event \<Rightarrow> bool" where
  "is_checkpoint_event e =
     (case ev_type e of Known t \<Rightarrow> t = Ev_CHECKPOINT_CREATED | Opaque s \<Rightarrow> s = ''checkpoint.created'')"

definition is_tool_completed :: "runtime_event \<Rightarrow> bool" where
  "is_tool_completed e =
     (case ev_type e of Known t \<Rightarrow> t = Ev_TOOL_COMPLETED | Opaque s \<Rightarrow> s = ''tool.completed'')"

definition event_phase_is :: "runtime_event \<Rightarrow> runtime_phase \<Rightarrow> bool" where
  "event_phase_is e p =
     (case ev_phase e of None \<Rightarrow> False | Some (Known q) \<Rightarrow> q = p | Some (Opaque s) \<Rightarrow> s = phase_value p)"

text \<open>The journal entry a checkpoint points at.\<close>

definition announces :: "runtime_event \<Rightarrow> runtime_checkpoint \<Rightarrow> bool" where
  "announces e k =
     (ev_sequence e = ck_event_sequence k \<and> ev_attempt_id e = ck_attempt_id k
      \<and> event_phase_is e (ck_completed_phase k) \<and> is_checkpoint_event e
      \<and> get_or_none (ev_safe_payload e) ''checkpoint_id'' = PStr (ck_id k))"

text \<open>
  The tool results completed since the checkpoint: each must be a successful call of the run
  whose key and evidence its event names.
\<close>

fun authorized_increment ::
    "(ident, tool_call) dict \<Rightarrow> runtime_event list \<Rightarrow> (string list \<times> ident list) result" where
  "authorized_increment calls [] = Inr ([], [])"
| "authorized_increment calls (e # es) =
     (if \<not> is_tool_completed e then authorized_increment calls es
      else (case Option.bind (ev_tool_call_id e) (dict_get calls) of
          None \<Rightarrow> Inl (RuntimeConflict ''checkpoint tool increment is invalid'')
        | Some c \<Rightarrow>
            (case tc_idempotency_key c of
               None \<Rightarrow> Inl (RuntimeConflict ''checkpoint tool increment is invalid'')
             | Some key \<Rightarrow>
                 and_then (raise_first
                   [(tc_status c \<noteq> Tool_SUCCESS
                       \<or> get_or_none (ev_safe_payload e) ''idempotency_key'' \<noteq> PStr key
                       \<or> set (ev_evidence_ids e) \<noteq> set (tc_output_evidence_ids c),
                       RuntimeConflict ''checkpoint tool increment is invalid'')]) (\<lambda>_.
                 and_then (authorized_increment calls es) (\<lambda>(keys, evidence).
                   Inr (key # keys, tc_output_evidence_ids c @ evidence))))))"

definition opt_set :: "'a option \<Rightarrow> 'a set" where
  "opt_set x = (case x of None \<Rightarrow> {} | Some a \<Rightarrow> {a})"

definition validate_recovery_projection ::
    "runtime_store \<Rightarrow> runtime_run \<Rightarrow> runtime_checkpoint \<Rightarrow> unit result" where
  "validate_recovery_projection s r k =
     (let repo = db_repo s; iid = run_investigation_id r; rs = ck_resume_state k in
      and_then (repo_get repo iid) (\<lambda>record.
      and_then (raise_first
        [(set (map fd_id (list_agent_findings repo iid)) \<noteq> set (rs_finding_ids rs)
            \<or> opt_set (map_option rv_id (get_coordination_review repo iid)) \<noteq> set (rs_review_ids rs)
            \<or> opt_set (map_option rp_id (ir_report record)) \<noteq> set (rs_report_ids rs),
            RuntimeConflict ''checkpoint has unauthorized phase projection'')]) (\<lambda>_.
      let calls = dict_put_all tc_id (run_calls repo r) [] in
      and_then (list_events s (run_id r) (ck_event_sequence k) 500) (\<lambda>events.
      and_then (authorized_increment calls events) (\<lambda>(keys, evidence). raise_first
        [(set (map ei_id (ir_evidence record)) \<noteq> set (rs_evidence_ids rs) \<union> set evidence,
            RuntimeConflict ''checkpoint evidence increment is unauthorized''),
         (set (successful_keys (dict_values calls)) \<noteq> set (rs_successful_tool_keys rs) \<union> set keys,
            RuntimeConflict ''checkpoint tool increment is unauthorized'')])))))"

definition validate_checkpoint_references :: "runtime_store \<Rightarrow> runtime_run \<Rightarrow> resume_state \<Rightarrow> unit result" where
  "validate_checkpoint_references s r rs =
     (let repo = db_repo s; iid = run_investigation_id r in
      and_then (repo_get repo iid) (\<lambda>record. raise_first
        [(\<not> set (rs_evidence_ids rs) \<subseteq> set (map ei_id (ir_evidence record)),
            RuntimeConflict ''checkpoint evidence reference is invalid''),
         (\<not> set (rs_finding_ids rs) \<subseteq> set (map fd_id (list_agent_findings repo iid)),
            RuntimeConflict ''checkpoint finding reference is invalid''),
         (\<not> set (rs_review_ids rs) \<subseteq> opt_set (map_option rv_id (get_coordination_review repo iid)),
            RuntimeConflict ''checkpoint review reference is invalid''),
         (\<not> set (rs_report_ids rs) \<subseteq> opt_set (map_option rp_id (ir_report record)),
            RuntimeConflict ''checkpoint report reference is invalid''),
         (\<not> set (rs_successful_tool_keys rs) \<subseteq> set (successful_keys (run_calls repo r)),
            RuntimeConflict ''checkpoint successful tool key is invalid''),
         (case run_tool_budget r of None \<Rightarrow> False | Some b \<Rightarrow> b < rs_tool_budget rs,
            RuntimeConflict ''checkpoint tool budget exceeds frozen run config''),
         (case (run_token_budget r, rs_token_budget rs) of (Some b, Some n) \<Rightarrow> b < n | _ \<Rightarrow> False,
            RuntimeConflict ''checkpoint token budget exceeds frozen run config''),
         (is_v11 r \<and> (case (rs_model_turns rs, run_remaining_model_turns r) of
                         (Some n, Some m) \<Rightarrow> n < m | _ \<Rightarrow> True),
            RuntimeConflict ''checkpoint model turn budget is below durable run state'')]))"

text \<open>A checkpoint's place: scope, order, phase, attempt and journal entry.\<close>

definition checkpoint_place :: "runtime_store \<Rightarrow> runtime_run \<Rightarrow> runtime_checkpoint \<Rightarrow> unit result" where
  "checkpoint_place s r k =
     and_then (raise_first
       [(ck_run_id k \<noteq> run_id r \<or> ck_schema_version k \<noteq> 1,
           RuntimeConflict ''checkpoint schema or scope is invalid'')]) (\<lambda>_.
     and_then (list_checkpoints s (run_id r)) (\<lambda>ks.
     and_then (raise_first
       [(ks = [] \<or> ck_id (last ks) \<noteq> ck_id k,
           RuntimeConflict ''checkpoint is not the latest complete checkpoint''),
        (run_current_phase r \<noteq> Some (ck_completed_phase k),
           RuntimeConflict ''checkpoint phase does not match runtime position'')]) (\<lambda>_.
     and_then (get_attempt s (ck_attempt_id k)) (\<lambda>a.
     and_then (raise_first
       [(att_run_id a \<noteq> run_id r \<or> att_status_of a \<noteq> Att_INTERRUPTED,
           RuntimeConflict ''checkpoint attempt is not interrupted'')]) (\<lambda>_.
     and_then (list_events s (run_id r) (ck_event_sequence k - 1) 1) (\<lambda>es. raise_first
       [(case es of [e] \<Rightarrow> \<not> announces e k | _ \<Rightarrow> True,
           RuntimeConflict ''checkpoint event sequence is invalid'')]))))))"

text \<open>Its two digests, computed again from the checkpoint and from the repository.\<close>

definition projection_error :: "'a result \<Rightarrow> 'a result" where
  "projection_error x =
     (case x of Inl (ValueError m) \<Rightarrow> Inl (RuntimeConflict ''checkpoint business projection is invalid'')
      | _ \<Rightarrow> x)"

definition checkpoint_seals ::
    "runtime_env \<Rightarrow> runtime_store \<Rightarrow> runtime_run \<Rightarrow> runtime_checkpoint \<Rightarrow> unit result" where
  "checkpoint_seals env s r k =
     and_then (checkpoint_digest (en_digest env) (ck_run_id k) (ck_attempt_id k) (ck_completed_phase k)
                 (ck_resume_state k) (ck_schema_version k)) (\<lambda>expected.
     and_then (raise_first
       [(ck_state_digest k \<noteq> expected, RuntimeConflict ''checkpoint digest is invalid'')]) (\<lambda>_.
     and_then (projection_error (durable_projection_digest (en_digest env) (en_dump env) (db_repo s)
                 (run_investigation_id r) (run_id r) (ck_resume_state k) False None)) (\<lambda>projection.
     raise_first
       [(ck_projection_digest k \<noteq> projection,
           RuntimeConflict ''checkpoint business projection digest is invalid'')])))"

definition validated_checkpoint ::
    "runtime_env \<Rightarrow> runtime_store \<Rightarrow> runtime_run \<Rightarrow> runtime_checkpoint result" where
  "validated_checkpoint env s r =
     and_then (hook (en_fault env) ''checkpoint_tamper'') (\<lambda>_.
     (case run_latest_checkpoint_id r of
        None \<Rightarrow> Inl (RuntimeConflict ''interrupted run has no complete checkpoint'')
      | Some cid \<Rightarrow>
          and_then (get_checkpoint s cid) (\<lambda>k.
          and_then (checkpoint_place s r k) (\<lambda>_.
          and_then (checkpoint_seals env s r k) (\<lambda>_.
          and_then (validate_recovery_projection s r k) (\<lambda>_.
          and_then (validate_checkpoint_references s r (ck_resume_state k)) (\<lambda>_. Inr k)))))))"

section \<open>What is left to spend and where to go on\<close>

definition fresh_resume_state :: "runtime_run \<Rightarrow> resume_state" where
  "fresh_resume_state r =
     \<lparr>rs_evidence_ids = [], rs_finding_ids = [], rs_review_ids = [], rs_report_ids = [],
      rs_tool_budget = (case run_tool_budget r of None \<Rightarrow> 0 | Some b \<Rightarrow> b),
      rs_token_budget = run_token_budget r, rs_model_turns = run_remaining_model_turns r,
      rs_successful_tool_keys = []\<rparr>"

definition durable_tokens :: "runtime_store \<Rightarrow> runtime_run \<Rightarrow> int option result" where
  "durable_tokens s r =
     and_then (list_events s (run_id r) 0 500) (\<lambda>events.
     (case run_token_budget r of
        None \<Rightarrow> Inr None
      | Some b \<Rightarrow> and_then (durable_remaining_token_budget events (run_id r) b) (\<lambda>n. Inr (Some n))))"

definition opt_zero :: "int option \<Rightarrow> int" where
  "opt_zero x = (case x of None \<Rightarrow> 0 | Some n \<Rightarrow> n)"

definition left_tools :: "runtime_store \<Rightarrow> runtime_run \<Rightarrow> resume_state \<Rightarrow> int" where
  "left_tools s r rs =
     (case run_tool_budget r of
        None \<Rightarrow> rs_tool_budget rs
      | Some b \<Rightarrow> min (rs_tool_budget rs) (max 0 (b - int
          (durable_tool_call_count (db_repo s) (run_investigation_id r) (run_id r) None))))"

definition left_tokens :: "runtime_run \<Rightarrow> resume_state \<Rightarrow> int option \<Rightarrow> int option" where
  "left_tokens r rs from_events =
     (if run_token_budget r = None then rs_token_budget rs
      else Some (min (opt_zero (rs_token_budget rs)) (opt_zero from_events)))"

definition left_turns :: "runtime_run \<Rightarrow> resume_state \<Rightarrow> int option result" where
  "left_turns r rs =
     (if \<not> is_v11 r then Inr (rs_model_turns rs)
      else (case run_remaining_model_turns r of
          None \<Rightarrow> Inl (RuntimeConflict ''V11 run lacks durable model turn budget'')
        | Some m \<Rightarrow> Inr (Some (case rs_model_turns rs of None \<Rightarrow> m | Some n \<Rightarrow> min n m))))"

definition effective_resume_state ::
    "runtime_store \<Rightarrow> runtime_run \<Rightarrow> runtime_checkpoint option \<Rightarrow> resume_state result" where
  "effective_resume_state s r ck =
     (let rs = (case ck of None \<Rightarrow> fresh_resume_state r | Some k \<Rightarrow> ck_resume_state k) in
      and_then (durable_tokens s r) (\<lambda>from_events.
      and_then (left_turns r rs) (\<lambda>turns.
        Inr (rs\<lparr>rs_tool_budget := left_tools s r rs, rs_token_budget := left_tokens r rs from_events,
                rs_model_turns := turns\<rparr>))))"

definition resume_position ::
    "runtime_env \<Rightarrow> runtime_store \<Rightarrow> runtime_run \<Rightarrow> (resume_state \<times> nat) result" where
  "resume_position env s r =
     (if run_latest_checkpoint_id r = None then Inr (fresh_resume_state r, 0)
      else and_then (validated_checkpoint env s r) (\<lambda>k.
        (case index_of (pp_order (phase_profile_for (run_contract_version r))) (ck_completed_phase k) of
           None \<Rightarrow> Inl (RuntimeConflict ''checkpoint phase belongs to another execution profile'')
         | Some i \<Rightarrow> Inr (ck_resume_state k, i + 1))))"

text \<open>The newest attempt that is running.\<close>

definition running_attempt :: "runtime_store \<Rightarrow> ident \<Rightarrow> runtime_attempt result" where
  "running_attempt s rid =
     and_then (list_attempts s rid) (\<lambda>as.
     (case first_match (\<lambda>a. att_status_of a = Att_RUNNING) (rev as) of
        None \<Rightarrow> Inl (RuntimeConflict ''runtime run has no active attempt'') | Some a \<Rightarrow> Inr a))"

section \<open>Starting an attempt\<close>

definition new_attempt :: "runtime_env \<Rightarrow> ident \<Rightarrow> ident \<Rightarrow> int \<Rightarrow> ident option \<Rightarrow> runtime_attempt" where
  "new_attempt env aid rid n ck =
     \<lparr>att_id = aid, att_run_id = rid, att_number = n, att_resume_from_checkpoint_id = ck,
      att_status_of = Att_RUNNING, att_started_at = en_now env, att_completed_at = None,
      att_failure_category = None\<rparr>"

text \<open>\<open>execute\<close> up to the call of \<open>_execute_owned\<close>.\<close>

definition start_execution ::
    "runtime_env \<Rightarrow> ident \<Rightarrow> ident \<Rightarrow> string \<Rightarrow> (runtime_run \<times> runtime_attempt) store_op" where
  "start_execution env aid rid owner s =
     (case list_attempts s rid of
        Inl e \<Rightarrow> (s, Inl e)
      | Inr as \<Rightarrow> acquire_lease_and_create_attempt env rid
                    (new_attempt env aid rid (int (length as) + 1) None) owner Run_CREATED s)"

text \<open>A checkpoint that does not validate is rejected with an event, and the error stands.\<close>

definition reject_checkpoint ::
    "runtime_env \<Rightarrow> ident \<Rightarrow> ident option \<Rightarrow> py_error \<Rightarrow> 'a store_op" where
  "reject_checkpoint env rid cid e s =
     (if \<not> is_runtime_conflict e then (s, Inl e)
      else (case list_attempts s rid of
          Inl e' \<Rightarrow> (s, Inl e')
        | Inr as \<Rightarrow>
            if as = [] then (s, Inl e)
            else (case append_recovery_rejection env rid (att_id (last as)) cid None s of
                (s', Inl e') \<Rightarrow> (s', Inl e') | (s', Inr _) \<Rightarrow> (s', Inl e))))"

definition recovery_point ::
    "runtime_env \<Rightarrow> runtime_run \<Rightarrow> runtime_checkpoint option store_op" where
  "recovery_point env r s =
     (if run_latest_checkpoint_id r \<noteq> None
      then (case validated_checkpoint env s r of
          Inl e \<Rightarrow> reject_checkpoint env (run_id r) (run_latest_checkpoint_id r) e s
        | Inr k \<Rightarrow> (s, Inr (Some k)))
      else (case and_then (if run_current_phase r \<noteq> None then Inr True
                           else and_then (list_checkpoints s (run_id r)) (\<lambda>ks. Inr (ks \<noteq> []))) (\<lambda>lost. raise_first
               [(lost, RuntimeConflict ''runtime position lacks its latest checkpoint'')]) of
          Inl e \<Rightarrow> (s, Inl e) | Inr _ \<Rightarrow> (s, Inr None)))"

definition resume_failure :: "py_error \<Rightarrow> py_error" where
  "resume_failure e = (if is_runtime_conflict e then RuntimeConflict ''runtime resume conflict'' else e)"

definition start_resumed ::
    "runtime_env \<Rightarrow> ident \<Rightarrow> runtime_attempt \<Rightarrow> string \<Rightarrow> (runtime_run \<times> runtime_attempt) store_op" where
  "start_resumed env rid a owner s =
     (case hook (en_fault env) ''concurrent_resume'' of
        Inl e \<Rightarrow> (s, Inl e)
      | Inr _ \<Rightarrow> acquire_lease_and_create_attempt env rid a owner Run_INTERRUPTED s)"

text \<open>\<open>resume\<close> up to the call of \<open>_execute_owned\<close>, with what is passed to it.\<close>

definition start_recovery ::
    "runtime_env \<Rightarrow> ident \<Rightarrow> ident \<Rightarrow> string
       \<Rightarrow> (runtime_run \<times> runtime_attempt \<times> ident option \<times> resume_state) store_op" where
  "start_recovery env aid rid owner s =
     (case and_then (get_run s rid) (\<lambda>r. and_then (raise_first
             [(run_status_of r \<noteq> Run_INTERRUPTED,
                 RuntimeConflict ''only interrupted runtime runs can resume'')]) (\<lambda>_. Inr r)) of
        Inl e \<Rightarrow> (s, Inl e)
      | Inr r \<Rightarrow>
          (case recovery_point env r s of
             (s1, Inl e) \<Rightarrow> (s1, Inl e)
           | (s1, Inr ck) \<Rightarrow>
               (case and_then (effective_resume_state s1 r ck) (\<lambda>rs.
                     and_then (list_attempts s1 rid) (\<lambda>as. Inr (rs, as))) of
                  Inl e \<Rightarrow> (s1, Inl e)
                | Inr (rs, as) \<Rightarrow>
                    (case start_resumed env rid
                            (new_attempt env aid rid (int (length as) + 1) (map_option ck_id ck)) owner s1 of
                       (s2, Inl e) \<Rightarrow> (s2, Inl (resume_failure e))
                     | (s2, Inr (leased, a)) \<Rightarrow> (s2, Inr (leased, a, map_option ck_id ck, rs))))))"

end
