(* ===== verification/Recovery_Samples.thy ===== *)
theory Recovery_Samples
  imports Recovery Store_Properties
begin

text \<open>
  The sample run after a crash: its first phase is committed, its lease runs out, the audit
  interrupts it, and a second worker resumes it.
\<close>

definition demo_interrupted_run :: runtime_run where
  "demo_interrupted_run = demo_phased_run\<lparr>run_status_of := Run_INTERRUPTED, run_lease_owner := None,
     run_lease_expires_at := None, run_failure_category := Some Fail_LEASE_LOST\<rparr>"

definition demo_interrupted_attempt :: runtime_attempt where
  "demo_interrupted_attempt = demo_attempt\<lparr>att_status_of := Att_INTERRUPTED,
     att_completed_at := Some 30000002, att_failure_category := Some Fail_LEASE_LOST\<rparr>"

definition demo_interruption_events :: "runtime_event list" where
  "demo_interruption_events =
     [demo_event 4 Ev_RUN_INTERRUPTED None RActor_RUNTIME lease_lost_payload 30000002,
      demo_event 5 Ev_ATTEMPT_INTERRUPTED None RActor_RUNTIME lease_lost_payload 30000002]"

definition demo_interrupted :: runtime_store where
  "demo_interrupted = demo_phased\<lparr>db_runs := [(''run-1'', demo_interrupted_run)],
     db_attempts := [(''att-1'', demo_interrupted_attempt)],
     db_events := [(''run-1'', demo_started_event # demo_phase_events @ demo_interruption_events)],
     db_published := [[demo_started_event], demo_phase_events, demo_interruption_events]\<rparr>"

definition demo_resumed_run :: runtime_run where
  "demo_resumed_run = demo_interrupted_run\<lparr>run_status_of := Run_RUNNING,
     run_lease_owner := Some ''worker-b'', run_lease_version := 2,
     run_lease_expires_at := Some 70000000\<rparr>"

definition demo_second_attempt :: runtime_attempt where
  "demo_second_attempt = new_attempt (demo_env 40000000) ''att-2'' ''run-1'' 2 (Some ''ck-1'')"

definition demo_resumed :: runtime_store where
  "demo_resumed = demo_interrupted\<lparr>db_runs := [(''run-1'', demo_resumed_run)],
     db_attempts := [(''att-1'', demo_interrupted_attempt), (''att-2'', demo_second_attempt)]\<rparr>"

lemma demo_interrupted_result:
  "audit_expired_leases (demo_env 30000002) demo_phased = (demo_interrupted, Inr [demo_interrupted_run])"
  by code_simp

lemma demo_validated:
  "validated_checkpoint (demo_env 40000000) demo_interrupted demo_interrupted_run = Inr demo_checkpoint"
  by code_simp

lemma demo_interrupted_run_known: "get_run demo_interrupted ''run-1'' = Inr demo_interrupted_run"
  by (simp add: get_run_def require_run_def demo_interrupted_def)

lemma demo_recovery_point:
  "recovery_point (demo_env 40000000) demo_interrupted_run demo_interrupted
     = (demo_interrupted, Inr (Some demo_checkpoint))"
  by (simp add: recovery_point_def demo_validated)
     (simp add: demo_interrupted_run_def demo_phased_run_def)

lemma demo_effective:
  "effective_resume_state demo_interrupted demo_interrupted_run (Some demo_checkpoint) = Inr demo_resume"
  by code_simp

lemma demo_interrupted_attempts:
  "list_attempts demo_interrupted ''run-1'' = Inr [demo_interrupted_attempt]"
  by code_simp

lemma demo_resumed_start:
  "start_resumed (demo_env 40000000) ''run-1'' demo_second_attempt ''worker-b'' demo_interrupted
     = (demo_resumed, Inr (demo_resumed_run, demo_second_attempt))"
  by code_simp

lemma demo_resumed_result:
  "start_recovery (demo_env 40000000) ''att-2'' ''run-1'' ''worker-b'' demo_interrupted
     = (demo_resumed, Inr (demo_resumed_run, demo_second_attempt, Some ''ck-1'', demo_resume))"
proof -
  have "run_status_of demo_interrupted_run = Run_INTERRUPTED" "ck_id demo_checkpoint = ''ck-1''"
    by (simp_all add: demo_interrupted_run_def demo_checkpoint_def)
  then show ?thesis
    using demo_resumed_start
    by (simp add: start_recovery_def demo_interrupted_run_known demo_recovery_point demo_effective
        demo_interrupted_attempts result_eval demo_second_attempt_def)
qed

lemma demo_interrupted_later:
  "store_step\<^sup>*\<^sup>* demo_store demo_interrupted" "store_step\<^sup>*\<^sup>* demo_phased demo_interrupted"
  using demo_later(2) Step_audit [OF demo_interrupted_result] by (meson rtranclp.rtrancl_into_rtrancl r_into_rtranclp)+

end
