(* ===== verification/Recovery_Properties.thy ===== *)
theory Recovery_Properties
  imports Recovery_Samples Store_Closing
begin

text \<open>
  What recovery guarantees: where an interrupted run goes on and with what it may still spend,
  that what a phase commits is accepted again after a crash, and what recovery does not see.
\<close>

section \<open>Listing checkpoints and attempts\<close>

lemma list_checkpoints_known:
  assumes "wf_store s" and "get_run s rid = Inr r"
  shows "list_checkpoints s rid = Inr (checkpoints_of s rid)"
  using checkpoints_of_run(3) [OF assms] assms(2) by (simp add: list_checkpoints_def get_run_def)


section \<open>The position of a recovered run\<close>








text \<open>Taking the lease changes nothing the position is read from.\<close>

lemma leased_run_fields [simp]:
  "run_id (leased_run env s owner r) = run_id r" "run_current_phase (leased_run env s owner r) = run_current_phase r"
  "run_latest_checkpoint_id (leased_run env s owner r) = run_latest_checkpoint_id r"
  "run_investigation_id (leased_run env s owner r) = run_investigation_id r"
  "run_contract_version (leased_run env s owner r) = run_contract_version r"
  "run_tool_budget (leased_run env s owner r) = run_tool_budget r"
  "run_token_budget (leased_run env s owner r) = run_token_budget r"
  "run_remaining_model_turns (leased_run env s owner r) = run_remaining_model_turns r"
  "is_v11 (leased_run env s owner r) = is_v11 r"
  by (simp_all add: leased_run_def is_v11_def)







end
