(* ===== verification/Recovery_Acceptance.thy ===== *)
theory Recovery_Acceptance
  imports Recovery_Properties
begin

text \<open>
  What a phase commits, recovery accepts: the business view a mutation describes is the view
  the repository shows once the mutation is applied, so the digests and references recorded in
  the checkpoint are found again by the validation of the next attempt.
\<close>

section \<open>The view a mutation leaves\<close>

named_theorems view_simps \<open>the parts of the repository an operation leaves alone\<close>

lemma repo_save_Inr [view_simps]:
  "repo_save x repo = (repo', Inr u) \<longleftrightarrow> validate_investigation_record x = Inr ()
     \<and> repo' = repo\<lparr>repo_records := dict_put (repo_records repo) (ir_id x) x\<rparr>"
  by (auto simp: repo_save_def split: sum.splits)







section \<open>The same digest\<close>
















section \<open>What a phase commit writes\<close>



section \<open>Validation of an intact checkpoint\<close>













end
