(* ===== verification/Recovery_Limits.thy ===== *)
theory Recovery_Limits
  imports Recovery_Properties
begin

text \<open>
  What recovery does not see: usage recorded after the first page of a journal.
\<close>

section \<open>What recovery does not read\<close>

lemma first_page:
  assumes "wf_store s" and "get_run s rid = Inr r"
  shows "list_events s rid 0 500 = Inr (take 500 (events_of s rid))"
  using list_events_page [OF assms(1), of rid r 0 500] assms(2) by (simp add: get_run_Inr)

lemma durable_tokens_first_page:
  assumes "wf_store s" and "get_run s rid = Inr q" and "run_id r = rid"
  shows "durable_tokens s r = (case run_token_budget r of
      None \<Rightarrow> Inr None
    | Some b \<Rightarrow> and_then (durable_remaining_token_budget (take 500 (events_of s rid)) rid b)
        (\<lambda>n. Inr (Some n)))"
  unfolding durable_tokens_def assms(3) first_page [OF assms(1,2)] and_then_simps ..

text \<open>The recovered token budget ignores everything after the 500th event.  Once the journal
  of a run has 500 events, the tokens \<open>resume\<close> counts as left are the same in every later state,
  whatever usage the journal has recorded since.\<close>

theorem recovered_tokens_frozen:
  assumes "init_store s0" and "store_step\<^sup>*\<^sup>* s0 s" and "store_step\<^sup>*\<^sup>* s s'"
    and "get_run s rid = Inr r" and "500 \<le> length (events_of s rid)"
  shows "durable_tokens s' r = durable_tokens s r"
proof -
  note wf = reachable_wf [OF assms(1,2)]
  have wf': "wf_store s'" using reachable_wf [OF assms(1) rtranclp_trans [OF assms(2,3)]] .
  obtain r' where r': "get_run s' rid = Inr r'" using later_run [OF assms(1-4)] .
  note id = checkpoints_of_run(1) [OF wf assms(4)]
  obtain es where es: "dict_get (db_events s) rid = Some es" and "events_of s rid = es"
    using assms(5) by (auto simp: events_of_def split: option.splits)
  moreover from es obtain fs where "events_of s' rid = es @ fs"
    using later_parts(3) [OF assms(1-3)] unfolding journals_grow_def by (metis events_of_Some)
  ultimately have "take 500 (events_of s' rid) = take 500 (events_of s rid)"
    using assms(5) by simp
  then show ?thesis
    unfolding durable_tokens_first_page [OF wf assms(4) id] durable_tokens_first_page [OF wf' r' id]
    by (rule arg_cong)
qed

text \<open>A long journal: start events without usage, then a model call that used 900 tokens.\<close>

lemma renumbered_event_valid:
  assumes "validate_runtime_event e = Inr e" and "1 \<le> n"
  shows "validate_runtime_event (e\<lparr>ev_sequence := n\<rparr>) = Inr (e\<lparr>ev_sequence := n\<rparr>)"
proof -
  let ?rest = "\<lambda>e. and_then (validate_open_enum ''event_type'' (ev_type e))
     (\<lambda>_. and_then (case ev_phase e of None \<Rightarrow> Inr () | Some p \<Rightarrow> validate_open_enum ''phase'' p)
     (\<lambda>_. and_then (validate_open_enum ''actor_type'' (ev_actor_type e))
     (\<lambda>_. and_then (raise_first [(ev_schema_version e < 1, ValueError ''schema_version'')])
     (\<lambda>_. validate_safe_payload (ev_type e) (ev_schema_version e) (ev_safe_payload e)))))"
  have split: "validate_runtime_event d = and_then (raise_first [(ev_sequence d < 1, ValueError ''sequence'')])
      (\<lambda>_. and_then (?rest d) (\<lambda>p. Inr (d\<lparr>ev_safe_payload := p\<rparr>)))" for d
    unfolding validate_runtime_event_def by (simp add: and_then_def split: sum.splits)
  obtain p where p: "?rest e = Inr p" and e: "e\<lparr>ev_safe_payload := p\<rparr> = e"
    using assms(1) unfolding split and_then_Inr sum.inject by blast
  have "ev_safe_payload (e\<lparr>ev_safe_payload := p\<rparr>) = p" by simp
  then have pe: "p = ev_safe_payload e" unfolding e by (rule sym)
  have "?rest (e\<lparr>ev_sequence := n\<rparr>) = ?rest e" by simp
  with assms(2) show ?thesis unfolding split p pe by (simp add: raise_first.simps p pe)
qed

definition demo_filler :: "int \<Rightarrow> runtime_event" where
  "demo_filler n = demo_event n Ev_RUN_STARTED None RActor_RUNTIME [(''status'', PStr ''running'')] 2"

definition demo_busy_events :: "nat \<Rightarrow> runtime_event list" where
  "demo_busy_events m = map (\<lambda>i. demo_filler (int i)) [1 ..< Suc m]"

definition demo_busy :: "nat \<Rightarrow> runtime_store" where
  "demo_busy m = demo_started\<lparr>db_events := [(''run-1'', demo_busy_events m)],
     db_published := map (\<lambda>e. [e]) (demo_busy_events m)\<rparr>"

definition demo_usage_command :: event_command where
  "demo_usage_command = demo_command\<lparr>cmd_event_type := Known Ev_MODEL_COMPLETED,
     cmd_actor_type := Known RActor_MODEL,
     cmd_safe_payload := Some [(''status'', PStr ''completed''), (''input_tokens'', PInt 900),
       (''output_tokens'', PInt 0)]\<rparr>"

definition demo_usage :: "int \<Rightarrow> runtime_event" where
  "demo_usage n = demo_event n Ev_MODEL_COMPLETED None RActor_MODEL
     [(''status'', PStr ''completed''), (''input_tokens'', PInt 900), (''output_tokens'', PInt 0)] 2"

definition demo_spent :: runtime_store where
  "demo_spent = publish_events [demo_usage 501] (append_events ''run-1'' [demo_usage 501] (demo_busy 500))"

lemma demo_busy_events_simps [simp]:
  "length (demo_busy_events m) = m"
  "demo_busy_events (Suc m) = demo_busy_events m @ [demo_filler (int m + 1)]"
  by (simp_all add: demo_busy_events_def add.commute)

lemma demo_busy_fields [simp]:
  "get_run (demo_busy m) ''run-1'' = Inr demo_started_run" "events_of (demo_busy m) ''run-1'' = demo_busy_events m"
  "attempt_in (demo_busy m) ''att-1'' ''run-1'' Att_RUNNING" "db_publishing (demo_busy m)"
  by (simp_all add: demo_busy_def demo_started_def demo_created_def demo_store_def empty_store_def
      get_run_def require_run_def events_of_def attempt_in_def demo_attempt_def)

lemma demo_events_valid:
  "validate_runtime_event (demo_filler 1) = Inr (demo_filler 1)"
  "validate_runtime_event (demo_usage 1) = Inr (demo_usage 1)"
  by code_simp+

lemma demo_events_renumbered:
  "demo_filler n = (demo_filler 1)\<lparr>ev_sequence := n\<rparr>" "demo_usage n = (demo_usage 1)\<lparr>ev_sequence := n\<rparr>"
  by (simp_all add: demo_filler_def demo_usage_def demo_event_def)

lemma demo_events_valid_twice:
  "1 \<le> n \<Longrightarrow> validate_event_twice (demo_filler n) = Inr (demo_filler n)"
  "1 \<le> n \<Longrightarrow> validate_event_twice (demo_usage n) = Inr (demo_usage n)"
  using renumbered_event_valid [OF demo_events_valid(1)] renumbered_event_valid [OF demo_events_valid(2)]
  by (simp_all add: validate_event_twice_def demo_events_renumbered [symmetric])

lemma demo_busy_append:
  assumes "cmd_run_id c = ''run-1''" "cmd_attempt_id c = ''att-1''" "cmd_lease_owner c = ''worker-a''"
    "cmd_lease_version c = 1" "validate_event_twice (command_event (demo_env 2) c (int m + 1)) = Inr e"
  shows "append_event_command (demo_env 2) c (demo_busy m)
    = (publish_events [e] (append_events ''run-1'' [e] (demo_busy m)), Inr e)"
proof -
  have "hook (en_fault (demo_env 2)) ''unsafe_event_payload'' = Inr ()" "en_now (demo_env 2) = 2"
    by (simp_all add: demo_env_def hook_def)
  moreover have "require_run (demo_busy m) ''run-1'' = Inr demo_started_run"
    using demo_busy_fields(1) by (simp add: get_run_def)
  moreover have "lease_holds 2 demo_started_run ''worker-a'' 1"
    by (simp add: lease_holds_def demo_started_run_def)
  ultimately show ?thesis
    using assms by (simp add: append_event_command_def raise_first.simps validate_fence_def next_sequence_def
        algebra_simps)
qed

lemma demo_busy_step: "store_step (demo_busy m) (demo_busy (Suc m))"
proof -
  have "command_event (demo_env 2) demo_command (int m + 1) = demo_filler (int m + 1)"
    by (simp add: command_event_def demo_command_def demo_filler_def demo_event_def demo_env_def)
  then have "append_event_command (demo_env 2) demo_command (demo_busy m)
      = (publish_events [demo_filler (int m + 1)] (append_events ''run-1'' [demo_filler (int m + 1)] (demo_busy m)),
         Inr (demo_filler (int m + 1)))"
    by (intro demo_busy_append) (simp_all add: demo_events_valid_twice, simp_all add: demo_command_def)
  moreover have "publish_events [demo_filler (int m + 1)]
      (append_events ''run-1'' [demo_filler (int m + 1)] (demo_busy m)) = demo_busy (Suc m)"
    by (simp add: publish_events_def append_events_def) (simp add: demo_busy_def demo_started_def demo_created_def demo_store_def empty_store_def)
  ultimately show ?thesis by (metis Step_append_event)
qed

lemma demo_busy_later: "store_step\<^sup>*\<^sup>* demo_store (demo_busy m)"
proof (induction m)
  case 0
  have "demo_busy 0 = demo_started"
    by (simp add: demo_busy_def demo_busy_events_def demo_started_def demo_created_def demo_store_def empty_store_def)
  then show ?case using demo_later(1) by simp
next
  case (Suc m)
  then show ?case using demo_busy_step by (rule rtranclp.rtrancl_into_rtrancl)
qed

lemma demo_spent_step: "store_step (demo_busy 500) demo_spent"
proof -
  have "command_event (demo_env 2) demo_usage_command (int 500 + 1) = demo_usage 501"
    by (simp add: command_event_def demo_usage_command_def demo_command_def demo_usage_def demo_event_def demo_env_def)
  then have "append_event_command (demo_env 2) demo_usage_command (demo_busy 500) = (demo_spent, Inr (demo_usage 501))"
    unfolding demo_spent_def
    by (intro demo_busy_append) (simp_all add: demo_events_valid_twice, simp_all add: demo_usage_command_def demo_command_def)
  then show ?thesis by (rule Step_append_event)
qed

lemma demo_busy_unused: "list_ex (rejected_reservation ''run-1'') (demo_busy_events m) = False"
  "filter (counted_usage ''run-1'') (demo_busy_events m) = []"
  by (simp_all add: demo_busy_events_def list_ex_iff filter_empty_conv rejected_reservation_def
      counted_usage_def model_terminal_event_def demo_filler_def demo_event_def)

theorem recovered_tokens_frozen_witness:
  "durable_tokens demo_spent demo_started_run = Inr (Some 1000)
   \<and> durable_remaining_token_budget (events_of demo_spent ''run-1'') ''run-1'' 1000 = Inr 100"
proof
  have budget: "run_token_budget demo_started_run = Some 1000" "run_id demo_started_run = ''run-1''"
    by (simp_all add: demo_started_run_def demo_run_def)
  have "durable_tokens (demo_busy 500) demo_started_run = Inr (Some 1000)"
    using durable_tokens_first_page [OF reachable_wf [OF demo_init demo_busy_later] demo_busy_fields(1) budget(2)]
    by (simp add: budget durable_remaining_token_budget_def durable_token_usage_def demo_busy_unused)
  then show "durable_tokens demo_spent demo_started_run = Inr (Some 1000)"
    using recovered_tokens_frozen [OF demo_init demo_busy_later
        r_into_rtranclp [where r = store_step, OF demo_spent_step] demo_busy_fields(1)] by simp
  have "events_of demo_spent ''run-1'' = demo_busy_events 500 @ [demo_usage 501]"
    by (simp add: demo_spent_def publish_events_def store_simps events_of_def append_events_def)
       (simp add: demo_busy_def)
  moreover have "\<not> rejected_reservation ''run-1'' (demo_usage 501)" "counted_usage ''run-1'' (demo_usage 501)"
    "event_tokens (demo_usage 501) = Inr 900"
    by (simp_all add: rejected_reservation_def counted_usage_def model_terminal_event_def demo_usage_def
        demo_event_def event_tokens_def payload_int_def get_or_none_def get_or_def)
  ultimately show "durable_remaining_token_budget (events_of demo_spent ''run-1'') ''run-1'' 1000 = Inr 100"
    by (simp add: durable_remaining_token_budget_def durable_token_usage_def demo_busy_unused)
qed

end
