(* ===== verification/Event_Hub.thy ===== *)
theory Event_Hub
  imports Runtime_Domain Transition_Systems
begin

text \<open>
  The in-process event hub (\<open>backend/runtime/event_hub.py\<close>): bounded subscriber queues that
  only wake a stream up, and the stream that reads the durable journal.

  A subscription object ids named by a number, its identity.  \<open>call_soon_threadsafe\<close> adds to the
  list of scheduled callbacks, which the event loop runs in order; the iteration order of a
  Python set and the loops that have been closed are parameters of \<open>publish\<close>.
\<close>

section \<open>The hub\<close>

record subscription =
  sb_run_id :: ident
  sb_queue :: "runtime_event list"
  sb_closed :: bool

record event_hub =
  hb_max_queue :: int
  hb_subscribers :: "(ident, nat list) dict"
  hb_objects :: "(nat, subscription) dict"
  hb_scheduled :: "(nat \<times> runtime_event) list"

definition new_hub :: "int \<Rightarrow> event_hub result" where
  "new_hub n =
     (if n < 1 then Inl (ValueError ''event subscriber queue size must be positive'')
      else Inr \<lparr>hb_max_queue = n, hb_subscribers = [], hb_objects = [], hb_scheduled = []\<rparr>)"

definition subscribers_of :: "event_hub \<Rightarrow> ident \<Rightarrow> nat list" where
  "subscribers_of h rid = (case dict_get (hb_subscribers h) rid of None \<Rightarrow> [] | Some ids \<Rightarrow> ids)"

definition subscribe :: "ident \<Rightarrow> event_hub \<Rightarrow> event_hub \<times> nat" where
  "subscribe rid h =
     (let i = length (hb_objects h) in
      (h\<lparr>hb_objects := dict_put (hb_objects h) i \<lparr>sb_run_id = rid, sb_queue = [], sb_closed = False\<rparr>,
         hb_subscribers := dict_put (hb_subscribers h) rid (List.insert i (subscribers_of h rid))\<rparr>, i))"

definition drop_subscriber :: "ident \<Rightarrow> nat \<Rightarrow> (ident, nat list) dict \<Rightarrow> (ident, nat list) dict" where
  "drop_subscriber rid i d =
     (case dict_get d rid of
        None \<Rightarrow> d
      | Some ids \<Rightarrow> (let rest = removeAll i ids in if rest = [] then dict_pop d rid else dict_put d rid rest))"

definition unsubscribe :: "nat \<Rightarrow> event_hub \<Rightarrow> event_hub" where
  "unsubscribe i h =
     (case dict_get (hb_objects h) i of
        None \<Rightarrow> h
      | Some b \<Rightarrow>
          h\<lparr>hb_objects := dict_put (hb_objects h) i (b\<lparr>sb_closed := True\<rparr>),
            hb_subscribers := drop_subscriber (sb_run_id b) i (hb_subscribers h)\<rparr>)"

definition notify :: "(nat \<Rightarrow> bool) \<Rightarrow> runtime_event \<Rightarrow> nat \<Rightarrow> event_hub \<Rightarrow> event_hub" where
  "notify loop_closed e i h =
     (case dict_get (hb_objects h) i of
        None \<Rightarrow> h
      | Some b \<Rightarrow>
          if sb_closed b \<or> loop_closed i then unsubscribe i h
          else h\<lparr>hb_scheduled := hb_scheduled h @ [(i, e)]\<rparr>)"

definition publish_one ::
    "(nat list \<Rightarrow> nat list) \<Rightarrow> (nat \<Rightarrow> bool) \<Rightarrow> runtime_event \<Rightarrow> event_hub \<Rightarrow> event_hub" where
  "publish_one order loop_closed e h =
     fold (notify loop_closed e) (order (subscribers_of h (ev_run_id e))) h"

definition publish ::
    "(nat list \<Rightarrow> nat list) \<Rightarrow> (nat \<Rightarrow> bool) \<Rightarrow> runtime_event list \<Rightarrow> event_hub \<Rightarrow> event_hub" where
  "publish order loop_closed events h = fold (publish_one order loop_closed) events h"

text \<open>\<open>_deliver\<close>; \<open>put_nowait\<close> raises \<open>QueueFull\<close> on a queue of the maximal size.\<close>

definition deliver :: "nat \<Rightarrow> runtime_event \<Rightarrow> event_hub \<Rightarrow> event_hub" where
  "deliver i e h =
     (case dict_get (hb_objects h) i of
        None \<Rightarrow> h
      | Some b \<Rightarrow>
          if sb_closed b then h
          else if int (length (sb_queue b)) \<ge> hb_max_queue h then unsubscribe i h
          else h\<lparr>hb_objects := dict_put (hb_objects h) i (b\<lparr>sb_queue := sb_queue b @ [e]\<rparr>)\<rparr>)"

text \<open>The event loop runs its first callback, or all of them.\<close>

definition run_callback :: "event_hub \<Rightarrow> event_hub" where
  "run_callback h =
     (case hb_scheduled h of [] \<Rightarrow> h | (i, e) # rest \<Rightarrow> deliver i e (h\<lparr>hb_scheduled := rest\<rparr>))"

definition run_callbacks :: "event_hub \<Rightarrow> event_hub" where
  "run_callbacks h = fold (\<lambda>(i, e). deliver i e) (hb_scheduled h) (h\<lparr>hb_scheduled := []\<rparr>)"

text \<open>\<open>EventSubscription.get\<close>: an error, an event, or \<open>None\<close> while it would wait.\<close>

definition subscription_get :: "nat \<Rightarrow> event_hub \<Rightarrow> event_hub \<times> runtime_event option result" where
  "subscription_get i h =
     (case dict_get (hb_objects h) i of
        None \<Rightarrow> (h, Inl (KeyError ''subscription''))
      | Some b \<Rightarrow>
          (case sb_queue b of
             [] \<Rightarrow> (h, if sb_closed b then Inl (EventHubOverflow ''runtime event subscriber overflowed'')
                       else Inr None)
           | e # es \<Rightarrow> (h\<lparr>hb_objects := dict_put (hb_objects h) i (b\<lparr>sb_queue := es\<rparr>)\<rparr>, Inr (Some e))))"

section \<open>Well-formed hubs\<close>

text \<open>A subscription that is open, to a run.\<close>

definition open_at :: "event_hub \<Rightarrow> nat \<Rightarrow> ident \<Rightarrow> bool" where
  "open_at h i rid =
     (case dict_get (hb_objects h) i of None \<Rightarrow> False | Some b \<Rightarrow> sb_run_id b = rid \<and> \<not> sb_closed b)"

text \<open>Each subscriber set is a non-empty set; it holds the open subscriptions to its run.\<close>

definition registry_ok :: "event_hub \<Rightarrow> bool" where
  "registry_ok h =
     ((\<forall>rid ids. dict_get (hb_subscribers h) rid = Some ids \<longrightarrow> ids \<noteq> [] \<and> distinct ids)
      \<and> (\<forall>rid i. i \<in> set (subscribers_of h rid) \<longleftrightarrow> open_at h i rid))"

text \<open>Queues hold events of the subscription's run, at most the configured number.\<close>

definition queue_ok :: "int \<Rightarrow> subscription \<Rightarrow> bool" where
  "queue_ok n b =
     (int (length (sb_queue b)) \<le> n \<and> (\<forall>e \<in> set (sb_queue b). ev_run_id e = sb_run_id b))"

definition objects_ok :: "event_hub \<Rightarrow> bool" where
  "objects_ok h =
     (1 \<le> hb_max_queue h
      \<and> (\<forall>i b. dict_get (hb_objects h) i = Some b \<longrightarrow>
            i < length (hb_objects h) \<and> queue_ok (hb_max_queue h) b))"

text \<open>A callback carries an event of its subscription's run.\<close>

definition callback_ok :: "event_hub \<Rightarrow> nat \<times> runtime_event \<Rightarrow> bool" where
  "callback_ok h c =
     (case dict_get (hb_objects h) (fst c) of
        None \<Rightarrow> False | Some b \<Rightarrow> sb_run_id b = ev_run_id (snd c))"

definition wf_hub :: "event_hub \<Rightarrow> bool" where
  "wf_hub h = (registry_ok h \<and> objects_ok h \<and> (\<forall>c \<in> set (hb_scheduled h). callback_ok h c))"

lemma length_dict_put: "length (dict_put d k v) = (if k \<in> set (dict_keys d) then length d else Suc (length d))"
  by (induction d) auto

lemma length_dict_put_known: "dict_get d k = Some w \<Longrightarrow> length (dict_put d k v) = length d"
  by (metis domI dom_map_of_conv_image_fst length_dict_put list.set_map)

lemma length_dict_put_new: "dict_get d k = None \<Longrightarrow> length (dict_put d k v) = Suc (length d)"
  by (simp add: dict_put_new)

text \<open>An update of one subscription object that keeps its run.\<close>

definition set_object :: "nat \<Rightarrow> subscription \<Rightarrow> event_hub \<Rightarrow> event_hub" where
  "set_object i b h = h\<lparr>hb_objects := dict_put (hb_objects h) i b\<rparr>"

lemma set_object_simps [simp]:
  "hb_max_queue (set_object i b h) = hb_max_queue h"
  "hb_subscribers (set_object i b h) = hb_subscribers h"
  "hb_scheduled (set_object i b h) = hb_scheduled h"
  "dict_get (hb_objects (set_object i b h)) j = (if j = i then Some b else dict_get (hb_objects h) j)"
  "subscribers_of (set_object i b h) = subscribers_of h"
  by (simp_all add: set_object_def subscribers_of_def fun_eq_iff)

lemma set_object_objects_ok:
  assumes "objects_ok h" and "dict_get (hb_objects h) i = Some c" and "queue_ok (hb_max_queue h) b"
  shows "objects_ok (set_object i b h)"
proof -
  have "length (hb_objects (set_object i b h)) = length (hb_objects h)"
    using assms(2) by (simp add: set_object_def length_dict_put_known)
  then show ?thesis using assms by (auto simp: objects_ok_def)
qed

lemma set_object_callbacks:
  assumes "callback_ok h c" and "dict_get (hb_objects h) i = Some b'" and "sb_run_id b = sb_run_id b'"
  shows "callback_ok (set_object i b h) c"
  using assms by (auto simp: callback_ok_def)

lemma set_object_registry:
  assumes "registry_ok h" and "dict_get (hb_objects h) i = Some b'"
    and "sb_run_id b = sb_run_id b'" and "sb_closed b = sb_closed b'"
  shows "registry_ok (set_object i b h)"
proof -
  have "open_at (set_object i b h) j rid = open_at h j rid" for j rid
    using assms(2-4) by (simp add: open_at_def)
  with assms(1) show ?thesis by (simp add: registry_ok_def)
qed

section \<open>Every operation keeps the hub well-formed\<close>

lemma new_hub_wf: "new_hub n = Inr h \<Longrightarrow> wf_hub h"
  by (auto simp: new_hub_def wf_hub_def registry_ok_def objects_ok_def subscribers_of_def open_at_def
      split: if_splits)

lemma subscribe_wf:
  assumes "wf_hub h" and "subscribe rid h = (h', i)"
  shows "wf_hub h'" and "open_at h' i rid"
proof -
  let ?b = "\<lparr>sb_run_id = rid, sb_queue = [], sb_closed = False\<rparr>"
  have h: "registry_ok h" "objects_ok h" "\<forall>c \<in> set (hb_scheduled h). callback_ok h c"
    using assms(1) by (simp_all add: wf_hub_def)
  have i: "i = length (hb_objects h)"
    and h': "hb_objects h' = dict_put (hb_objects h) i ?b" "hb_max_queue h' = hb_max_queue h"
      "hb_scheduled h' = hb_scheduled h"
      "hb_subscribers h' = dict_put (hb_subscribers h) rid (List.insert i (subscribers_of h rid))"
    using assms(2) by (auto simp: subscribe_def Let_def)
  have new: "dict_get (hb_objects h) i = None"
    using h(2) by (cases "dict_get (hb_objects h) i") (auto simp: objects_ok_def i)
  have len: "length (hb_objects h') = Suc (length (hb_objects h))"
    using length_dict_put_new [OF new] by (simp add: h')
  have opens: "open_at h' j k = (open_at h j k \<or> (j = i \<and> k = rid))" for j k
    using new by (auto simp: open_at_def h')
  have subs: "subscribers_of h' k = (if k = rid then List.insert i (subscribers_of h rid) else subscribers_of h k)" for k
    by (simp add: subscribers_of_def h')
  show "open_at h' i rid" by (simp add: opens)
  have "registry_ok h'"
    unfolding registry_ok_def
  proof (intro conjI allI impI)
    fix k ids
    assume "dict_get (hb_subscribers h') k = Some ids"
    then have ids: "k = rid \<and> ids = List.insert i (subscribers_of h rid)
        \<or> k \<noteq> rid \<and> dict_get (hb_subscribers h) k = Some ids"
      by (auto simp: h' split: if_splits)
    have "distinct (subscribers_of h rid)"
      using h(1) by (auto simp: registry_ok_def subscribers_of_def split: option.split)
    moreover have "i \<in> set (List.insert i (subscribers_of h rid))" by simp
    ultimately show "ids \<noteq> []" "distinct ids"
      using ids h(1) unfolding registry_ok_def by (metis distinct_insert list.set(1) empty_iff)+
  next
    fix k j
    show "(j \<in> set (subscribers_of h' k)) = open_at h' j k"
      using h(1) by (auto simp: subs opens registry_ok_def)
  qed
  moreover have "objects_ok h'"
    unfolding objects_ok_def
  proof (intro conjI allI impI)
    show "1 \<le> hb_max_queue h'" using h(2) by (simp add: objects_ok_def h')
    fix j b
    assume "dict_get (hb_objects h') j = Some b"
    then have "j = i \<and> b = ?b \<or> j \<noteq> i \<and> dict_get (hb_objects h) j = Some b"
      by (auto simp: h' split: if_splits)
    then show "j < length (hb_objects h')" "queue_ok (hb_max_queue h') b"
      using h(2) unfolding len by (auto simp: objects_ok_def i h' queue_ok_def less_Suc_eq)
  qed
  moreover have "callback_ok h' c" if "callback_ok h c" for c
    using that new by (auto simp: callback_ok_def h' split: option.splits)
  ultimately show "wf_hub h'" using h(3) by (simp add: wf_hub_def h')
qed

lemma drop_subscriber_get:
  assumes "\<forall>k ids. dict_get d k = Some ids \<longrightarrow> ids \<noteq> [] \<and> distinct ids"
  shows "dict_get (drop_subscriber rid i d) k =
     (if k = rid then Option.bind (dict_get d rid) (\<lambda>ids. if removeAll i ids = [] then None else Some (removeAll i ids))
      else dict_get d k)"
  using assms
  by (auto simp: drop_subscriber_def Let_def delete_conv split: option.splits)

lemma unsubscribe_wf:
  assumes "wf_hub h" shows "wf_hub (unsubscribe i h)"
proof (cases "dict_get (hb_objects h) i")
  case None
  with assms show ?thesis by (simp add: unsubscribe_def)
next
  case (Some b)
  let ?h = "unsubscribe i h" and ?b = "b\<lparr>sb_closed := True\<rparr>"
  have h: "registry_ok h" "objects_ok h" "\<forall>c \<in> set (hb_scheduled h). callback_ok h c"
    using assms by (simp_all add: wf_hub_def)
  note regs = h(1) [unfolded registry_ok_def, THEN conjunct1]
  have u: "?h = (set_object i ?b h)\<lparr>hb_subscribers := drop_subscriber (sb_run_id b) i (hb_subscribers h)\<rparr>"
    using Some by (simp add: unsubscribe_def set_object_def)
  have subs: "subscribers_of ?h k = (if k = sb_run_id b then removeAll i (subscribers_of h k) else subscribers_of h k)" for k
  proof (cases "dict_get (hb_subscribers h) k")
    case None
    then show ?thesis using drop_subscriber_get [OF regs, of "sb_run_id b" i k]
      by (cases "k = sb_run_id b") (simp_all add: u subscribers_of_def)
  next
    case (Some old)
    then show ?thesis using drop_subscriber_get [OF regs, of "sb_run_id b" i k]
      by (cases "k = sb_run_id b") (simp_all add: u subscribers_of_def)
  qed
  have opens: "open_at ?h j k = (open_at h j k \<and> j \<noteq> i)" for j k
    by (auto simp: u open_at_def)
  have "registry_ok ?h"
    unfolding registry_ok_def
  proof (intro conjI allI impI)
    fix k ids
    assume "dict_get (hb_subscribers ?h) k = Some ids"
    then have "dict_get (drop_subscriber (sb_run_id b) i (hb_subscribers h)) k = Some ids"
      by (simp add: u)
    then obtain old where "dict_get (hb_subscribers h) k = Some old"
      and "ids = old \<or> ids = removeAll i old \<and> ids \<noteq> []"
      using drop_subscriber_get [OF regs, of "sb_run_id b" i k]
      by (auto split: if_splits option.splits simp: bind_eq_Some_conv)
    then show "ids \<noteq> []" "distinct ids" using regs by (metis distinct_removeAll)+
  next
    fix k j
    have "j \<in> set (subscribers_of h k) \<longleftrightarrow> open_at h j k" using h(1) by (simp add: registry_ok_def)
    moreover have "open_at h i k \<Longrightarrow> k = sb_run_id b" using Some by (simp add: open_at_def)
    ultimately show "(j \<in> set (subscribers_of ?h k)) = open_at ?h j k"
      by (auto simp: subs opens)
  qed
  moreover have "objects_ok ?h"
  proof -
    have "queue_ok (hb_max_queue h) ?b" using h(2) Some by (simp add: objects_ok_def queue_ok_def)
    from set_object_objects_ok [OF h(2) Some this] show ?thesis by (simp add: u objects_ok_def)
  qed
  moreover have "callback_ok ?h c" if "callback_ok h c" for c
    using set_object_callbacks [OF that Some, of ?b] by (simp add: u callback_ok_def)
  ultimately show ?thesis using h(3) by (simp add: wf_hub_def u)
qed

lemma unsubscribe_simps [simp]:
  "hb_scheduled (unsubscribe i h) = hb_scheduled h" "hb_max_queue (unsubscribe i h) = hb_max_queue h"
  by (simp_all add: unsubscribe_def split: option.split)

text \<open>Unsubscribing touches one subscription and keeps its run and its queue.\<close>

lemma unsubscribe_get:
  "dict_get (hb_objects (unsubscribe i h)) j =
     map_option (\<lambda>b. if j = i then b\<lparr>sb_closed := True\<rparr> else b) (dict_get (hb_objects h) j)"
  by (cases "dict_get (hb_objects h) j"; cases "dict_get (hb_objects h) i") (auto simp: unsubscribe_def)

lemma notify_wf:
  assumes "wf_hub h" and "\<forall>b. dict_get (hb_objects h) i = Some b \<longrightarrow> sb_run_id b = ev_run_id e"
  shows "wf_hub (notify loop_closed e i h)"
proof -
  have "wf_hub (h\<lparr>hb_scheduled := hb_scheduled h @ [(i, e)]\<rparr>)" if "dict_get (hb_objects h) i = Some b" for b
    using assms that
    by (auto simp: wf_hub_def registry_ok_def objects_ok_def callback_ok_def open_at_def subscribers_of_def)
  then show ?thesis using assms(1) unsubscribe_wf by (auto simp: notify_def split: option.split)
qed

lemma notify_get:
  assumes "dict_get (hb_objects (notify loop_closed e i h)) j = Some b"
  shows "\<exists>b'. dict_get (hb_objects h) j = Some b' \<and> sb_run_id b = sb_run_id b' \<and> sb_queue b = sb_queue b'"
  using assms by (auto simp: notify_def unsubscribe_get split: option.splits if_splits)

lemma notify_all_wf:
  assumes "wf_hub h"
    and "\<forall>i \<in> set ids. \<forall>b. dict_get (hb_objects h) i = Some b \<longrightarrow> sb_run_id b = ev_run_id e"
  shows "wf_hub (fold (notify loop_closed e) ids h)"
  using assms
proof (induction ids arbitrary: h)
  case (Cons i ids)
  have "sb_run_id b = ev_run_id e"
    if "dict_get (hb_objects (notify loop_closed e i h)) j = Some b" "j \<in> set ids" for j b
    using Cons.prems(2) that(2) notify_get [OF that(1)] by auto
  then show ?case using Cons.IH notify_wf [OF Cons.prems(1)] Cons.prems(2) by simp
qed simp

text \<open>The order in which a set is walked: the same elements, in some order.\<close>

definition set_order :: "(nat list \<Rightarrow> nat list) \<Rightarrow> bool" where
  "set_order order = (\<forall>ids. set (order ids) = set ids)"

lemma publish_wf:
  assumes "set_order order" and "wf_hub h" shows "wf_hub (publish order loop_closed events h)"
  using assms(2) unfolding publish_def
proof (induction events arbitrary: h)
  case (Cons e events)
  have "\<forall>i \<in> set (order (subscribers_of h (ev_run_id e))). \<forall>b. dict_get (hb_objects h) i = Some b
      \<longrightarrow> sb_run_id b = ev_run_id e"
    using assms(1) Cons.prems by (auto simp: set_order_def wf_hub_def registry_ok_def open_at_def)
  then have "wf_hub (publish_one order loop_closed e h)"
    using Cons.prems by (simp add: publish_one_def notify_all_wf)
  then show ?case using Cons.IH by simp
qed simp

lemma deliver_wf:
  assumes "wf_hub h" and "callback_ok h (i, e)" shows "wf_hub (deliver i e h)"
proof -
  obtain b where b: "dict_get (hb_objects h) i = Some b" "sb_run_id b = ev_run_id e"
    using assms(2) by (auto simp: callback_ok_def split: option.splits)
  show ?thesis
  proof (cases "sb_closed b \<or> int (length (sb_queue b)) \<ge> hb_max_queue h")
    case True
    then show ?thesis using assms(1) b unsubscribe_wf by (auto simp: deliver_def)
  next
    case False
    let ?b = "b\<lparr>sb_queue := sb_queue b @ [e]\<rparr>"
    have "deliver i e h = set_object i ?b h" using b False by (simp add: deliver_def set_object_def)
    moreover have "queue_ok (hb_max_queue h) ?b"
      using assms(1) b False by (auto simp: wf_hub_def objects_ok_def queue_ok_def)
    ultimately show ?thesis
      using assms(1) b set_object_objects_ok set_object_registry set_object_callbacks
      by (simp add: wf_hub_def)
  qed
qed

lemma run_callback_wf: "wf_hub h \<Longrightarrow> wf_hub (run_callback h)"
proof (cases "hb_scheduled h")
  case (Cons c rest)
  obtain i e where c: "c = (i, e)" by (cases c)
  assume "wf_hub h"
  then have "wf_hub (h\<lparr>hb_scheduled := rest\<rparr>)" "callback_ok (h\<lparr>hb_scheduled := rest\<rparr>) (i, e)"
    using Cons c
    by (auto simp: wf_hub_def registry_ok_def objects_ok_def callback_ok_def open_at_def subscribers_of_def)
  then show ?thesis using deliver_wf Cons c by (simp add: run_callback_def)
qed (simp add: run_callback_def)

lemma subscription_get_wf:
  assumes "wf_hub h" and "subscription_get i h = (h', res)" shows "wf_hub h'"
proof (cases "\<exists>b e es. dict_get (hb_objects h) i = Some b \<and> sb_queue b = e # es")
  case True
  then obtain b e es where b: "dict_get (hb_objects h) i = Some b" "sb_queue b = e # es" by blast
  let ?b = "b\<lparr>sb_queue := es\<rparr>"
  have get: "h' = set_object i ?b h" using assms(2) b by (simp add: subscription_get_def set_object_def)
  have "queue_ok (hb_max_queue h) b" using assms(1) b by (simp add: wf_hub_def objects_ok_def)
  then have "queue_ok (hb_max_queue h) ?b" using b by (simp add: queue_ok_def)
  then show ?thesis
    using get assms(1) b(1) set_object_objects_ok set_object_registry
      set_object_callbacks
    by (simp add: wf_hub_def)
next
  case False
  then have "h' = h" using assms(2) by (auto simp: subscription_get_def split: option.splits list.splits)
  with assms(1) show ?thesis by simp
qed

section \<open>The hub as a state machine\<close>

inductive hub_step :: "event_hub \<Rightarrow> event_hub \<Rightarrow> bool" where
  Hub_subscribe: "subscribe rid h = (h', i) \<Longrightarrow> hub_step h h'"
| Hub_unsubscribe: "hub_step h (unsubscribe i h)"
| Hub_publish: "set_order order \<Longrightarrow> hub_step h (publish order loop_closed events h)"
| Hub_callback: "hub_step h (run_callback h)"
| Hub_get: "subscription_get i h = (h', res) \<Longrightarrow> hub_step h h'"

inductive_cases hub_step_cases: "hub_step h h'"

definition init_hub :: "event_hub \<Rightarrow> bool" where
  "init_hub h = (\<exists>n. new_hub n = Inr h)"

interpretation hub_system: invariant_system init_hub hub_step wf_hub
proof
  show "init_hub h \<Longrightarrow> wf_hub h" for h using new_hub_wf by (auto simp: init_hub_def)
  show "hub_step h h' \<Longrightarrow> wf_hub h \<Longrightarrow> wf_hub h'" for h h'
    by (erule hub_step_cases)
       (auto intro: subscribe_wf(1) unsubscribe_wf publish_wf run_callback_wf subscription_get_wf)
qed

section \<open>Properties\<close>

lemma deliver_other: "j \<noteq> i \<Longrightarrow> dict_get (hb_objects (deliver i e h)) j = dict_get (hb_objects h) j"
  by (auto simp: deliver_def unsubscribe_get option.map_ident split: option.split)

lemma deliver_simps [simp]:
  "hb_max_queue (deliver i e h) = hb_max_queue h" "hb_scheduled (deliver i e h) = hb_scheduled h"
  by (auto simp: deliver_def split: option.split)

text \<open>C26: The hub keeps its bounds under every sequence of subscriptions, publications, callbacks
  and reads.  A queue never holds more events than configured, and only events of its own run;
  a subscription is registered for a run exactly as long as it is open; no run keeps an empty
  subscriber set.  A delivery that overflows one queue leaves every other subscription as it
  was.\<close>

theorem hub_bounds:
  assumes "init_hub h0" and "hub_step\<^sup>*\<^sup>* h0 h"
  shows "(\<forall>i b. dict_get (hb_objects h) i = Some b \<longrightarrow> int (length (sb_queue b)) \<le> hb_max_queue h
            \<and> (\<forall>e \<in> set (sb_queue b). ev_run_id e = sb_run_id b)
            \<and> (i \<in> set (subscribers_of h (sb_run_id b)) \<longleftrightarrow> \<not> sb_closed b))
    \<and> (\<forall>rid ids. dict_get (hb_subscribers h) rid = Some ids \<longrightarrow> ids \<noteq> [])
    \<and> (\<forall>i j e. j \<noteq> i \<longrightarrow> dict_get (hb_objects (deliver i e h)) j = dict_get (hb_objects h) j)"
  using hub_system.reachable_ok [OF assms]
  by (auto simp: wf_hub_def objects_ok_def queue_ok_def registry_ok_def open_at_def deliver_other)

text \<open>A subscription that will be woken: closed, non-empty, or with a callback under way.\<close>

definition woken :: "nat \<Rightarrow> event_hub \<Rightarrow> bool" where
  "woken i h =
     (case dict_get (hb_objects h) i of
        None \<Rightarrow> False
      | Some b \<Rightarrow> sb_closed b \<or> sb_queue b \<noteq> [] \<or> i \<in> fst ` set (hb_scheduled h))"

lemma notify_keeps_woken: "woken i h \<Longrightarrow> woken i (notify loop_closed e j h)"
  by (auto simp: woken_def notify_def unsubscribe_get split: option.splits)

lemma notify_woken: "dict_get (hb_objects h) i \<noteq> None \<Longrightarrow> woken i (notify loop_closed e i h)"
  by (auto simp: woken_def notify_def unsubscribe_get split: option.splits)

lemma fold_keeps_woken: "woken i h \<Longrightarrow> woken i (fold (notify loop_closed e) ids h)"
  by (induction ids arbitrary: h) (auto intro: notify_keeps_woken)

lemma notify_known:
  "dict_get (hb_objects h) i \<noteq> None \<Longrightarrow> dict_get (hb_objects (notify loop_closed e j h)) i \<noteq> None"
  by (auto simp: notify_def unsubscribe_get split: option.splits)

lemma fold_woken:
  "i \<in> set ids \<Longrightarrow> dict_get (hb_objects h) i \<noteq> None \<Longrightarrow> woken i (fold (notify loop_closed e) ids h)"
proof (induction ids arbitrary: h)
  case (Cons j ids)
  show ?case
  proof (cases "i = j")
    case True
    then show ?thesis using fold_keeps_woken notify_woken [OF Cons.prems(2)] by simp
  next
    case False
    then show ?thesis using Cons notify_known by simp
  qed
qed simp

lemma publish_keeps_woken: "woken i h \<Longrightarrow> woken i (publish order loop_closed events h)"
  unfolding publish_def
  by (induction events arbitrary: h) (auto simp: publish_one_def intro: fold_keeps_woken)

lemma fold_keeps_open_or_woken:
  "open_at h i rid \<Longrightarrow> open_at (fold (notify loop_closed e) ids h) i rid \<or> woken i (fold (notify loop_closed e) ids h)"
proof (induction ids arbitrary: h)
  case (Cons j ids)
  have "open_at (notify loop_closed e j h) i rid \<or> woken i (notify loop_closed e j h)"
    using Cons.prems
    by (auto simp: open_at_def woken_def notify_def unsubscribe_get split: option.splits)
  then show ?case using Cons.IH fold_keeps_woken by auto
qed simp

lemma publish_woken:
  assumes "set_order order" and "wf_hub h" and "open_at h i (ev_run_id e)" and "e \<in> set events"
  shows "woken i (publish order loop_closed events h)"
  using assms(2-4)
proof (induction events arbitrary: h)
  case (Cons f events)
  have wf: "wf_hub (publish_one order loop_closed f h)"
    using publish_wf [OF assms(1) Cons.prems(1), of loop_closed "[f]"] by (simp add: publish_def)
  have pub: "publish order loop_closed (f # events) h = publish order loop_closed events (publish_one order loop_closed f h)"
    by (simp add: publish_def)
  show ?case
  proof (cases "f = e")
    case True
    have "i \<in> set (order (subscribers_of h (ev_run_id e)))" "dict_get (hb_objects h) i \<noteq> None"
      using assms(1) Cons.prems(1,2) by (auto simp: set_order_def wf_hub_def registry_ok_def open_at_def
          split: option.splits)
    then have "woken i (publish_one order loop_closed f h)"
      unfolding True publish_one_def by (rule fold_woken)
    then show ?thesis unfolding pub by (rule publish_keeps_woken)
  next
    case False
    then have e: "e \<in> set events" using Cons.prems(3) by simp
    have "open_at (publish_one order loop_closed f h) i (ev_run_id e) \<or> woken i (publish_one order loop_closed f h)"
      unfolding publish_one_def by (rule fold_keeps_open_or_woken [OF Cons.prems(2)])
    then show ?thesis unfolding pub using Cons.IH [OF wf _ e] publish_keeps_woken by blast
  qed
qed simp

lemma deliver_ready:
  assumes "dict_get (hb_objects h) i = Some b"
  shows "\<exists>b'. dict_get (hb_objects (deliver j e h)) i = Some b'
     \<and> (j = i \<or> sb_closed b \<or> sb_queue b \<noteq> [] \<longrightarrow> sb_closed b' \<or> sb_queue b' \<noteq> [])"
  using assms by (auto simp: deliver_def unsubscribe_get split: option.splits)

lemma deliver_all_ready:
  assumes "dict_get (hb_objects h) i = Some b"
    and "sb_closed b \<or> sb_queue b \<noteq> [] \<or> i \<in> fst ` set cs"
  shows "\<exists>b'. dict_get (hb_objects (fold (\<lambda>(i, e). deliver i e) cs h)) i = Some b'
     \<and> (sb_closed b' \<or> sb_queue b' \<noteq> [])"
  using assms
proof (induction cs arbitrary: h b)
  case (Cons c cs)
  obtain j e where c: "c = (j, e)" by (cases c)
  obtain b' where b': "dict_get (hb_objects (deliver j e h)) i = Some b'"
    "j = i \<or> sb_closed b \<or> sb_queue b \<noteq> [] \<longrightarrow> sb_closed b' \<or> sb_queue b' \<noteq> []"
    using deliver_ready [OF Cons.prems(1)] by blast
  have "sb_closed b' \<or> sb_queue b' \<noteq> [] \<or> i \<in> fst ` set cs"
    using Cons.prems(2) b'(2) by (auto simp: c)
  from Cons.IH [OF b'(1) this] show ?case by (simp add: c)
qed simp

text \<open>C25: No wake-up is lost.  When an event of a run is published, then, once the event loop has
  run the scheduled callbacks, a \<open>get\<close> of any subscription that was open to the run does not
  wait: it returns an event or the overflow error.\<close>

theorem publish_wakes_subscribers:
  assumes "init_hub h0" and "hub_step\<^sup>*\<^sup>* h0 h" and "set_order order"
    and "open_at h i (ev_run_id e)" and "e \<in> set events"
  shows "snd (subscription_get i (run_callbacks (publish order loop_closed events h))) \<noteq> Inr None"
proof -
  let ?h = "publish order loop_closed events h"
  have "woken i ?h"
    using publish_woken [OF assms(3) hub_system.reachable_ok [OF assms(1,2)] assms(4,5)] .
  then obtain b where b: "dict_get (hb_objects ?h) i = Some b"
    "sb_closed b \<or> sb_queue b \<noteq> [] \<or> i \<in> fst ` set (hb_scheduled ?h)"
    by (auto simp: woken_def split: option.splits)
  then obtain b' where "dict_get (hb_objects (run_callbacks ?h)) i = Some b'"
    "sb_closed b' \<or> sb_queue b' \<noteq> []"
    using deliver_all_ready [of "?h\<lparr>hb_scheduled := []\<rparr>" i b "hb_scheduled ?h"]
    by (auto simp: run_callbacks_def)
  then show ?thesis by (auto simp: subscription_get_def split: list.split)
qed

section \<open>A sample hub\<close>

definition demo_hub :: event_hub where
  "demo_hub = fst (subscribe ''run-1''
     \<lparr>hb_max_queue = 1, hb_subscribers = [], hb_objects = [], hb_scheduled = []\<rparr>)"

definition demo_hub_event :: runtime_event where
  "demo_hub_event =
     \<lparr>ev_id = ''e'', ev_run_id = ''run-1'', ev_attempt_id = ''a'', ev_sequence = 1,
      ev_type = Opaque ''x'', ev_phase = None, ev_actor_type = Opaque ''y'', ev_actor_name = None,
      ev_task_id = None, ev_execution_id = None, ev_tool_call_id = None, ev_evidence_ids = [],
      ev_schema_version = 1, ev_safe_payload = [], ev_occurred_at = 0\<rparr>"

lemma demo_hub_reachable:
  "init_hub \<lparr>hb_max_queue = 1, hb_subscribers = [], hb_objects = [], hb_scheduled = []\<rparr>"
  "hub_step\<^sup>*\<^sup>* \<lparr>hb_max_queue = 1, hb_subscribers = [], hb_objects = [], hb_scheduled = []\<rparr> demo_hub"
  unfolding demo_hub_def
  by (auto simp: init_hub_def new_hub_def intro: exI [of _ 1])
     (rule r_into_rtranclp, rule Hub_subscribe [OF surjective_pairing])

theorem hub_bounds_witness:
  "0 \<in> set (subscribers_of demo_hub ''run-1'')
   \<and> dict_get (hb_objects (deliver 0 demo_hub_event demo_hub)) 1 = dict_get (hb_objects demo_hub) 1"
  using hub_bounds [OF demo_hub_reachable]
  by (simp add: demo_hub_def subscribe_def subscribers_of_def)

theorem publish_wakes_subscribers_witness:
  "snd (subscription_get 0 (run_callbacks (publish rev (\<lambda>_. False) [demo_hub_event] demo_hub))) \<noteq> Inr None"
  by (rule publish_wakes_subscribers [OF demo_hub_reachable])
     (simp_all add: set_order_def open_at_def demo_hub_def subscribe_def demo_hub_event_def)

end
