(* ===== verification/Event_Stream.thy ===== *)
theory Event_Stream
  imports Event_Hub Store_Behaviour
begin

text \<open>
  The event stream of one run (\<open>EventHub.stream\<close>), as a state machine over a store that keeps
  changing while the stream reads it.  The store enters through the locale
  \<open>durable_journal\<close>: what reading a page returns, and that journals only grow; the runtime
  store is its interpretation.

  A live event only wakes the stream up.  The sequence number of the last event it has
  yielded is the stream's whole position.
\<close>

section \<open>The stream\<close>

datatype stream_phase = Catching_up | Waiting_live | Stopped

text \<open>
  \<open>st_page\<close>: the page being walked, with its size and the number of events delivered from it.
  \<open>st_out\<close>: what the generator has yielded, \<open>None\<close> for a heartbeat.
\<close>

record stream_state =
  st_last :: int
  st_phase :: stream_phase
  st_page :: "(runtime_event list \<times> nat \<times> nat) option"
  st_out :: "runtime_event option list"

definition start_stream :: "int \<Rightarrow> stream_state" where
  "start_stream after = \<lparr>st_last = after, st_phase = Catching_up, st_page = None, st_out = []\<rparr>"

text \<open>\<open>batch = store.list_events(...)\<close>; \<open>ordered = sorted(batch, key=sequence)\<close>; \<open>delivered = 0\<close>\<close>

definition load_page :: "runtime_event list \<Rightarrow> stream_state \<Rightarrow> stream_state" where
  "load_page batch st = st\<lparr>st_page := Some (sort_key ev_sequence batch, length batch, 0)\<rparr>"

text \<open>One turn of \<open>for event in ordered\<close>, and the end of the loop.\<close>

definition walk_page :: "stream_state \<Rightarrow> stream_state" where
  "walk_page st =
     (case st_page st of
        None \<Rightarrow> st
      | Some ([], len, n) \<Rightarrow>
          if len < 500 \<or> n = 0 then st\<lparr>st_page := None, st_phase := Waiting_live\<rparr>
          else st\<lparr>st_page := None\<rparr>
      | Some (e # es, len, n) \<Rightarrow>
          if ev_sequence e \<le> st_last st then st\<lparr>st_page := Some (es, len, n)\<rparr>
          else st\<lparr>st_last := ev_sequence e, st_page := Some (es, len, Suc n),
                  st_out := st_out st @ [Some e]\<rparr>)"

inductive stream_step ::
    "('s \<Rightarrow> 's \<Rightarrow> bool) \<Rightarrow> ('s \<Rightarrow> ident \<Rightarrow> int \<Rightarrow> int \<Rightarrow> runtime_event list result) \<Rightarrow> ident
       \<Rightarrow> 's \<times> stream_state \<Rightarrow> 's \<times> stream_state \<Rightarrow> bool"
  for sys read rid where
  Stream_others: "sys s s' \<Longrightarrow> stream_step sys read rid (s, st) (s', st)"
| Stream_read: "st_phase st = Catching_up \<Longrightarrow> st_page st = None \<Longrightarrow>
    read s rid (st_last st) 500 = Inr batch \<Longrightarrow> stream_step sys read rid (s, st) (s, load_page batch st)"
| Stream_read_error: "st_phase st = Catching_up \<Longrightarrow> st_page st = None \<Longrightarrow>
    read s rid (st_last st) 500 = Inl e \<Longrightarrow> stream_step sys read rid (s, st) (s, st\<lparr>st_phase := Stopped\<rparr>)"
| Stream_walk: "st_phase st = Catching_up \<Longrightarrow> st_page st \<noteq> None \<Longrightarrow>
    stream_step sys read rid (s, st) (s, walk_page st)"
| Stream_woken: "st_phase st = Waiting_live \<Longrightarrow>
    stream_step sys read rid (s, st) (s, st\<lparr>st_phase := Catching_up\<rparr>)"
| Stream_heartbeat: "st_phase st = Waiting_live \<Longrightarrow>
    stream_step sys read rid (s, st) (s, st\<lparr>st_out := st_out st @ [None]\<rparr>)"
| Stream_overflow: "st_phase st = Waiting_live \<Longrightarrow>
    stream_step sys read rid (s, st) (s, st\<lparr>st_phase := Stopped\<rparr>)"
| Stream_closed: "stream_step sys read rid (s, st) (s, st\<lparr>st_phase := Stopped\<rparr>)"

inductive_cases stream_step_cases: "stream_step sys read rid x y"

text \<open>
  \<open>catch_up\<close> run to its end over a store that does not change, with a bound on the number of
  pages: the events it yields and the position it reaches.
\<close>

fun take_new :: "int \<Rightarrow> runtime_event list \<Rightarrow> int \<times> runtime_event list" where
  "take_new pos [] = (pos, [])"
| "take_new pos (e # es) =
     (if ev_sequence e \<le> pos then take_new pos es
      else (case take_new (ev_sequence e) es of (pos1, out) \<Rightarrow> (pos1, e # out)))"

fun catch_up ::
    "nat \<Rightarrow> (int \<Rightarrow> int \<Rightarrow> runtime_event list result) \<Rightarrow> int \<Rightarrow> (int \<times> runtime_event list) option result" where
  "catch_up 0 read pos = Inr None"
| "catch_up (Suc fuel) read pos =
     and_then (read pos 500) (\<lambda>batch.
       case take_new pos (sort_key ev_sequence batch) of (pos1, out) \<Rightarrow>
         if length batch < 500 \<or> out = [] then Inr (Some (pos1, out))
         else and_then (catch_up fuel read pos1) (\<lambda>rest.
                Inr (map_option (\<lambda>(pos2, more). (pos2, out @ more)) rest)))"

text \<open>The events among what the generator yielded.\<close>

definition delivered :: "stream_state \<Rightarrow> runtime_event list" where
  "delivered st = map the (filter (\<lambda>x. x \<noteq> None) (st_out st))"

section \<open>Streams over a durable journal\<close>

locale durable_journal =
  fixes sys :: "'s \<Rightarrow> 's \<Rightarrow> bool" and ok :: "'s \<Rightarrow> bool" and known :: "'s \<Rightarrow> ident \<Rightarrow> bool"
    and read :: "'s \<Rightarrow> ident \<Rightarrow> int \<Rightarrow> int \<Rightarrow> runtime_event list result"
    and journal :: "'s \<Rightarrow> ident \<Rightarrow> runtime_event list"
  assumes read_page: "ok s \<Longrightarrow> known s rid \<Longrightarrow> 1 \<le> limit \<Longrightarrow>
      read s rid after limit = Inr (take (nat limit) (drop (nat after) (journal s rid)))"
    and numbered: "ok s \<Longrightarrow> known s rid \<Longrightarrow> n < length (journal s rid) \<Longrightarrow>
      ev_sequence (journal s rid ! n) = int n + 1"
    and sys_ok: "sys s s' \<Longrightarrow> ok s \<Longrightarrow> ok s'"
    and sys_known: "sys s s' \<Longrightarrow> ok s \<Longrightarrow> known s rid \<Longrightarrow> known s' rid"
    and sys_grows: "sys s s' \<Longrightarrow> ok s \<Longrightarrow> \<exists>es. journal s' rid = journal s rid @ es"
begin

text \<open>
  The position is inside the journal or still where the client asked to start; what has been
  delivered is the journal between the start and the position; the page holds the next
  events of the journal.
\<close>

definition stream_ok :: "ident \<Rightarrow> int \<Rightarrow> 's \<times> stream_state \<Rightarrow> bool" where
  "stream_ok rid after = (\<lambda>(s, st).
     ok s \<and> known s rid
     \<and> (st_last st = after \<or> after < st_last st \<and> nat (st_last st) \<le> length (journal s rid))
     \<and> delivered st = drop (nat after) (take (nat (st_last st)) (journal s rid))
     \<and> (case st_page st of None \<Rightarrow> True
        | Some (es, _) \<Rightarrow> es = take (length es) (drop (nat (st_last st)) (journal s rid))))"

lemma sorted_journal:
  assumes "ok s" and "known s rid"
  shows "sort_key ev_sequence (take n (drop m (journal s rid))) = take n (drop m (journal s rid))"
proof -
  have "sorted (map ev_sequence (journal s rid))"
    using numbered [OF assms] by (auto simp: sorted_iff_nth_mono)
  then have "sorted (map ev_sequence (take n (drop m (journal s rid))))"
    by (simp add: sorted_wrt_take sorted_wrt_drop flip: take_map drop_map)
  then show ?thesis by (rule sort_key_sorted_id)
qed

lemma stream_ok_grows:
  assumes "stream_ok rid after (s, st)" and "sys s s'" shows "stream_ok rid after (s', st)"
proof -
  obtain fs where fs: "journal s' rid = journal s rid @ fs"
    using sys_grows [OF assms(2)] assms(1) by (auto simp: stream_ok_def)
  have ok: "ok s'" "known s' rid"
    using assms sys_ok sys_known by (auto simp: stream_ok_def)
  have "es = take (length es) (drop (nat (st_last st)) (journal s' rid))"
    if "es = take (length es) (drop (nat (st_last st)) (journal s rid))" for es
  proof -
    have "length es \<le> length (drop (nat (st_last st)) (journal s rid))"
      using arg_cong [OF that, of length] by simp
    with that show ?thesis by (simp add: fs)
  qed
  note page = this
  show ?thesis
  proof (cases "st_page st")
    case None
    with assms(1) ok show ?thesis by (auto simp: stream_ok_def fs)
  next
    case (Some p)
    obtain es len n where p: "p = (es, len, n)" by (cases p)
    with Some assms(1) page [of es] have "es = take (length es) (drop (nat (st_last st)) (journal s' rid))"
      by (simp add: stream_ok_def)
    with Some p assms(1) ok show ?thesis by (auto simp: stream_ok_def fs)
  qed
qed

lemma walk_page_ok:
  assumes ok: "stream_ok rid after (s, st)" shows "stream_ok rid after (s, walk_page st)"
proof (cases "\<exists>e es p. st_page st = Some (e # es, p)")
  case False
  show ?thesis
  proof (cases "st_page st")
    case None
    with ok show ?thesis by (simp add: walk_page_def)
  next
    case (Some p)
    then obtain len n where "p = ([], len, n)" using False by (metis list.exhaust prod.exhaust)
    with Some ok show ?thesis by (simp add: walk_page_def stream_ok_def delivered_def)
  qed
next
  case True
  then obtain e es len d where page: "st_page st = Some (e # es, len, d)" by (metis prod.exhaust)
  let ?J = "journal s rid" and ?L = "nat (st_last st)"
  have s: "ok s" "known s rid" using ok by (auto simp: stream_ok_def)
  have out: "delivered st = drop (nat after) (take ?L ?J)" and last: "st_last st = after \<or> after < st_last st"
    using ok by (auto simp: stream_ok_def)
  have eq: "e # es = take (Suc (length es)) (drop ?L ?J)" using ok page by (simp add: stream_ok_def)
  then have len: "?L < length ?J" by (cases "?L < length ?J") auto
  then have "drop ?L ?J = ?J ! ?L # drop (Suc ?L) ?J" by (rule Cons_nth_drop_Suc [symmetric])
  with eq have e: "e = ?J ! ?L" and es: "es = take (length es) (drop (Suc ?L) ?J)" by simp_all
  have seq: "ev_sequence e = int ?L + 1" unfolding e by (rule numbered [OF s len])
  have start: "nat after \<le> ?L" using last by auto
  have "take (Suc ?L) ?J = take ?L ?J @ [e]" using len by (simp add: e take_Suc_conv_app_nth)
  then have "drop (nat after) (take (Suc ?L) ?J) = delivered st @ [e]"
    using start len by (simp add: out)
  moreover have "walk_page st = st\<lparr>st_last := ev_sequence e, st_page := Some (es, len, Suc d),
      st_out := st_out st @ [Some e]\<rparr>"
    using seq by (simp add: walk_page_def page)
  moreover have "nat (ev_sequence e) = Suc ?L" using seq by arith
  moreover have "after < ev_sequence e" using seq last by auto
  ultimately show ?thesis
    using s len es by (simp add: stream_ok_def delivered_def)
qed

lemma stream_step_ok:
  assumes "stream_step sys read rid x y" and "stream_ok rid after x" shows "stream_ok rid after y"
  using assms(1)
proof (cases rule: stream_step.cases)
  case (Stream_others s s' st)
  then show ?thesis using assms(2) stream_ok_grows by simp
next
  case (Stream_read st s batch)
  have batch: "batch = take 500 (drop (nat (st_last st)) (journal s rid))"
    using Stream_read assms(2) read_page [of s rid 500 "st_last st"] by (simp add: stream_ok_def)
  then have "sort_key ev_sequence batch = batch"
    using sorted_journal assms(2) Stream_read(1) by (simp add: stream_ok_def)
  then show ?thesis
    using assms(2) Stream_read(1,2) batch by (simp add: stream_ok_def load_page_def delivered_def min_def)
next
  case (Stream_walk st s)
  then show ?thesis using assms(2) walk_page_ok by simp
qed (use assms(2) in \<open>auto simp: stream_ok_def delivered_def split: option.splits\<close>)

lemma start_stream_ok:
  "ok s \<Longrightarrow> known s rid \<Longrightarrow> stream_ok rid after (s, start_stream after)"
  by (simp add: stream_ok_def start_stream_def delivered_def)

text \<open>What a stream has delivered is a contiguous piece of the journal, each event once.\<close>

lemma stream_delivers_slice:
  assumes "(stream_step sys read rid)\<^sup>*\<^sup>* (s, start_stream after) (s', st)" and "ok s" and "known s rid"
  shows "delivered st = drop (nat after) (take (nat (st_last st)) (journal s' rid))"
proof -
  have "stream_ok rid after (s', st)"
    using assms(1)
  proof (induction rule: rtranclp_induct)
    case base
    then show ?case using start_stream_ok assms(2,3) by simp
  next
    case (step y z)
    then show ?case using stream_step_ok by blast
  qed
  then show ?thesis by (simp add: stream_ok_def)
qed

lemma take_new_numbered:
  "\<forall>i < length es. ev_sequence (es ! i) = int n + 1 + int i \<Longrightarrow> pos \<le> int n \<Longrightarrow>
   take_new pos es = (if es = [] then pos else int (n + length es), es)"
proof (induction es arbitrary: n pos)
  case (Cons e es)
  have e: "ev_sequence e = int (Suc n)" using Cons.prems(1) by force
  have "\<forall>i < length es. ev_sequence (es ! i) = int (Suc n) + 1 + int i"
  proof (intro allI impI)
    fix i assume "i < length es"
    then have "ev_sequence ((e # es) ! Suc i) = int n + 1 + int (Suc i)"
      using Cons.prems(1) by (metis Suc_less_eq length_Cons)
    then show "ev_sequence (es ! i) = int (Suc n) + 1 + int i" by simp
  qed
  from Cons.IH [OF this, of "ev_sequence e"] e Cons.prems(2) show ?case by simp
qed simp

text \<open>One page per 500 missing events, and one more, is enough to catch up.\<close>

lemma catch_up_complete:
  assumes "ok s" and "known s rid" and "(length (journal s rid) - nat pos) div 500 < fuel"
  shows "\<exists>pos'. catch_up fuel (read s rid) pos = Inr (Some (pos', drop (nat pos) (journal s rid)))
     \<and> nat pos' = max (nat pos) (length (journal s rid))"
  using assms(3)
proof (induction fuel arbitrary: pos)
  case (Suc fuel)
  let ?J = "journal s rid" and ?L = "nat pos"
  let ?b = "take 500 (drop ?L ?J)"
  have batch: "read s rid pos 500 = Inr ?b" using read_page [OF assms(1,2), of 500 pos] by simp
  have "\<forall>i < length ?b. ev_sequence (?b ! i) = int ?L + 1 + int i"
  proof (intro allI impI)
    fix i assume "i < length ?b"
    then have "?b ! i = ?J ! (?L + i)" "?L + i < length ?J" by auto
    then have "ev_sequence (?b ! i) = int (?L + i) + 1" using numbered [OF assms(1,2)] by metis
    then show "ev_sequence (?b ! i) = int ?L + 1 + int i" by linarith
  qed
  from take_new_numbered [OF this, of pos]
  have new: "take_new pos ?b = (if ?b = [] then pos else int (?L + length ?b), ?b)" by simp
  note step = batch sorted_journal [OF assms(1,2)] new
  show ?case
  proof (cases "length ?b < 500")
    case True
    then have b: "?b = drop ?L ?J" by simp
    then have "sort_key ev_sequence (drop ?L ?J) = drop ?L ?J"
      using sorted_journal [OF assms(1,2)] by metis
    with True step b show ?thesis by (cases "drop ?L ?J = []") (auto simp: max_def)
  next
    case False
    then have len: "length ?b = 500" "?L + 500 \<le> length ?J" "?b \<noteq> []" by auto
    have "(length ?J - nat (int (?L + length ?b))) div 500 < fuel"
    proof -
      have "nat (int (?L + length ?b)) = ?L + 500" using len(1) by linarith
      moreover have "(length ?J - ?L) div 500 = Suc ((length ?J - ?L - 500) div 500)"
        using len(2) by (simp add: le_div_geq)
      ultimately show ?thesis using Suc.prems by (simp add: diff_diff_left)
    qed
    moreover have next_pos: "nat (int (?L + length ?b)) = ?L + 500" using len(1) by linarith
    ultimately obtain pos' where
      rest: "catch_up fuel (read s rid) (int (?L + length ?b)) = Inr (Some (pos', drop (?L + 500) ?J))"
      and "nat pos' = max (?L + 500) (length ?J)"
      using Suc.IH [of "int (?L + length ?b)"] by metis
    then have pos': "nat pos' = length ?J" using len(2) by simp
    have "?b @ drop (?L + 500) ?J = drop ?L ?J"
      by (metis add.commute append_take_drop_id drop_drop)
    moreover have "catch_up (Suc fuel) (read s rid) pos = Inr (Some (pos', ?b @ drop (?L + 500) ?J))"
      using False len(3) rest step by simp
    ultimately show ?thesis using pos' len(2) by (simp add: max_def)
  qed
qed simp

end

section \<open>The runtime store as the journal\<close>

interpretation store_journal: durable_journal store_step wf_store
    "\<lambda>s rid. dict_get (db_runs s) rid \<noteq> None" list_events events_of
proof
  fix s rid and limit after :: int
  assume "wf_store s" "dict_get (db_runs s) rid \<noteq> None" "1 \<le> limit"
  then show "list_events s rid after limit = Inr (take (nat limit) (drop (nat after) (events_of s rid)))"
    using list_events_page by fastforce
next
  fix s rid and n :: nat
  assume "wf_store s" "n < length (events_of s rid)"
  then show "ev_sequence (events_of s rid ! n) = int n + 1"
    using arg_cong [OF journal_numbers [of s rid], of "\<lambda>xs. xs ! n"] by (simp del: upt_Suc)
next
  fix s s' rid
  assume step: "store_step s s'" and wf: "wf_store s"
  then show "wf_store s'" by (rule store_refinement.concrete.step_ok)
  have "store_evolves s s'" using step wf by (rule store_system.step_le)
  then have grows: "runs_evolve s s'" "journals_grow s s'" by (simp_all add: store_evolves_def)
  show "dict_get (db_runs s') rid \<noteq> None" if "dict_get (db_runs s) rid \<noteq> None"
    using grows(1) that by (auto simp: runs_evolve_def)
  show "\<exists>es. events_of s' rid = events_of s rid @ es"
  proof (cases "dict_get (db_events s) rid")
    case (Some es)
    then obtain fs where "dict_get (db_events s') rid = Some (es @ fs)"
      using grows(2) unfolding journals_grow_def by blast
    with Some show ?thesis by (simp add: events_of_def)
  qed (simp add: events_of_def)
qed

text \<open>C23: A stream yields each durable event after its starting point once, in order, without a
  gap.  However reading pages, wake-ups, heartbeats and the operations of other workers on the
  store interleave, the events yielded so far are exactly those of the run's journal between
  the sequence number the client asked for and the stream's position.\<close>

theorem stream_exactly_once:
  assumes "init_store s0" and "store_step\<^sup>*\<^sup>* s0 s" and "get_run s rid = Inr r"
    and "(stream_step store_step list_events rid)\<^sup>*\<^sup>* (s, start_stream after) (s', st)"
  shows "delivered st = drop (nat after) (take (nat (st_last st)) (events_of s' rid))"
  by (rule store_journal.stream_delivers_slice [OF assms(4) reachable_wf [OF assms(1,2)]])
     (use assms(3) in \<open>simp add: get_run_Inr\<close>)

text \<open>C24: Catching up ends and misses nothing.  Over a store that does not change, a number of
  pages above a 500th of the missing events is enough for \<open>catch_up\<close> to return, and what it
  yields is the whole journal after the position it started from.\<close>

theorem catch_up_terminates:
  assumes "init_store s0" and "store_step\<^sup>*\<^sup>* s0 s" and "get_run s rid = Inr r"
    and "(length (events_of s rid) - nat after) div 500 < fuel"
  shows "\<exists>pos. catch_up fuel (list_events s rid) after = Inr (Some (pos, drop (nat after) (events_of s rid)))
     \<and> nat pos = max (nat after) (length (events_of s rid))"
  by (rule store_journal.catch_up_complete [OF reachable_wf [OF assms(1,2)] _ assms(4)])
     (use assms(3) in \<open>simp add: get_run_Inr\<close>)

text \<open>A stream over the sample run: it has yielded one event of its first page when the run ends.\<close>

definition demo_stream :: stream_state where
  "demo_stream = walk_page (load_page (events_of demo_phased ''run-1'') (start_stream 0))"

lemma demo_pages:
  "1 \<le> limit \<Longrightarrow> list_events demo_phased ''run-1'' after limit
     = Inr (take (nat limit) (drop (nat after) (events_of demo_phased ''run-1'')))"
  using list_events_page [OF reachable_wf [OF demo_init demo_later(2)]] demo_runs
  by (simp add: get_run_Inr)

lemma demo_stream_steps:
  "(stream_step store_step list_events ''run-1'')\<^sup>*\<^sup>* (demo_phased, start_stream 0) (demo_finished, demo_stream)"
proof -
  let ?step = "stream_step store_step list_events ''run-1''"
  let ?st = "load_page (events_of demo_phased ''run-1'') (start_stream 0)"
  have "?step (demo_phased, start_stream 0) (demo_phased, ?st)"
    by (rule Stream_read) (simp_all add: start_stream_def demo_pages demo_views demo_phase_events_def)
  moreover have "?step (demo_phased, ?st) (demo_phased, demo_stream)"
    unfolding demo_stream_def by (rule Stream_walk) (simp_all add: start_stream_def load_page_def)
  moreover have "?step (demo_phased, demo_stream) (demo_finished, demo_stream)"
    by (rule Stream_others, rule demo_steps)
  ultimately show ?thesis
    by (meson converse_rtranclp_into_rtranclp rtranclp.rtrancl_refl)
qed

theorem stream_exactly_once_witness:
  "delivered demo_stream = take 1 (events_of demo_finished ''run-1'')"
  using stream_exactly_once [OF demo_init demo_later(2) demo_runs(2) demo_stream_steps]
  by (simp add: demo_stream_def load_page_def walk_page_def start_stream_def demo_started_event_def
      demo_event_def delivered_def demo_views demo_phase_events_def)

theorem catch_up_terminates_witness:
  "\<exists>pos. catch_up 1 (list_events demo_finished ''run-1'') 1
           = Inr (Some (pos, tl (events_of demo_finished ''run-1''))) \<and> nat pos = 4"
proof -
  obtain pos where "catch_up 1 (list_events demo_finished ''run-1'') 1
      = Inr (Some (pos, drop 1 (events_of demo_finished ''run-1'')))"
    "nat pos = max 1 (length (events_of demo_finished ''run-1''))"
    using catch_up_terminates [OF demo_init demo_later(3) demo_runs(3), of 1 1]
    by (auto simp: demo_views demo_phase_events_def)
  then show ?thesis by (simp add: demo_views demo_phase_events_def drop_Suc)
qed

end
