(* ===== verification/Frozen_Properties.thy ===== *)
theory Frozen_Properties
  imports Samples
begin

text \<open>
  Properties of the frozen business projections (\<open>backend/runtime/diff.py\<close>): they are read
  back as they were taken, their seal fixes their content, and a run that does not own the
  investigation's projection receives an emptied view.
\<close>

section \<open>Sample views\<close>

definition demo_decision :: final_decision where
  "demo_decision = \<lparr>fn_actor = Decide_lead, fn_action = Final_inconclusive, fn_candidate_ids = [],
     fn_evidence_ids = [], fn_summary = ''none'', fn_stop_reason = Some ''budget'',
     fn_uncertainty = None\<rparr>"

text \<open>The review of run 2, which owns the projection of the investigation.\<close>

definition demo_review :: coordination_review where
  "demo_review =
     \<lparr>rv_id = ''rv-1'', rv_investigation_id = ''inv-1'', rv_candidates = [], rv_root_causes = [],
      rv_critic_assessments = [], rv_lead_decision = None, rv_final_decision = Some demo_decision,
      rv_contract_revision = Round_2, rv_diagnostic_status = Some Diag_INCONCLUSIVE,
      rv_stop_reason = None, rv_runtime_run_id = Some ''run-2'', rv_authority_mode = Authority_AGENT,
      rv_execution_layer = Layer_OPENAI_AGENTS_SDK, rv_run_status = MARun_COMPLETED,
      rv_decision_status = None, rv_baseline_cause_type = None, rv_selected_cause_type = None,
      rv_model_provider = None, rv_model_name = None, rv_primary_stabilization = None,
      rv_secondary_stabilization = [], rv_summary = [], rv_uncertainty = [], rv_created_at = 0\<rparr>"

definition demo_owned_repo :: repository where
  "demo_owned_repo = demo_repo\<lparr>
     repo_records := [(''inv-1'', demo_record\<lparr>ir_active_runtime_run_id := Some ''run-2''\<rparr>)],
     repo_coordination_reviews := [(''inv-1'', demo_review)]\<rparr>"

definition demo_v11_run :: runtime_run where
  "demo_v11_run = demo_run\<lparr>run_id := ''run-2'', run_contract_version := Version_V11,
     run_authority_mode := Authority_AGENT\<rparr>"

lemma demo_digests: "hex_digests demo_frozen_ext"
proof -
  have "is_hex64 demo_hex" by code_simp
  then show ?thesis by (simp add: hex_digests_def demo_frozen_ext_def)
qed

text \<open>Sealing only fails on content the model rejects.\<close>

lemma frozen_ok_seal:
  "is_hex64 s \<Longrightarrow> frozen_projection_ok (p\<lparr>fz_integrity := zero_digest\<rparr>)
     \<Longrightarrow> frozen_projection_ok (p\<lparr>fz_integrity := s\<rparr>)"
  by (simp add: frozen_projection_ok_def)

lemma reseal_total:
  assumes "hex_digests ext"
    and "frozen_projection_ok ((strip_frozen_projection p)\<lparr>fz_integrity := zero_digest\<rparr>)"
    and "assert_safe_label (strip (fz_environment p)) = Inr ()"
  shows "\<exists>q. reseal_frozen_projection ext p = Inr q"
proof -
  let ?v = "(strip_frozen_projection p)\<lparr>fz_integrity := zero_digest\<rparr>"
  have env: "fz_environment (strip_frozen_projection p) = strip (fz_environment p)"
    by (simp add: strip_frozen_projection_def)
  have hex: "strip zero_digest = zero_digest" "is_hex64 (validation_integrity ext ?v)"
    using assms(1) by (simp_all add: hex64_strip hex_digests_def validation_integrity_def)
  have "validate_frozen (p\<lparr>fz_integrity := zero_digest\<rparr>) = Inr ?v"
    using assms(2,3) env hex by (simp add: validate_frozen_Inr strip_frozen_seal)
  moreover have "validate_frozen (?v\<lparr>fz_integrity := validation_integrity ext ?v\<rparr>)
      = Inr (?v\<lparr>fz_integrity := validation_integrity ext ?v\<rparr>)"
    using assms(3) env hex frozen_ok_seal [OF hex(2) assms(2)]
    by (simp add: validate_frozen_Inr strip_frozen_seal hex64_strip)
  ultimately show ?thesis by (simp add: reseal_frozen_projection_def)
qed
text \<open>A digest that tells an environment with a trailing blank from one without.\<close>

definition demo_sharp_ext :: frozen_ext where
  "demo_sharp_ext = demo_frozen_ext\<lparr>fx_projection_digest :=
     (\<lambda>p. if fz_environment p = ''prod'' then demo_hex else replicate 64 (CHR ''1''))\<rparr>"

text \<open>The two runs' views of the investigation exist.\<close>

lemma demo_prod: "assert_safe_label ''prod'' = Inr ()"
  by code_simp

lemma demo_owned_views:
  assumes "rid \<in> {''run-1'', ''run-2''}"
  shows "\<exists>p. freeze_business_projection demo_frozen_ext demo_owned_repo ''inv-1'' (Some rid)
     (Some Authority_AGENT) = Inr p"
proof -
  let ?r = "demo_record\<lparr>ir_active_runtime_run_id := Some ''run-2''\<rparr>"
  let ?c = "collect_projection demo_frozen_ext demo_owned_repo ?r ''inv-1'' (Some rid) (Some Authority_AGENT)"
  let ?p = "if ir_active_runtime_run_id ?r \<noteq> Some rid then clear_foreign_projection ?c else ?c"
  note defs = strip_frozen_projection_def collect_projection_def clear_foreign_projection_def
    demo_record_def demo_incident_def demo_owned_repo_def demo_repo_def empty_repository_def
    demo_review_def demo_decision_def freeze_review_def strip_frozen_review_def summary_usage_def
    strip_def is_blank_def get_coordination_review_def list_agent_findings_def list_tasks_def
    list_tool_calls_def list_executions_def bucket_def
  have ok: "frozen_projection_ok ((strip_frozen_projection ?p)\<lparr>fz_integrity := zero_digest\<rparr>)"
    using assms
    by (auto simp: frozen_projection_ok_def frozen_review_ok_def safe_id_def bounded_length_def
        opt_max_def opt_id_def id_list_def or_else_def root_cause_claims_def defs Let_def)
  have env: "strip (fz_environment ?p) = ''prod''"
    by (simp add: defs Let_def)
  have "\<exists>q. reseal_frozen_projection demo_frozen_ext ?p = Inr q"
    by (rule reseal_total [OF demo_digests ok]) (simp only: env demo_prod)
  moreover have "repo_get demo_owned_repo ''inv-1'' = Inr ?r"
    by (simp add: repo_get_def demo_owned_repo_def)
  ultimately show ?thesis by (simp add: freeze_business_projection_def Let_def)
qed

section \<open>Properties\<close>

text \<open>C5: A frozen view is tamper-evident from the moment it is taken.  Whatever
  \<open>freeze_business_projection\<close> returns is read back unchanged by
  \<open>parse_frozen_projection\<close>, and so is whatever \<open>finalize_frozen_projection\<close> makes of it
  for a list of checkpoints; the parse never rejects the program's own views.\<close>

theorem frozen_view_parses:
  assumes "hex_digests ext"
    and "freeze_business_projection ext repo iid rid authority = Inr p"
  shows "parse_frozen_projection ext p = Inr p
    \<and> (\<forall>cks q. finalize_frozen_projection ext p cks = Inr q \<longrightarrow> parse_frozen_projection ext q = Inr q)"
  using assms reseal_parses [OF assms(1)]
  by (auto simp: freeze_business_projection_def finalize_frozen_projection_def result_simps Let_def)

theorem frozen_view_parses_witness:
  "parse_frozen_projection demo_frozen_ext demo_view = Inr demo_view"
proof -
  have freeze: "freeze_business_projection demo_frozen_ext demo_repo ''inv-1'' None None
      = Inr (demo_view\<lparr>fz_checkpoint_projections := []\<rparr>)"
    using demo_frozen by (simp add: freeze_for_def demo_env_def demo_phased_def demo_phased_run_def
        demo_started_run_def demo_run_def demo_started_def demo_created_def demo_store_def
        empty_store_def is_v11_def)
  show ?thesis
    using frozen_view_parses [OF demo_digests freeze] demo_finalized by (auto simp: demo_env_def)
qed

text \<open>C6: A sealed view cannot be changed under its seal.  If two views carry the same seal
  and both parse, then they parse to the same content, or two different contents with the
  same digest have been found among the four that the two parses hash.\<close>

theorem sealed_content_unique:
  assumes "hex_digests ext"
    and "parse_frozen_projection ext p = Inr v" and "parse_frozen_projection ext p' = Inr v'"
    and "fz_integrity p' = fz_integrity p"
  shows "unsealed v' = unsealed v
     \<or> (\<exists>a \<in> {unsealed p', unsealed v'}. \<exists>b \<in> {unsealed p, unsealed v}.
           a \<noteq> b \<and> fx_projection_digest ext a = fx_projection_digest ext b)"
proof -
  have v: "v = strip_frozen_projection p" "v' = strip_frozen_projection p'"
    using assms(2,3) by (auto simp: parse_frozen_Inr validate_frozen_Inr)
  have same: "unsealed v' = unsealed v" if "strip_frozen_projection a = strip_frozen_projection b"
      "a \<in> {unsealed p', unsealed v'}" "b \<in> {unsealed p, unsealed v}" for a b
    using that by (auto simp: v strip_frozen_seal strip_def)
  obtain a where a: "a \<in> {unsealed p', unsealed v'}"
      "strip (fz_integrity p') = fx_projection_digest ext a"
    using parse_frozen_hashed [OF assms(1,3)] by blast
  obtain b where b: "b \<in> {unsealed p, unsealed v}"
      "strip (fz_integrity p) = fx_projection_digest ext b"
    using parse_frozen_hashed [OF assms(1,2)] by blast
  show ?thesis
  proof (cases "a = b")
    case True
    with a b same show ?thesis by blast
  next
    case False
    with a b assms(4) show ?thesis by metis
  qed
qed

theorem sealed_content_unique_witness:
  "parse_frozen_projection demo_sharp_ext (demo_view\<lparr>fz_environment := ''prod ''\<rparr>) = Inr demo_view
   \<and> parse_frozen_projection demo_sharp_ext demo_view = Inr demo_view"
proof -
  let ?p = "demo_view\<lparr>fz_environment := ''prod ''\<rparr>"
  have hex: "hex_digests demo_sharp_ext"
  proof -
    have "is_hex64 demo_hex" "is_hex64 (replicate 64 (CHR ''1''))" by code_simp+
    then show ?thesis by (simp add: hex_digests_def demo_sharp_ext_def)
  qed
  have v: "validate_frozen demo_view = Inr demo_view"
    using demo_finalized by (auto simp: finalize_frozen_projection_def demo_env_def Let_def result_simps
        dest!: reseal_Inr(2) [OF demo_digests])
  then have "strip_frozen_projection demo_view = demo_view" by (simp add: validate_frozen_Inr)
  moreover have "strip_frozen_projection ?p = strip_frozen_projection demo_view"
    by (simp add: strip_frozen_projection_def demo_view_def strip_def is_blank_def)
  ultimately have "validate_frozen ?p = Inr demo_view"
    using v by (simp add: validate_frozen_Inr)
  moreover have seal: "fz_integrity demo_view = validation_integrity demo_sharp_ext demo_view"
    by (simp add: validation_integrity_def demo_sharp_ext_def demo_view_def)
  ultimately have p: "parse_frozen_projection demo_sharp_ext ?p = Inr demo_view"
    "parse_frozen_projection demo_sharp_ext demo_view = Inr demo_view"
    using v by (simp_all add: parse_frozen_Inr)
  have "unsealed demo_view = unsealed demo_view \<or> (\<exists>a \<in> {unsealed ?p, unsealed demo_view}.
      \<exists>b \<in> {unsealed demo_view, unsealed demo_view}. a \<noteq> b
        \<and> fx_projection_digest demo_sharp_ext a = fx_projection_digest demo_sharp_ext b)"
    by (rule sealed_content_unique [OF hex p(2,1)]) simp
  with p show ?thesis by blast
qed

text \<open>C7: The view taken for a V11 run that does not own the investigation's projection is
  emptied of every list, of the review, the report, the lead decision, the assessments and
  the usage, so nothing of the owner's business data reaches it by those fields.  Two fields
  escape: the final decision and the contract revision are those of the review the other run
  has stored.\<close>

theorem foreign_view_contents:
  assumes "hex_digests ext"
    and "freeze_business_projection ext repo iid (Some rid) authority = Inr p"
    and "repo_get repo iid = Inr ir" and "ir_active_runtime_run_id ir \<noteq> Some rid"
  shows "fz_evidence p = [] \<and> fz_hypotheses p = [] \<and> fz_task_ids p = []
     \<and> fz_execution_ids p = [] \<and> fz_tool_call_ids p = [] \<and> fz_findings p = []
     \<and> fz_action_ids p = [] \<and> fz_verification_ids p = [] \<and> fz_usage p = []
     \<and> fz_review p = None \<and> fz_report p = None \<and> fz_lead_decision p = None
     \<and> fz_diagnostic_status p = None \<and> fz_critic_assessments p = []
     \<and> \<not> fz_activated p \<and> fz_active_runtime_run_id p = None
     \<and> fz_final_decision p = Option.bind (get_coordination_review repo iid) rv_final_decision
     \<and> fz_contract_revision p = (case get_coordination_review repo iid of
          None \<Rightarrow> Round_1 | Some r \<Rightarrow> rv_contract_revision r)"
proof -
  obtain q where "repo_get repo iid = Inr q"
    and "unsealed p = unsealed (strip_frozen_projection
           (if Some rid \<noteq> None \<and> ir_active_runtime_run_id q \<noteq> Some rid
            then clear_foreign_projection (collect_projection ext repo q iid (Some rid) authority)
            else collect_projection ext repo q iid (Some rid) authority))"
    using freeze_Inr [OF assms(1,2)] .
  with assms(3,4) have "unsealed p = unsealed (strip_frozen_projection
      (clear_foreign_projection (collect_projection ext repo ir iid (Some rid) authority)))"
    by simp
  from unsealed_fields [OF this] show ?thesis using assms(4)
    by (simp add: strip_frozen_projection_def clear_foreign_projection_def collect_projection_def
        Let_def)
qed

theorem foreign_view_contents_witness:
  "\<exists>p. freeze_business_projection demo_frozen_ext demo_owned_repo ''inv-1'' (Some ''run-1'')
          (Some Authority_AGENT) = Inr p
       \<and> fz_review p = None \<and> fz_final_decision p = Some demo_decision"
proof -
  let ?f = "freeze_business_projection demo_frozen_ext demo_owned_repo ''inv-1'' (Some ''run-1'')
    (Some Authority_AGENT)"
  obtain p where p: "?f = Inr p" using demo_owned_views by blast
  show ?thesis
    using foreign_view_contents [OF demo_digests p] p
    by (simp add: repo_get_def demo_owned_repo_def demo_record_def get_coordination_review_def
        demo_review_def)
qed

end
