(* ===== verification/Float_Arithmetic.thy ===== *)
theory Float_Arithmetic
  imports Python_Values
begin

text \<open>
  Python's \<open>float\<close>: IEEE 754 binary64 with rounding to nearest, ties to even.  A finite float
  is the rational number it stands for (the sign of a zero, which no modelled comparison
  sees, is not kept); every operation computes exactly and rounds once.
\<close>

section \<open>Rounding\<close>

definition round_even :: "rat \<Rightarrow> int" where
  "round_even x =
     (let f = \<lfloor>x\<rfloor>; r = x - of_int f in
      if r < 1 / 2 then f else if 1 / 2 < r then f + 1 else if even f then f else f + 1)"

text \<open>The largest \<open>e\<close> with \<open>2\<^sup>e \<le> n\<close>, and the same for a positive fraction.\<close>

function int_log2 :: "int \<Rightarrow> int" where
  "int_log2 n = (if n < 2 then 0 else int_log2 (n div 2) + 1)"
  by pat_completeness auto
termination by (relation "measure nat") auto

declare int_log2.simps [simp del]

definition pow2 :: "int \<Rightarrow> rat" where
  "pow2 e = (if 0 \<le> e then 2 ^ nat e else 1 / 2 ^ nat (- e))"

definition binary_exponent :: "rat \<Rightarrow> int" where
  "binary_exponent x =
     (case quotient_of x of (p, q) \<Rightarrow>
        let e = int_log2 p - int_log2 q in
        if pow2 e \<le> x then e else e - 1)"

text \<open>53 significant bits, never below the subnormal unit \<open>2\<^sup>-\<^sup>1\<^sup>0\<^sup>7\<^sup>4\<close>; overflow gives an infinity.\<close>

definition round_unit :: "rat \<Rightarrow> rat" where
  "round_unit x = pow2 (max (binary_exponent \<bar>x\<bar> - 52) (- 1074))"

definition fl :: "rat \<Rightarrow> pyfloat" where
  "fl x =
     (if x = 0 then Finite 0
      else let y = of_int (round_even (x / round_unit x)) * round_unit x in
        if \<bar>y\<bar> < 2 ^ 1024 then Finite y else if 0 < y then PosInf else NegInf)"

section \<open>Operations\<close>

fun float_neg :: "pyfloat \<Rightarrow> pyfloat" where
  "float_neg (Finite a) = Finite (- a)"
| "float_neg PosInf = NegInf"
| "float_neg NegInf = PosInf"
| "float_neg NaN = NaN"

fun float_abs :: "pyfloat \<Rightarrow> pyfloat" where
  "float_abs (Finite a) = Finite \<bar>a\<bar>"
| "float_abs PosInf = PosInf"
| "float_abs NegInf = PosInf"
| "float_abs NaN = NaN"

fun float_add :: "pyfloat \<Rightarrow> pyfloat \<Rightarrow> pyfloat" where
  "float_add (Finite a) (Finite b) = fl (a + b)"
| "float_add NaN y = NaN"
| "float_add x NaN = NaN"
| "float_add PosInf NegInf = NaN"
| "float_add NegInf PosInf = NaN"
| "float_add PosInf y = PosInf"
| "float_add NegInf y = NegInf"
| "float_add x PosInf = PosInf"
| "float_add x NegInf = NegInf"

definition float_sub :: "pyfloat \<Rightarrow> pyfloat \<Rightarrow> pyfloat" where
  "float_sub x y = float_add x (float_neg y)"

definition signed_inf :: "bool \<Rightarrow> pyfloat" where
  "signed_inf negative = (if negative then NegInf else PosInf)"

fun float_mul :: "pyfloat \<Rightarrow> pyfloat \<Rightarrow> pyfloat" where
  "float_mul (Finite a) (Finite b) = fl (a * b)"
| "float_mul NaN y = NaN"
| "float_mul x NaN = NaN"
| "float_mul x y =
     (if float_eq x (Finite 0) \<or> float_eq y (Finite 0) then NaN
      else signed_inf (float_negative x \<noteq> float_negative y))"

text \<open>True division by a divisor that is not zero (Python raises for zero).\<close>

fun float_div :: "pyfloat \<Rightarrow> pyfloat \<Rightarrow> pyfloat" where
  "float_div (Finite a) (Finite b) = fl (a / b)"
| "float_div NaN y = NaN"
| "float_div x NaN = NaN"
| "float_div (Finite a) y = Finite 0"
| "float_div x (Finite b) = signed_inf (float_negative x \<noteq> (b < 0))"
| "float_div x y = NaN"

text \<open>Comparisons; NaN compares false.\<close>

fun float_lt :: "pyfloat \<Rightarrow> pyfloat \<Rightarrow> bool" where
  "float_lt (Finite a) (Finite b) = (a < b)"
| "float_lt (Finite a) PosInf = True"
| "float_lt NegInf (Finite b) = True"
| "float_lt NegInf PosInf = True"
| "float_lt x y = False"

definition float_le :: "pyfloat \<Rightarrow> pyfloat \<Rightarrow> bool" where
  "float_le x y = (float_lt x y \<or> float_eq x y)"

text \<open>\<open>max(x, y)\<close> and \<open>min(x, y)\<close> keep the first argument unless the second compares better.\<close>

definition float_max :: "pyfloat \<Rightarrow> pyfloat \<Rightarrow> pyfloat" where
  "float_max x y = (if float_lt x y then y else x)"

definition float_min :: "pyfloat \<Rightarrow> pyfloat \<Rightarrow> pyfloat" where
  "float_min x y = (if float_lt y x then y else x)"

text \<open>\<open>float(i)\<close> raises when the integer is too large.\<close>

definition float_of_int :: "int \<Rightarrow> pyfloat result" where
  "float_of_int i =
     (case fl (of_int i) of
        Finite a \<Rightarrow> Inr (Finite a)
      | _ \<Rightarrow> Inl (OverflowError ''int too large to convert to float''))"

text \<open>\<open>timedelta.total_seconds()\<close> of a number of microseconds.\<close>

definition total_seconds :: "int \<Rightarrow> pyfloat" where
  "total_seconds us = fl (of_int us / 1000000)"

section \<open>Order of sorted floats\<close>

text \<open>
  \<open>sorted\<close> compares with \<open>float_lt\<close>, which is a total order on numbers.  \<open>float_rank\<close> embeds it
  in a linear order; NaN, on which \<open>sorted\<close> is not defined, is put last.
\<close>

fun float_rank :: "pyfloat \<Rightarrow> int \<times> rat" where
  "float_rank NegInf = (- 1, 0)"
| "float_rank (Finite a) = (0, a)"
| "float_rank PosInf = (1, 0)"
| "float_rank NaN = (2, 0)"

instantiation pyfloat :: linorder
begin

definition less_eq_pyfloat :: "pyfloat \<Rightarrow> pyfloat \<Rightarrow> bool" where
  "x \<le> y \<longleftrightarrow> fst (float_rank x) < fst (float_rank y)
     \<or> fst (float_rank x) = fst (float_rank y) \<and> snd (float_rank x) \<le> snd (float_rank y)"

definition less_pyfloat :: "pyfloat \<Rightarrow> pyfloat \<Rightarrow> bool" where
  "(x :: pyfloat) < y \<longleftrightarrow> x \<le> y \<and> \<not> y \<le> x"

instance
proof
  fix x y z :: pyfloat
  show "x < y \<longleftrightarrow> x \<le> y \<and> \<not> y \<le> x" by (rule less_pyfloat_def)
  show "x \<le> x" by (simp add: less_eq_pyfloat_def)
  show "x \<le> y \<Longrightarrow> y \<le> z \<Longrightarrow> x \<le> z" by (auto simp: less_eq_pyfloat_def)
  show "x \<le> y \<Longrightarrow> y \<le> x \<Longrightarrow> x = y"
    by (cases x; cases y) (auto simp: less_eq_pyfloat_def)
  show "x \<le> y \<or> y \<le> x" by (auto simp: less_eq_pyfloat_def)
qed

end

lemma float_lt_less: "x \<noteq> NaN \<Longrightarrow> y \<noteq> NaN \<Longrightarrow> float_lt x y \<longleftrightarrow> x < y"
  by (cases x; cases y) (auto simp: less_pyfloat_def less_eq_pyfloat_def)

text \<open>\<open>statistics.median\<close> of a list that is not empty.\<close>

definition median :: "pyfloat list \<Rightarrow> pyfloat" where
  "median xs =
     (let ys = sort xs; n = length ys; i = n div 2 in
      if odd n then ys ! i
      else float_div (float_add (ys ! (i - 1)) (ys ! i)) (Finite 2))"

section \<open>Facts\<close>

lemma pow2_pos [simp]: "0 < pow2 e"
  by (simp add: pow2_def)

lemma round_even_of_int [simp]: "round_even (of_int n) = n"
  by (simp add: round_even_def)

text \<open>Rounding moves by at most a half.\<close>

lemma round_even_error: "\<bar>of_int (round_even x) - x\<bar> \<le> 1 / 2"
proof -
  define f where "f = \<lfloor>x\<rfloor>"
  then have "of_int f \<le> x" "x < of_int f + 1" by linarith+
  then show ?thesis unfolding round_even_def Let_def f_def [symmetric] by (auto simp: abs_if)
qed

lemma round_even_mono: "x \<le> y \<Longrightarrow> round_even x \<le> round_even y"
proof (cases "\<lfloor>x\<rfloor> = \<lfloor>y\<rfloor>")
  case True
  assume "x \<le> y"
  with True show ?thesis by (auto simp: round_even_def Let_def)
next
  case False
  assume "x \<le> y"
  with False have "\<lfloor>x\<rfloor> + 1 \<le> \<lfloor>y\<rfloor>" using floor_mono by fastforce
  moreover have "round_even x \<le> \<lfloor>x\<rfloor> + 1" "\<lfloor>y\<rfloor> \<le> round_even y"
    by (auto simp: round_even_def Let_def)
  ultimately show ?thesis by simp
qed

lemma fl_zero [simp]: "fl 0 = Finite 0"
  by (simp add: fl_def)

text \<open>Rounding never changes the sign, and a finite result is off by at most half a unit.\<close>

lemma fl_nonneg: "0 \<le> x \<Longrightarrow> float_le (Finite 0) (fl x)"
proof (cases "x = 0")
  case False
  assume "0 \<le> x"
  let ?u = "round_unit x"
  have u: "0 < ?u" by (simp add: round_unit_def)
  then have "round_even 0 \<le> round_even (x / ?u)" using \<open>0 \<le> x\<close> by (intro round_even_mono) simp
  then have "0 \<le> of_int (round_even (x / ?u)) * ?u"
    using u round_even_of_int [of 0] by simp
  then show ?thesis using False by (auto simp: fl_def Let_def float_le_def)
qed (simp add: float_le_def)

lemma fl_error: "fl x = Finite y \<Longrightarrow> \<bar>y - x\<bar> \<le> round_unit x / 2"
proof (cases "x = 0")
  case False
  assume fl: "fl x = Finite y"
  let ?u = "round_unit x"
  have u: "0 < ?u" by (simp add: round_unit_def)
  from fl False have y: "y = of_int (round_even (x / ?u)) * ?u" by (auto simp: fl_def Let_def split: if_splits)
  have "\<bar>of_int (round_even (x / ?u)) - x / ?u\<bar> * ?u \<le> (1 / 2) * ?u"
    using round_even_error u by (intro mult_right_mono) auto
  moreover have "\<bar>of_int (round_even (x / ?u)) - x / ?u\<bar> * ?u = \<bar>y - x\<bar>"
    using u unfolding y by (simp add: abs_mult_pos left_diff_distrib)
  ultimately show ?thesis by simp
qed (auto simp: round_unit_def less_imp_le)

section \<open>Exact results\<close>

lemma pow2_powi: "pow2 e = 2 powi e"
  by (simp add: pow2_def power_int_def inverse_eq_divide power_one_over)

lemma pow2_add: "pow2 (a + b) = pow2 a * pow2 b"
  by (simp add: pow2_powi power_int_add)

lemma pow2_nonzero [simp]: "pow2 a \<noteq> 0"
  using pow2_pos [of a] by linarith

lemma pow2_diff: "pow2 (a - b) = pow2 a / pow2 b"
  using pow2_add [of "a - b" b] by simp

lemma pow2_mono: "a \<le> b \<Longrightarrow> pow2 a \<le> pow2 b"
  by (simp add: pow2_powi power_int_increasing)

lemma pow2_strict: "pow2 a < pow2 b \<Longrightarrow> a < b"
  using pow2_mono [of b a] by force

lemma int_log2_bounds: "1 \<le> n \<Longrightarrow> 0 \<le> int_log2 n \<and> pow2 (int_log2 n) \<le> of_int n \<and> of_int n < pow2 (int_log2 n + 1)"
proof (induction n rule: int_log2.induct)
  case (1 n)
  show ?case
  proof (cases "n < 2")
    case True
    then have "n = 1" using "1.prems" by simp
    then show ?thesis by (simp add: int_log2.simps [of 1] pow2_def)
  next
    case False
    let ?e = "int_log2 (n div 2)"
    have IH: "0 \<le> ?e" "pow2 ?e \<le> of_int (n div 2)" "of_int (n div 2) < pow2 (?e + 1)"
      using "1.IH" [OF False] False by auto
    have e: "int_log2 n = ?e + 1" using False by (simp add: int_log2.simps [of n])
    have n: "2 * (n div 2) \<le> n" "n \<le> 2 * (n div 2) + 1" by auto
    have "pow2 (?e + 1) = 2 ^ nat (?e + 1)" using IH(1) by (simp add: pow2_def)
    then have "of_int (n div 2) < (of_int (2 ^ nat (?e + 1)) :: rat)" using IH(3) by simp
    then have "n div 2 + 1 \<le> 2 ^ nat (?e + 1)" by (simp only: of_int_less_iff)
    then have "n < 2 * 2 ^ nat (?e + 1)" using n(2) by linarith
    then have "of_int n < (of_int (2 * 2 ^ nat (?e + 1)) :: rat)" by (simp only: of_int_less_iff)
    moreover have "pow2 (?e + 1 + 1) = 2 * 2 ^ nat (?e + 1)"
      using IH(1) by (simp add: pow2_def nat_add_distrib)
    moreover have "2 * pow2 ?e \<le> of_int (2 * (n div 2))" using IH(2) by simp
    then have "2 * pow2 ?e \<le> of_int n" using n(1) by (metis of_int_le_iff order_trans)
    moreover have "pow2 (?e + 1) = 2 * pow2 ?e" by (simp add: pow2_add) (simp add: pow2_def)
    ultimately show ?thesis using IH(1) e by simp
  qed
qed

lemma binary_exponent_bounds:
  assumes "0 < x"
  shows "pow2 (binary_exponent x) \<le> x \<and> x < pow2 (binary_exponent x + 1)"
proof -
  obtain p q where pq: "quotient_of x = (p, q)" by (cases "quotient_of x")
  have q: "1 \<le> q" using quotient_of_denom_pos [OF pq] by simp
  have x: "x = of_int p / of_int q" using quotient_of_div [OF pq] .
  have p: "1 \<le> p" using assms q unfolding x by (simp add: zero_less_divide_iff)
  let ?a = "int_log2 p" and ?b = "int_log2 q"
  have A: "pow2 ?a \<le> of_int p" "of_int p < pow2 (?a + 1)" using int_log2_bounds [OF p] by auto
  have B: "pow2 ?b \<le> of_int q" "of_int q < pow2 (?b + 1)" using int_log2_bounds [OF q] by auto
  have split: "pow2 (?a - ?b + 1) * pow2 ?b = pow2 (?a + 1)" "pow2 (?a - ?b - 1) * pow2 (?b + 1) = pow2 ?a"
    by (simp_all add: pow2_add [symmetric])
  have "x < pow2 (?a - ?b + 1)"
  proof -
    have "of_int p < pow2 (?a - ?b + 1) * pow2 ?b" using A(2) split(1) by simp
    also have "\<dots> \<le> pow2 (?a - ?b + 1) * of_int q" using B(1) by (intro mult_left_mono) (auto simp: less_imp_le)
    finally show ?thesis unfolding x using q by (simp add: divide_less_eq)
  qed
  moreover have "pow2 (?a - ?b - 1) \<le> x"
  proof -
    have "pow2 (?a - ?b - 1) * of_int q \<le> pow2 (?a - ?b - 1) * pow2 (?b + 1)"
      using B(2) by (intro mult_left_mono) (auto simp: less_imp_le)
    also have "\<dots> \<le> of_int p" using A(1) split(2) by simp
    finally show ?thesis unfolding x using q by (simp add: le_divide_eq)
  qed
  ultimately show ?thesis by (auto simp: binary_exponent_def pq Let_def)
qed

text \<open>Equations that evaluate faster: integer powers, and exponents instead of \<open>2\<^sup>1\<^sup>0\<^sup>2\<^sup>4\<close>.\<close>

lemma pow2_code [code]:
  "pow2 e = (if 0 \<le> e then of_int (2 ^ nat e) else 1 / of_int (2 ^ nat (- e)))"
  by (simp add: pow2_def)

lemma binary_exponent_less: "0 < x \<Longrightarrow> x < pow2 k \<longleftrightarrow> binary_exponent x < k"
  using binary_exponent_bounds [of x] pow2_mono [of "binary_exponent x + 1" k] pow2_mono [of k "binary_exponent x"]
  by force

lemma fl_code [code]:
  "fl x =
     (if x = 0 then Finite 0
      else let y = of_int (round_even (x / round_unit x)) * round_unit x in
        if y = 0 \<or> binary_exponent \<bar>y\<bar> < 1024 then Finite y else if 0 < y then PosInf else NegInf)"
proof -
  have "\<bar>y\<bar> < 2 ^ 1024 \<longleftrightarrow> y = 0 \<or> binary_exponent \<bar>y\<bar> < 1024" for y :: rat
  proof (cases "y = 0")
    case False
    then show ?thesis using binary_exponent_less [of "\<bar>y\<bar>" 1024] by (simp add: pow2_def)
  qed simp
  then show ?thesis unfolding fl_def by simp
qed

text \<open>A number of at most 53 significant bits inside the range is itself a float.\<close>

lemma fl_exact:
  assumes x: "x = of_int n * pow2 k" and n: "\<bar>n\<bar> \<le> 2 ^ 53" and k: "- 1074 \<le> k" and max: "\<bar>x\<bar> < 2 ^ 1024"
  shows "fl x = Finite x"
proof (cases "x = 0")
  case False
  let ?b = "binary_exponent \<bar>x\<bar>" and ?u = "max (binary_exponent \<bar>x\<bar> - 52) (- 1074)"
  have b: "pow2 ?b \<le> \<bar>x\<bar>" using binary_exponent_bounds [of "\<bar>x\<bar>"] False by simp
  have n': "\<bar>of_int n :: rat\<bar> \<le> pow2 53" using n by (simp add: pow2_def)
  have "\<exists>m. x / pow2 ?u = of_int m"
  proof (cases "?u \<le> k")
    case True
    have "x / pow2 ?u = of_int n * pow2 (k - ?u)"
      by (simp add: x pow2_diff)
    also have "\<dots> = of_int (n * 2 ^ nat (k - ?u))" using True by (simp add: pow2_def)
    finally show ?thesis by blast
  next
    case False
    then have u: "?u = ?b - 52" "k + 53 \<le> ?b" using k by auto
    have "\<bar>x\<bar> = \<bar>of_int n\<bar> * pow2 k" by (simp add: x abs_mult abs_of_pos)
    also have "\<dots> \<le> pow2 (k + 53)"
      using mult_right_mono [OF n', of "pow2 k"] by (simp add: pow2_add less_imp_le mult.commute)
    finally have "\<bar>x\<bar> \<le> pow2 (k + 53)" .
    with b pow2_mono [OF u(2)] have eq: "\<bar>x\<bar> = pow2 ?b" by simp
    have "pow2 ?b = pow2 52 * pow2 ?u" using pow2_add [of 52 ?u] u(1) by simp
    then have "\<bar>x\<bar> / pow2 ?u = pow2 52" using eq by (metis nonzero_mult_div_cancel_right pow2_nonzero)
    then have "\<bar>x\<bar> / pow2 ?u = of_int (2 ^ 52)" by (simp add: pow2_def)
    then have "x / pow2 ?u = of_int (2 ^ 52) \<or> x / pow2 ?u = of_int (- (2 ^ 52))"
      by (cases "0 \<le> x") (simp_all add: minus_equation_iff)
    then show ?thesis by blast
  qed
  then obtain m where "x / pow2 ?u = of_int m" by blast
  moreover from this have "of_int m * pow2 ?u = x" by (metis divide_eq_eq less_irrefl pow2_pos)
  ultimately show ?thesis using False max by (simp add: fl_def round_unit_def)
qed simp

text \<open>Integers up to \<open>2\<^sup>5\<^sup>3\<close>, halves and quarters are exact.\<close>

lemma fl_of_int: "\<bar>n\<bar> \<le> 2 ^ 53 \<Longrightarrow> fl (of_int n) = Finite (of_int n)"
proof (rule fl_exact [of _ n 0])
  assume "\<bar>n\<bar> \<le> 2 ^ 53"
  then have "\<bar>n\<bar> < 2 ^ 1024" by (rule order.strict_trans1) (rule power_strict_increasing; simp)
  then show "\<bar>of_int n :: rat\<bar> < 2 ^ 1024"
    by (metis of_int_abs of_int_less_iff of_int_numeral of_int_power)
qed (simp_all add: pow2_def)

end
