(* ===== verification/Payload_Access.thy ===== *)
theory Payload_Access
  imports Float_Arithmetic
begin

text \<open>
  How the diagnosis code reads evidence payloads: \<open>str(payload.get(key, ""))\<close>, numbers with a
  safe default, and set membership of values that may not be hashable.
\<close>

text \<open>
  \<open>str(v)\<close>.  The parameter \<open>shown\<close> gives the text of floats, lists, dictionaries and other
  objects.
\<close>

fun py_str :: "(pyval \<Rightarrow> string) \<Rightarrow> pyval \<Rightarrow> string" where
  "py_str shown (PStr s) = s"
| "py_str shown PNone = ''None''"
| "py_str shown (PBool b) = (if b then ''True'' else ''False'')"
| "py_str shown (PInt i) = show_int i"
| "py_str shown v = shown v"

text \<open>\<open>str(payload.get(key, ""))\<close> and \<open>str(payload.get(key) or "")\<close>.\<close>

definition text_at :: "(pyval \<Rightarrow> string) \<Rightarrow> payload \<Rightarrow> string \<Rightarrow> string" where
  "text_at shown d k = py_str shown (get_or d k (PStr ''''))"

definition text_or_empty :: "(pyval \<Rightarrow> string) \<Rightarrow> payload \<Rightarrow> string \<Rightarrow> string" where
  "text_or_empty shown d k =
     (let v = get_or_none d k in if truthy v then py_str shown v else '''')"

text \<open>\<open>isinstance(v, str) and v.strip()\<close>.\<close>

fun nonblank_text :: "pyval \<Rightarrow> string option" where
  "nonblank_text (PStr s) = (if strip s \<noteq> '''' then Some s else None)"
| "nonblank_text _ = None"

text \<open>
  \<open>float(v) if isinstance(v, int | float) and not isinstance(v, bool) and math.isfinite(v)
  else 0.0\<close>.  An integer too large for a float makes \<open>isfinite\<close> raise.
\<close>

fun number_fits :: "pyval \<Rightarrow> bool" where
  "number_fits (PInt i) = isfinite (fl (of_int i))"
| "number_fits _ = True"

definition number_check :: "payload \<Rightarrow> string \<Rightarrow> unit result" where
  "number_check d k = raise_first
     [(\<not> number_fits (get_or_none d k), OverflowError ''int too large to convert to float'')]"

fun finite_number :: "pyval \<Rightarrow> rat" where
  "finite_number (PInt i) = (case fl (of_int i) of Finite r \<Rightarrow> r | _ \<Rightarrow> 0)"
| "finite_number (PFloat (Finite r)) = r"
| "finite_number _ = 0"

text \<open>\<open>casefold\<close> on ASCII, and \<open>token in text\<close>.\<close>

definition has_token :: "string \<Rightarrow> string \<Rightarrow> bool" where
  "has_token text token =
     list_ex (\<lambda>i. take (length token) (drop i text) = token) [0 ..< Suc (length text - length token)]"

definition has_any :: "string list \<Rightarrow> string \<Rightarrow> bool" where
  "has_any tokens text = list_ex (has_token text) tokens"

lemma has_token_iff: "has_token text token \<longleftrightarrow> (\<exists>a b. text = a @ token @ b)"
proof
  assume "has_token text token"
  then obtain i where "take (length token) (drop i text) = token"
    unfolding has_token_def list_ex_iff by blast
  then have "text = take i text @ token @ drop (length token) (drop i text)"
    by (metis append_take_drop_id)
  then show "\<exists>a b. text = a @ token @ b" by blast
next
  assume "\<exists>a b. text = a @ token @ b"
  then obtain a b where "text = a @ token @ b" by blast
  then show "has_token text token"
    by (auto simp: has_token_def list_ex_iff intro!: bexI [of _ "length a"])
qed

end
