(* ===== verification/Queues.thy ===== *)
theory Queues
  imports Prelude "HOL-Library.Multiset" "HOL-Library.Sublist"
begin

text \<open>
  Two loops the diagnosis code repeats: grouping items in a \<open>defaultdict(list)\<close>, and
  merging ranked queues by repeatedly taking the queue whose head has the least key
  (\<open>_sort_family\<close> in \<open>diagnosis/signal_semantics.py\<close>, \<open>_rank_attributions\<close> in
  \<open>diagnosis/coordination_review.py\<close>).
\<close>

section \<open>Grouping\<close>

text \<open>\<open>groups[key(x)].append(x)\<close> for each item, in order.\<close>

definition group_put :: "'k \<Rightarrow> 'a \<Rightarrow> ('k, 'a list) dict \<Rightarrow> ('k, 'a list) dict" where
  "group_put k x d = dict_put d k ((case dict_get d k of None \<Rightarrow> [] | Some xs \<Rightarrow> xs) @ [x])"

definition group_by :: "('a \<Rightarrow> 'k) \<Rightarrow> 'a list \<Rightarrow> ('k, 'a list) dict" where
  "group_by key xs = foldl (\<lambda>d x. group_put (key x) x d) [] xs"

lemma group_by_snoc: "group_by key (xs @ [x]) = group_put (key x) x (group_by key xs)"
  by (simp add: group_by_def)

lemma group_by_Nil [simp]: "group_by key [] = []"
  by (simp add: group_by_def)

lemma group_by_get:
  "dict_get (group_by key xs) k =
     (case filter (\<lambda>x. key x = k) xs of [] \<Rightarrow> None | y # ys \<Rightarrow> Some (y # ys))"
proof (induction xs rule: rev_induct)
  case (snoc x xs)
  then show ?case
    by (cases "filter (\<lambda>y. key y = k) xs") (auto simp: group_by_snoc group_put_def)
qed simp

lemma group_by_distinct [simp]: "distinct (dict_keys (group_by key xs))"
  by (induction xs rule: rev_induct) (simp_all add: group_by_snoc group_put_def)

lemma group_by_keys: "set (dict_keys (group_by key xs)) = key ` set xs"
  by (induction xs rule: rev_induct)
     (auto simp: group_by_snoc group_put_def dom_update)

lemma group_by_member:
  assumes "p \<in> set (group_by key xs)"
  shows "snd p = filter (\<lambda>x. key x = fst p) xs" "snd p \<noteq> []"
proof -
  obtain k ys where p: "p = (k, ys)" by (cases p)
  with assms have "dict_get (group_by key xs) k = Some ys"
    using dict_mem_get [OF group_by_distinct] by metis
  then show "snd p = filter (\<lambda>x. key x = fst p) xs" "snd p \<noteq> []"
    unfolding p group_by_get by (auto split: list.splits)
qed

lemma sum_mset_filter_keys:
  "distinct ks \<Longrightarrow> set xs \<subseteq> {x. key x \<in> set ks} \<Longrightarrow>
   (\<Sum>k\<leftarrow>ks. mset (filter (\<lambda>x. key x = k) xs)) = mset xs"
proof (induction ks arbitrary: xs)
  case (Cons k ks)
  have "set (filter (\<lambda>x. key x \<noteq> k) xs) \<subseteq> {x. key x \<in> set ks}" using Cons.prems by auto
  from Cons.IH [OF _ this] Cons.prems(1)
  have "(\<Sum>j\<leftarrow>ks. mset (filter (\<lambda>x. key x = j) (filter (\<lambda>x. key x \<noteq> k) xs)))
      = mset (filter (\<lambda>x. key x \<noteq> k) xs)" by simp
  moreover have "map (\<lambda>j. mset (filter (\<lambda>x. key x = j) (filter (\<lambda>x. key x \<noteq> k) xs))) ks
      = map (\<lambda>j. mset (filter (\<lambda>x. key x = j) xs)) ks"
    using Cons.prems(1) by (auto intro!: filter_mset_cong)
  ultimately have "(\<Sum>j\<leftarrow>ks. mset (filter (\<lambda>x. key x = j) xs)) = mset (filter (\<lambda>x. key x \<noteq> k) xs)"
    by metis
  moreover have "mset (filter (\<lambda>x. key x = k) xs) + mset (filter (\<lambda>x. key x \<noteq> k) xs) = mset xs"
    by (metis mset_filter multiset_partition)
  ultimately show ?case by simp
qed simp

text \<open>Nothing is lost and nothing counted twice.\<close>

lemma group_by_mset: "(\<Sum>ys\<leftarrow>dict_values (group_by key xs). mset ys) = mset xs"
proof -
  let ?G = "group_by key xs"
  have "mset (snd p) = mset (filter (\<lambda>x. key x = fst p) xs)" if "p \<in> set ?G" for p
    using group_by_member(1) [OF that] by simp
  then have "map mset (dict_values ?G) = map (\<lambda>k. mset (filter (\<lambda>x. key x = k) xs)) (dict_keys ?G)"
    by (simp add: map_map)
  moreover have "set xs \<subseteq> {x. key x \<in> set (dict_keys ?G)}" unfolding group_by_keys by auto
  ultimately show ?thesis using sum_mset_filter_keys [OF group_by_distinct, of xs key key xs] by metis
qed

section \<open>Merging ranked queues\<close>

text \<open>
  \<open>min((name for name, queue in queues if queue), key=...)\<close> and \<open>pop(0)\<close>: the first of the
  queues with the least head.
\<close>

fun pop_best :: "('a \<Rightarrow> 'k::linorder) \<Rightarrow> 'a list list \<Rightarrow> ('a \<times> 'a list list) option" where
  "pop_best key [] = None"
| "pop_best key ([] # qs) = map_option (\<lambda>(y, r). (y, [] # r)) (pop_best key qs)"
| "pop_best key ((x # xs) # qs) =
     (case pop_best key qs of
        None \<Rightarrow> Some (x, xs # qs)
      | Some (y, r) \<Rightarrow> if key x \<le> key y then Some (x, xs # qs) else Some (y, (x # xs) # r))"

lemma pop_best_None: "pop_best key qs = None \<longleftrightarrow> (\<forall>q \<in> set qs. q = [])"
  by (induction key qs rule: pop_best.induct) (auto split: option.splits if_splits)

lemma pop_best_mset:
  "pop_best key qs = Some (x, rest) \<Longrightarrow> (\<Sum>q\<leftarrow>qs. mset q) = add_mset x (\<Sum>q\<leftarrow>rest. mset q)"
  by (induction key qs arbitrary: rest rule: pop_best.induct) (auto split: option.splits if_splits)

lemma pop_best_length:
  "pop_best key qs = Some (x, rest) \<Longrightarrow> sum_list (map length rest) < sum_list (map length qs)"
  by (induction key qs arbitrary: rest rule: pop_best.induct) (auto split: option.splits if_splits)

text \<open>The item taken has the least key among the heads.\<close>

lemma pop_best_least:
  "pop_best key qs = Some (x, rest) \<Longrightarrow> q \<in> set qs \<Longrightarrow> q \<noteq> [] \<Longrightarrow> key x \<le> key (hd q)"
proof (induction key qs arbitrary: x rest rule: pop_best.induct)
  case (3 key y ys qs)
  show ?case
  proof (cases "pop_best key qs")
    case None
    then have "\<forall>q \<in> set qs. q = []" by (simp add: pop_best_None)
    with None show ?thesis using "3.prems" by auto
  next
    case (Some p)
    obtain z r where p: "p = (z, r)" by (cases p)
    have "key z \<le> key (hd q)" if "q \<in> set qs" using "3.IH" [of z r] Some p that "3.prems"(3) by blast
    then show ?thesis using "3.prems" Some p by (auto split: if_splits intro: order_trans)
  qed
qed auto

lemma empty_queues: "\<forall>q \<in> set qs. q = [] \<Longrightarrow> (\<Sum>q\<leftarrow>qs. mset q) = {#}"
  by (induction qs) auto

lemma pop_best_queue:
  "pop_best key qs = Some (x, rest) \<Longrightarrow>
   \<exists>i < length qs. qs ! i = x # rest ! i \<and> rest = qs[i := rest ! i]"
proof (induction key qs arbitrary: rest rule: pop_best.induct)
  case (2 key qs)
  then obtain r where r: "pop_best key qs = Some (x, r)" "rest = [] # r" by auto
  from "2.IH" [OF r(1)] obtain i where "i < length qs" "qs ! i = x # r ! i" "r = qs[i := r ! i]" by blast
  then show ?case using r(2) by (intro exI [of _ "Suc i"]) simp
next
  case (3 key y ys qs)
  show ?case
  proof (cases "\<exists>z r. pop_best key qs = Some (z, r) \<and> \<not> key y \<le> key z")
    case True
    then obtain z r where r: "pop_best key qs = Some (z, r)" "\<not> key y \<le> key z" by blast
    with "3.prems" have eq: "z = x" "rest = (y # ys) # r" by auto
    from "3.IH" [of r] r eq obtain i where "i < length qs" "qs ! i = x # r ! i" "r = qs[i := r ! i]" by blast
    then show ?thesis using eq by (intro exI [of _ "Suc i"]) simp
  next
    case False
    with "3.prems" have "x = y" "rest = ys # qs" by (auto split: option.splits)
    then show ?thesis by (intro exI [of _ 0]) simp
  qed
qed simp

function merge_queues :: "('a \<Rightarrow> 'k::linorder) \<Rightarrow> 'a list list \<Rightarrow> 'a list" where
  "merge_queues key qs =
     (case pop_best key qs of None \<Rightarrow> [] | Some (x, rest) \<Rightarrow> x # merge_queues key rest)"
  by pat_completeness auto
termination
  by (relation "measure (\<lambda>(key, qs). sum_list (map length qs))") (auto dest: pop_best_length)

declare merge_queues.simps [simp del]

lemma merge_queues_mset: "mset (merge_queues key qs) = (\<Sum>q\<leftarrow>qs. mset q)"
proof (induction key qs rule: merge_queues.induct)
  case (1 key qs)
  show ?case
  proof (cases "pop_best key qs")
    case None
    then have "(\<Sum>q\<leftarrow>qs. mset q) = {#}" by (intro empty_queues) (simp add: pop_best_None)
    with None show ?thesis by (simp add: merge_queues.simps [of key qs])
  next
    case (Some p)
    obtain x rest where p: "p = (x, rest)" by (cases p)
    show ?thesis
      using "1.IH" [OF Some p [symmetric]] Some p pop_best_mset [of key qs x rest]
      by (simp add: merge_queues.simps [of key qs])
  qed
qed

text \<open>The merge keeps the order inside each queue.\<close>

lemma merge_queues_subseq: "q \<in> set qs \<Longrightarrow> subseq q (merge_queues key qs)"
proof (induction key qs arbitrary: q rule: merge_queues.induct)
  case (1 key qs)
  show ?case
  proof (cases "pop_best key qs")
    case None
    then show ?thesis using "1.prems" by (auto simp: pop_best_None)
  next
    case (Some p)
    obtain x rest where p: "p = (x, rest)" by (cases p)
    from pop_best_queue [OF Some [unfolded p]] obtain i where
      i: "i < length qs" "qs ! i = x # rest ! i" "rest = qs[i := rest ! i]" by blast
    note IH = "1.IH" [OF Some p [symmetric]]
    have step: "merge_queues key qs = x # merge_queues key rest"
      using Some p by (simp add: merge_queues.simps [of key qs])
    have len: "length rest = length qs" using i(3) by (metis length_list_update)
    obtain j where j: "j < length qs" "q = qs ! j" using "1.prems" by (auto simp: in_set_conv_nth)
    show ?thesis
    proof (cases "j = i")
      case True
      then have "subseq (rest ! i) (merge_queues key rest)" using IH i(1) len by simp
      then show ?thesis using True i(2) j(2) step by simp
    next
      case False
      then have "q = rest ! j" using i(3) j(2) by (metis nth_list_update_neq)
      then have "subseq q (merge_queues key rest)" using IH j(1) len by simp
      then show ?thesis unfolding step by (rule list_emb_Cons)
    qed
  qed
qed

text \<open>Queues already ordered by the key the merge compares give an ordered result.\<close>

lemma merge_queues_sorted:
  "(\<And>q. q \<in> set qs \<Longrightarrow> sorted (map key q)) \<Longrightarrow> sorted (map key (merge_queues key qs))"
proof (induction key qs rule: merge_queues.induct)
  case (1 key qs)
  show ?case
  proof (cases "pop_best key qs")
    case None
    then show ?thesis by (simp add: merge_queues.simps)
  next
    case (Some p)
    obtain x rest where p: "p = (x, rest)" by (cases p)
    from pop_best_queue [OF Some [unfolded p]] obtain i where
      i: "i < length qs" "qs ! i = x # rest ! i" "rest = qs[i := rest ! i]" by blast
    have rest_sorted: "sorted (map key q)" if "q \<in> set rest" for q
    proof -
      from that i(3) have "q \<in> insert (rest ! i) (set qs)" by (metis set_update_subset_insert subsetD)
      then show ?thesis using "1.prems" i(1,2) nth_mem by fastforce
    qed
    have least: "key x \<le> key y" if "y \<in> set (merge_queues key rest)" for y
    proof -
      from that have "y \<in># (\<Sum>q\<leftarrow>qs. mset q)"
        using merge_queues_mset [of key rest] pop_best_mset [OF Some [unfolded p]]
        by (metis insertCI set_mset_add_mset_insert set_mset_mset)
      then obtain q where q: "q \<in> set qs" "y \<in> set q" by (induction qs) auto
      then have "key x \<le> key (hd q)" using pop_best_least [OF Some [unfolded p]] by fastforce
      also have "key (hd q) \<le> key y" using "1.prems" [OF q(1)] q(2) by (cases q) auto
      finally show ?thesis .
    qed
    have "sorted (map key (merge_queues key rest))" using "1.IH" [OF Some p [symmetric]] rest_sorted by blast
    then show ?thesis using least Some p by (simp add: merge_queues.simps [of key qs])
  qed
qed

end
