(* ===== verification/Signal_Semantics.thy ===== *)
theory Signal_Semantics
  imports Investigation_Models Payload_Access Queues "HOL-Library.Product_Lexorder"
begin

text \<open>
  The deterministic signal semantics (\<open>backend/diagnosis/signal_semantics.py\<close>): the family of
  a metric name, anomaly segments of one series, and the bounded selection of evidence that
  covers every family.
\<close>

section \<open>Metric families\<close>

definition network_scope_tokens :: "string list" where
  "network_scope_tokens = [''network'', ''tcp'', ''udp'', ''socket'', ''packet'']"

definition corruption_tokens :: "string list" where
  "corruption_tokens = [''drop'', ''dropped'', ''error'', ''loss'', ''corrupt'', ''retransmit'']"

definition network_latency_tokens :: "string list" where
  "network_latency_tokens = [''latency'', ''delay'', ''rtt'', ''wait'']"

definition network_traffic_tokens :: "string list" where
  "network_traffic_tokens = [''bytes'', ''packets'', ''bandwidth'', ''throughput'']"

definition traffic_tokens :: "string list" where
  "traffic_tokens = [''qps'', ''request_count'', ''request_total'', ''requests_total'', ''traffic'', ''workload'']"

definition disk_tokens :: "string list" where
  "disk_tokens = [''disk'', ''iops'', ''io_wait'', ''iowait'', ''blkio'', ''fs_reads'', ''fs_writes'']"

definition socket_tokens :: "string list" where "socket_tokens = [''socket'', ''sockets'']"

definition process_tokens :: "string list" where "process_tokens = [''restart'', ''process'']"

definition error_tokens :: "string list" where "error_tokens = [''error'', ''fail'', ''5xx'']"

definition family_order :: "string list" where
  "family_order = [''network_corruption'', ''network_latency'', ''socket'', ''memory'', ''cpu'',
     ''disk_io'', ''process'', ''error'', ''timeout'', ''traffic'', ''latency'']"

definition classify_metric_signal :: "string \<Rightarrow> string" where
  "classify_metric_signal metric_name =
     (let name = replace_char (CHR ''-'') (CHR ''_'') (lower metric_name);
          network = has_any network_scope_tokens name in
      if network \<and> has_any corruption_tokens name then ''network_corruption''
      else if network \<and> has_any network_latency_tokens name then ''network_latency''
      else if network \<and> has_any network_traffic_tokens name then ''traffic''
      else if network \<and> has_any socket_tokens name then ''socket''
      else if has_any traffic_tokens name then ''traffic''
      else if has_token name ''memory'' \<or> has_token name ''mem'' then ''memory''
      else if has_token name ''cpu'' then ''cpu''
      else if has_any disk_tokens name then ''disk_io''
      else if has_any process_tokens name then ''process''
      else if has_any error_tokens name then ''error''
      else ''latency'')"

section \<open>Anomaly segments\<close>

record series_point =
  sp_timestamp :: instant
  sp_value :: pyfloat

datatype strength_basis = Basis_relative | Basis_presence_only

text \<open>The segment id is the onset in ISO format; \<open>stamp\<close> renders it.\<close>

record anomaly_segment =
  sg_segment_id :: string
  sg_onset :: instant
  sg_ended_at :: instant
  sg_strength :: pyfloat
  sg_peak_value :: pyfloat
  sg_baseline_value :: pyfloat
  sg_point_count :: nat
  sg_strength_basis :: strength_basis

text \<open>\<open>max(current, key=...)\<close>: the first entry with the greatest deviation.\<close>

fun strongest :: "(series_point \<times> pyfloat) \<Rightarrow> (series_point \<times> pyfloat) list \<Rightarrow> series_point \<times> pyfloat" where
  "strongest best [] = best"
| "strongest best (e # es) = strongest (if float_lt (snd best) (snd e) then e else best) es"

definition close_segment ::
    "(instant \<Rightarrow> string) \<Rightarrow> (series_point \<times> pyfloat) list \<Rightarrow> pyfloat \<Rightarrow> bool \<Rightarrow> anomaly_segment list" where
  "close_segment stamp current center degenerate =
     (case current of [] \<Rightarrow> []
      | e # es \<Rightarrow>
          (let onset = sp_timestamp (fst e); (point, deviation) = strongest e es in
           [\<lparr>sg_segment_id = ''seg-'' @ stamp onset, sg_onset = onset,
             sg_ended_at = sp_timestamp (fst (last current)),
             sg_strength = (if degenerate then Finite 1 else float_min deviation (Finite 10)),
             sg_peak_value = sp_value point, sg_baseline_value = center,
             sg_point_count = length current,
             sg_strength_basis = (if degenerate then Basis_presence_only else Basis_relative)\<rparr>]))"

definition epsilon :: pyfloat where
  "epsilon = fl (1 / 1000000000)"

text \<open>
  The reference of the baseline: its median, the threshold of a deviation, and whether the
  baseline has no scale of its own.
\<close>

definition baseline_reference :: "pyfloat list \<Rightarrow> pyfloat \<times> pyfloat \<times> bool" where
  "baseline_reference baseline_values =
     (let center = median baseline_values;
          mad = median (map (\<lambda>v. float_abs (float_sub v center)) baseline_values);
          threshold = float_max (float_max (float_mul (Finite 3) mad)
                        (float_mul (float_abs center) (fl (1 / 10)))) epsilon;
          degenerate = float_le (float_abs center) epsilon \<and> float_le mad epsilon
      in (center, threshold, degenerate))"

definition finite_values :: "series_point list \<Rightarrow> pyfloat list" where
  "finite_values points = filter isfinite (map sp_value points)"

definition ordered_points :: "series_point list \<Rightarrow> series_point list" where
  "ordered_points points =
     sort_key (\<lambda>p. (sp_timestamp p, sp_value p)) (filter (\<lambda>p. isfinite (sp_value p)) points)"

definition gap_seconds :: "series_point \<Rightarrow> series_point \<Rightarrow> pyfloat" where
  "gap_seconds left right = total_seconds (sp_timestamp right - sp_timestamp left)"

definition maximal_gap :: "series_point list \<Rightarrow> pyfloat" where
  "maximal_gap ordered =
     (if length ordered < 2 then PosInf
      else float_mul (Finite 2) (median (map2 gap_seconds ordered (tl ordered))))"

text \<open>
  The loop over the ordered points.  \<open>current\<close> is the open segment; \<open>dev\<close> the deviation of a
  point from the center in units of the threshold.
\<close>

fun segment_loop ::
    "(series_point \<Rightarrow> pyfloat) \<Rightarrow> pyfloat \<Rightarrow> (series_point \<times> pyfloat) list \<Rightarrow> series_point list
       \<Rightarrow> (series_point \<times> pyfloat) list list" where
  "segment_loop dev max_gap current [] = [current]"
| "segment_loop dev max_gap current (p # ps) =
     (if float_le (dev p) (Finite 1) then current # segment_loop dev max_gap [] ps
      else if current \<noteq> [] \<and> float_lt max_gap (gap_seconds (fst (last current)) p)
      then current # segment_loop dev max_gap [(p, dev p)] ps
      else segment_loop dev max_gap (current @ [(p, dev p)]) ps)"

definition deviation_from :: "pyfloat \<Rightarrow> pyfloat \<Rightarrow> series_point \<Rightarrow> pyfloat" where
  "deviation_from center threshold p = float_div (float_abs (float_sub (sp_value p) center)) threshold"

definition detect_anomaly_segments ::
    "(instant \<Rightarrow> string) \<Rightarrow> series_point list \<Rightarrow> series_point list \<Rightarrow> anomaly_segment list" where
  "detect_anomaly_segments stamp baseline_points observation_points =
     (if finite_values baseline_points = [] then []
      else (case baseline_reference (finite_values baseline_points) of (center, threshold, degenerate) \<Rightarrow>
        let ordered = ordered_points observation_points in
        if ordered = [] then []
        else concat (map (\<lambda>run. close_segment stamp run center degenerate)
               (segment_loop (deviation_from center threshold) (maximal_gap ordered) [] ordered))))"

section \<open>Keys of evidence\<close>

abbreviation payload_text :: "(pyval \<Rightarrow> string) \<Rightarrow> string \<Rightarrow> evidence_item \<Rightarrow> string" where
  "payload_text shown k item \<equiv> text_at shown (ei_payload item) k"

definition strength_of :: "evidence_item \<Rightarrow> rat" where
  "strength_of item = finite_number (get_or_none (ei_payload item) ''normalized_strength'')"

definition strength_check :: "evidence_item \<Rightarrow> unit result" where
  "strength_check item = number_check (ei_payload item) ''normalized_strength''"

definition strength_basis_of :: "evidence_item \<Rightarrow> string" where
  "strength_basis_of item =
     (case get_or_none (ei_payload item) ''strength_basis'' of
        PStr s \<Rightarrow> if s = ''relative'' \<or> s = ''presence_only'' then s else ''legacy''
      | _ \<Rightarrow> ''legacy'')"

definition point_count_of :: "evidence_item \<Rightarrow> int" where
  "point_count_of item =
     (case as_strict_int (get_or_none (ei_payload item) ''anomaly_point_count'') of
        None \<Rightarrow> 1 | Some n \<Rightarrow> if n < 1 then 1 else n)"

definition sort_key_of :: "(pyval \<Rightarrow> string) \<Rightarrow> evidence_item \<Rightarrow> rat \<times> instant \<times> string \<times> string \<times> ident" where
  "sort_key_of shown item =
     (- strength_of item, ei_timestamp item, payload_text shown ''component'' item,
      payload_text shown ''signal_name'' item, ei_id item)"

definition relative_key ::
    "(pyval \<Rightarrow> string) \<Rightarrow> evidence_item \<Rightarrow> rat \<times> int \<times> instant \<times> string \<times> string \<times> ident" where
  "relative_key shown item =
     (- strength_of item, - point_count_of item, ei_timestamp item,
      payload_text shown ''component'' item, payload_text shown ''signal_name'' item, ei_id item)"

definition cross_basis_key ::
    "(pyval \<Rightarrow> string) \<Rightarrow> evidence_item \<Rightarrow> int \<times> instant \<times> string \<times> string \<times> ident" where
  "cross_basis_key shown item =
     (- point_count_of item, ei_timestamp item, payload_text shown ''component'' item,
      payload_text shown ''signal_name'' item, ei_id item)"

definition signal_family_priority :: "string \<Rightarrow> int \<times> string" where
  "signal_family_priority family =
     (case first_match (\<lambda>i. family_order ! i = family) [0 ..< length family_order] of
        Some i \<Rightarrow> (int i, family) | None \<Rightarrow> (int (length family_order), family))"

section \<open>Selection\<close>

definition family_queues :: "(pyval \<Rightarrow> string) \<Rightarrow> evidence_item list \<Rightarrow> evidence_item list list" where
  "family_queues shown items =
     [sort_key (relative_key shown) (filter (\<lambda>i. strength_basis_of i = ''relative'') items),
      sort_key (cross_basis_key shown) (filter (\<lambda>i. strength_basis_of i = ''presence_only'') items),
      sort_key (sort_key_of shown) (filter (\<lambda>i. strength_basis_of i = ''legacy'') items)]"

definition sort_family :: "(pyval \<Rightarrow> string) \<Rightarrow> evidence_item list \<Rightarrow> evidence_item list" where
  "sort_family shown items = merge_queues (cross_basis_key shown) (family_queues shown items)"

text \<open>\<open>min(group, key=_sort_key)\<close> with the signal names of the whole group.\<close>

definition merge_group :: "(pyval \<Rightarrow> string) \<Rightarrow> evidence_item list \<Rightarrow> evidence_item" where
  "merge_group shown items =
     (let representative = hd (sort_key (sort_key_of shown) items);
          names = sort (dedupe (filter (\<lambda>s. s \<noteq> '''') (map (payload_text shown ''signal_name'') items)))
      in representative\<lparr>ei_payload :=
           dict_put (ei_payload representative) ''signal_names'' (PList (map PStr names))\<rparr>)"

definition merge_key :: "(pyval \<Rightarrow> string) \<Rightarrow> evidence_item \<Rightarrow> string \<times> string \<times> instant" where
  "merge_key shown item =
     (payload_text shown ''signal_type'' item, payload_text shown ''component'' item, ei_timestamp item)"

definition family_of :: "(pyval \<Rightarrow> string) \<Rightarrow> evidence_item \<Rightarrow> string" where
  "family_of shown item = payload_text shown ''signal_type'' item"

definition merged_items :: "(pyval \<Rightarrow> string) \<Rightarrow> evidence_item list \<Rightarrow> evidence_item list" where
  "merged_items shown items = map (merge_group shown) (dict_values (group_by (merge_key shown) items))"

definition ranked_families :: "(pyval \<Rightarrow> string) \<Rightarrow> evidence_item list \<Rightarrow> evidence_item list list" where
  "ranked_families shown items =
     (let by_family = group_by (family_of shown) (merged_items shown items) in
      map (\<lambda>family. sort_family shown (the (dict_get by_family family)))
        (sort_key signal_family_priority (dict_keys by_family)))"

text \<open>One round: the next item of every family, until the limit is reached.\<close>

fun select_round :: "int \<Rightarrow> nat \<Rightarrow> 'a list list \<Rightarrow> 'a list \<Rightarrow> 'a list" where
  "select_round limit i [] selected = selected"
| "select_round limit i (q # qs) selected =
     (if i < length q
      then (let selected' = selected @ [q ! i] in
            if int (length selected') = limit then selected' else select_round limit i qs selected')
      else select_round limit i qs selected)"

lemma select_round_length: "length selected \<le> length (select_round limit i qs selected)"
  by (induction limit i qs selected rule: select_round.induct) (auto simp: Let_def)

text \<open>\<open>while len(selected) < limit\<close>: rounds until a round adds nothing.\<close>

function round_robin :: "int \<Rightarrow> nat \<Rightarrow> 'a list list \<Rightarrow> 'a list \<Rightarrow> 'a list" where
  "round_robin limit i qs selected =
     (if int (length selected) < limit
      then (let selected' = select_round limit i qs selected in
            if length selected' = length selected then selected'
            else round_robin limit (Suc i) qs selected')
      else selected)"
  by pat_completeness auto
termination
proof (relation "measure (\<lambda>(limit, i, qs, selected). nat (limit - int (length selected)))")
  fix limit i and qs :: "'a list list" and selected selected' :: "'a list"
  assume "int (length selected) < limit" "selected' = select_round limit i qs selected"
    "length selected' \<noteq> length selected"
  then show "((limit, Suc i, qs, selected'), (limit, i, qs, selected))
      \<in> measure (\<lambda>(limit, i, qs, selected). nat (limit - int (length selected)))"
    using select_round_length [of selected limit i qs] by simp
qed simp

declare round_robin.simps [simp del]

definition select_balanced_evidence ::
    "(pyval \<Rightarrow> string) \<Rightarrow> evidence_item list \<Rightarrow> int \<Rightarrow> evidence_item list result" where
  "select_balanced_evidence shown items limit =
     (if limit \<le> 0 then Inr []
      else and_then (check_all strength_check items)
             (\<lambda>_. Inr (round_robin limit 0 (ranked_families shown items) [])))"

end
