(* ===== verification/Signal_Properties.thy ===== *)
theory Signal_Properties
  imports Signal_Semantics
begin

text \<open>
  What the signal semantics guarantees: the selection covers every family within its limit and
  repeats no observation; the segments of a series account for every anomalous point once.
\<close>

section \<open>Families\<close>

lemma strength_basis_cases:
  "strength_basis_of i = ''relative'' \<or> strength_basis_of i = ''presence_only'' \<or> strength_basis_of i = ''legacy''"
  by (auto simp: strength_basis_of_def split: pyval.splits)

text \<open>Sorting a family loses nothing, and keeps the order of each of its three queues.\<close>

lemma sort_family_mset [simp]: "mset (sort_family shown items) = mset items"
proof -
  let ?b = "\<lambda>s. filter (\<lambda>i. strength_basis_of i = s) items"
  have "mset (?b ''relative'') + mset (?b ''presence_only'') + mset (?b ''legacy'') = mset items"
  proof (induction items)
    case (Cons i items)
    then show ?case using strength_basis_cases [of i] by auto
  qed simp
  then show ?thesis
    by (simp add: sort_family_def merge_queues_mset family_queues_def add.assoc)
qed

lemma sort_family_set [simp]: "set (sort_family shown items) = set items"
  by (metis set_mset_mset sort_family_mset)

lemma sort_family_length [simp]: "length (sort_family shown items) = length items"
  by (metis size_mset sort_family_mset)

lemma sort_family_Nil [simp]: "sort_family shown items = [] \<longleftrightarrow> items = []"
  by (metis length_0_conv sort_family_length)

lemma merge_group_simps [simp]:
  "grp \<noteq> [] \<Longrightarrow> \<exists>r \<in> set grp. ei_id (merge_group shown grp) = ei_id r
     \<and> merge_key shown (merge_group shown grp) = merge_key shown r"
proof -
  assume "grp \<noteq> []"
  then have "sort_key (sort_key_of shown) grp \<noteq> []" by (metis length_sort length_greater_0_conv)
  then have "hd (sort_key (sort_key_of shown) grp) \<in> set grp" using hd_in_set by fastforce
  then show ?thesis
    by (intro bexI [of _ "hd (sort_key (sort_key_of shown) grp)"])
       (simp_all add: merge_group_def merge_key_def text_at_def get_or_def Let_def)
qed

lemma family_of_merge_key: "family_of shown i = fst (merge_key shown i)"
  by (simp add: family_of_def merge_key_def)

text \<open>One merged item per signal type, component and onset, in the order of their first items.\<close>

lemma merged_items_keys:
  "map (merge_key shown) (merged_items shown items) = dict_keys (group_by (merge_key shown) items)"
proof -
  have "merge_key shown (merge_group shown (snd p)) = fst p" if "p \<in> set (group_by (merge_key shown) items)" for p
  proof -
    note p = group_by_member [OF that]
    from merge_group_simps [OF p(2), of shown] p(1) show ?thesis by auto
  qed
  then show ?thesis by (auto simp: merged_items_def)
qed

lemma merged_items_origin:
  "i \<in> set (merged_items shown items) \<Longrightarrow>
   \<exists>r \<in> set items. ei_id i = ei_id r \<and> merge_key shown i = merge_key shown r"
proof -
  assume "i \<in> set (merged_items shown items)"
  then obtain p where p: "p \<in> set (group_by (merge_key shown) items)" "i = merge_group shown (snd p)"
    by (auto simp: merged_items_def)
  note q = group_by_member [OF p(1)]
  from merge_group_simps [OF q(2), of shown] obtain r where
    "r \<in> set (snd p)" "ei_id i = ei_id r" "merge_key shown i = merge_key shown r" using p(2) by blast
  then show ?thesis unfolding q(1) by auto
qed

section \<open>Round robin\<close>

text \<open>The items of position \<open>i\<close> in every queue that has one.\<close>

definition column :: "nat \<Rightarrow> 'a list list \<Rightarrow> 'a list" where
  "column i qs = map (\<lambda>q. q ! i) (filter (\<lambda>q. i < length q) qs)"

definition columns :: "nat \<Rightarrow> nat \<Rightarrow> 'a list list \<Rightarrow> 'a list" where
  "columns i n qs = concat (map (\<lambda>j. column j qs) [i ..< n])"

lemma select_round_column:
  "int (length selected) < limit \<Longrightarrow>
   select_round limit i qs selected = selected @ take (nat limit - length selected) (column i qs)"
proof (induction limit i qs selected rule: select_round.induct)
  case (2 limit i q qs selected)
  show ?case
  proof (cases "i < length q \<and> int (Suc (length selected)) \<noteq> limit")
    case True
    then have "select_round limit i qs (selected @ [q ! i])
        = (selected @ [q ! i]) @ take (nat limit - length (selected @ [q ! i])) (column i qs)"
      using 2 by auto
    moreover have "nat limit - length selected = Suc (nat limit - Suc (length selected))"
      using True "2.prems" by linarith
    ultimately show ?thesis using True by (simp add: Let_def column_def)
  next
    case False
    show ?thesis
    proof (cases "i < length q")
      case True
      with False have "nat limit - length selected = 1" by auto
      then show ?thesis using True False by (simp add: Let_def column_def)
    qed (use 2 in \<open>simp add: column_def\<close>)
  qed
qed (simp add: column_def)

lemma columns_step: "i < n \<Longrightarrow> columns i n qs = column i qs @ columns (Suc i) n qs"
  by (simp add: columns_def upt_conv_Cons)

lemma column_empty: "column i qs = [] \<longleftrightarrow> (\<forall>q \<in> set qs. length q \<le> i)"
  by (auto simp: column_def filter_empty_conv not_less)

lemma columns_empty: "column i qs = [] \<Longrightarrow> columns i n qs = []"
  by (auto simp: column_empty columns_def)

text \<open>The loop with its early exits selects the first \<open>limit\<close> items, column by column.\<close>

lemma round_robin_columns:
  "\<forall>q \<in> set qs. length q \<le> n \<Longrightarrow>
   round_robin limit i qs selected = selected @ take (nat limit - length selected) (columns i n qs)"
proof (induction limit i qs selected rule: round_robin.induct)
  case (1 limit i qs selected)
  show ?case
  proof (cases "int (length selected) < limit")
    case False
    then show ?thesis by (simp add: round_robin.simps [of limit])
  next
    case True
    let ?k = "nat limit - length selected"
    have round: "select_round limit i qs selected = selected @ take ?k (column i qs)"
      using select_round_column [OF True] .
    have k: "0 < ?k" using True by linarith
    show ?thesis
    proof (cases "column i qs = []")
      case True
      then show ?thesis using round columns_empty [of i qs n] by (simp add: round_robin.simps [of limit])
    next
      case False
      then have "i < n" using "1.prems" by (meson column_empty not_le order_trans)
      have "length (select_round limit i qs selected) \<noteq> length selected" using round k False by simp
      then have "round_robin limit i qs selected = round_robin limit (Suc i) qs (select_round limit i qs selected)"
        using True by (simp add: round_robin.simps [of limit i] Let_def)
      also have "\<dots> = select_round limit i qs selected
          @ take (nat limit - length (select_round limit i qs selected)) (columns (Suc i) n qs)"
        using "1.IH" [OF True refl] "1.prems" \<open>length (select_round limit i qs selected) \<noteq> length selected\<close> by blast
      also have "\<dots> = selected @ take ?k (column i qs @ columns (Suc i) n qs)"
        unfolding round by (simp add: min_def)
      finally show ?thesis using columns_step [OF \<open>i < n\<close>, of qs] by simp
    qed
  qed
qed

lemma column_mset: "mset (column i qs) = (\<Sum>q\<leftarrow>qs. if i < length q then {#q ! i#} else {#})"
  by (induction qs) (simp_all add: column_def)

lemma columns_mset_take: "mset (columns 0 n qs) = (\<Sum>q\<leftarrow>qs. mset (take n q))"
proof (induction n)
  case (Suc n)
  have "columns 0 (Suc n) qs = columns 0 n qs @ column n qs" by (simp add: columns_def)
  moreover have "mset (take (Suc n) q) = mset (take n q) + (if n < length q then {#q ! n#} else {#})"
    for q :: "'a list" by (simp add: take_Suc_conv_app_nth)
  ultimately show ?case using Suc by (simp add: column_mset sum_list_addf)
qed (simp add: columns_def sum_list_0)

lemma columns_mset: "\<forall>q \<in> set qs. length q \<le> n \<Longrightarrow> mset (columns 0 n qs) = (\<Sum>q\<leftarrow>qs. mset q)"
  by (simp add: columns_mset_take cong: map_cong)

section \<open>The selection\<close>

lemma merged_items_key_set: "merge_key shown ` set (merged_items shown items) = merge_key shown ` set items"
  by (metis list.set_map merged_items_keys group_by_keys)

lemma merged_families: "family_of shown ` set (merged_items shown items) = family_of shown ` set items"
proof -
  have "family_of shown = fst \<circ> merge_key shown" by (auto simp: family_of_merge_key)
  then show ?thesis using merged_items_key_set [of shown items] by (metis image_comp)
qed

text \<open>One queue per family, none of them empty.\<close>

lemma ranked_families_queues:
  "\<exists>fs. distinct fs \<and> set fs = family_of shown ` set items
     \<and> ranked_families shown items
       = map (\<lambda>f. sort_family shown (filter (\<lambda>i. family_of shown i = f) (merged_items shown items))) fs
     \<and> (\<forall>f \<in> set fs. filter (\<lambda>i. family_of shown i = f) (merged_items shown items) \<noteq> [])"
proof -
  let ?M = "merged_items shown items"
  let ?G = "group_by (family_of shown) ?M"
  let ?fs = "sort_key signal_family_priority (dict_keys ?G)"
  have fs: "set ?fs = family_of shown ` set ?M" by (simp only: set_sort group_by_keys)
  have ne: "filter (\<lambda>i. family_of shown i = f) ?M \<noteq> []" if "f \<in> set ?fs" for f
    using that unfolding fs by (auto simp: filter_empty_conv)
  then have picked: "the (dict_get ?G f) = filter (\<lambda>i. family_of shown i = f) ?M" if "f \<in> set ?fs" for f
    using that unfolding group_by_get by (auto split: list.splits)
  show ?thesis
  proof (intro exI [of _ ?fs] conjI ballI)
    show "distinct ?fs" by (simp add: distinct_sort)
    show "set ?fs = family_of shown ` set items" unfolding fs by (rule merged_families)
    show "ranked_families shown items
      = map (\<lambda>f. sort_family shown (filter (\<lambda>i. family_of shown i = f) ?M)) ?fs"
      unfolding ranked_families_def Let_def by (rule map_cong [OF refl]) (simp only: picked)
  qed (rule ne)
qed

lemma ranked_families_mset:
  "(\<Sum>q\<leftarrow>ranked_families shown items. mset q) = mset (merged_items shown items)"
proof -
  obtain fs where "distinct fs" "set fs = family_of shown ` set items"
    "ranked_families shown items
      = map (\<lambda>f. sort_family shown (filter (\<lambda>i. family_of shown i = f) (merged_items shown items))) fs"
    using ranked_families_queues [of shown items] by blast
  then show ?thesis
    using sum_mset_filter_keys [of fs "merged_items shown items" "family_of shown"] merged_families [of shown items]
    by (fastforce simp: comp_def)
qed

lemma family_cover:
  assumes out: "out = take (nat limit) (columns 0 n (ranked_families shown items))"
    and n: "\<forall>q \<in> set (ranked_families shown items). length q \<le> n"
    and room: "int (card (family_of shown ` set items)) \<le> limit"
    and f: "f \<in> family_of shown ` set items"
  shows "f \<in> family_of shown ` set out"
proof -
  let ?q = "\<lambda>f. filter (\<lambda>i. family_of shown i = f) (merged_items shown items)"
  let ?R = "ranked_families shown items"
  obtain fs where fs: "distinct fs" "set fs = family_of shown ` set items"
    "?R = map (\<lambda>f. sort_family shown (?q f)) fs" "\<forall>f \<in> set fs. ?q f \<noteq> []"
    using ranked_families_queues [of shown items] by blast
  have pos: "0 < length (sort_family shown (?q g))" if "g \<in> set fs" for g using fs(4) that by simp
  have "f \<in> set fs" using f fs(2) by simp
  then have "sort_family shown (?q f) \<in> set ?R" unfolding fs(3) by simp
  then have "0 < n" using n pos [OF \<open>f \<in> set fs\<close>] by (meson order.strict_trans2)
  have "filter (\<lambda>q. 0 < length q) ?R = ?R" by (rule filter_True) (use fs(3) pos in auto)
  then have col: "column 0 ?R = map (\<lambda>f. sort_family shown (?q f) ! 0) fs"
    unfolding column_def by (simp add: fs(3))
  have "length (column 0 ?R) \<le> nat limit"
    using room distinct_card [OF fs(1)] fs(2) by (simp add: col)
  then have "set (column 0 ?R) \<subseteq> set out"
    unfolding out columns_step [OF \<open>0 < n\<close>] by (auto simp: take_append)
  moreover have "sort_family shown (?q f) ! 0 \<in> set (column 0 ?R)" using f fs(2) by (auto simp: col)
  moreover have "sort_family shown (?q f) ! 0 \<in> set (?q f)"
    using pos f fs(2) nth_mem by (metis sort_family_set)
  ultimately show ?thesis by force
qed

lemma selection_columns:
  assumes "select_balanced_evidence shown items limit = Inr out" and "0 < limit"
  obtains n where "out = take (nat limit) (columns 0 n (ranked_families shown items))"
    and "\<forall>q \<in> set (ranked_families shown items). length q \<le> n"
proof
  let ?R = "ranked_families shown items"
  let ?n = "sum_list (map length ?R)"
  show n: "\<forall>q \<in> set ?R. length q \<le> ?n" by (auto intro: member_le_sum_list)
  from assms have "out = round_robin limit 0 ?R []"
    by (auto simp: select_balanced_evidence_def result_simps)
  then show "out = take (nat limit) (columns 0 ?n ?R)" using round_robin_columns [OF n, of limit 0 "[]"] by simp
qed

text \<open>C32: The bounded selection of evidence covers every family and repeats no observation.  It
  returns as many items as the limit and the number of different observations (signal type,
  component, onset) allow, each standing for an item that was given; no observation twice; and
  when the limit is at least the number of signal types, every signal type is represented.\<close>

theorem selection_covers_families:
  assumes sel: "select_balanced_evidence shown items limit = Inr out" and "0 < limit"
  shows "length out = min (nat limit) (card (merge_key shown ` set items))
    \<and> distinct (map (merge_key shown) out)
    \<and> (\<forall>i \<in> set out. \<exists>r \<in> set items. ei_id i = ei_id r \<and> merge_key shown i = merge_key shown r)
    \<and> (int (card (family_of shown ` set items)) \<le> limit \<longrightarrow> family_of shown ` set out = family_of shown ` set items)"
proof -
  let ?M = "merged_items shown items" and ?R = "ranked_families shown items"
  from selection_columns [OF assms] obtain n where
    out: "out = take (nat limit) (columns 0 n ?R)" and n: "\<forall>q \<in> set ?R. length q \<le> n" by blast
  have all: "mset (columns 0 n ?R) = mset ?M" using columns_mset [OF n] ranked_families_mset by simp
  have keys: "distinct (map (merge_key shown) ?M)" "set (map (merge_key shown) ?M) = merge_key shown ` set items"
    unfolding merged_items_keys by (simp_all only: group_by_distinct group_by_keys)
  have "length (columns 0 n ?R) = card (merge_key shown ` set items)"
    using keys distinct_card [OF keys(1)] all by (metis length_map mset_eq_length)
  moreover have "distinct (map (merge_key shown) (columns 0 n ?R))"
    using keys(1) all by (metis mset_eq_imp_distinct_iff mset_map)
  then have "distinct (map (merge_key shown) out)" unfolding out by (simp add: take_map [symmetric])
  moreover have in_M: "set out \<subseteq> set ?M" unfolding out using all by (metis set_mset_mset set_take_subset)
  moreover have "family_of shown ` set out = family_of shown ` set items"
    if "int (card (family_of shown ` set items)) \<le> limit"
    using family_cover [OF out n that] merged_families [of shown items] in_M by blast
  ultimately show ?thesis using merged_items_origin [of _ shown items] out by auto
qed

section \<open>Segments\<close>

abbreviation anomalous :: "(series_point \<Rightarrow> pyfloat) \<Rightarrow> series_point \<Rightarrow> bool" where
  "anomalous dev p \<equiv> \<not> float_le (dev p) (Finite 1)"

lemma segment_loop_concat:
  "concat (segment_loop dev max_gap current ps) = current @ map (\<lambda>p. (p, dev p)) (filter (anomalous dev) ps)"
  by (induction dev max_gap current ps rule: segment_loop.induct) auto

lemma close_segment_Cons:
  "run \<noteq> [] \<Longrightarrow> \<exists>s. close_segment stamp run center degenerate = [s] \<and> sg_onset s = sp_timestamp (fst (hd run))
     \<and> sg_ended_at s = sp_timestamp (fst (last run)) \<and> sg_point_count s = length run
     \<and> (if degenerate then sg_strength s = Finite 1 \<and> sg_strength_basis s = Basis_presence_only
        else sg_strength_basis s = Basis_relative)"
  by (cases run) (auto simp: close_segment_def Let_def split: prod.splits)

lemma close_segment_Nil [simp]: "close_segment stamp [] center degenerate = []"
  by (simp add: close_segment_def)

lemma segments_counted:
  "sum_list (map sg_point_count (concat (map (\<lambda>run. close_segment stamp run center degenerate) rns)))
     = length (concat rns)"
proof (induction rns)
  case (Cons run rns)
  then show ?case using close_segment_Cons [of run stamp center degenerate] by (cases "run = []") auto
qed simp

lemma segments_onset:
  "s \<in> set (concat (map (\<lambda>run. close_segment stamp run center degenerate) rns)) \<Longrightarrow>
   \<exists>e \<in> set (concat rns). sg_onset s = sp_timestamp (fst e)"
proof (induction rns)
  case (Cons run rns)
  then show ?case using close_segment_Cons [of run stamp center degenerate] hd_in_set [of run]
    by (cases "run = []") auto
qed simp

lemma segments_ordered:
  "sorted (map (\<lambda>e. sp_timestamp (fst e)) (concat rns)) \<Longrightarrow>
   sorted_wrt (\<lambda>a b. sg_ended_at a \<le> sg_onset b) (concat (map (\<lambda>run. close_segment stamp run center degenerate) rns))"
proof (induction rns)
  case (Cons run rns)
  show ?case
  proof (cases "run = []")
    case False
    obtain s where s: "close_segment stamp run center degenerate = [s]"
      "sg_ended_at s = sp_timestamp (fst (last run))"
      using close_segment_Cons [OF False] by blast
    have "sg_ended_at s \<le> sg_onset t"
      if later: "t \<in> set (concat (map (\<lambda>run. close_segment stamp run center degenerate) rns))" for t
    proof -
      obtain e where "e \<in> set (concat rns)" "sg_onset t = sp_timestamp (fst e)"
        using segments_onset [OF later] by blast
      moreover have "last run \<in> set run" using False by simp
      ultimately show ?thesis using Cons.prems s(2) by (auto simp: sorted_append)
    qed
    moreover have "sorted (map (\<lambda>e. sp_timestamp (fst e)) (concat rns))"
      using Cons.prems by (simp add: sorted_append)
    ultimately show ?thesis using Cons.IH s(1) by simp
  qed (use Cons in simp)
qed simp

lemma segments_shape:
  assumes "sorted (map (\<lambda>e. sp_timestamp (fst e)) (concat rns))"
    and "s \<in> set (concat (map (\<lambda>run. close_segment stamp run center degenerate) rns))"
  shows "1 \<le> sg_point_count s \<and> sg_onset s \<le> sg_ended_at s
    \<and> (if degenerate then sg_strength s = Finite 1 \<and> sg_strength_basis s = Basis_presence_only
       else sg_strength_basis s = Basis_relative)"
  using assms
proof (induction rns)
  case (Cons run rns)
  show ?case
  proof (cases "run \<noteq> [] \<and> close_segment stamp run center degenerate = [s]")
    case True
    then have "hd run = last run \<or> hd run \<noteq> last run" "sorted (map (\<lambda>e. sp_timestamp (fst e)) run)"
      using Cons.prems by (auto simp: sorted_append)
    moreover have "sp_timestamp (fst (hd run)) \<le> sp_timestamp (fst (last run))"
      using True calculation(2) by (cases run) (auto simp: last_map)
    ultimately show ?thesis using close_segment_Cons [of run stamp center degenerate] True
      by (cases run) auto
  next
    case False
    then have "s \<in> set (concat (map (\<lambda>run. close_segment stamp run center degenerate) rns))"
      using Cons.prems(2) close_segment_Cons [of run stamp center degenerate]
      by (cases "run = []") auto
    then show ?thesis using Cons by (auto simp: sorted_append)
  qed
qed simp

lemma ordered_points_times: "sorted (map sp_timestamp (ordered_points points))"
proof -
  have "sorted (map (\<lambda>p. (sp_timestamp p, sp_value p)) (ordered_points points))"
    by (simp add: ordered_points_def)
  then have "sorted (map fst (map (\<lambda>p. (sp_timestamp p, sp_value p)) (ordered_points points)))"
    by (rule sorted_map_mono) (auto simp: mono_on_def less_eq_prod_def) 
  then show ?thesis by (simp add: comp_def)
qed

text \<open>C33: The anomaly segments of a series account for every anomalous point exactly once.  Their
  point counts add up to the number of finite observations that deviate from the baseline's
  median by more than the threshold; they follow each other in time without overlapping; each
  has at least one point; and their strengths are 1 when the baseline has no scale.\<close>

theorem segments_account_for_anomalies:
  assumes "finite_values baseline \<noteq> []"
    and "baseline_reference (finite_values baseline) = (center, threshold, degenerate)"
  shows "sum_list (map sg_point_count (detect_anomaly_segments stamp baseline points))
      = length (filter (\<lambda>p. isfinite (sp_value p) \<and> anomalous (deviation_from center threshold) p) points)
    \<and> sorted_wrt (\<lambda>a b. sg_ended_at a \<le> sg_onset b) (detect_anomaly_segments stamp baseline points)
    \<and> (\<forall>s \<in> set (detect_anomaly_segments stamp baseline points).
        1 \<le> sg_point_count s \<and> sg_onset s \<le> sg_ended_at s
        \<and> (if degenerate then sg_strength s = Finite 1 \<and> sg_strength_basis s = Basis_presence_only
           else sg_strength_basis s = Basis_relative))"
proof -
  let ?dev = "deviation_from center threshold" and ?ps = "ordered_points points"
  let ?rns = "segment_loop ?dev (maximal_gap ?ps) [] ?ps"
  have detect: "detect_anomaly_segments stamp baseline points
      = concat (map (\<lambda>run. close_segment stamp run center degenerate) ?rns)"
    using assms by (simp add: detect_anomaly_segments_def Let_def)
  have rns: "concat ?rns = map (\<lambda>p. (p, ?dev p)) (filter (anomalous ?dev) ?ps)"
    using segment_loop_concat by fastforce
  have "sorted (map sp_timestamp (filter (anomalous ?dev) ?ps))"
    using ordered_points_times by (rule sorted_filter)
  then have times: "sorted (map (\<lambda>e. sp_timestamp (fst e)) (concat ?rns))"
    unfolding rns by (simp add: comp_def)
  have "length (concat ?rns) = size (mset (filter (anomalous ?dev) ?ps))" unfolding rns by (simp only: length_map size_mset)
  also have "mset (filter (anomalous ?dev) ?ps)
      = mset (filter (anomalous ?dev) (filter (\<lambda>p. isfinite (sp_value p)) points))"
    by (simp only: mset_filter ordered_points_def mset_sort)
  also have "filter (anomalous ?dev) (filter (\<lambda>p. isfinite (sp_value p)) points)
      = filter (\<lambda>p. isfinite (sp_value p) \<and> anomalous ?dev p) points"
    by (rule filter_filter)
  finally have "length (concat ?rns) = length (filter (\<lambda>p. isfinite (sp_value p) \<and> anomalous ?dev p) points)"
    by (simp only: size_mset)
  then show ?thesis
    unfolding detect using segments_counted segments_ordered [OF times] segments_shape [OF times] by metis
qed

section \<open>Samples\<close>

definition sample_item :: "ident \<Rightarrow> instant \<Rightarrow> payload \<Rightarrow> evidence_item" where
  "sample_item i t d =
     \<lparr>ei_id = i, ei_provider = EProv_METRIC, ei_kind = EKind_METRIC_TREND, ei_timestamp = t,
      ei_summary = ''sample'', ei_payload = d, ei_confidence = 1, ei_status = EStat_SUCCESS,
      ei_error_message = None, ei_scope = None, ei_provenance = None, ei_runtime_run_id = None\<rparr>"

definition sample_items :: "evidence_item list" where
  "sample_items =
     [sample_item ''e1'' 1 [(''signal_type'', PStr ''cpu''), (''component'', PStr ''api'')],
      sample_item ''e2'' 1 [(''signal_type'', PStr ''cpu''), (''component'', PStr ''api'')],
      sample_item ''e3'' 2 [(''signal_type'', PStr ''cpu''), (''component'', PStr ''db'')],
      sample_item ''e4'' 3 [(''signal_type'', PStr ''memory''), (''component'', PStr ''api'')]]"

lemma sample_selection:
  "map_option (map ei_id)
     (case select_balanced_evidence (\<lambda>_. '''') sample_items 2 of Inl e \<Rightarrow> None | Inr out \<Rightarrow> Some out)
     = Some [''e4'', ''e1'']"
  by code_simp

theorem selection_covers_families_witness:
  "\<exists>out. select_balanced_evidence (\<lambda>_. '''') sample_items 2 = Inr out \<and> map ei_id out = [''e4'', ''e1'']
     \<and> family_of (\<lambda>_. '''') ` set out = {''cpu'', ''memory''}"
proof -
  obtain out where out: "select_balanced_evidence (\<lambda>_. '''') sample_items 2 = Inr out" "map ei_id out = [''e4'', ''e1'']"
    using sample_selection by (auto split: sum.splits)
  have families: "family_of (\<lambda>_. '''') ` set sample_items = {''cpu'', ''memory''}"
    by (simp add: sample_items_def sample_item_def family_of_def text_at_def get_or_def insert_commute)
  then show ?thesis using selection_covers_families [OF out(1)] out by auto
qed

definition sample_series :: "int list \<Rightarrow> series_point list" where
  "sample_series vs =
     map2 (\<lambda>t v. \<lparr>sp_timestamp = 1000000 * int t, sp_value = Finite (of_int v)\<rparr>) [0 ..< length vs] vs"

lemma sample_reference:
  "baseline_reference (finite_values (sample_series [4, 4, 8])) = (Finite 4, fl (2 / 5), False)"
  by code_simp

theorem segments_account_for_anomalies_witness:
  "sum_list (map sg_point_count (detect_anomaly_segments (\<lambda>_. '''') (sample_series [4, 4, 8]) (sample_series [4, 9])))
     = length (filter (anomalous (deviation_from (Finite 4) (fl (2 / 5)))) (sample_series [4, 9]))"
proof -
  have "finite_values (sample_series [4, 4, 8]) \<noteq> []" by code_simp
  from segments_account_for_anomalies [OF this sample_reference, of "\<lambda>_. ''''" "sample_series [4, 9]"]
  show ?thesis by (simp add: sample_series_def)
qed

end
