(* ===== verification/Evidence_Validation.thy ===== *)
theory Evidence_Validation
  imports Frozen_Projection Payload_Access
begin

text \<open>
  The contract of evidence and of the references to it
  (\<open>backend/diagnosis/evidence_validation.py\<close>): provider results, deterministic hypotheses,
  agent findings, candidates and attributions.  Confidences are rational numbers, so the
  \<open>isfinite\<close> tests of the source always pass and are not written.
\<close>

definition contract_error :: "string \<Rightarrow> string \<Rightarrow> py_error" where
  "contract_error code reference =
     EvidenceContractError (if reference = '''' then code else code @ '': '' @ reference)"

section \<open>Provider results\<close>

record validated_evidence =
  ve_provider_results :: "provider_result list"
  ve_evidence :: "evidence_item list"
  ve_supporting :: "evidence_item list"

definition usable_evidence :: "provider_result \<Rightarrow> evidence_item \<Rightarrow> bool" where
  "usable_evidence p e =
     (pr_status p \<in> {PStat_SUCCESS, PStat_PARTIAL} \<and> ei_status e \<in> {EStat_SUCCESS, EStat_PARTIAL}
      \<and> ei_kind e \<noteq> EKind_PROVIDER_ERROR)"

text \<open>The items of one result; \<open>seen\<close>, \<open>evidence\<close> and \<open>supporting\<close> as the loop has them.\<close>

type_synonym evidence_scan = "ident list \<times> evidence_item list \<times> evidence_item list"

fun scan_items :: "provider_result \<Rightarrow> evidence_item list \<Rightarrow> evidence_scan \<Rightarrow> evidence_scan result" where
  "scan_items p [] st = Inr st"
| "scan_items p (e # es) (seen, evidence, supporting) =
     (if ei_provider e \<noteq> pr_provider p then Inl (contract_error ''provider_mismatch'' (ei_id e))
      else if ei_id e \<in> set seen then Inl (contract_error ''duplicate_evidence_id'' (ei_id e))
      else scan_items p es
             (ei_id e # seen, evidence @ [e], if usable_evidence p e then supporting @ [e] else supporting))"

fun scan_results :: "provider_result list \<Rightarrow> evidence_scan \<Rightarrow> evidence_scan result" where
  "scan_results [] st = Inr st"
| "scan_results (p # ps) st =
     (if pr_status p \<in> {PStat_FAILED, PStat_SKIPPED} \<and> pr_evidence_items p \<noteq> []
      then Inl (contract_error ''provider_status_evidence'' (evidence_provider_value (pr_provider p)))
      else and_then (scan_items p (pr_evidence_items p) st) (scan_results ps))"

definition validate_investigation_evidence :: "provider_result list \<Rightarrow> validated_evidence result" where
  "validate_investigation_evidence results =
     and_then (scan_results results ([], [], [])) (\<lambda>(seen, evidence, supporting).
       Inr \<lparr>ve_provider_results = results, ve_evidence = sort_key ei_timestamp evidence,
            ve_supporting = sort_key ei_timestamp supporting\<rparr>)"

section \<open>References\<close>

fun cause_support_providers :: "cause_type \<Rightarrow> evidence_provider list" where
  "cause_support_providers Cause_DEPLOYMENT_REGRESSION = [EProv_DEPLOY, EProv_LOG, EProv_METRIC]"
| "cause_support_providers Cause_TRAFFIC_SPIKE = [EProv_METRIC]"
| "cause_support_providers Cause_DOWNSTREAM_DEPENDENCY_FAILURE = [EProv_DEPENDENCY, EProv_LOG]"
| "cause_support_providers Cause_DATABASE_SLOWDOWN = [EProv_METRIC]"
| "cause_support_providers Cause_SINGLE_INSTANCE_ISSUE = [EProv_METRIC]"
| "cause_support_providers Cause_RESOURCE_SATURATION = [EProv_METRIC]"
| "cause_support_providers Cause_NETWORK_FAULT = [EProv_DEPENDENCY, EProv_LOG, EProv_METRIC]"
| "cause_support_providers Cause_CONFIGURATION_ERROR = [EProv_DEPLOY, EProv_LOG, EProv_SERVICE_CATALOG]"
| "cause_support_providers Cause_PROCESS_OR_CONTAINER_FAILURE = [EProv_DEPLOY, EProv_LOG, EProv_METRIC]"
| "cause_support_providers Cause_INFRASTRUCTURE_FAULT = [EProv_DEPENDENCY, EProv_LOG, EProv_METRIC]"
| "cause_support_providers Cause_UNKNOWN = []"

abbreviation evidence_by_id :: "evidence_item list \<Rightarrow> (ident, evidence_item) dict" where
  "evidence_by_id items \<equiv> dict_put_all ei_id items []"

definition require_usable_references :: "(ident, evidence_item) dict \<Rightarrow> ident list \<Rightarrow> unit result" where
  "require_usable_references by_id refs =
     (case first_match (\<lambda>i. dict_get by_id i = None) refs of
        None \<Rightarrow> Inr () | Some i \<Rightarrow> Inl (contract_error ''unknown_or_unusable_evidence'' i))"

text \<open>A cause of \<open>None\<close> has no supporting provider.\<close>

definition require_cause_support :: "cause_type option \<Rightarrow> evidence_item \<Rightarrow> ident \<Rightarrow> unit result" where
  "require_cause_support cause e owner = raise_first
     [(case cause of None \<Rightarrow> True | Some c \<Rightarrow> ei_provider e \<notin> set (cause_support_providers c),
       contract_error ''cause_support_mismatch'' owner)]"

definition require_support_of ::
    "(ident, evidence_item) dict \<Rightarrow> cause_type option \<Rightarrow> ident \<Rightarrow> ident list \<Rightarrow> unit result" where
  "require_support_of by_id cause owner refs =
     check_all (\<lambda>i. require_cause_support cause (the (dict_get by_id i)) owner) refs"

definition validate_hypothesis :: "(ident, evidence_item) dict \<Rightarrow> hypothesis \<Rightarrow> unit result" where
  "validate_hypothesis by_id h =
     (let support = hy_supporting_evidence_ids h; contradiction = hy_contradicting_evidence_ids h in
      and_then (raise_first
        [(\<not> distinct support \<or> \<not> distinct contradiction, contract_error ''duplicate_reference'' (hy_id h)),
         (set support \<inter> set contradiction \<noteq> {}, contract_error ''inconsistent_reference_direction'' (hy_id h))]) (\<lambda>_.
      and_then (require_usable_references by_id (support @ contradiction)) (\<lambda>_.
      if hy_cause_type h = Cause_UNKNOWN then Inr ()
      else and_then (raise_first [(support = [], contract_error ''missing_support'' (hy_id h))]) (\<lambda>_.
             require_support_of by_id (Some (hy_cause_type h)) (hy_id h) support))))"

definition validate_hypotheses :: "evidence_item list \<Rightarrow> hypothesis list \<Rightarrow> unit result" where
  "validate_hypotheses supporting hypotheses =
     and_then (raise_first
       [(length (evidence_by_id supporting) \<noteq> length supporting, contract_error ''duplicate_evidence_id'' '''')])
       (\<lambda>_. check_all (validate_hypothesis (evidence_by_id supporting)) hypotheses)"

section \<open>Attributions\<close>

text \<open>\<open>" ".join(re.findall(r"\w+", value.casefold()))\<close>.\<close>

definition normalize_claim :: "string \<Rightarrow> string" where
  "normalize_claim v = join '' '' (word_runs [] (lower v))"

definition one_minute :: int where "one_minute = 60000000"

text \<open>The components an item names, normalised.\<close>

definition named_components :: "evidence_item \<Rightarrow> string list" where
  "named_components e =
     map normalize_claim (present (map (\<lambda>k. nonblank_text (get_or_none (ei_payload e) k))
       [''service'', ''component'', ''node'', ''instance'', ''dependency'']))"

fun signal_reason :: "string \<Rightarrow> string option" where
  "signal_reason s =
     (if s = ''cpu'' then Some ''container cpu load''
      else if s = ''memory'' then Some ''container memory load''
      else if s = ''disk_io'' then Some ''disk I/O saturation''
      else if s = ''network_latency'' then Some ''network latency''
      else if s = ''network_corruption'' then Some ''network packet corruption''
      else if s = ''process'' then Some ''container process failure'' else None)"

text \<open>
  The reasons an item supports.  Testing whether an unhashable signal type is in a set raises.
\<close>

definition supported_reasons :: "(pyval \<Rightarrow> string) \<Rightarrow> evidence_item \<Rightarrow> string list result" where
  "supported_reasons shown e =
     (let d = ei_payload e; t = get_or_none d ''signal_type'';
          name = lower (text_or_empty shown d ''signal_name'');
          tests_instance = truthy (get_or_none d ''instance'') in
      and_then (raise_first [(tests_instance \<and> \<not> hashable t, TypeError ''unhashable type'')]) (\<lambda>_.
      Inr ((if ei_kind e = EKind_DEPLOYMENT \<or> t = PStr ''deployment'' then [''deployment regression''] else [])
         @ (if t = PStr ''traffic'' then [''traffic spike''] else [])
         @ (if t = PStr ''timeout'' then [''dependency timeout''] else [])
         @ (if ei_provider e = EProv_DEPENDENCY then [''dependency latency''] else [])
         @ (if has_any [''database'', ''db_'', ''sql''] name then [''database latency''] else [])
         @ (if tests_instance \<and> t \<in> {PStr ''cpu'', PStr ''error''} then [''single instance failure''] else [])
         @ present [signal_reason (py_str shown t)])))"

fun collect_reasons :: "(pyval \<Rightarrow> string) \<Rightarrow> evidence_item list \<Rightarrow> string list result" where
  "collect_reasons shown [] = Inr []"
| "collect_reasons shown (e # es) =
     and_then (supported_reasons shown e) (\<lambda>rs.
     and_then (collect_reasons shown es) (\<lambda>rest. Inr (rs @ rest)))"

definition near :: "root_cause_attribution \<Rightarrow> instant \<Rightarrow> bool" where
  "near a t = (\<bar>t - at_occurred_at a\<bar> \<le> one_minute)"

definition require_canonical_support ::
    "(pyval \<Rightarrow> string) \<Rightarrow> evidence_item list \<Rightarrow> root_cause_attribution \<Rightarrow> unit result" where
  "require_canonical_support shown cited a =
     and_then (raise_first
       [(\<not> list_ex (\<lambda>e. near a (ei_timestamp e)) cited, contract_error ''root_cause_time_mismatch'' ''''),
        (normalize_claim (at_component a) \<notin> set (concat (map named_components cited)),
           contract_error ''root_cause_component_mismatch'' '''')]) (\<lambda>_.
     and_then (collect_reasons shown cited) (\<lambda>reasons.
     raise_first [(at_reason a \<notin> set reasons, contract_error ''root_cause_reason_mismatch'' '''')]))"

text \<open>Explicit claims of the cited evidence, when it makes any, decide instead.\<close>

definition require_root_cause_support ::
    "frozen_ext \<Rightarrow> (pyval \<Rightarrow> string) \<Rightarrow> (ident, evidence_item) dict \<Rightarrow> root_cause_attribution \<Rightarrow> unit result" where
  "require_root_cause_support ext shown by_id a =
     (let cited = map (\<lambda>i. the (dict_get by_id i)) (at_supporting_evidence_ids a);
          claims = concat (map (root_cause_claims ext) cited) in
      if claims = [] \<and> list_all (\<lambda>e. dict_get (ei_payload e) ''root_cause_claims'' = None) cited
      then require_canonical_support shown cited a
      else (let times = filter (\<lambda>(c, r, t, s). near a t) claims;
                components = filter (\<lambda>(c, r, t, s). normalize_claim c = normalize_claim (at_component a)) times in
        raise_first
          [(times = [], contract_error ''root_cause_time_mismatch'' ''''),
           (components = [], contract_error ''root_cause_component_mismatch'' ''''),
           (\<not> list_ex (\<lambda>(c, r, t, s). normalize_claim r = normalize_claim (at_reason a)) components,
              contract_error ''root_cause_reason_mismatch'' '''')]))"

section \<open>Agent output\<close>

definition validate_finding_semantics :: "(ident, evidence_item) dict \<Rightarrow> agent_finding \<Rightarrow> unit result" where
  "validate_finding_semantics by_id f =
     and_then (require_usable_references by_id (fd_evidence_ids f)) (\<lambda>_.
     if fd_finding_type f \<noteq> Find_ROOT_CAUSE then Inr ()
     else and_then (raise_first
            [(fd_related_cause_type f \<in> {None, Some Cause_UNKNOWN},
                contract_error ''root_cause_without_cause'' (fd_id f))]) (\<lambda>_.
          require_support_of by_id (fd_related_cause_type f) (fd_id f) (fd_evidence_ids f)))"

abbreviation finding_by_id :: "agent_finding list \<Rightarrow> (ident, agent_finding) dict" where
  "finding_by_id fs \<equiv> dict_put_all fd_id fs []"

text \<open>A finding a candidate names must exist and be of the kind and cause the candidate needs.\<close>

definition check_named_finding ::
    "(ident, agent_finding) dict \<Rightarrow> (agent_finding \<Rightarrow> (bool \<times> py_error) list) \<Rightarrow> ident \<Rightarrow> unit result" where
  "check_named_finding by_id checks i =
     (case dict_get by_id i of
        None \<Rightarrow> Inl (contract_error ''unknown_finding_id'' i) | Some f \<Rightarrow> raise_first (checks f))"

definition validate_candidate_semantics ::
    "(ident, evidence_item) dict \<Rightarrow> (ident, agent_finding) dict \<Rightarrow> root_cause_candidate \<Rightarrow> unit result" where
  "validate_candidate_semantics by_id fs c =
     and_then (require_usable_references by_id (rc_supporting_evidence_ids c @ rc_contradicting_evidence_ids c)) (\<lambda>_.
     and_then (require_support_of by_id (rc_cause_type c) (rc_id c) (rc_supporting_evidence_ids c)) (\<lambda>_.
     and_then (check_all (\<lambda>i. check_named_finding fs (\<lambda>f.
         [(fd_finding_type f = Find_SIGNAL, contract_error ''signal_candidate_support'' i),
          (fd_finding_type f \<noteq> Find_ROOT_CAUSE \<or> fd_related_cause_type f \<noteq> rc_cause_type c,
             contract_error ''candidate_support_mismatch'' i)]) i)
       (rc_supporting_finding_ids c)) (\<lambda>_.
     check_all (\<lambda>i. check_named_finding fs (\<lambda>f.
         [(fd_finding_type f \<noteq> Find_CONTRADICTION \<or> fd_related_cause_type f \<noteq> rc_cause_type c,
             contract_error ''candidate_contradiction_mismatch'' i)]) i)
       (rc_contradicting_finding_ids c))))"

definition validate_agent_semantics ::
    "frozen_ext \<Rightarrow> (pyval \<Rightarrow> string) \<Rightarrow> evidence_item list \<Rightarrow> agent_finding list
       \<Rightarrow> root_cause_candidate list \<Rightarrow> root_cause_attribution list \<Rightarrow> unit result" where
  "validate_agent_semantics ext shown supporting findings candidates root_causes =
     (let by_id = evidence_by_id supporting; fs = finding_by_id findings in
      and_then (raise_first [(length fs \<noteq> length findings, contract_error ''duplicate_finding_id'' '''')]) (\<lambda>_.
      and_then (check_all (validate_finding_semantics by_id) findings) (\<lambda>_.
      and_then (raise_first
        [(map rc_rank candidates \<noteq> map int [1 ..< Suc (length candidates)], contract_error ''candidate_rank'' '''')]) (\<lambda>_.
      and_then (check_all (validate_candidate_semantics by_id fs) candidates) (\<lambda>_.
      check_all (\<lambda>a. and_then (require_usable_references by_id (at_supporting_evidence_ids a))
                        (\<lambda>_. require_root_cause_support ext shown by_id a)) root_causes)))))"

section \<open>Facts\<close>

lemma require_usable_references_Inr [result_simps]:
  "require_usable_references by_id refs = Inr u \<longleftrightarrow> (\<forall>i \<in> set refs. dict_get by_id i \<noteq> None)"
  by (auto simp: require_usable_references_def first_match_None split: option.splits dest: first_match_Some)

lemma require_cause_support_Inr [result_simps]:
  "require_cause_support cause e owner = Inr u \<longleftrightarrow>
   (\<exists>c. cause = Some c \<and> ei_provider e \<in> set (cause_support_providers c))"
  by (auto simp: require_cause_support_def result_simps split: option.splits)

lemma require_support_of_Inr [result_simps]:
  "require_support_of by_id cause owner refs = Inr u \<longleftrightarrow>
   (\<forall>i \<in> set refs. \<exists>c. cause = Some c \<and> ei_provider (the (dict_get by_id i)) \<in> set (cause_support_providers c))"
  by (auto simp: require_support_of_def result_simps)

lemma evidence_by_id_get:
  "dict_get (evidence_by_id items) i = first_match (\<lambda>e. ei_id e = i) (rev items)"
  by (auto simp: dict_put_all_get split: option.splits)

lemma evidence_by_id_member:
  "dict_get (evidence_by_id items) i = Some e \<Longrightarrow> e \<in> set items \<and> ei_id e = i"
  unfolding evidence_by_id_get by (auto dest: first_match_Some)

lemma evidence_by_id_known: "dict_get (evidence_by_id items) i \<noteq> None \<longleftrightarrow> i \<in> ei_id ` set items"
  unfolding evidence_by_id_get by (auto simp: first_match_None)

end
