(* ===== verification/Coordination_Review.thy ===== *)
theory Coordination_Review
  imports Evidence_Validation Signal_Semantics
begin

text \<open>
  The coordination review builder (\<open>backend/diagnosis/coordination_review.py\<close>): which findings
  are active, how they are merged into ranked candidates, the hybrid decision, and the root
  cause attributions derived from clusters of evidence.  Objects the source mutates in place
  are identified by their index in the candidate list.
\<close>

text \<open>What the builder takes from its surroundings: fresh ids, the clock, \<open>str\<close> and \<open>sum\<close> of floats
  (which changed with Python 3.12).\<close>

record coordination_ext =
  cx_candidate_id :: "nat \<Rightarrow> ident"
  cx_review_id :: ident
  cx_now :: instant
  cx_shown :: "pyval \<Rightarrow> string"
  cx_sum :: "rat list \<Rightarrow> pyfloat"
  cx_frozen :: frozen_ext

fun cause_type_value :: "cause_type \<Rightarrow> string" where
  "cause_type_value Cause_DEPLOYMENT_REGRESSION = ''deployment_regression''"
| "cause_type_value Cause_TRAFFIC_SPIKE = ''traffic_spike''"
| "cause_type_value Cause_DOWNSTREAM_DEPENDENCY_FAILURE = ''downstream_dependency_failure''"
| "cause_type_value Cause_DATABASE_SLOWDOWN = ''database_slowdown''"
| "cause_type_value Cause_SINGLE_INSTANCE_ISSUE = ''single_instance_issue''"
| "cause_type_value Cause_RESOURCE_SATURATION = ''resource_saturation''"
| "cause_type_value Cause_NETWORK_FAULT = ''network_fault''"
| "cause_type_value Cause_CONFIGURATION_ERROR = ''configuration_error''"
| "cause_type_value Cause_PROCESS_OR_CONTAINER_FAILURE = ''process_or_container_failure''"
| "cause_type_value Cause_INFRASTRUCTURE_FAULT = ''infrastructure_fault''"
| "cause_type_value Cause_UNKNOWN = ''unknown''"

definition low_confidence :: rat where "low_confidence = 1 / 2"

section \<open>Active findings\<close>

definition sdk_findings :: "agent_finding list \<Rightarrow> agent_finding list" where
  "sdk_findings fs = filter (\<lambda>f. fd_execution_layer f = Layer_OPENAI_AGENTS_SDK) fs"

definition revision_check ::
    "(ident, agent_finding) dict \<Rightarrow> ident list \<Rightarrow> agent_finding \<Rightarrow> unit result" where
  "revision_check by_id all_ids f =
     (if fd_analysis_round f \<noteq> Round_2 then Inr ()
      else (case Option.bind (fd_revises_finding_id f) (dict_get by_id) of
        None \<Rightarrow> Inl (ValueError
          (if (case fd_revises_finding_id f of None \<Rightarrow> False | Some i \<Rightarrow> i \<in> set all_ids)
           then ''A revision must target an SDK round 1 finding''
           else ''Unknown revision id: '' @ (case fd_revises_finding_id f of None \<Rightarrow> ''None'' | Some i \<Rightarrow> i)))
      | Some revised \<Rightarrow> raise_first
          [(fd_analysis_round revised \<noteq> Round_1, ValueError ''A revision must target an SDK round 1 finding''),
           (fd_investigation_id revised \<noteq> fd_investigation_id f \<or> fd_agent_name revised \<noteq> fd_agent_name f,
              ValueError ''A revision must target the same investigation and agent'')]))"

text \<open>The first finding whose id occurred before, for the duplicate check.\<close>

fun first_duplicate :: "ident list \<Rightarrow> ident list \<Rightarrow> ident option" where
  "first_duplicate seen [] = None"
| "first_duplicate seen (i # is') = (if i \<in> set seen then Some i else first_duplicate (i # seen) is')"

definition active_sdk_findings :: "agent_finding list \<Rightarrow> agent_finding list result" where
  "active_sdk_findings findings =
     (let sdk = sdk_findings findings; by_id = finding_by_id sdk in
      and_then (case first_duplicate [] (map fd_id sdk) of
                  None \<Rightarrow> Inr () | Some i \<Rightarrow> Inl (ValueError (''Duplicate SDK finding id: '' @ i))) (\<lambda>_.
      and_then (check_all (revision_check by_id (map fd_id findings)) sdk) (\<lambda>_.
      Inr (let revised = map fd_revises_finding_id (filter (\<lambda>f. fd_analysis_round f = Round_2) sdk) in
           filter (\<lambda>f. Some (fd_id f) \<notin> set revised) sdk))))"

definition concludes :: "agent_finding \<Rightarrow> bool" where
  "concludes f =
     (fd_finding_type f = Find_ROOT_CAUSE \<and> fd_related_cause_type f \<notin> {None, Some Cause_UNKNOWN}
      \<and> low_confidence \<le> fd_confidence f \<and> fd_evidence_ids f \<noteq> [])"

definition conclude_step ::
    "(finding_actor, agent_finding) dict \<Rightarrow> agent_finding \<Rightarrow> (finding_actor, agent_finding) dict" where
  "conclude_step d f =
     (if \<not> concludes f then d
      else (case dict_get d (fd_agent_name f) of
        None \<Rightarrow> dict_put d (fd_agent_name f) f
      | Some p \<Rightarrow> if fd_created_at p \<le> fd_created_at f then dict_put d (fd_agent_name f) f else d))"

definition active_conclusions :: "agent_finding list \<Rightarrow> (finding_actor, agent_finding) dict" where
  "active_conclusions findings = foldl conclude_step [] findings"

definition conclusion_causes :: "(finding_actor, agent_finding) dict \<Rightarrow> cause_type option set" where
  "conclusion_causes conclusions = set (map fd_related_cause_type (dict_values conclusions))"

definition valid_baseline :: "hypothesis \<Rightarrow> bool" where
  "valid_baseline h = (hy_cause_type h \<noteq> Cause_UNKNOWN \<and> low_confidence \<le> hy_confidence h)"

text \<open>\<open>Counter(...).most_common()\<close>: counts in descending order, first seen first.\<close>

definition most_common :: "'a list \<Rightarrow> ('a \<times> nat) list" where
  "most_common xs = sorted_desc snd (map (\<lambda>p. (fst p, length (snd p))) (group_by (\<lambda>x. x) xs))"

definition otherwise_selected_cause ::
    "hypothesis \<Rightarrow> (finding_actor, agent_finding) dict \<Rightarrow> cause_type option" where
  "otherwise_selected_cause baseline conclusions =
     (if valid_baseline baseline then Some (hy_cause_type baseline)
      else (case most_common (map fd_related_cause_type (dict_values conclusions)) of
        [] \<Rightarrow> None
      | (cause, n) # rest \<Rightarrow>
          if n < 2 \<or> (case rest of [] \<Rightarrow> False | (_, m) # _ \<Rightarrow> m = n) then None else cause))"

section \<open>Conflicts and the hybrid decision\<close>

definition agents_concluding ::
    "(finding_actor, agent_finding) dict \<Rightarrow> (cause_type option \<Rightarrow> bool) \<Rightarrow> finding_actor set" where
  "agents_concluding conclusions p =
     set (map fst (filter (\<lambda>x. p (fd_related_cause_type (snd x))) conclusions))"

definition finding_conflicts ::
    "(finding_actor, agent_finding) dict \<Rightarrow> cause_type option set \<Rightarrow> agent_finding \<Rightarrow> finding_actor set" where
  "finding_conflicts conclusions targets f =
     (if fd_finding_type f = Find_GAP \<and> fd_blocking f then {fd_agent_name f} else {})
     \<union> (if fd_finding_type f \<noteq> Find_CONTRADICTION \<or> fd_related_cause_type f \<notin> targets then {}
        else insert (fd_agent_name f) (agents_concluding conclusions (\<lambda>c. c = fd_related_cause_type f)))"

definition conflicting_agent_names :: "hypothesis \<Rightarrow> agent_finding list \<Rightarrow> finding_actor set result" where
  "conflicting_agent_names baseline findings =
     and_then (active_sdk_findings findings) (\<lambda>active.
     let conclusions = active_conclusions active;
         causes = conclusion_causes conclusions;
         disagreeing = (if valid_baseline baseline
           then agents_concluding conclusions (\<lambda>c. c \<noteq> Some (hy_cause_type baseline)) else {});
         split = (if 1 < card causes then set (dict_keys conclusions) else {});
         targets = (if valid_baseline baseline then insert (Some (hy_cause_type baseline)) causes else causes)
     in Inr (disagreeing \<union> split \<union> \<Union> (set (map (finding_conflicts conclusions targets) active))))"

definition contradicts_cause :: "agent_finding list \<Rightarrow> cause_type option \<Rightarrow> bool" where
  "contradicts_cause active cause =
     list_ex (\<lambda>f. fd_finding_type f = Find_CONTRADICTION \<and> fd_related_cause_type f = cause) active"

definition decide_hybrid_status ::
    "hypothesis \<Rightarrow> agent_finding list \<Rightarrow> multi_agent_run_status \<Rightarrow> coordination_decision_status result" where
  "decide_hybrid_status baseline findings run_status =
     and_then (active_sdk_findings findings) (\<lambda>active.
     let conclusions = active_conclusions active;
         causes = conclusion_causes conclusions;
         selected = otherwise_selected_cause baseline conclusions;
         contradicted = contradicts_cause active selected
     in Inr
       (if run_status \<noteq> MARun_COMPLETED then Coord_FALLBACK
        else if valid_baseline baseline then
          (if contradicted \<or> \<not> causes \<subseteq> {Some (hy_cause_type baseline)} then Coord_CONFLICT
           else if Some (hy_cause_type baseline) \<in> causes then Coord_AGREEMENT
           else Coord_FALLBACK)
        else if 1 < card causes \<or> contradicted then Coord_CONFLICT
        else if selected \<noteq> None then Coord_AGENT_LEADS
        else Coord_FALLBACK))"

section \<open>Candidates\<close>

definition uncertainty_text :: "agent_finding list \<Rightarrow> agent_finding list \<Rightarrow> string" where
  "uncertainty_text supporting contradicting =
     (if contradicting \<noteq> [] then ''Some specialist findings contradict this candidate.''
      else if length supporting = 1 then ''Only one specialist currently supports this candidate.''
      else ''Supported by multiple specialist findings.'')"

text \<open>\<open>max(0.0, min(1.0, x))\<close>.\<close>

fun clamp_unit :: "pyfloat \<Rightarrow> rat" where
  "clamp_unit (Finite r) = max 0 (min 1 r)"
| "clamp_unit NegInf = 0"
| "clamp_unit _ = 1"

definition tenths :: "nat \<Rightarrow> pyfloat" where
  "tenths n = float_mul (fl (1 / 10)) (fl (of_nat n))"

definition candidate_confidence ::
    "coordination_ext \<Rightarrow> agent_finding list \<Rightarrow> agent_finding list \<Rightarrow> rat" where
  "candidate_confidence ext supporting contradicting =
     clamp_unit (float_sub
       (float_add (float_div (cx_sum ext (map fd_confidence supporting)) (fl (of_nat (length supporting))))
          (tenths (length supporting - 1)))
       (tenths (length contradicting)))"

definition cause_text :: "cause_type option \<Rightarrow> string" where
  "cause_text c = (case c of None \<Rightarrow> ''None'' | Some t \<Rightarrow> cause_type_value t)"

definition rank_text :: "cause_type option \<Rightarrow> int \<Rightarrow> string" where
  "rank_text c n = cause_text c @ '' is candidate #'' @ show_int n @ ''.''"

definition set_rank :: "int \<Rightarrow> root_cause_candidate \<Rightarrow> root_cause_candidate" where
  "set_rank n c = c\<lparr>rc_rank := n, rc_summary := rank_text (rc_cause_type c) n\<rparr>"

definition renumber :: "root_cause_candidate list \<Rightarrow> root_cause_candidate list" where
  "renumber cs = map2 set_rank (map int [1 ..< Suc (length cs)]) cs"

definition plain_candidate :: "ident \<Rightarrow> cause_type option \<Rightarrow> int \<Rightarrow> rat \<Rightarrow> root_cause_candidate" where
  "plain_candidate i cause n confidence =
     \<lparr>rc_id = i, rc_cause_type = cause, rc_affected_entity = None, rc_failure_class = None,
      rc_failure_mechanism = None, rc_summary = rank_text cause n, rc_rank = n,
      rc_confidence = confidence, rc_supporting_finding_ids = [], rc_contradicting_finding_ids = [],
      rc_supporting_evidence_ids = [], rc_contradicting_evidence_ids = [], rc_rationale = '''',
      rc_uncertainty = '''', rc_onset_window_start = None, rc_onset_window_end = None\<rparr>"

definition build_candidate ::
    "coordination_ext \<Rightarrow> nat \<Rightarrow> cause_type option \<Rightarrow> agent_finding list \<Rightarrow> agent_finding list
       \<Rightarrow> root_cause_candidate" where
  "build_candidate ext n cause supporting contradicting =
     (plain_candidate (cx_candidate_id ext n) cause 1 (candidate_confidence ext supporting contradicting))
       \<lparr>rc_supporting_finding_ids := map fd_id supporting,
        rc_contradicting_finding_ids := map fd_id contradicting,
        rc_supporting_evidence_ids := dedupe (concat (map fd_evidence_ids supporting)),
        rc_contradicting_evidence_ids := dedupe (concat (map fd_evidence_ids contradicting)),
        rc_rationale := join '' '' (map fd_summary supporting),
        rc_uncertainty := uncertainty_text supporting contradicting\<rparr>"

definition seeded_candidate :: "ident \<Rightarrow> int \<Rightarrow> hypothesis \<Rightarrow> root_cause_candidate" where
  "seeded_candidate i n h =
     (plain_candidate i (Some (hy_cause_type h)) n (hy_confidence h))
       \<lparr>rc_supporting_evidence_ids := hy_supporting_evidence_ids h,
        rc_contradicting_evidence_ids := hy_contradicting_evidence_ids h,
        rc_rationale := ''Seeded from existing RCA hypothesis.'',
        rc_uncertainty := ''limited specialist findings; use base RCA hypothesis.''\<rparr>"

text \<open>Findings that name a cause: those in its favour and those against it.\<close>

definition supports_cause :: "agent_finding \<Rightarrow> bool" where
  "supports_cause f = (fd_related_cause_type f \<noteq> None \<and> fd_finding_type f = Find_ROOT_CAUSE)"

definition opposes_cause :: "agent_finding \<Rightarrow> bool" where
  "opposes_cause f = (fd_related_cause_type f \<noteq> None \<and> fd_finding_type f = Find_CONTRADICTION)"

definition merged_candidates :: "coordination_ext \<Rightarrow> agent_finding list \<Rightarrow> root_cause_candidate list" where
  "merged_candidates ext findings =
     (let groups = group_by fd_related_cause_type (filter supports_cause findings);
          against = group_by fd_related_cause_type (filter opposes_cause findings) in
      map2 (\<lambda>n p. build_candidate ext n (fst p) (snd p)
                     (case dict_get against (fst p) of None \<Rightarrow> [] | Some fs \<Rightarrow> fs))
        [0 ..< length groups] groups)"

definition build_candidates ::
    "coordination_ext \<Rightarrow> agent_finding list \<Rightarrow> hypothesis list \<Rightarrow> root_cause_candidate list" where
  "build_candidates ext findings hypotheses =
     (case renumber (sorted_desc rc_confidence (merged_candidates ext findings)) of
        [] \<Rightarrow> map2 (\<lambda>n h. seeded_candidate (cx_candidate_id ext n) (int n + 1) h)
                [0 ..< length hypotheses] hypotheses
      | c # cs \<Rightarrow> c # cs)"

section \<open>Review\<close>

definition finding_references :: "agent_finding list \<Rightarrow> hypothesis list \<Rightarrow> ident list" where
  "finding_references findings hypotheses =
     concat (map fd_evidence_ids findings)
     @ concat (map (\<lambda>h. hy_supporting_evidence_ids h @ hy_contradicting_evidence_ids h) hypotheses)"

definition validate_references ::
    "agent_finding list \<Rightarrow> evidence_item list \<Rightarrow> hypothesis list \<Rightarrow> unit result" where
  "validate_references findings evidence hypotheses =
     (case first_match (\<lambda>i. i \<notin> set (map ei_id evidence)) (finding_references findings hypotheses) of
        None \<Rightarrow> Inr () | Some i \<Rightarrow> Inl (ValueError (''Unknown evidence id: '' @ i)))"

text \<open>
  \<open>candidates\<close> and \<open>by_cause\<close>: the list built so far and, for each cause, the index of its
  candidate, the last one when a cause occurs twice.
\<close>

type_synonym candidate_table = "root_cause_candidate list \<times> (cause_type option, nat) dict"

definition index_by_cause :: "root_cause_candidate list \<Rightarrow> (cause_type option, nat) dict" where
  "index_by_cause cs = dict_put_all (\<lambda>i. rc_cause_type (cs ! i)) [0 ..< length cs] []"

text \<open>A hypothesis that only contradictions name still gets a candidate.\<close>

definition add_contradicted ::
    "coordination_ext \<Rightarrow> agent_finding list \<Rightarrow> candidate_table \<Rightarrow> hypothesis \<Rightarrow> candidate_table" where
  "add_contradicted ext active t h =
     (case t of (cs, by_cause) \<Rightarrow>
        if contradicts_cause active (Some (hy_cause_type h)) \<and> dict_get by_cause (Some (hy_cause_type h)) = None
        then (cs @ [seeded_candidate (cx_candidate_id ext (length cs)) 1 h],
              dict_put by_cause (Some (hy_cause_type h)) (length cs))
        else t)"

definition record_contradiction ::
    "(cause_type option, nat) dict \<Rightarrow> root_cause_candidate list \<Rightarrow> agent_finding \<Rightarrow> root_cause_candidate list" where
  "record_contradiction by_cause cs f =
     (case dict_get by_cause (fd_related_cause_type f) of
        None \<Rightarrow> cs
      | Some i \<Rightarrow>
          if fd_finding_type f \<noteq> Find_CONTRADICTION then cs
          else cs[i := (cs ! i)
            \<lparr>rc_contradicting_finding_ids := dedupe (rc_contradicting_finding_ids (cs ! i) @ [fd_id f]),
             rc_contradicting_evidence_ids := dedupe (rc_contradicting_evidence_ids (cs ! i) @ fd_evidence_ids f)\<rparr>])"

definition move_first :: "nat \<Rightarrow> 'a list \<Rightarrow> 'a list" where
  "move_first i xs = xs ! i # (take i xs @ drop (Suc i) xs)"

text \<open>The selected cause leads; it gets a candidate from its hypothesis when it has none.\<close>

definition lead_with ::
    "coordination_ext \<Rightarrow> hypothesis list \<Rightarrow> (cause_type option, nat) dict \<Rightarrow> cause_type option
       \<Rightarrow> root_cause_candidate list \<Rightarrow> root_cause_candidate list" where
  "lead_with ext hypotheses by_cause selected cs =
     (case selected of
        None \<Rightarrow> cs
      | Some c \<Rightarrow>
          (case dict_get by_cause (Some c) of
             Some i \<Rightarrow> move_first i cs
           | None \<Rightarrow>
               (case first_match (\<lambda>h. hy_cause_type h = c) hypotheses of
                  None \<Rightarrow> cs
                | Some h \<Rightarrow> move_first (length cs)
                    (cs @ [seeded_candidate (cx_candidate_id ext (length cs)) 1 h]))))"

definition arrange_candidates ::
    "coordination_ext \<Rightarrow> agent_finding list \<Rightarrow> hypothesis list \<Rightarrow> cause_type option
       \<Rightarrow> root_cause_candidate list \<Rightarrow> root_cause_candidate list" where
  "arrange_candidates ext active hypotheses selected cs =
     (case foldl (add_contradicted ext active) (cs, index_by_cause cs) hypotheses of (cs1, by_cause) \<Rightarrow>
        renumber (lead_with ext hypotheses by_cause selected (foldl (record_contradiction by_cause) cs1 active)))"

record review_request =
  rr_investigation_id :: ident
  rr_findings :: "agent_finding list"
  rr_evidence :: "evidence_item list"
  rr_hypotheses :: "hypothesis list"
  rr_run_status :: multi_agent_run_status
  rr_summary :: string
  rr_uncertainty :: string
  rr_model_provider :: model_provider
  rr_model_name :: "string option"
  rr_primary :: "stabilization_category option"
  rr_secondary :: "stabilization_category list"
  rr_root_causes :: "root_cause_attribution list"

definition selected_cause ::
    "hypothesis option \<Rightarrow> agent_finding list \<Rightarrow> coordination_decision_status \<Rightarrow> cause_type option" where
  "selected_cause baseline active decision =
     (case baseline of
        None \<Rightarrow> None
      | Some h \<Rightarrow>
          if decision = Coord_CONFLICT then None
          else if decision = Coord_AGENT_LEADS then otherwise_selected_cause h (active_conclusions active)
          else Some (hy_cause_type h))"

definition first_of :: "'a list \<Rightarrow> 'a option" where
  "first_of xs = (case xs of [] \<Rightarrow> None | x # _ \<Rightarrow> Some x)"

definition empty_review :: "coordination_ext \<Rightarrow> ident \<Rightarrow> coordination_review" where
  "empty_review ext iid =
     \<lparr>rv_id = cx_review_id ext, rv_investigation_id = iid, rv_candidates = [], rv_root_causes = [],
      rv_critic_assessments = [], rv_lead_decision = None, rv_final_decision = None,
      rv_contract_revision = Round_1, rv_diagnostic_status = None, rv_stop_reason = None,
      rv_runtime_run_id = None, rv_authority_mode = Authority_LEGACY_DETERMINISTIC,
      rv_execution_layer = Layer_CUSTOM, rv_run_status = MARun_COMPLETED, rv_decision_status = None,
      rv_baseline_cause_type = None, rv_selected_cause_type = None, rv_model_provider = None,
      rv_model_name = None, rv_primary_stabilization = None, rv_secondary_stabilization = [],
      rv_summary = '''', rv_uncertainty = '''', rv_created_at = cx_now ext\<rparr>"

definition hybrid_review ::
    "coordination_ext \<Rightarrow> review_request \<Rightarrow> coordination_decision_status \<Rightarrow> cause_type option
       \<Rightarrow> root_cause_candidate list \<Rightarrow> coordination_review" where
  "hybrid_review ext q decision selected cs =
     (empty_review ext (rr_investigation_id q))
       \<lparr>rv_candidates := cs, rv_root_causes := rr_root_causes q,
        rv_execution_layer := Layer_OPENAI_AGENTS_SDK, rv_run_status := rr_run_status q,
        rv_decision_status := Some decision,
        rv_baseline_cause_type := map_option hy_cause_type (first_of (rr_hypotheses q)),
        rv_selected_cause_type := selected, rv_model_provider := Some (rr_model_provider q),
        rv_model_name := rr_model_name q, rv_primary_stabilization := rr_primary q,
        rv_secondary_stabilization := rr_secondary q, rv_summary := rr_summary q,
        rv_uncertainty := rr_uncertainty q\<rparr>"

definition build_hybrid_coordination_review ::
    "coordination_ext \<Rightarrow> review_request \<Rightarrow> coordination_review result" where
  "build_hybrid_coordination_review ext q =
     and_then (raise_first
       [(list_ex (\<lambda>f. fd_investigation_id f \<noteq> rr_investigation_id q) (rr_findings q),
         ValueError ''Finding investigation does not match review investigation'')]) (\<lambda>_.
     and_then (validate_references (rr_findings q) (rr_evidence q) (rr_hypotheses q)) (\<lambda>_.
     and_then (active_sdk_findings (rr_findings q)) (\<lambda>active.
     let cs = build_candidates ext active (rr_hypotheses q) in
     and_then (validate_agent_semantics (cx_frozen ext) (cx_shown ext) (rr_evidence q) active cs (rr_root_causes q)) (\<lambda>_.
     and_then (case first_of (rr_hypotheses q) of
                 None \<Rightarrow> Inr Coord_FALLBACK
               | Some h \<Rightarrow> decide_hybrid_status h (rr_findings q) (rr_run_status q)) (\<lambda>decision.
     let selected = selected_cause (first_of (rr_hypotheses q)) active decision;
         arranged = arrange_candidates ext active (rr_hypotheses q) selected cs in
     and_then (validate_agent_semantics (cx_frozen ext) (cx_shown ext) (rr_evidence q) active arranged []) (\<lambda>_.
     validate_coordination_review (hybrid_review ext q decision selected arranged)))))))"

end
