(* ===== verification/Root_Cause_Attribution.thy ===== *)
theory Root_Cause_Attribution
  imports Coordination_Review
begin

text \<open>
  Root cause attributions (\<open>build_root_cause_attributions\<close> in
  \<open>backend/diagnosis/coordination_review.py\<close>): the supporting evidence of each hypothesis,
  grouped by component and clustered by anomaly segment or by time, and the merge of the
  ranked clusters.
\<close>

section \<open>Component and reason\<close>

fun component_keys :: "cause_type \<Rightarrow> string list" where
  "component_keys Cause_SINGLE_INSTANCE_ISSUE = [''instance'', ''component'', ''service'']"
| "component_keys Cause_NETWORK_FAULT = [''node'', ''component'', ''service'']"
| "component_keys Cause_INFRASTRUCTURE_FAULT = [''node'', ''component'', ''service'']"
| "component_keys Cause_RESOURCE_SATURATION = [''node'', ''component'', ''service'']"
| "component_keys Cause_DOWNSTREAM_DEPENDENCY_FAILURE = [''dependency'', ''component'', ''service'']"
| "component_keys _ = [''service'', ''component'', ''dependency'', ''instance'']"

definition attribution_component :: "cause_type \<Rightarrow> evidence_item \<Rightarrow> string option" where
  "attribution_component cause item =
     first_of (present (map (\<lambda>k. nonblank_text (get_or_none (ei_payload item) k)) (component_keys cause)))"

abbreviation signal_type_is :: "string \<Rightarrow> evidence_item \<Rightarrow> bool" where
  "signal_type_is t item \<equiv> get_or_none (ei_payload item) ''signal_type'' = PStr t"

fun attribution_reason ::
    "(pyval \<Rightarrow> string) \<Rightarrow> cause_type \<Rightarrow> evidence_item \<Rightarrow> evidence_item list \<Rightarrow> string" where
  "attribution_reason shown Cause_DEPLOYMENT_REGRESSION strongest_item cluster = ''deployment regression''"
| "attribution_reason shown Cause_TRAFFIC_SPIKE strongest_item cluster = ''traffic spike''"
| "attribution_reason shown Cause_DOWNSTREAM_DEPENDENCY_FAILURE strongest_item cluster =
     (if list_ex (signal_type_is ''timeout'') cluster then ''dependency timeout'' else ''dependency latency'')"
| "attribution_reason shown Cause_DATABASE_SLOWDOWN strongest_item cluster = ''database latency''"
| "attribution_reason shown Cause_SINGLE_INSTANCE_ISSUE strongest_item cluster = ''single instance failure''"
| "attribution_reason shown Cause_NETWORK_FAULT strongest_item cluster =
     (if text_or_empty shown (ei_payload strongest_item) ''signal_type'' = ''network_corruption''
      then ''network packet corruption'' else ''network latency'')"
| "attribution_reason shown Cause_PROCESS_OR_CONTAINER_FAILURE strongest_item cluster = ''container process failure''"
| "attribution_reason shown _ strongest_item cluster =
     (let t = text_or_empty shown (ei_payload strongest_item) ''signal_type'' in
      if t = ''cpu'' then ''container cpu load''
      else if t = ''memory'' then ''container memory load''
      else if t = ''disk_io'' then ''disk I/O saturation''
      else ''resource saturation'')"

section \<open>Clusters\<close>

definition time_order :: "evidence_item \<Rightarrow> instant \<times> ident" where
  "time_order item = (ei_timestamp item, ei_id item)"

definition item_gap :: "evidence_item \<Rightarrow> evidence_item \<Rightarrow> pyfloat" where
  "item_gap left right = total_seconds (ei_timestamp right - ei_timestamp left)"

definition cluster_gap :: "evidence_item list \<Rightarrow> pyfloat" where
  "cluster_gap ordered =
     (let intervals = sort (map2 item_gap ordered (tl ordered));
          sample = take (max 1 ((length intervals + 1) div 2)) intervals in
      float_max (Finite 60) (float_mul (Finite 2) (median sample)))"

text \<open>\<open>current\<close> is the open cluster; a gap above the limit opens the next one.\<close>

fun cluster_loop :: "pyfloat \<Rightarrow> evidence_item list \<Rightarrow> evidence_item list \<Rightarrow> evidence_item list list" where
  "cluster_loop gap current [] = [current]"
| "cluster_loop gap current (item # items) =
     (if float_lt gap (item_gap (last current) item) then current # cluster_loop gap [item] items
      else cluster_loop gap (current @ [item]) items)"

definition time_clusters :: "evidence_item list \<Rightarrow> evidence_item list list" where
  "time_clusters evidence =
     (case sort_key time_order evidence of
        [] \<Rightarrow> []
      | [item] \<Rightarrow> [[item]]
      | item # rest \<Rightarrow> cluster_loop (cluster_gap (item # rest)) [item] rest)"

definition segment_id_of :: "evidence_item \<Rightarrow> string option" where
  "segment_id_of item =
     (case get_or_none (ei_payload item) ''anomaly_segment_id'' of
        PStr s \<Rightarrow> if s = '''' then None else Some s | _ \<Rightarrow> None)"

definition segment_aware_clusters :: "evidence_item list \<Rightarrow> evidence_item list list" where
  "segment_aware_clusters evidence =
     (let segmented = group_by (\<lambda>i. the (segment_id_of i)) (filter (\<lambda>i. segment_id_of i \<noteq> None) evidence) in
      map (\<lambda>p. sort_key time_order (snd p)) (sort_key fst segmented)
      @ time_clusters (filter (\<lambda>i. segment_id_of i = None) evidence))"

section \<open>Scores\<close>

definition deviation_of :: "evidence_item \<Rightarrow> rat" where
  "deviation_of item = finite_number (get_or_none (ei_payload item) ''deviation_score'')"

definition cluster_signal_types :: "(pyval \<Rightarrow> string) \<Rightarrow> evidence_item list \<Rightarrow> string set" where
  "cluster_signal_types shown cluster =
     set (map (\<lambda>i. py_str shown (get_or_none (ei_payload i) ''signal_type''))
        (filter (\<lambda>i. truthy (get_or_none (ei_payload i) ''signal_type'')) cluster))"

definition cluster_providers :: "evidence_item list \<Rightarrow> evidence_provider set" where
  "cluster_providers cluster = set (map ei_provider cluster)"

definition cluster_diversity :: "(pyval \<Rightarrow> string) \<Rightarrow> evidence_item list \<Rightarrow> nat" where
  "cluster_diversity shown cluster =
     min 2 ((card (cluster_providers cluster) - 1) + (card (cluster_signal_types shown cluster) - 1))"

definition greatest_deviation :: "evidence_item list \<Rightarrow> rat" where
  "greatest_deviation cluster =
     (case map deviation_of cluster of [] \<Rightarrow> 0 | d # ds \<Rightarrow> foldl max d ds)"

definition cluster_score :: "(pyval \<Rightarrow> string) \<Rightarrow> evidence_item list \<Rightarrow> pyfloat" where
  "cluster_score shown cluster =
     float_add
       (float_add (Finite (min 10 (greatest_deviation cluster)))
          (Finite (if list_ex (\<lambda>i. 1 \<le> deviation_of i) cluster then 3 else 0)))
       (Finite (of_nat (cluster_diversity shown cluster)))"

definition cluster_basis :: "evidence_item list \<Rightarrow> string" where
  "cluster_basis cluster =
     (let bases = set (map strength_basis_of cluster) in
      if bases = {''relative''} then ''relative''
      else if bases = {''legacy''} then ''legacy'' else ''presence_or_mixed'')"

definition support_tuple :: "(pyval \<Rightarrow> string) \<Rightarrow> evidence_item list \<Rightarrow> int \<times> int \<times> int \<times> int" where
  "support_tuple shown cluster =
     (sum_list (map point_count_of cluster), int (card (set (map ei_id cluster))),
      int (card (cluster_providers cluster)), int (card (cluster_signal_types shown cluster)))"

section \<open>Ranking\<close>

record ranked_cluster =
  rk_basis :: string
  rk_score :: pyfloat
  rk_cluster :: "evidence_item list"
  rk_attribution :: root_cause_attribution

abbreviation attribution_key :: "ranked_cluster \<Rightarrow> instant \<times> string \<times> string" where
  "attribution_key e \<equiv> (at_occurred_at (rk_attribution e), at_component (rk_attribution e), at_reason (rk_attribution e))"

definition cohort_score_key :: "ranked_cluster \<Rightarrow> pyfloat \<times> instant \<times> string \<times> string" where
  "cohort_score_key e = (float_neg (rk_score e), attribution_key e)"

definition cross_cohort_key ::
    "(pyval \<Rightarrow> string) \<Rightarrow> ranked_cluster \<Rightarrow> int \<times> int \<times> int \<times> int \<times> instant \<times> string \<times> string" where
  "cross_cohort_key shown e =
     (case support_tuple shown (rk_cluster e) of (points, ids, providers, types) \<Rightarrow>
        (- points, - ids, - providers, - types, attribution_key e))"

definition cohorts :: "(pyval \<Rightarrow> string) \<Rightarrow> ranked_cluster list \<Rightarrow> ranked_cluster list list" where
  "cohorts shown entries =
     [sort_key cohort_score_key (filter (\<lambda>e. rk_basis e = ''relative'') entries),
      sort_key cohort_score_key (filter (\<lambda>e. rk_basis e = ''legacy'') entries),
      sort_key (cross_cohort_key shown) (filter (\<lambda>e. rk_basis e = ''presence_or_mixed'') entries)]"

definition ranked_entry ::
    "(pyval \<Rightarrow> string) \<Rightarrow> evidence_item list \<times> root_cause_attribution \<Rightarrow> ranked_cluster" where
  "ranked_entry shown p =
     \<lparr>rk_basis = cluster_basis (fst p), rk_score = cluster_score shown (fst p),
      rk_cluster = fst p, rk_attribution = snd p\<rparr>"

definition rank_attributions ::
    "(pyval \<Rightarrow> string) \<Rightarrow> (evidence_item list \<times> root_cause_attribution) list \<Rightarrow> root_cause_attribution list" where
  "rank_attributions shown ranked =
     map rk_attribution (merge_queues (cross_cohort_key shown) (cohorts shown (map (ranked_entry shown) ranked)))"

section \<open>Attributions\<close>

text \<open>\<open>max(cluster, key=...)\<close>: the first item with the greatest key.\<close>

definition strongest_key :: "evidence_item \<Rightarrow> rat \<times> pyfloat \<times> ident" where
  "strongest_key item = (deviation_of item, float_neg (total_seconds (ei_timestamp item)), ei_id item)"

fun strongest_item :: "evidence_item \<Rightarrow> evidence_item list \<Rightarrow> evidence_item" where
  "strongest_item best [] = best"
| "strongest_item best (i # items) = strongest_item (if strongest_key best < strongest_key i then i else best) items"

definition cluster_attribution ::
    "(pyval \<Rightarrow> string) \<Rightarrow> cause_type \<Rightarrow> string \<Rightarrow> evidence_item list
       \<Rightarrow> (evidence_item list \<times> root_cause_attribution) result" where
  "cluster_attribution shown cause component cluster =
     and_then (check_all (\<lambda>i. number_check (ei_payload i) ''deviation_score'') cluster) (\<lambda>_.
     and_then (validate_root_cause_attribution
       \<lparr>at_occurred_at = Min (set (map ei_timestamp cluster)), at_component = component,
        at_reason = attribution_reason shown cause (strongest_item (hd cluster) (tl cluster)) cluster,
        at_supporting_evidence_ids = map ei_id (sort_key time_order cluster)\<rparr>) (\<lambda>a. Inr (cluster, a)))"

text \<open>A loop that appends one result per element.\<close>

fun collect_each :: "('a \<Rightarrow> 'b result) \<Rightarrow> 'a list \<Rightarrow> 'b list result" where
  "collect_each f [] = Inr []"
| "collect_each f (x # xs) = and_then (f x) (\<lambda>y. and_then (collect_each f xs) (\<lambda>ys. Inr (y # ys)))"

definition cited_items ::
    "(ident, evidence_item) dict \<Rightarrow> hypothesis \<Rightarrow> evidence_item list result" where
  "cited_items by_id h =
     collect_each (\<lambda>i. case dict_get by_id i of
         None \<Rightarrow> Inl (ValueError (''Unknown evidence id: '' @ i)) | Some e \<Rightarrow> Inr e)
       (hy_supporting_evidence_ids h)"

fun has_signal_type :: "evidence_item \<Rightarrow> bool" where
  "has_signal_type item = (case get_or_none (ei_payload item) ''signal_type'' of PStr _ \<Rightarrow> True | _ \<Rightarrow> False)"

definition component_groups :: "cause_type \<Rightarrow> evidence_item list \<Rightarrow> (string, evidence_item list) dict" where
  "component_groups cause items =
     group_by (\<lambda>i. the (attribution_component cause i))
       (filter (\<lambda>i. has_signal_type i \<and> attribution_component cause i \<noteq> None) items)"

definition hypothesis_clusters :: "cause_type \<Rightarrow> evidence_item list \<Rightarrow> (string \<times> evidence_item list) list" where
  "hypothesis_clusters cause items =
     concat (map (\<lambda>p. map (\<lambda>cluster. (fst p, cluster)) (segment_aware_clusters (snd p)))
       (component_groups cause items))"

definition hypothesis_attributions ::
    "(pyval \<Rightarrow> string) \<Rightarrow> (ident, evidence_item) dict \<Rightarrow> hypothesis
       \<Rightarrow> (evidence_item list \<times> root_cause_attribution) list result" where
  "hypothesis_attributions shown by_id h =
     (if hy_cause_type h = Cause_UNKNOWN then Inr []
      else and_then (cited_items by_id h) (\<lambda>items.
        collect_each (\<lambda>p. cluster_attribution shown (hy_cause_type h) (fst p) (snd p))
          (hypothesis_clusters (hy_cause_type h) items)))"

definition build_root_cause_attributions ::
    "(pyval \<Rightarrow> string) \<Rightarrow> evidence_item list \<Rightarrow> hypothesis list \<Rightarrow> root_cause_attribution list result" where
  "build_root_cause_attributions shown evidence hypotheses =
     and_then (collect_each (hypothesis_attributions shown (evidence_by_id evidence)) hypotheses)
       (\<lambda>ranked. Inr (rank_attributions shown (concat ranked)))"

text \<open>The deterministic review, without agents.\<close>

definition build_coordination_review ::
    "coordination_ext \<Rightarrow> ident \<Rightarrow> agent_finding list \<Rightarrow> evidence_item list \<Rightarrow> hypothesis list
       \<Rightarrow> coordination_review result" where
  "build_coordination_review ext iid findings evidence hypotheses =
     and_then (validate_references findings evidence hypotheses) (\<lambda>_.
     and_then (build_root_cause_attributions (cx_shown ext) evidence hypotheses) (\<lambda>root_causes.
     validate_coordination_review
       ((empty_review ext iid)
          \<lparr>rv_candidates := build_candidates ext findings hypotheses, rv_root_causes := root_causes\<rparr>)))"

end
