(* ===== verification/Coordination_Properties.thy ===== *)
theory Coordination_Properties
  imports Root_Cause_Attribution
begin

text \<open>
  What the coordination review guarantees: the decision and the agents named as conflicting
  agree, the selected cause leads a gapless ranking, and every attribution is grounded in
  evidence it cites.
\<close>

section \<open>Conclusions\<close>

lemma conclude_step_keys: "distinct (dict_keys d) \<Longrightarrow> distinct (dict_keys (conclude_step d f))"
  by (auto simp: conclude_step_def split: option.splits)

lemma conclude_step_values:
  "g \<in> set (dict_values (conclude_step d f)) \<Longrightarrow> g \<in> set (dict_values d) \<or> g = f \<and> concludes f"
proof -
  have "conclude_step d f = d \<or> concludes f \<and> conclude_step d f = dict_put d (fd_agent_name f) f"
    by (simp add: conclude_step_def split: option.splits)
  then show "g \<in> set (dict_values (conclude_step d f)) \<Longrightarrow> g \<in> set (dict_values d) \<or> g = f \<and> concludes f"
    using dict_values_put [of g "fd_agent_name f" f d] by metis
qed

lemma conclude_step_agents:
  "\<forall>p \<in> set d. fd_agent_name (snd p) = fst p \<Longrightarrow> \<forall>p \<in> set (conclude_step d f). fd_agent_name (snd p) = fst p"
proof -
  have put: "set (dict_put d k f) \<subseteq> insert (k, f) (set d)" for k by (induction d) auto
  assume "\<forall>p \<in> set d. fd_agent_name (snd p) = fst p"
  then show ?thesis using put [of "fd_agent_name f"] by (auto simp: conclude_step_def split: option.splits)
qed

lemma active_conclusions_agents:
  "p \<in> set (active_conclusions fs) \<Longrightarrow> fd_agent_name (snd p) = fst p"
proof -
  have "\<forall>p \<in> set (foldl conclude_step [] fs). fd_agent_name (snd p) = fst p"
    by (induction fs rule: rev_induct) (use conclude_step_agents in simp_all)
  then show "p \<in> set (active_conclusions fs) \<Longrightarrow> fd_agent_name (snd p) = fst p"
    by (simp add: active_conclusions_def)
qed

lemma active_conclusions_values:
  "g \<in> set (dict_values (active_conclusions fs)) \<Longrightarrow> g \<in> set fs \<and> concludes g"
  unfolding active_conclusions_def
proof (induction fs rule: rev_induct)
  case (snoc f fs)
  then show ?case using conclude_step_values [of g "foldl conclude_step [] fs" f] by auto
qed simp

lemma conclusion_causes_known: "c \<in> conclusion_causes (active_conclusions fs) \<Longrightarrow> c \<noteq> None"
  using active_conclusions_values by (fastforce simp: conclusion_causes_def concludes_def)

lemma agents_concluding_empty:
  "agents_concluding d p = {} \<longleftrightarrow> (\<forall>c \<in> conclusion_causes d. \<not> p c)"
  by (auto simp: agents_concluding_def conclusion_causes_def filter_empty_conv)

lemma conclusion_causes_empty: "conclusion_causes d = {} \<longleftrightarrow> d = []"
  by (simp add: conclusion_causes_def)

lemma most_common_member: "p \<in> set (most_common xs) \<Longrightarrow> fst p \<in> set xs"
proof -
  assume "p \<in> set (most_common xs)"
  then obtain q where "q \<in> set (group_by (\<lambda>x. x) xs)" "fst p = fst q"
    by (auto simp: most_common_def)
  then have "fst p \<in> set (dict_keys (group_by (\<lambda>x. x) xs))" by force
  then show "fst p \<in> set xs" by (simp only: group_by_keys image_ident)
qed

lemma otherwise_selected_known:
  "otherwise_selected_cause baseline d = Some c \<Longrightarrow> \<not> valid_baseline baseline \<Longrightarrow> Some c \<in> conclusion_causes d"
  using most_common_member [of _ "map fd_related_cause_type (dict_values d)"]
  by (fastforce simp: otherwise_selected_cause_def conclusion_causes_def split: list.splits prod.splits if_splits)

section \<open>The decision and the conflicting agents\<close>

definition gap_agents :: "agent_finding list \<Rightarrow> finding_actor set" where
  "gap_agents active = fd_agent_name ` {f \<in> set active. fd_finding_type f = Find_GAP \<and> fd_blocking f}"

lemma finding_conflicts_gap:
  "(\<Union>f \<in> set active. finding_conflicts d targets f) = gap_agents active"
  if "\<forall>f \<in> set active. fd_finding_type f = Find_CONTRADICTION \<longrightarrow> fd_related_cause_type f \<notin> targets"
  using that by (auto simp: finding_conflicts_def gap_agents_def split: if_splits)

lemma card_gt_1_two: "1 < card A \<Longrightarrow> \<exists>x \<in> A. \<exists>y \<in> A. x \<noteq> y"
  by (metis card_le_Suc0_iff_eq card_ge_0_finite less_trans not_less One_nat_def zero_less_one)

lemma card_le_1_single: "finite A \<Longrightarrow> \<not> 1 < card A \<Longrightarrow> x \<in> A \<Longrightarrow> A = {x}"
  by (metis card_le_Suc0_iff_eq One_nat_def insert_absorb is_singletonI' is_singleton_def not_less singletonD empty_iff)

lemma conclusion_causes_finite [simp]: "finite (conclusion_causes d)"
  by (simp add: conclusion_causes_def)

text \<open>C27: The decision and the conflict list agree.  When the decision is agreement or agents
  lead, the only agents named as conflicting are those with a blocking gap.  When it is
  conflict, some agent is named, unless no cause is selected and the conflict comes from a
  contradiction that names no cause at all.\<close>

theorem decision_matches_conflicts:
  assumes decide: "decide_hybrid_status baseline findings status = Inr decision"
    and names: "conflicting_agent_names baseline findings = Inr agents"
    and active: "active_sdk_findings findings = Inr active"
  shows "(decision \<in> {Coord_AGREEMENT, Coord_AGENT_LEADS} \<longrightarrow> agents = gap_agents active)
    \<and> (decision = Coord_CONFLICT \<longrightarrow> agents \<noteq> {}
        \<or> otherwise_selected_cause baseline (active_conclusions active) = None \<and> contradicts_cause active None)"
proof -
  let ?d = "active_conclusions active"
  let ?causes = "conclusion_causes ?d"
  let ?selected = "otherwise_selected_cause baseline ?d"
  let ?b = "Some (hy_cause_type baseline)"
  let ?valid = "valid_baseline baseline"
  let ?targets = "if ?valid then insert ?b ?causes else ?causes"
  let ?disagree = "if ?valid then agents_concluding ?d (\<lambda>c. c \<noteq> ?b) else {}"
  let ?split = "if 1 < card ?causes then set (dict_keys ?d) else {}"
  let ?direct = "\<Union>f \<in> set active. finding_conflicts ?d ?targets f"
  have agents: "agents = ?disagree \<union> ?split \<union> ?direct"
    using names active by (simp add: conflicting_agent_names_def Let_def)
  have contra: "contradicts_cause active c \<longleftrightarrow>
      (\<exists>f \<in> set active. fd_finding_type f = Find_CONTRADICTION \<and> fd_related_cause_type f = c)" for c
    by (auto simp: contradicts_cause_def list_ex_iff)
  have sel_valid: "?valid \<Longrightarrow> ?selected = Some (hy_cause_type baseline)"
    by (simp add: otherwise_selected_cause_def)
  have peaceful: "agents = gap_agents active"
    if single: "\<forall>c \<in> ?targets. c = ?selected" and quiet: "\<not> contradicts_cause active ?selected"
  proof -
    have "?direct = gap_agents active"
      by (rule finding_conflicts_gap) (use single quiet contra in blast)
    moreover have "?disagree = {}"
      using single sel_valid by (auto simp: agents_concluding_empty)
    moreover have "?causes \<subseteq> {?selected}" using single by (cases ?valid) auto
    then have "\<not> 1 < card ?causes" using card_mono [of "{?selected}" ?causes] by simp
    ultimately show ?thesis unfolding agents by simp
  qed
  have direct: "?direct \<noteq> {}" if "contradicts_cause active c" "c \<in> ?targets" for c
    using that unfolding contra by (auto simp: finding_conflicts_def)
  show ?thesis
  proof (cases ?valid)
    case True
    have "Inr decision = decide_hybrid_status baseline findings status" using decide by simp
    also have "\<dots> = Inr
       (if status \<noteq> MARun_COMPLETED then Coord_FALLBACK
        else if contradicts_cause active ?b \<or> \<not> ?causes \<subseteq> {?b} then Coord_CONFLICT
        else if ?b \<in> ?causes then Coord_AGREEMENT else Coord_FALLBACK)"
      by (simp add: decide_hybrid_status_def Let_def active True sel_valid [OF True])
    finally have decision: "decision =
       (if status \<noteq> MARun_COMPLETED then Coord_FALLBACK
        else if contradicts_cause active ?b \<or> \<not> ?causes \<subseteq> {?b} then Coord_CONFLICT
        else if ?b \<in> ?causes then Coord_AGREEMENT else Coord_FALLBACK)" by simp
    have "agents = gap_agents active" if "\<not> contradicts_cause active ?b" "?causes \<subseteq> {?b}"
      by (rule peaceful) (use that True sel_valid in auto)
    moreover have "agents \<noteq> {}" if "contradicts_cause active ?b"
      using direct [OF that] True unfolding agents by simp
    moreover have "agents \<noteq> {}" if "\<not> ?causes \<subseteq> {?b}"
      using that True unfolding agents by (auto simp: agents_concluding_empty)
    ultimately show ?thesis unfolding decision by (simp split: if_splits)
  next
    case False
    have lead: "\<forall>c \<in> ?targets. c = ?selected" if "?selected \<noteq> None" "\<not> 1 < card ?causes"
    proof -
      obtain c where c: "?selected = Some c" using \<open>?selected \<noteq> None\<close> by blast
      have "?causes = {?selected}"
        using card_le_1_single [OF conclusion_causes_finite that(2)] otherwise_selected_known [OF c False] c by metis
      then show ?thesis using False by simp
    qed
    have conflict: "agents \<noteq> {} \<or> ?selected = None \<and> contradicts_cause active None"
      if bad: "1 < card ?causes \<or> contradicts_cause active ?selected"
    proof (cases "1 < card ?causes")
      case True
      then have "?causes \<noteq> {}" by auto
      then show ?thesis using True unfolding agents conclusion_causes_empty by simp
    next
      case False
      with bad have c: "contradicts_cause active ?selected" by blast
      show ?thesis
      proof (cases ?selected)
        case None
        then show ?thesis using c by simp
      next
        case (Some x)
        then have "?selected \<in> ?targets" using otherwise_selected_known [OF Some] sel_valid by auto
        then show ?thesis using direct [OF c] unfolding agents by blast
      qed
    qed
    show ?thesis
      using decide active False conflict peaceful lead
      by (auto simp: decide_hybrid_status_def Let_def split: if_splits)
  qed
qed

section \<open>Clusters\<close>

lemma cluster_loop_concat: "concat (cluster_loop gap current items) = current @ items"
  by (induction gap current items rule: cluster_loop.induct) auto

lemma cluster_loop_nonempty: "current \<noteq> [] \<Longrightarrow> cluster \<in> set (cluster_loop gap current items) \<Longrightarrow> cluster \<noteq> []"
  by (induction gap current items rule: cluster_loop.induct) (auto split: if_splits)

lemma time_clusters_concat: "concat (time_clusters items) = sort_key time_order items"
  by (simp add: time_clusters_def cluster_loop_concat split: list.splits)

lemma time_clusters_nonempty: "cluster \<in> set (time_clusters items) \<Longrightarrow> cluster \<noteq> []"
proof (cases "sort_key time_order items")
  case (Cons i is')
  assume c: "cluster \<in> set (time_clusters items)"
  show "cluster \<noteq> []"
  proof (cases is')
    case Nil
    then show ?thesis using c Cons by (simp add: time_clusters_def)
  next
    case (Cons j js)
    then have "cluster \<in> set (cluster_loop (cluster_gap (i # is')) [i] is')"
      using c \<open>sort_key time_order items = i # is'\<close> by (simp add: time_clusters_def)
    then show ?thesis by (rule cluster_loop_nonempty [rotated]) simp
  qed
qed (simp add: time_clusters_def)

lemma sort_key_Nil [simp]: "sort_key f xs = [] \<longleftrightarrow> xs = []"
  by (metis length_0_conv length_sort)

lemma concat_mset: "mset (concat xss) = (\<Sum>xs\<leftarrow>xss. mset xs)"
  by (induction xss) auto

text \<open>The clusters partition the evidence.\<close>

lemma segment_aware_clusters_mset: "mset (concat (segment_aware_clusters items)) = mset items"
proof -
  let ?S = "filter (\<lambda>i. segment_id_of i \<noteq> None) items" and ?H = "filter (\<lambda>i. segment_id_of i = None) items"
  let ?G = "group_by (\<lambda>i. the (segment_id_of i)) ?S"
  have "mset (concat (map (\<lambda>p. sort_key time_order (snd p)) (sort_key fst ?G))) = (\<Sum>p\<leftarrow>sort_key fst ?G. mset (snd p))"
    by (simp add: concat_mset comp_def)
  also have "\<dots> = (\<Sum>p\<leftarrow>?G. mset (snd p))"
    by (metis (mono_tags, lifting) mset_map mset_sort sum_mset_sum_list)
  also have "\<dots> = mset ?S" using group_by_mset [of "\<lambda>i. the (segment_id_of i)" ?S] by (simp add: comp_def)
  finally have "mset (concat (segment_aware_clusters items)) = mset ?S + mset ?H"
    by (simp add: segment_aware_clusters_def Let_def time_clusters_concat)
  then show ?thesis by (simp add: multiset_partition [symmetric] union_commute)
qed

lemma segment_aware_clusters_member:
  assumes "cluster \<in> set (segment_aware_clusters items)"
  shows "cluster \<noteq> []" "set cluster \<subseteq> set items"
proof -
  have "set cluster \<subseteq> set (concat (segment_aware_clusters items))" using assms by auto
  also have "\<dots> = set items" by (metis set_mset_mset segment_aware_clusters_mset)
  finally show "set cluster \<subseteq> set items" .
  show "cluster \<noteq> []"
  proof (cases "cluster \<in> set (time_clusters (filter (\<lambda>i. segment_id_of i = None) items))")
    case False
    then obtain p where p: "p \<in> set (group_by (\<lambda>i. the (segment_id_of i)) (filter (\<lambda>i. segment_id_of i \<noteq> None) items))"
      "cluster = sort_key time_order (snd p)"
      using assms unfolding segment_aware_clusters_def Let_def set_append set_map set_sort by blast
    show ?thesis using group_by_member(2) [OF p(1)] unfolding p(2) by simp
  qed (rule time_clusters_nonempty)
qed

section \<open>Attributions\<close>

lemma blank_codes: "list_all (\<lambda>n. \<not> is_word (to_lower (char_of n))) [9, 10, 11, 12, 13, 28, 29, 30, 31, 32 :: nat]"
  by code_simp

lemma blank_not_word: "is_blank c \<Longrightarrow> \<not> is_word (to_lower c)"
proof -
  assume "is_blank c"
  then have "(of_char c :: nat) \<in> set [9, 10, 11, 12, 13, 28, 29, 30, 31, 32]" by (simp add: is_blank_def)
  then show ?thesis using blank_codes unfolding list_all_iff by (metis char_of_char)
qed

lemma word_runs_blank_prefix: "word_runs [] (map to_lower (dropWhile is_blank s)) = word_runs [] (map to_lower s)"
  by (induction s) (auto simp: blank_not_word)

lemma word_runs_blank_suffix:
  "\<forall>c \<in> set t. is_blank c \<Longrightarrow> word_runs cur (map to_lower (s @ t)) = word_runs cur (map to_lower s)"
proof (induction cur "map to_lower s" arbitrary: s rule: word_runs.induct)
  case (1 cur)
  then show ?case by (induction t arbitrary: cur) (auto simp: blank_not_word)
next
  case (2 cur c cs)
  then obtain d s' where s: "s = d # s'" "c = to_lower d" "cs = map to_lower s'" by (cases s) auto
  then show ?case using 2 by auto
qed

text \<open>Stripping a text does not change its words.\<close>

lemma normalize_claim_strip [simp]: "normalize_claim (strip s) = normalize_claim s"
proof -
  let ?u = "dropWhile is_blank s"
  have split: "?u = strip s @ rev (takeWhile is_blank (rev ?u))"
    unfolding strip_def by (metis rev_append rev_rev_ident takeWhile_dropWhile_id)
  have "\<forall>c \<in> set (rev (takeWhile is_blank (rev ?u))). is_blank c" using set_takeWhileD by fastforce
  from word_runs_blank_suffix [OF this, of "[]" "strip s"] split
  have "word_runs [] (map to_lower (strip s)) = word_runs [] (map to_lower ?u)" by metis
  then show ?thesis by (simp add: normalize_claim_def word_runs_blank_prefix)
qed

lemma present_map_member: "x \<in> set (present (map f ks)) \<longleftrightarrow> (\<exists>k \<in> set ks. f k = Some x)"
  by (force simp: set_present)

lemma component_keys_named: "set (component_keys cause) \<subseteq> {''service'', ''component'', ''node'', ''instance'', ''dependency''}"
  by (cases cause) auto

text \<open>The component of an attribution is one the evidence names.\<close>

lemma attribution_component_named:
  assumes "attribution_component cause item = Some c"
  shows "normalize_claim (strip c) \<in> set (named_components item)"
proof -
  from assms have "c \<in> set (present (map (\<lambda>k. nonblank_text (get_or_none (ei_payload item) k)) (component_keys cause)))"
    by (simp add: attribution_component_def first_of_def split: list.splits del: set_present)
  then obtain k where "k \<in> set (component_keys cause)" "nonblank_text (get_or_none (ei_payload item) k) = Some c"
    unfolding present_map_member by blast
  then have "c \<in> set (present (map (\<lambda>k. nonblank_text (get_or_none (ei_payload item) k))
      [''service'', ''component'', ''node'', ''instance'', ''dependency'']))"
    unfolding present_map_member using component_keys_named by fastforce
  then show ?thesis by (simp only: named_components_def set_map normalize_claim_strip imageI)
qed

lemma collect_each_member:
  "collect_each f xs = Inr ys \<Longrightarrow> y \<in> set ys \<Longrightarrow> \<exists>x \<in> set xs. f x = Inr y"
  by (induction f xs arbitrary: ys rule: collect_each.induct) (auto simp: result_simps)

lemma cluster_attributionD:
  assumes "cluster_attribution shown cause component cluster = Inr (cl, a)"
  shows "cl = cluster" "at_occurred_at a = Min (set (map ei_timestamp cluster))"
    "at_component a = strip component"
    "at_supporting_evidence_ids a = map strip (map ei_id (sort_key time_order cluster))"
  using assms
  by (auto simp: cluster_attribution_def validate_root_cause_attribution_def Let_def result_simps split: if_splits)

lemma cited_items_known:
  "cited_items by_id h = Inr items \<Longrightarrow> e \<in> set items \<Longrightarrow>
   \<exists>i \<in> set (hy_supporting_evidence_ids h). dict_get by_id i = Some e"
  by (auto simp: cited_items_def dest!: collect_each_member split: option.splits)

lemma hypothesis_clusters_member:
  assumes "(component, cluster) \<in> set (hypothesis_clusters cause items)"
  shows "cluster \<noteq> []" "\<forall>e \<in> set cluster. e \<in> set items \<and> attribution_component cause e = Some component"
proof -
  obtain p where p: "p \<in> set (component_groups cause items)" "component = fst p"
    "cluster \<in> set (segment_aware_clusters (snd p))"
    using assms by (auto simp: hypothesis_clusters_def)
  note m = group_by_member [OF p(1) [unfolded component_groups_def]]
  show "cluster \<noteq> []" using segment_aware_clusters_member(1) [OF p(3)] .
  show "\<forall>e \<in> set cluster. e \<in> set items \<and> attribution_component cause e = Some component"
    using segment_aware_clusters_member(2) [OF p(3)] unfolding m(1) p(2) by auto
qed

text \<open>The ranking permutes the attributions.\<close>

lemma cohorts_mset: "(\<Sum>q\<leftarrow>cohorts shown entries. mset q)
   = mset (filter (\<lambda>e. rk_basis e \<in> {''relative'', ''legacy'', ''presence_or_mixed''}) entries)"
  by (induction entries) (auto simp: cohorts_def)

lemma rank_attributions_mset: "mset (rank_attributions shown ranked) = mset (map snd ranked)"
proof -
  have basis: "rk_basis (ranked_entry shown p) \<in> {''relative'', ''legacy'', ''presence_or_mixed''}" for p
    by (simp add: ranked_entry_def cluster_basis_def Let_def)
  have "mset (rank_attributions shown ranked) = image_mset rk_attribution (mset (map (ranked_entry shown) ranked))"
    using basis by (simp add: rank_attributions_def merge_queues_mset cohorts_mset filter_id_conv)
  then show ?thesis by (simp add: ranked_entry_def image_mset.compositionality comp_def)
qed

lemma built_attribution:
  assumes "build_root_cause_attributions shown evidence hypotheses = Inr out" and "a \<in> set out"
  obtains h items component cluster where "h \<in> set hypotheses" "hy_cause_type h \<noteq> Cause_UNKNOWN"
    "cited_items (evidence_by_id evidence) h = Inr items"
    "(component, cluster) \<in> set (hypothesis_clusters (hy_cause_type h) items)"
    "cluster_attribution shown (hy_cause_type h) component cluster = Inr (cluster, a)"
proof -
  obtain ranked where ranked: "collect_each (hypothesis_attributions shown (evidence_by_id evidence)) hypotheses = Inr ranked"
    "out = rank_attributions shown (concat ranked)"
    using assms(1) by (auto simp: build_root_cause_attributions_def result_simps)
  have "set out = set (map snd (concat ranked))"
    unfolding ranked(2) by (metis set_mset_mset rank_attributions_mset)
  with assms(2) obtain cl group where m: "(cl, a) \<in> set group" "group \<in> set ranked" by auto
  from collect_each_member [OF ranked(1) m(2)] obtain h where
    h: "h \<in> set hypotheses" "hypothesis_attributions shown (evidence_by_id evidence) h = Inr group" by blast
  then have known: "hy_cause_type h \<noteq> Cause_UNKNOWN" using m(1) by (auto simp: hypothesis_attributions_def)
  with h(2) obtain items where items: "cited_items (evidence_by_id evidence) h = Inr items"
    "collect_each (\<lambda>p. cluster_attribution shown (hy_cause_type h) (fst p) (snd p))
       (hypothesis_clusters (hy_cause_type h) items) = Inr group"
    by (auto simp: hypothesis_attributions_def result_simps)
  from collect_each_member [OF items(2) m(1)] obtain p where
    p: "p \<in> set (hypothesis_clusters (hy_cause_type h) items)"
    "cluster_attribution shown (hy_cause_type h) (fst p) (snd p) = Inr (cl, a)" by blast
  have "cl = snd p" using cluster_attributionD(1) [OF p(2)] .
  then show thesis using that [OF h(1) known items(1), of "fst p" "snd p"] p by simp
qed

text \<open>C29: Every attribution is grounded in evidence it cites.  When the evidence ids carry no
  surrounding blanks, an attribution the builder returns cites at least one item, only items of
  the evidence it was given, all of them supporting evidence of one hypothesis with a known
  cause; the time of the root cause is the time of a cited item, and its component is named by
  every cited item.\<close>

theorem attributions_grounded:
  assumes built: "build_root_cause_attributions shown evidence hypotheses = Inr out" and a: "a \<in> set out"
    and ids: "\<forall>e \<in> set evidence. strip (ei_id e) = ei_id e"
    and cited: "cited = map (\<lambda>i. the (dict_get (evidence_by_id evidence) i)) (at_supporting_evidence_ids a)"
  shows "cited \<noteq> [] \<and> set cited \<subseteq> set evidence
    \<and> require_usable_references (evidence_by_id evidence) (at_supporting_evidence_ids a) = Inr ()
    \<and> (\<exists>h \<in> set hypotheses. hy_cause_type h \<noteq> Cause_UNKNOWN
        \<and> set (at_supporting_evidence_ids a) \<subseteq> set (hy_supporting_evidence_ids h))
    \<and> (\<exists>e \<in> set cited. ei_timestamp e = at_occurred_at a)
    \<and> (\<forall>e \<in> set cited. normalize_claim (at_component a) \<in> set (named_components e))"
proof -
  let ?by = "evidence_by_id evidence"
  obtain h items component cluster where b: "h \<in> set hypotheses" "hy_cause_type h \<noteq> Cause_UNKNOWN"
    "cited_items ?by h = Inr items" "(component, cluster) \<in> set (hypothesis_clusters (hy_cause_type h) items)"
    "cluster_attribution shown (hy_cause_type h) component cluster = Inr (cluster, a)"
    using built_attribution [OF built a] by blast
  note d = cluster_attributionD [OF b(5)]
  note m = hypothesis_clusters_member [OF b(4)]
  have known: "dict_get ?by (ei_id e) = Some e \<and> e \<in> set evidence \<and> ei_id e \<in> set (hy_supporting_evidence_ids h)"
    if "e \<in> set cluster" for e
  proof -
    obtain i where i: "i \<in> set (hy_supporting_evidence_ids h)" "dict_get ?by i = Some e"
      using cited_items_known [OF b(3)] m(2) \<open>e \<in> set cluster\<close> by blast
    then show ?thesis using evidence_by_id_member [OF i(2)] by auto
  qed
  have cl: "set (sort_key time_order cluster) = set cluster" by simp
  have at_ids: "at_supporting_evidence_ids a = map ei_id (sort_key time_order cluster)"
    unfolding d(4) map_map by (rule map_cong [OF refl]) (use known ids in auto)
  have same: "cited = sort_key time_order cluster"
    unfolding cited at_ids map_map comp_def by (rule map_idI) (use known in \<open>metis cl option.sel\<close>)
  have "Min (set (map ei_timestamp cluster)) \<in> ei_timestamp ` set cluster"
    using Min_in [of "set (map ei_timestamp cluster)"] m(1) by auto
  then have "\<exists>e \<in> set cluster. ei_timestamp e = Min (set (map ei_timestamp cluster))" by auto
  moreover have "normalize_claim (at_component a) \<in> set (named_components e)" if "e \<in> set cluster" for e
    unfolding d(3) using attribution_component_named m(2) that by blast
  ultimately show ?thesis
    using m(1) known b(1,2) unfolding same at_ids d(2) cl require_usable_references_Inr set_map
    by (intro conjI) (simp, blast, fastforce, blast, blast, blast)
qed

text \<open>Ranking attributions loses none and keeps each cohort's order.  The result is a
  permutation of the attributions of all clusters, in which those whose strengths are
  comparable (all relative, or all without a basis) keep the order of their scores, and the
  others the order of their common support.\<close>

theorem ranking_keeps_cohort_order:
  assumes "q \<in> set (cohorts shown (map (ranked_entry shown) ranked))"
  shows "mset (rank_attributions shown ranked) = mset (map snd ranked)
    \<and> subseq (map rk_attribution q) (rank_attributions shown ranked)"
  using rank_attributions_mset merge_queues_subseq [OF assms, of "cross_cohort_key shown"]
  unfolding rank_attributions_def by (blast intro: subseq_map)

section \<open>Ranks\<close>

lemma renumber_simps [simp]:
  "length (renumber cs) = length cs" "map rc_rank (renumber cs) = map int [1 ..< Suc (length cs)]"
proof -
  show "length (renumber cs) = length cs" by (cases cs) (simp_all add: renumber_def del: upt_Suc)
  show "map rc_rank (renumber cs) = map int [1 ..< Suc (length cs)]"
    by (rule nth_equalityI) (simp_all add: renumber_def set_rank_def del: upt_Suc)
qed

lemma renumber_nth: "i < length cs \<Longrightarrow> rc_cause_type (renumber cs ! i) = rc_cause_type (cs ! i)"
  by (simp add: renumber_def set_rank_def del: upt_Suc)

lemma record_contradiction_causes:
  "map rc_cause_type (record_contradiction by_cause cs f) = map rc_cause_type cs"
  by (auto simp: record_contradiction_def map_update split: option.splits)
     (metis list_update_id map_update not_le list_update_beyond length_map nth_map)

lemma record_contradictions_causes:
  "map rc_cause_type (foldl (record_contradiction by_cause) cs fs) = map rc_cause_type cs"
  by (induction fs rule: rev_induct) (simp_all add: record_contradiction_causes)

text \<open>The table of causes always points at a candidate of that cause.\<close>

definition table_ok :: "candidate_table \<Rightarrow> bool" where
  "table_ok t = (\<forall>c i. dict_get (snd t) c = Some i \<longrightarrow> i < length (fst t) \<and> rc_cause_type (fst t ! i) = c)"

lemma index_by_cause_ok: "table_ok (cs, index_by_cause cs)"
  by (auto simp: table_ok_def index_by_cause_def dict_put_all_get split: option.splits
      dest!: first_match_Some)

lemma add_contradicted_ok: "table_ok t \<Longrightarrow> table_ok (add_contradicted ext active t h)"
  by (auto simp: table_ok_def add_contradicted_def seeded_candidate_def plain_candidate_def nth_append
      split: prod.splits if_splits)

lemma add_all_contradicted_ok: "table_ok t \<Longrightarrow> table_ok (foldl (add_contradicted ext active) t hs)"
  by (induction hs rule: rev_induct) (simp_all add: add_contradicted_ok)

text \<open>A cause that an active root-cause finding names has a candidate of its own.\<close>

lemma renumber_causes [simp]: "map rc_cause_type (renumber cs) = map rc_cause_type cs"
  using renumber_nth by (intro nth_equalityI) auto

lemma merged_candidates_causes:
  "map rc_cause_type (merged_candidates ext active) = map fst (group_by fd_related_cause_type (filter supports_cause active))"
  unfolding merged_candidates_def Let_def
  by (intro nth_equalityI) (simp_all add: build_candidate_def plain_candidate_def)

lemma supported_cause_listed:
  assumes "f \<in> set active" and "supports_cause f"
  shows "fd_related_cause_type f \<in> rc_cause_type ` set (build_candidates ext active hypotheses)"
proof -
  let ?sorted = "sorted_desc rc_confidence (merged_candidates ext active)"
  have "fd_related_cause_type f \<in> fd_related_cause_type ` set (filter supports_cause active)" using assms by auto
  then have "fd_related_cause_type f \<in> set (map rc_cause_type (merged_candidates ext active))"
    unfolding merged_candidates_causes group_by_keys .
  then have listed: "fd_related_cause_type f \<in> set (map rc_cause_type (renumber ?sorted))"
    by (simp add: sorted_desc_def)
  then have "build_candidates ext active hypotheses = renumber ?sorted"
    by (cases "renumber ?sorted") (simp_all add: build_candidates_def)
  with listed show ?thesis by (simp only: set_map)
qed

text \<open>The table keeps the cause of every candidate.\<close>

lemma index_by_cause_lists:
  "c \<in> rc_cause_type ` set cs \<Longrightarrow> dict_get (index_by_cause cs) c \<noteq> None"
  using first_match_None [of "\<lambda>i. rc_cause_type (cs ! i) = c" "rev [0 ..< length cs]"]
  by (auto simp: index_by_cause_def dict_put_all_get in_set_conv_nth split: option.splits) force

lemma add_all_contradicted_lists:
  "dict_get (snd t) c \<noteq> None \<Longrightarrow> dict_get (snd (foldl (add_contradicted ext active) t hs)) c \<noteq> None"
  by (induction hs rule: rev_induct) (auto simp: add_contradicted_def split: prod.splits)

lemma arrange_candidates_lead:
  assumes "(\<exists>h \<in> set hypotheses. hy_cause_type h = c) \<or> Some c \<in> rc_cause_type ` set cs"
  shows "arrange_candidates ext active hypotheses (Some c) cs \<noteq> []
    \<and> rc_cause_type (hd (arrange_candidates ext active hypotheses (Some c) cs)) = Some c"
proof -
  obtain cs1 by_cause where t: "foldl (add_contradicted ext active) (cs, index_by_cause cs) hypotheses = (cs1, by_cause)"
    by fastforce
  let ?cs2 = "foldl (record_contradiction by_cause) cs1 active"
  have ok: "i < length ?cs2 \<and> rc_cause_type (?cs2 ! i) = Some c" if "dict_get by_cause (Some c) = Some i" for i
  proof -
    have "i < length cs1 \<and> rc_cause_type (cs1 ! i) = Some c"
      using add_all_contradicted_ok [OF index_by_cause_ok, of ext active cs hypotheses] that
      unfolding t table_ok_def by simp
    then show ?thesis using record_contradictions_causes [of by_cause cs1 active] by (metis length_map nth_map)
  qed
  have head: "cs' \<noteq> [] \<Longrightarrow> renumber cs' \<noteq> [] \<and> rc_cause_type (hd (renumber cs')) = rc_cause_type (hd cs')" for cs'
    using renumber_nth [of 0 cs'] renumber_simps(1) [of cs'] by (metis hd_conv_nth length_0_conv length_greater_0_conv)
  have known: "dict_get by_cause (Some c) \<noteq> None" if "Some c \<in> rc_cause_type ` set cs"
    using add_all_contradicted_lists [of "(cs, index_by_cause cs)" "Some c" ext active hypotheses]
      index_by_cause_lists [OF that] unfolding t by simp
  have lead: "lead_with ext hypotheses by_cause (Some c) ?cs2 \<noteq> []
      \<and> rc_cause_type (hd (lead_with ext hypotheses by_cause (Some c) ?cs2)) = Some c"
  proof (cases "dict_get by_cause (Some c)")
    case (Some i)
    then show ?thesis using ok by (simp add: lead_with_def move_first_def)
  next
    case None
    with assms known obtain g where g: "first_match (\<lambda>h. hy_cause_type h = c) hypotheses = Some g"
      using first_match_None [of "\<lambda>h. hy_cause_type h = c" hypotheses] by blast
    then show ?thesis
      using None first_match_Some [OF g]
      by (simp add: lead_with_def move_first_def seeded_candidate_def plain_candidate_def nth_append)
  qed
  show ?thesis unfolding arrange_candidates_def t by (simp add: head [OF lead [THEN conjunct1]] lead)
qed

text \<open>Whatever cause is selected, a hypothesis names it or an active root-cause finding does.\<close>

lemma selected_cause_known:
  assumes "selected_cause (first_of hypotheses) active decision = Some c"
  shows "(\<exists>h \<in> set hypotheses. hy_cause_type h = c)
    \<or> Some c \<in> rc_cause_type ` set (build_candidates ext active hypotheses)"
proof -
  obtain h hs where h: "hypotheses = h # hs"
    using assms by (cases hypotheses) (simp_all add: selected_cause_def first_of_def)
  consider "hy_cause_type h = c" | "\<not> valid_baseline h" "otherwise_selected_cause h (active_conclusions active) = Some c"
    using assms by (auto simp: h selected_cause_def first_of_def otherwise_selected_cause_def split: if_splits)
  then show ?thesis
  proof cases
    case 1
    then show ?thesis by (simp add: h)
  next
    case 2
    from otherwise_selected_known [OF 2(2,1)] obtain f where
      f: "f \<in> set (dict_values (active_conclusions active))" "fd_related_cause_type f = Some c"
      by (fastforce simp: conclusion_causes_def)
    then have "f \<in> set active" "supports_cause f"
      using active_conclusions_values [OF f(1)] by (simp_all add: concludes_def supports_cause_def)
    then show ?thesis using supported_cause_listed f(2) by metis
  qed
qed

text \<open>C28: A hybrid review is ranked without gaps and led by the selected cause.  Its candidates
  carry the ranks 1, 2, 3, ... in order; whatever cause is selected, also one that only agents
  propose, is that of the first candidate; no cause is selected on conflict; and every finding a
  candidate cites in its favour is an active root-cause finding of the same cause.\<close>

theorem hybrid_review_ranked:
  assumes built: "build_hybrid_coordination_review ext q = Inr r"
    and active: "active_sdk_findings (rr_findings q) = Inr active"
  shows "map rc_rank (rv_candidates r) = map int [1 ..< Suc (length (rv_candidates r))]
    \<and> (\<forall>c. rv_selected_cause_type r = Some c
        \<longrightarrow> rv_candidates r \<noteq> [] \<and> rc_cause_type (hd (rv_candidates r)) = Some c)
    \<and> (rv_decision_status r = Some Coord_CONFLICT \<longrightarrow> rv_selected_cause_type r = None)
    \<and> (\<forall>c i. c \<in> set (rv_candidates r) \<longrightarrow> i \<in> set (rc_supporting_finding_ids c) \<longrightarrow>
        (\<exists>f \<in> set active. fd_id f = i \<and> fd_finding_type f = Find_ROOT_CAUSE
           \<and> fd_related_cause_type f = rc_cause_type c))"
proof -
  obtain decision where d:
    "validate_agent_semantics (cx_frozen ext) (cx_shown ext) (rr_evidence q) active
       (arrange_candidates ext active (rr_hypotheses q) (selected_cause (first_of (rr_hypotheses q)) active decision)
          (build_candidates ext active (rr_hypotheses q))) [] = Inr ()"
    "validate_coordination_review
       (hybrid_review ext q decision (selected_cause (first_of (rr_hypotheses q)) active decision)
         (arrange_candidates ext active (rr_hypotheses q) (selected_cause (first_of (rr_hypotheses q)) active decision)
            (build_candidates ext active (rr_hypotheses q)))) = Inr r"
    using built active
    by (auto simp: build_hybrid_coordination_review_def Let_def result_simps)
  let ?sel = "selected_cause (first_of (rr_hypotheses q)) active decision"
  let ?cs = "arrange_candidates ext active (rr_hypotheses q) ?sel (build_candidates ext active (rr_hypotheses q))"
  have ranks: "map rc_rank ?cs = map int [1 ..< Suc (length ?cs)]"
    by (simp add: arrange_candidates_def split: prod.splits del: upt_Suc)
  then have "sorted (map rc_rank ?cs)" by (simp add: sorted_wrt_map del: upt_Suc)
  then have r: "rv_candidates r = ?cs" "rv_selected_cause_type r = ?sel" "rv_decision_status r = Some decision"
    using d(2) sort_key_sorted_id [of rc_rank ?cs]
    by (auto simp: validate_coordination_review_def sort_ranked_values_def hybrid_review_def empty_review_def
        Let_def result_simps split: if_splits option.splits)
  have "\<exists>f \<in> set active. fd_id f = i \<and> fd_finding_type f = Find_ROOT_CAUSE \<and> fd_related_cause_type f = rc_cause_type c"
    if c: "c \<in> set ?cs" and i: "i \<in> set (rc_supporting_finding_ids c)" for c i
  proof -
    have "validate_candidate_semantics (evidence_by_id (rr_evidence q)) (finding_by_id active) c = Inr ()"
      using d(1) c by (auto simp: validate_agent_semantics_def Let_def result_simps)
    then obtain f where "dict_get (finding_by_id active) i = Some f" "fd_finding_type f = Find_ROOT_CAUSE"
      "fd_related_cause_type f = rc_cause_type c"
      using i
      by (auto simp: validate_candidate_semantics_def check_named_finding_def result_simps split: option.splits)
    then show ?thesis by (auto simp: dict_put_all_get split: option.splits dest!: first_match_Some)
  qed
  moreover have "decision = Coord_CONFLICT \<longrightarrow> ?sel = None"
    by (simp add: selected_cause_def split: option.splits)
  moreover have "?cs \<noteq> [] \<and> rc_cause_type (hd ?cs) = Some c"
    if sel: "?sel = Some c" for c
    unfolding sel by (rule arrange_candidates_lead [OF selected_cause_known [OF sel]])
  ultimately show ?thesis using ranks unfolding r option.inject by blast
qed

end
