(* ===== verification/Coordination_Samples.thy ===== *)
theory Coordination_Samples
  imports Coordination_Properties Signal_Properties
begin

text \<open>
  The properties of the coordination review at concrete inputs, and the contradiction without a
  cause that makes the decision a conflict between nobody.
\<close>

definition sample_finding :: "ident \<Rightarrow> finding_actor \<Rightarrow> finding_type \<Rightarrow> cause_type option \<Rightarrow> agent_finding" where
  "sample_finding i agent kind cause =
     \<lparr>fd_id = i, fd_investigation_id = ''inv-1'', fd_agent_name = agent, fd_agent_instance_id = None,
      fd_finding_type = kind, fd_summary = ''traffic'', fd_confidence = 3 / 4, fd_evidence_ids = [''e1''],
      fd_related_cause_type = cause, fd_severity = Sev_HIGH, fd_rationale = '''', fd_gaps = [],
      fd_blocking = False, fd_execution_layer = Layer_OPENAI_AGENTS_SDK, fd_analysis_round = Round_1,
      fd_revises_finding_id = None, fd_task_id = None, fd_runtime_run_id = None,
      fd_critic_assessment_id = None, fd_affected_entity = None, fd_failure_mechanism = None,
      fd_contradicting_evidence_ids = [], fd_created_at = 0\<rparr>"

definition sample_hypothesis :: "cause_type \<Rightarrow> hypothesis" where
  "sample_hypothesis cause =
     \<lparr>hy_id = ''hyp-1'', hy_cause_type = cause, hy_summary = ''sample'', hy_confidence = 3 / 4,
      hy_supporting_evidence_ids = (if cause = Cause_UNKNOWN then [] else [''e1'']),
      hy_contradicting_evidence_ids = [], hy_next_actions = []\<rparr>"

definition sample_evidence :: evidence_item where
  "sample_evidence = sample_item ''e1'' 5
     [(''signal_type'', PStr ''traffic''), (''service'', PStr ''api''), (''deviation_score'', PFloat (Finite 2))]"

definition sample_ext :: coordination_ext where
  "sample_ext =
     \<lparr>cx_candidate_id = (\<lambda>n. ''candidate-'' @ show_nat n), cx_review_id = ''review-1'', cx_now = 9,
      cx_shown = (\<lambda>_. ''''), cx_sum = (\<lambda>xs. fl (sum_list xs)),
      cx_frozen = \<lparr>fx_sha256 = (\<lambda>s. s), fx_projection_digest = (\<lambda>_. ''''), fx_from_iso = (\<lambda>_. None),
                   fx_str_instant = (\<lambda>_. '''')\<rparr>\<rparr>"

section \<open>A conflict between nobody\<close>

lemma causeless_contradiction:
  "decide_hybrid_status (sample_hypothesis Cause_UNKNOWN) [sample_finding ''f3'' FActor_LOG Find_CONTRADICTION None]
     MARun_COMPLETED = Inr Coord_CONFLICT"
  "conflicting_agent_names (sample_hypothesis Cause_UNKNOWN)
     [sample_finding ''f3'' FActor_LOG Find_CONTRADICTION None] = Inr {}"
  "active_sdk_findings [sample_finding ''f3'' FActor_LOG Find_CONTRADICTION None]
     = Inr [sample_finding ''f3'' FActor_LOG Find_CONTRADICTION None]"
  by code_simp+

theorem decision_matches_conflicts_witness:
  "otherwise_selected_cause (sample_hypothesis Cause_UNKNOWN)
       (active_conclusions [sample_finding ''f3'' FActor_LOG Find_CONTRADICTION None]) = None
   \<and> contradicts_cause [sample_finding ''f3'' FActor_LOG Find_CONTRADICTION None] None"
  using decision_matches_conflicts [OF causeless_contradiction] by simp

section \<open>Attributions\<close>

definition sample_attribution :: root_cause_attribution where
  "sample_attribution = \<lparr>at_occurred_at = 5, at_component = ''api'', at_reason = ''traffic spike'',
     at_supporting_evidence_ids = [''e1'']\<rparr>"

lemma sample_clusters:
  "hypothesis_clusters Cause_TRAFFIC_SPIKE [sample_evidence] = [(''api'', [sample_evidence])]"
  by (simp add: hypothesis_clusters_def component_groups_def group_by_def group_put_def attribution_component_def
      first_of_def present_def sample_evidence_def sample_item_def get_or_none_def strip_def is_blank_def
      segment_aware_clusters_def segment_id_of_def time_clusters_def)

lemma sample_cluster_attribution:
  "cluster_attribution (\<lambda>_. '''') Cause_TRAFFIC_SPIKE ''api'' [sample_evidence] = Inr ([sample_evidence], sample_attribution)"
  by (simp add: cluster_attribution_def validate_root_cause_attribution_def sample_attribution_def sample_evidence_def
      sample_item_def strip_def is_blank_def number_check_def get_or_none_def result_eval)

lemma sample_attributions:
  "build_root_cause_attributions (\<lambda>_. '''') [sample_evidence] [sample_hypothesis Cause_TRAFFIC_SPIKE]
     = Inr [sample_attribution]"
proof -
  have "cited_items (evidence_by_id [sample_evidence]) (sample_hypothesis Cause_TRAFFIC_SPIKE) = Inr [sample_evidence]"
    by (simp add: cited_items_def sample_hypothesis_def sample_evidence_def sample_item_def dict_put_all_def)
  moreover have "hy_cause_type (sample_hypothesis Cause_TRAFFIC_SPIKE) = Cause_TRAFFIC_SPIKE"
    by (simp add: sample_hypothesis_def)
  moreover have "rank_attributions (\<lambda>_. '''') [([sample_evidence], sample_attribution)] = [sample_attribution]"
    using rank_attributions_mset [of "\<lambda>_. ''''" "[([sample_evidence], sample_attribution)]"] by simp
  ultimately show ?thesis
    by (simp add: build_root_cause_attributions_def hypothesis_attributions_def sample_clusters sample_cluster_attribution)
qed

theorem attributions_grounded_witness:
  "ei_timestamp sample_evidence = at_occurred_at sample_attribution
   \<and> normalize_claim (at_component sample_attribution) \<in> set (named_components sample_evidence)"
proof -
  have "strip (ei_id sample_evidence) = ei_id sample_evidence" by code_simp
  moreover have "map (\<lambda>i. the (dict_get (evidence_by_id [sample_evidence]) i)) (at_supporting_evidence_ids sample_attribution)
      = [sample_evidence]"
    by (simp add: sample_attribution_def sample_evidence_def sample_item_def dict_put_all_def)
  ultimately show ?thesis
    using attributions_grounded [OF sample_attributions, of sample_attribution "[sample_evidence]"] by simp
qed

definition sample_ranked :: "(evidence_item list \<times> root_cause_attribution) list" where
  "sample_ranked = [([sample_evidence], sample_attribution), ([sample_evidence], sample_attribution\<lparr>at_occurred_at := 4\<rparr>)]"

theorem ranking_keeps_cohort_order_witness:
  "mset (rank_attributions (\<lambda>_. '''') sample_ranked) = mset (map snd sample_ranked)
   \<and> subseq (map rk_attribution (cohorts (\<lambda>_. '''') (map (ranked_entry (\<lambda>_. '''')) sample_ranked) ! 1))
       (rank_attributions (\<lambda>_. '''') sample_ranked)"
  by (rule ranking_keeps_cohort_order) (simp add: cohorts_def)

section \<open>A hybrid review\<close>

definition sample_request :: review_request where
  "sample_request =
     \<lparr>rr_investigation_id = ''inv-1'', rr_findings = [],
      rr_evidence = [sample_evidence], rr_hypotheses = [sample_hypothesis Cause_TRAFFIC_SPIKE],
      rr_run_status = MARun_PARTIAL, rr_summary = ''ok'', rr_uncertainty = '''',
      rr_model_provider = Provider_OPENAI, rr_model_name = None, rr_primary = None, rr_secondary = [],
      rr_root_causes = []\<rparr>"

definition sample_candidate :: root_cause_candidate where
  "sample_candidate = seeded_candidate (cx_candidate_id sample_ext 0) 1 (sample_hypothesis Cause_TRAFFIC_SPIKE)"

lemma sample_active: "active_sdk_findings [] = Inr []"
  by (simp add: active_sdk_findings_def sdk_findings_def)

lemma sample_candidates:
  "build_candidates sample_ext [] [sample_hypothesis Cause_TRAFFIC_SPIKE] = [sample_candidate]"
  "arrange_candidates sample_ext [] [sample_hypothesis Cause_TRAFFIC_SPIKE] (Some Cause_TRAFFIC_SPIKE) [sample_candidate]
     = [sample_candidate]"
proof -
  show "build_candidates sample_ext [] [sample_hypothesis Cause_TRAFFIC_SPIKE] = [sample_candidate]"
    by (simp add: build_candidates_def merged_candidates_def sorted_desc_def renumber_def sample_candidate_def)
  have cause: "rc_cause_type sample_candidate = Some Cause_TRAFFIC_SPIKE"
    "hy_cause_type (sample_hypothesis Cause_TRAFFIC_SPIKE) = Cause_TRAFFIC_SPIKE"
    by (simp_all add: sample_candidate_def seeded_candidate_def plain_candidate_def sample_hypothesis_def)
  have "set_rank 1 sample_candidate = sample_candidate"
    by (simp add: set_rank_def sample_candidate_def seeded_candidate_def plain_candidate_def)
  then show "arrange_candidates sample_ext [] [sample_hypothesis Cause_TRAFFIC_SPIKE] (Some Cause_TRAFFIC_SPIKE) [sample_candidate]
      = [sample_candidate]"
    by (simp add: arrange_candidates_def add_contradicted_def contradicts_cause_def index_by_cause_def dict_put_all_def
        cause lead_with_def move_first_def renumber_def upt_rec)
qed

lemma sample_semantics:
  "validate_agent_semantics (cx_frozen sample_ext) (cx_shown sample_ext) [sample_evidence] [] [sample_candidate] [] = Inr ()"
  by (simp add: validate_agent_semantics_def validate_candidate_semantics_def sample_candidate_def seeded_candidate_def
      plain_candidate_def sample_hypothesis_def sample_evidence_def sample_item_def dict_put_all_def
      require_usable_references_def require_support_of_def require_cause_support_def upt_rec result_eval)

definition sample_review :: coordination_review where
  "sample_review = hybrid_review sample_ext sample_request Coord_FALLBACK (Some Cause_TRAFFIC_SPIKE) [sample_candidate]"

lemma sample_reviewed: "build_hybrid_coordination_review sample_ext sample_request = Inr sample_review"
proof -
  have decision: "decide_hybrid_status (sample_hypothesis Cause_TRAFFIC_SPIKE) [] MARun_PARTIAL = Inr Coord_FALLBACK"
    by (simp add: decide_hybrid_status_def sample_active)
  have references: "validate_references [] [sample_evidence] [sample_hypothesis Cause_TRAFFIC_SPIKE] = Inr ()"
    by (simp add: validate_references_def finding_references_def sample_hypothesis_def sample_evidence_def sample_item_def)
  have selected: "selected_cause (Some (sample_hypothesis Cause_TRAFFIC_SPIKE)) [] Coord_FALLBACK = Some Cause_TRAFFIC_SPIKE"
    by (simp add: selected_cause_def sample_hypothesis_def)
  have "validate_coordination_review sample_review = Inr sample_review"
    by (simp add: validate_coordination_review_def sample_review_def hybrid_review_def empty_review_def sample_request_def
        sort_ranked_values_def opt_max_def validate_root_cause_candidate_def root_cause_candidate_fields_def
        sample_candidate_def seeded_candidate_def plain_candidate_def sample_hypothesis_def unit_interval_def
        rank_text_def result_eval)
  then show ?thesis
    using decision references selected sample_candidates sample_semantics sample_active
    by (simp add: build_hybrid_coordination_review_def sample_request_def sample_review_def first_of_def Let_def result_eval)
qed

theorem hybrid_review_ranked_witness:
  "map rc_rank (rv_candidates sample_review) = [1]
   \<and> rc_cause_type (hd (rv_candidates sample_review)) = Some Cause_TRAFFIC_SPIKE"
proof -
  have active: "active_sdk_findings (rr_findings sample_request) = Inr []" by (simp add: sample_request_def sample_active)
  have "rv_selected_cause_type sample_review = Some Cause_TRAFFIC_SPIKE" "length (rv_candidates sample_review) = 1"
    by (simp_all add: sample_review_def hybrid_review_def)
  moreover have "sample_hypothesis Cause_TRAFFIC_SPIKE \<in> set (rr_hypotheses sample_request)"
    "hy_cause_type (sample_hypothesis Cause_TRAFFIC_SPIKE) = Cause_TRAFFIC_SPIKE"
    by (simp_all add: sample_request_def sample_hypothesis_def)
  ultimately show ?thesis using hybrid_review_ranked [OF sample_reviewed active] by (simp add: upt_rec)
qed

end
