(* ===== verification/Rca_Analyzer.thy ===== *)
theory Rca_Analyzer
  imports Coordination_Review
begin

text \<open>
  The rule-based root cause analyzer (\<open>backend/rca/analyzer.py\<close>, \<open>backend/rca/scoring.py\<close>): one
  rule per cause, each a filter of the evidence with a score, and the sorted hypotheses.
  A filter whose predicate may raise (an unhashable value tested against a set, an integer too
  large for a float) is a filter with a result.
\<close>

section \<open>Reading numbers\<close>

text \<open>Digits with single underscores between them: their value, their number and the rest.\<close>

fun digit_run :: "nat \<Rightarrow> nat \<Rightarrow> string \<Rightarrow> (nat \<times> nat) \<times> string" where
  "digit_run n k [] = ((n, k), [])"
| "digit_run n k (c # cs) =
     (if is_digit c then digit_run (10 * n + (of_char c - 48)) (Suc k) cs
      else if c = CHR ''_'' \<and> 0 < k \<and> (case cs of [] \<Rightarrow> False | d # _ \<Rightarrow> is_digit d) then digit_run n k cs
      else ((n, k), c # cs))"

definition pow10 :: "int \<Rightarrow> rat" where
  "pow10 e = (if 0 \<le> e then of_int (10 ^ nat e) else 1 / of_int (10 ^ nat (- e)))"

definition split_sign :: "string \<Rightarrow> bool \<times> string" where
  "split_sign s =
     (case s of [] \<Rightarrow> (False, [])
      | c # cs \<Rightarrow> if c = CHR ''-'' then (True, cs) else if c = CHR ''+'' then (False, cs) else (False, s))"

definition parse_exponent :: "string \<Rightarrow> int option" where
  "parse_exponent s =
     (case s of [] \<Rightarrow> Some 0
      | c # cs \<Rightarrow>
          if c \<noteq> CHR ''e'' then None
          else (case split_sign cs of (negative, ds) \<Rightarrow>
            (case digit_run 0 0 ds of ((n, k), rest) \<Rightarrow>
               if k = 0 \<or> rest \<noteq> [] then None else Some (if negative then - int n else int n))))"

definition parse_decimal :: "string \<Rightarrow> rat option" where
  "parse_decimal s =
     (case digit_run 0 0 s of ((i, ki), r1) \<Rightarrow>
        (case (if take 1 r1 = ''.'' then digit_run 0 0 (drop 1 r1) else ((0, 0), r1)) of ((f, kf), r2) \<Rightarrow>
           if ki + kf = 0 then None
           else map_option (\<lambda>e. of_nat (i * 10 ^ kf + f) * pow10 (e - int kf)) (parse_exponent r2)))"

text \<open>\<open>float(text)\<close>; \<open>None\<close> for a \<open>ValueError\<close>.\<close>

definition parse_float :: "string \<Rightarrow> pyfloat option" where
  "parse_float text =
     (case split_sign (lower (strip text)) of (negative, s) \<Rightarrow>
        let signed = (\<lambda>x. if negative then float_neg x else x) in
        if s = ''inf'' \<or> s = ''infinity'' then Some (signed PosInf)
        else if s = ''nan'' then Some NaN
        else map_option (\<lambda>r. signed (fl r)) (parse_decimal s))"

section \<open>Scoring\<close>

definition contains_any :: "(pyval \<Rightarrow> string) \<Rightarrow> evidence_item list \<Rightarrow> string list \<Rightarrow> evidence_item list" where
  "contains_any shown evidence keywords =
     filter (\<lambda>e. has_any (map lower keywords) (lower (ei_summary e @ '' '' @ shown (pdict (ei_payload e))))) evidence"

text \<open>\<open>round(x, 2)\<close>: the float nearest to the decimal with two places nearest to \<open>x\<close>.\<close>

fun round_hundredths :: "pyfloat \<Rightarrow> pyfloat" where
  "round_hundredths (Finite x) = fl (of_int (round_even (100 * x)) / 100)"
| "round_hundredths x = x"

definition confidence_from_score :: "int \<Rightarrow> pyfloat" where
  "confidence_from_score score =
     float_min (fl (95 / 100)) (round_hundredths (float_div (fl (of_int score)) (Finite 10)))"

definition parse_percentage :: "pyval \<Rightarrow> pyfloat option" where
  "parse_percentage v =
     (case v of
        PStr s \<Rightarrow> (let stripped = strip s in
          if stripped \<noteq> [] \<and> last stripped = CHR ''%'' then parse_float (butlast stripped) else None)
      | _ \<Rightarrow> None)"

section \<open>Predicates\<close>

fun filter_each :: "('a \<Rightarrow> bool result) \<Rightarrow> 'a list \<Rightarrow> 'a list result" where
  "filter_each p [] = Inr []"
| "filter_each p (x # xs) =
     and_then (p x) (\<lambda>b. and_then (filter_each p xs) (\<lambda>ys. Inr (if b then x # ys else ys)))"

fun any_each :: "('a \<Rightarrow> bool result) \<Rightarrow> 'a list \<Rightarrow> bool result" where
  "any_each p [] = Inr False"
| "any_each p (x # xs) = and_then (p x) (\<lambda>b. if b then Inr True else any_each p xs)"

text \<open>\<open>a and b\<close> where evaluating \<open>b\<close> may raise.\<close>

definition both :: "bool \<Rightarrow> bool result \<Rightarrow> bool result" where
  "both a b = (if a then b else Inr False)"

definition value_in :: "pyval \<Rightarrow> string list \<Rightarrow> bool result" where
  "value_in v names =
     (if \<not> hashable v then Inl (TypeError ''unhashable type'') else Inr (v \<in> set (map PStr names)))"

definition number_of :: "pyval \<Rightarrow> rat result" where
  "number_of v =
     (if number_fits v then Inr (finite_number v)
      else Inl (OverflowError ''int too large to convert to float''))"

abbreviation payload_get :: "evidence_item \<Rightarrow> string \<Rightarrow> pyval" where
  "payload_get e k \<equiv> get_or_none (ei_payload e) k"

definition is_strong :: "evidence_item \<Rightarrow> bool result" where
  "is_strong e = and_then (number_of (payload_get e ''deviation_score'')) (\<lambda>x. Inr (1 \<le> x))"

definition large_positive_change :: "pyval \<Rightarrow> bool" where
  "large_positive_change v =
     (case parse_percentage v of None \<Rightarrow> False | Some p \<Rightarrow> float_le (Finite 50) p)"

definition small_change :: "pyval \<Rightarrow> bool" where
  "small_change v =
     (case parse_percentage v of None \<Rightarrow> False | Some p \<Rightarrow> float_le (float_abs p) (Finite 10))"

definition or_value :: "pyval \<Rightarrow> pyval \<Rightarrow> pyval" where
  "or_value a b = (if truthy a then a else b)"

definition component_of :: "evidence_item \<Rightarrow> pyval" where
  "component_of e = or_value (payload_get e ''component'') (payload_get e ''service'')"

definition same_component :: "evidence_item \<Rightarrow> evidence_item \<Rightarrow> bool" where
  "same_component left right =
     (\<not> truthy (component_of left) \<or> \<not> truthy (component_of right) \<or> py_eq (component_of left) (component_of right))"

definition metric_trend :: "evidence_item \<Rightarrow> bool" where
  "metric_trend e = (ei_provider e = EProv_METRIC \<and> ei_kind e = EKind_METRIC_TREND)"

definition normal_qps_evidence :: "evidence_item list \<Rightarrow> evidence_item list result" where
  "normal_qps_evidence evidence =
     filter_each (\<lambda>e. both (metric_trend e)
       (if small_change (payload_get e ''qps_change'') then Inr True
        else both (payload_get e ''signal_type'' = PStr ''traffic'')
          (and_then (number_of (payload_get e ''change_percent'')) (\<lambda>x. Inr (\<bar>x\<bar> \<le> 10))))) evidence"

definition event_text :: "incident_event \<Rightarrow> string" where
  "event_text e = lower (ie_title e @ '' '' @ ie_description e)"

definition signal_is :: "incident_event \<Rightarrow> string \<Rightarrow> string \<Rightarrow> bool" where
  "signal_is event k v = (dict_get (ie_signals event) k = Some v)"

definition evidence_ids :: "evidence_item list \<Rightarrow> ident list" where
  "evidence_ids es = sort (dedupe (map ei_id es))"

definition unique_evidence :: "evidence_item list \<Rightarrow> evidence_item list" where
  "unique_evidence es = dict_values (dict_put_all ei_id es [])"

definition points :: "bool \<Rightarrow> int \<Rightarrow> int" where
  "points b n = (if b then n else 0)"

text \<open>A confidence is finite; \<open>Hypothesis\<close> requires it in the unit interval.\<close>

fun float_rat :: "pyfloat \<Rightarrow> rat" where
  "float_rat (Finite r) = r"
| "float_rat _ = 0"

record rca_ext =
  ra_id :: "cause_type \<Rightarrow> ident"
  ra_shown :: "pyval \<Rightarrow> string"

definition make_hypothesis ::
    "rca_ext \<Rightarrow> cause_type \<Rightarrow> string \<Rightarrow> int \<Rightarrow> evidence_item list \<Rightarrow> string list \<Rightarrow> hypothesis" where
  "make_hypothesis ext cause summary score supporting actions =
     \<lparr>hy_id = ra_id ext cause, hy_cause_type = cause, hy_summary = summary,
      hy_confidence = float_rat (confidence_from_score score),
      hy_supporting_evidence_ids = evidence_ids supporting, hy_contradicting_evidence_ids = [],
      hy_next_actions = actions\<rparr>"

section \<open>Rules\<close>

text \<open>A rule: \<open>None\<close> when the evidence does not match it.\<close>

type_synonym rule = "hypothesis option result"

definition deployment_regression :: "rca_ext \<Rightarrow> incident_event \<Rightarrow> evidence_item list \<Rightarrow> rule" where
  "deployment_regression ext event evidence =
     (let deploys = filter (\<lambda>e. ei_provider e = EProv_DEPLOY \<and> ei_kind e = EKind_DEPLOYMENT) evidence;
          null_pointers = filter (\<lambda>e. ei_provider e = EProv_LOG
            \<and> payload_get e ''exception'' = PStr ''NullPointerException'') evidence in
      and_then (filter_each (\<lambda>e. both (ei_provider e = EProv_LOG)
          (and_then (value_in (payload_get e ''signal_type'') [''error'', ''timeout'']) (\<lambda>b.
             Inr (b \<and> list_ex (\<lambda>d. ei_timestamp d \<le> ei_timestamp e \<and> same_component d e) deploys)))) evidence)
        (\<lambda>deployment_errors.
      and_then (normal_qps_evidence evidence) (\<lambda>normal_qps.
      let errors = unique_evidence (null_pointers @ deployment_errors);
          score = points (deploys \<noteq> []) 4 + points (errors \<noteq> []) 3
            + points (signal_is event ''qps'' ''normal'' \<or> normal_qps \<noteq> []) 2
            + points (has_token (event_text event) ''deployment'') 1 in
      if deploys = [] \<or> errors = [] then Inr None
      else Inr (Some (make_hypothesis ext Cause_DEPLOYMENT_REGRESSION
        ''A recent deployment is the strongest match for the new error pattern.'' score
        (deploys @ errors @ normal_qps
           @ contains_any (ra_shown ext) evidence [''normal range'', ''qps stayed''])
        [''Compare the deployed version with the previous stable version.'',
         ''Rollback or disable the changed module if error rate remains elevated.'',
         ''Inspect the exception path and add a regression test for the endpoint.''])))))"

definition traffic_spike :: "rca_ext \<Rightarrow> incident_event \<Rightarrow> evidence_item list \<Rightarrow> rule" where
  "traffic_spike ext event evidence =
     and_then (filter_each (\<lambda>e. both (metric_trend e)
         (if large_positive_change (payload_get e ''qps_change'') then Inr True
          else both (payload_get e ''signal_type'' = PStr ''traffic'')
            (and_then (number_of (payload_get e ''change_percent'')) (\<lambda>x. Inr (50 \<le> x))))) evidence)
       (\<lambda>spikes.
         let score = points (spikes \<noteq> []) 6 + points (signal_is event ''qps'' ''high'') 2
               + points (contains_any (ra_shown ext) evidence [''qps increased sharply''] \<noteq> []) 1
               + points (has_token (event_text event) ''traffic'') 1 in
         if spikes = [] then Inr None
         else Inr (Some (make_hypothesis ext Cause_TRAFFIC_SPIKE
           ''Traffic growth appears to have preceded the latency and error increase.'' score spikes
           [''Check autoscaling capacity and recent traffic sources.'',
            ''Apply rate limits or shed non-critical traffic if saturation continues.'',
            ''Review latency by endpoint to identify the hottest path under load.''])))"

definition dependency_failure :: "rca_ext \<Rightarrow> incident_event \<Rightarrow> evidence_item list \<Rightarrow> rule" where
  "dependency_failure ext event evidence =
     (let health = filter (\<lambda>e. ei_provider e = EProv_DEPENDENCY \<and> ei_kind e = EKind_DEPENDENCY_HEALTH
            \<and> (payload_get e ''dependency'' \<noteq> PNone \<or> payload_get e ''latency_p95'' \<noteq> PNone
               \<or> payload_get e ''error_rate'' \<noteq> PNone)) evidence;
          timeouts = filter (\<lambda>e. ei_provider e = EProv_LOG
            \<and> (payload_get e ''dependency'' \<noteq> PNone \<or> payload_get e ''exception'' = PStr ''TimeoutException''
               \<or> payload_get e ''signal_type'' = PStr ''timeout'')) evidence;
          score = points (health \<noteq> []) 4 + points (timeouts \<noteq> []) 6
            + points (case dict_get (ie_signals event) ''dependency'' of None \<Rightarrow> False | Some s \<Rightarrow> s \<noteq> []) 2
            + points (contains_any (ra_shown ext) evidence [''timeout''] \<noteq> []) 1
            + points (has_token (event_text event) ''dependency'') 1 in
      if health = [] \<and> timeouts = [] then Inr None
      else Inr (Some (make_hypothesis ext Cause_DOWNSTREAM_DEPENDENCY_FAILURE
        ''A downstream dependency slowdown matches the timeout pattern.'' score (health @ timeouts)
        [''Inspect the downstream service health and recent changes.'',
         ''Increase timeout budget only if it is safe for callers and capacity.'',
         ''Enable fallback, circuit breaking, or queueing for the affected dependency path.''])))"

text \<open>The rules that look for strong signals of some types.\<close>

definition strong_signal_rule ::
    "rca_ext \<Rightarrow> cause_type \<Rightarrow> string \<Rightarrow> string list \<Rightarrow> (evidence_item \<Rightarrow> bool result) \<Rightarrow> evidence_item list \<Rightarrow> rule" where
  "strong_signal_rule ext cause summary actions strong evidence =
     and_then (filter_each strong evidence) (\<lambda>items.
       if items = [] then Inr None
       else Inr (Some (make_hypothesis ext cause summary (6 + min 3 (int (length items) - 1)) items actions)))"

definition resource_saturation :: "rca_ext \<Rightarrow> evidence_item list \<Rightarrow> rule" where
  "resource_saturation ext evidence = strong_signal_rule ext Cause_RESOURCE_SATURATION
     ''Resource saturation is the strongest match for the observed anomaly.''
     [''Inspect capacity and the workload driving resource pressure.'']
     (\<lambda>e. and_then (value_in (payload_get e ''signal_type'') [''cpu'', ''memory'', ''disk_io'']) (\<lambda>b. both b
       (and_then (is_strong e) (\<lambda>strong. both strong
         (if payload_get e ''change_percent'' = PNone then Inr True
          else and_then (number_of (payload_get e ''change_percent'')) (\<lambda>x. Inr (0 < x))))))) evidence"

definition network_fault :: "rca_ext \<Rightarrow> evidence_item list \<Rightarrow> rule" where
  "network_fault ext evidence = strong_signal_rule ext Cause_NETWORK_FAULT
     ''Network degradation matches the observed latency or packet errors.''
     [''Inspect the affected node and network path.'']
     (\<lambda>e. and_then (value_in (payload_get e ''signal_type'') [''network_latency'', ''network_corruption''])
            (\<lambda>b. both b (is_strong e))) evidence"

definition process_failure :: "rca_ext \<Rightarrow> evidence_item list \<Rightarrow> rule" where
  "process_failure ext evidence = strong_signal_rule ext Cause_PROCESS_OR_CONTAINER_FAILURE
     ''A process or container failure matches the availability loss.''
     [''Inspect restarts and preserve process diagnostics.'']
     (\<lambda>e. both (payload_get e ''signal_type'' = PStr ''process'') (is_strong e)) evidence"

definition database_slowdown :: "rca_ext \<Rightarrow> incident_event \<Rightarrow> evidence_item list \<Rightarrow> rule" where
  "database_slowdown ext event evidence =
     (let metrics = filter (\<lambda>e. metric_trend e \<and> payload_get e ''db_p95'' \<noteq> PNone) evidence;
          slow = signal_is event ''database'' ''slow'';
          score = points (metrics \<noteq> []) 5 + points slow 3
            + points (contains_any (ra_shown ext) evidence [''database query latency''] \<noteq> []) 1
            + points (has_token (event_text event) ''database'') 1 in
      if metrics = [] \<and> \<not> slow then Inr None
      else Inr (Some (make_hypothesis ext Cause_DATABASE_SLOWDOWN
        ''Database query latency appears to be driving service latency.'' score metrics
        [''Find the slowest queries and compare execution plans with the baseline.'',
         ''Check database saturation, lock waits, and connection pool exhaustion.'',
         ''Mitigate with query optimization, caching, or reduced report load.''])))"

text \<open>\<open>len({instance of each}) != 1\<close>, for a list that is not empty.\<close>

definition one_instance :: "evidence_item list \<Rightarrow> bool result" where
  "one_instance items =
     (let vs = map (\<lambda>e. payload_get e ''instance'') items in
      if \<not> list_all hashable vs then Inl (TypeError ''unhashable type'')
      else Inr (list_all (py_eq (hd vs)) (tl vs)))"

definition strong_instance_signal :: "evidence_item \<Rightarrow> bool result" where
  "strong_instance_signal e =
     and_then (value_in (payload_get e ''signal_type'') [''cpu'', ''error'']) (\<lambda>b. both b (is_strong e))"

definition single_instance_issue :: "rca_ext \<Rightarrow> incident_event \<Rightarrow> evidence_item list \<Rightarrow> rule" where
  "single_instance_issue ext event evidence =
     and_then (filter_each (\<lambda>e. both (metric_trend e \<and> payload_get e ''instance'' \<noteq> PNone)
         (if payload_get e ''cpu'' \<noteq> PNone \<or> payload_get e ''error_rate'' \<noteq> PNone then Inr True
          else strong_instance_signal e)) evidence) (\<lambda>metrics.
     and_then (any_each strong_instance_signal metrics) (\<lambda>canonical.
     let score = points (metrics \<noteq> []) 5 + points canonical 2 + points (signal_is event ''instance'' ''abnormal'') 2
           + points (signal_is event ''cpu'' ''high'') 1
           + points (contains_any (ra_shown ext) evidence [''one instance''] \<noteq> []) 1
           + points (has_token (event_text event) ''one instance'') 1 in
     if metrics = [] then Inr None
     else and_then (one_instance metrics) (\<lambda>one.
       if \<not> one then Inr None
       else Inr (Some (make_hypothesis ext Cause_SINGLE_INSTANCE_ISSUE
         ''The impact is concentrated on one unhealthy instance.'' score metrics
         [''Drain and restart the unhealthy instance after preserving diagnostic data.'',
          ''Compare instance-local CPU, memory, disk, and error logs against healthy peers.'',
          ''Check whether the load balancer is still routing traffic to the bad instance.''])))))"

section \<open>Analysis\<close>

definition analyzable :: "evidence_item \<Rightarrow> bool" where
  "analyzable e = (ei_status e \<in> {EStat_SUCCESS, EStat_PARTIAL} \<and> ei_kind e \<noteq> EKind_PROVIDER_ERROR)"

fun run_rules :: "rule list \<Rightarrow> hypothesis list result" where
  "run_rules [] = Inr []"
| "run_rules (r # rs) =
     and_then r (\<lambda>h. and_then (run_rules rs) (\<lambda>hs. Inr (case h of None \<Rightarrow> hs | Some x \<Rightarrow> x # hs)))"

definition rca_rules :: "rca_ext \<Rightarrow> incident_event \<Rightarrow> evidence_item list \<Rightarrow> rule list" where
  "rca_rules ext event evidence =
     [deployment_regression ext event evidence, traffic_spike ext event evidence,
      dependency_failure ext event evidence, database_slowdown ext event evidence,
      single_instance_issue ext event evidence, resource_saturation ext evidence,
      network_fault ext evidence, process_failure ext evidence]"

definition unknown_hypothesis :: "rca_ext \<Rightarrow> hypothesis" where
  "unknown_hypothesis ext =
     \<lparr>hy_id = ra_id ext Cause_UNKNOWN, hy_cause_type = Cause_UNKNOWN,
      hy_summary = ''No strong root-cause pattern matched the available evidence.'',
      hy_confidence = float_rat (fl (2 / 10)), hy_supporting_evidence_ids = [],
      hy_contradicting_evidence_ids = [],
      hy_next_actions = [''Collect logs, metrics, deploy history, and dependency health data.'']\<rparr>"

definition hypothesis_key :: "hypothesis \<Rightarrow> rat \<times> string" where
  "hypothesis_key h = (- hy_confidence h, cause_type_value (hy_cause_type h))"

definition analyze :: "rca_ext \<Rightarrow> incident_event \<Rightarrow> evidence_item list \<Rightarrow> hypothesis list result" where
  "analyze ext event evidence =
     and_then (run_rules (rca_rules ext event (filter analyzable evidence))) (\<lambda>hs.
       Inr (if hs = [] then [unknown_hypothesis ext] else sort_key hypothesis_key hs))"

end
