(* ===== verification/Rca_Properties.thy ===== *)
theory Rca_Properties
  imports Rca_Analyzer
begin

text \<open>
  What the analyzer guarantees of its hypotheses, and where its output breaks the contract that
  \<open>validate_hypotheses\<close> enforces right after it.
\<close>

section \<open>Scores\<close>

text \<open>The scores of all rules lie between 0 and 15.\<close>

lemma known_confidences:
  "list_all (\<lambda>s. case confidence_from_score s of Finite c \<Rightarrow> 0 \<le> c \<and> c \<le> 1 | _ \<Rightarrow> False)
     [0, 1, 2, 3, 4, 5, 6, 7, 8, 9, 10, 11, 12, 13, 14, 15]"
  by code_simp

lemma confidence_bounds:
  assumes "0 \<le> score" and "score \<le> 15"
  shows "unit_interval (float_rat (confidence_from_score score))"
proof -
  have "score = 0 \<or> score = 1 \<or> score = 2 \<or> score = 3 \<or> score = 4 \<or> score = 5 \<or> score = 6 \<or> score = 7
      \<or> score = 8 \<or> score = 9 \<or> score = 10 \<or> score = 11 \<or> score = 12 \<or> score = 13 \<or> score = 14 \<or> score = 15"
    using assms by presburger
  then have "score \<in> set [0, 1, 2, 3, 4, 5, 6, 7, 8, 9, 10, 11, 12, 13, 14, 15]" by auto
  then have "case confidence_from_score score of Finite c \<Rightarrow> 0 \<le> c \<and> c \<le> 1 | _ \<Rightarrow> False"
    using known_confidences unfolding list_all_iff by blast
  then show ?thesis by (auto simp: unit_interval_def split: pyfloat.splits)
qed

section \<open>Rules\<close>

lemma filter_each_Inr:
  "filter_each p xs = Inr ys \<Longrightarrow> set ys \<subseteq> set xs \<and> (\<forall>y \<in> set ys. p y = Inr True)"
  by (induction p xs arbitrary: ys rule: filter_each.induct) (auto simp: result_simps split: if_splits)

lemma both_Inr [result_simps]: "both a b = Inr True \<longleftrightarrow> a \<and> b = Inr True"
  by (simp add: both_def)

text \<open>What every rule promises of the hypothesis it returns.\<close>

definition sound_rule :: "evidence_item list \<Rightarrow> cause_type \<Rightarrow> rule \<Rightarrow> bool" where
  "sound_rule evidence cause r =
     (\<forall>h. r = Inr (Some h) \<longrightarrow> hy_cause_type h = cause \<and> unit_interval (hy_confidence h)
        \<and> hy_contradicting_evidence_ids h = []
        \<and> (\<exists>items. set items \<subseteq> set evidence \<and> hy_supporting_evidence_ids h = evidence_ids items))"

text \<open>And what the rules for some causes promise of their support.\<close>

definition supported_rule :: "evidence_item list \<Rightarrow> cause_type \<Rightarrow> rule \<Rightarrow> bool" where
  "supported_rule evidence cause r =
     (\<forall>h. r = Inr (Some h) \<longrightarrow> hy_cause_type h = cause \<and> hy_contradicting_evidence_ids h = []
        \<and> (\<exists>items. items \<noteq> [] \<and> set items \<subseteq> set evidence \<and> hy_supporting_evidence_ids h = evidence_ids items
             \<and> (\<forall>e \<in> set items. ei_provider e \<in> set (cause_support_providers cause))))"

lemma make_hypothesis_simps [simp]:
  "hy_cause_type (make_hypothesis ext cause summary score items actions) = cause"
  "hy_confidence (make_hypothesis ext cause summary score items actions) = float_rat (confidence_from_score score)"
  "hy_contradicting_evidence_ids (make_hypothesis ext cause summary score items actions) = []"
  "hy_supporting_evidence_ids (make_hypothesis ext cause summary score items actions) = evidence_ids items"
  by (simp_all add: make_hypothesis_def)

lemma sound_make:
  "0 \<le> score \<Longrightarrow> score \<le> 15 \<Longrightarrow> set items \<subseteq> set evidence \<Longrightarrow>
   sound_rule evidence cause (Inr (Some (make_hypothesis ext cause summary score items actions)))"
  by (auto simp: sound_rule_def confidence_bounds)

lemma sound_none [simp]: "sound_rule evidence cause (Inr None)" "sound_rule evidence cause (Inl e)"
  by (simp_all add: sound_rule_def)

lemma sound_and_then: "(\<And>x. r = Inr x \<Longrightarrow> sound_rule evidence cause (f x)) \<Longrightarrow> sound_rule evidence cause (and_then r f)"
  by (cases r) simp_all

lemma sound_guard:
  "0 \<le> score \<Longrightarrow> score \<le> 15 \<Longrightarrow> set items \<subseteq> set evidence \<Longrightarrow>
   sound_rule evidence cause
     (if b then Inr None else Inr (Some (make_hypothesis ext cause summary score items actions)))"
  by (simp add: sound_make)

lemma dict_put_all_values: "set (dict_values (dict_put_all key items d)) \<subseteq> set items \<union> set (dict_values d)"
  unfolding dict_put_all_def
proof (induction items rule: rev_induct)
  case (snoc x xs)
  have "set (dict_values (dict_put D k x)) \<subseteq> insert x (set (dict_values D))" for D :: "('b, 'a) dict" and k
    using dict_values_put by fast
  with snoc show ?case unfolding foldl_append foldl.simps set_append list.set by blast
qed simp

lemma unique_evidence_subset: "set (unique_evidence es) \<subseteq> set es"
  using dict_put_all_values [of ei_id es "[]"] by (simp add: unique_evidence_def)

lemma contains_any_subset: "set (contains_any shown es ks) \<subseteq> set es"
  by (auto simp: contains_any_def)

lemma filter_each_subset: "filter_each p xs = Inr ys \<Longrightarrow> set ys \<subseteq> set xs"
  using filter_each_Inr by blast

lemma normal_qps_subset: "normal_qps_evidence es = Inr ys \<Longrightarrow> set ys \<subseteq> set es"
  unfolding normal_qps_evidence_def by (rule filter_each_subset)

lemmas evidence_subsets = subsetD [OF filter_each_subset] subsetD [OF normal_qps_subset]
  subsetD [OF unique_evidence_subset] subsetD [OF contains_any_subset]

lemma strong_signal_rule_sound: "sound_rule evidence cause (strong_signal_rule ext cause summary actions strong evidence)"
  unfolding strong_signal_rule_def
proof (intro sound_and_then)
  fix items assume "filter_each strong evidence = Inr items"
  then have "set items \<subseteq> set evidence" by (rule filter_each_subset)
  moreover have "0 \<le> 6 + min 3 (int (length items) - 1)" "6 + min 3 (int (length items) - 1) \<le> 15" by auto
  ultimately show "sound_rule evidence cause (if items = [] then Inr None
      else Inr (Some (make_hypothesis ext cause summary (6 + min 3 (int (length items) - 1)) items actions)))"
    by (intro sound_guard)
qed

lemmas rule_steps = sound_and_then sound_guard

lemma deployment_regression_sound:
  "sound_rule evidence Cause_DEPLOYMENT_REGRESSION (deployment_regression ext event evidence)"
  unfolding deployment_regression_def Let_def
proof (intro rule_steps)
  fix errors qps
  let ?null = "filter (\<lambda>e. ei_provider e = EProv_LOG \<and> payload_get e ''exception'' = PStr ''NullPointerException'') evidence"
  let ?deploys = "filter (\<lambda>e. ei_provider e = EProv_DEPLOY \<and> ei_kind e = EKind_DEPLOYMENT) evidence"
  assume "filter_each (\<lambda>e. both (ei_provider e = EProv_LOG)
      (and_then (value_in (payload_get e ''signal_type'') [''error'', ''timeout'']) (\<lambda>b. Inr (b
         \<and> list_ex (\<lambda>d. ei_timestamp d \<le> ei_timestamp e \<and> same_component d e) ?deploys)))) evidence = Inr errors"
    and qps: "normal_qps_evidence evidence = Inr qps"
  then have errors: "set errors \<subseteq> set evidence" using filter_each_subset by blast
  have "set (unique_evidence (?null @ errors)) \<subseteq> set evidence"
    using unique_evidence_subset [of "?null @ errors"] errors by auto
  then show "set (?deploys @ unique_evidence (?null @ errors) @ qps
      @ contains_any (ra_shown ext) evidence [''normal range'', ''qps stayed'']) \<subseteq> set evidence"
    using normal_qps_subset [OF qps] contains_any_subset by auto
qed (simp_all add: points_def)

lemma traffic_spike_sound: "sound_rule evidence Cause_TRAFFIC_SPIKE (traffic_spike ext event evidence)"
  unfolding traffic_spike_def Let_def by (intro rule_steps, simp add: points_def, simp add: points_def, auto dest: evidence_subsets)

lemma dependency_failure_sound:
  "sound_rule evidence Cause_DOWNSTREAM_DEPENDENCY_FAILURE (dependency_failure ext event evidence)"
  unfolding dependency_failure_def Let_def by (intro rule_steps, simp add: points_def, simp add: points_def, auto)

lemma database_slowdown_sound: "sound_rule evidence Cause_DATABASE_SLOWDOWN (database_slowdown ext event evidence)"
  unfolding database_slowdown_def Let_def by (intro rule_steps, simp add: points_def, simp add: points_def, auto)

lemma single_instance_sound:
  "sound_rule evidence Cause_SINGLE_INSTANCE_ISSUE (single_instance_issue ext event evidence)"
proof -
  have guard: "sound_rule evidence cause (if b then Inr None else and_then r (\<lambda>one. if \<not> one then Inr None
        else Inr (Some (make_hypothesis ext cause summary score items actions))))"
    if "0 \<le> score" "score \<le> 15" "set items \<subseteq> set evidence" for cause b r summary score items actions
    using sound_and_then [of r evidence cause] sound_guard [OF that] by simp
  show ?thesis
    unfolding single_instance_issue_def Let_def
    by (intro rule_steps guard, simp add: points_def, simp add: points_def, auto dest: evidence_subsets)
qed

lemma strong_rules_sound:
  "sound_rule evidence Cause_RESOURCE_SATURATION (resource_saturation ext evidence)"
  "sound_rule evidence Cause_NETWORK_FAULT (network_fault ext evidence)"
  "sound_rule evidence Cause_PROCESS_OR_CONTAINER_FAILURE (process_failure ext evidence)"
  by (simp_all add: resource_saturation_def network_fault_def process_failure_def strong_signal_rule_sound)

lemmas rules_sound = deployment_regression_sound traffic_spike_sound dependency_failure_sound
  database_slowdown_sound single_instance_sound strong_rules_sound

section \<open>The list of hypotheses\<close>

text \<open>\<open>run_rules\<close> keeps the order of the rules.\<close>

lemma run_rules_causes:
  "run_rules rs = Inr hs \<Longrightarrow> list_all2 (sound_rule evidence) cs rs \<Longrightarrow>
   subseq (map hy_cause_type hs) cs \<and> (\<forall>h \<in> set hs. \<exists>r \<in> set rs. r = Inr (Some h))"
proof (induction rs arbitrary: hs cs)
  case (Cons r rs)
  from Cons.prems(2) obtain c cs' where cs: "cs = c # cs'" "sound_rule evidence c r" "list_all2 (sound_rule evidence) cs' rs"
    by (auto simp: list_all2_Cons2)
  from Cons.prems(1) obtain o1 hs' where o1: "r = Inr o1" "run_rules rs = Inr hs'"
    "hs = (case o1 of None \<Rightarrow> hs' | Some x \<Rightarrow> x # hs')"
    by (auto simp: result_simps)
  note IH = Cons.IH [OF o1(2) cs(3)]
  show ?case
  proof (cases o1)
    case None
    then show ?thesis using IH o1 cs(1) by auto
  next
    case (Some h)
    then have "hy_cause_type h = c" using cs(2) o1(1) by (simp add: sound_rule_def)
    then show ?thesis using IH o1 cs(1) Some by auto
  qed
qed simp

definition rule_causes :: "cause_type list" where
  "rule_causes = [Cause_DEPLOYMENT_REGRESSION, Cause_TRAFFIC_SPIKE, Cause_DOWNSTREAM_DEPENDENCY_FAILURE,
     Cause_DATABASE_SLOWDOWN, Cause_SINGLE_INSTANCE_ISSUE, Cause_RESOURCE_SATURATION, Cause_NETWORK_FAULT,
     Cause_PROCESS_OR_CONTAINER_FAILURE]"

lemma rca_rules_sound: "list_all2 (sound_rule evidence) rule_causes (rca_rules ext event evidence)"
  by (simp add: rule_causes_def rca_rules_def rules_sound)

lemma subseq_distinct: "subseq xs ys \<Longrightarrow> distinct ys \<Longrightarrow> distinct xs"
  by (induction rule: list_emb.induct) (auto dest: list_emb_set)

lemma rule_causes_facts: "distinct rule_causes" "Cause_UNKNOWN \<notin> set rule_causes"
  by (simp_all add: rule_causes_def)

section \<open>Supported causes\<close>

lemma evidence_ids_simps [simp]: "distinct (evidence_ids es)" "set (evidence_ids es) = ei_id ` set es"
  by (simp_all add: evidence_ids_def)

lemma supported_guard:
  "set items \<subseteq> set evidence \<Longrightarrow> (\<And>e. e \<in> set items \<Longrightarrow> ei_provider e \<in> set (cause_support_providers cause)) \<Longrightarrow>
   (\<not> b \<Longrightarrow> items \<noteq> []) \<Longrightarrow>
   supported_rule evidence cause (if b then Inr None else Inr (Some (make_hypothesis ext cause summary score items actions)))"
  by (auto simp: supported_rule_def)

lemma supported_and_then:
  "(\<And>x. r = Inr x \<Longrightarrow> supported_rule evidence cause (f x)) \<Longrightarrow> supported_rule evidence cause (and_then r f)"
  by (cases r) (simp_all add: supported_rule_def)

lemma traffic_spike_supported: "supported_rule evidence Cause_TRAFFIC_SPIKE (traffic_spike ext event evidence)"
  unfolding traffic_spike_def Let_def
  by (intro supported_and_then supported_guard)
     (auto dest!: filter_each_Inr simp: result_simps metric_trend_def)

lemma dependency_failure_supported:
  "supported_rule evidence Cause_DOWNSTREAM_DEPENDENCY_FAILURE (dependency_failure ext event evidence)"
  unfolding dependency_failure_def Let_def by (intro supported_guard) auto

lemma single_instance_supported:
  "supported_rule evidence Cause_SINGLE_INSTANCE_ISSUE (single_instance_issue ext event evidence)"
proof -
  have guard: "supported_rule evidence cause (if b then Inr None else and_then r (\<lambda>one. if \<not> one then Inr None
        else Inr (Some (make_hypothesis ext cause summary score items actions))))"
    if "set items \<subseteq> set evidence" "\<And>e. e \<in> set items \<Longrightarrow> ei_provider e \<in> set (cause_support_providers cause)"
      "\<not> b \<Longrightarrow> items \<noteq> []" for cause b r summary score items actions
  proof (cases b)
    case False
    then show ?thesis
      using that by (auto intro!: supported_and_then supported_guard)
  qed (simp add: supported_rule_def)
  show ?thesis
    unfolding single_instance_issue_def Let_def
    by (intro supported_and_then guard) (auto dest!: filter_each_Inr simp: result_simps metric_trend_def)
qed

text \<open>A supported hypothesis passes the contract check over evidence with distinct ids.\<close>

lemma evidence_by_id_self:
  "distinct (map ei_id es) \<Longrightarrow> e \<in> set es \<Longrightarrow> dict_get (evidence_by_id es) (ei_id e) = Some e"
proof -
  assume d: "distinct (map ei_id es)" and e: "e \<in> set es"
  then obtain f where f: "first_match (\<lambda>x. ei_id x = ei_id e) (rev es) = Some f"
    using first_match_None [of "\<lambda>x. ei_id x = ei_id e" "rev es"] by auto
  from first_match_Some [OF f] have "f \<in> set es" "ei_id f = ei_id e" by simp_all
  then have "f = e" using d e unfolding distinct_map by (metis inj_onD)
  with f show ?thesis by (simp add: evidence_by_id_get)
qed

lemma supported_validates:
  assumes "supported_rule evidence cause (Inr (Some h))" and "distinct (map ei_id evidence)"
  shows "validate_hypothesis (evidence_by_id evidence) h = Inr ()"
proof -
  obtain items where i: "items \<noteq> []" "set items \<subseteq> set evidence" "hy_supporting_evidence_ids h = evidence_ids items"
    "\<forall>e \<in> set items. ei_provider e \<in> set (cause_support_providers cause)"
    "hy_cause_type h = cause" "hy_contradicting_evidence_ids h = []"
    using assms(1) by (auto simp: supported_rule_def)
  have "evidence_ids items \<noteq> []" using i(1) evidence_ids_simps(2) [of items] by (metis image_is_empty list.set(1) set_empty)
  moreover have "require_usable_references (evidence_by_id evidence) (evidence_ids items) = Inr ()"
    using i(2) evidence_by_id_self [OF assms(2)] unfolding require_usable_references_Inr by fastforce
  moreover have "the (dict_get (evidence_by_id evidence) (ei_id e)) = e" if "e \<in> set items" for e
    using evidence_by_id_self [OF assms(2)] i(2) that by (metis option.sel subsetD)
  then have "require_support_of (evidence_by_id evidence) (Some cause) (hy_id h) (evidence_ids items) = Inr ()"
    using i(4) unfolding require_support_of_Inr by auto
  ultimately show ?thesis
    using i(3,5,6) by (simp add: validate_hypothesis_def Let_def result_eval)
qed

section \<open>The analysis\<close>

lemma analyze_cases:
  assumes "analyze ext event evidence = Inr hs"
  obtains "hs = [unknown_hypothesis ext]"
    "run_rules (rca_rules ext event (filter analyzable evidence)) = Inr []"
  | hs' where "run_rules (rca_rules ext event (filter analyzable evidence)) = Inr hs'" "hs' \<noteq> []"
      "hs = sort_key hypothesis_key hs'"
  using assms by (auto simp: analyze_def result_simps split: if_splits)

lemma sound_rule_facts:
  assumes "sound_rule evidence cause (Inr (Some h))"
  shows "hy_cause_type h = cause" "unit_interval (hy_confidence h)" "hy_contradicting_evidence_ids h = []"
    "distinct (hy_supporting_evidence_ids h)" "set (hy_supporting_evidence_ids h) \<subseteq> ei_id ` set evidence"
  using assms by (simp add: sound_rule_def, simp add: sound_rule_def, simp add: sound_rule_def,
    force simp: sound_rule_def, use assms in \<open>metis sound_rule_def evidence_ids_simps(2) image_mono\<close>)

lemma rule_origin:
  assumes "list_all2 (sound_rule evidence) causes rules" and "Inr (Some h) \<in> set rules"
  shows "\<exists>cause \<in> set causes. sound_rule evidence cause (Inr (Some h))"
proof -
  obtain i where "i < length rules" "rules ! i = Inr (Some h)" using assms(2) by (metis in_set_conv_nth)
  then show ?thesis using assms(1) by (metis list_all2_conv_all_nth nth_mem)
qed

lemma supported_origin:
  assumes rule: "Inr (Some h) \<in> set (rca_rules ext event evidence)"
    and cause: "hy_cause_type h \<in> {Cause_TRAFFIC_SPIKE, Cause_DOWNSTREAM_DEPENDENCY_FAILURE, Cause_SINGLE_INSTANCE_ISSUE}"
  shows "supported_rule evidence (hy_cause_type h) (Inr (Some h))"
proof -
  have cause_of: "sound_rule evidence c r \<Longrightarrow> Inr (Some h) = r \<Longrightarrow> hy_cause_type h = c" for c r
    by (metis sound_rule_facts(1))
  note sounds = rules_sound(1-5) [of evidence ext event, THEN cause_of] rules_sound(6-8) [of evidence ext, THEN cause_of]
  from rule show ?thesis
    unfolding rca_rules_def list.set
    by (elim insertE emptyE) (use cause in \<open>auto dest: sounds intro: traffic_spike_supported dependency_failure_supported single_instance_supported\<close>)
qed

lemma subseq_set_mono:
  assumes "subseq xs ys"
  shows "set xs \<subseteq> set ys"
  using assms by (induction rule: list_emb.induct) auto

text \<open>C30: The analyzer's hypotheses are ranked, distinct and refer only to usable evidence.  There
  is always at least one; each cause occurs once; they are sorted by descending confidence;
  every confidence is in the unit interval; the references are distinct and name successful
  evidence; and for unknown causes, traffic spikes, dependency failures and single-instance
  issues the contract check that follows the analysis accepts the hypothesis.\<close>

theorem analysis_respects_contract:
  assumes run: "analyze ext event evidence = Inr hs" and ids: "distinct (map ei_id evidence)"
  shows "hs \<noteq> [] \<and> distinct (map hy_cause_type hs) \<and> sorted (map hypothesis_key hs)
    \<and> (\<forall>h \<in> set hs. unit_interval (hy_confidence h) \<and> hy_contradicting_evidence_ids h = []
        \<and> distinct (hy_supporting_evidence_ids h)
        \<and> set (hy_supporting_evidence_ids h) \<subseteq> ei_id ` set (filter analyzable evidence)
        \<and> (hy_cause_type h \<in> {Cause_UNKNOWN, Cause_TRAFFIC_SPIKE, Cause_DOWNSTREAM_DEPENDENCY_FAILURE,
             Cause_SINGLE_INSTANCE_ISSUE} \<longrightarrow>
           validate_hypothesis (evidence_by_id (filter analyzable evidence)) h = Inr ()))"
  using run
proof (cases rule: analyze_cases)
  case 1
  have "fl (2 / 10) = fl (of_int 2 / 10)" by simp
  have "unit_interval (float_rat (fl (2 / 10)))" by code_simp
  with 1(1) show ?thesis
    by (simp add: unknown_hypothesis_def validate_hypothesis_def require_usable_references_def Let_def result_eval)
next
  case (2 hs')
  let ?es = "filter analyzable evidence"
  note c = run_rules_causes [OF 2(1) rca_rules_sound]
  have origin: "Inr (Some h) \<in> set (rca_rules ext event ?es)" if m: "h \<in> set hs'" for h using c m by metis
  have distinct: "distinct (map hy_cause_type hs')" using c subseq_distinct rule_causes_facts(1) by blast
  have each: "unit_interval (hy_confidence h) \<and> hy_contradicting_evidence_ids h = []
      \<and> distinct (hy_supporting_evidence_ids h) \<and> set (hy_supporting_evidence_ids h) \<subseteq> ei_id ` set ?es
      \<and> hy_cause_type h \<noteq> Cause_UNKNOWN" if m: "h \<in> set hs'" for h
  proof -
    have "hy_cause_type h \<in> set (map hy_cause_type hs')" using m by simp
    then have "hy_cause_type h \<in> set rule_causes"
      using conjunct1 [OF c, THEN subseq_set_mono] by blast
    moreover obtain cause where "sound_rule ?es cause (Inr (Some h))"
      using rule_origin [OF rca_rules_sound origin [OF m]] by blast
    note sound_rule_facts [OF this]
    ultimately show ?thesis using rule_causes_facts(2) by metis
  qed
  have valid: "validate_hypothesis (evidence_by_id ?es) h = Inr ()"
    if "h \<in> set hs'" "hy_cause_type h \<in> {Cause_TRAFFIC_SPIKE, Cause_DOWNSTREAM_DEPENDENCY_FAILURE, Cause_SINGLE_INSTANCE_ISSUE}" for h
    using supported_validates [OF supported_origin [OF origin [OF that(1)] that(2)]] ids
    by (simp add: distinct_map inj_on_def)
  have same: "set hs = set hs'" using 2(3) by simp
  have "distinct (map hy_cause_type hs)"
    unfolding 2(3) using distinct by (metis mset_eq_imp_distinct_iff mset_map mset_sort)
  moreover have "hs \<noteq> []" "sorted (map hypothesis_key hs)" using 2(2) same by (force, simp add: 2(3))
  moreover have "hy_cause_type h = Cause_UNKNOWN \<longrightarrow> h \<notin> set hs" for h using each same by blast
  ultimately show ?thesis using each valid unfolding same by blast
qed

text \<open>C31: A slow database reported without database metrics makes the analysis fail its own
  contract.  When the event says that the database is slow and no usable metric carries a
  \<open>db_p95\<close>, the analyzer proposes a database slowdown without any supporting evidence, and
  the check that follows it raises.\<close>

theorem slow_database_fails_contract:
  assumes run: "analyze ext event evidence = Inr hs"
    and slow: "signal_is event ''database'' ''slow''"
    and none: "\<not> list_ex (\<lambda>e. metric_trend e \<and> payload_get e ''db_p95'' \<noteq> PNone) (filter analyzable evidence)"
  shows "validate_hypotheses (filter analyzable evidence) hs \<noteq> Inr ()"
proof -
  let ?es = "filter analyzable evidence"
  have "filter (\<lambda>e. metric_trend e \<and> payload_get e ''db_p95'' \<noteq> PNone) ?es = []"
    using none by (simp add: list_ex_iff filter_empty_conv)
  then obtain h where h: "database_slowdown ext event ?es = Inr (Some h)" "hy_cause_type h = Cause_DATABASE_SLOWDOWN"
    "hy_supporting_evidence_ids h = []"
    using slow by (simp add: database_slowdown_def Let_def evidence_ids_def dedupe_def)
  obtain hs' where hs': "run_rules (rca_rules ext event ?es) = Inr hs'" using run by (auto simp: analyze_def result_simps)
  then have "h \<in> set hs'"
    using h(1) by (auto simp: rca_rules_def result_simps split: option.splits)
  then have "h \<in> set hs" using run hs' by (auto simp: analyze_def)
  moreover have "validate_hypothesis by_id h \<noteq> Inr ()" for by_id
    using h(2,3) by (simp add: validate_hypothesis_def Let_def result_simps)
  ultimately show ?thesis by (auto simp: validate_hypotheses_def result_simps)
qed

section \<open>Samples\<close>

definition sample_rca :: rca_ext where
  "sample_rca = \<lparr>ra_id = (\<lambda>c. ''hyp-'' @ cause_type_value c), ra_shown = (\<lambda>_. '''')\<rparr>"

definition sample_event :: "(string, string) dict \<Rightarrow> incident_event" where
  "sample_event signals =
     \<lparr>ie_source = Source_MANUAL, ie_service = ''api'', ie_environment = ''prod'', ie_severity = Severity_WARNING,
      ie_title = ''slow'', ie_description = ''slow'', ie_started_at = 0, ie_time_window_minutes = 5,
      ie_signals = signals\<rparr>"

definition rca_item :: evidence_item where
  "rca_item =
     \<lparr>ei_id = ''e1'', ei_provider = EProv_LOG, ei_kind = EKind_LOG_PATTERN, ei_timestamp = 1, ei_summary = ''t'',
      ei_payload = [(''exception'', PStr ''TimeoutException'')], ei_confidence = 1, ei_status = EStat_SUCCESS,
      ei_error_message = None, ei_scope = None, ei_provenance = None, ei_runtime_run_id = None\<rparr>"

lemma sample_analysis:
  "map_option (map (\<lambda>h. (hy_cause_type h, hy_supporting_evidence_ids h)))
     (case analyze sample_rca (sample_event [(''database'', ''slow'')]) [rca_item] of Inl e \<Rightarrow> None | Inr hs \<Rightarrow> Some hs)
   = Some [(Cause_DOWNSTREAM_DEPENDENCY_FAILURE, [''e1'']), (Cause_DATABASE_SLOWDOWN, [])]"
  by code_simp

theorem analysis_respects_contract_witness:
  "\<exists>hs. analyze sample_rca (sample_event [(''database'', ''slow'')]) [rca_item] = Inr hs \<and> hs \<noteq> []
     \<and> sorted (map hypothesis_key hs)
     \<and> validate_hypothesis (evidence_by_id (filter analyzable [rca_item])) (hd hs) = Inr ()"
proof -
  obtain hs where hs: "analyze sample_rca (sample_event [(''database'', ''slow'')]) [rca_item] = Inr hs"
    "map hy_cause_type hs = [Cause_DOWNSTREAM_DEPENDENCY_FAILURE, Cause_DATABASE_SLOWDOWN]"
    using sample_analysis by (auto split: sum.splits)
  then have "hs \<noteq> []" "hy_cause_type (hd hs) = Cause_DOWNSTREAM_DEPENDENCY_FAILURE" by auto
  moreover have "distinct (map ei_id [rca_item])" by simp
  ultimately show ?thesis using analysis_respects_contract [OF hs(1)] hs(1) by auto
qed

theorem slow_database_fails_contract_witness:
  "\<exists>hs. analyze sample_rca (sample_event [(''database'', ''slow'')]) [rca_item] = Inr hs
     \<and> validate_hypotheses (filter analyzable [rca_item]) hs \<noteq> Inr ()"
proof -
  obtain hs where hs: "analyze sample_rca (sample_event [(''database'', ''slow'')]) [rca_item] = Inr hs"
    using sample_analysis by (auto split: sum.splits)
  moreover have "signal_is (sample_event [(''database'', ''slow'')]) ''database'' ''slow''"
    by (simp add: signal_is_def sample_event_def)
  moreover have "\<not> list_ex (\<lambda>e. metric_trend e \<and> payload_get e ''db_p95'' \<noteq> PNone) (filter analyzable [rca_item])"
    by (simp add: rca_item_def metric_trend_def)
  ultimately show ?thesis using slow_database_fails_contract by blast
qed

end
