(* ===== verification/Token_Estimates.thy ===== *)
theory Token_Estimates
  imports Payload_Access Canonical_Json Domain_Enums
begin

text \<open>
  Token accounting of the V11 runtime (\<open>diagnosis/v11_runtime.py\<close>): the provider-neutral
  estimate of a request, its calibration by the usage of earlier requests of the same role,
  the expected cost of a request, and the accumulator that counts every usage event once.

  Texts are lists of code points here, because the estimate tells CJK from other characters.
\<close>

section \<open>Estimates\<close>

type_synonym code_points = "nat list"

definition code_points_of :: "string \<Rightarrow> code_points" where
  "code_points_of = map code"

definition is_cjk_character :: "nat \<Rightarrow> bool" where
  "is_cjk_character c =
     (0x2E80 \<le> c \<and> c \<le> 0x2FFF \<or> 0x3040 \<le> c \<and> c \<le> 0x30FF \<or> 0x3400 \<le> c \<and> c \<le> 0x4DBF
      \<or> 0x4E00 \<le> c \<and> c \<le> 0x9FFF \<or> 0xAC00 \<le> c \<and> c \<le> 0xD7AF \<or> 0xF900 \<le> c \<and> c \<le> 0xFAFF)"

text \<open>The code points of \<open>{}[],:"\<close> and of the backslash.\<close>

definition json_punctuation :: "nat list" where
  "json_punctuation = [123, 125, 91, 93, 44, 58, 34, 92]"

record char_counts =
  cc_ascii_plain :: int
  cc_cjk :: int
  cc_non_ascii :: int
  cc_json_punctuation :: int

definition count_char :: "nat \<Rightarrow> char_counts \<Rightarrow> char_counts" where
  "count_char c n =
     (if is_cjk_character c then n\<lparr>cc_cjk := cc_cjk n + 1\<rparr>
      else if 0x7F < c then n\<lparr>cc_non_ascii := cc_non_ascii n + 1\<rparr>
      else if c \<in> set json_punctuation then n\<lparr>cc_json_punctuation := cc_json_punctuation n + 1\<rparr>
      else n\<lparr>cc_ascii_plain := cc_ascii_plain n + 1\<rparr>)"

definition count_chars :: "code_points \<Rightarrow> char_counts" where
  "count_chars text = fold count_char text
     \<lparr>cc_ascii_plain = 0, cc_cjk = 0, cc_non_ascii = 0, cc_json_punctuation = 0\<rparr>"

definition estimate_text_tokens :: "code_points \<Rightarrow> int" where
  "estimate_text_tokens text =
     (let n = count_chars text in
      max 1 ((cc_ascii_plain n + 3) div 4 + (cc_cjk n * 3 + 1) div 2 + cc_non_ascii n * 2
        + (cc_json_punctuation n + 1) div 2))"

text \<open>The counts of the audit record.\<close>

definition count_audit :: "code_points \<Rightarrow> payload" where
  "count_audit text =
     (let n = count_chars text in
      [(''chars'', PInt (int (length text))), (''ascii_plain_chars'', PInt (cc_ascii_plain n)),
       (''cjk_chars'', PInt (cc_cjk n)), (''non_ascii_chars'', PInt (cc_non_ascii n)),
       (''json_punctuation_chars'', PInt (cc_json_punctuation n))])"

text \<open>
  The request is estimated with its context, serialised by \<open>json.dumps(ensure_ascii=False,
  sort_keys=True)\<close> or by \<open>repr\<close> when that fails; the serialisation is a parameter.
\<close>

definition put_items :: "('k \<times> 'v) list \<Rightarrow> ('k, 'v) dict \<Rightarrow> ('k, 'v) dict" where
  "put_items items d = foldl (\<lambda>acc kv. dict_put acc (fst kv) (snd kv)) d items"

definition component_audit :: "(pyval \<Rightarrow> code_points) \<Rightarrow> payload \<Rightarrow> string \<Rightarrow> payload" where
  "component_audit dumps context part =
     (case dict_get context part of
        None \<Rightarrow> []
      | Some v \<Rightarrow>
          let text = dumps v; n = count_chars text in
          [(part @ ''_chars'', PInt (int (length text))),
           (part @ ''_estimated_tokens'', PInt (estimate_text_tokens text)),
           (part @ ''_cjk_chars'', PInt (cc_cjk n)),
           (part @ ''_json_punctuation_chars'', PInt (cc_json_punctuation n))])"

definition estimate_model_input ::
    "(pyval \<Rightarrow> code_points) \<Rightarrow> code_points \<Rightarrow> payload \<Rightarrow> int \<times> payload" where
  "estimate_model_input dumps prompt context =
     (let context_json = dumps (pdict context); total = prompt @ context_json;
          estimated = estimate_text_tokens total in
      (estimated, put_items
        ([(''method'', PStr ''unicode-json-envelope-v2''), (''estimated_tokens'', PInt estimated),
          (''instruction_chars'', PInt (int (length prompt))),
          (''context_chars'', PInt (int (length context_json))),
          (''total_chars'', PInt (int (length total))),
          (''history_chars_removed'', get_or context ''history_chars_removed'' (PInt 0))]
         @ count_audit total
         @ concat (map (component_audit dumps context) [''input'', ''tools'', ''output_schema''])) []))"

section \<open>Calibration\<close>

text \<open>Per role: estimated tokens, actual tokens and number of samples.\<close>

type_synonym calibration = "(string, int \<times> int \<times> int) dict"

definition basis_points :: int where "basis_points = 10000"

definition calibration_factor :: "int \<Rightarrow> int \<Rightarrow> int" where
  "calibration_factor estimated_total actual_total =
     (if 0 < estimated_total \<and> 0 < actual_total
      then max 5000 ((actual_total * basis_points div estimated_total * 5 + 4 - 1) div 4)
      else basis_points)"

definition calibrated_input_estimate :: "calibration \<Rightarrow> string \<Rightarrow> int \<Rightarrow> payload \<Rightarrow> int \<times> payload" where
  "calibrated_input_estimate calib actor raw audit =
     (let (estimated_total, actual_total, samples) = (case dict_get calib actor of Some b \<Rightarrow> b | None \<Rightarrow> (0, 0, 0));
          factor = calibration_factor estimated_total actual_total;
          calibrated = max 1 ((raw * factor + basis_points - 1) div basis_points) in
      (calibrated, put_items
        [(''raw_estimated_tokens'', PInt raw), (''estimated_tokens'', PInt calibrated),
         (''calibration_factor_basis_points'', PInt factor), (''calibration_samples'', PInt samples)] audit))"

definition record_input_estimate_calibration :: "string \<Rightarrow> int \<Rightarrow> int option \<Rightarrow> calibration \<Rightarrow> calibration" where
  "record_input_estimate_calibration actor raw actual calib =
     (case actual of
        None \<Rightarrow> calib
      | Some n \<Rightarrow>
          if raw \<le> 0 \<or> n \<le> 0 then calib
          else
            let (e, a, k) = (case dict_get calib actor of Some b \<Rightarrow> b | None \<Rightarrow> (0, 0, 0)) in
            dict_put calib actor (e + raw, a + n, k + 1))"

section \<open>Expected cost\<close>

text \<open>Per reservation: actor, input tokens, output tokens.\<close>

type_synonym cost_samples = "(string, string \<times> int \<times> int) dict"

definition record_request_cost :: "pyval \<Rightarrow> pyval \<Rightarrow> pyval \<Rightarrow> payload \<Rightarrow> cost_samples \<Rightarrow> cost_samples" where
  "record_request_cost actor input output pl samples =
     (case (get_or pl ''actual_input_tokens'' input, output, get_or_none pl ''reservation_id'', actor) of
        (PInt i, PInt out, PStr rid, PStr act) \<Rightarrow>
          if get_or_none pl ''usage_known'' = PBool True
             \<and> get_or_none pl ''reservation_status'' = PStr ''completed'' \<and> 0 < i \<and> 0 \<le> out
          then dict_put samples rid (act, i, out) else samples
      | _ \<Rightarrow> samples)"

definition output_token_limit :: "string \<Rightarrow> int" where
  "output_token_limit actor = (if actor = execution_actor_value Actor_CRITIC then 16384 else 8192)"

definition expected_request_tokens :: "cost_samples \<Rightarrow> string \<Rightarrow> int \<Rightarrow> int" where
  "expected_request_tokens samples actor input_hint =
     (let own = filter (\<lambda>v. fst v = actor) (dict_values samples);
          input_cost = (if own = [] then input_hint
            else max input_hint (sum_list (map (\<lambda>v. fst (snd v)) own) div int (length own)));
          output_cost = (if own = [] then 0 else Max (set (map (\<lambda>v. snd (snd v)) own)));
          is_critic = (actor = execution_actor_value Actor_CRITIC) in
      (input_cost * 5 + 3) div 4
        + min (output_token_limit actor) (max (if is_critic then 4096 else 2048) (2 * output_cost)))"

section \<open>Usage\<close>

text \<open>
  \<open>int(value or 0)\<close>, not below zero; a text or another object gives 0 when it is no integer.
  Texts are read by \<open>int\<close> on ASCII: optional sign and digits, single underscores between
  them.
\<close>

fun decimal_value :: "int \<Rightarrow> bool \<Rightarrow> string \<Rightarrow> int option" where
  "decimal_value acc after_digit [] = (if after_digit then Some acc else None)"
| "decimal_value acc after_digit (c # cs) =
     (if is_digit c then decimal_value (10 * acc + int (code c) - 48) True cs
      else if c = CHR ''_'' \<and> after_digit then decimal_value acc False cs
      else None)"

definition int_of_text :: "string \<Rightarrow> int option" where
  "int_of_text s =
     (case strip s of
        [] \<Rightarrow> None
      | c # cs \<Rightarrow>
          if c = CHR ''-'' then map_option uminus (decimal_value 0 False cs)
          else if c = CHR ''+'' then decimal_value 0 False cs
          else decimal_value 0 False (c # cs))"

fun token_value :: "pyval \<Rightarrow> int result" where
  "token_value (PInt i) = Inr (max 0 i)"
| "token_value (PBool b) = Inr (if b then 1 else 0)"
| "token_value (PFloat (Finite r)) = Inr (max 0 (if r < 0 then - \<lfloor>- r\<rfloor> else \<lfloor>r\<rfloor>))"
| "token_value (PFloat NaN) = Inr 0"
| "token_value (PFloat f) = Inl (OverflowError ''cannot convert float infinity to integer'')"
| "token_value (PStr s) = Inr (max 0 (case int_of_text s of Some i \<Rightarrow> i | None \<Rightarrow> 0))"
| "token_value v = Inr 0"

type_synonym usage_key = "string \<times> string \<times> string option \<times> int"

record usage_accumulator =
  ua_attempts :: "(int, int \<times> int) dict"
  ua_keys :: "usage_key list"
  ua_input :: int
  ua_output :: int

definition new_accumulator :: usage_accumulator where
  "new_accumulator = \<lparr>ua_attempts = [], ua_keys = [], ua_input = 0, ua_output = 0\<rparr>"

fun text_of :: "pyval \<Rightarrow> string option" where
  "text_of (PStr s) = Some s"
| "text_of _ = None"

definition known_failure_usage :: "string \<Rightarrow> string option \<Rightarrow> payload \<Rightarrow> bool" where
  "known_failure_usage status rstatus pl =
     (status = ''failed'' \<and> rstatus \<notin> {Some ''retrying'', Some ''deferred''}
      \<and> get_or_none pl ''usage_known'' \<noteq> PBool False
      \<and> (get_or_none pl ''usage_known'' = PBool True \<or> dict_get pl ''actual_input_tokens'' \<noteq> None))"

text \<open>The tokens one event stands for; \<open>None\<close> when it stands for none.\<close>

definition usage_tokens ::
    "string \<Rightarrow> string option \<Rightarrow> int \<Rightarrow> int \<Rightarrow> payload \<Rightarrow> (int \<times> int) option result" where
  "usage_tokens status rstatus input output pl =
     (if status = ''completed'' \<or> known_failure_usage status rstatus pl then
        and_then (token_value (get_or pl ''actual_input_tokens'' (PInt input)))
          (\<lambda>i. Inr (Some (i, max 0 output)))
      else if status = ''failed'' \<and> rstatus \<noteq> Some ''deferred'' then
        and_then (token_value (get_or_none pl ''input_estimate''))
          (\<lambda>i. Inr (Some (max (max 0 input) i, 0)))
      else Inr None)"

definition add_tokens :: "int \<times> int \<Rightarrow> int \<times> int \<Rightarrow> int \<times> int" where
  "add_tokens a b = (fst a + fst b, snd a + snd b)"

definition attempt_usage :: "int \<Rightarrow> usage_accumulator \<Rightarrow> int \<times> int" where
  "attempt_usage attempt acc = (case dict_get (ua_attempts acc) attempt of Some t \<Rightarrow> t | None \<Rightarrow> (0, 0))"

definition has_attempt_usage :: "int \<Rightarrow> usage_accumulator \<Rightarrow> bool" where
  "has_attempt_usage attempt acc = (dict_get (ua_attempts acc) attempt \<noteq> None)"

definition count_event :: "usage_key \<Rightarrow> bool \<Rightarrow> int \<times> int \<Rightarrow> usage_accumulator \<Rightarrow> usage_accumulator" where
  "count_event key known tokens acc =
     (let attempt = snd (snd (snd key));
          acc' = acc\<lparr>ua_keys := key # ua_keys acc,
                     ua_attempts := dict_put (ua_attempts acc) attempt (add_tokens (attempt_usage attempt acc) tokens)\<rparr> in
      if known then acc'\<lparr>ua_input := ua_input acc' + fst tokens, ua_output := ua_output acc' + snd tokens\<rparr>
      else acc')"

text \<open>
  The accumulator after an event and the tokens to add to the totals of the runtime; \<open>None\<close>
  where the event was counted before or stands for nothing.
\<close>

definition record_usage ::
    "string \<Rightarrow> int \<Rightarrow> int \<Rightarrow> payload \<Rightarrow> usage_accumulator \<Rightarrow> (usage_accumulator \<times> (int \<times> int) option) result" where
  "record_usage status input output pl acc =
     (case (text_of (get_or_none pl ''reservation_id''), as_int (get_or_none pl ''attempt'')) of
        (Some rid, Some attempt) \<Rightarrow>
          let rstatus = text_of (get_or_none pl ''reservation_status''); key = (rid, status, rstatus, attempt);
              known = (status = ''completed'' \<or> known_failure_usage status rstatus pl) in
          and_then (usage_tokens status rstatus input output pl) (\<lambda>ts.
            case ts of
              None \<Rightarrow> Inr (acc, None)
            | Some tokens \<Rightarrow>
                if key \<in> set (ua_keys acc) then Inr (acc, None)
                else Inr (count_event key known tokens acc, Some (if known then tokens else (0, 0))))
      | _ \<Rightarrow> Inr (acc, None))"

definition record_fallback :: "int \<Rightarrow> int \<Rightarrow> int \<Rightarrow> usage_accumulator \<Rightarrow> usage_accumulator \<times> (int \<times> int) option" where
  "record_fallback attempt input output acc =
     (if has_attempt_usage attempt acc then (acc, None)
      else
        let tokens = (max 0 input, max 0 output) in
        (acc\<lparr>ua_keys := (''attempt-'' @ show_int attempt, ''fallback'', None, attempt) # ua_keys acc,
            ua_attempts := dict_put (ua_attempts acc) attempt tokens,
            ua_input := ua_input acc + fst tokens, ua_output := ua_output acc + snd tokens\<rparr>, Some tokens))"

section \<open>Facts\<close>

lemma estimate_text_tokens_positive: "1 \<le> estimate_text_tokens text"
  by (simp add: estimate_text_tokens_def Let_def)

lemma calibrated_positive: "1 \<le> fst (calibrated_input_estimate calib actor raw audit)"
  by (simp add: calibrated_input_estimate_def Let_def split: prod.splits)

lemma token_value_nonneg: "token_value v = Inr n \<Longrightarrow> 0 \<le> n"
  by (cases v rule: token_value.cases) (auto split: if_splits)

text \<open>Counting the same event again changes nothing.\<close>

lemma count_event_keys [simp]: "ua_keys (count_event key known tokens acc) = key # ua_keys acc"
  by (simp add: count_event_def Let_def)

lemma record_usage_idempotent:
  assumes "record_usage status input output pl acc = Inr (acc', delta)"
  shows "record_usage status input output pl acc' = Inr (acc', None)"
proof (cases "text_of (get_or_none pl ''reservation_id'')")
  case (Some rid)
  let ?rs = "text_of (get_or_none pl ''reservation_status'')"
  show ?thesis
  proof (cases "as_int (get_or_none pl ''attempt'')")
    case n: (Some attempt)
    show ?thesis
    proof (cases "usage_tokens status ?rs input output pl")
      case t: (Inr ts)
      show ?thesis
      proof (cases ts)
        case tokens: (Some tk)
        let ?key = "(rid, status, ?rs, attempt)"
        show ?thesis
          using assms by (cases "?key \<in> set (ua_keys acc)") (auto simp: record_usage_def Let_def Some n t tokens)
      qed (use assms in \<open>auto simp: record_usage_def Let_def Some n t\<close>)
    qed (use assms in \<open>auto simp: record_usage_def Let_def Some n\<close>)
  qed (use assms in \<open>auto simp: record_usage_def Some\<close>)
qed (use assms in \<open>auto simp: record_usage_def\<close>)

end
