(* ===== verification/Token_Ledger.thy ===== *)
theory Token_Ledger
  imports Token_Estimates
begin

text \<open>
  The token budget of the V11 runtime (\<open>diagnosis/v11_runtime.py\<close>): the reservations a model
  request takes before it is sent, the deferral of reservations that wait for a retry, the
  settlement of a request, and the history of request events that names a reservation again.

  The budget lock makes a reservation and a settlement atomic.  Each is an operation on the
  state of the runtime that may raise; what was written before the raise stays.  The callback
  that persists a model event, the durable turn counter and the JSON functions are
  parameters; a persisted event is appended to \<open>ts_emitted\<close>.
\<close>

section \<open>State\<close>

record reservation =
  rs_output_cap :: int
  rs_input_estimate :: int
  rs_reserved_total :: int
  rs_audit :: payload
  rs_status :: string

record request_event =
  re_reservation :: string
  re_status :: "string option"

record model_event =
  me_execution :: string
  me_status :: string
  me_actor :: string
  me_input :: int
  me_output :: int
  me_payload :: payload

record token_state =
  ts_remaining :: "int option"
  ts_turns :: "int option"
  ts_reservations :: "(string, reservation) dict"
  ts_settled :: "string list"
  ts_history :: "(string \<times> int, request_event list) dict"
  ts_calibration :: calibration
  ts_costs :: cost_samples
  ts_accumulators :: "(string, usage_accumulator) dict"
  ts_input_tokens :: int
  ts_output_tokens :: int
  ts_inflight :: "string list"
  ts_emitted :: "model_event list"

record token_config =
  tc_turns_enabled :: bool
  tc_max_turns :: int
  tc_max_investigators :: int
  tc_max_rounds :: int
  tc_max_tool_calls :: int
  tc_active_sessions :: nat
  tc_tool_sessions :: "(string, int) dict"   \<comment> \<open>remaining tool calls by logical call\<close>
  tc_rounds :: "(string, int) dict"
  tc_dumps :: "pyval \<Rightarrow> string"               \<comment> \<open>\<open>_serialized_value\<close>\<close>
  tc_render :: "pyval \<Rightarrow> string"              \<comment> \<open>\<open>json.dumps(ensure_ascii=False)\<close>\<close>
  tc_loads :: "string \<Rightarrow> pyval option"
  tc_persist :: "token_state \<Rightarrow> model_event \<Rightarrow> py_error option"
  tc_turn :: "(token_state \<Rightarrow> pyval result) option"
  tc_cancelled :: "token_state \<Rightarrow> model_event \<Rightarrow> bool"

abbreviation contract_failure :: "string \<Rightarrow> ('s, 'a) op" where
  "contract_failure m \<equiv> (\<lambda>s. (s, Inl (V11RuntimeContractError m)))"

definition bind_op :: "('s, 'a) op \<Rightarrow> ('a \<Rightarrow> ('s, 'b) op) \<Rightarrow> ('s, 'b) op" where
  "bind_op f g s = (case f s of (s', Inl e) \<Rightarrow> (s', Inl e) | (s', Inr a) \<Rightarrow> g a s')"

text \<open>\<open>try: f() except Exception: undo(); raise\<close>; a cancellation is no \<open>Exception\<close>.\<close>

definition undo_on_error :: "('s, 'a) op \<Rightarrow> ('s \<Rightarrow> 's) \<Rightarrow> ('s, 'a) op" where
  "undo_on_error f undo s =
     (case f s of
        (s', Inl e) \<Rightarrow> (if e = CancelledError then s' else undo s', Inl e)
      | (s', Inr a) \<Rightarrow> (s', Inr a))"

section \<open>Request events\<close>

text \<open>\<open>text.rsplit(marker, 1)[1]\<close> when the marker occurs.\<close>

fun after_last :: "string \<Rightarrow> string \<Rightarrow> string option" where
  "after_last marker [] = None"
| "after_last marker (c # cs) =
     (case after_last marker cs of
        Some t \<Rightarrow> Some t
      | None \<Rightarrow> if take (length marker) (c # cs) = marker then Some (drop (length marker) (c # cs)) else None)"

definition request_index_from_reservation_id :: "string \<Rightarrow> int option" where
  "request_index_from_reservation_id rid =
     (case after_last '':request-'' rid of
        None \<Rightarrow> None
      | Some suffix \<Rightarrow>
          if suffix = [] \<or> \<not> list_all is_digit suffix then None
          else case decimal_value 0 False suffix of
              None \<Rightarrow> None
            | Some n \<Rightarrow> if 0 \<le> n - 1 then Some (n - 1) else None)"

definition default_request_status :: "string \<Rightarrow> string option" where
  "default_request_status status =
     dict_get [(''started'', ''reserved''), (''completed'', ''completed''), (''failed'', ''released'')] status"

text \<open>Which request an event belongs to, and the entry it leaves in the history.\<close>

definition request_entry :: "(string \<Rightarrow> string option) \<Rightarrow> string \<Rightarrow> payload \<Rightarrow> ((string \<times> int) \<times> request_event) option" where
  "request_entry dflt status pl =
     (case (text_of (get_or_none pl ''logical_call_id''), text_of (get_or_none pl ''reservation_id'')) of
        (Some call, Some rid) \<Rightarrow>
          (case (case as_strict_int (get_or_none pl ''request_index'') of
                   Some i \<Rightarrow> Some i | None \<Rightarrow> request_index_from_reservation_id rid) of
             None \<Rightarrow> None
           | Some i \<Rightarrow>
               if i < 0 then None
               else Some ((call, i), \<lparr>re_reservation = rid,
                 re_status = (case text_of (get_or_none pl ''reservation_status'') of
                   Some r \<Rightarrow> Some r | None \<Rightarrow> dflt status)\<rparr>))
      | _ \<Rightarrow> None)"

definition add_request_event ::
    "((string \<times> int) \<times> request_event) option \<Rightarrow> (string \<times> int, request_event list) dict
       \<Rightarrow> (string \<times> int, request_event list) dict" where
  "add_request_event entry history =
     (case entry of
        None \<Rightarrow> history
      | Some (key, ev) \<Rightarrow>
          dict_put history key ((case dict_get history key of Some es \<Rightarrow> es | None \<Rightarrow> []) @ [ev]))"

definition record_model_request_event :: "model_event \<Rightarrow> token_state \<Rightarrow> token_state" where
  "record_model_request_event ev s =
     s\<lparr>ts_history := add_request_event
        (request_entry default_request_status (me_status ev) (me_payload ev)) (ts_history s)\<rparr>"

text \<open>The history of a phase that resumes, from the stored model events in journal order.\<close>

record stored_model_event =
  sm_sequence :: int
  sm_type :: string
  sm_payload :: payload

definition stored_request_status :: "string \<Rightarrow> string option" where
  "stored_request_status event_type = dict_get
     [(''model.started'', ''reserved''), (''model.completed'', ''completed''), (''model.failed'', ''released'')]
     event_type"

definition load_model_request_history ::
    "stored_model_event list \<Rightarrow> (string \<times> int, request_event list) dict" where
  "load_model_request_history events =
     foldl (\<lambda>history e. add_request_event (request_entry stored_request_status (sm_type e) (sm_payload e)) history)
       [] (filter (\<lambda>e. sm_type e \<in> {''model.started'', ''model.completed'', ''model.failed''})
             (sort_key sm_sequence events))"

definition record_model_usage_event :: "model_event \<Rightarrow> (token_state, unit) op" where
  "record_model_usage_event ev s =
     (let pl = me_payload ev;
          s1 = (if me_status ev = ''completed''
                then s\<lparr>ts_costs := record_request_cost (PStr (me_actor ev)) (PInt (me_input ev))
                        (PInt (me_output ev)) pl (ts_costs s)\<rparr>
                else s) in
      case text_of (get_or_none pl ''logical_call_id'') of
        None \<Rightarrow> (s1, Inr ())
      | Some call \<Rightarrow>
          (case dict_get (ts_accumulators s1) call of
             None \<Rightarrow> (s1, Inr ())
           | Some acc \<Rightarrow>
               (case record_usage (me_status ev) (me_input ev) (me_output ev) pl acc of
                  Inl e \<Rightarrow> (s1, Inl e)
                | Inr (acc', delta) \<Rightarrow>
                    let d = (case delta of Some d \<Rightarrow> d | None \<Rightarrow> (0, 0)) in
                    (s1\<lparr>ts_accumulators := dict_put (ts_accumulators s1) call acc',
                        ts_input_tokens := ts_input_tokens s1 + fst d,
                        ts_output_tokens := ts_output_tokens s1 + snd d\<rparr>, Inr ()))))"

definition emit_model :: "token_config \<Rightarrow> model_event \<Rightarrow> (token_state, unit) op" where
  "emit_model cfg ev s =
     (case tc_persist cfg s ev of
        Some e \<Rightarrow> (s, Inl e)
      | None \<Rightarrow> record_model_usage_event ev
          (record_model_request_event ev (s\<lparr>ts_emitted := ts_emitted s @ [ev]\<rparr>)))"

definition model_turn_audit_payload :: "token_config \<Rightarrow> token_state \<Rightarrow> payload result" where
  "model_turn_audit_payload cfg s =
     (if \<not> tc_turns_enabled cfg then Inr []
      else case ts_turns s of
          None \<Rightarrow> Inl (V11RuntimeContractError ''V11 durable model turn budget is missing'')
        | Some n \<Rightarrow> Inr [(''model_turn_budget'', PInt (tc_max_turns cfg)), (''remaining_model_turns'', PInt n)])"

text \<open>An event whose payload ends with the turn audit and the index of the request.\<close>

definition emit_audited ::
    "token_config \<Rightarrow> (payload \<Rightarrow> model_event) \<Rightarrow> int option \<Rightarrow> (token_state, unit) op" where
  "emit_audited cfg build request_index s =
     (case model_turn_audit_payload cfg s of
        Inl e \<Rightarrow> (s, Inl e)
      | Inr audit \<Rightarrow> emit_model cfg
          (build (audit @ (case request_index of None \<Rightarrow> [] | Some i \<Rightarrow> [(''request_index'', PInt i)]))) s)"

section \<open>Reservation identifiers\<close>

definition model_reservation_id :: "string option \<Rightarrow> int \<Rightarrow> string option" where
  "model_reservation_id call i = map_option (\<lambda>c. c @ '':request-'' @ show_int (i + 1)) call"

definition replay_id :: "string \<Rightarrow> int \<Rightarrow> nat \<Rightarrow> string" where
  "replay_id call i k = call @ '':replay-'' @ show_int (int k) @ '':request-'' @ show_int (i + 1)"

definition id_taken :: "token_state \<Rightarrow> request_event list \<Rightarrow> string \<Rightarrow> bool" where
  "id_taken s history rid =
     (rid \<in> re_reservation ` set history \<or> dict_get (ts_reservations s) rid \<noteq> None \<or> rid \<in> set (ts_settled s))"

text \<open>The newest retrying or deferred event decides whether a request takes up its reservation.\<close>

fun resumable :: "token_state \<Rightarrow> request_event list \<Rightarrow> string option" where
  "resumable s [] = None"
| "resumable s (ev # older) =
     (if re_status ev \<notin> {Some ''retrying'', Some ''deferred''} then resumable s older
      else
        let r = dict_get (ts_reservations s) (re_reservation ev) in
        if re_status ev = Some ''deferred'' \<and> r = None then Some (re_reservation ev)
        else case r of
            Some x \<Rightarrow> if rs_status x = ''retrying'' then Some (re_reservation ev) else None
          | None \<Rightarrow> None)"

text \<open>The first replay identifier that is free; the loop of the source has no bound.\<close>

partial_function (option) next_replay :: "(nat \<Rightarrow> bool) \<Rightarrow> nat \<Rightarrow> nat option" where
  "next_replay taken k = (if \<not> taken k then Some k else next_replay taken (Suc k))"

declare next_replay.simps [code]

definition request_history :: "token_state \<Rightarrow> string \<Rightarrow> int \<Rightarrow> request_event list" where
  "request_history s call i = (case dict_get (ts_history s) (call, i) of Some es \<Rightarrow> es | None \<Rightarrow> [])"

text \<open>\<open>None\<close> outside stands for a loop that does not return.\<close>

definition model_request_reservation_id ::
    "token_state \<Rightarrow> string option \<Rightarrow> int \<Rightarrow> string option option" where
  "model_request_reservation_id s call i =
     (case (call, model_reservation_id call i) of
        (Some c, Some base) \<Rightarrow>
          let history = request_history s c i in
          (case resumable s (rev history) of
             Some rid \<Rightarrow> Some (Some rid)
           | None \<Rightarrow>
               if \<not> id_taken s history base then Some (Some base)
               else map_option (\<lambda>k. Some (replay_id c i k))
                 (next_replay (\<lambda>k. id_taken s history (replay_id c i k)) 1))
      | _ \<Rightarrow> Some None)"

end
