(* ===== verification/Token_Settlement.thy ===== *)
theory Token_Settlement
  imports Token_Reservations
begin

text \<open>
  Settling a reservation (\<open>_settle_model_budget\<close>) and the whole life of one model request
  (\<open>_V11BudgetedModel.get_response\<close> of \<open>diagnosis/v11_runtime.py\<close>): its identifier, its
  reservation, the answer of the model, and the settlement on every way out.
\<close>

section \<open>Settlement\<close>

record settlement =
  st_reserved :: int
  st_actual :: int
  st_reservation :: "string option"
  st_call :: "string option"
  st_execution :: "string option"
  st_attempt :: int
  st_actor :: string
  st_index :: "int option"
  st_input :: "int option"
  st_actual_input :: "int option"
  st_output :: int
  st_status :: string
  st_usage_known :: bool

text \<open>Unknown usage is accounted as the whole reservation.\<close>

definition effective :: "settlement \<Rightarrow> settlement" where
  "effective q = (if st_usage_known q then q
     else q\<lparr>st_actual := st_reserved q, st_input := Some 0, st_output := 0, st_status := ''unknown''\<rparr>)"

definition exceeded :: "(token_state, 'a) op" where
  "exceeded = contract_failure ''model response exceeded token budget''"

definition settlement_event ::
    "settlement \<Rightarrow> reservation \<Rightarrow> string \<Rightarrow> string \<Rightarrow> int \<times> int \<Rightarrow> payload \<Rightarrow> payload \<Rightarrow> model_event" where
  "settlement_event q r status rstatus tokens extra =
     reservation_event (event_execution (st_execution q) (st_call q) (st_reservation q)) status (st_actor q) tokens
       (reservation_payload (opt_text (st_call q)) (st_reservation q) rstatus (rs_reserved_total r)
          (rs_input_estimate r) (st_attempt q) (rs_audit r) @ extra)"

definition usage_members :: "settlement \<Rightarrow> payload" where
  "usage_members q = [(''usage_known'', PBool (st_usage_known q)), (''accounted_tokens'', PInt (st_actual q))]"

definition actual_input_payload :: "int option \<Rightarrow> payload" where
  "actual_input_payload n = (case n of None \<Rightarrow> [] | Some k \<Rightarrow> [(''actual_input_tokens'', PInt k)])"

definition reported_input :: "settlement \<Rightarrow> int" where
  "reported_input q = (case st_actual_input q of Some n \<Rightarrow> n
     | None \<Rightarrow> (case st_input q of Some n \<Rightarrow> n | None \<Rightarrow> 0))"

definition raw_estimate :: "reservation \<Rightarrow> int option" where
  "raw_estimate r = as_int (get_or (rs_audit r) ''raw_estimated_tokens'' (PInt (rs_input_estimate r)))"

definition calibrate :: "settlement \<Rightarrow> reservation \<Rightarrow> token_state \<Rightarrow> token_state" where
  "calibrate q r s =
     (case raw_estimate r of
        Some raw \<Rightarrow>
          if st_status q = ''completed''
          then s\<lparr>ts_calibration := record_input_estimate_calibration (st_actor q) raw (st_actual_input q) (ts_calibration s)\<rparr>
          else s
      | None \<Rightarrow> s)"

definition close_reservation :: "string \<Rightarrow> int option \<Rightarrow> token_state \<Rightarrow> token_state" where
  "close_reservation rid remaining s =
     s\<lparr>ts_remaining := remaining, ts_reservations := dict_pop (ts_reservations s) rid, ts_settled := rid # ts_settled s\<rparr>"

text \<open>
  An answer beyond the reservation and everything left empties the budget.  The event is
  waited for even when the task is cancelled meanwhile.
\<close>

definition settle_overrun ::
    "token_config \<Rightarrow> settlement \<Rightarrow> string \<Rightarrow> reservation \<Rightarrow> (token_state, unit) op" where
  "settle_overrun cfg q rid r s =
     (let s1 = close_reservation rid (Some 0) s;
          build = settlement_event q r ''failed'' ''rejected'' (reported_input q, st_output q)
            ((''actual_input_tokens'', PInt (reported_input q)) # usage_members q
              @ [(''budget_overrun_tokens'', PInt (st_actual q - st_reserved q))]) in
      bind_op (emit_audited cfg build (st_index q))
        (\<lambda>_ s2. if tc_cancelled cfg s1 (build []) then (s2, Inl CancelledError) else exceeded s2) s1)"

definition settle_retrying ::
    "token_config \<Rightarrow> settlement \<Rightarrow> string \<Rightarrow> reservation \<Rightarrow> (token_state, unit) op" where
  "settle_retrying cfg q rid r =
     bind_op (emit_audited cfg (settlement_event q r ''failed'' ''retrying'' (0, 0) []) (st_index q))
       (\<lambda>_ s'. (mark_reservation rid r ''retrying'' s', Inr ()))"

definition settle_final ::
    "token_config \<Rightarrow> settlement \<Rightarrow> string \<Rightarrow> reservation \<Rightarrow> (token_state, unit) op" where
  "settle_final cfg q rid r =
     bind_op (emit_audited cfg
         (settlement_event q r (if st_status q = ''completed'' then ''completed'' else ''failed'') (st_status q)
            (case st_input q of Some n \<Rightarrow> n | None \<Rightarrow> st_actual q, st_output q)
            (usage_members q @ actual_input_payload (st_actual_input q))) (st_index q))
       (\<lambda>_ s'. (close_reservation rid (map_option (\<lambda>n. n + (st_reserved q - st_actual q)) (ts_remaining s')) s', Inr ()))"

definition settle_reservation ::
    "token_config \<Rightarrow> settlement \<Rightarrow> int \<Rightarrow> string \<Rightarrow> (token_state, unit) op" where
  "settle_reservation cfg q left rid s =
     (if rid \<in> set (ts_settled s) then (s, Inr ())
      else case dict_get (ts_reservations s) rid of
          None \<Rightarrow> if st_reserved q < st_actual q then exceeded s else (s, Inr ())
        | Some r \<Rightarrow>
            if st_reserved q \<noteq> rs_reserved_total r then contract_failure ''model reservation total mismatch'' s
            else
              let s1 = calibrate q r s in
              if st_reserved q + left < st_actual q then settle_overrun cfg q rid r s1
              else if st_status q = ''retrying'' then settle_retrying cfg q rid r s1
              else settle_final cfg q rid r s1)"

definition settle_model_budget :: "token_config \<Rightarrow> settlement \<Rightarrow> (token_state, unit) op" where
  "settle_model_budget cfg q0 s =
     (case ts_remaining s of
        None \<Rightarrow> (s, Inr ())
      | Some left \<Rightarrow>
          let q = effective q0 in
          (case st_reservation q of
             Some rid \<Rightarrow> settle_reservation cfg q left rid s
           | None \<Rightarrow>
               if st_reserved q + left < st_actual q then exceeded s
               else (s\<lparr>ts_remaining := Some (left + (st_reserved q - st_actual q))\<rparr>, Inr ())))"

section \<open>One request\<close>

text \<open>How the request ends: an answer with its usage, an exception with its usage, a cancellation.\<close>

datatype model_outcome =
    Answered "(int \<times> int) option" bool   \<comment> \<open>usage; whether only offered tools are called\<close>
  | Raised py_error "int \<times> int"
  | Interrupted

record model_call =
  mc_budget :: "int option"          \<comment> \<open>\<open>model_settings.max_tokens\<close>\<close>
  mc_instructions :: string
  mc_context :: request_context
  mc_args :: request_args
  mc_call :: "string option"
  mc_execution :: "string option"
  mc_attempt :: int
  mc_actor :: string
  mc_index :: int
  mc_started :: bool                 \<comment> \<open>the execution and deadline checks let it be sent\<close>
  mc_outcome :: model_outcome

definition reserve_request_of :: "model_call \<Rightarrow> string option \<Rightarrow> reserve_request" where
  "reserve_request_of m rid =
     \<lparr>rr_budget = mc_budget m, rr_prompt = mc_instructions m, rr_context = mc_context m, rr_reservation = rid,
      rr_call = mc_call m, rr_execution = mc_execution m, rr_attempt = mc_attempt m, rr_actor = mc_actor m,
      rr_index = Some (mc_index m), rr_args = Some (mc_args m)\<rparr>"

definition settlement_of ::
    "model_call \<Rightarrow> string option \<Rightarrow> grant \<Rightarrow> int \<Rightarrow> int \<Rightarrow> int option \<Rightarrow> int \<Rightarrow> string \<Rightarrow> bool \<Rightarrow> settlement" where
  "settlement_of m rid g actual input actual_input output status known =
     \<lparr>st_reserved = gr_reserved g, st_actual = actual, st_reservation = rid, st_call = mc_call m,
      st_execution = mc_execution m, st_attempt = mc_attempt m, st_actor = mc_actor m, st_index = Some (mc_index m),
      st_input = Some input, st_actual_input = actual_input, st_output = output, st_status = status,
      st_usage_known = known\<rparr>"

text \<open>\<open>_usage_values\<close>: no token count is negative.\<close>

definition usage_values :: "int \<times> int \<Rightarrow> int \<times> int" where
  "usage_values u = (max 0 (fst u), max 0 (snd u))"

definition settle_answer :: "token_config \<Rightarrow> model_call \<Rightarrow> string option \<Rightarrow> grant \<Rightarrow> (int \<times> int) option \<Rightarrow> (token_state, unit) op" where
  "settle_answer cfg m rid g usage =
     (let (input, output) = usage_values (case usage of Some u \<Rightarrow> u | None \<Rightarrow> (0, 0));
          known = (usage \<noteq> None \<and> 0 < input + output);
          counted = (if known then input else 0) in
      settle_model_budget cfg (settlement_of m rid g (counted + output) counted (Some input) output ''completed'' known))"

text \<open>The two handlers; nothing is settled when nothing was reserved.\<close>

definition settle_cancelled :: "token_config \<Rightarrow> model_call \<Rightarrow> string option \<Rightarrow> grant \<Rightarrow> bool \<Rightarrow> (token_state, unit) op" where
  "settle_cancelled cfg m rid g started =
     (if gr_reserved g = 0 then skip_op
      else
        let n = (if started then gr_input_estimate g else 0) in
        settle_model_budget cfg (settlement_of m rid g n n None 0 ''released'' (\<not> started)))"

definition settle_failed :: "token_config \<Rightarrow> model_call \<Rightarrow> string option \<Rightarrow> grant \<Rightarrow> bool \<Rightarrow> int \<times> int \<Rightarrow> (token_state, unit) op" where
  "settle_failed cfg m rid g started usage =
     (if gr_reserved g = 0 then skip_op
      else
        let (input, output) = usage_values usage; known = (0 < input + output) in
        settle_model_budget cfg (settlement_of m rid g (if known then input + output else 0) input
          (if known then Some input else None) output ''released'' (known \<or> \<not> started)))"

text \<open>The exception a request ends with is raised again after the settlement of its handler.\<close>

definition then_raise :: "(token_state, unit) op \<Rightarrow> py_error \<Rightarrow> (token_state, 'a) op" where
  "then_raise f e = bind_op f (\<lambda>_ s. (s, Inl e))"

definition handle_error ::
    "token_config \<Rightarrow> model_call \<Rightarrow> string option \<Rightarrow> grant \<Rightarrow> bool \<Rightarrow> int \<times> int \<Rightarrow> py_error \<Rightarrow> (token_state, unit) op" where
  "handle_error cfg m rid g started usage e =
     (if e = CancelledError then then_raise (settle_cancelled cfg m rid g started) e
      else then_raise (settle_failed cfg m rid g started usage) e)"

definition outside_scope :: py_error where
  "outside_scope = RuntimeError ''model requested a tool outside the request scope''"

definition set_inflight :: "(string list \<Rightarrow> string list) \<Rightarrow> token_state \<Rightarrow> token_state" where
  "set_inflight f s = s\<lparr>ts_inflight := f (ts_inflight s)\<rparr>"

definition enter_flight :: "string option \<Rightarrow> token_state \<Rightarrow> token_state" where
  "enter_flight rid = (case rid of Some r \<Rightarrow> set_inflight (List.insert r) | None \<Rightarrow> id)"

definition leave_flight :: "string option \<Rightarrow> token_state \<Rightarrow> token_state" where
  "leave_flight rid = (case rid of Some r \<Rightarrow> set_inflight (removeAll r) | None \<Rightarrow> id)"

text \<open>
  While the model answers, and between a settlement that succeeds or raises and the one of the
  handler, other requests may act: \<open>others\<close> and \<open>meanwhile\<close>.
\<close>

definition conclude_request ::
    "token_config \<Rightarrow> model_call \<Rightarrow> string option \<Rightarrow> grant \<Rightarrow> token_change \<Rightarrow> (token_state, unit) op" where
  "conclude_request cfg m rid g meanwhile s =
     (case mc_outcome m of
        Answered usage in_scope \<Rightarrow>
          (case settle_answer cfg m rid g usage s of
             (s', Inl e) \<Rightarrow> handle_error cfg m rid g True (0, 0) e (meanwhile s')
           | (s', Inr _) \<Rightarrow>
               if in_scope then (s', Inr ())
               else handle_error cfg m rid g True (0, 0) outside_scope (meanwhile s'))
      | Raised e usage \<Rightarrow> handle_error cfg m rid g True usage e s
      | Interrupted \<Rightarrow> handle_error cfg m rid g True (0, 0) CancelledError s)"

definition sent_request ::
    "token_config \<Rightarrow> model_call \<Rightarrow> string option \<Rightarrow> grant \<Rightarrow> py_error \<Rightarrow> token_change \<Rightarrow> token_change
       \<Rightarrow> (token_state, unit) op" where
  "sent_request cfg m rid g refusal others meanwhile s =
     (case (if mc_started m then conclude_request cfg m rid g meanwhile (others (enter_flight rid s))
            else handle_error cfg m rid g False (0, 0) refusal (others s)) of
        (s', r) \<Rightarrow> (leave_flight rid s', r))"

text \<open>
  \<open>get_response\<close>, with the rounds of its reservation and the changes other requests make after
  it.  \<open>None\<close> stands for a search for an identifier that does not return and for a reservation
  that still waits; \<open>refusal\<close> is what the checks before the request raise when it is not sent.
\<close>

definition get_response ::
    "token_config \<Rightarrow> model_call \<Rightarrow> py_error \<Rightarrow> wait_round list \<Rightarrow> token_change \<Rightarrow> token_change
       \<Rightarrow> token_state \<Rightarrow> (token_state \<times> unit result) option" where
  "get_response cfg m refusal rounds others meanwhile s =
     (case model_request_reservation_id s (mc_call m) (mc_index m) of
        None \<Rightarrow> None
      | Some rid \<Rightarrow>
          (case reserve_model_budget cfg (reserve_request_of m rid) rounds s of
             None \<Rightarrow> None
           | Some (s', Inl e) \<Rightarrow> Some (s', Inl e)
           | Some (s', Inr g) \<Rightarrow> Some (sent_request cfg m rid g refusal others meanwhile s')))"

end
