(* ===== verification/Token_Moves.thy ===== *)
theory Token_Moves
  imports Token_Settlement Transition_Systems
begin

text \<open>
  The ledger behind the token budget: what is left, what open reservations hold, what has
  been accounted.  Its moves are the abstract system every reservation and settlement is a
  run of, and its invariant is the conservation of the budget.
\<close>

section \<open>The ledger\<close>

definition open_tokens :: "token_state \<Rightarrow> int" where
  "open_tokens s = sum_list (map rs_reserved_total (dict_values (ts_reservations s)))"

text \<open>An event that accounts for a reservation: a final settlement that was not an overrun.\<close>

definition accounted_id :: "model_event \<Rightarrow> string option" where
  "accounted_id ev =
     (let pl = me_payload ev in
      if dict_get pl ''accounted_tokens'' = None \<or> get_or_none pl ''reservation_status'' = PStr ''rejected''
      then None else text_of (get_or_none pl ''reservation_id''))"

definition accounted_tokens :: "model_event \<Rightarrow> int" where
  "accounted_tokens ev = (case get_or_none (me_payload ev) ''accounted_tokens'' of PInt n \<Rightarrow> n | _ \<Rightarrow> 0)"

definition settled_tokens :: "token_state \<Rightarrow> int" where
  "settled_tokens s = sum_list (map accounted_tokens (filter (\<lambda>ev. accounted_id ev \<noteq> None) (ts_emitted s)))"

definition accounted_ids :: "token_state \<Rightarrow> string list" where
  "accounted_ids s = List.map_filter accounted_id (ts_emitted s)"

definition reservation_ok :: "reservation \<Rightarrow> bool" where
  "reservation_ok r =
     (1 \<le> rs_input_estimate r \<and> 0 < rs_output_cap r \<and> rs_output_cap r \<le> 16384
      \<and> rs_reserved_total r = rs_input_estimate r + rs_output_cap r)"

definition entry_ok :: "((string \<times> int) \<times> request_event) option \<Rightarrow> bool" where
  "entry_ok entry =
     (case entry of None \<Rightarrow> True
      | Some (key, ev) \<Rightarrow> request_index_from_reservation_id (re_reservation ev) = Some (snd key))"

definition history_ok :: "(string \<times> int, request_event list) dict \<Rightarrow> bool" where
  "history_ok history =
     (distinct (dict_keys history) \<and> (\<forall>key es ev. dict_get history key = Some es \<longrightarrow> ev \<in> set es \<longrightarrow> entry_ok (Some (key, ev))))"

definition balanced :: "int \<Rightarrow> token_state \<Rightarrow> bool" where
  "balanced B s =
     (\<exists>left. ts_remaining s = Some left \<and> 0 \<le> left \<and> left + open_tokens s + settled_tokens s \<le> B
        \<and> (set (ts_settled s) \<subseteq> set (accounted_ids s) \<longrightarrow> left + open_tokens s + settled_tokens s = B))"

definition ledger_ok :: "int \<Rightarrow> token_state \<Rightarrow> bool" where
  "ledger_ok B s =
     (balanced B s \<and> distinct (dict_keys (ts_reservations s)) \<and> list_all reservation_ok (dict_values (ts_reservations s))
      \<and> history_ok (ts_history s) \<and> (\<forall>rid \<in> set (ts_settled s). dict_get (ts_reservations s) rid = None)
      \<and> set (accounted_ids s) \<subseteq> set (ts_settled s) \<and> distinct (accounted_ids s))"

definition init_ledger :: "int \<Rightarrow> token_state \<Rightarrow> bool" where
  "init_ledger B s =
     (ts_remaining s = Some B \<and> 0 \<le> B \<and> ts_reservations s = [] \<and> ts_settled s = [] \<and> ts_emitted s = []
      \<and> history_ok (ts_history s))"

section \<open>Moves\<close>

definition ledger ::
    "token_state \<Rightarrow> int option \<times> (string, reservation) dict \<times> string list
       \<times> (string \<times> int, request_event list) dict \<times> model_event list" where
  "ledger s = (ts_remaining s, ts_reservations s, ts_settled s, ts_history s, ts_emitted s)"

definition note_event :: "model_event \<Rightarrow> token_state \<Rightarrow> token_state" where
  "note_event ev s = record_model_request_event ev (s\<lparr>ts_emitted := ts_emitted s @ [ev]\<rparr>)"

definition event_entry_ok :: "model_event \<Rightarrow> bool" where
  "event_entry_ok ev = entry_ok (request_entry default_request_status (me_status ev) (me_payload ev))"

inductive ledger_move :: "token_state \<Rightarrow> token_state \<Rightarrow> bool" where
  Unchanged: "ledger s' = ledger s \<Longrightarrow> ledger_move s s'"
| Noted: "accounted_id ev = None \<Longrightarrow> event_entry_ok ev \<Longrightarrow> ledger s' = ledger (note_event ev s) \<Longrightarrow> ledger_move s s'"
| Booked: "ts_remaining s = Some c \<Longrightarrow> rs_reserved_total r \<le> c \<Longrightarrow> dict_get (ts_reservations s) rid = None \<Longrightarrow>
    rid \<notin> set (ts_settled s) \<Longrightarrow> reservation_ok r \<Longrightarrow> ledger s' = ledger (take_back rid r (rs_reserved_total r) s) \<Longrightarrow>
    ledger_move s s'"
| Released: "dict_get (ts_reservations s) rid = Some r \<Longrightarrow>
    ledger s' = ledger (release_reservation rid (rs_reserved_total r) s) \<Longrightarrow> ledger_move s s'"
| Marked: "dict_get (ts_reservations s) rid = Some r \<Longrightarrow> ledger s' = ledger (mark_reservation rid r status s) \<Longrightarrow>
    ledger_move s s'"
| Accounted: "dict_get (ts_reservations s) rid = Some r \<Longrightarrow> ts_remaining s = Some c \<Longrightarrow>
    0 \<le> n \<Longrightarrow> n \<le> rs_reserved_total r + c \<Longrightarrow> accounted_id ev = Some rid \<Longrightarrow> accounted_tokens ev = n \<Longrightarrow>
    event_entry_ok ev \<Longrightarrow>
    ledger s' = ledger (close_reservation rid (Some (c + (rs_reserved_total r - n))) (note_event ev s)) \<Longrightarrow>
    ledger_move s s'"
| Overrun: "dict_get (ts_reservations s) rid = Some r \<Longrightarrow> ledger s' = ledger (close_reservation rid (Some 0) s) \<Longrightarrow>
    ledger_move s s'"

inductive_cases ledger_move_cases: "ledger_move s s'"

section \<open>The invariant\<close>

lemma ledger_ok_cong: "ledger s' = ledger s \<Longrightarrow> ledger_ok B s' = ledger_ok B s"
  by (simp add: ledger_def ledger_ok_def balanced_def open_tokens_def settled_tokens_def accounted_ids_def)

text \<open>Lookups stay lookups: membership of an entry is the worse normal form here.\<close>

declare map_of_eq_Some_iff [simp del] Some_eq_map_of_iff [simp del]

lemma sum_values_put:
  fixes f :: "'v \<Rightarrow> int"
  shows "distinct (dict_keys d) \<Longrightarrow> sum_list (map f (dict_values (dict_put d k v)))
    = sum_list (map f (dict_values d)) + f v - (case dict_get d k of Some w \<Rightarrow> f w | None \<Rightarrow> 0)"
  by (induction d) (auto split: option.splits)

lemma sum_values_pop:
  fixes f :: "'v \<Rightarrow> int"
  shows "distinct (dict_keys d) \<Longrightarrow> dict_get d k = Some v \<Longrightarrow>
    sum_list (map f (dict_values (dict_pop d k))) = sum_list (map f (dict_values d)) - f v"
proof (induction d)
  case (Cons p d)
  obtain a b where p: "p = (a, b)" by (cases p)
  show ?case
  proof (cases "a = k")
    case True
    then have "k \<notin> set (dict_keys d)" using Cons.prems(1) p by simp
    then have "dict_pop d k = d" by (simp add: delete_id)
    with True Cons.prems p show ?thesis by simp
  next
    case False
    then have "sum_list (map f (dict_values (dict_pop d k))) = sum_list (map f (dict_values d)) - f v"
      using Cons p by simp
    with False p show ?thesis by simp
  qed
qed simp

lemma dict_pop_simps [simp]:
  "dict_get (dict_pop d k) k' = (if k' = k then None else dict_get d k')"
  "distinct (dict_keys d) \<Longrightarrow> distinct (dict_keys (dict_pop d k))"
  by (auto simp: delete_conv' intro: distinct_delete)

lemma all_values_pop: "list_all P (dict_values d) \<Longrightarrow> list_all P (dict_values (dict_pop d k))"
  by (induction d) auto

lemma all_values_put: "list_all P (dict_values d) \<Longrightarrow> P v \<Longrightarrow> list_all P (dict_values (dict_put d k v))"
  by (induction d) auto

lemma map_filter_snoc: "List.map_filter f (xs @ [x]) = List.map_filter f xs @ (case f x of None \<Rightarrow> [] | Some y \<Rightarrow> [y])"
  by (induction xs) (auto simp: List.map_filter_simps split: option.splits)

lemma history_okD: "history_ok history \<Longrightarrow> dict_get history key = Some es \<Longrightarrow> ev \<in> set es \<Longrightarrow> entry_ok (Some (key, ev))"
  unfolding history_ok_def by metis

lemma history_ok_add:
  assumes "history_ok history" "entry_ok entry"
  shows "history_ok (add_request_event entry history)"
proof (cases entry)
  case (Some p)
  obtain key ev where p: "p = (key, ev)" by fastforce
  let ?es = "case dict_get history key of Some es \<Rightarrow> es | None \<Rightarrow> []"
  have "e \<in> set ?es \<Longrightarrow> entry_ok (Some (key, e))" for e
    using history_okD [OF assms(1), of key] by (cases "dict_get history key") auto
  then show ?thesis using assms Some p by (auto simp: history_ok_def add_request_event_def split: if_splits)
qed (use assms in \<open>simp add: add_request_event_def\<close>)

lemma note_event_simps [simp]:
  "ts_remaining (note_event ev s) = ts_remaining s" "ts_reservations (note_event ev s) = ts_reservations s"
  "ts_settled (note_event ev s) = ts_settled s" "open_tokens (note_event ev s) = open_tokens s"
  "settled_tokens (note_event ev s) = settled_tokens s + (if accounted_id ev \<noteq> None then accounted_tokens ev else 0)"
  "accounted_ids (note_event ev s) = accounted_ids s @ (case accounted_id ev of None \<Rightarrow> [] | Some r \<Rightarrow> [r])"
  by (simp_all add: note_event_def record_model_request_event_def open_tokens_def settled_tokens_def
      accounted_ids_def map_filter_snoc)

lemma note_event_history: "history_ok (ts_history s) \<Longrightarrow> event_entry_ok ev \<Longrightarrow> history_ok (ts_history (note_event ev s))"
  by (simp add: note_event_def record_model_request_event_def event_entry_ok_def history_ok_add)

lemma ledger_parts [simp]:
  "ts_remaining (take_back rid r n s) = map_option (\<lambda>c. c - n) (ts_remaining s)"
  "ts_reservations (take_back rid r n s) = dict_put (ts_reservations s) rid r"
  "ts_settled (take_back rid r n s) = ts_settled s" "ts_history (take_back rid r n s) = ts_history s"
  "ts_remaining (release_reservation rid n s) = map_option (\<lambda>c. c + n) (ts_remaining s)"
  "ts_reservations (release_reservation rid n s) = dict_pop (ts_reservations s) rid"
  "ts_settled (release_reservation rid n s) = ts_settled s" "ts_history (release_reservation rid n s) = ts_history s"
  "ts_remaining (mark_reservation rid r st s) = ts_remaining s"
  "ts_reservations (mark_reservation rid r st s) = dict_put (ts_reservations s) rid (r\<lparr>rs_status := st\<rparr>)"
  "ts_settled (mark_reservation rid r st s) = ts_settled s" "ts_history (mark_reservation rid r st s) = ts_history s"
  "ts_remaining (close_reservation rid left s) = left"
  "ts_reservations (close_reservation rid left s) = dict_pop (ts_reservations s) rid"
  "ts_settled (close_reservation rid left s) = rid # ts_settled s" "ts_history (close_reservation rid left s) = ts_history s"
  by (simp_all add: take_back_def release_reservation_def close_reservation_def mark_reservation_def)

lemma other_sums [simp]:
  "settled_tokens (take_back rid r n s) = settled_tokens s" "accounted_ids (take_back rid r n s) = accounted_ids s"
  "settled_tokens (release_reservation rid n s) = settled_tokens s" "accounted_ids (release_reservation rid n s) = accounted_ids s"
  "settled_tokens (mark_reservation rid r st s) = settled_tokens s" "accounted_ids (mark_reservation rid r st s) = accounted_ids s"
  "settled_tokens (close_reservation rid left s) = settled_tokens s" "accounted_ids (close_reservation rid left s) = accounted_ids s"
  by (simp_all add: settled_tokens_def accounted_ids_def take_back_def release_reservation_def close_reservation_def
      mark_reservation_def)

lemma reservation_sums:
  assumes "distinct (dict_keys (ts_reservations s))"
  shows "dict_get (ts_reservations s) rid = None \<Longrightarrow> open_tokens (take_back rid r n s) = open_tokens s + rs_reserved_total r"
    and "dict_get (ts_reservations s) rid = Some r \<Longrightarrow> open_tokens (release_reservation rid n s) = open_tokens s - rs_reserved_total r"
    and "dict_get (ts_reservations s) rid = Some r \<Longrightarrow> open_tokens (close_reservation rid left s) = open_tokens s - rs_reserved_total r"
    and "dict_get (ts_reservations s) rid = Some r \<Longrightarrow> open_tokens (mark_reservation rid r status s) = open_tokens s"
  unfolding open_tokens_def ledger_parts
  using sum_values_put [OF assms] sum_values_pop [OF assms] by (simp_all del: map_map)

lemma ledger_okD:
  assumes "ledger_ok B s"
  shows "balanced B s" "distinct (dict_keys (ts_reservations s))" "list_all reservation_ok (dict_values (ts_reservations s))"
    "history_ok (ts_history s)" "\<And>rid. rid \<in> set (ts_settled s) \<Longrightarrow> dict_get (ts_reservations s) rid = None"
    "set (accounted_ids s) \<subseteq> set (ts_settled s)" "distinct (accounted_ids s)"
  using assms by (simp_all add: ledger_ok_def)

lemma open_reservation_ok: "ledger_ok B s \<Longrightarrow> dict_get (ts_reservations s) rid = Some r \<Longrightarrow> reservation_ok r"
  using ledger_okD(3) by (force simp: list_all_iff dest: map_of_SomeD)

lemma booked_ok:
  assumes ok: "ledger_ok B s" and "ts_remaining s = Some c" "rs_reserved_total r \<le> c"
    "dict_get (ts_reservations s) rid = None" "rid \<notin> set (ts_settled s)" "reservation_ok r"
  shows "ledger_ok B (take_back rid r (rs_reserved_total r) s)"
proof -
  note p = ledger_okD [OF ok]
  have "balanced B (take_back rid r (rs_reserved_total r) s)"
    using p(1) assms(2-4) reservation_sums(1) [OF p(2) assms(4)] by (auto simp: balanced_def)
  then show ?thesis
    using p(2-7) assms(5,6) all_values_put
    by (auto simp: ledger_ok_def)
qed

lemma released_ok:
  assumes ok: "ledger_ok B s" and r: "dict_get (ts_reservations s) rid = Some r"
  shows "ledger_ok B (release_reservation rid (rs_reserved_total r) s)"
proof -
  note p = ledger_okD [OF ok]
  have "0 \<le> rs_reserved_total r" using open_reservation_ok [OF ok r] by (simp add: reservation_ok_def)
  then have "balanced B (release_reservation rid (rs_reserved_total r) s)"
    using p(1) reservation_sums(2) [OF p(2) r] by (auto simp: balanced_def)
  then show ?thesis
    using p(2-7) all_values_pop by (auto simp: ledger_ok_def)
qed

lemma marked_ok:
  assumes ok: "ledger_ok B s" and r: "dict_get (ts_reservations s) rid = Some r"
  shows "ledger_ok B (mark_reservation rid r status s)"
proof -
  note p = ledger_okD [OF ok]
  have "reservation_ok (r\<lparr>rs_status := status\<rparr>)" using open_reservation_ok [OF ok r] by (simp add: reservation_ok_def)
  moreover have "balanced B (mark_reservation rid r status s)"
    using p(1) reservation_sums(4) [OF p(2) r] by (auto simp: balanced_def)
  moreover have "rid \<notin> set (ts_settled s)" using p(5) r by force
  ultimately show ?thesis
    using p(2-7) all_values_put
    by (auto simp: ledger_ok_def)
qed

lemma noted_ok:
  assumes ok: "ledger_ok B s" and "accounted_id ev = None" "event_entry_ok ev"
  shows "ledger_ok B (note_event ev s)"
  using ledger_okD [OF ok] assms(2,3) note_event_history
  by (auto simp: ledger_ok_def balanced_def)

lemma accounted_ok:
  assumes ok: "ledger_ok B s" and r: "dict_get (ts_reservations s) rid = Some r" and c: "ts_remaining s = Some c"
    and n: "0 \<le> n" "n \<le> rs_reserved_total r + c"
    and ev: "accounted_id ev = Some rid" "accounted_tokens ev = n" "event_entry_ok ev"
  shows "ledger_ok B (close_reservation rid (Some (c + (rs_reserved_total r - n))) (note_event ev s))" (is "ledger_ok B ?s'")
proof -
  note p = ledger_okD [OF ok]
  have r': "dict_get (ts_reservations (note_event ev s)) rid = Some r" "distinct (dict_keys (ts_reservations (note_event ev s)))"
    using r p(2) by simp_all
  have "open_tokens ?s' = open_tokens s - rs_reserved_total r" using reservation_sums(3) [OF r'(2,1)] by simp
  moreover have "settled_tokens ?s' = settled_tokens s + n" using ev by simp
  moreover have ids: "set (ts_settled ?s') = insert rid (set (ts_settled s))" "set (accounted_ids ?s') = insert rid (set (accounted_ids s))"
    using ev by simp_all
  moreover have fresh: "rid \<notin> set (ts_settled s)" using p(5) r by force
  ultimately have "balanced B ?s'"
    using p(1) c n by (auto simp: balanced_def)
  moreover have "distinct (accounted_ids ?s')" using p(6,7) fresh ev by auto
  moreover have "history_ok (ts_history ?s')" using note_event_history [OF p(4) ev(3)] by simp
  ultimately show ?thesis
    using p(2,3,5,6) ids all_values_pop
    by (auto simp: ledger_ok_def)
qed

lemma overrun_ok:
  assumes ok: "ledger_ok B s" and r: "dict_get (ts_reservations s) rid = Some r"
  shows "ledger_ok B (close_reservation rid (Some 0) s)" (is "ledger_ok B ?s'")
proof -
  note p = ledger_okD [OF ok]
  have fresh: "rid \<notin> set (ts_settled s)" using p(5) r by force
  have "0 \<le> rs_reserved_total r" using open_reservation_ok [OF ok r] by (simp add: reservation_ok_def)
  moreover have "rid \<notin> set (accounted_ids s)" using p(6) fresh by blast
  ultimately have "balanced B ?s'"
    using p(1) reservation_sums(3) [OF p(2) r, of "Some 0"] by (auto simp: balanced_def)
  then show ?thesis
    using p(2-7) all_values_pop by (auto simp: ledger_ok_def)
qed

lemma ledger_move_ok: "ledger_move s s' \<Longrightarrow> ledger_ok B s \<Longrightarrow> ledger_ok B s'"
  by (erule ledger_move_cases)
     (metis ledger_ok_cong noted_ok booked_ok released_ok marked_ok accounted_ok overrun_ok)+

lemma init_ledger_ok: "init_ledger B s \<Longrightarrow> ledger_ok B s"
  by (simp add: init_ledger_def ledger_ok_def balanced_def open_tokens_def settled_tokens_def accounted_ids_def
      List.map_filter_simps)

interpretation ledger_system: invariant_system "init_ledger B" ledger_move "ledger_ok B" for B
  by unfold_locales (auto intro: init_ledger_ok ledger_move_ok)

end
