(* ===== verification/Token_Identifiers.thy ===== *)
theory Token_Identifiers
  imports Token_Settlement
begin

text \<open>
  Identifiers of model requests: an identifier tells the index of its request, and the
  search for a free one always returns.
\<close>

section \<open>Identifiers\<close>

lemma decimal_value_append:
  "list_all is_digit xs \<Longrightarrow> xs \<noteq> [] \<or> b \<Longrightarrow>
   decimal_value acc b (xs @ ys) = decimal_value (the (decimal_value acc b (xs @ []))) True ys"
  by (induction xs arbitrary: acc b) (auto split: if_splits)

lemma is_digit_char_of: "n < 10 \<Longrightarrow> is_digit (char_of (48 + n :: nat)) \<and> code (char_of (48 + n :: nat)) = 48 + n"
proof -
  assume "n < 10"
  then have "n \<in> {0, 1, 2, 3, 4, 5, 6, 7, 8, 9}" by auto
  then show ?thesis by (auto simp: is_digit_def code_def less_eq_char_def)
qed

lemma show_nat_digits: "list_all is_digit (show_nat n) \<and> show_nat n \<noteq> []"
proof (induction n rule: show_nat.induct)
  case (1 n)
  show ?case
  proof (cases "n < 10")
    case True
    then show ?thesis using is_digit_char_of by (simp add: show_nat.simps)
  next
    case False
    then have "show_nat n = show_nat (n div 10) @ [char_of (48 + n mod 10)]" by (subst show_nat.simps) simp
    then show ?thesis using 1 False is_digit_char_of [of "n mod 10"] by simp
  qed
qed

lemma decimal_value_show_nat: "decimal_value 0 False (show_nat n) = Some (int n)"
proof (induction n rule: show_nat.induct)
  case (1 n)
  show ?case
  proof (cases "n < 10")
    case True
    then show ?thesis using is_digit_char_of [of n] by (subst show_nat.simps) simp
  next
    case False
    let ?d = "char_of (48 + n mod 10 :: nat)"
    have "decimal_value 0 False (show_nat n) = decimal_value 0 False (show_nat (n div 10) @ [?d])"
      using False by (subst show_nat.simps) simp
    also have "\<dots> = decimal_value (int (n div 10)) True [?d]"
      using decimal_value_append [of "show_nat (n div 10)" False 0 "[?d]"] show_nat_digits 1 False by simp
    also have "\<dots> = Some (10 * int (n div 10) + int (n mod 10))"
      using is_digit_char_of [of "n mod 10"] by simp
    also have "10 * int (n div 10) + int (n mod 10) = int n"
      unfolding zdiv_int zmod_int using mult_div_mod_eq [of "10 :: int" "int n"] by simp
    finally show ?thesis .
  qed
qed

lemma after_last_none: "hd marker \<notin> set s \<Longrightarrow> marker \<noteq> [] \<Longrightarrow> after_last marker s = None"
proof (induction s)
  case (Cons c cs)
  then have "take (length marker) (c # cs) \<noteq> marker" by (cases marker) auto
  with Cons show ?case by simp
qed simp

lemma after_last_suffix:
  assumes "marker \<noteq> []" "hd marker \<notin> set (tl marker)" "hd marker \<notin> set suffix"
  shows "after_last marker (pre @ marker @ suffix) = Some suffix"
proof -
  have "after_last marker (marker @ suffix) = Some suffix"
    using assms after_last_none [of marker "tl marker @ suffix"] by (cases marker) auto
  then show ?thesis by (induction pre) auto
qed

lemma reservation_index:
  assumes "0 \<le> i"
  shows "request_index_from_reservation_id (call @ '':request-'' @ show_int (i + 1)) = Some i"
proof -
  have digits: "list_all is_digit (show_int (i + 1))" "show_int (i + 1) \<noteq> []"
    using assms show_nat_digits by (simp_all add: show_int_def)
  have "CHR '':'' \<notin> set (show_int (i + 1))"
    using digits(1) by (auto simp: list_all_iff is_digit_def less_eq_char_def)
  then have "after_last '':request-'' (call @ '':request-'' @ show_int (i + 1)) = Some (show_int (i + 1))"
    by (intro after_last_suffix) simp_all
  moreover have "decimal_value 0 False (show_int (i + 1)) = Some (i + 1)"
    using assms decimal_value_show_nat by (simp add: show_int_def)
  ultimately show ?thesis using assms digits by (simp add: request_index_from_reservation_id_def)
qed

lemma show_nat_inject: "show_nat m = show_nat n \<longleftrightarrow> m = n"
  by (metis decimal_value_show_nat of_nat_eq_iff option.inject)

lemma replay_id_inject: "replay_id call i j = replay_id call i k \<longleftrightarrow> j = k"
proof -
  have "show_int (int j) = show_int (int k) \<longleftrightarrow> j = k" by (simp add: show_int_def show_nat_inject)
  then show ?thesis by (simp only: replay_id_def same_append_eq append_same_eq)
qed

text \<open>The search for a free identifier returns, because only finitely many are taken.\<close>

lemma next_replay_returns:
  assumes "\<exists>k \<ge> n. \<not> taken k"
  shows "\<exists>k \<ge> n. next_replay taken n = Some k \<and> \<not> taken k"
proof -
  obtain k where k: "n \<le> k" "\<not> taken k" using assms by blast
  then show ?thesis
  proof (induction "k - n" arbitrary: n)
    case 0
    then show ?case by (auto simp: next_replay.simps)
  next
    case (Suc d)
    show ?case
    proof (cases "taken n")
      case True
      from Suc have "d = k - Suc n" "Suc n \<le> k" "\<not> taken k" by auto
      from Suc.hyps(1) [OF this] obtain j where "Suc n \<le> j" "next_replay taken (Suc n) = Some j" "\<not> taken j"
        by blast
      with True show ?thesis by (auto simp: next_replay.simps [of taken n] intro: exI [of _ j])
    qed (auto simp: next_replay.simps)
  qed
qed

lemma replay_free: "\<exists>k \<ge> n. \<not> id_taken s history (replay_id call i k)"
proof (rule ccontr)
  assume "\<not> ?thesis"
  then have all: "replay_id call i ` {n ..} \<subseteq>
      re_reservation ` set history \<union> set (dict_keys (ts_reservations s)) \<union> set (ts_settled s)"
    by (force simp: id_taken_def dest: map_of_SomeD)
  have "inj_on (replay_id call i) {n ..}" by (auto intro!: inj_onI simp: replay_id_inject)
  then have "infinite (replay_id call i ` {n ..})" using finite_imageD infinite_Ici by blast
  with all show False by (meson List.finite_set finite_UnI finite_imageI finite_subset)
qed

lemma resumable_Some:
  "resumable s es = Some rid \<Longrightarrow>
   (\<exists>ev \<in> set es. re_reservation ev = rid \<and> (re_status ev = Some ''deferred'' \<and> dict_get (ts_reservations s) rid = None
      \<or> (\<exists>r. dict_get (ts_reservations s) rid = Some r \<and> rs_status r = ''retrying'')))"
  by (induction es) (auto simp: Let_def split: if_splits option.splits)

end
