(* ===== verification/Token_Conservation.thy ===== *)
theory Token_Conservation
  imports Token_Moves Token_Identifiers
begin

text \<open>
  Every reservation and every settlement is a run of the ledger's moves, so the token budget
  of a run is conserved however requests interleave.
\<close>

section \<open>Operations that may raise\<close>

lemma bind_op_cases:
  assumes "bind_op f g s = (s', r)"
  obtains (raised) e where "f s = (s', Inl e)" "r = Inl e"
  | (ok) a s1 where "f s = (s1, Inr a)" "g a s1 = (s', r)"
  using assms by (auto simp: bind_op_def split: prod.splits sum.splits)

lemma then_op_cases:
  assumes "then_op f g s = (s', r)"
  obtains (raised) e where "f s = (s', Inl e)" "r = Inl e"
  | (ok) s1 where "f s = (s1, Inr ())" "g s1 = (s', r)"
  using assms by (auto simp: then_op_def split: prod.splits sum.splits)

lemma undo_on_error_cases:
  assumes "undo_on_error f undo s = (s', r)"
  obtains (ok) a where "f s = (s', Inr a)" "r = Inr a"
  | (cut) "f s = (s', Inl CancelledError)" "r = Inl CancelledError"
  | (undone) e s1 where "f s = (s1, Inl e)" "s' = undo s1" "r = Inl e"
  using assms by (auto simp: undo_on_error_def split: prod.splits sum.splits if_splits)


section \<open>Events\<close>

text \<open>The token fields of an event are integers, so that counting it cannot raise.\<close>

definition int_field :: "payload \<Rightarrow> string \<Rightarrow> bool" where
  "int_field pl k = (case dict_get pl k of None \<Rightarrow> True | Some (PInt _) \<Rightarrow> True | _ \<Rightarrow> False)"

definition countable_event :: "model_event \<Rightarrow> bool" where
  "countable_event ev = (int_field (me_payload ev) ''actual_input_tokens'' \<and> int_field (me_payload ev) ''input_estimate'')"

lemma int_field_token:
  assumes "int_field pl k"
  shows "\<exists>n. token_value (get_or pl k (PInt d)) = Inr n" "\<exists>n. token_value (get_or_none pl k) = Inr n"
  using assms by (auto simp: int_field_def get_or_def get_or_none_def split: option.splits pyval.splits)

lemma record_usage_total:
  assumes "int_field pl ''actual_input_tokens''" "int_field pl ''input_estimate''"
  shows "\<exists>r. record_usage status input output pl acc = Inr r"
proof -
  let ?rs = "text_of (get_or_none pl ''reservation_status'')"
  obtain a b where "token_value (get_or pl ''actual_input_tokens'' (PInt input)) = Inr a"
    "token_value (get_or_none pl ''input_estimate'') = Inr b"
    using int_field_token(1) [OF assms(1)] int_field_token(2) [OF assms(2)] by blast
  then have "\<exists>t. usage_tokens status ?rs input output pl = Inr t" by (simp add: usage_tokens_def)
  then show ?thesis
    by (auto simp: record_usage_def Let_def split: option.splits)
qed

lemma record_model_usage_total:
  assumes "countable_event ev"
  shows "\<exists>s'. record_model_usage_event ev s = (s', Inr ()) \<and> ledger s' = ledger s"
proof -
  have "\<exists>r. record_usage (me_status ev) (me_input ev) (me_output ev) (me_payload ev) acc = Inr r" for acc
    using assms record_usage_total by (simp add: countable_event_def)
  then show ?thesis
    by (auto simp: record_model_usage_event_def Let_def ledger_def split: option.splits sum.splits)
       (metis sum.distinct(1))+
qed

lemma emit_model_cases:
  assumes "emit_model cfg ev s = (s', r)" "countable_event ev"
  obtains (raised) e where "s' = s" "r = Inl e"
  | (ok) "r = Inr ()" "ledger s' = ledger (note_event ev s)"
proof (cases "tc_persist cfg s ev")
  case None
  with assms record_model_usage_total [OF assms(2), of "note_event ev s"] ok show ?thesis
    by (auto simp: emit_model_def note_event_def)
qed (use assms raised in \<open>auto simp: emit_model_def\<close>)

text \<open>What the audit and the index add to a payload.\<close>

definition event_tail :: "payload \<Rightarrow> int option \<Rightarrow> bool" where
  "event_tail rest index =
     ((\<forall>k. k \<notin> {''model_turn_budget'', ''remaining_model_turns'', ''request_index''} \<longrightarrow> dict_get rest k = None)
      \<and> dict_get rest ''request_index'' = map_option PInt index)"

lemma emit_audited_cases:
  assumes "emit_audited cfg build index s = (s', r)" "\<And>rest. event_tail rest index \<Longrightarrow> countable_event (build rest)"
  obtains (raised) e where "s' = s" "r = Inl e"
  | (ok) rest where "r = Inr ()" "event_tail rest index" "ledger s' = ledger (note_event (build rest) s)"
proof (cases "model_turn_audit_payload cfg s")
  case (Inl e)
  then have "s' = s" "r = Inl e" using assms(1) by (simp_all add: emit_audited_def)
  then show ?thesis by (rule raised)
next
  case (Inr audit)
  let ?rest = "audit @ (case index of None \<Rightarrow> [] | Some i \<Rightarrow> [(''request_index'', PInt i)])"
  have tail: "event_tail ?rest index"
    using Inr by (auto simp: event_tail_def model_turn_audit_payload_def split: if_splits option.splits)
  have "emit_model cfg (build ?rest) s = (s', r)" using assms(1) Inr by (simp add: emit_audited_def)
  then show ?thesis using assms(2) [OF tail] by (cases rule: emit_model_cases) (use raised ok tail in blast)+
qed

definition matching_index :: "string \<Rightarrow> int option \<Rightarrow> bool" where
  "matching_index rid index = (\<forall>i. index = Some i \<longrightarrow> request_index_from_reservation_id rid = Some i)"

text \<open>An event about a reservation: the fixed members, further ones, and the tail.\<close>

abbreviation about ::
    "string \<Rightarrow> string \<Rightarrow> string \<Rightarrow> int \<times> int \<Rightarrow> pyval \<Rightarrow> string \<Rightarrow> string \<Rightarrow> int \<Rightarrow> int \<Rightarrow> int \<Rightarrow> payload
       \<Rightarrow> payload \<Rightarrow> payload \<Rightarrow> model_event" where
  "about execution status actor tokens call rid rstatus reserved est attempt audit extra \<equiv>
     reservation_event execution status actor tokens
       (reservation_payload call (Some rid) rstatus reserved est attempt audit @ extra)"

lemma about_countable:
  assumes "event_tail rest index" "int_field extra ''actual_input_tokens''"
  shows "countable_event (about execution status actor tokens call rid rstatus reserved est attempt audit extra rest)"
  using assms
  by (auto simp: countable_event_def int_field_def reservation_event_def reservation_payload_def event_tail_def
      map_add_def split: option.splits)

lemma about_entry_ok:
  assumes "event_tail rest index" "matching_index rid index" "dict_get extra ''request_index'' = None"
  shows "event_entry_ok (about execution status actor tokens call rid rstatus reserved est attempt audit extra rest)"
proof -
  let ?pl = "reservation_payload call (Some rid) rstatus reserved est attempt audit @ extra @ rest"
  have index: "get_or_none ?pl ''request_index'' = (case index of None \<Rightarrow> PNone | Some i \<Rightarrow> PInt i)"
    using assms(1,3) by (auto simp: get_or_none_def reservation_payload_def event_tail_def map_add_def split: option.splits)
  have rid: "text_of (get_or_none ?pl ''reservation_id'') = Some rid"
    by (simp add: get_or_none_def reservation_payload_def)
  show ?thesis
    using assms(2) unfolding event_entry_ok_def reservation_event_def model_event.simps append_assoc
    by (cases index) (auto simp: request_entry_def entry_ok_def rid index matching_index_def split: option.splits)
qed

lemma about_accounted:
  assumes "event_tail rest index"
  shows "accounted_id (about execution status actor tokens call rid rstatus reserved est attempt audit extra rest)
      = (if dict_get extra ''accounted_tokens'' = None \<or> rstatus = ''rejected'' then None else Some rid)"
    and "accounted_tokens (about execution status actor tokens call rid rstatus reserved est attempt audit extra rest)
      = (case get_or_none extra ''accounted_tokens'' of PInt n \<Rightarrow> n | _ \<Rightarrow> 0)"
  using assms
  by (auto simp: accounted_id_def accounted_tokens_def Let_def get_or_none_def reservation_event_def
      reservation_payload_def event_tail_def map_add_def split: option.splits)

lemmas about_events = about_countable about_entry_ok about_accounted

text \<open>Emitting an event that accounts for nothing is a move of the ledger.\<close>

lemma emit_about:
  assumes "emit_audited cfg (about execution status actor tokens call rid rstatus reserved est attempt audit extra) index s = (s', r)"
    and "matching_index rid index" "dict_get extra ''request_index'' = None" "int_field extra ''actual_input_tokens''"
  obtains (raised) e where "s' = s" "r = Inl e"
  | (ok) ev where "r = Inr ()" "ledger s' = ledger (note_event ev s)" "event_entry_ok ev"
      "accounted_id ev = (if dict_get extra ''accounted_tokens'' = None \<or> rstatus = ''rejected'' then None else Some rid)"
      "accounted_tokens ev = (case get_or_none extra ''accounted_tokens'' of PInt n \<Rightarrow> n | _ \<Rightarrow> 0)"
proof (rule emit_audited_cases [OF assms(1)])
  show "event_tail rest index \<Longrightarrow>
    countable_event (about execution status actor tokens call rid rstatus reserved est attempt audit extra rest)" for rest
    using about_countable assms(4) by blast
  show "s' = s \<Longrightarrow> r = Inl e \<Longrightarrow> thesis" for e by (rule raised)
  show "r = Inr () \<Longrightarrow> event_tail rest index \<Longrightarrow>
    ledger s' = ledger (note_event (about execution status actor tokens call rid rstatus reserved est attempt audit extra rest) s)
    \<Longrightarrow> thesis" for rest
    by (rule ok [OF _ _ about_entry_ok [OF _ assms(2,3)] about_accounted])
qed

section \<open>Deferral\<close>

lemma ledger_eqD:
  assumes "ledger s' = ledger s"
  shows "ts_remaining s' = ts_remaining s" "ts_reservations s' = ts_reservations s" "ts_settled s' = ts_settled s"
    "ts_history s' = ts_history s" "ts_emitted s' = ts_emitted s"
  using assms by (simp_all add: ledger_def)

lemma note_event_cong: "ledger s' = ledger s \<Longrightarrow> ledger (note_event ev s') = ledger (note_event ev s)"
  by (simp add: ledger_def note_event_def record_model_request_event_def)

lemma close_reservation_cong:
  "ledger s' = ledger s \<Longrightarrow> ledger (close_reservation rid left s') = ledger (close_reservation rid left s)"
  by (simp add: ledger_def close_reservation_def)

lemma balancedD: "ledger_ok B s \<Longrightarrow> \<exists>c. ts_remaining s = Some c \<and> 0 \<le> c"
  by (auto simp: ledger_ok_def balanced_def)

lemma open_not_settled: "ledger_ok B s \<Longrightarrow> dict_get (ts_reservations s) rid = Some r \<Longrightarrow> rid \<notin> set (ts_settled s)"
  using ledger_okD(5) by force

lemma defer_one_moves:
  assumes "defer_one cfg call execution attempt actor (index, rid, r) s = (s', res)" and ok: "ledger_ok B s"
    and r: "dict_get (ts_reservations s) rid = Some r" and index: "matching_index rid (Some index)"
  shows "ledger_move\<^sup>*\<^sup>* s s' \<and> ts_settled s' = ts_settled s
    \<and> (res = Inr () \<longrightarrow> ts_reservations s' = dict_pop (ts_reservations s) rid)"
proof -
  let ?s1 = "release_reservation rid (rs_reserved_total r) s"
  let ?emit = "emit_audited cfg (about (event_execution execution (Some rid) None) ''failed'' actor (0, 0) (PStr call) rid
      ''deferred'' (rs_reserved_total r) (rs_input_estimate r) attempt (rs_audit r) []) (Some index)"
  have release: "ledger_move s ?s1" by (rule Released [OF r refl])
  have emit: "(s2 = ?s1 \<and> (\<exists>e. x = Inl e)) \<or> (x = Inr () \<and> ledger_move ?s1 s2 \<and> ts_reservations s2 = ts_reservations ?s1
      \<and> ts_settled s2 = ts_settled ?s1)"
    if "?emit ?s1 = (s2, x)" for s2 x
    using that
  proof (rule emit_about [OF _ index])
    fix ev assume "x = Inr ()" "ledger s2 = ledger (note_event ev ?s1)" "event_entry_ok ev"
      "accounted_id ev = (if dict_get [] ''accounted_tokens'' = None \<or> ''deferred'' = ''rejected'' then None else Some rid)"
    then show ?thesis using Noted [of ev s2 ?s1] by (simp add: ledger_def)
  qed (simp_all add: int_field_def)
  have "undo_on_error ?emit (take_back rid r (rs_reserved_total r)) ?s1 = (s', res)"
    using assms(1) by (simp add: defer_one_def)
  then show ?thesis
  proof (cases rule: undo_on_error_cases)
    case (ok a)
    then show ?thesis using emit [of s' "Inr a"] release by (auto intro: rtranclp.rtrancl_into_rtrancl)
  next
    case cut
    then show ?thesis using emit [of s' "Inl CancelledError"] release by auto
  next
    case (undone e s1)
    then have s': "s' = take_back rid r (rs_reserved_total r) ?s1" using emit by blast
    obtain c where "ts_remaining s = Some c" "0 \<le> c" using balancedD [OF ok] by blast
    then have "ledger_move ?s1 s'"
      by (intro Booked [of _ "c + rs_reserved_total r" r rid])
         (simp_all add: s' open_not_settled [OF ok r] open_reservation_ok [OF ok r])
    then show ?thesis using release undone(3) by (auto simp: s' intro: converse_rtranclp_into_rtranclp)
  qed
qed

lemma map_filter_keys:
  assumes "distinct (map fst xs)" "\<And>x y. f x = Some y \<Longrightarrow> fst x = g (fst y)"
  shows "distinct (map fst (List.map_filter f xs))"
proof -
  have "k \<in> set (map fst (List.map_filter f xs)) \<Longrightarrow> g k \<in> set (map fst xs)" for k and xs
    using assms(2) by (induction xs) (auto simp: List.map_filter_simps split: option.splits)
  then show ?thesis
    using assms(1)
  proof (induction xs)
    case (Cons x xs)
    show ?case
    proof (cases "f x")
      case (Some y)
      have "fst y \<notin> set (map fst (List.map_filter f xs))" using Cons assms(2) [OF Some] by auto
      with Some Cons show ?thesis by (simp add: List.map_filter_simps)
    qed (use Cons in \<open>simp add: List.map_filter_simps\<close>)
  qed (simp add: List.map_filter_simps)
qed

definition deferral :: "token_state \<Rightarrow> (int \<times> string \<times> reservation) list \<Rightarrow> bool" where
  "deferral s items =
     (distinct (map fst items) \<and> (\<forall>(i, rid, r) \<in> set items.
        dict_get (ts_reservations s) rid = Some r \<and> request_index_from_reservation_id rid = Some i))"

lemma retry_candidate_Some:
  assumes "retry_candidate s call index entry = Some (i, rid, r)"
  shows "fst entry = (call, i)" "dict_get (ts_reservations s) rid = Some r" "snd entry \<noteq> []"
    "rid = re_reservation (last (snd entry))"
  using assms by (auto simp: retry_candidate_def Let_def prod_eq_iff split: if_splits option.splits)

lemma deferrable_deferral:
  assumes "history_ok (ts_history s)"
  shows "deferral s (deferrable s call index)"
proof -
  let ?f = "retry_candidate s call index"
  let ?items = "List.map_filter ?f (ts_history s)"
  have keys: "distinct (map fst (ts_history s))" using assms by (simp add: history_ok_def)
  have "distinct (map fst ?items)"
  proof (rule map_filter_keys [OF keys, where g = "\<lambda>i. (call, i)"])
    show "?f x = Some y \<Longrightarrow> fst x = (call, fst y)" for x y
      using retry_candidate_Some(1) [of s call index x "fst y" "fst (snd y)" "snd (snd y)"] by simp
  qed
  moreover have "dict_get (ts_reservations s) rid = Some r \<and> request_index_from_reservation_id rid = Some i"
    if m: "(i, rid, r) \<in> set ?items" for i rid r
  proof -
    from m obtain x where x: "x \<in> set (ts_history s)" "?f x = Some (i, rid, r)"
      by (auto simp: List.map_filter_def)
    note fx = retry_candidate_Some [OF x(2)]
    have "dict_get (ts_history s) (call, i) = Some (snd x)"
      using x(1) fx(1) keys by (metis map_of_is_SomeI prod.collapse)
    then have "entry_ok (Some ((call, i), last (snd x)))" using history_okD [OF assms] fx(3) by force
    then show ?thesis using fx(2,4) by (simp add: entry_ok_def)
  qed
  ultimately have "distinct (map fst ?items) \<and> (\<forall>(i, rid, r) \<in> set ?items.
      dict_get (ts_reservations s) rid = Some r \<and> request_index_from_reservation_id rid = Some i)" by blast
  moreover have "distinct (map fst (deferrable s call index)) = distinct (map fst ?items)"
    by (simp add: deferrable_def distinct_map)
  ultimately show ?thesis by (simp add: deferral_def deferrable_def)
qed

lemma defer_all_moves:
  "run_all (defer_one cfg call execution attempt actor) items s = (s', res) \<Longrightarrow> ledger_ok B s \<Longrightarrow> deferral s items \<Longrightarrow>
   ledger_move\<^sup>*\<^sup>* s s' \<and> ts_settled s' = ts_settled s
   \<and> (\<forall>rid. dict_get (ts_reservations s) rid = None \<longrightarrow> res = Inr () \<longrightarrow> dict_get (ts_reservations s') rid = None)"
proof (induction items arbitrary: s)
  case (Cons item items)
  obtain i rid r where item: "item = (i, rid, r)" by (cases item)
  note d = Cons.prems(3) [unfolded deferral_def item, simplified]
  from Cons.prems(1) have "then_op (defer_one cfg call execution attempt actor item)
      (run_all (defer_one cfg call execution attempt actor) items) s = (s', res)" by simp
  then show ?case
  proof (cases rule: then_op_cases)
    case (raised e)
    then show ?thesis using defer_one_moves [OF raised(1) [unfolded item] Cons.prems(2)] d by (simp add: matching_index_def)
  next
    case (ok s1)
    have s1: "ledger_move\<^sup>*\<^sup>* s s1" "ts_settled s1 = ts_settled s" "ts_reservations s1 = dict_pop (ts_reservations s) rid"
      using defer_one_moves [OF ok(1) [unfolded item] Cons.prems(2)] d by (simp_all add: matching_index_def)
    have "rid' \<noteq> rid" if "(i', rid', r') \<in> set items" for i' rid' r'
      using d that by force
    then have "deferral s1 items" using d unfolding deferral_def s1(3) by auto
    from Cons.IH [OF ok(2) ledger_system.steps_ok [OF s1(1) Cons.prems(2)] this]
    show ?thesis using s1 by (auto intro: rtranclp_trans)
  qed
qed simp

section \<open>Reservation\<close>

lemma expected_nonneg: "0 \<le> n \<Longrightarrow> 0 \<le> expected_request_tokens samples actor n"
proof -
  assume n: "0 \<le> n"
  have limit: "0 \<le> output_token_limit actor" by (simp add: output_token_limit_def)
  have "0 \<le> min (output_token_limit actor) (max (if c then 4096 else 2048) k)" for c and k :: int
    using limit by auto
  moreover have "0 \<le> ((if b then n else max n m) * 5 + 3) div 4" for b and m :: int using n by auto
  ultimately show ?thesis unfolding expected_request_tokens_def Let_def by (rule add_nonneg_nonneg [rotated])
qed

lemma calibrated_estimate_positive: "1 \<le> fst (calibrated_estimate cfg s actor prompt c)"
  using calibrated_positive by (simp add: calibrated_estimate_def split: prod.splits)

lemma critic_tokens_bounds:
  assumes "0 \<le> n"
  shows "critic_slot_of cfg * (n + 256) \<le> critic_tokens_of cfg s n" "0 \<le> critic_tokens_of cfg s n"
  using assms by (auto simp: critic_tokens_of_def critic_slot_of_def)

lemma future_tokens_nonneg: "0 \<le> future_tokens q (closing_plan_of cfg s q requested) current est"
proof (cases "rr_args q = None \<or> \<not> is_investigator q")
  case True
  then show ?thesis by (auto simp: future_tokens_def closing_plan_of_def plain_plan_def split: option.splits)
next
  case False
  then obtain args where args: "rr_args q = Some args" "is_investigator q" by auto
  let ?p = "closing_plan_of cfg s q requested"
  let ?slot = "critic_slot_of cfg"
  obtain n where n: "cp_estimate ?p = n" "1 \<le> n"
    using args calibrated_estimate_positive by (simp add: closing_plan_of_def Let_def)
  have active: "1 \<le> active_count cfg" by (simp add: active_count_def)
  have p: "cp_critic_slot ?p = ?slot" "cp_critic_tokens ?p = critic_tokens_of cfg s n"
    "?slot \<le> cp_future_requests ?p"
    using args n(1) active by (simp_all add: closing_plan_of_def Let_def)
  have slot: "?slot = 0 \<or> ?slot = 1" by (simp add: critic_slot_of_def)
  have "?slot * (n + 256) \<le> cp_future_requests ?p * (n + 256)" using p(3) n(2) by (intro mult_right_mono) auto
  moreover have "0 \<le> critic_tokens_of cfg s n" "?slot * (n + 256) \<le> critic_tokens_of cfg s n"
    using critic_tokens_bounds [of n cfg s] n(2) by simp_all
  moreover have "critic_tokens_of cfg s n div 2 \<le> critic_tokens_of cfg s n" using calculation(2) by linarith
  ultimately have "0 \<le> cp_future_requests ?p * (n + 256) + (critic_tokens_of cfg s n - ?slot * (n + 256))"
    "0 \<le> cp_future_requests ?p * (n + 256) + (critic_tokens_of cfg s n - ?slot * (n + 256)) - critic_tokens_of cfg s n div 2"
    by linarith+
  then show ?thesis using p(1,2) n(1) args by (simp add: future_tokens_def Let_def split: option.splits)
qed

lemma reserve_turn_ledger: "reserve_run_model_turn cfg s = (s', r) \<Longrightarrow> ledger s' = ledger s"
  by (auto simp: reserve_run_model_turn_def ledger_def split: if_splits option.splits sum.splits)

definition matching_request :: "reserve_request \<Rightarrow> bool" where
  "matching_request q = (\<exists>rid. rr_reservation q = Some rid \<and> matching_index rid (rr_index q))"

lemma start_event_moves:
  assumes "emit_audited cfg (started_event q reserved est audit) (rr_index q) s = (s', r)" and "matching_request q"
  shows "(s' = s \<and> (\<exists>e. r = Inl e)) \<or> (r = Inr () \<and> (\<exists>ev. accounted_id ev = None \<and> event_entry_ok ev
      \<and> ledger s' = ledger (note_event ev s)))"
proof -
  obtain rid where rid: "rr_reservation q = Some rid" "matching_index rid (rr_index q)"
    using assms(2) by (auto simp: matching_request_def)
  have "emit_audited cfg (about (event_execution (rr_execution q) (rr_call q) (Some rid)) ''started'' (rr_actor q) (0, 0)
      (opt_text (rr_call q)) rid ''reserved'' reserved est (rr_attempt q) audit []) (rr_index q) s = (s', r)"
    using assms(1) rid(1) by (simp add: started_event_def [abs_def])
  then show ?thesis by (rule emit_about [OF _ rid(2)]) (auto simp: int_field_def)
qed

lemma retake_moves:
  assumes "retake_reservation cfg q p rid r s = (s', res)" and "matching_request q"
    and r: "dict_get (ts_reservations s) rid = Some r"
  shows "ledger_move\<^sup>*\<^sup>* s s'"
proof (cases "rs_status r = ''retrying''")
  case True
  with assms(1) have "bind_op (then_op (reserve_run_model_turn cfg)
      (emit_audited cfg (started_event q (rs_reserved_total r) (rs_input_estimate r) (rs_audit r)) (rr_index q)))
    (\<lambda>_ s'. (mark_reservation rid r ''reserved'' s', Inr (granted p (rs_output_cap r) (rs_input_estimate r) (rs_reserved_total r)))) s = (s', res)"
    by (simp add: retake_reservation_def Let_def)
  then show ?thesis
  proof (cases rule: bind_op_cases)
    case (raised e)
    from raised(1) show ?thesis
    proof (cases rule: then_op_cases)
      case (ok s1)
      have "ledger s1 = ledger s" by (rule reserve_turn_ledger [OF ok(1)])
      then show ?thesis using start_event_moves [OF ok(2) assms(2)] by (auto intro: Unchanged)
    qed (auto dest: reserve_turn_ledger intro: Unchanged)
  next
    case (ok u s1)
    from ok(1) show ?thesis
    proof (cases rule: then_op_cases)
      case turned: (ok s0)
      have s0: "ledger s0 = ledger s" by (rule reserve_turn_ledger [OF turned(1)])
      obtain ev where ev: "accounted_id ev = None" "event_entry_ok ev" "ledger s1 = ledger (note_event ev s)"
        using start_event_moves [OF turned(2) assms(2)] note_event_cong [OF s0] by auto
      then have "ledger_move s s1" by (intro Noted)
      moreover have "ledger_move s1 s'"
        using ok(2) r ledger_eqD(2) [OF ev(3)] by (intro Marked [of s1 rid r s' "''reserved''"]) simp_all
      ultimately show ?thesis by (rule converse_rtranclp_into_rtranclp [OF _ r_into_rtranclp])
    qed simp
  qed
qed (use assms(1) in \<open>simp add: retake_reservation_def Let_def\<close>)

lemma output_cap_bounds:
  assumes "ts_remaining s = Some c" "0 \<le> future_tokens q p (Some c) est"
  shows "output_cap_of cfg s q p requested est \<le> c - est" "output_cap_of cfg s q p requested est \<le> 16384"
  using assms by (auto simp: output_cap_of_def Let_def output_token_limit_def)

lemma new_reservation_moves:
  assumes new: "new_reservation cfg q p requested est audit s = (s', res)" and match: "matching_request q"
    and rid: "rr_reservation q = Some rid" "dict_get (ts_reservations s) rid = None" "rid \<notin> set (ts_settled s)"
    and c: "ts_remaining s = Some c" and est: "1 \<le> est" and future: "0 \<le> future_tokens q p (Some c) est"
  shows "ledger_move\<^sup>*\<^sup>* s s'"
proof (cases "output_cap_of cfg s q p requested est \<le> 0")
  case False
  let ?cap = "output_cap_of cfg s q p requested est"
  let ?r = "\<lparr>rs_output_cap = ?cap, rs_input_estimate = est, rs_reserved_total = est + ?cap, rs_audit = audit, rs_status = ''reserved''\<rparr>"
  let ?g = "granted p ?cap est (est + ?cap)"
  from new False rid(1) have "bind_op (reserve_run_model_turn cfg) (\<lambda>_ s1.
      bind_op (undo_on_error (emit_audited cfg (started_event q (est + ?cap) est audit) (rr_index q))
        (unbook rid (ts_remaining s1) (est + ?cap))) (\<lambda>_ s3. (s3, Inr ?g)) (book_reservation q ?cap est audit s1)) s = (s', res)"
    by (simp add: new_reservation_def Let_def)
  then show ?thesis
  proof (cases rule: bind_op_cases)
    case (ok u s1)
    have s1: "ledger s1 = ledger s" by (rule reserve_turn_ledger [OF ok(1)])
    let ?s2 = "book_reservation q ?cap est audit s1"
    have s2: "ledger ?s2 = ledger (take_back rid ?r (est + ?cap) s)"
      using s1 rid(1) c by (simp add: ledger_def book_reservation_def take_back_def Let_def)
    have book: "ledger_move s ?s2"
      using False est output_cap_bounds [OF c future, of cfg requested] rid(2,3) s2 c
      by (intro Booked [of s c ?r rid]) (simp_all add: reservation_ok_def)
    from ok(2) show ?thesis
    proof (cases rule: bind_op_cases)
      case (ok v s3)
      from ok(1) have "emit_audited cfg (started_event q (est + ?cap) est audit) (rr_index q) ?s2 = (s3, Inr v)"
        by (cases rule: undo_on_error_cases) auto
      from start_event_moves [OF this match] have "ledger_move ?s2 s3" by (auto intro: Noted)
      then show ?thesis using book ok(2) by (auto intro: rtranclp.rtrancl_into_rtrancl)
    next
      case (raised e)
      from raised(1) show ?thesis
      proof (cases rule: undo_on_error_cases)
        case cut
        from start_event_moves [OF cut(1) match] show ?thesis using book by auto
      next
        case (undone e' s3)
        from start_event_moves [OF undone(1) match] have s3: "s3 = ?s2" by auto
        have "ledger_move ?s2 s'"
          using undone(2) s3 ledger_eqD(1) [OF s1] ledger_eqD(1,2) [OF s2] c
          by (intro Released [of ?s2 rid ?r])
             (simp_all add: ledger_def unbook_def release_reservation_def)
        then show ?thesis using book by (auto intro: rtranclp.rtrancl_into_rtrancl)
      qed simp
    qed
  qed (auto dest: reserve_turn_ledger intro: Unchanged)
qed (use new in \<open>simp add: new_reservation_def Let_def\<close>)

lemma reserve_moves:
  assumes reserve: "reserve_model_budget_once cfg q s = (s', res)" and match: "matching_request q" and ok: "ledger_ok B s"
  shows "ledger_move\<^sup>*\<^sup>* s s'"
proof -
  obtain c where c: "ts_remaining s = Some c" "0 \<le> c" using balancedD [OF ok] by blast
  obtain rid where rid: "rr_reservation q = Some rid" using match by (auto simp: matching_request_def)
  let ?requested = "case rr_budget q of Some n \<Rightarrow> n | None \<Rightarrow> c"
  let ?p = "closing_plan_of cfg s q ?requested"
  obtain est audit where e: "calibrated_estimate cfg s (rr_actor q) (cp_prompt ?p) (cp_context ?p) = (est, audit)"
    by fastforce
  then have est: "1 \<le> est" using calibrated_estimate_positive by (metis fst_conv)
  have budget: "(case rr_budget q of Some n \<Rightarrow> Some n | None \<Rightarrow> ts_remaining s) = Some ?requested"
    using c(1) by (simp split: option.splits)
  note reserve' = reserve [unfolded reserve_model_budget_once_def budget option.case Let_def e prod.case rid]
  show ?thesis
  proof (cases "dict_get (ts_reservations s) rid")
    case (Some r)
    then show ?thesis using retake_moves [OF _ match Some] reserve' by simp
  next
    case None
    show ?thesis
    proof (cases "rid \<in> set (ts_settled s)")
      case False
      let ?defer = "if defers s q est
        then defer_later_model_retries cfg (the (rr_call q)) (the (rr_index q)) (rr_execution q) (rr_attempt q) (rr_actor q)
        else skip_op"
      have deferred: "ledger_move\<^sup>*\<^sup>* s s1 \<and> ts_settled s1 = ts_settled s \<and> (x = Inr () \<longrightarrow> dict_get (ts_reservations s1) rid = None)"
        if d: "?defer s = (s1, x)" for s1 x
      proof (cases "defers s q est")
        case True
        with d have "run_all (defer_one cfg (the (rr_call q)) (rr_execution q) (rr_attempt q) (rr_actor q))
            (deferrable s (the (rr_call q)) (the (rr_index q))) s = (s1, x)"
          by (simp add: defer_later_model_retries_def)
        then show ?thesis
          using defer_all_moves [OF _ ok deferrable_deferral] ledger_okD(4) [OF ok] None by blast
      qed (use d None in \<open>simp add: skip_op_def\<close>)
      from reserve' None False have "then_op ?defer (new_reservation cfg q ?p ?requested est audit) s = (s', res)" by simp
      then show ?thesis
      proof (cases rule: then_op_cases)
        case (raised e')
        then show ?thesis using deferred by blast
      next
        case (ok s1)
        note d = deferred [OF ok(1)]
        have ok1: "ledger_ok B s1" using ledger_system.steps_ok \<open>ledger_ok B s\<close> d by blast
        obtain c1 where c1: "ts_remaining s1 = Some c1" using balancedD [OF ok1] by blast
        have "rid \<notin> set (ts_settled s1)" using d False by simp
        then have "ledger_move\<^sup>*\<^sup>* s1 s'"
          using new_reservation_moves [OF ok(2) match rid _ _ c1 est future_tokens_nonneg] d by simp
        then show ?thesis using d by (meson rtranclp_trans)
      qed
    qed (use reserve' None in simp)
  qed
qed

section \<open>Settlement\<close>

lemma emit_settlement:
  assumes "emit_audited cfg (settlement_event q r status rstatus tokens extra) (st_index q) s = (s', x)"
    and "st_reservation q = Some rid" "matching_index rid (st_index q)"
    and "dict_get extra ''request_index'' = None" "int_field extra ''actual_input_tokens''"
  obtains (raised) e where "s' = s" "x = Inl e"
  | (ok) ev where "x = Inr ()" "ledger s' = ledger (note_event ev s)" "event_entry_ok ev"
      "accounted_id ev = (if dict_get extra ''accounted_tokens'' = None \<or> rstatus = ''rejected'' then None else Some rid)"
      "accounted_tokens ev = (case get_or_none extra ''accounted_tokens'' of PInt n \<Rightarrow> n | _ \<Rightarrow> 0)"
proof (rule emit_about [OF _ assms(3-5)])
  show "emit_audited cfg (about (event_execution (st_execution q) (st_call q) (Some rid)) status (st_actor q) tokens
      (opt_text (st_call q)) rid rstatus (rs_reserved_total r) (rs_input_estimate r) (st_attempt q) (rs_audit r) extra)
      (st_index q) s = (s', x)"
    using assms(1,2) by (simp add: settlement_event_def [abs_def])
qed (use that in blast)+

lemma calibrate_ledger: "ledger (calibrate q r s) = ledger s"
  by (simp add: calibrate_def ledger_def split: option.splits)

lemma effective_simps [simp]:
  "st_reservation (effective q) = st_reservation q" "st_index (effective q) = st_index q"
  "st_reserved (effective q) = st_reserved q"
  by (simp_all add: effective_def)

lemma settle_moves:
  assumes settle: "settle_model_budget cfg q0 s = (s', x)" and rid: "st_reservation q0 = Some rid"
    and index: "matching_index rid (st_index q0)" and actual: "0 \<le> st_actual q0" and reserved: "0 \<le> st_reserved q0"
    and status: "st_status q0 \<noteq> ''rejected''" and ok: "ledger_ok B s"
  shows "ledger_move\<^sup>*\<^sup>* s s'"
proof -
  obtain c where c: "ts_remaining s = Some c" "0 \<le> c" using balancedD [OF ok] by blast
  let ?q = "effective q0"
  have q: "st_reservation ?q = Some rid" "matching_index rid (st_index ?q)" "0 \<le> st_actual ?q" "st_status ?q \<noteq> ''rejected''"
    using rid index actual reserved status by (simp_all add: effective_def)
  have settle': "settle_reservation cfg ?q c rid s = (s', x)"
    using settle c(1) rid by (simp add: settle_model_budget_def Let_def)
  show ?thesis
  proof (cases "dict_get (ts_reservations s) rid")
    case None
    then show ?thesis using settle' by (simp add: settle_reservation_def exceeded_def split: if_splits)
  next
    case (Some r)
    let ?s1 = "calibrate ?q r s"
    note same = ledger_eqD [OF calibrate_ledger [of ?q r s]]
    have calibrated: "ledger_move s ?s1" by (rule Unchanged [OF calibrate_ledger])
    have r: "dict_get (ts_reservations ?s1) rid = Some r" using Some same by simp
    consider (stale) "st_reserved ?q \<noteq> rs_reserved_total r" | (overrun) "st_reserved ?q = rs_reserved_total r"
        "settle_overrun cfg ?q rid r ?s1 = (s', x)"
      | (retry) "settle_retrying cfg ?q rid r ?s1 = (s', x)"
      | (final) "st_reserved ?q = rs_reserved_total r" "st_actual ?q \<le> rs_reserved_total r + c"
          "settle_final cfg ?q rid r ?s1 = (s', x)"
      using settle' Some open_not_settled [OF ok Some] by (auto simp: settle_reservation_def Let_def split: if_splits)
    then have "ledger_move\<^sup>*\<^sup>* ?s1 s' \<or> s' = s"
    proof cases
      case stale
      then show ?thesis using settle' Some open_not_settled [OF ok Some] by (simp add: settle_reservation_def)
    next
      case overrun
      let ?s2 = "close_reservation rid (Some 0) ?s1"
      have close: "ledger_move ?s1 ?s2" by (rule Overrun [OF r refl])
      have "ledger_move\<^sup>*\<^sup>* ?s2 s3" if "emit_audited cfg (settlement_event ?q r ''failed'' ''rejected''
          (reported_input ?q, st_output ?q) ((''actual_input_tokens'', PInt (reported_input ?q)) # usage_members ?q
            @ [(''budget_overrun_tokens'', PInt (st_actual ?q - st_reserved ?q))])) (st_index ?q) ?s2 = (s3, y)" for s3 y
        by (rule emit_settlement [OF that q(1,2)]) (auto simp: usage_members_def int_field_def intro: Noted)
      then have "ledger_move\<^sup>*\<^sup>* ?s2 s'"
        using overrun(2) by (auto simp: settle_overrun_def Let_def bind_op_def exceeded_def split: prod.splits sum.splits if_splits)
      then show ?thesis using close by (meson converse_rtranclp_into_rtranclp)
    next
      case retry
      from retry [unfolded settle_retrying_def] show ?thesis
      proof (cases rule: bind_op_cases)
        case (raised e)
        from raised(1) q(1,2) show ?thesis by (rule emit_settlement) (auto simp: int_field_def intro: Noted)
      next
        case (ok u s2)
        from ok(1) q(1,2) show ?thesis
        proof (rule emit_settlement)
          fix ev assume ev: "ledger s2 = ledger (note_event ev ?s1)" "event_entry_ok ev"
            "accounted_id ev = (if dict_get [] ''accounted_tokens'' = None \<or> ''retrying'' = ''rejected'' then None else Some rid)"
          have "ledger_move ?s1 s2" using ev by (intro Noted) simp_all
          moreover have "ledger_move s2 s'"
            using ok(2) r ledger_eqD(2) [OF ev(1)] by (intro Marked [of s2 rid r s' "''retrying''"]) simp_all
          ultimately show ?thesis by auto
        qed (auto simp: int_field_def)
      qed
    next
      case final
      let ?extra = "usage_members ?q @ actual_input_payload (st_actual_input ?q)"
      have extra: "dict_get ?extra ''request_index'' = None" "int_field ?extra ''actual_input_tokens''"
        "get_or_none ?extra ''accounted_tokens'' = PInt (st_actual ?q)" "dict_get ?extra ''accounted_tokens'' \<noteq> None"
        by (auto simp: usage_members_def actual_input_payload_def int_field_def get_or_none_def split: option.splits)
      from final(3) [unfolded settle_final_def] show ?thesis
      proof (cases rule: bind_op_cases)
        case (raised e)
        from raised(1) q(1,2) extra(1,2) show ?thesis by (rule emit_settlement) (use raised in auto)
      next
        case (ok u s2)
        from ok(1) q(1,2) extra(1,2) show ?thesis
        proof (rule emit_settlement)
          fix ev assume ev: "ledger s2 = ledger (note_event ev ?s1)" "event_entry_ok ev"
            "accounted_id ev = (if dict_get ?extra ''accounted_tokens'' = None \<or> st_status ?q = ''rejected'' then None else Some rid)"
            "accounted_tokens ev = (case get_or_none ?extra ''accounted_tokens'' of PInt n \<Rightarrow> n | _ \<Rightarrow> 0)"
          have id: "accounted_id ev = Some rid" unfolding ev(3) using extra(4) q(4) by argo
          have n: "accounted_tokens ev = st_actual ?q" unfolding ev(4) extra(3) by simp
          have left: "ts_remaining s2 = Some c" using ledger_eqD(1) [OF ev(1)] same(1) c(1) by simp
          have "ledger s' = ledger (close_reservation rid (Some (c + (rs_reserved_total r - st_actual ?q))) (note_event ev ?s1))"
            using ok(2) final(1) left close_reservation_cong [OF ev(1)] by auto
          moreover have "ts_remaining ?s1 = Some c" using same(1) c(1) by simp
          ultimately have "ledger_move ?s1 s'"
            using Accounted [OF r _ q(3) final(2) id n ev(2)] by blast
          then show ?thesis by auto
        qed auto
      qed
    qed
    then show ?thesis using calibrated by (auto intro: converse_rtranclp_into_rtranclp)
  qed
qed

section \<open>The system\<close>

text \<open>
  Requests of any number of calls interleave between their reservations and settlements.  A
  reservation names the request it belongs to by an identifier with its index, as
  \<open>_model_request_reservation_id\<close> builds it.
\<close>

inductive token_step :: "token_config \<Rightarrow> token_state \<Rightarrow> token_state \<Rightarrow> bool" for cfg where
  Reserve_step: "matching_request q \<Longrightarrow> reserve_model_budget_once cfg q s = (s', r) \<Longrightarrow> token_step cfg s s'"
| Settle_step: "st_reservation q = Some rid \<Longrightarrow> matching_index rid (st_index q) \<Longrightarrow> 0 \<le> st_actual q \<Longrightarrow>
    0 \<le> st_reserved q \<Longrightarrow> st_status q \<noteq> ''rejected'' \<Longrightarrow> settle_model_budget cfg q s = (s', x) \<Longrightarrow> token_step cfg s s'"
| Flight_step: "token_step cfg s (set_inflight f s)"

inductive_cases token_step_cases: "token_step cfg s s'"

lemma token_step_moves: "token_step cfg s s' \<Longrightarrow> ledger_ok B s \<Longrightarrow> ledger_move\<^sup>*\<^sup>* s s'"
proof (erule token_step_cases)
  fix f assume "s' = set_inflight f s"
  then show "ledger_move\<^sup>*\<^sup>* s s'" by (auto intro!: Unchanged r_into_rtranclp simp: set_inflight_def ledger_def)
qed (auto intro: reserve_moves settle_moves)

interpretation token_system: refined_system "init_ledger B" ledger_move "ledger_ok B" "token_step cfg" for B cfg
  by unfold_locales (rule token_step_moves)

text \<open>C34: The token budget of a run is conserved.  Starting from a budget and no reservation, after
  any interleaving of reservations and settlements what is left is not negative; what is
  left, the open reservations and the accounted tokens never exceed the budget, and make up
  exactly the budget unless a response exceeded it; no reservation is accounted twice; and
  every open reservation covers its input estimate and a bounded output.\<close>

theorem token_budget_conserved:
  assumes "init_ledger B s0" and "(token_step cfg)\<^sup>*\<^sup>* s0 s"
  shows "\<exists>left. ts_remaining s = Some left \<and> 0 \<le> left \<and> left + open_tokens s + settled_tokens s \<le> B
    \<and> (set (ts_settled s) \<subseteq> set (accounted_ids s) \<longrightarrow> left + open_tokens s + settled_tokens s = B)
    \<and> distinct (accounted_ids s) \<and> set (accounted_ids s) \<subseteq> set (ts_settled s)
    \<and> (\<forall>rid r. dict_get (ts_reservations s) rid = Some r \<longrightarrow> rid \<notin> set (ts_settled s) \<and> reservation_ok r)"
proof -
  have ok: "ledger_ok B s" by (rule token_system.concrete.reachable_ok [OF assms])
  then show ?thesis
    using ledger_okD(1,6,7) [OF ok] open_not_settled [OF ok] open_reservation_ok [OF ok]
    by (auto simp: balanced_def)
qed

section \<open>One request\<close>

lemma settlement_step:
  assumes "settle_model_budget cfg (settlement_of m rid g actual input actual_input output status known) s = (s', x)"
    and "rid = Some i" "matching_index i (Some (mc_index m))" "0 \<le> actual" "0 \<le> gr_reserved g" "status \<noteq> ''rejected''"
  shows "token_step cfg s s'"
  by (rule Settle_step [OF _ _ _ _ _ assms(1)]) (use assms(2-) in \<open>simp_all add: settlement_of_def\<close>)

end
