(* ===== verification/Token_Requests.thy ===== *)
theory Token_Requests
  imports Token_Conservation
begin

text \<open>
  One model request from its identifier to its settlement, among others: every request finds an
  identifier with its own index, waits and goes on as a run of ledger steps, and is settled when
  it returns an answer.
\<close>

section \<open>Identifiers\<close>

lemma resumable_cases:
  "resumable s es = Some rid \<Longrightarrow>
   \<exists>ev \<in> set es. re_reservation ev = rid \<and> (re_status ev = Some ''deferred'' \<and> dict_get (ts_reservations s) rid = None
      \<or> (\<exists>r. dict_get (ts_reservations s) rid = Some r \<and> rs_status r = ''retrying''))"
  by (rule resumable_Some)

lemma request_history_index:
  "history_ok (ts_history s) \<Longrightarrow> ev \<in> set (request_history s call i) \<Longrightarrow>
   request_index_from_reservation_id (re_reservation ev) = Some i"
  using history_okD by (force simp: request_history_def entry_ok_def split: option.splits)

lemma request_id_cases:
  assumes "model_request_reservation_id s (Some call) i = Some (Some rid)"
  obtains (resumed) "resumable s (rev (request_history s call i)) = Some rid"
  | (base) "rid = call @ '':request-'' @ show_int (i + 1)" "\<not> id_taken s (request_history s call i) rid"
  | (replay) k where "rid = replay_id call i k"
      "next_replay (\<lambda>k. id_taken s (request_history s call i) (replay_id call i k)) 1 = Some k"
  using assms
  by (auto simp: model_request_reservation_id_def model_reservation_id_def Let_def split: option.splits if_splits)

lemma replay_index: "0 \<le> i \<Longrightarrow> request_index_from_reservation_id (replay_id call i k) = Some i"
  using reservation_index [of i "call @ '':replay-'' @ show_int (int k)"] by (simp add: replay_id_def)

lemma identifier_exists:
  assumes "history_ok (ts_history s)" and "0 \<le> i"
  shows "\<exists>rid. model_request_reservation_id s (Some call) i = Some (Some rid)
    \<and> request_index_from_reservation_id rid = Some i
    \<and> (\<not> id_taken s (request_history s call i) rid
       \<or> (\<exists>r. dict_get (ts_reservations s) rid = Some r \<and> rs_status r = ''retrying'')
       \<or> (dict_get (ts_reservations s) rid = None
          \<and> list_ex (\<lambda>ev. re_reservation ev = rid \<and> re_status ev = Some ''deferred'') (request_history s call i)))"
proof -
  let ?h = "request_history s call i"
  let ?base = "call @ '':request-'' @ show_int (i + 1)"
  let ?taken = "\<lambda>k. id_taken s ?h (replay_id call i k)"
  obtain k where k: "next_replay ?taken 1 = Some k" "\<not> ?taken k"
    using next_replay_returns [OF replay_free, of 1 s ?h call i] by blast
  have id: "model_request_reservation_id s (Some call) i =
      (case resumable s (rev ?h) of Some rid \<Rightarrow> Some (Some rid)
       | None \<Rightarrow> if \<not> id_taken s ?h ?base then Some (Some ?base) else Some (Some (replay_id call i k)))"
    using k(1) by (simp add: model_request_reservation_id_def model_reservation_id_def Let_def split: option.splits)
  show ?thesis
  proof (cases "resumable s (rev ?h)")
    case (Some rid)
    from resumable_cases [OF this] obtain ev where ev: "ev \<in> set ?h" "re_reservation ev = rid"
      "re_status ev = Some ''deferred'' \<and> dict_get (ts_reservations s) rid = None
       \<or> (\<exists>r. dict_get (ts_reservations s) rid = Some r \<and> rs_status r = ''retrying'')" by auto
    then show ?thesis
      using id Some request_history_index [OF assms(1) ev(1)] by (auto simp: list_ex_iff)
  next
    case None
    then show ?thesis
      using id k(2) reservation_index [OF assms(2), of call] replay_index [OF assms(2), of call k]
      by (cases "id_taken s ?h ?base") auto
  qed
qed

section \<open>Steps of a request\<close>

text \<open>What the handlers of \<open>get_response\<close> do is a run of steps that leaves the ledger well formed.\<close>

abbreviation request_ok :: "model_call \<Rightarrow> string \<Rightarrow> bool" where
  "request_ok m rid \<equiv> matching_index rid (Some (mc_index m))"

lemma bind_steps:
  assumes "bind_op f g s = (s', r)" and "\<And>s1 x. f s = (s1, x) \<Longrightarrow> (token_step cfg)\<^sup>*\<^sup>* s s1"
    and "\<And>a s1. f s = (s1, Inr a) \<Longrightarrow> g a s1 = (s', r) \<Longrightarrow> (token_step cfg)\<^sup>*\<^sup>* s1 s'"
  shows "(token_step cfg)\<^sup>*\<^sup>* s s'"
  using assms(1) by (cases rule: bind_op_cases) (use assms(2,3) in \<open>blast intro: rtranclp_trans\<close>)+

lemma usage_values_nonneg: "usage_values u = (a, b) \<Longrightarrow> 0 \<le> a \<and> 0 \<le> b"
  by (auto simp: usage_values_def)

lemma settle_answer_steps:
  assumes "settle_answer cfg m (Some rid) g usage s = (s', r)" "request_ok m rid" "0 \<le> gr_reserved g"
  shows "(token_step cfg)\<^sup>*\<^sup>* s s'"
proof -
  obtain a b where u: "usage_values (case usage of Some u \<Rightarrow> u | None \<Rightarrow> (0, 0)) = (a, b)" by fastforce
  note ab = usage_values_nonneg [OF u]
  from assms(1) show ?thesis
    unfolding settle_answer_def u Let_def prod.case
    by (intro r_into_rtranclp, elim settlement_step [OF _ refl assms(2)]) (use ab assms(3) in auto)
qed

lemma settle_cancelled_steps:
  assumes "settle_cancelled cfg m (Some rid) g started s = (s', r)" "request_ok m rid" "0 \<le> gr_reserved g"
    "0 \<le> gr_input_estimate g"
  shows "(token_step cfg)\<^sup>*\<^sup>* s s'"
proof (cases "gr_reserved g = 0")
  case False
  then show ?thesis
    using assms(1) unfolding settle_cancelled_def Let_def
    by (intro r_into_rtranclp) (simp, elim settlement_step [OF _ refl assms(2)], use assms(3,4) in auto)
qed (use assms(1) in \<open>simp add: settle_cancelled_def skip_op_def\<close>)

lemma settle_failed_steps:
  assumes "settle_failed cfg m (Some rid) g started usage s = (s', r)" "request_ok m rid" "0 \<le> gr_reserved g"
  shows "(token_step cfg)\<^sup>*\<^sup>* s s'"
proof (cases "gr_reserved g = 0")
  case False
  obtain a b where u: "usage_values usage = (a, b)" by fastforce
  note ab = usage_values_nonneg [OF u]
  from False assms(1) show ?thesis
    unfolding settle_failed_def u Let_def prod.case
    by (intro r_into_rtranclp) (simp only: if_False, elim settlement_step [OF _ refl assms(2)], use ab assms(3) in auto)
qed (use assms(1) in \<open>simp add: settle_failed_def skip_op_def\<close>)

lemma handle_error_steps:
  assumes "handle_error cfg m (Some rid) g started usage e s = (s', r)" "request_ok m rid" "0 \<le> gr_reserved g"
    "0 \<le> gr_input_estimate g"
  shows "(token_step cfg)\<^sup>*\<^sup>* s s' \<and> (\<exists>e'. r = Inl e')"
  using assms(1) settle_cancelled_steps [OF _ assms(2-4)] settle_failed_steps [OF _ assms(2,3)]
  unfolding handle_error_def then_raise_def
  by (auto simp: bind_op_def split: if_splits prod.splits sum.splits)

lemma conclude_request_steps:
  assumes conclude: "conclude_request cfg m (Some rid) g meanwhile s = (s', r)" and m: "request_ok m rid"
    and g: "0 \<le> gr_reserved g" "0 \<le> gr_input_estimate g"
    and meanwhile: "\<And>s. (token_step cfg)\<^sup>*\<^sup>* s (meanwhile s)"
  shows "(token_step cfg)\<^sup>*\<^sup>* s s'"
    and "r = Inr () \<Longrightarrow> \<exists>usage. settle_answer cfg m (Some rid) g usage s = (s', Inr ())"
proof -
  have both: "(token_step cfg)\<^sup>*\<^sup>* s s' \<and> (r = Inr () \<longrightarrow> (\<exists>usage. settle_answer cfg m (Some rid) g usage s = (s', Inr ())))"
  proof (cases "mc_outcome m")
    case (Answered usage in_scope)
    obtain s1 x where settle: "settle_answer cfg m (Some rid) g usage s = (s1, x)" by fastforce
    have steps: "(token_step cfg)\<^sup>*\<^sup>* s (meanwhile s1)"
      using settle_answer_steps [OF settle m g(1)] meanwhile by (rule rtranclp_trans)
    show ?thesis
    proof (cases x)
      case (Inl e)
      then show ?thesis
        using conclude Answered settle steps handle_error_steps [OF _ m g, of cfg True "(0, 0)" e "meanwhile s1" s' r]
        by (auto simp: conclude_request_def intro: rtranclp_trans)
    next
      case (Inr u)
      then show ?thesis
        using conclude Answered settle steps settle_answer_steps [OF settle m g(1)]
          handle_error_steps [OF _ m g, of cfg True "(0, 0)" outside_scope "meanwhile s1" s' r]
        by (auto simp: conclude_request_def split: if_splits intro: rtranclp_trans)
    qed
  qed (use conclude handle_error_steps [OF _ m g] in \<open>force simp: conclude_request_def\<close>)+
  then show "(token_step cfg)\<^sup>*\<^sup>* s s'" "r = Inr () \<Longrightarrow> \<exists>usage. settle_answer cfg m (Some rid) g usage s = (s', Inr ())"
    by blast+
qed

lemma flight_steps: "token_step cfg s (enter_flight (Some rid) s)" "token_step cfg s (leave_flight (Some rid) s)"
  by (simp_all add: enter_flight_def leave_flight_def Flight_step)

section \<open>What a granted request holds\<close>

lemma new_reservation_grants:
  assumes new: "new_reservation cfg q p requested est audit s = (s', Inr g)" and match: "matching_request q"
    and rid: "rr_reservation q = Some rid"
  shows "\<exists>r. dict_get (ts_reservations s') rid = Some r \<and> rs_reserved_total r = gr_reserved g
    \<and> rs_input_estimate r = gr_input_estimate g"
proof -
  let ?cap = "output_cap_of cfg s q p requested est"
  let ?g = "granted p ?cap est (est + ?cap)"
  from new rid have "0 < ?cap" and "bind_op (reserve_run_model_turn cfg) (\<lambda>_ s1.
      bind_op (undo_on_error (emit_audited cfg (started_event q (est + ?cap) est audit) (rr_index q))
        (unbook rid (ts_remaining s1) (est + ?cap))) (\<lambda>_ s3. (s3, Inr ?g)) (book_reservation q ?cap est audit s1)) s = (s', Inr g)"
    by (simp_all add: new_reservation_def Let_def split: if_splits)
  from this(2) show ?thesis
  proof (cases rule: bind_op_cases)
    case (ok u s1)
    from ok(2) show ?thesis
    proof (cases rule: bind_op_cases)
      case (ok v s3)
      from ok(1) have "emit_audited cfg (started_event q (est + ?cap) est audit) (rr_index q)
          (book_reservation q ?cap est audit s1) = (s3, Inr v)"
        by (cases rule: undo_on_error_cases) auto
      from start_event_moves [OF this match] obtain ev
        where "ledger s3 = ledger (note_event ev (book_reservation q ?cap est audit s1))" by auto
      from ledger_eqD(2) [OF this] show ?thesis
        using ok(2) rid by (auto simp: book_reservation_def Let_def granted_def)
    qed simp
  qed simp
qed

lemma reserve_grants:
  assumes reserve: "reserve_model_budget_once cfg q s = (s', Inr g)" and match: "matching_request q"
    and rid: "rr_reservation q = Some rid" and ok: "ledger_ok B s"
  shows "\<exists>r. dict_get (ts_reservations s') rid = Some r \<and> rs_reserved_total r = gr_reserved g
    \<and> rs_input_estimate r = gr_input_estimate g"
proof -
  obtain c where c: "ts_remaining s = Some c" using balancedD [OF ok] by blast
  let ?requested = "case rr_budget q of Some n \<Rightarrow> n | None \<Rightarrow> c"
  let ?p = "closing_plan_of cfg s q ?requested"
  obtain est audit where e: "calibrated_estimate cfg s (rr_actor q) (cp_prompt ?p) (cp_context ?p) = (est, audit)"
    by fastforce
  have budget: "(case rr_budget q of Some n \<Rightarrow> Some n | None \<Rightarrow> ts_remaining s) = Some ?requested"
    using c by (simp split: option.splits)
  note reserve' = reserve [unfolded reserve_model_budget_once_def budget option.case Let_def e prod.case rid]
  show ?thesis
  proof (cases "dict_get (ts_reservations s) rid")
    case (Some r)
    let ?g = "granted ?p (rs_output_cap r) (rs_input_estimate r) (rs_reserved_total r)"
    have retake: "retake_reservation cfg q ?p rid r s = (s', Inr g)" using reserve' Some by simp
    show ?thesis
    proof (cases "rs_status r = ''retrying''")
      case True
      with retake have "bind_op (then_op (reserve_run_model_turn cfg)
          (emit_audited cfg (started_event q (rs_reserved_total r) (rs_input_estimate r) (rs_audit r)) (rr_index q)))
        (\<lambda>_ s'. (mark_reservation rid r ''reserved'' s', Inr ?g)) s = (s', Inr g)"
        by (simp add: retake_reservation_def Let_def)
      then show ?thesis by (cases rule: bind_op_cases) (auto simp: granted_def)
    qed (use retake Some in \<open>auto simp: retake_reservation_def Let_def granted_def\<close>)
  next
    case None
    with reserve' have "\<exists>s1. new_reservation cfg q ?p ?requested est audit s1 = (s', Inr g)"
      by (auto simp: then_op_def split: if_splits prod.splits sum.splits)
    then show ?thesis using new_reservation_grants [OF _ match rid] by blast
  qed
qed

section \<open>Requests in flight\<close>

text \<open>A reservation does not touch the set of requests that are on their way.\<close>

definition keeps_flight :: "(token_state, 'a) op \<Rightarrow> bool" where
  "keeps_flight f = (\<forall>s s' r. f s = (s', r) \<longrightarrow> ts_inflight s' = ts_inflight s)"

lemma keeps_flightI: "(\<And>s s' r. f s = (s', r) \<Longrightarrow> ts_inflight s' = ts_inflight s) \<Longrightarrow> keeps_flight f"
  by (simp add: keeps_flight_def)

lemma keeps_flightD: "keeps_flight f \<Longrightarrow> f s = (s', r) \<Longrightarrow> ts_inflight s' = ts_inflight s"
  by (simp add: keeps_flight_def)

lemma return_flight: "keeps_flight (\<lambda>s. (s, r))"
  by (simp add: keeps_flight_def)

lemma bind_flight: "keeps_flight f \<Longrightarrow> (\<And>a. keeps_flight (g a)) \<Longrightarrow> keeps_flight (bind_op f g)"
  by (rule keeps_flightI, erule bind_op_cases) (metis keeps_flightD)+

lemma then_flight: "keeps_flight f \<Longrightarrow> keeps_flight g \<Longrightarrow> keeps_flight (then_op f g)"
  by (rule keeps_flightI, erule then_op_cases) (metis keeps_flightD)+

lemma undo_flight:
  "keeps_flight f \<Longrightarrow> (\<And>s. ts_inflight (undo s) = ts_inflight s) \<Longrightarrow> keeps_flight (undo_on_error f undo)"
  by (rule keeps_flightI, erule undo_on_error_cases) (metis keeps_flightD)+

text \<open>An operation on a state that has the same requests in flight.\<close>

lemma flight_on: "keeps_flight f \<Longrightarrow> (\<And>s. ts_inflight (h s) = ts_inflight s) \<Longrightarrow> keeps_flight (\<lambda>s. f (h s))"
  by (rule keeps_flightI) (metis keeps_flightD)

lemma emit_flight: "keeps_flight (emit_audited cfg build i)"
  by (rule keeps_flightI)
    (auto simp: emit_audited_def emit_model_def record_model_usage_event_def record_model_request_event_def Let_def
      split: sum.splits option.splits prod.splits if_splits)

lemma turn_flight: "keeps_flight (reserve_run_model_turn cfg)"
  by (rule keeps_flightI) (auto simp: reserve_run_model_turn_def split: sum.splits option.splits if_splits)

lemma booking_flight [simp]:
  "ts_inflight (book_reservation q cap est audit s) = ts_inflight s"
  "ts_inflight (unbook rid current n s) = ts_inflight s" "ts_inflight (take_back rid r n s) = ts_inflight s"
  "ts_inflight (release_reservation rid n s) = ts_inflight s" "ts_inflight (mark_reservation rid r status s) = ts_inflight s"
  by (simp_all add: book_reservation_def unbook_def take_back_def release_reservation_def mark_reservation_def Let_def
      split: option.split)

lemma defer_one_flight: "keeps_flight (defer_one cfg call execution attempt actor item)"
  by (rule keeps_flightI)
    (auto simp: defer_one_def split: prod.splits dest: keeps_flightD [OF undo_flight [OF emit_flight], rotated])

lemma run_all_flight: "(\<And>x. keeps_flight (f x)) \<Longrightarrow> keeps_flight (run_all f xs)"
proof (induction xs)
  case (Cons x xs)
  have "run_all f (x # xs) = then_op (f x) (run_all f xs)" by (rule ext) simp
  with Cons show ?case by (simp add: then_flight)
qed (simp add: keeps_flight_def)

lemma defer_flight: "keeps_flight (defer_later_model_retries cfg call i execution attempt actor)"
  by (rule keeps_flightI)
    (auto simp: defer_later_model_retries_def dest: keeps_flightD [OF run_all_flight [OF defer_one_flight]])

lemma new_reservation_flight: "keeps_flight (new_reservation cfg q p requested est audit)"
proof (rule keeps_flightI)
  fix s s' r
  assume new: "new_reservation cfg q p requested est audit s = (s', r)"
  define cap where "cap = output_cap_of cfg s q p requested est"
  define cont where "cont = (\<lambda>u :: unit. \<lambda>s1.
      let s2 = book_reservation q cap est audit s1; g = granted p cap est (est + cap) in
      case rr_reservation q of None \<Rightarrow> (s2, Inr g)
      | Some rid \<Rightarrow> bind_op (undo_on_error (emit_audited cfg (started_event q (est + cap) est audit) (rr_index q))
          (unbook rid (ts_remaining s1) (est + cap))) (\<lambda>_ s3. (s3, Inr g)) s2)"
  have "keeps_flight (cont u)" for u
  proof (rule keeps_flightI)
    fix s1 s2 x
    assume "cont u s1 = (s2, x)"
    then show "ts_inflight s2 = ts_inflight s1"
    proof (cases "rr_reservation q")
      case (Some rid)
      let ?f = "bind_op (undo_on_error (emit_audited cfg (started_event q (est + cap) est audit) (rr_index q))
          (unbook rid (ts_remaining s1) (est + cap))) (\<lambda>_ s3. (s3, Inr (granted p cap est (est + cap))))"
      have "keeps_flight ?f" by (intro bind_flight undo_flight emit_flight return_flight) simp
      moreover assume "cont u s1 = (s2, x)"
      then have "?f (book_reservation q cap est audit s1) = (s2, x)" by (simp only: cont_def Let_def Some option.case)
      ultimately show ?thesis using booking_flight(1) keeps_flightD by metis
    qed (auto simp: cont_def Let_def)
  qed
  then have "keeps_flight (bind_op (reserve_run_model_turn cfg) cont)" by (intro bind_flight turn_flight)
  moreover have "s' = s \<or> bind_op (reserve_run_model_turn cfg) cont s = (s', r)"
    using new unfolding new_reservation_def Let_def cap_def [symmetric] cont_def by (auto split: if_splits)
  ultimately show "ts_inflight s' = ts_inflight s" by (auto dest: keeps_flightD)
qed

lemma retake_flight: "keeps_flight (retake_reservation cfg q p rid r)"
proof (rule keeps_flightI)
  fix s s' x
  let ?event = "emit_audited cfg (started_event q (rs_reserved_total r) (rs_input_estimate r) (rs_audit r)) (rr_index q)"
  let ?g = "granted p (rs_output_cap r) (rs_input_estimate r) (rs_reserved_total r)"
  let ?f = "bind_op (then_op (reserve_run_model_turn cfg) ?event) (\<lambda>_ s'. (mark_reservation rid r ''reserved'' s', Inr ?g))"
  have "keeps_flight ?f"
    by (intro bind_flight then_flight turn_flight emit_flight) (simp add: keeps_flight_def)
  moreover assume "retake_reservation cfg q p rid r s = (s', x)"
  then have "s' = s \<or> ?f s = (s', x)" by (auto simp: retake_reservation_def Let_def split: if_splits)
  ultimately show "ts_inflight s' = ts_inflight s" by (auto dest: keeps_flightD)
qed

lemma reserve_inflight:
  assumes "reserve_model_budget_once cfg q s = (s', x)"
  shows "ts_inflight s' = ts_inflight s"
proof -
  have skip: "keeps_flight skip_op" by (simp add: keeps_flight_def skip_op_def)
  have reserve: "ts_inflight s2 = ts_inflight s" if
    "then_op (if b then defer_later_model_retries cfg call i execution attempt actor else skip_op)
      (new_reservation cfg q p requested est audit) s = (s2, y)" for b call i execution attempt actor p requested est audit s2 y
    by (rule keeps_flightD [OF then_flight [OF _ new_reservation_flight] that]) (simp add: skip defer_flight)
  show ?thesis
  proof (cases "case rr_budget q of Some n \<Rightarrow> Some n | None \<Rightarrow> ts_remaining s")
    case (Some requested)
    let ?p = "closing_plan_of cfg s q requested"
    obtain est audit where e: "calibrated_estimate cfg s (rr_actor q) (cp_prompt ?p) (cp_context ?p) = (est, audit)"
      by fastforce
    note reserve' = assms [unfolded reserve_model_budget_once_def Some option.case Let_def e prod.case]
    show ?thesis
    proof (cases "rr_reservation q")
      case None
      show ?thesis by (rule reserve [OF reserve' [unfolded None option.case]])
    next
      case (Some rid)
      note reserve'' = reserve' [unfolded Some option.case]
      show ?thesis
      proof (cases "dict_get (ts_reservations s) rid")
        case None
        show ?thesis
          using reserve'' [unfolded None option.case]
          by (cases "rid \<in> set (ts_settled s)") (simp, simp only: if_False, erule reserve)
      next
        case (Some r)
        show ?thesis by (rule keeps_flightD [OF retake_flight reserve'' [unfolded Some option.case]])
      qed
    qed
  qed (use assms in \<open>simp add: reserve_model_budget_once_def\<close>)
qed

section \<open>The whole request\<close>

lemma settle_final_settles: "settle_final cfg q rid r s = (s', Inr ()) \<Longrightarrow> rid \<in> set (ts_settled s')"
  by (auto simp: settle_final_def bind_op_def close_reservation_def split: prod.splits sum.splits)

lemma settle_overrun_raises: "settle_overrun cfg q rid r s \<noteq> (s', Inr ())"
  by (auto simp: settle_overrun_def Let_def bind_op_def exceeded_def split: prod.splits sum.splits if_splits)

lemma settle_answer_settles:
  assumes settle: "settle_answer cfg m (Some rid) g usage s = (s', Inr ())" and ok: "ledger_ok B s"
    and r: "dict_get (ts_reservations s) rid = Some r"
  shows "rid \<in> set (ts_settled s')"
proof -
  obtain c where c: "ts_remaining s = Some c" using balancedD [OF ok] by blast
  obtain a b where u: "usage_values (case usage of Some u \<Rightarrow> u | None \<Rightarrow> (0, 0)) = (a, b)" by fastforce
  obtain q0 where q: "settle_model_budget cfg q0 s = (s', Inr ())" "st_reservation q0 = Some rid" "st_status q0 = ''completed''"
    using settle unfolding settle_answer_def u Let_def prod.case
    by (fastforce simp: settlement_of_def)
  have "st_status (effective q0) \<noteq> ''retrying''" using q(3) by (simp add: effective_def)
  moreover have "settle_reservation cfg (effective q0) c rid s = (s', Inr ())"
    using q(1,2) c by (simp add: settle_model_budget_def Let_def)
  ultimately show ?thesis
    using r open_not_settled [OF ok r] settle_final_settles settle_overrun_raises
    by (auto simp: settle_reservation_def Let_def split: if_splits)
qed

lemma inflight_ledger: "ts_reservations (enter_flight x s) = ts_reservations s" "ts_settled (leave_flight x s) = ts_settled s"
  "ts_reservations (leave_flight x s) = ts_reservations s"
  by (simp_all add: enter_flight_def leave_flight_def set_inflight_def split: option.splits)

text \<open>
  What the other requests may do while this one waits or is on its way: any run of reservations,
  settlements and moves in and out of flight that leaves the reservation of this identifier and
  its place in flight alone.
\<close>

definition spares :: "token_config \<Rightarrow> string \<Rightarrow> token_change \<Rightarrow> bool" where
  "spares cfg rid f = (\<forall>s. (token_step cfg)\<^sup>*\<^sup>* s (f s)
     \<and> dict_get (ts_reservations (f s)) rid = dict_get (ts_reservations s) rid
     \<and> (rid \<in> set (ts_inflight (f s)) \<longleftrightarrow> rid \<in> set (ts_inflight s)))"

lemma sparesD:
  assumes "spares cfg rid f"
  shows "(token_step cfg)\<^sup>*\<^sup>* s (f s)" "dict_get (ts_reservations (f s)) rid = dict_get (ts_reservations s) rid"
    "rid \<in> set (ts_inflight (f s)) \<longleftrightarrow> rid \<in> set (ts_inflight s)"
  using assms by (simp_all add: spares_def)

lemma ledger_steps_ok: "(token_step cfg)\<^sup>*\<^sup>* s s' \<Longrightarrow> ledger_ok B s \<Longrightarrow> ledger_ok B s'"
  by (induction rule: rtranclp_induct) (blast intro: token_system.concrete.step_ok)+

lemma sent_request_steps:
  assumes sent: "sent_request cfg m (Some rid) g refusal others meanwhile s = (s', r)" and m: "request_ok m rid"
    and ok: "ledger_ok B s" and open_r: "dict_get (ts_reservations s) rid = Some q"
      "rs_reserved_total q = gr_reserved g" "rs_input_estimate q = gr_input_estimate g"
    and others: "spares cfg rid others" "spares cfg rid meanwhile"
  shows "(token_step cfg)\<^sup>*\<^sup>* s s' \<and> rid \<notin> set (ts_inflight s') \<and> (r = Inr () \<longrightarrow> rid \<in> set (ts_settled s'))"
proof -
  have g: "0 \<le> gr_reserved g" "0 \<le> gr_input_estimate g"
    using open_reservation_ok [OF ok open_r(1)] open_r(2,3) by (auto simp: reservation_ok_def)
  obtain s1 where s1: "s' = leave_flight (Some rid) s1"
    "(if mc_started m then conclude_request cfg m (Some rid) g meanwhile (others (enter_flight (Some rid) s))
      else handle_error cfg m (Some rid) g False (0, 0) refusal (others s)) = (s1, r)"
    using sent by (auto simp: sent_request_def split: prod.splits)
  have out: "rid \<notin> set (ts_inflight s')" by (simp add: s1(1) leave_flight_def set_inflight_def)
  have leave: "(token_step cfg)\<^sup>*\<^sup>* s s1 \<Longrightarrow> (token_step cfg)\<^sup>*\<^sup>* s s'"
    using flight_steps(2) [of cfg s1 rid] by (simp add: s1(1) rtranclp.rtrancl_into_rtrancl)
  show ?thesis
  proof (cases "mc_started m")
    case False
    then have h: "handle_error cfg m (Some rid) g False (0, 0) refusal (others s) = (s1, r)" using s1(2) by simp
    have "(token_step cfg)\<^sup>*\<^sup>* s s1"
      using sparesD(1) [OF others(1)] handle_error_steps [OF h m g] by (blast intro: rtranclp_trans)
    then show ?thesis using handle_error_steps [OF h m g] leave out by auto
  next
    case True
    let ?s0 = "enter_flight (Some rid) s"
    have c: "conclude_request cfg m (Some rid) g meanwhile (others ?s0) = (s1, r)" using s1(2) True by simp
    note c = conclude_request_steps [OF c m g sparesD(1) [OF others(2)]]
    have before: "(token_step cfg)\<^sup>*\<^sup>* s (others ?s0)"
      using flight_steps(1) sparesD(1) [OF others(1)] by (rule converse_rtranclp_into_rtranclp)
    have "dict_get (ts_reservations (others ?s0)) rid = Some q"
      using sparesD(2) [OF others(1)] open_r(1) inflight_ledger(1) by simp
    then have "r = Inr () \<Longrightarrow> rid \<in> set (ts_settled s1)"
      using c(2) settle_answer_settles ledger_steps_ok [OF before ok] by metis
    then show ?thesis
      using rtranclp_trans [OF before c(1)] leave out by (auto simp: s1(1) inflight_ledger(2))
  qed
qed

text \<open>
  The waiting loop: it runs on the ledger, and waits through a round only when nothing raised
  and another request was on its way.
\<close>

fun waited_through :: "token_config \<Rightarrow> reserve_request \<Rightarrow> wait_round list \<Rightarrow> token_state \<Rightarrow> bool" where
  "waited_through cfg q [] s = True"
| "waited_through cfg q ((others, e) # rounds) s =
     (e = None \<and> ts_inflight (others s) \<noteq> []
      \<and> waited_through cfg q rounds (fst (reserve_model_budget_once cfg q (others s))))"

lemma waits_for_flight: "waits_for_settlement s call e \<Longrightarrow> ts_inflight s \<noteq> []"
  by (auto simp: waits_for_settlement_def list_ex_iff)

lemma reserve_rounds:
  assumes match: "matching_request q" and rid: "rr_reservation q = Some rid" and "ledger_ok B s"
    and "list_all (\<lambda>(others, e). spares cfg rid others) rounds" and "rid \<notin> set (ts_inflight s)"
  shows "case reserve_model_budget cfg q rounds s of
      None \<Rightarrow> waited_through cfg q rounds s
    | Some (s', x) \<Rightarrow> (token_step cfg)\<^sup>*\<^sup>* s s' \<and> rid \<notin> set (ts_inflight s')
        \<and> (\<forall>g. x = Inr g \<longrightarrow> (\<exists>r. dict_get (ts_reservations s') rid = Some r
              \<and> rs_reserved_total r = gr_reserved g \<and> rs_input_estimate r = gr_input_estimate g))"
  using assms(3-5)
proof (induction rounds arbitrary: s)
  case Nil
  then show ?case by simp
next
  case (Cons round rounds)
  obtain others e where round: "round = (others, e)" by (cases round)
  note o = sparesD [of cfg rid others s]
  have others: "(token_step cfg)\<^sup>*\<^sup>* s (others s)" "rid \<notin> set (ts_inflight (others s))"
    using Cons.prems(2,3) o(1,3) by (simp_all add: round)
  note ok = ledger_steps_ok [OF others(1) Cons.prems(1)]
  show ?case
  proof (cases e)
    case (Some x)
    then show ?thesis using others by (simp add: round)
  next
    case None
    obtain s1 x where once: "reserve_model_budget_once cfg q (others s) = (s1, x)" by fastforce
    have step: "token_step cfg (others s) s1" by (rule Reserve_step [OF match once])
    have steps: "(token_step cfg)\<^sup>*\<^sup>* s s1" using others(1) step by (rule rtranclp.rtrancl_into_rtrancl)
    note flight = reserve_inflight [OF once]
    show ?thesis
    proof (cases x)
      case (Inr g)
      then show ?thesis
        using once steps flight others(2) reserve_grants [OF once [unfolded Inr] match rid ok] by (simp add: round None)
    next
      case (Inl err)
      show ?thesis
      proof (cases "waits_for_settlement s1 (rr_call q) err")
        case False
        then show ?thesis using once Inl steps flight others(2) by (simp add: round None)
      next
        case True
        have more: "reserve_model_budget cfg q (round # rounds) s = reserve_model_budget cfg q rounds s1"
          using once Inl True by (simp add: round None)
        have busy: "ts_inflight (others s) \<noteq> []" using waits_for_flight [OF True] flight by simp
        have "ledger_ok B s1" by (rule ledger_steps_ok [OF steps Cons.prems(1)])
        with Cons.IH [of s1] Cons.prems(2) others(2) flight busy show ?thesis
          unfolding more by (auto simp: round None once split: option.splits intro: rtranclp_trans [OF steps])
      qed
    qed
  qed
qed

text \<open>C35: A model request runs on the ledger, whatever other requests do meanwhile.  It finds an
  identifier that carries its index.  Let the other requests, before each of its attempts, while
  the model answers and before the settlement of its handler, reserve, settle and be sent in any
  way that leaves this identifier's reservation and its place in flight alone.  Then the request
  returns, unless it still waits after all given rounds, in each of which neither the deadline
  nor a check or a cancellation raised and another request was in flight.  Every way it returns
  is a run of reservation and settlement steps; it is not in flight any more; and when it
  returns an answer its reservation is settled.\<close>

theorem request_settles:
  assumes "ledger_ok B s" and "mc_call m = Some call" and "0 \<le> mc_index m"
  shows "\<exists>rid. model_request_reservation_id s (mc_call m) (mc_index m) = Some (Some rid)
    \<and> request_index_from_reservation_id rid = Some (mc_index m)
    \<and> (rid \<notin> set (ts_inflight s) \<and> list_all (\<lambda>(f, e). spares cfg rid f) rounds
        \<and> spares cfg rid others \<and> spares cfg rid meanwhile \<longrightarrow>
       (case get_response cfg m refusal rounds others meanwhile s of
          None \<Rightarrow> waited_through cfg (reserve_request_of m (Some rid)) rounds s
        | Some (s', r) \<Rightarrow> (token_step cfg)\<^sup>*\<^sup>* s s' \<and> rid \<notin> set (ts_inflight s')
            \<and> (r = Inr () \<longrightarrow> rid \<in> set (ts_settled s'))))"
proof -
  obtain rid where rid: "model_request_reservation_id s (Some call) (mc_index m) = Some (Some rid)"
    "request_index_from_reservation_id rid = Some (mc_index m)"
    using identifier_exists [OF ledger_okD(4) [OF assms(1)] assms(3)] by blast
  then have m: "request_ok m rid" by (simp add: matching_index_def)
  let ?q = "reserve_request_of m (Some rid)"
  have match: "matching_request ?q" and q: "rr_reservation ?q = Some rid"
    using m by (simp_all add: matching_request_def reserve_request_of_def)
  let ?response = "get_response cfg m refusal rounds others meanwhile s"
  have "case ?response of
          None \<Rightarrow> waited_through cfg ?q rounds s
        | Some (s', r) \<Rightarrow> (token_step cfg)\<^sup>*\<^sup>* s s' \<and> rid \<notin> set (ts_inflight s')
            \<and> (r = Inr () \<longrightarrow> rid \<in> set (ts_settled s'))"
    if out: "rid \<notin> set (ts_inflight s)" and spare: "list_all (\<lambda>(f, e). spares cfg rid f) rounds"
      "spares cfg rid others" "spares cfg rid meanwhile"
  proof (cases "reserve_model_budget cfg ?q rounds s")
    case None
    then have "?response = None" using assms(2) rid(1) by (simp add: get_response_def)
    then show ?thesis using reserve_rounds [OF match q assms(1) spare(1) out] None by simp
  next
    case (Some p)
    obtain s1 x where p: "p = (s1, x)" by (cases p)
    have reserved: "(token_step cfg)\<^sup>*\<^sup>* s s1" "rid \<notin> set (ts_inflight s1)"
      "x = Inr g \<Longrightarrow> \<exists>r. dict_get (ts_reservations s1) rid = Some r
         \<and> rs_reserved_total r = gr_reserved g \<and> rs_input_estimate r = gr_input_estimate g" for g
      using reserve_rounds [OF match q assms(1) spare(1) out] by (simp_all add: Some p)
    show ?thesis
    proof (cases x)
      case (Inl e)
      then have "?response = Some (s1, Inl e)" using assms(2) rid(1) Some p by (simp add: get_response_def)
      then show ?thesis using reserved(1,2) by simp
    next
      case (Inr g)
      obtain r0 where r0: "dict_get (ts_reservations s1) rid = Some r0" "rs_reserved_total r0 = gr_reserved g"
        "rs_input_estimate r0 = gr_input_estimate g" using reserved(3) [OF Inr] by blast
      obtain s' r where sent: "sent_request cfg m (Some rid) g refusal others meanwhile s1 = (s', r)" by fastforce
      have "?response = Some (s', r)" using assms(2) rid(1) Some p Inr sent by (simp add: get_response_def)
      moreover have "(token_step cfg)\<^sup>*\<^sup>* s1 s' \<and> rid \<notin> set (ts_inflight s') \<and> (r = Inr () \<longrightarrow> rid \<in> set (ts_settled s'))"
        by (rule sent_request_steps [OF sent m ledger_steps_ok [OF reserved(1) assms(1)] r0 spare(2,3)])
      ultimately show ?thesis using reserved(1) by (auto intro: rtranclp_trans)
    qed
  qed
  then show ?thesis using rid assms(2) by auto
qed

section \<open>A deferred request that was settled\<close>

lemma resumable_skip:
  "list_all (\<lambda>ev. re_status ev \<notin> {Some ''retrying'', Some ''deferred''}) xs \<Longrightarrow> resumable s (xs @ ys) = resumable s ys"
  by (induction xs) auto

lemma settled_identifier_raises:
  assumes "ts_remaining s = Some left" and "rr_reservation q = Some rid"
    and "dict_get (ts_reservations s) rid = None" and "rid \<in> set (ts_settled s)"
  shows "reserve_model_budget_once cfg q s = (s, Inl (V11RuntimeContractError ''model reservation was already settled''))"
  using assms by (simp add: reserve_model_budget_once_def split: option.splits prod.split)

text \<open>C36: A request whose newest deferral has been taken up and settled since cannot be asked again.
  The search for its identifier stops at the deferred event, which outlives the settlement,
  and gives the settled identifier instead of a replay identifier.  However the other requests
  act before its attempt, as long as the identifier stays settled and the budget is limited the
  request raises, and it does not wait.\<close>

theorem settled_deferral_blocks:
  assumes "request_history s call i = older @ ev # newer" and "re_status ev = Some ''deferred''"
    and "list_all (\<lambda>e. re_status e \<notin> {Some ''retrying'', Some ''deferred''}) newer"
    and "dict_get (ts_reservations s) (re_reservation ev) = None"
    and "dict_get (ts_reservations (before s)) (re_reservation ev) = None"
    and "re_reservation ev \<in> set (ts_settled (before s))" and "ts_remaining (before s) = Some left"
    and "mc_call m = Some call" and "mc_index m = i"
  shows "get_response cfg m refusal ((before, None) # rounds) others meanwhile s
    = Some (before s, Inl (V11RuntimeContractError ''model reservation was already settled''))"
proof -
  let ?rid = "re_reservation ev"
  have "resumable s (rev (request_history s call i)) = Some ?rid"
    using resumable_skip [of "rev newer" s "ev # rev older"] assms(1-4) by simp
  then have id: "model_request_reservation_id s (Some call) i = Some (Some ?rid)"
    by (simp add: model_request_reservation_id_def model_reservation_id_def Let_def)
  have "rr_reservation (reserve_request_of m (Some ?rid)) = Some ?rid" by (simp add: reserve_request_of_def)
  from settled_identifier_raises [OF assms(7) this assms(5,6)] show ?thesis
    using id assms(8,9) by (simp add: get_response_def waits_for_settlement_def)
qed

section \<open>A run of one request\<close>

definition demo_tokens :: token_state where
  "demo_tokens =
     \<lparr>ts_remaining = Some 20000, ts_turns = None, ts_reservations = [], ts_settled = [], ts_history = [],
      ts_calibration = [], ts_costs = [], ts_accumulators = [], ts_input_tokens = 0, ts_output_tokens = 0,
      ts_inflight = [], ts_emitted = []\<rparr>"

definition demo_token_config :: token_config where
  "demo_token_config =
     \<lparr>tc_turns_enabled = False, tc_max_turns = 8, tc_max_investigators = 2, tc_max_rounds = 1, tc_max_tool_calls = 4,
      tc_active_sessions = 1, tc_tool_sessions = [], tc_rounds = [], tc_dumps = (\<lambda>_. ''{}''), tc_render = (\<lambda>_. ''{}''),
      tc_loads = (\<lambda>_. None), tc_persist = (\<lambda>_ _. None), tc_turn = None, tc_cancelled = (\<lambda>_ _. False)\<rparr>"

definition demo_model_call :: model_call where
  "demo_model_call =
     \<lparr>mc_budget = None, mc_instructions = ''Review the case.'',
      mc_context = \<lparr>qc_input = PList [], qc_tools = [], qc_output_schema = PNone, qc_history_removed = 0\<rparr>,
      mc_args = \<lparr>ra_tools = [], ra_input = PList [], ra_tool_choice = None, ra_instructions = ''Review the case.''\<rparr>,
      mc_call = Some ''lead-1'', mc_execution = None, mc_attempt = 1, mc_actor = ''LEAD_AGENT'', mc_index = 0,
      mc_started = True, mc_outcome = Answered (Some (120, 40)) True\<rparr>"

lemma demo_tokens_init: "init_ledger 20000 demo_tokens"
  by (simp add: init_ledger_def demo_tokens_def history_ok_def)

definition demo_reserve :: reserve_request where
  "demo_reserve = reserve_request_of demo_model_call (Some ''lead-1:request-1'')"

lemma demo_matches: "matching_request demo_reserve"
proof -
  have "request_index_from_reservation_id ''lead-1:request-1'' = Some 0" by code_simp
  then show ?thesis
    by (simp add: matching_request_def matching_index_def demo_reserve_def reserve_request_of_def demo_model_call_def)
qed

lemma demo_reserve_step:
  "(token_step demo_token_config)\<^sup>*\<^sup>* demo_tokens (fst (reserve_model_budget_once demo_token_config demo_reserve demo_tokens))"
  by (intro r_into_rtranclp Reserve_step [OF demo_matches, of _ _ _ "snd (reserve_model_budget_once demo_token_config demo_reserve demo_tokens)"])
     simp

theorem token_budget_conserved_witness:
  "\<exists>left. ts_remaining (fst (reserve_model_budget_once demo_token_config demo_reserve demo_tokens)) = Some left \<and> 0 \<le> left
    \<and> left + open_tokens (fst (reserve_model_budget_once demo_token_config demo_reserve demo_tokens))
      + settled_tokens (fst (reserve_model_budget_once demo_token_config demo_reserve demo_tokens)) \<le> 20000"
  using token_budget_conserved [OF demo_tokens_init demo_reserve_step] by blast

text \<open>
  A request of another call enters flight before the first attempt; the wait for it is cancelled
  if it lasts.  When the attempt succeeds, the other request leaves while the model answers.
\<close>

definition demo_other :: string where "demo_other = ''lead-2:request-1''"

definition demo_rounds :: "wait_round list" where
  "demo_rounds = [(enter_flight (Some demo_other), None), (leave_flight (Some demo_other), Some CancelledError)]"

theorem request_settles_witness:
  "\<exists>s' r. get_response demo_token_config demo_model_call CancelledError demo_rounds
        (leave_flight (Some demo_other)) id demo_tokens = Some (s', r)
     \<and> (token_step demo_token_config)\<^sup>*\<^sup>* demo_tokens s' \<and> ''lead-1:request-1'' \<notin> set (ts_inflight s')
     \<and> (case r of Inr u \<Rightarrow> ''lead-1:request-1'' \<in> set (ts_settled s') | Inl e \<Rightarrow> True)"
proof -
  have ok: "ledger_ok 20000 demo_tokens" by (rule token_system.concrete.reachable_ok [OF demo_tokens_init rtranclp.rtrancl_refl])
  have id: "model_request_reservation_id demo_tokens (Some ''lead-1'') 0 = Some (Some ''lead-1:request-1'')"
    by code_simp
  have spare: "spares demo_token_config ''lead-1:request-1'' (enter_flight (Some demo_other))"
    "spares demo_token_config ''lead-1:request-1'' (leave_flight (Some demo_other))"
    "spares demo_token_config ''lead-1:request-1'' id"
    by (auto simp: spares_def flight_steps r_into_rtranclp inflight_ledger)
       (auto simp: enter_flight_def leave_flight_def set_inflight_def demo_other_def)
  show ?thesis
    using request_settles [OF ok, of demo_model_call "''lead-1''" demo_token_config demo_rounds
        "leave_flight (Some demo_other)" id CancelledError] id spare
    by (auto simp: demo_model_call_def demo_tokens_def demo_rounds_def split: option.splits sum.splits)
qed

text \<open>The first request was deferred, taken up, answered and settled.\<close>

definition demo_settled_tokens :: token_state where
  "demo_settled_tokens = demo_tokens\<lparr>ts_settled := [''lead-1:request-1''],
     ts_history := [((''lead-1'', 0), map (\<lambda>status. \<lparr>re_reservation = ''lead-1:request-1'', re_status = Some status\<rparr>)
       [''reserved'', ''retrying'', ''deferred'', ''reserved'', ''completed''])]\<rparr>"

theorem settled_deferral_blocks_witness:
  "get_response demo_token_config demo_model_call CancelledError [(enter_flight (Some demo_other), None)] id id
      demo_settled_tokens
     = Some (enter_flight (Some demo_other) demo_settled_tokens,
         Inl (V11RuntimeContractError ''model reservation was already settled''))"
  by (rule settled_deferral_blocks [of _ "''lead-1''" 0
        "map (\<lambda>status. \<lparr>re_reservation = ''lead-1:request-1'', re_status = Some status\<rparr>) [''reserved'', ''retrying'']"
        "\<lparr>re_reservation = ''lead-1:request-1'', re_status = Some ''deferred''\<rparr>"
        "map (\<lambda>status. \<lparr>re_reservation = ''lead-1:request-1'', re_status = Some status\<rparr>) [''reserved'', ''completed'']" _ 20000])
     (simp_all add: demo_settled_tokens_def demo_tokens_def demo_model_call_def request_history_def enter_flight_def set_inflight_def)

end
