(* ===== verification/Runtime_Writer.thy ===== *)
theory Runtime_Writer
  imports Store_Machine
begin

text \<open>
  \<open>RuntimeWriter\<close> (\<open>runtime/writer.py\<close>): callers submit commits, a state lock guards the
  check and the put, a bounded queue hands the commits to one consumer task, which runs
  each on the store in a worker thread and answers the caller through a future.

  The event loop switches tasks only at an \<open>await\<close> that waits, so the code between two such
  points is one step.  A call is a task with its number; its future has the same number.
  Consumer tasks are numbered too: \<open>start\<close> may create one after another.
\<close>

section \<open>Commands\<close>

datatype writer_payload =
    Write_phase phase_commit
  | Write_event event_command
  | Write_terminal terminal_commit
  | Write_tool tool_commit

datatype writer_value =
    Wrote_checkpoint runtime_checkpoint
  | Wrote_event runtime_event
  | Wrote_run runtime_run
  | Wrote_tool tool_call

text \<open>The dispatch of \<open>_consume\<close>.\<close>

definition lift_op :: "('a \<Rightarrow> 'b) \<Rightarrow> ('s, 'a) op \<Rightarrow> ('s, 'b) op" where
  "lift_op f g s = (case g s of (s', Inl e) \<Rightarrow> (s', Inl e) | (s', Inr a) \<Rightarrow> (s', Inr (f a)))"

fun run_payload :: "runtime_env \<Rightarrow> writer_payload \<Rightarrow> writer_value store_op" where
  "run_payload env (Write_phase c) = lift_op Wrote_checkpoint (commit_phase env c)"
| "run_payload env (Write_terminal c) = lift_op Wrote_run (commit_terminal env c)"
| "run_payload env (Write_tool c) = lift_op Wrote_tool (commit_tool env c)"
| "run_payload env (Write_event c) = lift_op Wrote_event (append_event_command env c)"

text \<open>\<open>submit\<close>, \<open>submit_event\<close>, \<open>submit_terminal\<close> and \<open>submit_tool\<close> check the class of the result.\<close>

fun checked_value :: "writer_payload \<Rightarrow> writer_value \<Rightarrow> writer_value result" where
  "checked_value (Write_phase c) (Wrote_checkpoint v) = Inr (Wrote_checkpoint v)"
| "checked_value (Write_phase c) v = Inl (RuntimePersistenceError ''runtime writer returned an invalid result'')"
| "checked_value (Write_event c) (Wrote_event v) = Inr (Wrote_event v)"
| "checked_value (Write_event c) v = Inl (RuntimePersistenceError ''runtime writer returned an invalid event'')"
| "checked_value (Write_terminal c) (Wrote_run v) = Inr (Wrote_run v)"
| "checked_value (Write_terminal c) v = Inl (RuntimePersistenceError ''runtime writer returned an invalid run'')"
| "checked_value (Write_tool c) (Wrote_tool v) = Inr (Wrote_tool v)"
| "checked_value (Write_tool c) v = Inl (RuntimePersistenceError ''runtime writer returned an invalid tool call'')"

definition submit_result :: "writer_payload \<Rightarrow> writer_value result \<Rightarrow> writer_value result" where
  "submit_result p r = and_then r (checked_value p)"

section \<open>State\<close>

datatype writer_call = Call_start | Call_submit writer_payload | Call_shutdown

datatype future_state = Pending | Resolved "writer_value result" | Abandoned

text \<open>
  A call waits for the state lock, holds it while the queue is full, or waits for its future
  (\<open>submit\<close>) or for the consumer it read (\<open>shutdown\<close>).
\<close>

datatype call_state = Entering | Putting | Awaiting | Ended "writer_value option result"

record writer_task =
  wt_call :: writer_call
  wt_state :: call_state
  wt_future :: future_state
  wt_consumer :: nat

text \<open>
  A consumer waits for the queue object it reads from, waits for the thread that runs a
  command, has the result of the thread, or is done; \<open>True\<close> when it was cancelled.
\<close>

datatype consumer_state =
    Getting nat
  | Working nat writer_payload
  | Executed nat "writer_value result"
  | Stopped bool

type_synonym queued = "(nat \<times> writer_payload) option"

record writer_state =
  wr_store :: runtime_store
  wr_max :: int
  wr_queue :: "queued list"         \<comment> \<open>\<open>None\<close> ends the consumer\<close>
  wr_generation :: nat              \<comment> \<open>the current queue object\<close>
  wr_accepting :: bool
  wr_consumer :: "nat option"
  wr_lock :: "nat option"
  wr_tasks :: "writer_task list"
  wr_consumers :: "consumer_state list"
  wr_threads :: "(nat \<times> writer_payload) list"      \<comment> \<open>threads whose consumer was cancelled\<close>
  wr_accepted :: "nat list"                          \<comment> \<open>commands in the order they were queued\<close>
  wr_log :: "(nat \<times> writer_value result) list"      \<comment> \<open>commands in the order they ran\<close>

definition new_writer :: "runtime_store \<Rightarrow> int \<Rightarrow> writer_state" where
  "new_writer s n =
     \<lparr>wr_store = s, wr_max = n, wr_queue = [], wr_generation = 0, wr_accepting = False, wr_consumer = None,
      wr_lock = None, wr_tasks = [], wr_consumers = [], wr_threads = [], wr_accepted = [], wr_log = []\<rparr>"

definition task_of :: "writer_state \<Rightarrow> nat \<Rightarrow> writer_task option" where
  "task_of w i = (if i < length (wr_tasks w) then Some (wr_tasks w ! i) else None)"

definition consumer_of :: "writer_state \<Rightarrow> nat \<Rightarrow> consumer_state option" where
  "consumer_of w k = (if k < length (wr_consumers w) then Some (wr_consumers w ! k) else None)"

definition put_task :: "nat \<Rightarrow> writer_task \<Rightarrow> writer_state \<Rightarrow> writer_state" where
  "put_task i t w = w\<lparr>wr_tasks := (wr_tasks w)[i := t]\<rparr>"

definition put_consumer :: "nat \<Rightarrow> consumer_state \<Rightarrow> writer_state \<Rightarrow> writer_state" where
  "put_consumer k c w = w\<lparr>wr_consumers := (wr_consumers w)[k := c]\<rparr>"

definition end_call :: "nat \<Rightarrow> writer_task \<Rightarrow> writer_value option result \<Rightarrow> writer_state \<Rightarrow> writer_state" where
  "end_call i t r = put_task i (t\<lparr>wt_state := Ended r\<rparr>)"

definition is_stopped :: "consumer_state \<Rightarrow> bool" where
  "is_stopped c = (case c of Stopped b \<Rightarrow> True | _ \<Rightarrow> False)"

text \<open>\<open>asyncio.Queue\<close> without a positive bound is never full.\<close>

definition has_room :: "writer_state \<Rightarrow> bool" where
  "has_room w = (wr_max w \<le> 0 \<or> int (length (wr_queue w)) < wr_max w)"

section \<open>Calls\<close>

definition call_writer :: "writer_call \<Rightarrow> writer_state \<Rightarrow> writer_state" where
  "call_writer c w = w\<lparr>wr_tasks := wr_tasks w
     @ [\<lparr>wt_call = c, wt_state = Entering, wt_future = Pending, wt_consumer = 0\<rparr>]\<rparr>"

definition new_consumer :: "writer_state \<Rightarrow> writer_state" where
  "new_consumer w = w\<lparr>wr_accepting := True, wr_consumer := Some (length (wr_consumers w)),
     wr_consumers := wr_consumers w @ [Getting (wr_generation w)]\<rparr>"

text \<open>\<open>start\<close>\<close>

definition enter_start :: "nat \<Rightarrow> writer_task \<Rightarrow> writer_state \<Rightarrow> writer_state" where
  "enter_start i t w =
     (case wr_consumer w of
        None \<Rightarrow> end_call i t (Inr None) (new_consumer w)
      | Some k \<Rightarrow>
          if \<not> is_stopped (wr_consumers w ! k) then end_call i t (Inr None) w
          else if wr_queue w \<noteq> [] then
            end_call i t (Inl (RuntimePersistenceError ''runtime writer loop closed with pending commands''))
              (w\<lparr>wr_consumer := None\<rparr>)
          else end_call i t (Inr None) (new_consumer (w\<lparr>wr_generation := wr_generation w + 1\<rparr>)))"

text \<open>The put of a command and of the sentinel, once there is room; both release the lock.\<close>

definition put_command :: "nat \<Rightarrow> writer_task \<Rightarrow> writer_payload \<Rightarrow> writer_state \<Rightarrow> writer_state" where
  "put_command i t p w = put_task i (t\<lparr>wt_state := Awaiting\<rparr>)
     (w\<lparr>wr_queue := wr_queue w @ [Some (i, p)], wr_accepted := wr_accepted w @ [i], wr_lock := None\<rparr>)"

definition put_sentinel :: "nat \<Rightarrow> writer_task \<Rightarrow> writer_state \<Rightarrow> writer_state" where
  "put_sentinel i t w = put_task i (t\<lparr>wt_state := Awaiting\<rparr>) (w\<lparr>wr_queue := wr_queue w @ [None], wr_lock := None\<rparr>)"

definition hold_lock :: "nat \<Rightarrow> writer_task \<Rightarrow> writer_state \<Rightarrow> writer_state" where
  "hold_lock i t w = put_task i (t\<lparr>wt_state := Putting\<rparr>) (w\<lparr>wr_lock := Some i\<rparr>)"

text \<open>\<open>_submit\<close>\<close>

definition enter_submit :: "nat \<Rightarrow> writer_task \<Rightarrow> writer_payload \<Rightarrow> writer_state \<Rightarrow> writer_state" where
  "enter_submit i t p w =
     (if \<not> wr_accepting w \<or> wr_consumer w = None then
        end_call i t (Inl (RuntimePersistenceError ''runtime writer is not accepting results'')) w
      else if has_room w then put_command i t p w
      else hold_lock i t w)"

text \<open>\<open>shutdown\<close>: the consumer is read under the lock and awaited after it.\<close>

definition enter_shutdown :: "nat \<Rightarrow> writer_task \<Rightarrow> writer_state \<Rightarrow> writer_state" where
  "enter_shutdown i t w =
     (case wr_consumer w of
        None \<Rightarrow> end_call i t (Inr None) w
      | Some k \<Rightarrow>
          let t' = t\<lparr>wt_consumer := k\<rparr> in
          if \<not> wr_accepting w then put_task i (t'\<lparr>wt_state := Awaiting\<rparr>) w
          else if has_room w then put_sentinel i t' (w\<lparr>wr_accepting := False\<rparr>)
          else hold_lock i t' (w\<lparr>wr_accepting := False\<rparr>))"

definition enter_call :: "nat \<Rightarrow> writer_state \<Rightarrow> writer_state option" where
  "enter_call i w =
     (case task_of w i of
        None \<Rightarrow> None
      | Some t \<Rightarrow>
          if wt_state t \<noteq> Entering \<or> wr_lock w \<noteq> None then None
          else Some (case wt_call t of
              Call_start \<Rightarrow> enter_start i t w
            | Call_submit p \<Rightarrow> enter_submit i t p w
            | Call_shutdown \<Rightarrow> enter_shutdown i t w))"

definition finish_put :: "nat \<Rightarrow> writer_state \<Rightarrow> writer_state option" where
  "finish_put i w =
     (case task_of w i of
        None \<Rightarrow> None
      | Some t \<Rightarrow>
          if wt_state t \<noteq> Putting \<or> \<not> has_room w then None
          else Some (case wt_call t of
              Call_submit p \<Rightarrow> put_command i t p w
            | _ \<Rightarrow> put_sentinel i t w))"

text \<open>
  The wait ends: \<open>submit\<close> reads its future, \<open>shutdown\<close> forgets the consumer unless the
  consumer was cancelled, which \<open>await consumer\<close> raises again.
\<close>

definition resume_submit :: "nat \<Rightarrow> writer_task \<Rightarrow> writer_payload \<Rightarrow> writer_state \<Rightarrow> writer_state option" where
  "resume_submit i t p w =
     (case wt_future t of
        Pending \<Rightarrow> None
      | Resolved r \<Rightarrow> Some (end_call i t (and_then (submit_result p r) (\<lambda>v. Inr (Some v))) w)
      | Abandoned \<Rightarrow> Some (end_call i t (Inl CancelledError) w))"

definition resume_shutdown :: "nat \<Rightarrow> writer_task \<Rightarrow> writer_state \<Rightarrow> writer_state option" where
  "resume_shutdown i t w =
     (case consumer_of w (wt_consumer t) of
        Some (Stopped True) \<Rightarrow> Some (end_call i t (Inl CancelledError) w)
      | Some (Stopped False) \<Rightarrow> Some (end_call i t (Inr None) (w\<lparr>wr_consumer := None\<rparr>))
      | _ \<Rightarrow> None)"

definition resume_call :: "nat \<Rightarrow> writer_state \<Rightarrow> writer_state option" where
  "resume_call i w =
     (case task_of w i of
        None \<Rightarrow> None
      | Some t \<Rightarrow>
          if wt_state t \<noteq> Awaiting then None
          else (case wt_call t of
              Call_submit p \<Rightarrow> resume_submit i t p w
            | _ \<Rightarrow> resume_shutdown i t w))"

section \<open>The consumer\<close>

text \<open>The loop head reads the queue object anew each time.\<close>

definition take_command :: "nat \<Rightarrow> writer_state \<Rightarrow> writer_state option" where
  "take_command k w =
     (case (consumer_of w k, wr_queue w) of
        (Some (Getting g), item # rest) \<Rightarrow>
          if g \<noteq> wr_generation w then None
          else Some (put_consumer k (case item of None \<Rightarrow> Stopped False | Some (i, p) \<Rightarrow> Working i p)
                 (w\<lparr>wr_queue := rest\<rparr>))
      | _ \<Rightarrow> None)"

definition run_on_store :: "runtime_env \<Rightarrow> nat \<Rightarrow> writer_payload \<Rightarrow> writer_state \<Rightarrow> writer_state \<times> writer_value result" where
  "run_on_store env i p w =
     (case run_payload env p (wr_store w) of
        (s', r) \<Rightarrow> (w\<lparr>wr_store := s', wr_log := wr_log w @ [(i, r)]\<rparr>, r))"

definition run_command :: "runtime_env \<Rightarrow> nat \<Rightarrow> writer_state \<Rightarrow> writer_state option" where
  "run_command env k w =
     (case consumer_of w k of
        Some (Working i p) \<Rightarrow> (case run_on_store env i p w of (w', r) \<Rightarrow> Some (put_consumer k (Executed i r) w'))
      | _ \<Rightarrow> None)"

definition resolve :: "nat \<Rightarrow> writer_value result \<Rightarrow> writer_state \<Rightarrow> writer_state" where
  "resolve i r w =
     (case task_of w i of
        None \<Rightarrow> w
      | Some t \<Rightarrow> if wt_future t = Pending then put_task i (t\<lparr>wt_future := Resolved r\<rparr>) w else w)"

definition deliver_result :: "nat \<Rightarrow> writer_state \<Rightarrow> writer_state option" where
  "deliver_result k w =
     (case consumer_of w k of
        Some (Executed i r) \<Rightarrow> Some (put_consumer k (Getting (wr_generation w)) (resolve i r w))
      | _ \<Rightarrow> None)"

section \<open>Cancellation\<close>

text \<open>
  A cancelled \<open>submit\<close> abandons its future.  A cancelled \<open>shutdown\<close> that waits for the
  consumer cancels the consumer; a thread that runs a command runs on without it.
\<close>

definition cancel_consumer :: "nat \<Rightarrow> writer_state \<Rightarrow> writer_state" where
  "cancel_consumer k w =
     (case consumer_of w k of
        None \<Rightarrow> w
      | Some (Stopped b) \<Rightarrow> w
      | Some (Working i p) \<Rightarrow> put_consumer k (Stopped True) (w\<lparr>wr_threads := wr_threads w @ [(i, p)]\<rparr>)
      | Some _ \<Rightarrow> put_consumer k (Stopped True) w)"

definition cancel_call :: "nat \<Rightarrow> writer_state \<Rightarrow> writer_state option" where
  "cancel_call i w =
     (case task_of w i of
        None \<Rightarrow> None
      | Some t \<Rightarrow>
          (case wt_state t of
             Ended r \<Rightarrow> None
           | Entering \<Rightarrow> Some (end_call i t (Inl CancelledError) w)
           | Putting \<Rightarrow> Some (end_call i t (Inl CancelledError) (w\<lparr>wr_lock := None\<rparr>))
           | Awaiting \<Rightarrow>
               (case wt_call t of
                  Call_submit p \<Rightarrow>
                    Some (end_call i (if wt_future t = Pending then t\<lparr>wt_future := Abandoned\<rparr> else t) (Inl CancelledError) w)
                | _ \<Rightarrow> Some (end_call i t (Inl CancelledError) (cancel_consumer (wt_consumer t) w)))))"

definition finish_thread :: "runtime_env \<Rightarrow> writer_state \<Rightarrow> writer_state option" where
  "finish_thread env w =
     (case wr_threads w of
        [] \<Rightarrow> None
      | (i, p) # rest \<Rightarrow> Some (fst (run_on_store env i p (w\<lparr>wr_threads := rest\<rparr>))))"

section \<open>Steps\<close>

text \<open>
  The loop of the consumer may close, and other services use the same store beside the
  writer.
\<close>

inductive writer_step :: "writer_state \<Rightarrow> writer_state \<Rightarrow> bool" where
  Call: "writer_step w (call_writer c w)"
| Enter: "enter_call i w = Some w' \<Longrightarrow> writer_step w w'"
| Put: "finish_put i w = Some w' \<Longrightarrow> writer_step w w'"
| Resume: "resume_call i w = Some w' \<Longrightarrow> writer_step w w'"
| Take: "take_command k w = Some w' \<Longrightarrow> writer_step w w'"
| Run: "run_command env k w = Some w' \<Longrightarrow> writer_step w w'"
| Deliver: "deliver_result k w = Some w' \<Longrightarrow> writer_step w w'"
| Cancel: "cancel_call i w = Some w' \<Longrightarrow> writer_step w w'"
| Thread: "finish_thread env w = Some w' \<Longrightarrow> writer_step w w'"
| Loop_closed: "writer_step w (cancel_consumer k w)"
| Other_service: "store_step (wr_store w) s' \<Longrightarrow> writer_step w (w\<lparr>wr_store := s'\<rparr>)"

inductive_cases writer_step_cases: "writer_step w w'"

end
