(* ===== verification/Writer_Invariant.thy ===== *)
theory Writer_Invariant
  imports Runtime_Writer
begin

text \<open>
  Orderly use of the runtime writer: nobody cancels a shutdown that waits, and nobody starts
  the writer before a shutdown has returned.  The invariant of its states and the proof
  that every orderly step keeps it.
\<close>

section \<open>Orderly use\<close>

text \<open>
  A restriction of the environment, not of the code: \<open>writer_step\<close> allows everything
  \<open>RuntimeWriter\<close> allows, an orderly step leaves out cancelling a shutdown that waits, entering a
  start while a shutdown waits, and closing the event loop.  What the code does then is in
  the last section of \<open>Writer_Properties\<close> and in the last run of \<open>Writer_Samples\<close>.
\<close>

definition waiting_shutdown :: "writer_task \<Rightarrow> bool" where
  "waiting_shutdown t = (wt_call t = Call_shutdown \<and> (wt_state t = Putting \<or> wt_state t = Awaiting))"

definition may_enter :: "writer_state \<Rightarrow> nat \<Rightarrow> bool" where
  "may_enter w i =
     (\<forall>t. task_of w i = Some t \<longrightarrow> wt_call t = Call_start \<longrightarrow> (\<forall>t' \<in> set (wr_tasks w). \<not> waiting_shutdown t'))"

definition may_cancel :: "writer_state \<Rightarrow> nat \<Rightarrow> bool" where
  "may_cancel w i = (\<forall>t. task_of w i = Some t \<longrightarrow> \<not> waiting_shutdown t)"

text \<open>The steps of calls and consumers that have begun.\<close>

inductive internal_step :: "writer_state \<Rightarrow> writer_state \<Rightarrow> bool" where
  Enter_call: "may_enter w i \<Longrightarrow> enter_call i w = Some w' \<Longrightarrow> internal_step w w'"
| Finish_put: "finish_put i w = Some w' \<Longrightarrow> internal_step w w'"
| Resume_call: "resume_call i w = Some w' \<Longrightarrow> internal_step w w'"
| Take_command: "take_command k w = Some w' \<Longrightarrow> internal_step w w'"
| Run_command: "run_command env k w = Some w' \<Longrightarrow> internal_step w w'"
| Deliver_result: "deliver_result k w = Some w' \<Longrightarrow> internal_step w w'"

inductive_cases internal_step_cases: "internal_step w w'"

inductive orderly_step :: "writer_state \<Rightarrow> writer_state \<Rightarrow> bool" where
  Internal: "internal_step w w' \<Longrightarrow> orderly_step w w'"
| New_call: "orderly_step w (call_writer c w)"
| Cancel_call: "may_cancel w i \<Longrightarrow> cancel_call i w = Some w' \<Longrightarrow> orderly_step w w'"
| Other: "store_step (wr_store w) s' \<Longrightarrow> orderly_step w (w\<lparr>wr_store := s'\<rparr>)"

inductive_cases orderly_step_cases: "orderly_step w w'"

lemma orderly_writer_step: "orderly_step w w' \<Longrightarrow> writer_step w w'"
  by (auto elim!: orderly_step_cases internal_step_cases intro: writer_step.intros)

definition init_writer :: "writer_state \<Rightarrow> bool" where
  "init_writer w = (\<exists>s n. w = new_writer s n)"

section \<open>The invariant\<close>

definition live :: "writer_state \<Rightarrow> bool" where
  "live w = (\<exists>k c. wr_consumer w = Some k \<and> consumer_of w k = Some c \<and> \<not> is_stopped c)"

definition working :: "writer_state \<Rightarrow> nat list" where
  "working w = (case wr_consumer w of
      Some k \<Rightarrow> (case consumer_of w k of Some (Working i p) \<Rightarrow> [i] | _ \<Rightarrow> []) | None \<Rightarrow> [])"

definition queued_ids :: "queued list \<Rightarrow> nat list" where
  "queued_ids q = concat (map (\<lambda>x. case x of Some c \<Rightarrow> [fst c] | None \<Rightarrow> []) q)"

definition log_ids :: "writer_state \<Rightarrow> nat list" where
  "log_ids w = map fst (wr_log w)"

definition joins :: "writer_state \<Rightarrow> nat \<Rightarrow> bool" where
  "joins w k = (\<not> wr_accepting w \<and> (wr_consumer w = Some k \<or> wr_consumer w = None \<and> consumer_of w k = Some (Stopped False)))"

definition submits :: "writer_state \<Rightarrow> nat \<Rightarrow> writer_payload \<Rightarrow> bool" where
  "submits w i p = (\<exists>t. task_of w i = Some t \<and> wt_call t = Call_submit p)"

fun call_ok :: "writer_state \<Rightarrow> nat \<Rightarrow> writer_task \<Rightarrow> call_state \<Rightarrow> bool" where
  "call_ok w i t Entering = (i \<notin> set (wr_accepted w) \<and> wt_future t = Pending)"
| "call_ok w i t Putting =
     (i \<notin> set (wr_accepted w) \<and> wt_future t = Pending \<and> live w \<and> wr_lock w = Some i \<and>
      (case wt_call t of Call_start \<Rightarrow> False | Call_submit p \<Rightarrow> wr_accepting w
       | Call_shutdown \<Rightarrow> \<not> wr_accepting w \<and> None \<notin> set (wr_queue w) \<and> wr_consumer w = Some (wt_consumer t)))"
| "call_ok w i t Awaiting =
     (case wt_call t of Call_start \<Rightarrow> False | Call_submit p \<Rightarrow> i \<in> set (wr_accepted w) \<and> wt_future t \<noteq> Abandoned
      | Call_shutdown \<Rightarrow> joins w (wt_consumer t))"
| "call_ok w i t (Ended r) =
     (\<forall>v. r = Inr (Some v) \<longrightarrow> (i, Inr v) \<in> set (wr_log w) \<and> (\<exists>p. wt_call t = Call_submit p \<and> checked_value p v = Inr v))"

definition future_ok :: "writer_state \<Rightarrow> nat \<Rightarrow> writer_task \<Rightarrow> bool" where
  "future_ok w i t =
     ((\<forall>r. wt_future t = Resolved r \<longrightarrow> (i, r) \<in> set (wr_log w))
      \<and> (wt_future t = Pending \<longrightarrow> i \<in> set (log_ids w) \<longrightarrow> (\<exists>k r. consumer_of w k = Some (Executed i r))))"

definition tasks_ok :: "writer_state \<Rightarrow> bool" where
  "tasks_ok w = (\<forall>i t. task_of w i = Some t \<longrightarrow> call_ok w i t (wt_state t) \<and> future_ok w i t)"

definition lock_ok :: "writer_state \<Rightarrow> bool" where
  "lock_ok w = (\<forall>i. wr_lock w = Some i \<longrightarrow> (\<exists>t. task_of w i = Some t \<and> wt_state t = Putting))"

fun consumer_ok :: "writer_state \<Rightarrow> nat \<Rightarrow> consumer_state \<Rightarrow> bool" where
  "consumer_ok w k (Getting g) = (wr_consumer w = Some k \<and> g = wr_generation w)"
| "consumer_ok w k (Working i p) = (wr_consumer w = Some k \<and> submits w i p)"
| "consumer_ok w k (Executed i r) = (wr_consumer w = Some k \<and> (i, r) \<in> set (wr_log w))"
| "consumer_ok w k (Stopped b) = (\<not> b)"

definition consumers_ok :: "writer_state \<Rightarrow> bool" where
  "consumers_ok w =
     ((\<forall>k c. consumer_of w k = Some c \<longrightarrow> consumer_ok w k c)
      \<and> (\<forall>k. wr_consumer w = Some k \<longrightarrow> k < length (wr_consumers w)) \<and> wr_threads w = [])"

definition shutdown_puts :: "writer_state \<Rightarrow> bool" where
  "shutdown_puts w = (\<exists>i t. wr_lock w = Some i \<and> task_of w i = Some t \<and> wt_call t = Call_shutdown)"

definition writer_queue_ok :: "writer_state \<Rightarrow> bool" where
  "writer_queue_ok w =
     ((\<not> live w \<longrightarrow> wr_queue w = [] \<and> \<not> wr_accepting w)
      \<and> (live w \<longrightarrow> \<not> wr_accepting w \<longrightarrow> None \<in> set (wr_queue w) \<or> shutdown_puts w)
      \<and> None \<notin> set (butlast (wr_queue w)) \<and> (None \<in> set (wr_queue w) \<longrightarrow> \<not> wr_accepting w)
      \<and> (\<forall>i p. Some (i, p) \<in> set (wr_queue w) \<longrightarrow> submits w i p))"

definition order_ok :: "writer_state \<Rightarrow> bool" where
  "order_ok w =
     (wr_accepted w = log_ids w @ working w @ queued_ids (wr_queue w) \<and> distinct (wr_accepted w)
      \<and> (\<forall>i \<in> set (wr_accepted w). \<exists>p. submits w i p))"

definition writer_ok :: "writer_state \<Rightarrow> bool" where
  "writer_ok w = (tasks_ok w \<and> lock_ok w \<and> consumers_ok w \<and> writer_queue_ok w \<and> order_ok w)"

lemma writer_okD:
  assumes "writer_ok w"
  shows "tasks_ok w" "lock_ok w" "consumers_ok w" "writer_queue_ok w" "order_ok w"
  using assms by (simp_all add: writer_ok_def)

section \<open>Lookup after an update\<close>

lemma task_of_put [simp]: "task_of w i = Some t0 \<Longrightarrow> task_of (put_task i t w) = (task_of w)(i \<mapsto> t)"
  by (rule ext) (auto simp: task_of_def put_task_def split: if_splits)

lemma consumer_of_put [simp]: "consumer_of w k = Some c0 \<Longrightarrow> consumer_of (put_consumer k c w) = (consumer_of w)(k \<mapsto> c)"
  by (rule ext) (auto simp: consumer_of_def put_consumer_def split: if_splits)

lemma task_of_call [simp]:
  "task_of (call_writer c w) = (task_of w)(length (wr_tasks w) \<mapsto>
     \<lparr>wt_call = c, wt_state = Entering, wt_future = Pending, wt_consumer = 0\<rparr>)"
  by (rule ext) (auto simp: task_of_def call_writer_def nth_append)

lemma consumer_of_new [simp]:
  "consumer_of (new_consumer w) = (consumer_of w)(length (wr_consumers w) \<mapsto> Getting (wr_generation w))"
  by (rule ext) (auto simp: consumer_of_def new_consumer_def nth_append)

lemma lookups_of_updates [simp]:
  "task_of (put_consumer k c w) = task_of w" "consumer_of (put_task i t w) = consumer_of w"
  "consumer_of (call_writer cl w) = consumer_of w" "task_of (new_consumer w) = task_of w"
  by (simp_all add: fun_eq_iff task_of_def consumer_of_def put_consumer_def put_task_def call_writer_def new_consumer_def)

lemma lookups_of_fields [simp]:
  "task_of (w\<lparr>wr_store := s\<rparr>) = task_of w" "task_of (w\<lparr>wr_queue := q\<rparr>) = task_of w"
  "task_of (w\<lparr>wr_generation := g\<rparr>) = task_of w" "task_of (w\<lparr>wr_accepting := b\<rparr>) = task_of w"
  "task_of (w\<lparr>wr_consumer := ko\<rparr>) = task_of w" "task_of (w\<lparr>wr_lock := l\<rparr>) = task_of w"
  "task_of (w\<lparr>wr_accepted := a\<rparr>) = task_of w" "task_of (w\<lparr>wr_log := lg\<rparr>) = task_of w"
  "consumer_of (w\<lparr>wr_store := s\<rparr>) = consumer_of w" "consumer_of (w\<lparr>wr_queue := q\<rparr>) = consumer_of w"
  "consumer_of (w\<lparr>wr_generation := g\<rparr>) = consumer_of w" "consumer_of (w\<lparr>wr_accepting := b\<rparr>) = consumer_of w"
  "consumer_of (w\<lparr>wr_consumer := ko\<rparr>) = consumer_of w" "consumer_of (w\<lparr>wr_lock := l\<rparr>) = consumer_of w"
  "consumer_of (w\<lparr>wr_accepted := a\<rparr>) = consumer_of w" "consumer_of (w\<lparr>wr_log := lg\<rparr>) = consumer_of w"
  "task_of (w\<lparr>wr_threads := th\<rparr>) = task_of w" "consumer_of (w\<lparr>wr_threads := th\<rparr>) = consumer_of w"
  by (simp_all add: fun_eq_iff task_of_def consumer_of_def)

lemma fields_of_put_task [simp]:
  "wr_store (put_task i t w) = wr_store w" "wr_max (put_task i t w) = wr_max w" "wr_queue (put_task i t w) = wr_queue w"
  "wr_generation (put_task i t w) = wr_generation w" "wr_accepting (put_task i t w) = wr_accepting w"
  "wr_consumer (put_task i t w) = wr_consumer w" "wr_lock (put_task i t w) = wr_lock w"
  "wr_consumers (put_task i t w) = wr_consumers w" "wr_threads (put_task i t w) = wr_threads w"
  "wr_accepted (put_task i t w) = wr_accepted w" "wr_log (put_task i t w) = wr_log w"
  by (simp_all add: put_task_def)

lemma fields_of_put_consumer [simp]:
  "wr_store (put_consumer k c w) = wr_store w" "wr_max (put_consumer k c w) = wr_max w"
  "wr_queue (put_consumer k c w) = wr_queue w" "wr_generation (put_consumer k c w) = wr_generation w"
  "wr_accepting (put_consumer k c w) = wr_accepting w" "wr_consumer (put_consumer k c w) = wr_consumer w"
  "wr_lock (put_consumer k c w) = wr_lock w" "wr_tasks (put_consumer k c w) = wr_tasks w"
  "length (wr_consumers (put_consumer k c w)) = length (wr_consumers w)"
  "wr_threads (put_consumer k c w) = wr_threads w" "wr_accepted (put_consumer k c w) = wr_accepted w"
  "wr_log (put_consumer k c w) = wr_log w"
  by (simp_all add: put_consumer_def)

lemma fields_of_call [simp]:
  "wr_store (call_writer c w) = wr_store w" "wr_max (call_writer c w) = wr_max w" "wr_queue (call_writer c w) = wr_queue w"
  "wr_generation (call_writer c w) = wr_generation w" "wr_accepting (call_writer c w) = wr_accepting w"
  "wr_consumer (call_writer c w) = wr_consumer w" "wr_lock (call_writer c w) = wr_lock w"
  "wr_consumers (call_writer c w) = wr_consumers w" "wr_threads (call_writer c w) = wr_threads w"
  "wr_accepted (call_writer c w) = wr_accepted w" "wr_log (call_writer c w) = wr_log w"
  by (simp_all add: call_writer_def)

lemma fields_of_new_consumer [simp]:
  "wr_store (new_consumer w) = wr_store w" "wr_max (new_consumer w) = wr_max w" "wr_queue (new_consumer w) = wr_queue w"
  "wr_generation (new_consumer w) = wr_generation w" "wr_accepting (new_consumer w) = True"
  "wr_consumer (new_consumer w) = Some (length (wr_consumers w))" "wr_lock (new_consumer w) = wr_lock w"
  "wr_tasks (new_consumer w) = wr_tasks w" "length (wr_consumers (new_consumer w)) = Suc (length (wr_consumers w))"
  "wr_threads (new_consumer w) = wr_threads w"
  "wr_accepted (new_consumer w) = wr_accepted w" "wr_log (new_consumer w) = wr_log w"
  by (simp_all add: new_consumer_def)

lemma task_of_new_index [simp]: "task_of w (length (wr_tasks w)) = None"
  by (simp add: task_of_def)

lemma consumer_of_new_index [simp]: "consumer_of w (length (wr_consumers w)) = None"
  by (simp add: consumer_of_def)

lemma consumer_of_bound: "consumer_of w k = Some c \<Longrightarrow> k < length (wr_consumers w)"
  by (simp add: consumer_of_def split: if_splits)

lemma is_stopped_simps [simp]:
  "\<not> is_stopped (Getting g)" "\<not> is_stopped (Working i p)" "\<not> is_stopped (Executed i r)" "is_stopped (Stopped b)"
  by (simp_all add: is_stopped_def)

lemma queued_ids_simps [simp]:
  "queued_ids [] = []" "queued_ids (Some x # q) = fst x # queued_ids q" "queued_ids (None # q) = queued_ids q"
  "queued_ids (p @ q) = queued_ids p @ queued_ids q"
  by (simp_all add: queued_ids_def)

lemma views_of_updates [simp]:
  "live (put_task i t w) = live w" "working (put_task i t w) = working w" "joins (put_task i t w) k = joins w k"
  "live (call_writer c w) = live w" "working (call_writer c w) = working w" "joins (call_writer c w) k = joins w k"
  "live (w\<lparr>wr_store := s\<rparr>) = live w" "working (w\<lparr>wr_store := s\<rparr>) = working w" "joins (w\<lparr>wr_store := s\<rparr>) k = joins w k"
  "live (w\<lparr>wr_queue := q\<rparr>) = live w" "working (w\<lparr>wr_queue := q\<rparr>) = working w" "joins (w\<lparr>wr_queue := q\<rparr>) k = joins w k"
  "live (w\<lparr>wr_lock := l\<rparr>) = live w" "working (w\<lparr>wr_lock := l\<rparr>) = working w" "joins (w\<lparr>wr_lock := l\<rparr>) k = joins w k"
  "live (w\<lparr>wr_log := lg\<rparr>) = live w" "working (w\<lparr>wr_log := lg\<rparr>) = working w" "joins (w\<lparr>wr_log := lg\<rparr>) k = joins w k"
  "live (w\<lparr>wr_accepted := a\<rparr>) = live w" "working (w\<lparr>wr_accepted := a\<rparr>) = working w"
  "joins (w\<lparr>wr_accepted := a\<rparr>) k = joins w k"
  "live (w\<lparr>wr_accepting := b\<rparr>) = live w" "working (w\<lparr>wr_accepting := b\<rparr>) = working w"
  by (simp_all add: live_def working_def joins_def cong: option.case_cong)

lemma submits_of_updates [simp]:
  "submits (put_consumer k c w) = submits w" "submits (new_consumer w) = submits w"
  "submits (w\<lparr>wr_store := s\<rparr>) = submits w" "submits (w\<lparr>wr_queue := q\<rparr>) = submits w" "submits (w\<lparr>wr_lock := l\<rparr>) = submits w"
  "submits (w\<lparr>wr_log := lg\<rparr>) = submits w" "submits (w\<lparr>wr_accepted := a\<rparr>) = submits w"
  "submits (w\<lparr>wr_accepting := b\<rparr>) = submits w" "submits (w\<lparr>wr_consumer := ko\<rparr>) = submits w"
  "submits (w\<lparr>wr_generation := g\<rparr>) = submits w"
  by (simp_all add: fun_eq_iff submits_def)

lemma submits_put_task: "task_of w i = Some t0 \<Longrightarrow> wt_call t = wt_call t0 \<Longrightarrow> submits (put_task i t w) = submits w"
  by (auto simp: fun_eq_iff submits_def)

lemma shutdown_puts_put_task:
  "task_of w i = Some t0 \<Longrightarrow> wt_call t = wt_call t0 \<Longrightarrow> shutdown_puts (put_task i t w) = shutdown_puts w"
  by (auto simp: shutdown_puts_def)

lemma shutdown_puts_call: "shutdown_puts w \<Longrightarrow> shutdown_puts (call_writer c w)"
  by (force simp: shutdown_puts_def)

lemma shutdown_puts_updates [simp]:
  "shutdown_puts (put_consumer k c w) = shutdown_puts w" "shutdown_puts (w\<lparr>wr_store := s\<rparr>) = shutdown_puts w"
  "shutdown_puts (w\<lparr>wr_queue := q\<rparr>) = shutdown_puts w" "shutdown_puts (w\<lparr>wr_log := lg\<rparr>) = shutdown_puts w"
  by (simp_all add: shutdown_puts_def)

lemma submits_call: "submits w i p \<Longrightarrow> submits (call_writer c w) i p"
  by (auto simp: submits_def)

lemmas parts_ok = tasks_ok_def lock_ok_def consumers_ok_def writer_queue_ok_def order_ok_def

lemma log_ids_of_updates [simp]:
  "log_ids (put_task i t w) = log_ids w" "log_ids (put_consumer k c w) = log_ids w" "log_ids (call_writer cl w) = log_ids w"
  "log_ids (new_consumer w) = log_ids w"
  "log_ids (w\<lparr>wr_store := s\<rparr>) = log_ids w" "log_ids (w\<lparr>wr_queue := q\<rparr>) = log_ids w" "log_ids (w\<lparr>wr_lock := l\<rparr>) = log_ids w"
  "log_ids (w\<lparr>wr_accepted := a\<rparr>) = log_ids w" "log_ids (w\<lparr>wr_accepting := b\<rparr>) = log_ids w"
  "log_ids (w\<lparr>wr_consumer := ko\<rparr>) = log_ids w" "log_ids (w\<lparr>wr_generation := g\<rparr>) = log_ids w"
  by (simp_all add: log_ids_def)

section \<open>Steps keep the invariant\<close>

text \<open>A task changes and nothing else does.\<close>

lemma call_ok_put_task [simp]: "call_ok (put_task i t w) j u st = call_ok w j u st"
  by (cases st) (simp_all split: writer_call.split)

lemma future_ok_put_task [simp]: "future_ok (put_task i t w) j u = future_ok w j u"
  by (simp add: future_ok_def)

lemma order_ok_cong:
  assumes "order_ok w" "wr_accepted w' = wr_accepted w" "submits w' = submits w"
    "log_ids w' @ working w' @ queued_ids (wr_queue w') = log_ids w @ working w @ queued_ids (wr_queue w)"
  shows "order_ok w'"
  unfolding order_ok_def assms(2-4) using assms(1) [unfolded order_ok_def] .

lemma consumer_ok_cong:
  assumes "wr_consumer w' = wr_consumer w" "wr_generation w' = wr_generation w" "wr_log w' = wr_log w" "submits w' = submits w"
  shows "consumer_ok w' k c = consumer_ok w k c"
  using assms by (cases c) simp_all

lemma put_task_ok:
  assumes ok: "writer_ok w" and t: "task_of w i = Some t0" "wt_call t = wt_call t0"
    and new: "call_ok w i t (wt_state t)" "future_ok w i t" "wr_lock w = Some i \<Longrightarrow> wt_state t = Putting"
  shows "writer_ok (put_task i t w)"
proof -
  note parts = writer_okD [OF ok]
  note same = submits_put_task [OF t] consumer_ok_cong [of "put_task i t w" w, OF _ _ _ submits_put_task [OF t]]
  have "tasks_ok (put_task i t w)" using parts(1) t(1) new(1,2) by (simp add: tasks_ok_def)
  moreover have "lock_ok (put_task i t w)" using parts(2) t(1) new(3) by (auto simp: lock_ok_def)
  moreover have "consumers_ok (put_task i t w)" using parts(3) same by (simp add: consumers_ok_def)
  moreover have "writer_queue_ok (put_task i t w)"
    using parts(4)
    unfolding writer_queue_ok_def fields_of_put_task views_of_updates same(1) shutdown_puts_put_task [OF t] .
  moreover have "order_ok (put_task i t w)" using parts(5)
    unfolding order_ok_def fields_of_put_task log_ids_of_updates views_of_updates same(1) .
  ultimately show ?thesis by (simp add: writer_ok_def)
qed

lemma task_okD:
  assumes "writer_ok w" "task_of w i = Some t"
  shows "call_ok w i t (wt_state t)" "future_ok w i t"
  using writer_okD(1) [OF assms(1)] assms(2) by (simp_all add: tasks_ok_def)

lemma end_call_ok:
  assumes ok: "writer_ok w" and t: "task_of w i = Some t" and free: "wr_lock w \<noteq> Some i"
    and r: "\<And>v. r = Inr (Some v) \<Longrightarrow> (i, Inr v) \<in> set (wr_log w) \<and> (\<exists>p. wt_call t = Call_submit p \<and> checked_value p v = Inr v)"
  shows "writer_ok (end_call i t r w)"
  unfolding end_call_def using task_okD(2) [OF ok t] r free
  by (intro put_task_ok [OF ok t]) (simp_all add: future_ok_def)

lemma accepted_known:
  assumes "writer_ok w" "i \<in> set (wr_accepted w)"
  obtains t p where "task_of w i = Some t" "wt_call t = Call_submit p"
proof -
  have "\<exists>p. submits w i p" using writer_okD(5) [OF assms(1)] assms(2) unfolding order_ok_def by blast
  then show ?thesis using that by (auto simp: submits_def)
qed

lemma logged_accepted: "writer_ok w \<Longrightarrow> i \<in> set (log_ids w) \<Longrightarrow> i \<in> set (wr_accepted w)"
  using writer_okD(5) by (force simp: order_ok_def)

lemma call_writer_ok:
  assumes ok: "writer_ok w"
  shows "writer_ok (call_writer c w)"
proof -
  note parts = writer_okD [OF ok]
  let ?n = "length (wr_tasks w)"
  have fresh: "?n \<notin> set (wr_accepted w)"
  proof
    assume "?n \<in> set (wr_accepted w)"
    then obtain t where "task_of w ?n = Some t" by (rule accepted_known [OF ok])
    then show False by simp
  qed
  then have log: "?n \<notin> set (log_ids w)" using logged_accepted [OF ok] by blast
  have call: "call_ok (call_writer c w) i t st = call_ok w i t st" for i t st by (cases st) (simp_all split: writer_call.split)
  have "tasks_ok (call_writer c w)"
    unfolding tasks_ok_def
  proof (intro allI impI)
    fix j u assume u: "task_of (call_writer c w) j = Some u"
    show "call_ok (call_writer c w) j u (wt_state u) \<and> future_ok (call_writer c w) j u"
    proof (cases "j = ?n")
      case True
      then show ?thesis using u fresh log by (auto simp: future_ok_def)
    next
      case False
      then have "task_of w j = Some u" using u by simp
      from task_okD [OF ok this] show ?thesis by (simp add: call future_ok_def)
    qed
  qed
  moreover have "lock_ok (call_writer c w)" using parts(2) by (auto simp: lock_ok_def)
  moreover have "consumers_ok (call_writer c w)"
  proof -
    have "consumer_ok w k d \<Longrightarrow> consumer_ok (call_writer c w) k d" for k d by (cases d) (auto intro: submits_call)
    then show ?thesis using parts(3) by (simp add: consumers_ok_def)
  qed
  moreover have "writer_queue_ok (call_writer c w)"
    using parts(4) submits_call [of w] shutdown_puts_call [of w]
    unfolding writer_queue_ok_def fields_of_call views_of_updates by blast
  moreover have "order_ok (call_writer c w)"
    using parts(5) submits_call [of w] unfolding order_ok_def fields_of_call log_ids_of_updates views_of_updates by blast
  ultimately show ?thesis by (simp add: writer_ok_def)
qed

lemma putting_holds_lock: "writer_ok w \<Longrightarrow> task_of w i = Some t \<Longrightarrow> wt_state t = Putting \<Longrightarrow> wr_lock w = Some i"
  using task_okD(1) [of w i t] by simp

lemma put_command_ok:
  assumes ok: "writer_ok w" and t: "task_of w i = Some t" "wt_call t = Call_submit p"
    and state: "wt_state t = Entering \<and> wr_lock w = None \<or> wt_state t = Putting"
    and accepting: "wr_accepting w" "live w"
  shows "writer_ok (put_command i t p w)"
proof -
  note parts = writer_okD [OF ok]
  let ?t = "t\<lparr>wt_state := Awaiting\<rparr>"
  let ?w = "put_command i t p w"
  have lookups: "task_of ?w = (task_of w)(i \<mapsto> ?t)" "consumer_of ?w = consumer_of w"
    and fields: "wr_queue ?w = wr_queue w @ [Some (i, p)]" "wr_accepted ?w = wr_accepted w @ [i]" "wr_lock ?w = None"
      "wr_log ?w = wr_log w" "wr_consumer ?w = wr_consumer w" "wr_generation ?w = wr_generation w"
      "wr_consumers ?w = wr_consumers w" "wr_threads ?w = wr_threads w" "log_ids ?w = log_ids w"
      "wr_accepting ?w = wr_accepting w"
    and views: "live ?w = live w" "working ?w = working w" "joins ?w k = joins w k" for k
    using t by (simp_all add: put_command_def)
  have submits: "submits ?w = submits w" using t by (auto simp: submits_def lookups fun_eq_iff)
  have fresh: "i \<notin> set (wr_accepted w)" "wt_future t = Pending" using task_okD(1) [OF ok t(1)] state by auto
  have alone: "j = i" if "task_of w j = Some u" "wt_state u = Putting" for j u
    using putting_holds_lock [OF ok that] state putting_holds_lock [OF ok t(1)] by auto
  have "tasks_ok ?w"
    unfolding tasks_ok_def lookups
  proof (intro allI impI)
    fix j u assume u: "((task_of w)(i \<mapsto> ?t)) j = Some u"
    show "call_ok ?w j u (wt_state u) \<and> future_ok ?w j u"
    proof (cases "j = i")
      case True
      with u have "u = ?t" by simp
      then show ?thesis using True t fresh(2) task_okD(2) [OF ok t(1)] by (simp add: fields future_ok_def lookups)
    next
      case False
      with u have u: "task_of w j = Some u" by simp
      then have "wt_state u \<noteq> Putting" using alone False by blast
      then show ?thesis
        using task_okD [OF ok u] False by (cases "wt_state u") (auto simp: fields future_ok_def lookups views split: writer_call.splits)
    qed
  qed
  moreover have "lock_ok ?w" by (simp add: lock_ok_def fields)
  moreover have "consumers_ok ?w"
    using parts(3) consumer_ok_cong [of ?w w] by (simp add: consumers_ok_def fields lookups submits)
  moreover have "writer_queue_ok ?w"
  proof -
    have "submits w i p" using t by (simp add: submits_def)
    moreover have "None \<notin> set (wr_queue w)" using parts(4) accepting(1) by (auto simp: writer_queue_ok_def)
    ultimately show ?thesis
      using parts(4) accepting unfolding writer_queue_ok_def fields views submits by auto
  qed
  moreover have "order_ok ?w"
    using parts(5) fresh t unfolding order_ok_def fields views submits by (auto simp: submits_def)
  ultimately show ?thesis by (simp add: writer_ok_def)
qed

lemma put_sentinel_ok:
  assumes ok: "writer_ok w" and t: "task_of w i = Some t0" "wt_call t = wt_call t0" "wt_call t = Call_shutdown"
      "wt_future t = wt_future t0"
    and state: "wt_state t0 = Entering \<and> wr_lock w = None \<or> wt_state t0 = Putting"
    and k: "wr_consumer w = Some (wt_consumer t)" "live w" "None \<notin> set (wr_queue w)"
  shows "writer_ok (put_sentinel i t (w\<lparr>wr_accepting := False\<rparr>))"
proof -
  note parts = writer_okD [OF ok]
  let ?t = "t\<lparr>wt_state := Awaiting\<rparr>"
  let ?w = "put_sentinel i t (w\<lparr>wr_accepting := False\<rparr>)"
  have lookups: "task_of ?w = (task_of w)(i \<mapsto> ?t)" "consumer_of ?w = consumer_of w"
    and fields: "wr_queue ?w = wr_queue w @ [None]" "wr_accepted ?w = wr_accepted w" "wr_lock ?w = None"
      "wr_log ?w = wr_log w" "wr_consumer ?w = wr_consumer w" "wr_generation ?w = wr_generation w"
      "wr_consumers ?w = wr_consumers w" "wr_threads ?w = wr_threads w" "log_ids ?w = log_ids w" "\<not> wr_accepting ?w"
    and views: "live ?w = live w" "working ?w = working w" "joins w m \<Longrightarrow> joins ?w m" for m
    using t by (simp_all add: put_sentinel_def joins_def)
  have submits: "submits ?w = submits w" using t by (auto simp: submits_def lookups fun_eq_iff)
  have pending: "wt_future t = Pending" using task_okD(1) [OF ok t(1)] state t(4) by auto
  have alone: "j = i" if "task_of w j = Some u" "wt_state u = Putting" for j u
    using putting_holds_lock [OF ok that] state putting_holds_lock [OF ok t(1)] by auto
  have "tasks_ok ?w"
    unfolding tasks_ok_def lookups
  proof (intro allI impI)
    fix j u assume u: "((task_of w)(i \<mapsto> ?t)) j = Some u"
    show "call_ok ?w j u (wt_state u) \<and> future_ok ?w j u"
    proof (cases "j = i")
      case True
      with u have "u = ?t" by simp
      then show ?thesis
        using True t k(1) pending task_okD(2) [OF ok t(1)] by (simp add: fields future_ok_def lookups joins_def)
    next
      case False
      with u have u: "task_of w j = Some u" by simp
      then have "wt_state u \<noteq> Putting" using alone False by blast
      then show ?thesis
        using task_okD [OF ok u] False by (cases "wt_state u") (auto simp: fields future_ok_def lookups views split: writer_call.splits)
    qed
  qed
  moreover have "lock_ok ?w" by (simp add: lock_ok_def fields)
  moreover have "consumers_ok ?w"
    using parts(3) consumer_ok_cong [of ?w w] by (simp add: consumers_ok_def fields lookups submits)
  moreover have "writer_queue_ok ?w"
    using parts(4) k(2,3) unfolding writer_queue_ok_def fields views submits by (auto simp: fields)
  moreover have "order_ok ?w"
    using parts(5) unfolding order_ok_def fields views submits queued_ids_simps append_Nil2 .
  ultimately show ?thesis by (simp add: writer_ok_def)
qed

lemma hold_lock_ok:
  assumes ok: "writer_ok w" and t: "task_of w i = Some t0" "wt_call t = wt_call t0" "wt_future t = wt_future t0"
      "wt_state t0 = Entering"
    and lock: "wr_lock w = None" "live w"
    and call: "(\<exists>p. wt_call t = Call_submit p) \<and> wr_accepting w \<and> w' = w
      \<or> wt_call t = Call_shutdown \<and> wr_accepting w \<and> wr_consumer w = Some (wt_consumer t) \<and> w' = w\<lparr>wr_accepting := False\<rparr>"
  shows "writer_ok (hold_lock i t w')"
proof -
  note parts = writer_okD [OF ok]
  let ?t = "t\<lparr>wt_state := Putting\<rparr>"
  let ?w = "hold_lock i t w'"
  have lookups: "task_of ?w = (task_of w)(i \<mapsto> ?t)" "consumer_of ?w = consumer_of w"
    and fields: "wr_queue ?w = wr_queue w" "wr_accepted ?w = wr_accepted w" "wr_lock ?w = Some i"
      "wr_log ?w = wr_log w" "wr_consumer ?w = wr_consumer w" "wr_generation ?w = wr_generation w"
      "wr_consumers ?w = wr_consumers w" "wr_threads ?w = wr_threads w" "log_ids ?w = log_ids w"
      "wr_accepting ?w = (\<exists>p. wt_call t = Call_submit p)"
    and views: "live ?w = live w" "working ?w = working w" "joins w m \<Longrightarrow> joins ?w m" for m
    using t call by (auto simp: hold_lock_def joins_def)
  have submits: "submits ?w = submits w" using t by (auto simp: submits_def lookups fun_eq_iff)
  have fresh: "i \<notin> set (wr_accepted w)" "wt_future t = Pending" using task_okD(1) [OF ok t(1)] t(3,4) by auto
  have unlogged: "i \<notin> set (log_ids w)" using logged_accepted [OF ok] fresh(1) by blast
  have none: "None \<notin> set (wr_queue w)" using parts(4) call by (auto simp: writer_queue_ok_def)
  have kind: "(\<exists>p. wt_call t = Call_submit p) \<or> wt_call t = Call_shutdown \<and> wr_consumer w = Some (wt_consumer t)"
    using call by blast
  have alone: "wt_state u \<noteq> Putting" if "task_of w j = Some u" for j u
    using putting_holds_lock [OF ok that] lock(1) by auto
  have "tasks_ok ?w"
    unfolding tasks_ok_def lookups
  proof (intro allI impI)
    fix j u assume u: "((task_of w)(i \<mapsto> ?t)) j = Some u"
    show "call_ok ?w j u (wt_state u) \<and> future_ok ?w j u"
    proof (cases "j = i")
      case True
      with u have "u = ?t" by simp
      then show ?thesis
        using True fresh lock kind none unlogged by (auto simp: fields future_ok_def views)
    next
      case False
      with u have u: "task_of w j = Some u" by simp
      then show ?thesis
        using task_okD [OF ok u] alone [OF u] False
        by (cases "wt_state u") (auto simp: fields future_ok_def lookups views split: writer_call.splits)
    qed
  qed
  moreover have "lock_ok ?w" by (simp add: lock_ok_def fields lookups)
  moreover have "consumers_ok ?w"
    using parts(3) consumer_ok_cong [of ?w w] by (simp add: consumers_ok_def fields lookups submits)
  moreover have "writer_queue_ok ?w"
    using parts(4) none kind lock(2) unfolding writer_queue_ok_def fields views submits
    by (auto simp: shutdown_puts_def lookups fields dest!: in_set_butlastD)
  moreover have "order_ok ?w"
    using parts(5) unfolding order_ok_def fields views submits .
  ultimately show ?thesis by (simp add: writer_ok_def)
qed

text \<open>The consumer.\<close>

lemma consumer_okD: "writer_ok w \<Longrightarrow> consumer_of w k = Some c \<Longrightarrow> consumer_ok w k c"
  using writer_okD(3) by (simp add: consumers_ok_def)

lemma live_consumer:
  assumes "writer_ok w" "consumer_of w k = Some c" "\<not> is_stopped c"
  shows "wr_consumer w = Some k" "live w"
proof -
  have "consumer_ok w k c" using writer_okD(3) [OF assms(1)] assms(2) by (simp add: consumers_ok_def)
  then show k: "wr_consumer w = Some k" using assms(3) by (cases c) simp_all
  then show "live w" using assms(2,3) by (auto simp: live_def)
qed

lemma future_ok_stopped:
  "future_ok w i t \<Longrightarrow> wr_log w' = wr_log w \<Longrightarrow> (\<And>k r. consumer_of w k = Some (Executed i r) \<Longrightarrow> consumer_of w' k = Some (Executed i r))
   \<Longrightarrow> future_ok w' i t"
  unfolding future_ok_def log_ids_def by metis

lemma take_command_ok:
  assumes ok: "writer_ok w" and take: "take_command k w = Some w'"
  shows "writer_ok w'"
proof -
  note parts = writer_okD [OF ok]
  obtain g item rest where getting: "consumer_of w k = Some (Getting g)" and queue: "wr_queue w = item # rest"
    and w': "w' = put_consumer k (case item of None \<Rightarrow> Stopped False | Some (i, p) \<Rightarrow> Working i p) (w\<lparr>wr_queue := rest\<rparr>)"
    using take by (auto simp: take_command_def split: option.splits consumer_state.splits list.splits if_splits)
  let ?c = "case item of None \<Rightarrow> Stopped False | Some (i, p) \<Rightarrow> Working i p"
  note k = live_consumer [OF ok getting, simplified]
  have lookups: "task_of w' = task_of w" "consumer_of w' = (consumer_of w)(k \<mapsto> ?c)"
    and fields: "wr_queue w' = rest" "wr_accepted w' = wr_accepted w" "wr_lock w' = wr_lock w"
      "wr_log w' = wr_log w" "wr_consumer w' = wr_consumer w" "wr_generation w' = wr_generation w"
      "length (wr_consumers w') = length (wr_consumers w)" "wr_threads w' = wr_threads w" "log_ids w' = log_ids w"
      "wr_accepting w' = wr_accepting w" "submits w' = submits w" "shutdown_puts w' = shutdown_puts w"
    using getting by (simp_all add: w')
  have live: "live w' = (item \<noteq> None)" using k by (auto simp: live_def lookups fields split: option.split)
  have last: "item = None \<Longrightarrow> rest = [] \<and> \<not> wr_accepting w"
    using parts(4) queue by (cases rest) (auto simp: writer_queue_ok_def)
  have working: "working w = []" "working w' = (case item of None \<Rightarrow> [] | Some x \<Rightarrow> [fst x])"
    using k getting by (auto simp: working_def lookups fields split: option.split)
  have joins: "joins w m \<Longrightarrow> joins w' m" for m
    using k(1) getting by (simp add: joins_def fields lookups)
  have putting: "item \<noteq> None" if "task_of w j = Some u" "wt_state u = Putting" for j u
    using task_okD(1) [OF ok that(1)] that(2) queue last by (cases item) (auto split: writer_call.splits)
  have live_put: "live w'" if "task_of w j = Some u" "wt_state u = Putting" for j u
    using putting [OF that] live by blast
  have "tasks_ok w'"
    unfolding tasks_ok_def lookups
  proof (intro allI impI)
    fix j u assume u: "task_of w j = Some u"
    note old = task_okD [OF ok u]
    have "call_ok w' j u (wt_state u)"
      using old(1) joins live_put [OF u] queue
      by (cases "wt_state u") (auto simp: fields split: writer_call.splits)
    moreover have "future_ok w' j u"
      by (rule future_ok_stopped [OF old(2)]) (use getting in \<open>auto simp: fields lookups\<close>)
    ultimately show "call_ok w' j u (wt_state u) \<and> future_ok w' j u" ..
  qed
  moreover have "lock_ok w'" using parts(2) by (simp add: lock_ok_def fields lookups)
  moreover have "consumers_ok w'"
  proof -
    have "consumer_ok w' k ?c"
      using k(1) queue parts(4) by (auto simp: fields writer_queue_ok_def split: option.split)
    moreover have "consumer_ok w' m c" if "consumer_of w m = Some c" for m c
      using parts(3) that consumer_ok_cong [of w' w] by (simp add: consumers_ok_def fields)
    ultimately show ?thesis using parts(3) by (auto simp: consumers_ok_def fields lookups)
  qed
  moreover have "writer_queue_ok w'"
    using parts(4) queue k(2) last live by (cases item) (auto simp: writer_queue_ok_def fields split: if_splits)
  moreover have "order_ok w'"
    by (rule order_ok_cong [OF parts(5)]) (simp_all add: fields working queue split: option.split)
  ultimately show ?thesis by (simp add: writer_ok_def)
qed

lemma run_command_ok:
  assumes ok: "writer_ok w" and run: "run_command env k w = Some w'"
  shows "writer_ok w'"
proof -
  note parts = writer_okD [OF ok]
  obtain i p s' r where busy: "consumer_of w k = Some (Working i p)" and op: "run_payload env p (wr_store w) = (s', r)"
    and w': "w' = put_consumer k (Executed i r) (w\<lparr>wr_store := s', wr_log := wr_log w @ [(i, r)]\<rparr>)"
    using run by (auto simp: run_command_def run_on_store_def split: option.splits consumer_state.splits prod.splits)
  note k = live_consumer [OF ok busy, simplified]
  have lookups: "task_of w' = task_of w" "consumer_of w' = (consumer_of w)(k \<mapsto> Executed i r)"
    and fields: "wr_queue w' = wr_queue w" "wr_accepted w' = wr_accepted w" "wr_lock w' = wr_lock w"
      "wr_log w' = wr_log w @ [(i, r)]" "wr_consumer w' = wr_consumer w" "wr_generation w' = wr_generation w"
      "length (wr_consumers w') = length (wr_consumers w)" "wr_threads w' = wr_threads w" "log_ids w' = log_ids w @ [i]"
      "wr_accepting w' = wr_accepting w" "submits w' = submits w" "shutdown_puts w' = shutdown_puts w"
    using busy by (simp_all add: w' log_ids_def)
  have live: "live w'" using k by (auto simp: live_def lookups fields)
  have working: "working w = [i]" "working w' = []" using k busy by (auto simp: working_def lookups fields)
  have joins: "joins w m \<Longrightarrow> joins w' m" for m using k(1) by (simp add: joins_def fields)
  have others: "m = k \<or> is_stopped c" if "consumer_of w m = Some c" for m c
    using live_consumer(1) [OF ok that] k(1) by auto
  have idle: "consumer_of w m \<noteq> Some (Executed j x)" for m j x
    using others [of m] busy by force
  have "tasks_ok w'"
    unfolding tasks_ok_def lookups
  proof (intro allI impI)
    fix j u assume u: "task_of w j = Some u"
    note old = task_okD [OF ok u]
    have "call_ok w' j u (wt_state u)"
      using old(1) joins live by (cases "wt_state u") (auto simp: fields split: writer_call.splits)
    moreover have "future_ok w' j u"
      using old(2) idle by (auto simp: future_ok_def fields lookups)
    ultimately show "call_ok w' j u (wt_state u) \<and> future_ok w' j u" ..
  qed
  moreover have "lock_ok w'" using parts(2) by (simp add: lock_ok_def fields lookups)
  moreover have "consumers_ok w'"
  proof -
    have "consumer_ok w' m c" if "consumer_of w m = Some c" "m \<noteq> k" for m c
      using consumer_okD [OF ok that(1)] that(2) others [OF that(1)] by (cases c) auto
    then show ?thesis using parts(3) k(1) by (auto simp: consumers_ok_def fields lookups)
  qed
  moreover have "writer_queue_ok w'"
    using parts(4) k(2) live unfolding writer_queue_ok_def fields by blast
  moreover have "order_ok w'"
    using parts(5) unfolding order_ok_def fields working append_assoc append_Nil .
  ultimately show ?thesis by (simp add: writer_ok_def)
qed

lemma deliver_result_ok:
  assumes ok: "writer_ok w" and deliver: "deliver_result k w = Some w'"
  shows "writer_ok w'"
proof -
  note parts = writer_okD [OF ok]
  obtain i r where ran: "consumer_of w k = Some (Executed i r)"
    and w': "w' = put_consumer k (Getting (wr_generation w)) (resolve i r w)"
    using deliver by (auto simp: deliver_result_def split: option.splits consumer_state.splits)
  note k = live_consumer [OF ok ran, simplified]
  have logged: "(i, r) \<in> set (wr_log w)" using parts(3) ran by (force simp: consumers_ok_def)
  then have "i \<in> set (log_ids w)" by (force simp: log_ids_def)
  then obtain t p where t: "task_of w i = Some t" "wt_call t = Call_submit p"
    using accepted_known [OF ok logged_accepted [OF ok]] by blast
  define t' where "t' = (if wt_future t = Pending then t\<lparr>wt_future := Resolved r\<rparr> else t)"
  have resolve: "resolve i r w = (if wt_future t = Pending then put_task i t' w else w)"
    by (simp add: resolve_def t t'_def)
  have t': "wt_call t' = wt_call t" "wt_state t' = wt_state t" "wt_future t' \<noteq> Pending"
    "wt_future t' = Abandoned \<Longrightarrow> wt_future t = Abandoned" "wt_consumer t' = wt_consumer t"
    by (auto simp: t'_def split: if_splits)
  have lookups: "task_of w' = (task_of w)(i \<mapsto> t')" "consumer_of w' = (consumer_of w)(k \<mapsto> Getting (wr_generation w))"
    and fields: "wr_queue w' = wr_queue w" "wr_accepted w' = wr_accepted w" "wr_lock w' = wr_lock w"
      "wr_log w' = wr_log w" "wr_consumer w' = wr_consumer w" "wr_generation w' = wr_generation w"
      "length (wr_consumers w') = length (wr_consumers w)" "wr_threads w' = wr_threads w" "log_ids w' = log_ids w"
      "wr_accepting w' = wr_accepting w"
    using ran t by (auto simp: w' resolve t'_def)
  have submits: "submits w' = submits w" using t t' by (auto simp: submits_def lookups fun_eq_iff)
  have puts: "shutdown_puts w' = shutdown_puts w"
    using t t'(1) unfolding shutdown_puts_def lookups fields by (metis fun_upd_apply option.inject)
  have live: "live w'" using k by (auto simp: live_def lookups fields)
  have working: "working w = []" "working w' = []" using k ran by (auto simp: working_def lookups fields)
  have joins: "joins w m \<Longrightarrow> joins w' m" for m using k(1) by (simp add: joins_def fields)
  have others: "m = k \<or> is_stopped c" if "consumer_of w m = Some c" for m c
    using live_consumer(1) [OF ok that] k(1) by auto
  have "tasks_ok w'"
    unfolding tasks_ok_def lookups
  proof (intro allI impI)
    fix j u assume u: "((task_of w)(i \<mapsto> t')) j = Some u"
    show "call_ok w' j u (wt_state u) \<and> future_ok w' j u"
    proof (cases "j = i")
      case True
      then have u: "u = t'" using u by simp
      note old = task_okD [OF ok t(1)]
      have "call_ok w' i t' (wt_state t')"
        using old(1) t t' live \<open>i \<in> set (log_ids w)\<close> logged_accepted [OF ok]
        by (cases "wt_state t") (auto simp: fields split: writer_call.splits)
      moreover have "future_ok w' i t'" using old(2) logged by (auto simp: future_ok_def fields t'_def split: if_splits)
      ultimately show ?thesis using True u by simp
    next
      case False
      then have u: "task_of w j = Some u" using u by simp
      note old = task_okD [OF ok u]
      have "call_ok w' j u (wt_state u)"
        using old(1) joins live by (cases "wt_state u") (auto simp: fields split: writer_call.splits)
      moreover have "future_ok w' j u"
        by (rule future_ok_stopped [OF old(2)]) (use ran False in \<open>auto simp: fields lookups\<close>)
      ultimately show ?thesis ..
    qed
  qed
  moreover have "lock_ok w'" using parts(2) t t' by (auto simp: lock_ok_def fields lookups)
  moreover have "consumers_ok w'"
  proof -
    have "consumer_ok w' m c" if "consumer_of w m = Some c" "m \<noteq> k" for m c
      using consumer_okD [OF ok that(1)] that(2) others [OF that(1)] by (cases c) auto
    then show ?thesis using parts(3) k(1) by (auto simp: consumers_ok_def fields lookups)
  qed
  moreover have "writer_queue_ok w'"
    using parts(4) k(2) live unfolding writer_queue_ok_def fields submits puts by blast
  moreover have "order_ok w'"
    using parts(5) unfolding order_ok_def fields working submits .
  ultimately show ?thesis by (simp add: writer_ok_def)
qed

text \<open>Calls.\<close>

lemma stopped_consumers:
  assumes ok: "writer_ok w" and dead: "\<not> live w" and c: "consumer_of w k = Some c"
  shows "c = Stopped False"
  using consumer_okD [OF ok c] live_consumer(2) [OF ok c] dead by (cases c) auto

lemma not_putting_unlocked: "writer_ok w \<Longrightarrow> task_of w i = Some t \<Longrightarrow> wr_lock w = None \<Longrightarrow> wt_state t \<noteq> Putting"
  using putting_holds_lock by force

text \<open>A writer without a consumer at work is started again, or forgets the consumer that is done.\<close>

lemma restart_ok:
  assumes ok: "writer_ok w" and dead: "\<not> live w" and unlocked: "wr_lock w = None"
    and alone: "\<And>i t. task_of w i = Some t \<Longrightarrow> wt_call t = Call_shutdown \<Longrightarrow> wt_state t \<noteq> Awaiting"
  shows "writer_ok (new_consumer (w\<lparr>wr_generation := g\<rparr>))"
proof -
  note parts = writer_okD [OF ok]
  let ?n = "length (wr_consumers w)"
  let ?w = "new_consumer (w\<lparr>wr_generation := g\<rparr>)"
  have lookups: "task_of ?w = task_of w" "consumer_of ?w = (consumer_of w)(?n \<mapsto> Getting g)" by simp_all
  have queue: "wr_queue w = []" using parts(4) dead by (simp add: writer_queue_ok_def)
  have live: "live ?w" by (auto simp: live_def lookups)
  have working: "working w = []" "working ?w = []"
    using stopped_consumers [OF ok dead] by (auto simp: working_def split: option.splits consumer_state.splits)
  have "tasks_ok ?w"
    unfolding tasks_ok_def lookups
  proof (intro allI impI)
    fix j u assume u: "task_of w j = Some u"
    note old = task_okD [OF ok u]
    have "call_ok ?w j u (wt_state u)"
      using old(1) alone [OF u] not_putting_unlocked [OF ok u unlocked]
      by (cases "wt_state u") (auto split: writer_call.splits)
    moreover have "future_ok ?w j u"
      using old(2) by (rule future_ok_stopped) (auto dest: consumer_of_bound)
    ultimately show "call_ok ?w j u (wt_state u) \<and> future_ok ?w j u" ..
  qed
  moreover have "lock_ok ?w" by (simp add: lock_ok_def unlocked)
  moreover have "consumers_ok ?w"
    using parts(3) by (auto simp: consumers_ok_def dest: stopped_consumers [OF ok dead])
  moreover have "writer_queue_ok ?w" using live queue by (simp add: writer_queue_ok_def)
  moreover have "order_ok ?w"
    by (rule order_ok_cong [OF parts(5)]) (simp_all add: working)
  ultimately show ?thesis by (simp add: writer_ok_def)
qed

lemma forget_consumer_ok:
  assumes ok: "writer_ok w" and dead: "\<not> live w"
  shows "writer_ok (w\<lparr>wr_consumer := None\<rparr>)"
proof -
  note parts = writer_okD [OF ok]
  let ?w = "w\<lparr>wr_consumer := None\<rparr>"
  have quiet: "\<not> live ?w" "wr_queue w = []" "\<not> wr_accepting w"
    using parts(4) dead by (auto simp: writer_queue_ok_def live_def)
  have working: "working w = []" "working ?w = []"
    using stopped_consumers [OF ok dead] by (auto simp: working_def split: option.splits consumer_state.splits)
  have joins: "joins ?w m" if "joins w m" for m
  proof -
    have "wr_consumer w = Some m \<Longrightarrow> \<exists>c. consumer_of w m = Some c" using parts(3) by (simp add: consumers_ok_def consumer_of_def)
    then show ?thesis using that stopped_consumers [OF ok dead] quiet(3) by (auto simp: joins_def)
  qed
  have "tasks_ok ?w"
    unfolding tasks_ok_def lookups_of_fields
  proof (intro allI impI)
    fix j u assume u: "task_of w j = Some u"
    have "call_ok ?w j u (wt_state u)"
      using task_okD(1) [OF ok u] joins dead by (cases "wt_state u") (auto split: writer_call.splits)
    then show "call_ok ?w j u (wt_state u) \<and> future_ok ?w j u"
      using task_okD(2) [OF ok u] by (simp add: future_ok_def)
  qed
  moreover have "lock_ok ?w" using parts(2) by (simp add: lock_ok_def)
  moreover have "consumers_ok ?w"
    using parts(3) by (auto simp: consumers_ok_def dest: stopped_consumers [OF ok dead])
  moreover have "writer_queue_ok ?w" using quiet by (simp add: writer_queue_ok_def)
  moreover have "order_ok ?w"
    by (rule order_ok_cong [OF parts(5)]) (simp_all add: working)
  ultimately show ?thesis by (simp add: writer_ok_def)
qed

lemma release_lock_ok:
  assumes ok: "writer_ok w" and t: "task_of w i = Some t" "wt_state t = Putting" "wt_call t = Call_submit p"
  shows "writer_ok (end_call i t (Inl e) (w\<lparr>wr_lock := None\<rparr>))"
proof -
  note parts = writer_okD [OF ok]
  let ?t = "t\<lparr>wt_state := Ended (Inl e)\<rparr>"
  let ?w = "end_call i t (Inl e) (w\<lparr>wr_lock := None\<rparr>)"
  have lookups: "task_of ?w = (task_of w)(i \<mapsto> ?t)" "consumer_of ?w = consumer_of w"
    and fields: "wr_queue ?w = wr_queue w" "wr_accepted ?w = wr_accepted w" "wr_lock ?w = None"
      "wr_log ?w = wr_log w" "wr_consumer ?w = wr_consumer w" "wr_generation ?w = wr_generation w"
      "wr_consumers ?w = wr_consumers w" "wr_threads ?w = wr_threads w" "log_ids ?w = log_ids w"
      "wr_accepting ?w = wr_accepting w"
    and views: "live ?w = live w" "working ?w = working w" "joins ?w m = joins w m" for m
    using t by (simp_all add: end_call_def)
  have submits: "submits ?w = submits w" using t by (auto simp: submits_def lookups fun_eq_iff)
  have accepting: "wr_accepting w" using task_okD(1) [OF ok t(1)] t(2,3) by simp
  have alone: "j = i" if "task_of w j = Some u" "wt_state u = Putting" for j u
    using putting_holds_lock [OF ok that] putting_holds_lock [OF ok t(1,2)] by simp
  have "tasks_ok ?w"
    unfolding tasks_ok_def lookups
  proof (intro allI impI)
    fix j u assume u: "((task_of w)(i \<mapsto> ?t)) j = Some u"
    show "call_ok ?w j u (wt_state u) \<and> future_ok ?w j u"
    proof (cases "j = i")
      case True
      with u have "u = ?t" by simp
      then show ?thesis using True task_okD(2) [OF ok t(1)] by (simp add: fields future_ok_def lookups)
    next
      case False
      with u have u: "task_of w j = Some u" by simp
      then have "wt_state u \<noteq> Putting" using alone False by blast
      then show ?thesis
        using task_okD [OF ok u] by (cases "wt_state u") (auto simp: fields future_ok_def lookups views split: writer_call.splits)
    qed
  qed
  moreover have "lock_ok ?w" by (simp add: lock_ok_def fields)
  moreover have "consumers_ok ?w"
    using parts(3) consumer_ok_cong [of ?w w] by (simp add: consumers_ok_def fields lookups submits)
  moreover have "writer_queue_ok ?w"
    using parts(4) accepting unfolding writer_queue_ok_def fields views submits by blast
  moreover have "order_ok ?w"
    by (rule order_ok_cong [OF parts(5)]) (simp_all only: fields views submits)
  ultimately show ?thesis by (simp add: writer_ok_def)
qed

lemma enter_call_ok:
  assumes ok: "writer_ok w" and may: "may_enter w i" and enter: "enter_call i w = Some w'"
  shows "writer_ok w'"
proof -
  obtain t where t: "task_of w i = Some t" "wt_state t = Entering" and unlocked: "wr_lock w = None"
    and w': "w' = (case wt_call t of Call_start \<Rightarrow> enter_start i t w | Call_submit p \<Rightarrow> enter_submit i t p w
      | Call_shutdown \<Rightarrow> enter_shutdown i t w)"
    using enter by (auto simp: enter_call_def split: option.splits if_splits)
  have queue: "wr_accepting w \<Longrightarrow> live w" "wr_accepting w \<Longrightarrow> None \<notin> set (wr_queue w)" "\<not> live w \<Longrightarrow> wr_queue w = []"
    using writer_okD(4) [OF ok] by (auto simp: writer_queue_ok_def)
  have consumer: "\<exists>c. consumer_of w k = Some c \<and> wr_consumers w ! k = c" if "wr_consumer w = Some k" for k
    using writer_okD(3) [OF ok] that by (simp add: consumers_ok_def consumer_of_def)
  show ?thesis
  proof (cases "wt_call t")
    case Call_start
    have alone: "wt_state u \<noteq> Awaiting" if "task_of w j = Some u" "wt_call u = Call_shutdown" for j u
    proof -
      have "u \<in> set (wr_tasks w)" using that(1) by (auto simp: task_of_def split: if_splits)
      then have "\<not> waiting_shutdown u" using may t(1) Call_start by (simp add: may_enter_def)
      then show ?thesis using that(2) by (simp add: waiting_shutdown_def)
    qed
    have finish: "writer_ok (end_call i t (Inr None) v)" if "writer_ok v" "task_of v = task_of w" "wr_lock v = wr_lock w" for v
      using end_call_ok [OF that(1), of i t "Inr None"] t(1) that(2,3) unlocked by simp
    show ?thesis
    proof (cases "live w")
      case True
      then show ?thesis
        using finish [OF ok] w' Call_start consumer by (auto simp: enter_start_def live_def)
    next
      case False
      have start: "writer_ok (new_consumer (w\<lparr>wr_generation := g\<rparr>))" for g
        by (rule restart_ok [OF ok False unlocked alone])
      have "writer_ok (new_consumer w)" using start [of "wr_generation w"] by simp
      then show ?thesis
        using finish [OF start] finish w' Call_start consumer False queue(3)
        by (auto simp: enter_start_def live_def split: option.splits)
    qed
  next
    case (Call_submit p)
    have "writer_ok (end_call i t (Inl e) w)" for e
      by (rule end_call_ok [OF ok t(1)]) (simp_all add: unlocked)
    moreover have "writer_ok (put_command i t p w)" if "wr_accepting w"
      by (rule put_command_ok [OF ok t(1) Call_submit]) (simp_all add: t unlocked that queue)
    moreover have "writer_ok (hold_lock i t w)" if "wr_accepting w"
      by (rule hold_lock_ok [OF ok t(1)]) (simp_all add: t unlocked that queue Call_submit)
    ultimately show ?thesis using w' Call_submit by (simp add: enter_submit_def)
  next
    case Call_shutdown
    show ?thesis
    proof (cases "wr_consumer w")
      case None
      then show ?thesis
        using end_call_ok [OF ok t(1), of "Inr None"] unlocked w' Call_shutdown by (simp add: enter_shutdown_def)
    next
      case (Some k)
      let ?t = "t\<lparr>wt_consumer := k\<rparr>"
      have "writer_ok (put_task i (?t\<lparr>wt_state := Awaiting\<rparr>) w)" if "\<not> wr_accepting w"
        using task_okD [OF ok t(1)] that Some t unlocked
        by (intro put_task_ok [OF ok t(1)]) (simp_all add: Call_shutdown joins_def future_ok_def)
      moreover have "writer_ok (put_sentinel i ?t (w\<lparr>wr_accepting := False\<rparr>))" if "wr_accepting w"
        by (rule put_sentinel_ok [OF ok t(1)]) (simp_all add: t unlocked that queue Call_shutdown Some)
      moreover have "writer_ok (hold_lock i ?t (w\<lparr>wr_accepting := False\<rparr>))" if "wr_accepting w"
        by (rule hold_lock_ok [OF ok t(1)]) (simp_all add: t unlocked that queue Call_shutdown Some)
      ultimately show ?thesis using w' Call_shutdown Some by (simp add: enter_shutdown_def Let_def has_room_def)
    qed
  qed
qed

lemma finish_put_ok:
  assumes ok: "writer_ok w" and finish: "finish_put i w = Some w'"
  shows "writer_ok w'"
proof -
  obtain t where t: "task_of w i = Some t" "wt_state t = Putting"
    and w': "w' = (case wt_call t of Call_submit p \<Rightarrow> put_command i t p w | _ \<Rightarrow> put_sentinel i t w)"
    using finish by (auto simp: finish_put_def split: option.splits if_splits)
  note call = task_okD(1) [OF ok t(1), unfolded t(2)]
  show ?thesis
  proof (cases "wt_call t")
    case (Call_submit p)
    then show ?thesis using put_command_ok [OF ok t(1) Call_submit] call t(2) w' by simp
  next
    case Call_shutdown
    then have "w\<lparr>wr_accepting := False\<rparr> = w" using call by simp
    then show ?thesis using put_sentinel_ok [OF ok t(1), of t] Call_shutdown call t(2) w' by simp
  qed (use call in simp)
qed

lemma checked_value_same: "checked_value p v = Inr u \<Longrightarrow> u = v \<and> checked_value p u = Inr u"
  by (cases p; cases v) auto

lemma resume_call_ok:
  assumes ok: "writer_ok w" and resume: "resume_call i w = Some w'"
  shows "writer_ok w'"
proof -
  obtain t where t: "task_of w i = Some t" "wt_state t = Awaiting"
    and w': "(case wt_call t of Call_submit p \<Rightarrow> resume_submit i t p w | _ \<Rightarrow> resume_shutdown i t w) = Some w'"
    using resume by (auto simp: resume_call_def split: option.splits if_splits)
  note old = task_okD [OF ok t(1), unfolded t(2)]
  have free: "wr_lock w \<noteq> Some i" using writer_okD(2) [OF ok] t by (auto simp: lock_ok_def)
  show ?thesis
  proof (cases "wt_call t")
    case (Call_submit p)
    then have submit: "resume_submit i t p w = Some w'" using w' by simp
    show ?thesis
    proof (cases "wt_future t")
      case (Resolved r)
      then have logged: "(i, r) \<in> set (wr_log w)" using old(2) by (simp add: future_ok_def)
      have "writer_ok (end_call i t (and_then (submit_result p r) (\<lambda>v. Inr (Some v))) w)"
      proof (rule end_call_ok [OF ok t(1) free])
        fix v assume "and_then (submit_result p r) (\<lambda>v. Inr (Some v)) = Inr (Some v)"
        then obtain u where "r = Inr u" "checked_value p u = Inr v"
          by (auto simp: submit_result_def and_then_def split: sum.splits)
        then show "(i, Inr v) \<in> set (wr_log w) \<and> (\<exists>p. wt_call t = Call_submit p \<and> checked_value p v = Inr v)"
          using checked_value_same logged Call_submit by blast
      qed
      then show ?thesis using submit Resolved by (simp add: resume_submit_def)
    qed (use submit old Call_submit in \<open>simp_all add: resume_submit_def\<close>)
  next
    case Call_shutdown
    then have joins: "joins w (wt_consumer t)" using old(1) by simp
    have shutdown: "resume_shutdown i t w = Some w'" using w' Call_shutdown by simp
    have "consumer_of w (wt_consumer t) \<noteq> Some (Stopped True)" using consumer_okD [OF ok] by fastforce
    then have stop: "consumer_of w (wt_consumer t) = Some (Stopped False)"
      and w'': "w' = end_call i t (Inr None) (w\<lparr>wr_consumer := None\<rparr>)"
      using shutdown by (auto simp: resume_shutdown_def split: option.splits consumer_state.splits bool.splits)
    have "\<not> live w" using joins stop by (auto simp: joins_def live_def)
    from end_call_ok [OF forget_consumer_ok [OF ok this], of i t "Inr None"] show ?thesis
      using t(1) free w'' by simp
  qed (use old in simp)
qed

lemma cancel_call_ok:
  assumes ok: "writer_ok w" and may: "may_cancel w i" and cancel: "cancel_call i w = Some w'"
  shows "writer_ok w'"
proof -
  obtain t where t: "task_of w i = Some t" using cancel by (auto simp: cancel_call_def split: option.splits)
  note old = task_okD [OF ok t]
  have kind: "\<not> waiting_shutdown t" using may t by (simp add: may_cancel_def)
  show ?thesis
  proof (cases "wt_state t")
    case Entering
    then have "wr_lock w \<noteq> Some i" using writer_okD(2) [OF ok] t by (auto simp: lock_ok_def)
    from end_call_ok [OF ok t this, of "Inl CancelledError"] show ?thesis
      using cancel t Entering by (auto simp: cancel_call_def)
  next
    case Awaiting
    then obtain p where p: "wt_call t = Call_submit p" using old(1) kind by (auto simp: waiting_shutdown_def split: writer_call.splits)
    have free: "wr_lock w \<noteq> Some i" using writer_okD(2) [OF ok] t Awaiting by (auto simp: lock_ok_def)
    let ?t = "if wt_future t = Pending then t\<lparr>wt_future := Abandoned\<rparr> else t"
    have "writer_ok (put_task i (?t\<lparr>wt_state := Ended (Inl CancelledError)\<rparr>) w)"
      using old(2) free by (intro put_task_ok [OF ok t]) (auto simp: future_ok_def)
    then show ?thesis using cancel t Awaiting p by (simp add: cancel_call_def end_call_def)
  next
    case Putting
    then obtain p where p: "wt_call t = Call_submit p" using old(1) kind by (auto simp: waiting_shutdown_def split: writer_call.splits)
    have "w' = end_call i t (Inl CancelledError) (w\<lparr>wr_lock := None\<rparr>)" using cancel t Putting by (simp add: cancel_call_def)
    then show ?thesis using release_lock_ok [OF ok t Putting p] by simp
  qed (use cancel t in \<open>simp add: cancel_call_def\<close>)
qed

lemma store_change_ok:
  assumes ok: "writer_ok w"
  shows "writer_ok (w\<lparr>wr_store := s'\<rparr>)"
proof -
  note parts = writer_okD [OF ok]
  let ?w = "w\<lparr>wr_store := s'\<rparr>"
  have consumer: "consumer_ok ?w k c = consumer_ok w k c" for k c by (rule consumer_ok_cong) simp_all
  have call: "call_ok ?w i t st = call_ok w i t st" for i t st by (cases st) (simp_all split: writer_call.split)
  have "tasks_ok ?w" using parts(1) by (simp add: tasks_ok_def call future_ok_def)
  moreover have "lock_ok ?w" using parts(2) by (simp add: lock_ok_def)
  moreover have "consumers_ok ?w" using parts(3) by (simp add: consumers_ok_def consumer)
  moreover have "writer_queue_ok ?w" using parts(4) by (simp add: writer_queue_ok_def)
  moreover have "order_ok ?w" by (rule order_ok_cong [OF parts(5)]) simp_all
  ultimately show ?thesis by (simp add: writer_ok_def)
qed

lemma orderly_step_ok: "orderly_step w w' \<Longrightarrow> writer_ok w \<Longrightarrow> writer_ok w'"
proof (erule orderly_step_cases)
  assume "internal_step w w'" "writer_ok w"
  then show "writer_ok w'"
    by (auto elim!: internal_step_cases
        intro: enter_call_ok finish_put_ok resume_call_ok take_command_ok run_command_ok deliver_result_ok)
next
  fix s' assume "w' = w\<lparr>wr_store := s'\<rparr>" "writer_ok w"
  then show "writer_ok w'" by (simp add: store_change_ok)
qed (auto intro: call_writer_ok cancel_call_ok)

lemma new_writer_ok: "init_writer w \<Longrightarrow> writer_ok w"
  by (auto simp: init_writer_def new_writer_def writer_ok_def parts_ok task_of_def consumer_of_def live_def log_ids_def working_def)

interpretation writer_system: invariant_system init_writer orderly_step writer_ok
  by unfold_locales (rule new_writer_ok, assumption, rule orderly_step_ok)

end
