(* ===== verification/Writer_Properties.thy ===== *)
theory Writer_Properties
  imports Writer_Invariant
begin

text \<open>
  What the runtime writer promises under orderly use: commands run once, in the order they
  were accepted; every caller gets the result of its own command; a shutdown lets
  everything accepted run first; no call waits for ever.  The last section shows what a
  cancelled shutdown leaves behind.
\<close>

section \<open>The store\<close>

lemma lift_op_state: "lift_op f g s = (s', r) \<Longrightarrow> \<exists>x. g s = (s', x)"
  by (auto simp: lift_op_def split: prod.splits sum.splits)

lemma run_payload_step: "run_payload env p s = (s', r) \<Longrightarrow> store_step s s'"
  by (cases p) (auto dest!: lift_op_state intro: store_step.intros)

lemma run_on_store_step: "run_on_store env i p w = (w', r) \<Longrightarrow> store_step (wr_store w) (wr_store w')"
  by (auto simp: run_on_store_def run_payload_step split: prod.splits)

lemma updates_keep_store [simp]:
  "wr_store (end_call i t r w) = wr_store w" "wr_store (enter_start i t w) = wr_store w"
  "wr_store (put_command i t p w) = wr_store w" "wr_store (put_sentinel i t w) = wr_store w"
  "wr_store (hold_lock i t w) = wr_store w" "wr_store (enter_submit i t p w) = wr_store w"
  "wr_store (enter_shutdown i t w) = wr_store w" "wr_store (resolve i x w) = wr_store w"
  "wr_store (cancel_consumer k w) = wr_store w"
  by (simp_all add: end_call_def enter_start_def put_command_def put_sentinel_def hold_lock_def enter_submit_def
      enter_shutdown_def resolve_def cancel_consumer_def Let_def split: option.split consumer_state.split)

text \<open>Whatever the writer does, the store takes steps of its own; what holds of every store it can reach holds here.\<close>

lemma writer_step_store: "writer_step w w' \<Longrightarrow> store_step\<^sup>*\<^sup>* (wr_store w) (wr_store w')"
proof (erule writer_step_cases)
  fix env k assume "run_command env k w = Some w'"
  then show ?thesis
    by (auto simp: run_command_def dest!: run_on_store_step split: option.splits consumer_state.splits prod.splits)
next
  fix env assume "finish_thread env w = Some w'"
  then obtain i p rest where "w' = fst (run_on_store env i p (w\<lparr>wr_threads := rest\<rparr>))"
    by (auto simp: finish_thread_def split: list.splits)
  then show ?thesis
    using run_on_store_step [of env i p "w\<lparr>wr_threads := rest\<rparr>"] by (cases "run_on_store env i p (w\<lparr>wr_threads := rest\<rparr>)") auto
qed (auto simp: enter_call_def finish_put_def resume_call_def resume_submit_def resume_shutdown_def take_command_def
    deliver_result_def cancel_call_def split: option.splits writer_call.splits future_state.splits consumer_state.splits
    bool.splits list.splits call_state.splits if_splits)

section \<open>Commands run once and in order\<close>

text \<open>The result \<open>r\<close> is that of the command of call \<open>i\<close> on a store between two others.\<close>

definition executed_as :: "runtime_store \<Rightarrow> writer_state \<Rightarrow> nat \<Rightarrow> writer_value result \<Rightarrow> bool" where
  "executed_as s0 w i r =
     (\<exists>env s s1 p. submits w i p \<and> store_step\<^sup>*\<^sup>* s0 s \<and> run_payload env p s = (s1, r) \<and> store_step\<^sup>*\<^sup>* s1 (wr_store w))"

definition keeps_calls :: "writer_state \<Rightarrow> writer_state \<Rightarrow> bool" where
  "keeps_calls w w' = (\<forall>i t. task_of w i = Some t \<longrightarrow> (\<exists>t'. task_of w' i = Some t' \<and> wt_call t' = wt_call t))"

lemma keeps_submits: "keeps_calls w w' \<Longrightarrow> submits w i p \<Longrightarrow> submits w' i p"
  by (auto simp: keeps_calls_def submits_def) metis

lemma keeps_calls_put [simp]: "task_of w i = Some t0 \<Longrightarrow> wt_call t = wt_call t0 \<Longrightarrow> task_of w' = task_of w \<Longrightarrow> keeps_calls w (put_task i t w')"
  by (auto simp: keeps_calls_def)

lemma keeps_calls_same [simp]: "task_of w' = task_of w \<Longrightarrow> keeps_calls w w'"
  by (auto simp: keeps_calls_def)

lemma keeps_calls_consumer [simp]: "keeps_calls w (put_consumer k c w') = keeps_calls w w'"
  by (simp add: keeps_calls_def)

lemma task_of_consumer_changes [simp]:
  "task_of (cancel_consumer k w) = task_of w"
  by (rule ext) (auto simp: task_of_def cancel_consumer_def put_consumer_def split: option.split consumer_state.split)

lemma call_keeps_calls: "keeps_calls w (call_writer c w)"
  unfolding keeps_calls_def by (metis fun_upd_apply option.distinct(1) task_of_call task_of_new_index)

lemmas call_definitions = end_call_def put_command_def put_sentinel_def hold_lock_def enter_start_def enter_submit_def
  enter_shutdown_def resume_submit_def resume_shutdown_def

definition log_step :: "writer_state \<Rightarrow> writer_state \<Rightarrow> bool" where
  "log_step w w' = (keeps_calls w w' \<and> (wr_log w' = wr_log w \<or>
    (\<exists>env i p r. submits w i p \<and> run_payload env p (wr_store w) = (wr_store w', r) \<and> wr_log w' = wr_log w @ [(i, r)])))"

lemma internal_step_log: "internal_step w w' \<Longrightarrow> writer_ok w \<Longrightarrow> log_step w w'"
proof (erule internal_step_cases)
  fix i assume "enter_call i w = Some w'"
  then show "log_step w w'"
    by (auto simp: log_step_def enter_call_def call_definitions Let_def split: option.splits writer_call.splits if_splits)
next
  fix i assume "finish_put i w = Some w'"
  then show "log_step w w'"
    by (auto simp: log_step_def finish_put_def call_definitions split: option.splits writer_call.splits if_splits)
next
  fix i assume "resume_call i w = Some w'"
  then show "log_step w w'"
    by (auto simp: log_step_def resume_call_def call_definitions
        split: option.splits writer_call.splits if_splits future_state.splits consumer_state.splits bool.splits)
next
  fix k assume "take_command k w = Some w'"
  then show "log_step w w'"
    by (auto simp: log_step_def take_command_def split: option.splits consumer_state.splits list.splits if_splits)
next
  fix env k assume ok: "writer_ok w" and "run_command env k w = Some w'"
  then obtain i p s' r where run: "consumer_of w k = Some (Working i p)" "run_payload env p (wr_store w) = (s', r)"
    "w' = put_consumer k (Executed i r) (w\<lparr>wr_store := s', wr_log := wr_log w @ [(i, r)]\<rparr>)"
    by (auto simp: run_command_def run_on_store_def split: option.splits consumer_state.splits prod.splits)
  then have "submits w i p" using consumer_okD [OF ok] by fastforce
  then show "log_step w w'" using run by (auto simp: log_step_def)
next
  fix k assume "deliver_result k w = Some w'"
  then show "log_step w w'"
    by (auto simp: log_step_def deliver_result_def resolve_def split: option.splits consumer_state.splits)
qed

lemma orderly_step_log: "orderly_step w w' \<Longrightarrow> writer_ok w \<Longrightarrow> log_step w w'"
proof (erule orderly_step_cases)
  fix i assume "cancel_call i w = Some w'"
  then show "log_step w w'"
    by (auto simp: log_step_def cancel_call_def end_call_def cancel_consumer_def
        split: option.splits call_state.splits writer_call.splits if_splits consumer_state.splits)
qed (rule internal_step_log, assumption+, simp_all add: log_step_def call_keeps_calls)

lemma executed_later:
  "executed_as s0 w i r \<Longrightarrow> keeps_calls w w' \<Longrightarrow> store_step\<^sup>*\<^sup>* (wr_store w) (wr_store w') \<Longrightarrow> executed_as s0 w' i r"
  unfolding executed_as_def using keeps_submits rtranclp_trans by metis

lemma logged_executed:
  assumes "init_writer w0" "orderly_step\<^sup>*\<^sup>* w0 w"
  shows "store_step\<^sup>*\<^sup>* (wr_store w0) (wr_store w) \<and> (\<forall>(i, r) \<in> set (wr_log w). executed_as (wr_store w0) w i r)"
  using assms(2)
proof (induction rule: rtranclp_induct)
  case base
  then show ?case using assms(1) by (auto simp: init_writer_def new_writer_def)
next
  case (step w w')
  have ok: "writer_ok w" using writer_system.reachable_ok assms(1) step.hyps(1) by blast
  have store: "store_step\<^sup>*\<^sup>* (wr_store w) (wr_store w')"
    by (rule writer_step_store [OF orderly_writer_step [OF step.hyps(2)]])
  note log = orderly_step_log [OF step.hyps(2) ok, unfolded log_step_def]
  have old: "executed_as (wr_store w0) w' i r" if "(i, r) \<in> set (wr_log w)" for i r
    using step.IH that executed_later log store by fastforce
  have "executed_as (wr_store w0) w' i r" if new: "(i, r) \<in> set (wr_log w')" "(i, r) \<notin> set (wr_log w)" for i r
  proof -
    obtain env p where "submits w i p" "run_payload env p (wr_store w) = (wr_store w', r)"
      using log new by auto
    then show ?thesis
      unfolding executed_as_def using step.IH keeps_submits [of w w'] log by blast
  qed
  then show ?case using step.IH store old by (auto intro: rtranclp_trans)
qed

text \<open>C37: Used in an orderly way, the writer runs every accepted command once and in the order of
  acceptance.  Along orderly steps (no waiting shutdown is cancelled, no start enters while a
  shutdown waits, the event loop is not closed; other calls may be cancelled at any point)
  the commands that ran, the one at work and those in the queue are the accepted commands in their
  order; each result that was logged is the result of that command on a state of the
  store, which takes only steps of its own; and a call that returns a value returns the
  result of its own command, of the class it asked for.\<close>

theorem writer_runs_in_order:
  assumes "init_writer w0" and "orderly_step\<^sup>*\<^sup>* w0 w"
  shows "log_ids w @ working w @ queued_ids (wr_queue w) = wr_accepted w \<and> distinct (wr_accepted w)
    \<and> store_step\<^sup>*\<^sup>* (wr_store w0) (wr_store w) \<and> (\<forall>(i, r) \<in> set (wr_log w). executed_as (wr_store w0) w i r)
    \<and> (\<forall>i t v. task_of w i = Some t \<longrightarrow> wt_state t = Ended (Inr (Some v)) \<longrightarrow>
         (i, Inr v) \<in> set (wr_log w) \<and> (\<exists>p. wt_call t = Call_submit p \<and> checked_value p v = Inr v))"
proof -
  have ok: "writer_ok w" by (rule writer_system.reachable_ok [OF assms])
  have "(i, Inr v) \<in> set (wr_log w) \<and> (\<exists>p. wt_call t = Call_submit p \<and> checked_value p v = Inr v)"
    if "task_of w i = Some t" "wt_state t = Ended (Inr (Some v))" for i t v
    using task_okD(1) [OF ok that(1)] that(2) by simp
  note owns = this
  note order = writer_okD(5) [OF ok, unfolded order_ok_def]
  show ?thesis
  proof (intro conjI)
    show "log_ids w @ working w @ queued_ids (wr_queue w) = wr_accepted w" "distinct (wr_accepted w)"
      by (rule order [THEN conjunct1, symmetric], rule order [THEN conjunct2, THEN conjunct1])
    show "store_step\<^sup>*\<^sup>* (wr_store w0) (wr_store w)" "\<forall>(i, r) \<in> set (wr_log w). executed_as (wr_store w0) w i r"
      using logged_executed [OF assms] by simp_all
  qed (use owns in blast)
qed

section \<open>Shutdown\<close>

lemma dead_writer_drained:
  assumes ok: "writer_ok w" and dead: "\<not> live w"
  shows "wr_queue w = []" "\<not> wr_accepting w" "log_ids w = wr_accepted w"
proof -
  show q: "wr_queue w = []" and "\<not> wr_accepting w" using writer_okD(4) [OF ok] dead by (auto simp: writer_queue_ok_def)
  have "working w = []"
    using stopped_consumers [OF ok dead] by (auto simp: working_def split: option.splits consumer_state.splits)
  then show "log_ids w = wr_accepted w"
    using writer_okD(5) [OF ok] q unfolding order_ok_def by simp
qed

text \<open>C38: In orderly use a shutdown returns only when everything accepted has run.  As long as no
  waiting shutdown was cancelled, no start entered while one waited and the event loop was not
  closed, the moment a shutdown returns the queue is
  empty, the accepted commands are exactly those that ran, every accepted call that still
  waits has its result, and the writer accepts nothing.\<close>

theorem shutdown_drains:
  assumes "init_writer w0" and "orderly_step\<^sup>*\<^sup>* w0 w"
    and "task_of w j = Some t" and "wt_call t = Call_shutdown" and "resume_call j w = Some w'"
  shows "wr_queue w' = [] \<and> log_ids w' = wr_accepted w' \<and> \<not> wr_accepting w' \<and> wr_consumer w' = None
    \<and> (\<forall>i u. task_of w' i = Some u \<longrightarrow> wt_state u = Awaiting \<longrightarrow> i \<in> set (wr_accepted w') \<longrightarrow>
         (\<exists>r. wt_future u = Resolved r \<and> (i, r) \<in> set (wr_log w')))"
proof -
  have ok: "writer_ok w" by (rule writer_system.reachable_ok [OF assms(1,2)])
  have ok': "writer_ok w'" by (rule resume_call_ok [OF ok assms(5)])
  have shutdown: "wt_state t = Awaiting" "resume_shutdown j t w = Some w'"
    using assms(3-5) by (auto simp: resume_call_def split: if_splits)
  then have "consumer_of w (wt_consumer t) \<noteq> Some (Stopped True)" using consumer_okD [OF ok] by fastforce
  then have none: "wr_consumer w' = None"
    using shutdown(2) assms(3)
    by (auto simp: resume_shutdown_def end_call_def split: option.splits consumer_state.splits bool.splits)
  then have dead: "\<not> live w'" by (simp add: live_def)
  note drained = dead_writer_drained [OF ok' dead]
  have "\<exists>r. wt_future u = Resolved r \<and> (i, r) \<in> set (wr_log w')"
    if u: "task_of w' i = Some u" "wt_state u = Awaiting" "i \<in> set (wr_accepted w')" for i u
  proof -
    have "i \<in> set (log_ids w')" using u(3) drained(3) by simp
    moreover have "consumer_of w' k \<noteq> Some (Executed i r)" for k r
      using stopped_consumers [OF ok' dead, of k "Executed i r"] by auto
    ultimately have "wt_future u \<noteq> Pending" using task_okD(2) [OF ok' u(1)] by (auto simp: future_ok_def)
    moreover have "wt_future u \<noteq> Abandoned"
    proof (rule accepted_known [OF ok' u(3)])
      fix t p assume "task_of w' i = Some t" "wt_call t = Call_submit p"
      then show ?thesis using task_okD(1) [OF ok' u(1)] u(1,2) by simp
    qed
    ultimately show ?thesis using task_okD(2) [OF ok' u(1)] by (cases "wt_future u") (auto simp: future_ok_def)
  qed
  then show ?thesis using drained none by blast
qed

section \<open>Progress\<close>

definition task_work :: "writer_task \<Rightarrow> nat" where
  "task_work t = (case wt_state t of Entering \<Rightarrow> 9 | Putting \<Rightarrow> 8 | Awaiting \<Rightarrow> 1 | Ended r \<Rightarrow> 0)"

definition consumer_work :: "consumer_state \<Rightarrow> nat" where
  "consumer_work c = (case c of Working i p \<Rightarrow> 2 | Executed i r \<Rightarrow> 1 | _ \<Rightarrow> 0)"

definition work_left :: "writer_state \<Rightarrow> nat" where
  "work_left w = sum_list (map task_work (wr_tasks w)) + 3 * length (wr_queue w) + sum_list (map consumer_work (wr_consumers w))"

lemma sum_list_changed:
  fixes f :: "'a \<Rightarrow> nat"
  shows "i < length xs \<Longrightarrow> sum_list (map f (xs[i := x])) + f (xs ! i) = sum_list (map f xs) + f x"
  by (induction xs arbitrary: i) (auto split: nat.split simp: nth_Cons)

lemma work_put_task:
  assumes "task_of w i = Some t0"
  shows "work_left (put_task i t w) + task_work t0 = work_left w + task_work t"
  using assms sum_list_changed [of i "wr_tasks w" task_work t]
  by (auto simp: work_left_def task_of_def put_task_def split: if_splits)

lemma work_put_consumer:
  assumes "consumer_of w k = Some c0"
  shows "work_left (put_consumer k c w) + consumer_work c0 = work_left w + consumer_work c"
  using assms sum_list_changed [of k "wr_consumers w" consumer_work c]
  by (auto simp: work_left_def consumer_of_def put_consumer_def split: if_splits)

lemma work_of_fields [simp]:
  "work_left (w\<lparr>wr_store := s\<rparr>) = work_left w" "work_left (w\<lparr>wr_generation := g\<rparr>) = work_left w"
  "work_left (w\<lparr>wr_accepting := b\<rparr>) = work_left w" "work_left (w\<lparr>wr_consumer := ko\<rparr>) = work_left w"
  "work_left (w\<lparr>wr_lock := l\<rparr>) = work_left w" "work_left (w\<lparr>wr_accepted := a\<rparr>) = work_left w"
  "work_left (w\<lparr>wr_log := lg\<rparr>) = work_left w" "work_left (new_consumer w) = work_left w"
  by (simp_all add: work_left_def new_consumer_def consumer_work_def)

lemma work_queue: "work_left (w\<lparr>wr_queue := q\<rparr>) + 3 * length (wr_queue w) = work_left w + 3 * length q"
  by (simp add: work_left_def)

lemma work_states [simp]:
  "task_work (t\<lparr>wt_state := Awaiting\<rparr>) = 1" "task_work (t\<lparr>wt_state := Putting\<rparr>) = 8" "task_work (t\<lparr>wt_state := Ended r\<rparr>) = 0"
  "task_work (t\<lparr>wt_future := f\<rparr>) = task_work t"
  by (simp_all add: task_work_def)

lemma end_call_work:
  "task_of w i = Some t0 \<Longrightarrow> 0 < task_work t0 \<Longrightarrow> task_of v = task_of w \<Longrightarrow> work_left v = work_left w \<Longrightarrow>
   work_left (end_call i t r v) < work_left w"
  using work_put_task [of v i t0 "t\<lparr>wt_state := Ended r\<rparr>"] by (simp add: end_call_def)

lemma put_work:
  assumes "task_of w i = Some t0" "8 \<le> task_work t0"
  shows "work_left (put_command i t p w) < work_left w" "work_left (put_sentinel i t w) < work_left w"
proof -
  let ?v = "w\<lparr>wr_queue := wr_queue w @ [Some (i, p)], wr_accepted := wr_accepted w @ [i], wr_lock := None\<rparr>"
  let ?u = "w\<lparr>wr_queue := wr_queue w @ [None], wr_lock := None\<rparr>"
  show "work_left (put_command i t p w) < work_left w"
    using work_put_task [of ?v i t0 "t\<lparr>wt_state := Awaiting\<rparr>"] work_queue [of "wr_queue w @ [Some (i, p)]" w] assms
    by (simp add: put_command_def)
  show "work_left (put_sentinel i t w) < work_left w"
    using work_put_task [of ?u i t0 "t\<lparr>wt_state := Awaiting\<rparr>"] work_queue [of "wr_queue w @ [None]" w] assms
    by (simp add: put_sentinel_def)
qed

lemma hold_work: "task_of w i = Some t0 \<Longrightarrow> task_work t0 = 9 \<Longrightarrow> work_left (hold_lock i t w) < work_left w"
  using work_put_task [of "w\<lparr>wr_lock := Some i\<rparr>" i t0 "t\<lparr>wt_state := Putting\<rparr>"] by (simp add: hold_lock_def)

lemma resolve_work: "work_left (resolve i r w) = work_left w"
proof (cases "task_of w i")
  case (Some t)
  then show ?thesis using work_put_task [OF Some, of "t\<lparr>wt_future := Resolved r\<rparr>"] by (simp add: resolve_def)
qed (simp add: resolve_def)

lemma internal_step_work: "internal_step w w' \<Longrightarrow> work_left w' < work_left w"
proof (erule internal_step_cases)
  fix i assume "enter_call i w = Some w'"
  then obtain t where t: "task_of w i = Some t" "task_work t = 9"
    and w': "w' = (case wt_call t of Call_start \<Rightarrow> enter_start i t w | Call_submit p \<Rightarrow> enter_submit i t p w
      | Call_shutdown \<Rightarrow> enter_shutdown i t w)"
    by (auto simp: enter_call_def task_work_def split: option.splits if_splits)
  note less = end_call_work [OF t(1)] put_work [OF t(1)] hold_work [OF t]
  have wait: "work_left (put_task i (u\<lparr>wt_state := Awaiting\<rparr>) w) < work_left w" for u
    using work_put_task [OF t(1), of "u\<lparr>wt_state := Awaiting\<rparr>"] t(2) by simp
  have sentinel: "work_left (put_sentinel i u (w\<lparr>wr_accepting := False\<rparr>)) < work_left w"
    "work_left (hold_lock i u (w\<lparr>wr_accepting := False\<rparr>)) < work_left w" for u
    using put_work(2) [of "w\<lparr>wr_accepting := False\<rparr>" i t u] hold_work [of "w\<lparr>wr_accepting := False\<rparr>" i t u] t by simp_all
  show "work_left w' < work_left w"
    unfolding w' enter_start_def enter_submit_def enter_shutdown_def Let_def
    using t(2) less wait sentinel by (simp split: writer_call.split option.split)
next
  fix i assume "finish_put i w = Some w'"
  then obtain t where t: "task_of w i = Some t" "task_work t = 8"
    and w': "w' = (case wt_call t of Call_submit p \<Rightarrow> put_command i t p w | _ \<Rightarrow> put_sentinel i t w)"
    by (auto simp: finish_put_def task_work_def split: option.splits if_splits)
  then show "work_left w' < work_left w" using put_work [OF t(1)] by (simp split: writer_call.split)
next
  fix i assume "resume_call i w = Some w'"
  then show "work_left w' < work_left w"
    using end_call_work [of w i]
    by (auto simp: resume_call_def resume_submit_def resume_shutdown_def task_work_def
        split: option.splits writer_call.splits if_splits future_state.splits consumer_state.splits bool.splits)
next
  fix k assume "take_command k w = Some w'"
  then obtain g item rest where take: "consumer_of w k = Some (Getting g)" "wr_queue w = item # rest"
    "w' = put_consumer k (case item of None \<Rightarrow> Stopped False | Some (i, p) \<Rightarrow> Working i p) (w\<lparr>wr_queue := rest\<rparr>)"
    by (auto simp: take_command_def split: option.splits consumer_state.splits list.splits if_splits)
  have "consumer_work (case item of None \<Rightarrow> Stopped False | Some (i, p) \<Rightarrow> Working i p) \<le> 2"
    by (simp add: consumer_work_def split: option.split)
  then show "work_left w' < work_left w"
    using work_put_consumer [of "w\<lparr>wr_queue := rest\<rparr>" k "Getting g"] work_queue [of rest w] take
    by (simp add: consumer_work_def)
next
  fix env k assume "run_command env k w = Some w'"
  then obtain i p s' r where run: "consumer_of w k = Some (Working i p)"
    "w' = put_consumer k (Executed i r) (w\<lparr>wr_store := s', wr_log := wr_log w @ [(i, r)]\<rparr>)"
    by (auto simp: run_command_def run_on_store_def split: option.splits consumer_state.splits prod.splits)
  then show "work_left w' < work_left w"
    using work_put_consumer [of "w\<lparr>wr_store := s', wr_log := wr_log w @ [(i, r)]\<rparr>" k "Working i p" "Executed i r"]
    by (simp add: consumer_work_def)
next
  fix k assume "deliver_result k w = Some w'"
  then obtain i r where ran: "consumer_of w k = Some (Executed i r)" "w' = put_consumer k (Getting (wr_generation w)) (resolve i r w)"
    by (auto simp: deliver_result_def split: option.splits consumer_state.splits)
  have "consumer_of (resolve i r w) = consumer_of w" by (simp add: resolve_def split: option.split)
  with resolve_work [of i r w] show "work_left w' < work_left w"
    using work_put_consumer [of "resolve i r w" k "Executed i r" "Getting (wr_generation w)"] ran by (simp add: consumer_work_def)
qed

text \<open>A writer on which no step is possible has served everything.\<close>

lemma busy_consumer_steps:
  assumes "consumer_of w k = Some c" "case c of Working i p \<Rightarrow> True | Executed i r \<Rightarrow> True | _ \<Rightarrow> False"
  shows "\<exists>w'. internal_step w w'"
proof (cases c)
  case (Working i p)
  then have "run_command env k w \<noteq> None" for env
    using assms(1) by (simp add: run_command_def split: prod.splits)
  then show ?thesis by (blast intro: Run_command)
next
  case (Executed i r)
  then have "deliver_result k w \<noteq> None" using assms(1) by (simp add: deliver_result_def)
  then show ?thesis by (blast intro: Deliver_result)
qed (use assms(2) in simp_all)

lemma stuck_empty:
  assumes ok: "writer_ok w" and stuck: "\<nexists>w'. internal_step w w'"
  shows "wr_queue w = [] \<and> (\<forall>k c. consumer_of w k = Some c \<longrightarrow> (\<exists>g. c = Getting g) \<or> c = Stopped False)"
proof -
  have idle: "(\<exists>g. c = Getting g) \<or> c = Stopped False" if "consumer_of w k = Some c" for k c
    using busy_consumer_steps [OF that] stuck consumer_okD [OF ok that] by (cases c) auto
  have "wr_queue w = []"
  proof (rule ccontr)
    assume queue: "wr_queue w \<noteq> []"
    then have "live w" using writer_okD(4) [OF ok] by (auto simp: writer_queue_ok_def)
    then obtain k c where c: "consumer_of w k = Some c" "\<not> is_stopped c" by (auto simp: live_def)
    with idle obtain g where g: "c = Getting g" by fastforce
    have "g = wr_generation w" using consumer_okD [OF ok c(1)] g by simp
    then have "take_command k w \<noteq> None"
      using queue c(1) g by (cases "wr_queue w") (auto simp: take_command_def)
    then show False using stuck by (blast intro: Take_command)
  qed
  then show ?thesis using idle by blast
qed

lemma task_of_member: "u \<in> set (wr_tasks w) \<Longrightarrow> \<exists>i. task_of w i = Some u"
  by (metis in_set_conv_nth task_of_def)

lemma stuck_served:
  assumes ok: "writer_ok w" and stuck: "\<nexists>w'. internal_step w w'"
  shows "\<forall>i t. task_of w i = Some t \<longrightarrow> (\<exists>r. wt_state t = Ended r)" and "log_ids w = wr_accepted w"
proof -
  note empty = stuck_empty [OF ok stuck]
  have working: "working w = []"
    using empty by (fastforce simp: working_def split: option.splits consumer_state.splits)
  show logged: "log_ids w = wr_accepted w"
    using writer_okD(5) [OF ok] empty working unfolding order_ok_def by simp
  have not_putting: "wt_state t \<noteq> Putting" if "task_of w i = Some t" for i t
  proof
    assume "wt_state t = Putting"
    then have "finish_put i w \<noteq> None" using that empty by (auto simp: finish_put_def has_room_def)
    then show False using stuck by (blast intro: Finish_put)
  qed
  then have unlocked: "wr_lock w = None"
    using writer_okD(2) [OF ok] by (cases "wr_lock w") (auto simp: lock_ok_def)
  have no_resume: "resume_call i w = None" for i using stuck by (cases "resume_call i w") (auto intro: Resume_call)
  have not_awaiting: "wt_state t \<noteq> Awaiting" if t: "task_of w i = Some t" for i t
  proof
    assume awaiting: "wt_state t = Awaiting"
    note old = task_okD [OF ok t]
    show False
    proof (cases "wt_call t")
      case (Call_submit p)
      then have "i \<in> set (log_ids w)" "wt_future t \<noteq> Abandoned" using old(1) awaiting logged by simp_all
      moreover have "consumer_of w k \<noteq> Some (Executed i r)" for k r using empty by blast
      ultimately obtain r where "wt_future t = Resolved r" using old(2) by (cases "wt_future t") (auto simp: future_ok_def)
      then show False using no_resume [of i] t awaiting Call_submit by (simp add: resume_call_def resume_submit_def)
    next
      case Call_shutdown
      let ?k = "wt_consumer t"
      have joins: "joins w ?k" using old(1) awaiting Call_shutdown by simp
      have "consumer_of w ?k \<noteq> Some (Stopped False)"
        using no_resume [of i] t awaiting Call_shutdown by (auto simp: resume_call_def resume_shutdown_def)
      moreover have "wr_consumer w = Some ?k \<Longrightarrow> consumer_of w ?k \<noteq> None"
        using writer_okD(3) [OF ok] by (simp add: consumers_ok_def consumer_of_def)
      ultimately obtain g where "wr_consumer w = Some ?k" "consumer_of w ?k = Some (Getting g)"
        using joins empty by (auto simp: joins_def)
      then have "live w" by (auto simp: live_def)
      then show False
        using writer_okD(4) [OF ok] joins empty unlocked by (auto simp: writer_queue_ok_def joins_def shutdown_puts_def)
    qed (use old(1) awaiting in simp)
  qed
  show "\<forall>i t. task_of w i = Some t \<longrightarrow> (\<exists>r. wt_state t = Ended r)"
  proof (intro allI impI)
    fix i t assume t: "task_of w i = Some t"
    have "\<not> waiting_shutdown u" if member: "u \<in> set (wr_tasks w)" for u
    proof -
      obtain j where "task_of w j = Some u" using task_of_member [OF member] by blast
      then show ?thesis using not_putting not_awaiting by (auto simp: waiting_shutdown_def)
    qed
    then have "may_enter w i" by (simp add: may_enter_def)
    moreover have "wt_state t = Entering \<Longrightarrow> enter_call i w \<noteq> None" using t unlocked by (simp add: enter_call_def)
    ultimately have "wt_state t \<noteq> Entering" using stuck by (blast intro: Enter_call)
    then show "\<exists>r. wt_state t = Ended r" using not_putting [OF t] not_awaiting [OF t] by (cases "wt_state t") auto
  qed
qed

lemma finishes:
  "writer_ok w \<Longrightarrow> \<exists>w'. internal_step\<^sup>*\<^sup>* w w' \<and> writer_ok w' \<and> (\<nexists>w''. internal_step w' w'')"
proof (induction "work_left w" arbitrary: w rule: less_induct)
  case less
  show ?case
  proof (cases "\<exists>w1. internal_step w w1")
    case True
    then obtain w1 where w1: "internal_step w w1" by blast
    have "writer_ok w1" by (rule orderly_step_ok [OF Internal [OF w1] less.prems])
    from less.hyps [OF internal_step_work [OF w1] this] show ?thesis
      using w1 by (meson converse_rtranclp_into_rtranclp)
  qed (use less.prems in blast)
qed

text \<open>C39: In orderly use no call of the writer waits for ever.  In a state reached without
  cancelling a waiting shutdown, without a start that entered while one waited and with the event
  loop open, every step of calls and consumers that have begun (a start waits until no shutdown
  does) leaves less work, and where no such step is possible every call has ended and every
  accepted command has run; so the calls in any reachable state all end.\<close>

theorem writer_serves_every_call:
  assumes "init_writer w0" and "orderly_step\<^sup>*\<^sup>* w0 w"
  shows "(\<forall>w'. internal_step w w' \<longrightarrow> work_left w' < work_left w)
    \<and> (\<exists>w'. internal_step\<^sup>*\<^sup>* w w' \<and> (\<forall>i t. task_of w' i = Some t \<longrightarrow> (\<exists>r. wt_state t = Ended r)) \<and> log_ids w' = wr_accepted w')
    \<and> ((\<nexists>w'. internal_step w w') \<longrightarrow> (\<forall>i t. task_of w i = Some t \<longrightarrow> (\<exists>r. wt_state t = Ended r)))"
proof -
  have ok: "writer_ok w" by (rule writer_system.reachable_ok [OF assms])
  from finishes [OF this] obtain w' where w': "internal_step\<^sup>*\<^sup>* w w'" "writer_ok w'" "\<nexists>w''. internal_step w' w''" by blast
  show ?thesis using internal_step_work stuck_served [OF w'(2,3)] stuck_served(1) [OF ok] w'(1) by blast
qed

section \<open>A cancelled shutdown\<close>

text \<open>
  A writer that is not accepting, with a consumer at work and no sentinel on its way: nothing
  ends the consumer, and \<open>start\<close> leaves it alone because it is not done.
\<close>

definition wedge_task :: "nat \<Rightarrow> writer_task \<Rightarrow> bool" where
  "wedge_task k t = (wt_state t \<noteq> Putting
     \<and> (wt_state t = Awaiting \<longrightarrow> wt_call t \<noteq> Call_start \<and> (wt_call t = Call_shutdown \<longrightarrow> wt_consumer t = k)))"



lemma wedge_ended [simp]: "wedge_task k (t\<lparr>wt_state := Ended r\<rparr>)"
  by (simp add: wedge_task_def)








end
