(* ===== verification/Writer_Samples.thy ===== *)
theory Writer_Samples
  imports Writer_Properties Samples
begin

text \<open>Small runs of the writer on which its properties are applied.\<close>

definition demo_idle :: writer_state where
  "demo_idle = the (enter_call 0 (call_writer Call_start (new_writer demo_store 1)))"

text \<open>A command fills the queue.\<close>

definition demo_full :: writer_state where
  "demo_full = the (enter_call 1 (call_writer (Call_submit (Write_event demo_command)) demo_idle))"

definition demo_closing :: writer_state where
  "demo_closing = the (enter_call 2 (call_writer Call_shutdown demo_full))"

definition demo_cancelled :: writer_state where
  "demo_cancelled = the (cancel_call 2 demo_closing)"


text \<open>A shutdown of an idle writer.\<close>

definition demo_stopped :: writer_state where
  "demo_stopped = the (take_command 0 (the (enter_call 1 (call_writer Call_shutdown demo_idle))))"

lemmas writer_evaluation = new_writer_def call_writer_def enter_call_def task_of_def consumer_of_def enter_start_def
  enter_submit_def enter_shutdown_def end_call_def put_task_def put_consumer_def new_consumer_def put_command_def
  put_sentinel_def hold_lock_def has_room_def take_command_def cancel_call_def

definition demo_task :: "writer_call \<Rightarrow> call_state \<Rightarrow> writer_task" where
  "demo_task c st = \<lparr>wt_call = c, wt_state = st, wt_future = Pending, wt_consumer = 0\<rparr>"

lemma demo_idle_state:
  "demo_idle = \<lparr>wr_store = demo_store, wr_max = 1, wr_queue = [], wr_generation = 0, wr_accepting = True,
     wr_consumer = Some 0, wr_lock = None, wr_tasks = [demo_task Call_start (Ended (Inr None))],
     wr_consumers = [Getting 0], wr_threads = [], wr_accepted = [], wr_log = []\<rparr>"
  by (simp add: demo_idle_def demo_task_def writer_evaluation)

lemma demo_full_state:
  "demo_full = \<lparr>wr_store = demo_store, wr_max = 1, wr_queue = [Some (1, Write_event demo_command)], wr_generation = 0, wr_accepting = True,
     wr_consumer = Some 0, wr_lock = None, wr_tasks = [demo_task Call_start (Ended (Inr None)), demo_task (Call_submit (Write_event demo_command)) Awaiting],
     wr_consumers = [Getting 0], wr_threads = [], wr_accepted = [1], wr_log = []\<rparr>"
  by (simp add: demo_full_def demo_idle_state demo_task_def writer_evaluation)

lemma demo_closing_state:
  "demo_closing = \<lparr>wr_store = demo_store, wr_max = 1, wr_queue = [Some (1, Write_event demo_command)], wr_generation = 0, wr_accepting = False,
     wr_consumer = Some 0, wr_lock = Some 2, wr_tasks = [demo_task Call_start (Ended (Inr None)), demo_task (Call_submit (Write_event demo_command)) Awaiting,
       demo_task Call_shutdown Putting],
     wr_consumers = [Getting 0], wr_threads = [], wr_accepted = [1], wr_log = []\<rparr>"
  by (simp add: demo_closing_def demo_full_state demo_task_def writer_evaluation)

lemma demo_cancelled_state:
  "demo_cancelled = \<lparr>wr_store = demo_store, wr_max = 1, wr_queue = [Some (1, Write_event demo_command)], wr_generation = 0, wr_accepting = False,
     wr_consumer = Some 0, wr_lock = None, wr_tasks = [demo_task Call_start (Ended (Inr None)), demo_task (Call_submit (Write_event demo_command)) Awaiting,
       demo_task Call_shutdown (Ended (Inl CancelledError))],
     wr_consumers = [Getting 0], wr_threads = [], wr_accepted = [1], wr_log = []\<rparr>"
  by (simp add: demo_cancelled_def demo_closing_state demo_task_def writer_evaluation)

lemma demo_stopped_state:
  "demo_stopped = \<lparr>wr_store = demo_store, wr_max = 1, wr_queue = [], wr_generation = 0, wr_accepting = False,
     wr_consumer = Some 0, wr_lock = None, wr_tasks = [demo_task Call_start (Ended (Inr None)), demo_task Call_shutdown Awaiting],
     wr_consumers = [Stopped False], wr_threads = [], wr_accepted = [], wr_log = []\<rparr>"
  by (simp add: demo_stopped_def demo_idle_state demo_task_def writer_evaluation)

lemmas demo_writer_states = demo_idle_state demo_full_state demo_closing_state demo_cancelled_state demo_stopped_state

lemma enter_new_call:
  assumes "enter_call (length (wr_tasks w)) (call_writer c w) = Some w'"
    and "c \<noteq> Call_start \<or> list_all (\<lambda>t. \<not> waiting_shutdown t) (wr_tasks w)"
  shows "orderly_step\<^sup>*\<^sup>* w w'"
proof -
  have "may_enter (call_writer c w) (length (wr_tasks w))"
    using assms(2) by (auto simp: may_enter_def waiting_shutdown_def list_all_iff call_writer_def task_of_def nth_append)
  then have "orderly_step (call_writer c w) w'" using assms(1) by (blast intro: Internal Enter_call)
  then show ?thesis by (meson New_call converse_rtranclp_into_rtranclp r_into_rtranclp)
qed

definition demo_new :: writer_state where
  "demo_new = new_writer demo_store 1"

lemma demo_new_init: "init_writer demo_new"
  by (auto simp: init_writer_def demo_new_def)

lemma demo_idle_steps: "orderly_step\<^sup>*\<^sup>* demo_new demo_idle"
  by (rule enter_new_call [of _ Call_start]) (simp_all add: demo_new_def demo_idle_def writer_evaluation)

lemma demo_full_steps: "orderly_step\<^sup>*\<^sup>* demo_new demo_full"
  by (rule rtranclp_trans [OF demo_idle_steps], rule enter_new_call [of _ "Call_submit (Write_event demo_command)"])
     (simp_all add: demo_writer_states demo_task_def writer_evaluation)


lemma demo_stopped_steps: "orderly_step\<^sup>*\<^sup>* demo_new demo_stopped"
proof -
  let ?entered = "the (enter_call 1 (call_writer Call_shutdown demo_idle))"
  have "orderly_step\<^sup>*\<^sup>* demo_idle ?entered"
    by (rule enter_new_call [of _ Call_shutdown]) (simp_all add: demo_idle_state demo_task_def writer_evaluation)
  moreover have "take_command 0 ?entered = Some demo_stopped"
    by (simp add: demo_stopped_state demo_idle_state demo_task_def writer_evaluation)
  then have "orderly_step ?entered demo_stopped" by (blast intro: Internal Take_command)
  ultimately show ?thesis using demo_idle_steps by (meson rtranclp.rtrancl_into_rtrancl rtranclp_trans)
qed

theorem writer_runs_in_order_witness:
  "log_ids demo_full @ working demo_full @ queued_ids (wr_queue demo_full) = [1] \<and> store_step\<^sup>*\<^sup>* (wr_store demo_new) (wr_store demo_full)"
  using writer_runs_in_order [OF demo_new_init demo_full_steps] by (simp add: demo_full_state)

theorem shutdown_drains_witness:
  "\<exists>w'. resume_call 1 demo_stopped = Some w' \<and> wr_queue w' = [] \<and> log_ids w' = wr_accepted w' \<and> \<not> wr_accepting w'"
proof -
  obtain w' where w': "resume_call 1 demo_stopped = Some w'"
    by (simp add: demo_stopped_state demo_task_def resume_call_def resume_shutdown_def writer_evaluation)
  have "task_of demo_stopped 1 = Some (demo_task Call_shutdown Awaiting)" by (simp add: demo_stopped_state task_of_def)
  from shutdown_drains [OF demo_new_init demo_stopped_steps this _ w'] show ?thesis
    using w' by (simp add: demo_task_def)
qed

theorem writer_serves_every_call_witness:
  "\<exists>w'. internal_step\<^sup>*\<^sup>* demo_full w' \<and> log_ids w' = wr_accepted w'"
  using writer_serves_every_call [OF demo_new_init demo_full_steps] by blast




section \<open>A start before a shutdown returns\<close>

text \<open>
  The consumer has taken the sentinel, a start creates another consumer, and the shutdown
  then forgets it: the next start creates a third one on the same queue, and commands of
  one writer can run at the same time.
\<close>

definition demo_early :: writer_state where
  "demo_early = the (resume_call 1 (the (enter_call 2 (call_writer Call_start demo_stopped))))"

definition demo_twins :: writer_state where
  "demo_twins = the (enter_call 3 (call_writer Call_start demo_early))"

lemma early_restart_two_consumers:
  "writer_step\<^sup>*\<^sup>* demo_new demo_twins \<and> consumer_of demo_twins 1 = Some (Getting (wr_generation demo_twins))
    \<and> consumer_of demo_twins 2 = Some (Getting (wr_generation demo_twins)) \<and> wr_accepting demo_twins"
proof -
  let ?w1 = "call_writer Call_start demo_stopped"
  let ?w2 = "the (enter_call 2 ?w1)"
  let ?w3 = "call_writer Call_start demo_early"
  have steps: "enter_call 2 ?w1 = Some ?w2" "resume_call 1 ?w2 = Some demo_early" "enter_call 3 ?w3 = Some demo_twins"
    by (simp_all add: demo_twins_def demo_early_def demo_stopped_state demo_task_def resume_call_def resume_shutdown_def writer_evaluation)
  have "writer_step\<^sup>*\<^sup>* demo_new demo_stopped"
    using demo_stopped_steps by (induction rule: rtranclp_induct) (auto intro: orderly_writer_step rtranclp.rtrancl_into_rtrancl)
  then have "writer_step\<^sup>*\<^sup>* demo_new demo_twins"
    by (meson Call Enter Resume rtranclp.rtrancl_into_rtrancl steps)
  moreover have "consumer_of demo_twins 1 = Some (Getting (wr_generation demo_twins))
    \<and> consumer_of demo_twins 2 = Some (Getting (wr_generation demo_twins)) \<and> wr_accepting demo_twins"
    by (simp add: demo_twins_def demo_early_def demo_stopped_state demo_task_def resume_call_def resume_shutdown_def writer_evaluation)
  ultimately show ?thesis by blast
qed

end
