(* ===== verification/Spec2Isabelle.thy ===== *)
theory Spec2Isabelle
  imports Store_Safety Store_Closing Recovery_Acceptance Recovery_Limits Event_Stream Frozen_Properties
    Human_Transitions Signal_Properties Coordination_Samples Rca_Properties Token_Requests Writer_Samples
begin

text \<open>
  DiagOps investigates incidents: providers collect evidence, agents and rules turn it into
  hypotheses and findings, a coordinator reviews them, and a runtime executes the phases of
  a run durably.  This development models the runtime kernel and the deterministic part of
  the diagnosis, all of it under \<open>src/backend/\<close>.  A Python operation is a HOL function with
  the state passed explicitly; an exception is the left value of a sum, and an operation on
  a state returns the state an exception leaves behind beside its result.

  \<^bold>\<open>Foundations.\<close>
  \<^item> \<open>Prelude\<close>: exceptions as values (\<open>raise_first\<close>, \<open>and_then\<close>, \<open>check_all\<close>), dictionaries as
    insertion-ordered association lists, \<open>dedupe\<close>, stable descending sort, operations that
    may raise after having written (\<open>then_op\<close>).  \<open>Python_Values\<close>: the dynamically typed
    values of payloads with Python's \<open>==\<close> and truth; text on ASCII.  \<open>Canonical_Json\<close>: the
    rendering the digests are taken of.  \<open>Float_Arithmetic\<close>: IEEE double arithmetic, rounding
    to nearest even on rationals; a linear order on floats as a class instance.
    \<open>Payload_Access\<close>: \<open>payload.get\<close> idioms.  \<open>Queues\<close>: \<open>setdefault(key, []).append\<close> and the
    merge of several queues by their heads.
  \<^item> \<open>Transition_Systems\<close>: the locales of a state machine with an invariant, with a preorder
    its steps climb, and of a system whose steps are runs of a more abstract one.

  \<^bold>\<open>Data.\<close>  \<open>Domain_Enums\<close>, \<open>Runtime_Domain\<close>, \<open>Event_Payload\<close>, \<open>Execution_Contract\<close>
  (\<open>domain/multi_agent.py\<close>, \<open>domain/runtime.py\<close>), \<open>Agent_Models\<close> (\<open>domain/agent_plan.py\<close>),
  \<open>Finding_Models\<close> (\<open>domain/agent_findings.py\<close>), \<open>Investigation_Models\<close> (events, evidence, tool
  calls, reports, provider results), \<open>Phases\<close> (\<open>runtime/phases.py\<close>), \<open>Redaction\<close>
  (\<open>safety/redaction.py\<close>, with a backtracking matcher for its patterns), \<open>Human_Transitions\<close>
  (\<open>domain/human_transitions.py\<close>): every record with its fields and every validator with its
  checks in their order.

  \<^bold>\<open>Persistence and the runtime store.\<close>
  \<^item> \<open>Repository\<close> is \<open>InMemoryInvestigationRepository\<close> (\<open>db/repositories.py\<close>);
    \<open>Frozen_Projection\<close> freezes and seals the business view of a run (\<open>runtime/diff.py\<close>).
  \<^item> \<open>Runtime_Store\<close> and \<open>Runtime_Commits\<close> are \<open>InMemoryRuntimeStore\<close> (\<open>runtime/store.py\<close>):
    runs, attempts, leases and fences, transitions, journal, terminal commits, tool, turn
    and phase commits with their rollback, and the audit of expired leases.  The lock of the
    source makes each operation one step (\<open>store_step\<close> in \<open>Store_Machine\<close>).
  \<^item> \<open>Store_Effects\<close> is the abstract specification: elementary writes (\<open>effect\<close>) on a well-formed
    store.  \<open>Store_Refinement\<close> and \<open>Commit_Refinement\<close> show every operation to be a run of
    them; \<open>Store_Evolution\<close> is the order they climb.  The properties of \<open>Store_Properties\<close>,
    \<open>Store_Safety\<close>, \<open>Store_Failures\<close>, \<open>Store_Behaviour\<close> and \<open>Store_Closing\<close> follow.
  \<^item> \<open>Recovery\<close> is the recovery of an interrupted run by \<open>RuntimeCoordinator\<close>
    (\<open>runtime/coordinator.py\<close>): the validation of its latest checkpoint (place in the journal,
    digests, references, authorized tool results), the budgets that are left, the position to go
    on at, and \<open>execute\<close> and \<open>resume\<close> up to the new attempt.  \<open>Recovery_Properties\<close> shows where a
    resumed run goes on, \<open>Recovery_Acceptance\<close> that what \<open>commit_phase\<close> writes is accepted
    again after a crash, \<open>Recovery_Limits\<close> that usage after the 500th event of a journal is not
    counted; \<open>Recovery_Samples\<close> is a run that crashes and resumes.
  \<^item> \<open>Runtime_Writer\<close> is \<open>RuntimeWriter\<close> (\<open>runtime/writer.py\<close>): calls, the state lock, the bounded
    queue, the consumer, futures and cancellation as a step relation (\<open>writer_step\<close>) over
    the store.  \<open>Writer_Invariant\<close> and \<open>Writer_Properties\<close> are about its orderly use:
    \<open>orderly_step\<close> is a restriction of the environment, not code.  It leaves out three things
    the code allows: cancelling a shutdown that waits, a start that enters while a shutdown
    waits, and closing the event loop.  Under it they show order, draining and progress, and
    what one cancelled shutdown leaves behind.  \<open>Writer_Samples\<close> holds small runs and one with
    an early start, which two consumers come from.
  \<^item> \<open>Event_Hub\<close> and \<open>Event_Stream\<close> (\<open>runtime/event_hub.py\<close>): bounded subscriptions and the
    stream that catches up from the store; the store is used through the locale
    \<open>durable_journal\<close>.

  \<^bold>\<open>Diagnosis.\<close>  \<open>Signal_Semantics\<close> (\<open>diagnosis/signal_semantics.py\<close>), \<open>Rca_Analyzer\<close>
  (\<open>rca/analyzer.py\<close>, \<open>rca/scoring.py\<close>), \<open>Evidence_Validation\<close>
  (\<open>diagnosis/evidence_validation.py\<close>), \<open>Coordination_Review\<close> and \<open>Root_Cause_Attribution\<close>
  (\<open>diagnosis/coordination_review.py\<close>), with their properties in \<open>Signal_Properties\<close>,
  \<open>Rca_Properties\<close> and \<open>Coordination_Properties\<close>.

  \<^bold>\<open>Token budget\<close> of \<open>diagnosis/v11_runtime.py\<close>.  \<open>Token_Estimates\<close>: estimates, calibration and
  the usage accumulator.  \<open>Token_Ledger\<close>: the state, model events and the history that gives
  a request its identifier.  \<open>Token_Reservations\<close>: \<open>_reserve_model_budget_once\<close> with the
  closing of an investigation and the deferral of later retries, and the loop of
  \<open>_reserve_model_budget\<close> that waits for the settlement of other requests; its rounds say what
  the others do and what ends the wait.  \<open>Token_Settlement\<close>: \<open>_settle_model_budget\<close> and
  \<open>get_response\<close>, with the changes other requests make while the model answers.  \<open>Token_Moves\<close> is the abstract ledger with its
  conservation law, \<open>Token_Conservation\<close> shows every reservation and settlement to be a run of
  its moves, and \<open>Token_Requests\<close> follows one request among others to its settlement.  The search for a
  replay identifier (\<open>next_replay\<close>, \<open>Token_Identifiers\<close>) has no bound in the source; it is a
  partial function, and it is shown to return.  JSON functions and the callbacks that
  persist an event or count a model turn are fields of \<open>token_config\<close>.

  \<^bold>\<open>Parameters.\<close>  Hashing (SHA-256), the decimal form of floats, the JSON form of pydantic
  models, new identifiers, the current time, the iteration order of sets, injected faults
  and failpoints, and the text of payload values are arguments of the definitions.

  \<^bold>\<open>Bounds.\<close>  Loops are structural, or have a measure (\<open>round_robin\<close>, \<open>merge_queues\<close>), or are
  step relations, with two exceptions.  \<open>catch_up\<close>, the first part of \<open>EventHub.stream\<close> read off
  as one function, takes a number of pages as fuel and a store that does not change meanwhile;
  \<open>Event_Stream\<close> gives a number that is enough, and \<open>stream_step\<close> is the same loop over
  a store that changes.  \<open>reserve_model_budget\<close> takes the list of its rounds and gives \<open>None\<close> when
  it still waits after them.  Strings hold code points below 256
  and are inspected on ASCII only; finite floats are exact rationals that are rounded after
  each operation.

  \<^bold>\<open>Not modelled.\<close>  SQL persistence (the statements are run by a database), the
  calls to model and agent SDKs with their prompts and the phases of the V11 runtime around them,
  the phase loop, the heartbeat and the model reservation cleanup of the coordinator, telemetry,
  the HTTP API, provider access to files and services, report text, and the acceptance harnesses.
\<close>

end
